(* ===== verification/Prelude.thy ===== *)
theory Prelude
  imports Main "HOL-Library.Word" "HOL-Library.AList" "HOL-Library.Multiset"
    "HOL-Library.Monad_Syntax"
begin

text \<open>
  Shared vocabulary of the development: the machine integers of the source, the arithmetic
  of the Rust standard library (saturating operations, and plain operations whose overflow
  panics in a debug build and wraps in a release build), hash maps, and the string functions
  the source uses. Every component theory imports this one.

  A panic is the value \<^const>\<open>None\<close> of an option. A \<open>HashMap\<close> is a list of key-value
  pairs with distinct keys; the order of the list is the iteration order, which the standard
  library leaves open, so a statement about every list covers every order. A \<open>String\<close> is
  the list of its bytes; white space is the ASCII white space.
\<close>

named_theorems arith_sat \<open>unsigned readings of the saturating operations\<close>
named_theorems hm \<open>equations and membership facts of hash maps\<close>
named_theorems str \<open>equations of the string functions\<close>

type_synonym u8 = "8 word"
type_synonym u16 = "16 word"
type_synonym u32 = "32 word"
type_synonym u64 = "64 word"
type_synonym usize = "64 word"
type_synonym bytes = "u8 list"

text \<open>Points of the monotonic clock and of the system clock.\<close>

type_synonym instant = nat
type_synonym system_time = nat

section \<open>Machine arithmetic\<close>

datatype profile = Debug | Release

definition saturating_sub :: "'a::len word \<Rightarrow> 'a word \<Rightarrow> 'a word" where
  "saturating_sub a b = (if b \<le> a then a - b else 0)"

definition saturating_add :: "'a::len word \<Rightarrow> 'a word \<Rightarrow> 'a word" where
  "saturating_add a b = (if unat a + unat b < 2 ^ LENGTH('a) then a + b else - 1)"

definition saturating_mul :: "'a::len word \<Rightarrow> 'a word \<Rightarrow> 'a word" where
  "saturating_mul a b = (if unat a * unat b < 2 ^ LENGTH('a) then a * b else - 1)"

text \<open>The operators \<open>+\<close> and \<open>*\<close> of the source, with the overflow check of the profile.\<close>

definition add_u :: "profile \<Rightarrow> 'a::len word \<Rightarrow> 'a word \<Rightarrow> 'a word option" where
  "add_u prof a b =
     (if unat a + unat b < 2 ^ LENGTH('a) \<or> prof = Release then Some (a + b) else None)"

definition mul_u :: "profile \<Rightarrow> 'a::len word \<Rightarrow> 'a word \<Rightarrow> 'a word option" where
  "mul_u prof a b =
     (if unat a * unat b < 2 ^ LENGTH('a) \<or> prof = Release then Some (a * b) else None)"

lemma unat_minus_1 [simp]: "unat (- 1 :: 'a::len word) = 2 ^ LENGTH('a) - 1"
  by (simp add: unsigned_minus_1_eq_mask mask_eq_exp_minus_1)

lemma unat_saturating_sub [arith_sat]: "unat (saturating_sub a b) = unat a - unat b"
  by (auto simp: saturating_sub_def unat_sub word_le_nat_alt)

lemma unat_saturating_add [arith_sat]:
  "unat (saturating_add a (b :: 'a::len word)) = min (2 ^ LENGTH('a) - 1) (unat a + unat b)"
  by (auto simp: saturating_add_def unat_word_ariths)

lemma unat_saturating_mul [arith_sat]:
  "unat (saturating_mul a (b :: 'a::len word)) = min (2 ^ LENGTH('a) - 1) (unat a * unat b)"
  by (auto simp: saturating_mul_def unat_word_ariths)

lemma unat_le_max: "unat (a :: 'a::len word) \<le> 2 ^ LENGTH('a) - 1"
proof -
  have "unat a < 2 ^ LENGTH('a)" by (rule unsigned_less)
  then show ?thesis by linarith
qed

lemma unat_ucast_u32_u64 [simp]: "unat (ucast (x :: u32) :: u64) = unat x"
proof -
  have "unat x < 2 ^ 32" using unsigned_less [of x, where 'a = nat] by simp
  then show ?thesis by (simp add: unsigned_ucast_eq take_bit_eq_mod)
qed

lemma mul_u_SomeD:
  "mul_u prof a (b :: 'a::len word) = Some c \<Longrightarrow> unat a * unat b < 2 ^ LENGTH('a)
     \<Longrightarrow> unat c = unat a * unat b"
  by (auto simp: mul_u_def unat_word_ariths split: if_splits)

lemma mul_u_small:
  "unat a * unat (b :: 'a::len word) < 2 ^ LENGTH('a) \<Longrightarrow> mul_u prof a b = Some (a * b)"
  by (simp add: mul_u_def)

lemma add_u_small:
  "unat a + unat (b :: 'a::len word) < 2 ^ LENGTH('a) \<Longrightarrow> add_u prof a b = Some (a + b)"
  by (simp add: add_u_def)

text \<open>Folding a saturating addition over a list saturates once, at the end.\<close>

lemma unat_fold_saturating_add:
  fixes a :: "'a::len word"
  shows "unat (fold (\<lambda>x acc. saturating_add acc (f x)) xs a)
     = min (2 ^ LENGTH('a) - 1) (unat a + sum_list (map (\<lambda>x. unat (f x)) xs))"
proof (induction xs arbitrary: a)
  case Nil
  show ?case using unat_le_max [of a] by simp
next
  case (Cons x xs)
  have "(1::nat) \<le> 2 ^ LENGTH('a)" by simp
  then show ?case
    by (simp add: Cons.IH arith_sat min_def) linarith
qed

section \<open>Hash maps\<close>

type_synonym ('k, 'v) hmap = "('k \<times> 'v) list"

definition hm_empty :: "('k, 'v) hmap" where
  "hm_empty = []"

definition hm_get :: "('k, 'v) hmap \<Rightarrow> 'k \<Rightarrow> 'v option" where
  "hm_get m k = map_of m k"

definition hm_insert :: "'k \<Rightarrow> 'v \<Rightarrow> ('k, 'v) hmap \<Rightarrow> ('k, 'v) hmap" where
  "hm_insert k v m = AList.update k v m"

definition hm_remove :: "'k \<Rightarrow> ('k, 'v) hmap \<Rightarrow> ('k, 'v) hmap" where
  "hm_remove k m = AList.delete k m"

definition hm_retain :: "('k \<Rightarrow> 'v \<Rightarrow> bool) \<Rightarrow> ('k, 'v) hmap \<Rightarrow> ('k, 'v) hmap" where
  "hm_retain P m = filter (\<lambda>(k, v). P k v) m"

definition hm_contains_key :: "('k, 'v) hmap \<Rightarrow> 'k \<Rightarrow> bool" where
  "hm_contains_key m k = (hm_get m k \<noteq> None)"

definition hm_keys :: "('k, 'v) hmap \<Rightarrow> 'k list" where
  "hm_keys m = map fst m"

definition hm_values :: "('k, 'v) hmap \<Rightarrow> 'v list" where
  "hm_values m = map snd m"

definition hm_wf :: "('k, 'v) hmap \<Rightarrow> bool" where
  "hm_wf m = distinct (map fst m)"

lemma hm_get_empty [simp, hm]: "hm_get hm_empty k = None"
  by (simp add: hm_get_def hm_empty_def)

lemma hm_get_insert [simp, hm]:
  "hm_get (hm_insert k v m) k' = (if k' = k then Some v else hm_get m k')"
  by (simp add: hm_get_def hm_insert_def update_conv)

lemma hm_get_remove [simp, hm]:
  "hm_get (hm_remove k m) k' = (if k' = k then None else hm_get m k')"
  by (simp add: hm_get_def hm_remove_def delete_conv)

lemma hm_wf_empty [simp, intro]: "hm_wf hm_empty"
  by (simp add: hm_wf_def hm_empty_def)

lemma hm_wf_insert [simp, intro]: "hm_wf m \<Longrightarrow> hm_wf (hm_insert k v m)"
  by (simp add: hm_wf_def hm_insert_def distinct_update)

lemma hm_wf_remove [simp, intro]: "hm_wf m \<Longrightarrow> hm_wf (hm_remove k m)"
  by (simp add: hm_wf_def hm_remove_def distinct_delete)

lemma hm_wf_retain [simp, intro]: "hm_wf m \<Longrightarrow> hm_wf (hm_retain P m)"
  by (simp add: hm_wf_def hm_retain_def distinct_map_filter)

lemma hm_get_SomeD: "hm_get m k = Some v \<Longrightarrow> (k, v) \<in> set m"
  by (simp add: hm_get_def map_of_SomeD)

lemma hm_mem_get: "hm_wf m \<Longrightarrow> (k, v) \<in> set m \<Longrightarrow> hm_get m k = Some v"
  by (simp add: hm_get_def hm_wf_def)

lemma hm_mem_iff: "hm_wf m \<Longrightarrow> (k, v) \<in> set m \<longleftrightarrow> hm_get m k = Some v"
  by (auto intro: hm_mem_get dest: hm_get_SomeD)

lemma set_hm_values: "hm_wf m \<Longrightarrow> v \<in> set (hm_values m) \<longleftrightarrow> (\<exists>k. hm_get m k = Some v)"
  by (force simp: hm_values_def hm_mem_iff [symmetric])

lemma ex_hm_values: "hm_wf m \<Longrightarrow> (\<exists>v \<in> set (hm_values m). P v) \<longleftrightarrow> (\<exists>k v. hm_get m k = Some v \<and> P v)"
  using set_hm_values [of m] by blast

lemma all_hm_values: "hm_wf m \<Longrightarrow> (\<forall>v \<in> set (hm_values m). P v) \<longleftrightarrow> (\<forall>k v. hm_get m k = Some v \<longrightarrow> P v)"
  using set_hm_values [of m] by blast

lemma hm_get_None_iff: "hm_get m k = None \<longleftrightarrow> k \<notin> fst ` set m"
  by (simp add: hm_get_def map_of_eq_None_iff)

lemma hm_get_retain [hm]:
  assumes "hm_wf m"
  shows "hm_get (hm_retain P m) k =
    (case hm_get m k of None \<Rightarrow> None | Some v \<Rightarrow> if P k v then Some v else None)"
proof -
  have ret: "hm_wf (hm_retain P m)" using assms by simp
  show ?thesis
  proof (cases "hm_get m k")
    case None
    then have "hm_get (hm_retain P m) k = None"
      by (auto simp: hm_get_None_iff hm_retain_def)
    with None show ?thesis by simp
  next
    case (Some v)
    show ?thesis
    proof (cases "P k v")
      case True
      then have "(k, v) \<in> set (hm_retain P m)"
        using hm_get_SomeD [OF Some] by (simp add: hm_retain_def)
      then show ?thesis using ret Some True by (simp add: hm_mem_get)
    next
      case False
      have "(k, w) \<notin> set (hm_retain P m)" for w
        using False Some hm_mem_get [OF assms] by (auto simp: hm_retain_def)
      then have "hm_get (hm_retain P m) k = None"
        by (force simp: hm_get_None_iff)
      with Some False show ?thesis by simp
    qed
  qed
qed

lemma hm_insert_fresh: "hm_get m k = None \<Longrightarrow> hm_insert k v m = m @ [(k, v)]"
  unfolding hm_get_None_iff hm_insert_def by (induction m) auto

lemma map_values_insert_same:
  "hm_get m k = Some w \<Longrightarrow> f v = f w \<Longrightarrow> map f (hm_values (hm_insert k v m)) = map f (hm_values m)"
  unfolding hm_get_def hm_insert_def hm_values_def by (induction m) (auto split: if_splits)

lemma sum_values_insert_fresh:
  "hm_get m k = None \<Longrightarrow>
     sum_list (map f (hm_values (hm_insert k v m))) = sum_list (map f (hm_values m)) + f v"
  by (simp add: hm_insert_fresh hm_values_def)

lemma sum_values_retain_le:
  "sum_list (map f (hm_values (hm_retain P m))) \<le> (sum_list (map f (hm_values m)) :: nat)"
  unfolding hm_values_def hm_retain_def by (induction m) auto

lemma set_hm_retain [hm]: "set (hm_retain P m) = {(k, v) \<in> set m. P k v}"
  by (auto simp: hm_retain_def)


lemma hm_keys_retain_subset: "set (hm_keys (hm_retain P m)) \<subseteq> set (hm_keys m)"
  by (auto simp: hm_keys_def hm_retain_def)

lemma set_hm_keys: "k \<in> set (hm_keys m) \<longleftrightarrow> hm_get m k \<noteq> None"
  by (auto simp: hm_keys_def hm_get_None_iff)

lemma length_hm_insert_present: "hm_get m k = Some w \<Longrightarrow> length (hm_insert k v m) = length m"
  unfolding hm_get_def hm_insert_def by (induction m) (auto split: if_splits)

lemma length_hm_remove_le: "length (hm_remove k m) \<le> length m"
  by (simp add: hm_remove_def length_delete_le)

lemma length_hm_retain_le: "length (hm_retain P m) \<le> length m"
  by (simp add: hm_retain_def)

lemma hm_insert_mem:
  "(k', v') \<in> set (hm_insert k v m) \<Longrightarrow> (k', v') = (k, v) \<or> (k', v') \<in> set m"
  unfolding hm_insert_def by (induction m) (auto split: if_splits)

lemma hm_retain_True_id: "(\<And>k v. (k, v) \<in> set m \<Longrightarrow> P k v) \<Longrightarrow> hm_retain P m = m"
  by (auto simp: hm_retain_def filter_id_conv)

lemma hm_retain_retain: "hm_retain P (hm_retain Q m) = hm_retain (\<lambda>k v. Q k v \<and> P k v) m"
  by (auto simp: hm_retain_def intro!: filter_cong)

text \<open>
  The contract of a map: what a lookup returns after each operation. The components reason
  about their maps through the facts of the interpretation \<open>hmi\<close>.
\<close>

locale map_contract =
  fixes empty :: 'm
    and get :: "'m \<Rightarrow> 'k \<Rightarrow> 'v option"
    and ins :: "'k \<Rightarrow> 'v \<Rightarrow> 'm \<Rightarrow> 'm"
    and rem :: "'k \<Rightarrow> 'm \<Rightarrow> 'm"
    and retain :: "('k \<Rightarrow> 'v \<Rightarrow> bool) \<Rightarrow> 'm \<Rightarrow> 'm"
    and wf :: "'m \<Rightarrow> bool"
  assumes get_empty: "get empty k = None"
    and get_ins: "get (ins k v m) k' = (if k' = k then Some v else get m k')"
    and get_rem: "get (rem k m) k' = (if k' = k then None else get m k')"
    and get_retain: "wf m \<Longrightarrow>
      get (retain P m) k = (case get m k of None \<Rightarrow> None | Some v \<Rightarrow> if P k v then Some v else None)"
    and wf_empty: "wf empty"
    and wf_ins: "wf m \<Longrightarrow> wf (ins k v m)"
    and wf_rem: "wf m \<Longrightarrow> wf (rem k m)"
    and wf_retain: "wf m \<Longrightarrow> wf (retain P m)"
begin

lemma get_retain_Some: "wf m \<Longrightarrow> get (retain P m) k = Some v \<longleftrightarrow> get m k = Some v \<and> P k v"
  by (simp add: get_retain split: option.splits) blast

lemma get_retain_None:
  "wf m \<Longrightarrow> get (retain P m) k = None \<longleftrightarrow> (\<forall>v. get m k = Some v \<longrightarrow> \<not> P k v)"
  by (simp add: get_retain split: option.splits)

lemma get_ins_after_retain:
  "wf m \<Longrightarrow> get (ins k v (retain P m)) k' = Some w \<longleftrightarrow>
     (if k' = k then w = v else get m k' = Some w \<and> P k' w)"
  by (auto simp: get_ins get_retain_Some)

text \<open>An invariant on the bindings is kept by every operation that adds only good ones.\<close>

definition all_bindings :: "('k \<Rightarrow> 'v \<Rightarrow> bool) \<Rightarrow> 'm \<Rightarrow> bool" where
  "all_bindings Q m \<longleftrightarrow> (\<forall>k v. get m k = Some v \<longrightarrow> Q k v)"

lemma all_bindings_empty: "all_bindings Q empty"
  by (simp add: all_bindings_def get_empty)

lemma all_bindings_ins: "all_bindings Q m \<Longrightarrow> Q k v \<Longrightarrow> all_bindings Q (ins k v m)"
  by (simp add: all_bindings_def get_ins)

lemma all_bindings_rem: "all_bindings Q m \<Longrightarrow> all_bindings Q (rem k m)"
  by (simp add: all_bindings_def get_rem)

lemma all_bindings_retain: "wf m \<Longrightarrow> all_bindings Q m \<Longrightarrow> all_bindings Q (retain P m)"
  by (simp add: all_bindings_def get_retain_Some)

end

interpretation hmi: map_contract hm_empty hm_get hm_insert hm_remove hm_retain hm_wf
  by unfold_locales (simp_all add: hm_get_retain)

section \<open>Strings\<close>

fun split_by :: "('a \<Rightarrow> bool) \<Rightarrow> 'a list \<Rightarrow> 'a list list" where
  "split_by P [] = [[]]"
| "split_by P (x # xs) =
     (if P x then [] # split_by P xs
      else case split_by P xs of [] \<Rightarrow> [[x]] | p # ps \<Rightarrow> (x # p) # ps)"

text \<open>\<open>str::split\<close> on a character.\<close>

definition split_char :: "char \<Rightarrow> string \<Rightarrow> string list" where
  "split_char c s = split_by (\<lambda>x. x = c) s"

definition is_whitespace :: "char \<Rightarrow> bool" where
  "is_whitespace c = (c \<in> {CHR '' '', CHR 0x09, CHR 0x0A, CHR 0x0B, CHR 0x0C, CHR 0x0D})"

definition split_whitespace :: "string \<Rightarrow> string list" where
  "split_whitespace s = filter (\<lambda>p. p \<noteq> []) (split_by is_whitespace s)"

definition trim :: "string \<Rightarrow> string" where
  "trim s = rev (dropWhile is_whitespace (rev (dropWhile is_whitespace s)))"

definition strip_cr :: "string \<Rightarrow> string" where
  "strip_cr l = (if l \<noteq> [] \<and> last l = CHR 0x0D then butlast l else l)"

text \<open>\<open>str::lines\<close>: the terminator is the line feed, a carriage return before it goes too.\<close>

definition lines :: "string \<Rightarrow> string list" where
  "lines s = (let ps = split_char (CHR 0x0A) s in
     map strip_cr (butlast ps) @ (if last ps = [] then [] else [last ps]))"

definition starts_with :: "'a list \<Rightarrow> 'a list \<Rightarrow> bool" where
  "starts_with s p = (take (length p) s = p)"

definition ends_with :: "'a list \<Rightarrow> 'a list \<Rightarrow> bool" where
  "ends_with s p = starts_with (rev s) (rev p)"

definition strip_prefix :: "'a list \<Rightarrow> 'a list \<Rightarrow> 'a list option" where
  "strip_prefix s p = (if starts_with s p then Some (drop (length p) s) else None)"

definition strip_suffix :: "'a list \<Rightarrow> 'a list \<Rightarrow> 'a list option" where
  "strip_suffix s p = (if ends_with s p then Some (take (length s - length p) s) else None)"

fun contains_str :: "'a list \<Rightarrow> 'a list \<Rightarrow> bool" where
  "contains_str [] p = (p = [])"
| "contains_str (x # xs) p = (starts_with (x # xs) p \<or> contains_str xs p)"

lemma split_by_nonempty [simp]: "split_by P xs \<noteq> []"
  by (cases xs) (auto split: list.splits)

lemma split_by_none: "(\<And>x. x \<in> set xs \<Longrightarrow> \<not> P x) \<Longrightarrow> split_by P xs = [xs]"
  by (induction xs) auto

lemma split_by_append:
  assumes "\<And>x. x \<in> set xs \<Longrightarrow> \<not> P x" and "P y"
  shows "split_by P (xs @ y # ys) = xs # split_by P ys"
  using assms by (induction xs) auto

lemma split_char_none: "c \<notin> set xs \<Longrightarrow> split_char c xs = [xs]"
  unfolding split_char_def by (rule split_by_none) auto

lemma split_char_append: "c \<notin> set xs \<Longrightarrow> split_char c (xs @ c # ys) = xs # split_char c ys"
  unfolding split_char_def by (rule split_by_append) auto

lemma split_char_nonempty [simp]: "split_char c xs \<noteq> []"
  by (simp add: split_char_def)

lemma starts_with_append [simp, str]: "starts_with (p @ s) p"
  by (simp add: starts_with_def)

lemma starts_with_iff: "starts_with s p \<longleftrightarrow> (\<exists>t. s = p @ t)"
  unfolding starts_with_def by (metis append_take_drop_id append_eq_conv_conj)

lemma strip_prefix_append [simp, str]: "strip_prefix (p @ s) p = Some s"
  by (simp add: strip_prefix_def)

lemma ends_with_iff: "ends_with s p \<longleftrightarrow> (\<exists>t. s = t @ p)"
  unfolding ends_with_def starts_with_iff by (metis rev_append rev_rev_ident)

lemma strip_suffix_append [simp, str]: "strip_suffix (s @ p) p = Some s"
  by (auto simp: strip_suffix_def ends_with_iff)

subsection \<open>Decimal numbers\<close>

definition digit :: "nat \<Rightarrow> char" where
  "digit d = char_of (48 + d)"

fun to_decimal :: "nat \<Rightarrow> string" where
  "to_decimal n = (if n < 10 then [digit n] else to_decimal (n div 10) @ [digit (n mod 10)])"

declare to_decimal.simps [simp del]

definition digit_value :: "char \<Rightarrow> nat option" where
  "digit_value c = (let n = of_char c :: nat in if 48 \<le> n \<and> n \<le> 57 then Some (n - 48) else None)"

fun parse_digits :: "nat \<Rightarrow> string \<Rightarrow> nat option" where
  "parse_digits acc [] = Some acc"
| "parse_digits acc (c # cs) =
     (case digit_value c of None \<Rightarrow> None | Some d \<Rightarrow> parse_digits (acc * 10 + d) cs)"

text \<open>
  \<open>str::parse\<close> at an unsigned type of width \<open>w\<close>: an optional plus sign, at least one digit,
  and a value that fits.
\<close>

definition parse_unsigned :: "nat \<Rightarrow> string \<Rightarrow> nat option" where
  "parse_unsigned w s =
     (let ds = (case s of c # cs \<Rightarrow> if c = CHR ''+'' then cs else s | [] \<Rightarrow> []) in
      if ds = [] then None
      else case parse_digits 0 ds of
          None \<Rightarrow> None
        | Some n \<Rightarrow> if n < 2 ^ w then Some n else None)"

lemma digit_value_digit [simp]: "d < 10 \<Longrightarrow> digit_value (digit d) = Some d"
  by (simp add: digit_value_def digit_def)

lemma parse_digits_append:
  "parse_digits acc (xs @ ys) = Option.bind (parse_digits acc xs) (\<lambda>a. parse_digits a ys)"
  by (induction xs arbitrary: acc) (auto split: option.splits)

lemma parse_digits_to_decimal: "parse_digits 0 (to_decimal n) = Some n"
proof (induction n rule: to_decimal.induct)
  case (1 n)
  then show ?case
    by (subst to_decimal.simps) (auto simp: parse_digits_append)
qed

lemma to_decimal_nonempty [simp]: "to_decimal n \<noteq> []"
  by (subst to_decimal.simps) simp

lemma of_char_digit [simp]: "d < 10 \<Longrightarrow> (of_char (digit d) :: nat) = 48 + d"
  by (simp add: digit_def)

lemma to_decimal_chars: "c \<in> set (to_decimal n) \<Longrightarrow> (of_char c :: nat) \<in> {48..57}"
proof (induction n rule: to_decimal.induct)
  case (1 n)
  from 1(2) consider "n < 10" "c = digit n" | "\<not> n < 10" "c \<in> set (to_decimal (n div 10))"
    | "c = digit (n mod 10)"
    by (subst (asm) to_decimal.simps) (auto split: if_splits)
  then show ?case
    using 1(1) by cases auto
qed

lemma to_decimal_no_sep:
  "(of_char c :: nat) \<notin> {48..57} \<Longrightarrow> c \<notin> set (to_decimal n)"
  using to_decimal_chars by blast

theorem parse_to_decimal [str]: "n < 2 ^ w \<Longrightarrow> parse_unsigned w (to_decimal n) = Some n"
proof -
  assume fits: "n < 2 ^ w"
  have "CHR ''+'' \<notin> set (to_decimal n)" by (rule to_decimal_no_sep) simp
  then have "(case to_decimal n of c # cs \<Rightarrow> if c = CHR ''+'' then cs else to_decimal n | [] \<Rightarrow> [])
      = to_decimal n"
    by (auto split: list.splits)
  with fits show ?thesis
    by (simp add: parse_unsigned_def parse_digits_to_decimal)
qed

lemma parse_unsigned_bound: "parse_unsigned w s = Some n \<Longrightarrow> n < 2 ^ w"
  by (auto simp: parse_unsigned_def Let_def split: if_splits option.splits)

section \<open>Big-endian integers\<close>

fun be_encode :: "nat \<Rightarrow> nat \<Rightarrow> bytes" where
  "be_encode 0 n = []"
| "be_encode (Suc k) n = be_encode k (n div 256) @ [of_nat n]"

definition be_decode :: "bytes \<Rightarrow> nat" where
  "be_decode bs = foldl (\<lambda>acc b. acc * 256 + unat b) 0 bs"

lemma length_be_encode [simp]: "length (be_encode k n) = k"
  by (induction k arbitrary: n) auto

lemma be_decode_snoc: "be_decode (bs @ [b]) = be_decode bs * 256 + unat b"
  by (simp add: be_decode_def)

lemma be_decode_encode [simp]: "n < 256 ^ k \<Longrightarrow> be_decode (be_encode k n) = n"
proof (induction k arbitrary: n)
  case 0
  then show ?case by (simp add: be_decode_def)
next
  case (Suc k)
  then have "n div 256 < 256 ^ k"
    by (simp add: less_mult_imp_div_less mult.commute)
  with Suc.IH show ?case
    by (simp add: be_decode_snoc unsigned_of_nat take_bit_eq_mod)
qed

lemma be_decode_bound: "be_decode bs < 256 ^ length bs"
proof (induction bs rule: rev_induct)
  case Nil
  show ?case by (simp add: be_decode_def)
next
  case (snoc b bs)
  have "unat b < 256" using unsigned_less [of b] by simp
  with snoc show ?case by (simp add: be_decode_snoc)
qed

lemma be_encode_decode: "be_encode (length bs) (be_decode bs) = bs"
proof (induction bs rule: rev_induct)
  case Nil
  show ?case by simp
next
  case (snoc b bs)
  have "unat b < 256" using unsigned_less [of b] by simp
  moreover have "(of_nat (be_decode bs * 256) :: u8) = 0"
    by (subst word_of_nat_eq_0_iff) simp
  ultimately show ?case using snoc by (simp add: be_decode_snoc)
qed

text \<open>\<open>str::split\<close> on a non-empty pattern.\<close>

function split_str_aux :: "string \<Rightarrow> string \<Rightarrow> string \<Rightarrow> string list" where
  "split_str_aux p acc [] = [rev acc]"
| "split_str_aux p acc (x # xs) =
     (if p \<noteq> [] \<and> starts_with (x # xs) p
      then rev acc # split_str_aux p [] (drop (length p) (x # xs))
      else split_str_aux p (x # acc) xs)"
  by pat_completeness auto
termination
  by (relation "measure (\<lambda>(p, acc, s). length s)") auto

definition split_str :: "string \<Rightarrow> string \<Rightarrow> string list" where
  "split_str p s = split_str_aux p [] s"

fun join :: "string \<Rightarrow> string list \<Rightarrow> string" where
  "join sep [] = []"
| "join sep [x] = x"
| "join sep (x # y # ys) = x @ sep @ join sep (y # ys)"

definition nl :: string where
  "nl = [CHR 0x0A]"

section \<open>UTF-8\<close>

text \<open>
  \<open>String::from_utf8\<close> and \<open>String::from_utf8_lossy\<close>. \<open>utf8_seq\<close> reads one sequence: how
  many bytes it takes, and whether they are a scalar value; a broken sequence takes its
  longest valid prefix, and the lossy reading puts U+FFFD in its place.
\<close>

definition utf8_cont :: "nat \<Rightarrow> bool" where
  "utf8_cont b = (0x80 \<le> b \<and> b \<le> 0xBF)"

definition utf8_second :: "nat \<Rightarrow> nat \<Rightarrow> bool" where
  "utf8_second b1 b2 =
     (if b1 = 0xE0 then 0xA0 \<le> b2 \<and> b2 \<le> 0xBF
      else if b1 = 0xED then 0x80 \<le> b2 \<and> b2 \<le> 0x9F
      else if b1 = 0xF0 then 0x90 \<le> b2 \<and> b2 \<le> 0xBF
      else if b1 = 0xF4 then 0x80 \<le> b2 \<and> b2 \<le> 0x8F
      else utf8_cont b2)"

definition utf8_width :: "nat \<Rightarrow> nat" where
  "utf8_width b =
     (if b < 0x80 then 1 else if 0xC2 \<le> b \<and> b \<le> 0xDF then 2
      else if 0xE0 \<le> b \<and> b \<le> 0xEF then 3 else if 0xF0 \<le> b \<and> b \<le> 0xF4 then 4 else 0)"

definition utf8_seq :: "nat \<Rightarrow> nat list \<Rightarrow> nat \<times> bool" where
  "utf8_seq b1 bs =
     (let w = utf8_width b1 in
      if w = 0 then (1, False) else if w = 1 then (1, True)
      else if bs = [] \<or> \<not> utf8_second b1 (hd bs) then (1, False)
      else if w = 2 then (2, True)
      else if length bs < 2 \<or> \<not> utf8_cont (bs ! 1) then (2, False)
      else if w = 3 then (3, True)
      else if length bs < 3 \<or> \<not> utf8_cont (bs ! 2) then (3, False)
      else (4, True))"

lemma utf8_seq_pos: "1 \<le> fst (utf8_seq b bs)"
  by (simp add: utf8_seq_def Let_def)

function from_utf8_lossy_nat :: "nat list \<Rightarrow> nat list" where
  "from_utf8_lossy_nat [] = []"
| "from_utf8_lossy_nat (b # bs) =
     (let r = utf8_seq b bs in
      (if snd r then take (fst r) (b # bs) else [0xEF, 0xBF, 0xBD])
        @ from_utf8_lossy_nat (drop (fst r - 1) bs))"
  by pat_completeness auto
termination
  by (relation "measure length") auto

function utf8_valid_nat :: "nat list \<Rightarrow> bool" where
  "utf8_valid_nat [] = True"
| "utf8_valid_nat (b # bs) =
     (let r = utf8_seq b bs in snd r \<and> utf8_valid_nat (drop (fst r - 1) bs))"
  by pat_completeness auto
termination
  by (relation "measure length") auto

definition string_of_bytes :: "bytes \<Rightarrow> string" where
  "string_of_bytes bs = map (\<lambda>b. char_of (unat b)) bs"

definition bytes_of_string :: "string \<Rightarrow> bytes" where
  "bytes_of_string s = map (\<lambda>c. of_nat (of_char c)) s"

definition from_utf8_lossy :: "bytes \<Rightarrow> string" where
  "from_utf8_lossy bs = map char_of (from_utf8_lossy_nat (map unat bs))"

definition from_utf8 :: "bytes \<Rightarrow> string option" where
  "from_utf8 bs = (if utf8_valid_nat (map unat bs) then Some (string_of_bytes bs) else None)"

text \<open>The strings of the program: byte lists that are UTF-8.\<close>

definition valid_string :: "string \<Rightarrow> bool" where
  "valid_string s = utf8_valid_nat (map of_char s)"

lemma of_char_lt_256: "(of_char c :: nat) < 256"
  by (cases c) (simp add: of_char_def)

lemma unat_of_char [simp]: "unat (of_nat (of_char c) :: u8) = of_char c"
  using of_char_lt_256 [of c] by (simp add: unsigned_of_nat take_bit_eq_mod)

lemma string_of_bytes_of_string [simp]: "string_of_bytes (bytes_of_string s) = s"
  by (induction s) (auto simp: string_of_bytes_def bytes_of_string_def)

lemma bytes_of_string_of_bytes [simp]: "bytes_of_string (string_of_bytes bs) = bs"
proof (induction bs)
  case (Cons b bs)
  have "unat b < 256" using unsigned_less [of b] by simp
  with Cons show ?case by (simp add: string_of_bytes_def bytes_of_string_def)
qed (simp add: string_of_bytes_def bytes_of_string_def)

lemma bytes_of_string_inj [simp]: "bytes_of_string a = bytes_of_string b \<longleftrightarrow> a = b"
  by (metis string_of_bytes_of_string)

lemma from_utf8_bytes_of_string [simp]:
  "valid_string s \<Longrightarrow> from_utf8 (bytes_of_string s) = Some s"
  by (simp add: from_utf8_def valid_string_def bytes_of_string_def comp_def string_of_bytes_def)

lemma lossy_valid_id: "utf8_valid_nat bs \<Longrightarrow> from_utf8_lossy_nat bs = bs"
proof (induction bs rule: utf8_valid_nat.induct)
  case (2 b bs)
  let ?r = "utf8_seq b bs"
  have "drop (fst ?r - 1) bs = drop (fst ?r) (b # bs)"
    using utf8_seq_pos [of b bs] by (cases "fst ?r") auto
  moreover have "from_utf8_lossy_nat (drop (fst ?r - 1) bs) = drop (fst ?r - 1) bs"
    using 2 by (simp add: Let_def)
  ultimately show ?case using 2(2) by (simp add: Let_def)
qed simp

lemma from_utf8_lossy_bytes_of_string [simp]:
  "valid_string s \<Longrightarrow> from_utf8_lossy (bytes_of_string s) = s"
  by (simp add: from_utf8_lossy_def valid_string_def bytes_of_string_def comp_def lossy_valid_id)

lemma ascii_valid: "(\<And>c. c \<in> set s \<Longrightarrow> (of_char c :: nat) < 128) \<Longrightarrow> valid_string s"
  unfolding valid_string_def
  by (induction s) (auto simp: Let_def utf8_seq_def utf8_width_def)

section \<open>JSON values\<close>

text \<open>The shape of \<open>serde_json::Value\<close>; the parser itself is a parameter where it is used.\<close>

datatype json =
    JNull
  | JBool bool
  | JNumber int
  | JString string
  | JArray "json list"
  | JObject "(string \<times> json) list"

fun json_get :: "string \<Rightarrow> json \<Rightarrow> json option" where
  "json_get k (JObject fs) = map_of fs k"
| "json_get k _ = None"

fun json_as_str :: "json \<Rightarrow> string option" where
  "json_as_str (JString s) = Some s"
| "json_as_str _ = None"

fun json_as_object :: "json \<Rightarrow> (string \<times> json) list option" where
  "json_as_object (JObject fs) = Some fs"
| "json_as_object _ = None"

fun json_as_u64 :: "json \<Rightarrow> u64 option" where
  "json_as_u64 (JNumber i) = (if 0 \<le> i \<and> i < 2 ^ 64 then Some (of_int i) else None)"
| "json_as_u64 _ = None"

definition json_get_str :: "string \<Rightarrow> json \<Rightarrow> string option" where
  "json_get_str k v = Option.bind (json_get k v) json_as_str"

end
