(* ===== verification/Runtime.thy ===== *)
theory Runtime
  imports Prelude
begin

text \<open>
  The runtime abstraction of the machine plane, \<open>machine/src/runtime/mod.rs\<close>: errors, workload
  descriptions, deployment configurations, the two default methods of the trait
  \<open>RuntimeEngine\<close>, and the registry of engines. The trait itself is the locale
  \<open>runtime_engine\<close>: what a client may rely on after a deployment, a removal and a listing.
  The engine \<open>mock\<close> provides it (theory \<open>Mock_Engine\<close>).
\<close>

type_synonym f64_bits = u64

datatype runtime_error =
    EngineNotAvailable string
  | InvalidManifest string
  | DeploymentFailed string
  | WorkloadNotFound string
  | IoError string
  | CommandFailed string

type_synonym 'a runtime_result = "runtime_error + 'a"

definition display_runtime_error :: "runtime_error \<Rightarrow> string" where
  "display_runtime_error e =
     (case e of
        EngineNotAvailable s \<Rightarrow> ''Runtime engine not available: '' @ s
      | InvalidManifest s \<Rightarrow> ''Invalid manifest format: '' @ s
      | DeploymentFailed s \<Rightarrow> ''Deployment failed: '' @ s
      | WorkloadNotFound s \<Rightarrow> ''Workload not found: '' @ s
      | IoError s \<Rightarrow> ''IO error: '' @ s
      | CommandFailed s \<Rightarrow> ''Command execution failed: '' @ s)"

datatype workload_status = Starting | Running | Stopped | Failed string | Unknown

record port_mapping =
  container_port :: u16
  host_port :: "u16 option"
  pm_protocol :: string

record workload_info =
  wi_id :: string
  wi_manifest_id :: string
  wi_status :: workload_status
  wi_metadata :: "(string, string) hmap"
  wi_created_at :: system_time
  wi_updated_at :: system_time
  wi_ports :: "port_mapping list"

record resource_limits =
  rl_cpu :: "f64_bits option"
  rl_memory :: "u64 option"
  rl_storage :: "u64 option"

record deployment_config =
  dc_replicas :: u32
  dc_resources :: resource_limits
  dc_env :: "(string, string) hmap"
  dc_runtime_options :: "(string, string) hmap"

definition default_deployment_config :: deployment_config where
  "default_deployment_config =
     \<lparr> dc_replicas = 1,
       dc_resources = \<lparr> rl_cpu = None, rl_memory = None, rl_storage = None \<rparr>,
       dc_env = hm_empty,
       dc_runtime_options = hm_empty \<rparr>"

section \<open>The default methods of the trait\<close>

text \<open>
  \<open>deploy_workload_with_peer\<close> adds the peer to the metadata of what \<open>deploy_workload\<close>
  returned; the engine's own record of the workload is not touched.
\<close>

definition default_deploy_with_peer ::
  "('e \<Rightarrow> 'e \<times> workload_info runtime_result) \<Rightarrow> string \<Rightarrow> 'e \<Rightarrow> 'e \<times> workload_info runtime_result" where
  "default_deploy_with_peer deploy peer e =
     (case deploy e of
        (e', Inl err) \<Rightarrow> (e', Inl err)
      | (e', Inr info) \<Rightarrow>
          (e', Inr (info \<lparr> wi_metadata := hm_insert ''local_peer_id'' peer (wi_metadata info) \<rparr>)))"

definition deployed_by_peer :: "string \<Rightarrow> workload_info \<Rightarrow> bool" where
  "deployed_by_peer peer w =
     (case hm_get (wi_metadata w) ''local_peer_id'' of None \<Rightarrow> False | Some p \<Rightarrow> p = peer)"

definition default_list_by_peer ::
  "string \<Rightarrow> workload_info list runtime_result \<Rightarrow> workload_info list runtime_result" where
  "default_list_by_peer peer listing =
     (case listing of Inl err \<Rightarrow> Inl err | Inr ws \<Rightarrow> Inr (filter (deployed_by_peer peer) ws))"

text \<open>
  The trait object of an engine as a table of its methods, over the engine's state. Methods that
  only read have no state to return. A deployment with a peer can panic, which is the result \<^const>\<open>None\<close>.
\<close>

record 'e engine_ops =
  eo_name :: "'e \<Rightarrow> string"
  eo_available :: "'e \<Rightarrow> bool"
  eo_as_mock :: "'e \<Rightarrow> (string \<Rightarrow> bytes \<Rightarrow> deployment_config \<Rightarrow> string \<Rightarrow> 'e \<times> workload_info runtime_result) option"
  eo_deploy :: "string \<Rightarrow> bytes \<Rightarrow> deployment_config \<Rightarrow> 'e \<Rightarrow> 'e \<times> workload_info runtime_result"
  eo_status :: "string \<Rightarrow> 'e \<Rightarrow> workload_info runtime_result"
  eo_list :: "'e \<Rightarrow> workload_info list runtime_result"
  eo_remove :: "string \<Rightarrow> 'e \<Rightarrow> 'e \<times> unit runtime_result"
  eo_logs :: "string \<Rightarrow> nat option \<Rightarrow> 'e \<Rightarrow> string runtime_result"
  eo_validate :: "bytes \<Rightarrow> 'e \<Rightarrow> unit runtime_result"
  eo_export :: "string \<Rightarrow> 'e \<Rightarrow> bytes runtime_result"
  eo_deploy_with_peer ::
    "string \<Rightarrow> bytes \<Rightarrow> deployment_config \<Rightarrow> string \<Rightarrow> 'e \<Rightarrow> 'e \<times> workload_info runtime_result option"

section \<open>The registry\<close>

record 'e runtime_registry =
  engines :: "(string, 'e) hmap"
  default_engine :: "string option"

definition registry_new :: "'e runtime_registry" where
  "registry_new = \<lparr> engines = hm_empty, default_engine = None \<rparr>"

definition registry_register :: "('e \<Rightarrow> string) \<Rightarrow> 'e \<Rightarrow> 'e runtime_registry \<Rightarrow> 'e runtime_registry" where
  "registry_register engine_name engine r =
     (let name = engine_name engine;
          r' = r \<lparr> engines := hm_insert name engine (engines r) \<rparr> in
      if default_engine r' = None then r' \<lparr> default_engine := Some name \<rparr> else r')"

definition get_engine :: "'e runtime_registry \<Rightarrow> string \<Rightarrow> 'e option" where
  "get_engine r name = hm_get (engines r) name"

definition get_default_engine :: "'e runtime_registry \<Rightarrow> 'e option" where
  "get_default_engine r =
     (case default_engine r of None \<Rightarrow> None | Some name \<Rightarrow> get_engine r name)"

definition set_default_engine ::
  "string \<Rightarrow> 'e runtime_registry \<Rightarrow> 'e runtime_registry \<times> unit runtime_result" where
  "set_default_engine name r =
     (if hm_contains_key (engines r) name
      then (r \<lparr> default_engine := Some name \<rparr>, Inr ())
      else (r, Inl (EngineNotAvailable name)))"

definition list_engines :: "'e runtime_registry \<Rightarrow> string list" where
  "list_engines r = hm_keys (engines r)"

definition check_available_engines ::
  "('e \<Rightarrow> bool) \<Rightarrow> 'e runtime_registry \<Rightarrow> (string, bool) hmap" where
  "check_available_engines is_available r =
     fold (\<lambda>(name, e) acc. hm_insert name (is_available e) acc) (engines r) hm_empty"

text \<open>
  \<open>create_default_registry\<close>; the three engines are the arguments, the mock engine is compiled
  into a debug build only, and \<open>is_available\<close> is what the engines answer.
\<close>

definition create_default_registry ::
  "profile \<Rightarrow> ('e \<Rightarrow> string) \<Rightarrow> ('e \<Rightarrow> bool) \<Rightarrow> 'e \<Rightarrow> 'e \<Rightarrow> 'e \<Rightarrow> 'e runtime_registry" where
  "create_default_registry prof engine_name is_available podman docker mock =
     (let r = registry_register engine_name docker
                (registry_register engine_name podman registry_new);
          r = (if prof = Debug then registry_register engine_name mock r else r);
          available = check_available_engines is_available r in
      if hm_get available ''podman'' = Some True then fst (set_default_engine ''podman'' r)
      else if hm_get available ''docker'' = Some True then fst (set_default_engine ''docker'' r)
      else if prof = Debug then fst (set_default_engine ''mock'' r)
      else r)"

definition create_mock_only_registry ::
  "profile \<Rightarrow> ('e \<Rightarrow> string) \<Rightarrow> ('e \<Rightarrow> bool) \<Rightarrow> 'e \<Rightarrow> 'e \<Rightarrow> 'e \<Rightarrow> 'e runtime_registry" where
  "create_mock_only_registry prof engine_name is_available podman docker mock =
     (if prof = Debug
      then fst (set_default_engine ''mock'' (registry_register engine_name mock registry_new))
      else create_default_registry prof engine_name is_available podman docker mock)"

text \<open>The invariant of a registry: the engines are filed under their names, the default is one of them.\<close>

definition registry_ok :: "('e \<Rightarrow> string) \<Rightarrow> 'e runtime_registry \<Rightarrow> bool" where
  "registry_ok engine_name r \<longleftrightarrow>
     hm_wf (engines r)
     \<and> (\<forall>(n, e) \<in> set (engines r). engine_name e = n)
     \<and> (case default_engine r of None \<Rightarrow> engines r = [] | Some n \<Rightarrow> hm_contains_key (engines r) n)"

lemmas registry_defs = registry_new_def registry_register_def get_engine_def
  get_default_engine_def set_default_engine_def hm_contains_key_def

lemma registry_ok_new: "registry_ok nm registry_new"
  by (simp add: registry_ok_def registry_new_def hm_empty_def hm_wf_def)

lemma registry_ok_register:
  assumes "registry_ok nm r"
  shows "registry_ok nm (registry_register nm e r)"
proof -
  have "\<forall>(n, e') \<in> set (hm_insert (nm e) e (engines r)). nm e' = n"
    using assms hm_insert_mem [where k = "nm e" and v = e and m = "engines r"]
    unfolding registry_ok_def by blast
  then show ?thesis
    using assms
    by (auto simp: registry_ok_def registry_register_def Let_def hm_contains_key_def
        split: option.splits)
qed

lemma registry_ok_set_default:
  "registry_ok nm r \<Longrightarrow> registry_ok nm (fst (set_default_engine n r))"
  by (auto simp: registry_ok_def set_default_engine_def hm_contains_key_def split: option.splits)

lemma registry_default_engine:
  "registry_ok nm r \<Longrightarrow> engines r \<noteq> [] \<Longrightarrow>
     \<exists>e n. default_engine r = Some n \<and> get_default_engine r = Some e \<and> nm e = n"
  by (fastforce simp: registry_ok_def registry_defs dest: hm_get_SomeD split: option.splits)

lemma fold_hm_insert_get:
  assumes "distinct (map fst xs)"
  shows "hm_get (fold (\<lambda>(n, e) acc. hm_insert n (f e) acc) xs m) k
    = (case map_of xs k of Some e \<Rightarrow> Some (f e) | None \<Rightarrow> hm_get m k)"
  using assms
proof (induction xs arbitrary: m)
  case (Cons x xs)
  have "map_of xs (fst x) = None"
    using Cons.prems by (auto simp: map_of_eq_None_iff)
  with Cons show ?case by (cases x) (auto split: option.splits)
qed simp

lemma check_available_get:
  "hm_wf (engines r) \<Longrightarrow>
     hm_get (check_available_engines av r) k = map_option av (get_engine r k)"
  unfolding check_available_engines_def get_engine_def hm_get_def [of "engines r"]
  by (subst fold_hm_insert_get) (auto simp: hm_wf_def split: option.splits)

section \<open>What a client of an engine relies on\<close>

text \<open>
  The contract behind the trait methods \<open>list_workloads\<close> and \<open>remove_workload\<close>, and the client
  \<open>remove_workloads_by_manifest_id\<close> (\<open>workload_integration.rs\<close>) proved once against it: it
  lists, keeps what carries the manifest id, and removes one by one, noting what was removed and
  what failed.
\<close>

definition remove_each ::
  "(string \<Rightarrow> 'e \<Rightarrow> 'e \<times> unit runtime_result) \<Rightarrow> string list \<Rightarrow> 'e \<Rightarrow> 'e \<times> string list \<times> string list" where
  "remove_each remove_w ids e =
     foldl (\<lambda>(e, removed, failed) i.
        case remove_w i e of
          (e', Inr _) \<Rightarrow> (e', removed @ [i], failed)
        | (e', Inl _) \<Rightarrow> (e', removed, failed @ [i]))
      (e, [], []) ids"

locale runtime_engine =
  fixes inv :: "'e \<Rightarrow> bool"
    and workloads_of :: "'e \<Rightarrow> workload_info list"
    and list_w :: "(nat \<Rightarrow> system_time) \<Rightarrow> 'e \<Rightarrow> workload_info list runtime_result"
    and remove_w :: "string \<Rightarrow> 'e \<Rightarrow> 'e \<times> unit runtime_result"
  assumes inv_remove: "inv e \<Longrightarrow> inv (fst (remove_w i e))"
    and list_ids: "inv e \<Longrightarrow> \<exists>ws. list_w clock e = Inr ws \<and>
        (\<lambda>w. (wi_id w, wi_manifest_id w)) ` set ws
          = (\<lambda>w. (wi_id w, wi_manifest_id w)) ` set (workloads_of e)"
    and list_distinct: "inv e \<Longrightarrow> list_w clock e = Inr ws \<Longrightarrow> distinct (map wi_id ws)"
    and ids_unique: "inv e \<Longrightarrow> inj_on wi_id (set (workloads_of e))"
    and remove_effect: "inv e \<Longrightarrow>
        set (workloads_of (fst (remove_w i e))) = {w \<in> set (workloads_of e). wi_id w \<noteq> i}"
    and remove_result: "inv e \<Longrightarrow>
        (\<exists>u. snd (remove_w i e) = Inr u) \<longleftrightarrow> (\<exists>w \<in> set (workloads_of e). wi_id w = i)"
begin

lemma remove_each_snoc:
  "remove_each remove_w (ids @ [i]) e =
     (case remove_each remove_w ids e of (e', removed, failed) \<Rightarrow>
        case remove_w i e' of
          (e'', Inr _) \<Rightarrow> (e'', removed @ [i], failed)
        | (e'', Inl _) \<Rightarrow> (e'', removed, failed @ [i]))"
  by (simp add: remove_each_def split: prod.splits)

lemma fst_remove_each_snoc:
  "fst (remove_each remove_w (ids @ [i]) e) = fst (remove_w i (fst (remove_each remove_w ids e)))"
  by (auto simp: remove_each_snoc split: prod.splits sum.splits)

lemma inv_remove_each: "inv e \<Longrightarrow> inv (fst (remove_each remove_w ids e))"
proof (induction ids rule: rev_induct)
  case Nil
  then show ?case by (simp add: remove_each_def)
next
  case (snoc i ids)
  then show ?case by (simp add: fst_remove_each_snoc inv_remove)
qed

lemma remove_each_effect:
  assumes "inv e"
  shows "set (workloads_of (fst (remove_each remove_w ids e)))
    = {w \<in> set (workloads_of e). wi_id w \<notin> set ids}"
proof (induction ids rule: rev_induct)
  case Nil
  show ?case by (simp add: remove_each_def)
next
  case (snoc i ids)
  then show ?case
    by (auto simp: fst_remove_each_snoc remove_effect inv_remove_each assms)
qed

lemma remove_each_removed:
  assumes "inv e" "distinct ids" "\<And>i. i \<in> set ids \<Longrightarrow> \<exists>w \<in> set (workloads_of e). wi_id w = i"
  shows "snd (remove_each remove_w ids e) = (ids, [])"
  using assms(2,3)
proof (induction ids rule: rev_induct)
  case Nil
  show ?case by (simp add: remove_each_def)
next
  case (snoc i ids)
  let ?e = "fst (remove_each remove_w ids e)"
  have "\<exists>w \<in> set (workloads_of ?e). wi_id w = i"
    using snoc.prems by (fastforce simp: remove_each_effect [OF assms(1)])
  then obtain u where "snd (remove_w i ?e) = Inr u"
    using remove_result inv_remove_each assms(1) by blast
  with snoc show ?case
    by (auto simp: remove_each_snoc split: prod.splits sum.splits)
qed

text \<open>The client: after it, no workload of the manifest is left and every other one is.\<close>

lemma remove_by_manifest:
  fixes m :: string
  assumes inv: "inv e" and ws: "list_w clock e = Inr ws"
  defines "ids \<equiv> map wi_id (filter (\<lambda>w. wi_manifest_id w = m) ws)"
  shows "inv (fst (remove_each remove_w ids e))"
    and "set (workloads_of (fst (remove_each remove_w ids e)))
      = {w \<in> set (workloads_of e). wi_manifest_id w \<noteq> m}"
    and "snd (remove_each remove_w ids e) = (ids, [])"
    and "set ids = wi_id ` {w \<in> set (workloads_of e). wi_manifest_id w = m}"
proof -
  let ?f = "\<lambda>w. (wi_id w, wi_manifest_id w)"
  have listed: "?f ` set ws = ?f ` set (workloads_of e)"
    using list_ids [OF inv, of clock] ws by auto
  have mem: "i \<in> set ids \<longleftrightarrow> (i, m) \<in> ?f ` set ws" for i
    unfolding ids_def by auto
  show ids: "set ids = wi_id ` {w \<in> set (workloads_of e). wi_manifest_id w = m}"
    using mem unfolding listed by auto
  show "inv (fst (remove_each remove_w ids e))" by (rule inv_remove_each [OF inv])
  show "set (workloads_of (fst (remove_each remove_w ids e)))
      = {w \<in> set (workloads_of e). wi_manifest_id w \<noteq> m}"
    unfolding remove_each_effect [OF inv] ids
    using ids_unique [OF inv] by (auto simp: inj_on_def)
  have "distinct ids"
    using list_distinct [OF inv ws] unfolding ids_def by (rule distinct_map_filter)
  then show "snd (remove_each remove_w ids e) = (ids, [])"
    by (rule remove_each_removed [OF inv]) (use ids in auto)
qed

end

end
