(* ===== verification/Resource_Verifier.thy ===== *)
theory Resource_Verifier
  imports Runtime
begin

text \<open>
  The capacity ledger of a node, \<open>machine/src/resource_verifier.rs\<close>, and the resource constants
  of \<open>protocol/src/libp2p_constants.rs\<close>: what the host offers, what the running workloads
  hold, and the short reservations a node makes when it answers a capacity query. The integers
  keep their widths; sums saturate as in the source, and the plain multiplications panic or
  wrap with the build profile.

  Instants are natural numbers of nanoseconds. An operation that reads the clock takes each
  reading as an argument. \<open>reserve_capacity\<close> is composed of the two critical sections between
  which the source holds no lock, so that their interleavings can be described too.
\<close>

section \<open>Constants and data\<close>

definition MAX_CPU_ALLOCATION_PERCENT :: u8 where
  "MAX_CPU_ALLOCATION_PERCENT = 90"

definition MAX_MEMORY_ALLOCATION_PERCENT :: u8 where
  "MAX_MEMORY_ALLOCATION_PERCENT = 90"

definition MAX_STORAGE_ALLOCATION_PERCENT :: u8 where
  "MAX_STORAGE_ALLOCATION_PERCENT = 90"

definition MIN_FREE_MEMORY_BYTES :: u64 where
  "MIN_FREE_MEMORY_BYTES = 512 * 1024 * 1024"

definition MIN_FREE_STORAGE_BYTES :: u64 where
  "MIN_FREE_STORAGE_BYTES = 1024 * 1024 * 1024"

definition MAX_WORKLOADS_PER_NODE :: u32 where
  "MAX_WORKLOADS_PER_NODE = 0"

definition DEFAULT_CPU_REQUEST_MILLI :: u32 where
  "DEFAULT_CPU_REQUEST_MILLI = 100"

definition DEFAULT_MEMORY_REQUEST_BYTES :: u64 where
  "DEFAULT_MEMORY_REQUEST_BYTES = 128 * 1024 * 1024"

definition DEFAULT_STORAGE_REQUEST_BYTES :: u64 where
  "DEFAULT_STORAGE_REQUEST_BYTES = 1024 * 1024 * 1024"

lemmas rv_consts = MAX_CPU_ALLOCATION_PERCENT_def MAX_MEMORY_ALLOCATION_PERCENT_def
  MAX_STORAGE_ALLOCATION_PERCENT_def MIN_FREE_MEMORY_BYTES_def MIN_FREE_STORAGE_BYTES_def
  MAX_WORKLOADS_PER_NODE_def DEFAULT_CPU_REQUEST_MILLI_def DEFAULT_MEMORY_REQUEST_BYTES_def
  DEFAULT_STORAGE_REQUEST_BYTES_def

record system_resources =
  total_cpu_cores :: u32
  total_cpu_milli :: u32
  total_memory_bytes :: u64
  total_storage_bytes :: u64
  allocated_cpu_milli :: u32
  allocated_memory_bytes :: u64
  allocated_storage_bytes :: u64
  running_workloads :: u32

definition available_cpu_milli :: "system_resources \<Rightarrow> u32" where
  "available_cpu_milli r =
     (let max_allocatable =
        (ucast ((ucast (total_cpu_milli r) :: u64) * ucast MAX_CPU_ALLOCATION_PERCENT div 100) :: u32) in
      saturating_sub max_allocatable (allocated_cpu_milli r))"

definition available_memory_bytes :: "profile \<Rightarrow> system_resources \<Rightarrow> u64 option" where
  "available_memory_bytes prof r =
     map_option
       (\<lambda>m. saturating_sub (saturating_sub (m div 100) MIN_FREE_MEMORY_BYTES)
              (allocated_memory_bytes r))
       (mul_u prof (total_memory_bytes r) (ucast MAX_MEMORY_ALLOCATION_PERCENT))"

definition available_storage_bytes :: "profile \<Rightarrow> system_resources \<Rightarrow> u64 option" where
  "available_storage_bytes prof r =
     map_option
       (\<lambda>m. saturating_sub (saturating_sub (m div 100) MIN_FREE_STORAGE_BYTES)
              (allocated_storage_bytes r))
       (mul_u prof (total_storage_bytes r) (ucast MAX_STORAGE_ALLOCATION_PERCENT))"

definition can_accept_more_workloads :: "system_resources \<Rightarrow> bool" where
  "can_accept_more_workloads r =
     (if MAX_WORKLOADS_PER_NODE = 0 then True else running_workloads r < MAX_WORKLOADS_PER_NODE)"

record resource_request =
  rr_cpu_milli :: u32
  rr_memory_bytes :: u64
  rr_storage_bytes :: u64
  rr_replicas :: u32

definition resource_request_new ::
  "u32 option \<Rightarrow> u64 option \<Rightarrow> u64 option \<Rightarrow> u32 \<Rightarrow> resource_request" where
  "resource_request_new cpu memory storage replicas =
     \<lparr> rr_cpu_milli = (case cpu of Some c \<Rightarrow> c | None \<Rightarrow> DEFAULT_CPU_REQUEST_MILLI),
       rr_memory_bytes = (case memory of Some m \<Rightarrow> m | None \<Rightarrow> DEFAULT_MEMORY_REQUEST_BYTES),
       rr_storage_bytes = (case storage of Some s \<Rightarrow> s | None \<Rightarrow> DEFAULT_STORAGE_REQUEST_BYTES),
       rr_replicas = max replicas 1 \<rparr>"

definition request_total_cpu :: "resource_request \<Rightarrow> u32" where
  "request_total_cpu q = saturating_mul (rr_cpu_milli q) (rr_replicas q)"

definition request_total_memory :: "resource_request \<Rightarrow> u64" where
  "request_total_memory q = saturating_mul (rr_memory_bytes q) (ucast (rr_replicas q))"

definition request_total_storage :: "resource_request \<Rightarrow> u64" where
  "request_total_storage q = saturating_mul (rr_storage_bytes q) (ucast (rr_replicas q))"

record capacity_check_result =
  has_capacity :: bool
  rejection_reason :: "string option"
  cr_available_cpu_milli :: u32
  cr_available_memory_bytes :: u64
  cr_available_storage_bytes :: u64

record capacity_reservation =
  cr_cpu_milli :: u32
  cr_memory_bytes :: u64
  cr_storage_bytes :: u64
  cr_manifest_id :: "string option"
  cr_expires_at :: instant

record resource_verifier =
  system_resources_of :: system_resources
  reservations :: "(string, capacity_reservation) hmap"

definition RESERVATION_HOLD_SECS :: nat where
  "RESERVATION_HOLD_SECS = 3"

definition verifier_new :: resource_verifier where
  "verifier_new =
     \<lparr> system_resources_of =
         \<lparr> total_cpu_cores = 0, total_cpu_milli = 0, total_memory_bytes = 0, total_storage_bytes = 0,
           allocated_cpu_milli = 0, allocated_memory_bytes = 0, allocated_storage_bytes = 0,
           running_workloads = 0 \<rparr>,
       reservations = hm_empty \<rparr>"

definition reservation_hold_duration :: nat where
  "reservation_hold_duration = RESERVATION_HOLD_SECS * 1000000000"

section \<open>Reservations\<close>

definition prune_expired_reservations :: "instant \<Rightarrow> resource_verifier \<Rightarrow> resource_verifier" where
  "prune_expired_reservations now v =
     v \<lparr> reservations := hm_retain (\<lambda>_ r. cr_expires_at r > now) (reservations v) \<rparr>"

definition total_reserved_resources :: "resource_verifier \<Rightarrow> u32 \<times> u64 \<times> u64" where
  "total_reserved_resources v =
     fold (\<lambda>r acc. (saturating_add (fst acc) (cr_cpu_milli r),
                    saturating_add (fst (snd acc)) (cr_memory_bytes r),
                    saturating_add (snd (snd acc)) (cr_storage_bytes r)))
       (hm_values (reservations v)) (0, 0, 0)"

datatype reserve_error =
    InsufficientCpu u32 u32
  | InsufficientMemory u64 u64
  | InsufficientStorage u64 u64

definition mega :: u64 where
  "mega = 1024 * 1024"

definition giga :: u64 where
  "giga = 1024 * 1024 * 1024"

definition dec :: "'a::len word \<Rightarrow> string" where
  "dec w = to_decimal (unat w)"

definition display_reserve_error :: "reserve_error \<Rightarrow> string" where
  "display_reserve_error e =
     (case e of
        InsufficientCpu need avail \<Rightarrow>
          ''Insufficient CPU reservation capacity: need '' @ dec need @ ''m, reservable '' @ dec avail @ ''m''
      | InsufficientMemory need avail \<Rightarrow>
          ''Insufficient memory reservation capacity: need '' @ dec (need div mega)
            @ '' MB, reservable '' @ dec (avail div mega) @ '' MB''
      | InsufficientStorage need avail \<Rightarrow>
          ''Insufficient storage reservation capacity: need '' @ dec (need div giga)
            @ '' GB, reservable '' @ dec (avail div giga) @ '' GB'')"

text \<open>The refresh of an existing reservation: a new deadline, and the manifest if one is given.\<close>

definition refresh_reservation ::
  "instant \<Rightarrow> string option \<Rightarrow> capacity_reservation \<Rightarrow> capacity_reservation" where
  "refresh_reservation now manifest r =
     (let r = r \<lparr> cr_expires_at := now + reservation_hold_duration \<rparr> in
      case manifest of Some m \<Rightarrow> r \<lparr> cr_manifest_id := Some m \<rparr> | None \<Rightarrow> r)"

text \<open>
  The first half of \<open>reserve_capacity\<close>: pruning, the refresh of a known request, and the check
  of the totals. It ends with a result, or with the amounts to be entered.
\<close>

datatype reserve_phase =
    Refreshed
  | Rejected reserve_error
  | Admitted u32 u64 u64
  | ReservePanic

definition check_reservable ::
  "profile \<Rightarrow> resource_request \<Rightarrow> resource_verifier \<Rightarrow> reserve_phase" where
  "check_reservable prof q v =
     (let reserved = total_reserved_resources v;
          request_cpu = request_total_cpu q;
          request_memory = request_total_memory q;
          request_storage = request_total_storage q;
          available_cpu = saturating_sub (available_cpu_milli (system_resources_of v)) (fst reserved) in
      case (available_memory_bytes prof (system_resources_of v),
            available_storage_bytes prof (system_resources_of v)) of
        (Some mem, Some sto) \<Rightarrow>
          (let available_memory = saturating_sub mem (fst (snd reserved));
               available_storage = saturating_sub sto (snd (snd reserved)) in
           if request_cpu > available_cpu then Rejected (InsufficientCpu request_cpu available_cpu)
           else if request_memory > available_memory
           then Rejected (InsufficientMemory request_memory available_memory)
           else if request_storage > available_storage
           then Rejected (InsufficientStorage request_storage available_storage)
           else Admitted request_cpu request_memory request_storage)
      | _ \<Rightarrow> ReservePanic)"

definition reserve_begin ::
  "profile \<Rightarrow> instant \<Rightarrow> instant \<Rightarrow> string \<Rightarrow> string option \<Rightarrow> resource_request \<Rightarrow> resource_verifier
     \<Rightarrow> resource_verifier \<times> reserve_phase" where
  "reserve_begin prof now_prune now_refresh request_id manifest q v =
     (let v = prune_expired_reservations now_prune v in
      case hm_get (reservations v) request_id of
        Some existing \<Rightarrow>
          (v \<lparr> reservations :=
                 hm_insert request_id (refresh_reservation now_refresh manifest existing)
                   (reservations v) \<rparr>,
           Refreshed)
      | None \<Rightarrow> (v, check_reservable prof q v))"

text \<open>The second half: the request may have been entered meanwhile, otherwise it is now.\<close>

definition reserve_commit ::
  "instant \<Rightarrow> string \<Rightarrow> string option \<Rightarrow> u32 \<Rightarrow> u64 \<Rightarrow> u64 \<Rightarrow> resource_verifier \<Rightarrow> resource_verifier" where
  "reserve_commit now request_id manifest cpu memory storage v =
     (case hm_get (reservations v) request_id of
        Some existing \<Rightarrow>
          v \<lparr> reservations :=
                hm_insert request_id (refresh_reservation now manifest existing) (reservations v) \<rparr>
      | None \<Rightarrow>
          v \<lparr> reservations :=
                hm_insert request_id
                  \<lparr> cr_cpu_milli = cpu, cr_memory_bytes = memory, cr_storage_bytes = storage,
                    cr_manifest_id = manifest, cr_expires_at = now + reservation_hold_duration \<rparr>
                  (reservations v) \<rparr>)"

text \<open>The result is \<^const>\<open>None\<close> where the code panics.\<close>

definition reserve_capacity ::
  "profile \<Rightarrow> instant \<Rightarrow> instant \<Rightarrow> string \<Rightarrow> string option \<Rightarrow> resource_request \<Rightarrow> resource_verifier
     \<Rightarrow> resource_verifier \<times> (reserve_error + unit) option" where
  "reserve_capacity prof now_prune now request_id manifest q v =
     (case reserve_begin prof now_prune now request_id manifest q v of
        (v', Refreshed) \<Rightarrow> (v', Some (Inr ()))
      | (v', Rejected e) \<Rightarrow> (v', Some (Inl e))
      | (v', ReservePanic) \<Rightarrow> (v', None)
      | (v', Admitted cpu memory storage) \<Rightarrow>
          (reserve_commit now request_id manifest cpu memory storage v', Some (Inr ())))"

definition has_active_reservation_for_manifest ::
  "instant \<Rightarrow> string \<Rightarrow> resource_verifier \<Rightarrow> resource_verifier \<times> bool" where
  "has_active_reservation_for_manifest now manifest_id v =
     (let v = prune_expired_reservations now v in
      (v, list_ex (\<lambda>r. cr_manifest_id r = Some manifest_id) (hm_values (reservations v))))"

definition capacity_rejected ::
  "string \<Rightarrow> u32 \<Rightarrow> u64 \<Rightarrow> u64 \<Rightarrow> capacity_check_result" where
  "capacity_rejected reason cpu memory storage =
     \<lparr> has_capacity = False, rejection_reason = Some reason, cr_available_cpu_milli = cpu,
       cr_available_memory_bytes = memory, cr_available_storage_bytes = storage \<rparr>"

definition verify_capacity ::
  "profile \<Rightarrow> instant \<Rightarrow> resource_request \<Rightarrow> resource_verifier
     \<Rightarrow> resource_verifier \<times> capacity_check_result option" where
  "verify_capacity prof now q v =
     (let v = prune_expired_reservations now v;
          reserved = total_reserved_resources v;
          resources = system_resources_of v;
          available_cpu = saturating_sub (available_cpu_milli resources) (fst reserved) in
      case (available_memory_bytes prof resources, available_storage_bytes prof resources) of
        (Some mem, Some sto) \<Rightarrow>
          (let available_memory = saturating_sub mem (fst (snd reserved));
               available_storage = saturating_sub sto (snd (snd reserved));
               cpu = request_total_cpu q; memory = request_total_memory q;
               storage = request_total_storage q;
               rejected = (\<lambda>reason. (v, Some (capacity_rejected reason available_cpu available_memory
                                               available_storage))) in
           if cpu > available_cpu
           then rejected (''Insufficient CPU: need '' @ dec cpu @ ''m, available ''
                          @ dec available_cpu @ ''m'')
           else if memory > available_memory
           then rejected (''Insufficient memory: need '' @ dec (memory div mega) @ '' MB, available ''
                          @ dec (available_memory div mega) @ '' MB'')
           else if storage > available_storage
           then rejected (''Insufficient storage: need '' @ dec (storage div giga) @ '' GB, available ''
                          @ dec (available_storage div giga) @ '' GB'')
           else if \<not> can_accept_more_workloads resources
           then rejected (''Maximum workload count reached: '' @ dec (running_workloads resources)
                          @ '' / '' @ dec MAX_WORKLOADS_PER_NODE)
           else
             (v, Some \<lparr> has_capacity = True, rejection_reason = None,
                        cr_available_cpu_milli = available_cpu,
                        cr_available_memory_bytes = available_memory,
                        cr_available_storage_bytes = available_storage \<rparr>))
      | _ \<Rightarrow> (v, None))"

definition get_system_resources :: "resource_verifier \<Rightarrow> system_resources" where
  "get_system_resources v = system_resources_of v"

section \<open>Reading the host\<close>

text \<open>
  The readers take the text of \<open>/proc/cpuinfo\<close>, \<open>/proc/meminfo\<close> and the output of \<open>df\<close>, or the
  error of the read; the outer option is the panic of an overflowing product.
\<close>

definition get_cpu_info :: "profile \<Rightarrow> string + string \<Rightarrow> (string + (u32 \<times> u32)) option" where
  "get_cpu_info prof contents =
     (case contents of
        Inl e \<Rightarrow> Some (Inl (''Failed to read /proc/cpuinfo: '' @ e))
      | Inr cpuinfo \<Rightarrow>
          (let num_cpus = (of_nat (length (filter (\<lambda>l. starts_with l ''processor'') (lines cpuinfo))) :: u32) in
           if num_cpus = 0 then Some (Inl ''No processors found in /proc/cpuinfo'')
           else map_option (\<lambda>milli. Inr (num_cpus, milli)) (mul_u prof num_cpus 1000)))"

fun meminfo_lines :: "profile \<Rightarrow> (string \<Rightarrow> string) \<Rightarrow> string list \<Rightarrow> (string + u64) option" where
  "meminfo_lines prof parse_err [] = Some (Inl ''MemTotal not found in /proc/meminfo'')"
| "meminfo_lines prof parse_err (l # ls) =
     (if starts_with l ''MemTotal:'' \<and> length (split_whitespace l) \<ge> 2
      then (case parse_unsigned 64 (split_whitespace l ! 1) of
              None \<Rightarrow> Some (Inl (''Failed to parse memory value: '' @ parse_err (split_whitespace l ! 1)))
            | Some kb \<Rightarrow> map_option Inr (mul_u prof (of_nat kb) 1024))
      else meminfo_lines prof parse_err ls)"

definition get_memory_info ::
  "profile \<Rightarrow> (string \<Rightarrow> string) \<Rightarrow> string + string \<Rightarrow> (string + u64) option" where
  "get_memory_info prof parse_err contents =
     (case contents of
        Inl e \<Rightarrow> Some (Inl (''Failed to read /proc/meminfo: '' @ e))
      | Inr meminfo \<Rightarrow> meminfo_lines prof parse_err (lines meminfo))"

definition get_storage_info :: "(string \<Rightarrow> string) \<Rightarrow> string + bytes \<Rightarrow> string + u64" where
  "get_storage_info parse_err output =
     (case output of
        Inl e \<Rightarrow> Inl (''Failed to execute df: '' @ e)
      | Inr stdout \<Rightarrow>
          (let ls = lines (from_utf8_lossy stdout) in
           if length ls \<ge> 2 \<and> length (split_whitespace (ls ! 1)) \<ge> 2
           then (case parse_unsigned 64 (split_whitespace (ls ! 1) ! 1) of
                   None \<Rightarrow> Inl (''Failed to parse storage value: ''
                                @ parse_err (split_whitespace (ls ! 1) ! 1))
                 | Some b \<Rightarrow> Inr (of_nat b))
           else Inl ''Failed to parse df output''))"

text \<open>
  \<open>update_allocated_resources\<close>: \<^const>\<open>None\<close> for a registry that is not there, \<open>Some None\<close> for one
  without a default engine, and otherwise what the default engine lists.
\<close>

definition add_parsed :: "nat \<Rightarrow> string \<Rightarrow> workload_info \<Rightarrow> 'a::len word \<Rightarrow> 'a word" where
  "add_parsed w key wl acc =
     (case hm_get (wi_metadata wl) key of
        None \<Rightarrow> acc
      | Some s \<Rightarrow> (case parse_unsigned w s of None \<Rightarrow> acc | Some n \<Rightarrow> saturating_add acc (of_nat n)))"

fun tally_workloads ::
  "profile \<Rightarrow> workload_info list \<Rightarrow> u32 \<times> u64 \<times> u64 \<times> u32 \<Rightarrow> (u32 \<times> u64 \<times> u64 \<times> u32) option" where
  "tally_workloads prof [] acc = Some acc"
| "tally_workloads prof (wl # ws) (cpu, mem, sto, cnt) =
     (case add_u prof cnt 1 of
        None \<Rightarrow> None
      | Some cnt' \<Rightarrow>
          tally_workloads prof ws
            (add_parsed 32 ''cpu_milli'' wl cpu, add_parsed 64 ''memory_bytes'' wl mem,
             add_parsed 64 ''storage_bytes'' wl sto, cnt'))"

definition update_allocated_resources ::
  "profile \<Rightarrow> workload_info list runtime_result option option \<Rightarrow> system_resources
     \<Rightarrow> system_resources option" where
  "update_allocated_resources prof listing r =
     (case listing of
        None \<Rightarrow> Some r
      | Some engine \<Rightarrow>
          (let ws = (case engine of Some (Inr ws) \<Rightarrow> ws | _ \<Rightarrow> []) in
           map_option
             (\<lambda>(cpu, mem, sto, cnt).
                r \<lparr> allocated_cpu_milli := cpu, allocated_memory_bytes := mem,
                    allocated_storage_bytes := sto, running_workloads := cnt \<rparr>)
             (tally_workloads prof ws (0, 0, 0, 0))))"

record host_view =
  hv_cpuinfo :: "string + string"
  hv_meminfo :: "string + string"
  hv_df :: "string + bytes"
  hv_listing :: "workload_info list runtime_result option option"

definition update_system_resources ::
  "profile \<Rightarrow> (string \<Rightarrow> string) \<Rightarrow> host_view \<Rightarrow> resource_verifier \<Rightarrow> resource_verifier option" where
  "update_system_resources prof parse_err h v =
     (case (get_cpu_info prof (hv_cpuinfo h), get_memory_info prof parse_err (hv_meminfo h)) of
        (Some cpu, Some mem) \<Rightarrow>
          (let r = system_resources_of v;
               r = (case cpu of
                      Inr (cores, milli) \<Rightarrow> r \<lparr> total_cpu_cores := cores, total_cpu_milli := milli \<rparr>
                    | Inl _ \<Rightarrow> r \<lparr> total_cpu_cores := 4, total_cpu_milli := 4000 \<rparr>);
               r = (case mem of
                      Inr m \<Rightarrow> r \<lparr> total_memory_bytes := m \<rparr>
                    | Inl _ \<Rightarrow> r \<lparr> total_memory_bytes := 8 * 1024 * 1024 * 1024 \<rparr>);
               r = (case get_storage_info parse_err (hv_df h) of
                      Inr b \<Rightarrow> r \<lparr> total_storage_bytes := b \<rparr>
                    | Inl _ \<Rightarrow> r \<lparr> total_storage_bytes := 100 * 1024 * 1024 * 1024 \<rparr>) in
           map_option (\<lambda>r. v \<lparr> system_resources_of := r \<rparr>)
             (update_allocated_resources prof (hv_listing h) r))
      | _ \<Rightarrow> None)"

section \<open>What the host offers\<close>

text \<open>Totals whose ninety per cent can be computed without overflow.\<close>

definition totals_representable :: "system_resources \<Rightarrow> bool" where
  "totals_representable r \<longleftrightarrow>
     unat (total_memory_bytes r) * 90 < 2 ^ 64 \<and> unat (total_storage_bytes r) * 90 < 2 ^ 64"

lemma unat_div_100: "unat ((w :: u64) div 100) = unat w div 100"
  by (simp add: unat_div)

lemma unat_available_cpu [arith_sat]:
  "unat (available_cpu_milli r) = unat (total_cpu_milli r) * 90 div 100 - unat (allocated_cpu_milli r)"
proof -
  have lt: "unat (total_cpu_milli r) < 2 ^ 32" using unsigned_less [of "total_cpu_milli r"] by simp
  have "unat ((ucast (total_cpu_milli r) :: u64) * 90) = unat (total_cpu_milli r) * 90"
    using lt by (simp add: unat_word_ariths unsigned_ucast_eq take_bit_eq_mod)
  then have "unat (ucast ((ucast (total_cpu_milli r) :: u64) * 90 div 100) :: u32)
      = unat (total_cpu_milli r) * 90 div 100"
    using lt by (simp add: unat_div_100 unsigned_ucast_eq take_bit_eq_mod)
  then show ?thesis
    by (simp add: available_cpu_milli_def arith_sat rv_consts)
qed

lemma available_memory_eq:
  assumes "unat (total_memory_bytes r) * 90 < 2 ^ 64"
  shows "\<exists>m. available_memory_bytes prof r = Some m
    \<and> unat m = unat (total_memory_bytes r) * 90 div 100 - 536870912 - unat (allocated_memory_bytes r)"
  using assms
  by (simp add: available_memory_bytes_def rv_consts mul_u_def arith_sat unat_div_100 unat_word_ariths)

lemma available_storage_eq:
  assumes "unat (total_storage_bytes r) * 90 < 2 ^ 64"
  shows "\<exists>m. available_storage_bytes prof r = Some m
    \<and> unat m = unat (total_storage_bytes r) * 90 div 100 - 1073741824 - unat (allocated_storage_bytes r)"
  using assms
  by (simp add: available_storage_bytes_def rv_consts mul_u_def arith_sat unat_div_100 unat_word_ariths)

section \<open>The ledger\<close>

text \<open>What the reservations add up to, without saturation.\<close>

definition reserved_sum :: "(capacity_reservation \<Rightarrow> 'a::len word) \<Rightarrow> resource_verifier \<Rightarrow> nat" where
  "reserved_sum f v = sum_list (map (\<lambda>r. unat (f r)) (hm_values (reservations v)))"

lemma fold_triple:
  "fold (\<lambda>r acc. (f (fst acc) r, g (fst (snd acc)) r, h (snd (snd acc)) r)) xs (a, b, c)
     = (fold (\<lambda>r x. f x r) xs a, fold (\<lambda>r x. g x r) xs b, fold (\<lambda>r x. h x r) xs c)"
  by (induction xs arbitrary: a b c) auto

lemma total_reserved_sums:
  "unat (fst (total_reserved_resources v)) = min (2 ^ 32 - 1) (reserved_sum cr_cpu_milli v)"
  "unat (fst (snd (total_reserved_resources v))) = min (2 ^ 64 - 1) (reserved_sum cr_memory_bytes v)"
  "unat (snd (snd (total_reserved_resources v))) = min (2 ^ 64 - 1) (reserved_sum cr_storage_bytes v)"
  unfolding total_reserved_resources_def reserved_sum_def
    fold_triple [where f = "\<lambda>a r. saturating_add a (cr_cpu_milli r)"
      and g = "\<lambda>a r. saturating_add a (cr_memory_bytes r)"
      and h = "\<lambda>a r. saturating_add a (cr_storage_bytes r)"]
  by (simp_all add: unat_fold_saturating_add)

definition fits_with :: "profile \<Rightarrow> nat \<Rightarrow> nat \<Rightarrow> nat \<Rightarrow> resource_verifier \<Rightarrow> bool" where
  "fits_with prof c m s v =
     (case (available_memory_bytes prof (system_resources_of v),
            available_storage_bytes prof (system_resources_of v)) of
        (Some mem, Some sto) \<Rightarrow>
          reserved_sum cr_cpu_milli v + c \<le> unat (available_cpu_milli (system_resources_of v))
          \<and> reserved_sum cr_memory_bytes v + m \<le> unat mem
          \<and> reserved_sum cr_storage_bytes v + s \<le> unat sto
      | _ \<Rightarrow> False)"

abbreviation ledger_fits :: "profile \<Rightarrow> resource_verifier \<Rightarrow> bool" where
  "ledger_fits prof v \<equiv> fits_with prof 0 0 0 v"

lemma sat_gt_iff:
  fixes a :: "'a::len word"
  shows "saturating_sub a t < q \<longleftrightarrow> unat a - unat t < unat q"
  by (simp add: word_less_nat_alt arith_sat)

lemma reservable_iff:
  fixes t a q :: "'a::len word"
  assumes "unat t = min (2 ^ LENGTH('a) - 1) sm" "sm \<le> unat a"
  shows "unat a - unat t < unat q \<longleftrightarrow> \<not> sm + unat q \<le> unat a"
  using assms unat_le_max [of a] by auto

lemma check_reservable_cases:
  assumes "ledger_fits prof v"
  shows "if fits_with prof (unat (request_total_cpu q)) (unat (request_total_memory q))
              (unat (request_total_storage q)) v
         then check_reservable prof q v
              = Admitted (request_total_cpu q) (request_total_memory q) (request_total_storage q)
         else \<exists>e. check_reservable prof q v = Rejected e"
proof -
  obtain mem sto where
    av: "available_memory_bytes prof (system_resources_of v) = Some mem"
        "available_storage_bytes prof (system_resources_of v) = Some sto"
    and le: "reserved_sum cr_cpu_milli v \<le> unat (available_cpu_milli (system_resources_of v))"
        "reserved_sum cr_memory_bytes v \<le> unat mem" "reserved_sum cr_storage_bytes v \<le> unat sto"
    using assms by (auto simp: fits_with_def split: option.splits)
  note sums = total_reserved_sums [of v]
  have "saturating_sub (available_cpu_milli (system_resources_of v)) (fst (total_reserved_resources v))
        < request_total_cpu q
      \<longleftrightarrow> \<not> reserved_sum cr_cpu_milli v + unat (request_total_cpu q)
          \<le> unat (available_cpu_milli (system_resources_of v))"
    unfolding sat_gt_iff by (rule reservable_iff) (use sums le in simp_all)
  moreover have "saturating_sub mem (fst (snd (total_reserved_resources v))) < request_total_memory q
      \<longleftrightarrow> \<not> reserved_sum cr_memory_bytes v + unat (request_total_memory q) \<le> unat mem"
    unfolding sat_gt_iff by (rule reservable_iff) (use sums le in simp_all)
  moreover have "saturating_sub sto (snd (snd (total_reserved_resources v))) < request_total_storage q
      \<longleftrightarrow> \<not> reserved_sum cr_storage_bytes v + unat (request_total_storage q) \<le> unat sto"
    unfolding sat_gt_iff by (rule reservable_iff) (use sums le in simp_all)
  ultimately show ?thesis
    by (simp add: check_reservable_def fits_with_def av Let_def)
qed

lemma reserved_sum_prune_le: "reserved_sum f (prune_expired_reservations t v) \<le> reserved_sum f v"
  by (simp add: reserved_sum_def prune_expired_reservations_def sum_values_retain_le)

lemma system_resources_prune [simp]:
  "system_resources_of (prune_expired_reservations t v) = system_resources_of v"
  by (simp add: prune_expired_reservations_def)

lemma fits_prune: "fits_with prof c m s v \<Longrightarrow> fits_with prof c m s (prune_expired_reservations t v)"
  using reserved_sum_prune_le [of cr_cpu_milli t v] reserved_sum_prune_le [of cr_memory_bytes t v]
    reserved_sum_prune_le [of cr_storage_bytes t v]
  by (auto simp: fits_with_def split: option.splits)

lemma refresh_amounts [simp]:
  "cr_cpu_milli (refresh_reservation t m r) = cr_cpu_milli r"
  "cr_memory_bytes (refresh_reservation t m r) = cr_memory_bytes r"
  "cr_storage_bytes (refresh_reservation t m r) = cr_storage_bytes r"
  "cr_expires_at (refresh_reservation t m r) = t + reservation_hold_duration"
  by (simp_all add: refresh_reservation_def Let_def split: option.splits)

lemma reserved_sum_refresh:
  assumes "hm_get (reservations v) k = Some r" "f r' = f r"
  shows "reserved_sum f (v \<lparr> reservations := hm_insert k r' (reservations v) \<rparr>) = reserved_sum f v"
  unfolding reserved_sum_def
  using map_values_insert_same [OF assms(1), where f = "\<lambda>r. unat (f r)" and v = r'] assms(2) by simp

lemma fits_refresh:
  assumes "hm_get (reservations v) k = Some r" "fits_with prof c m s v"
  shows "fits_with prof c m s
    (v \<lparr> reservations := hm_insert k (refresh_reservation t mf r) (reservations v) \<rparr>)"
  using assms(2) unfolding fits_with_def by (simp add: reserved_sum_refresh [OF assms(1)] split: option.splits)

lemma fits_commit:
  assumes "fits_with prof (unat c) (unat m) (unat s) v"
  shows "ledger_fits prof (reserve_commit t k mf c m s v)"
proof (cases "hm_get (reservations v) k")
  case None
  then show ?thesis
    using assms unfolding reserve_commit_def fits_with_def reserved_sum_def
    by (simp add: sum_values_insert_fresh split: option.splits)
next
  case (Some r)
  have "ledger_fits prof v" using assms by (auto simp: fits_with_def split: option.splits)
  with Some show ?thesis by (simp add: reserve_commit_def fits_refresh)
qed

lemma reserve_begin_fits:
  assumes "ledger_fits prof v"
  shows "ledger_fits prof (fst (reserve_begin prof t1 t2 k mf q v))"
  using fits_prune [OF assms] by (auto simp: reserve_begin_def Let_def fits_refresh split: option.splits)

text \<open>The three ways \<open>reserve_capacity\<close> ends when the ledger fits; it does not panic then.\<close>

lemma reserve_capacity_cases:
  fixes t1 :: instant
  assumes "ledger_fits prof v"
  defines "v' \<equiv> prune_expired_reservations t1 v"
  shows "reserve_capacity prof t1 t2 k mf q v =
    (case hm_get (reservations v') k of
       Some r \<Rightarrow> (v' \<lparr> reservations :=
                        hm_insert k (refresh_reservation t2 mf r) (reservations v') \<rparr>, Some (Inr ()))
     | None \<Rightarrow>
         if fits_with prof (unat (request_total_cpu q)) (unat (request_total_memory q))
              (unat (request_total_storage q)) v'
         then (v' \<lparr> reservations := hm_insert k
                    \<lparr> cr_cpu_milli = request_total_cpu q, cr_memory_bytes = request_total_memory q,
                      cr_storage_bytes = request_total_storage q, cr_manifest_id = mf,
                      cr_expires_at = t2 + reservation_hold_duration \<rparr> (reservations v') \<rparr>,
               Some (Inr ()))
         else (v', Some (Inl (case check_reservable prof q v' of Rejected e \<Rightarrow> e))))"
proof -
  have "ledger_fits prof v'" unfolding v'_def by (rule fits_prune) (rule assms)
  from check_reservable_cases [OF this, of q] show ?thesis
    unfolding reserve_capacity_def reserve_begin_def v'_def [symmetric]
    by (auto simp: Let_def reserve_commit_def split: option.splits if_splits)
qed

lemma reserve_capacity_fits:
  assumes "ledger_fits prof v"
  shows "ledger_fits prof (fst (reserve_capacity prof t1 t2 k mf q v))"
proof -
  let ?v = "prune_expired_reservations t1 v"
  have fit: "ledger_fits prof ?v" by (rule fits_prune) (rule assms)
  show ?thesis
  proof (cases "hm_get (reservations ?v) k")
    case (Some r)
    then show ?thesis
      using fits_refresh [OF Some fit] by (simp add: reserve_capacity_cases [OF assms])
  next
    case None
    then show ?thesis
      using fit fits_commit [where v = ?v and k = k and mf = mf and t = t2 and prof = prof]
      by (auto simp: reserve_capacity_cases [OF assms] reserve_commit_def split: if_splits)
  qed
qed

lemma system_resources_reserve [simp]:
  "system_resources_of (fst (reserve_capacity prof t1 t2 k mf q v)) = system_resources_of v"
  by (auto simp: reserve_capacity_def reserve_begin_def reserve_commit_def Let_def
      split: option.splits reserve_phase.splits)

lemma verify_capacity_state [simp]:
  "fst (verify_capacity prof t q v) = prune_expired_reservations t v"
  by (simp add: verify_capacity_def Let_def split: option.splits)

lemma has_active_state [simp]:
  "fst (has_active_reservation_for_manifest t m v) = prune_expired_reservations t v"
  by (simp add: has_active_reservation_for_manifest_def Let_def)

text \<open>A sequence of calls on the ledger between two updates of the host view.\<close>

datatype ledger_op =
    Reserve instant instant string "string option" resource_request
  | Verify instant resource_request
  | HasActive instant string

fun ledger_step :: "profile \<Rightarrow> ledger_op \<Rightarrow> resource_verifier \<Rightarrow> resource_verifier" where
  "ledger_step prof (Reserve t1 t2 k mf q) v = fst (reserve_capacity prof t1 t2 k mf q v)"
| "ledger_step prof (Verify t q) v = fst (verify_capacity prof t q v)"
| "ledger_step prof (HasActive t m) v = fst (has_active_reservation_for_manifest t m v)"

lemma ledger_step_fits: "ledger_fits prof v \<Longrightarrow> ledger_fits prof (ledger_step prof op v)"
  by (cases op) (simp_all add: reserve_capacity_fits fits_prune)

lemma ledger_step_resources [simp]:
  "system_resources_of (ledger_step prof op v) = system_resources_of v"
  by (cases op) simp_all

lemma ledger_run_fits:
  "ledger_fits prof v \<Longrightarrow>
     ledger_fits prof (fold (ledger_step prof) ops v)
     \<and> system_resources_of (fold (ledger_step prof) ops v) = system_resources_of v"
  by (induction ops arbitrary: v) (simp_all add: ledger_step_fits)

lemma ledger_fits_empty:
  assumes "reservations v = hm_empty" "totals_representable (system_resources_of v)"
  shows "ledger_fits prof v"
  using assms available_memory_eq [of "system_resources_of v" prof]
    available_storage_eq [of "system_resources_of v" prof]
  by (auto simp: fits_with_def reserved_sum_def totals_representable_def hm_empty_def hm_values_def)

section \<open>Concurrent callers\<close>

text \<open>
  Tasks inside \<open>reserve_capacity\<close> at the granularity of its locks: a task that has been admitted
  holds no lock until it commits.
\<close>

datatype reserve_task =
    Calling string "string option" resource_request
  | Holding string "string option" u32 u64 u64
  | Finished "(reserve_error + unit) option"

definition task_after :: "string \<Rightarrow> string option \<Rightarrow> reserve_phase \<Rightarrow> reserve_task" where
  "task_after k mf ph =
     (case ph of
        Refreshed \<Rightarrow> Finished (Some (Inr ()))
      | Rejected e \<Rightarrow> Finished (Some (Inl e))
      | ReservePanic \<Rightarrow> Finished None
      | Admitted c m s \<Rightarrow> Holding k mf c m s)"

inductive ledger_conc ::
  "profile \<Rightarrow> resource_verifier \<times> reserve_task list \<Rightarrow> resource_verifier \<times> reserve_task list \<Rightarrow> bool"
  for prof where
  conc_begin: "i < length ts \<Longrightarrow> ts ! i = Calling k mf q \<Longrightarrow>
     reserve_begin prof t1 t2 k mf q v = (v', ph) \<Longrightarrow>
     ledger_conc prof (v, ts) (v', ts[i := task_after k mf ph])"
| conc_commit: "i < length ts \<Longrightarrow> ts ! i = Holding k mf c m s \<Longrightarrow>
     ledger_conc prof (v, ts)
       (reserve_commit t k mf c m s v, ts[i := Finished (Some (Inr ()))])"

inductive_cases ledger_concE: "ledger_conc prof (v, ts) c"

text \<open>A task that runs alone from its call to its end computes \<open>reserve_capacity\<close>.\<close>

lemma ledger_conc_alone:
  assumes "i < length ts" "ts ! i = Calling k mf q"
    and "reserve_capacity prof t1 t2 k mf q v = (v', res)"
  shows "(ledger_conc prof)\<^sup>*\<^sup>* (v, ts) (v', ts[i := Finished res])"
proof -
  obtain v1 ph where bg: "reserve_begin prof t1 t2 k mf q v = (v1, ph)" by fastforce
  have st: "ledger_conc prof (v, ts) (v1, ts[i := task_after k mf ph])"
    by (rule conc_begin [OF assms(1,2) bg])
  show ?thesis
  proof (cases ph)
    case (Admitted c m s)
    have "ledger_conc prof (v1, ts[i := Holding k mf c m s])
        (reserve_commit t2 k mf c m s v1, ts[i := Holding k mf c m s, i := Finished (Some (Inr ()))])"
      by (rule conc_commit) (simp_all add: assms)
    with st show ?thesis
      using assms(3) Admitted bg by (auto simp: reserve_capacity_def task_after_def)
  qed (use st assms(3) bg in \<open>auto simp: reserve_capacity_def task_after_def\<close>)
qed

section \<open>Properties\<close>

text \<open>
  A node never promises more than it has. From an empty ledger, after any sequence of
  reservations, refreshes, capacity checks and activity checks, with any request and any clock
  readings, the reserved amounts add up to at most ninety per cent of the host's total, less
  the amount kept free, less what the workloads hold.
\<close>

theorem no_overbooking:
  assumes "reservations v = hm_empty"
    and "totals_representable (system_resources_of v)"
  shows "reserved_sum cr_cpu_milli (fold (ledger_step prof) ops v)
           \<le> unat (total_cpu_milli (system_resources_of v)) * 90 div 100
             - unat (allocated_cpu_milli (system_resources_of v))
    \<and> reserved_sum cr_memory_bytes (fold (ledger_step prof) ops v)
           \<le> unat (total_memory_bytes (system_resources_of v)) * 90 div 100 - 536870912
             - unat (allocated_memory_bytes (system_resources_of v))
    \<and> reserved_sum cr_storage_bytes (fold (ledger_step prof) ops v)
           \<le> unat (total_storage_bytes (system_resources_of v)) * 90 div 100 - 1073741824
             - unat (allocated_storage_bytes (system_resources_of v))"
proof -
  have "ledger_fits prof (fold (ledger_step prof) ops v)
      \<and> system_resources_of (fold (ledger_step prof) ops v) = system_resources_of v"
    by (rule ledger_run_fits) (rule ledger_fits_empty [OF assms])
  then show ?thesis
    using assms(2) available_memory_eq [of "system_resources_of v" prof]
      available_storage_eq [of "system_resources_of v" prof]
    by (auto simp: fits_with_def totals_representable_def unat_available_cpu split: option.splits)
qed

text \<open>
  (C10) Admission is exact. For a request that holds no live reservation, \<open>reserve_capacity\<close>
  answers Ok exactly when the live reservations plus the request, per-replica amount times
  replicas, fit the host in the unbounded naturals (a product above the type's maximum counts
  as that maximum); a refusal leaves the live reservations as they are.
\<close>

theorem reserve_capacity_exact:
  assumes "ledger_fits prof v"
    and "hm_get (reservations (prune_expired_reservations t1 v)) k = None"
  shows "(snd (reserve_capacity prof t1 t2 k mf q v) = Some (Inr ())
      \<longleftrightarrow> fits_with prof
            (min (2 ^ 32 - 1) (unat (rr_cpu_milli q) * unat (rr_replicas q)))
            (min (2 ^ 64 - 1) (unat (rr_memory_bytes q) * unat (rr_replicas q)))
            (min (2 ^ 64 - 1) (unat (rr_storage_bytes q) * unat (rr_replicas q)))
            (prune_expired_reservations t1 v))
    \<and> (snd (reserve_capacity prof t1 t2 k mf q v) \<noteq> Some (Inr ())
      \<longrightarrow> (\<exists>e. snd (reserve_capacity prof t1 t2 k mf q v) = Some (Inl e))
          \<and> fst (reserve_capacity prof t1 t2 k mf q v) = prune_expired_reservations t1 v)"
proof -
  have "unat (request_total_cpu q) = min (2 ^ 32 - 1) (unat (rr_cpu_milli q) * unat (rr_replicas q))"
    "unat (request_total_memory q) = min (2 ^ 64 - 1) (unat (rr_memory_bytes q) * unat (rr_replicas q))"
    "unat (request_total_storage q) = min (2 ^ 64 - 1) (unat (rr_storage_bytes q) * unat (rr_replicas q))"
    by (simp_all add: request_total_cpu_def request_total_memory_def request_total_storage_def arith_sat)
  then show ?thesis
    by (simp add: reserve_capacity_cases [OF assms(1)] assms(2))
qed

lemma verify_capacity_Some:
  assumes "snd (verify_capacity prof t q v) = Some r" "has_capacity r"
  shows "\<exists>c m s. check_reservable prof q (prune_expired_reservations t v) = Admitted c m s"
  using assms
  by (auto simp: verify_capacity_def check_reservable_def capacity_rejected_def Let_def
      split: option.splits if_splits)

lemma saturating_sub_anti:
  "unat t' \<le> unat t \<Longrightarrow> \<not> saturating_sub a t < q \<Longrightarrow> \<not> saturating_sub a t' < (q :: 'a::len word)"
  by (auto simp: sat_gt_iff)

lemma check_reservable_prune:
  assumes "check_reservable prof q v = Admitted c m s"
  shows "check_reservable prof q (prune_expired_reservations t v) = Admitted c m s"
proof -
  let ?r = "total_reserved_resources v" and ?r' = "total_reserved_resources (prune_expired_reservations t v)"
  have "unat (fst ?r') \<le> unat (fst ?r)" "unat (fst (snd ?r')) \<le> unat (fst (snd ?r))"
    "unat (snd (snd ?r')) \<le> unat (snd (snd ?r))"
    unfolding total_reserved_sums
    by (rule min.mono [OF order_refl reserved_sum_prune_le])+
  with assms show ?thesis
    by (auto simp: check_reservable_def Let_def split: option.splits if_splits
        dest: saturating_sub_anti)
qed

text \<open>
  A positive check is a promise: when \<open>verify_capacity\<close> reports capacity for a request, a
  \<open>reserve_capacity\<close> for it that follows, at any later time and under any id, succeeds.
\<close>

theorem verify_then_reserve:
  assumes "snd (verify_capacity prof t q v) = Some r" "has_capacity r"
  shows "snd (reserve_capacity prof t1 t2 k mf q (fst (verify_capacity prof t q v))) = Some (Inr ())"
  using verify_capacity_Some [OF assms]
  by (auto simp: reserve_capacity_def reserve_begin_def Let_def check_reservable_prune
      split: option.splits)

lemma check_reservable_not_Refreshed: "check_reservable prof q v \<noteq> Refreshed"
  by (simp add: check_reservable_def Let_def split: option.splits)

lemma reserve_capacity_Ok_entry:
  assumes "snd (reserve_capacity prof t1 t2 k mf q v) = Some (Inr ())" "hm_wf (reservations v)"
  shows "\<exists>r. hm_get (reservations (fst (reserve_capacity prof t1 t2 k mf q v))) k = Some r
      \<and> cr_expires_at r = t2 + reservation_hold_duration
      \<and> (\<forall>m. mf = Some m \<longrightarrow> cr_manifest_id r = Some m)"
    and "\<And>k' r. k' \<noteq> k \<Longrightarrow>
        hm_get (reservations (fst (reserve_capacity prof t1 t2 k mf q v))) k' = Some r
        \<Longrightarrow> hm_get (reservations v) k' = Some r"
    and "hm_wf (reservations (fst (reserve_capacity prof t1 t2 k mf q v)))"
  using assms
  by (auto simp: reserve_capacity_def reserve_begin_def reserve_commit_def prune_expired_reservations_def
      Let_def hmi.get_retain_Some refresh_reservation_def check_reservable_not_Refreshed split: option.splits reserve_phase.splits)

text \<open>
  A reservation lasts three seconds and no longer. After a successful reservation for
  manifest \<open>m\<close> at time \<open>t2\<close>, where no other request holds one for \<open>m\<close>, the activity check at
  time \<open>t\<close> answers yes exactly when \<open>t\<close> is before \<open>t2\<close> plus three seconds.
\<close>

theorem reservation_lifetime:
  assumes "hm_wf (reservations v)"
    and "snd (reserve_capacity prof t1 t2 k (Some m) q v) = Some (Inr ())"
    and "\<And>k' r. k' \<noteq> k \<Longrightarrow> hm_get (reservations v) k' = Some r \<Longrightarrow> cr_manifest_id r \<noteq> Some m"
  shows "snd (has_active_reservation_for_manifest t m
             (fst (reserve_capacity prof t1 t2 k (Some m) q v)))
    \<longleftrightarrow> t < t2 + 3 * 1000000000"
proof -
  let ?v = "fst (reserve_capacity prof t1 t2 k (Some m) q v)"
  note ok = reserve_capacity_Ok_entry [OF assms(2,1)]
  have "snd (has_active_reservation_for_manifest t m ?v) \<longleftrightarrow>
      (\<exists>k' r. hm_get (reservations ?v) k' = Some r \<and> t < cr_expires_at r \<and> cr_manifest_id r = Some m)"
    using ok(3)
    by (auto simp: has_active_reservation_for_manifest_def prune_expired_reservations_def Let_def
        list_ex_iff ex_hm_values hmi.get_retain_Some)
  also have "\<dots> \<longleftrightarrow> t < t2 + reservation_hold_duration"
    using ok(1,2) assms(3) by (metis option.inject)
  finally show ?thesis
    by (simp add: reservation_hold_duration_def RESERVATION_HOLD_SECS_def)
qed

text \<open>
  The two critical sections of \<open>reserve_capacity\<close> are not one: two concurrent callers whose
  requests fit once but not twice can both be told Ok, and the ledger is then overbooked. The
  bound of the ledger therefore rests on its callers, which run one call at a time.
\<close>

theorem reserve_race:
  assumes "reservations v = hm_empty" "k1 \<noteq> k2"
    and "fits_with prof (unat (request_total_cpu q)) (unat (request_total_memory q))
           (unat (request_total_storage q)) v"
    and "\<not> fits_with prof (2 * unat (request_total_cpu q)) (2 * unat (request_total_memory q))
           (2 * unat (request_total_storage q)) v"
  shows "\<exists>v'. (ledger_conc prof)\<^sup>*\<^sup>*
      (v, [Calling k1 mf1 q, Calling k2 mf2 q])
      (v', [Finished (Some (Inr ())), Finished (Some (Inr ()))])
    \<and> \<not> ledger_fits prof v'"
proof -
  let ?c = "request_total_cpu q" and ?m = "request_total_memory q" and ?s = "request_total_storage q"
  have pr: "prune_expired_reservations 0 v = v"
    using assms(1) by (simp add: prune_expired_reservations_def hm_retain_def hm_empty_def)
  have "ledger_fits prof v" using assms(3) by (auto simp: fits_with_def split: option.splits)
  with assms(3) have adm: "check_reservable prof q v = Admitted ?c ?m ?s"
    using check_reservable_cases by metis
  have bg: "reserve_begin prof 0 0 k mf q v = (v, Admitted ?c ?m ?s)" for k mf
    using adm by (simp add: reserve_begin_def pr assms(1) Let_def)
  let ?H1 = "Holding k1 mf1 ?c ?m ?s" and ?H2 = "Holding k2 mf2 ?c ?m ?s"
  let ?ok = "Finished (Some (Inr ()))"
  let ?v1 = "reserve_commit 0 k1 mf1 ?c ?m ?s v"
  let ?v2 = "reserve_commit 0 k2 mf2 ?c ?m ?s ?v1"
  have "ledger_conc prof (v, [Calling k1 mf1 q, Calling k2 mf2 q]) (v, [?H1, Calling k2 mf2 q])"
    using conc_begin [where i = 0 and ts = "[Calling k1 mf1 q, Calling k2 mf2 q]", OF _ _ bg] by (fastforce simp: task_after_def)
  moreover have "ledger_conc prof (v, [?H1, Calling k2 mf2 q]) (v, [?H1, ?H2])"
    using conc_begin [where i = 1 and ts = "[?H1, Calling k2 mf2 q]", OF _ _ bg] by (fastforce simp: task_after_def)
  moreover have "ledger_conc prof (v, [?H1, ?H2]) (?v1, [?ok, ?H2])"
    using conc_commit [where i = 0 and ts = "[?H1, ?H2]"] by fastforce
  moreover have "ledger_conc prof (?v1, [?ok, ?H2]) (?v2, [?ok, ?ok])"
    using conc_commit [where i = 1 and ts = "[?ok, ?H2]"] by fastforce
  ultimately have "(ledger_conc prof)\<^sup>*\<^sup>*
      (v, [Calling k1 mf1 q, Calling k2 mf2 q]) (?v2, [?ok, ?ok])"
    by (meson converse_rtranclp_into_rtranclp rtranclp.rtrancl_refl)
  moreover have "\<not> ledger_fits prof ?v2"
    using assms(1,2,4)
    by (auto simp: reserve_commit_def fits_with_def reserved_sum_def hm_insert_def hm_empty_def
        hm_values_def hm_get_def split: option.splits)
  ultimately show ?thesis by blast
qed

section \<open>Concrete runs\<close>

lemmas ledger_eval = verifier_new_def resource_request_new_def rv_consts totals_representable_def
  hm_empty_def hm_get_def hm_insert_def hm_retain_def hm_values_def hm_wf_def
  reserve_capacity_def reserve_begin_def reserve_commit_def prune_expired_reservations_def
  check_reservable_def total_reserved_resources_def verify_capacity_def fits_with_def
  reserved_sum_def available_cpu_milli_def available_memory_bytes_def available_storage_bytes_def
  request_total_cpu_def request_total_memory_def request_total_storage_def
  saturating_sub_def saturating_add_def saturating_mul_def mul_u_def
  can_accept_more_workloads_def reservation_hold_duration_def RESERVATION_HOLD_SECS_def Let_def

text \<open>A host with four cores, 8 GB of memory and 100 GB of storage, and two requests.\<close>

definition host4 :: resource_verifier where
  "host4 = verifier_new \<lparr> system_resources_of :=
     (system_resources_of verifier_new) \<lparr> total_cpu_cores := 4, total_cpu_milli := 4000,
       total_memory_bytes := 8589934592, total_storage_bytes := 107374182400 \<rparr> \<rparr>"

definition small_req :: resource_request where
  "small_req = resource_request_new (Some 500) None None 2"

definition big_req :: resource_request where
  "big_req = resource_request_new (Some 2000) None None 1"

lemmas host4_eval = host4_def small_req_def big_req_def ledger_eval

theorem no_overbooking_witness:
  "reserved_sum cr_cpu_milli (fold (ledger_step Debug)
      [Reserve 5 6 ''a'' None small_req, Reserve 7 8 ''b'' None big_req, Reserve 9 9 ''c'' None big_req] host4)
     = 3000
   \<and> (3000 :: nat) \<le> unat (total_cpu_milli (system_resources_of host4)) * 90 div 100
             - unat (allocated_cpu_milli (system_resources_of host4))"
proof
  have h: "reservations host4 = hm_empty" "totals_representable (system_resources_of host4)" by (simp_all add: host4_eval)
  show r: "reserved_sum cr_cpu_milli (fold (ledger_step Debug)
      [Reserve 5 6 ''a'' None small_req, Reserve 7 8 ''b'' None big_req, Reserve 9 9 ''c'' None big_req] host4)
     = 3000" by (simp add: host4_eval)
  show "(3000 :: nat) \<le> unat (total_cpu_milli (system_resources_of host4)) * 90 div 100
             - unat (allocated_cpu_milli (system_resources_of host4))"
    using no_overbooking [OF h, of Debug "[Reserve 5 6 ''a'' None small_req,
      Reserve 7 8 ''b'' None big_req, Reserve 9 9 ''c'' None big_req]"] unfolding r by blast
qed

theorem reserve_capacity_exact_witness:
  "snd (reserve_capacity Debug 5 6 ''a'' None small_req host4) = Some (Inr ())"
proof -
  have h: "ledger_fits Debug host4"
    "hm_get (reservations (prune_expired_reservations 5 host4)) ''a'' = None" by (simp_all add: host4_eval)
  show ?thesis
    using reserve_capacity_exact [OF h, of 6 None small_req] by (simp add: host4_eval)
qed

theorem verify_then_reserve_witness:
  "snd (reserve_capacity Debug 9 9 ''a'' None big_req (fst (verify_capacity Debug 5 big_req host4)))
     = Some (Inr ())"
proof -
  obtain r where r: "snd (verify_capacity Debug 5 big_req host4) = Some r" "has_capacity r"
  proof
    show "snd (verify_capacity Debug 5 big_req host4)
      = Some (the (snd (verify_capacity Debug 5 big_req host4)))" by (simp add: host4_eval)
    show "has_capacity (the (snd (verify_capacity Debug 5 big_req host4)))" by (simp add: host4_eval)
  qed
  show ?thesis by (rule verify_then_reserve [OF r])
qed

theorem reservation_lifetime_witness:
  "snd (has_active_reservation_for_manifest 3000000007 ''m''
      (fst (reserve_capacity Debug 5 8 ''a'' (Some ''m'') small_req host4)))
   \<and> \<not> snd (has_active_reservation_for_manifest 3000000008 ''m''
      (fst (reserve_capacity Debug 5 8 ''a'' (Some ''m'') small_req host4)))"
proof -
  have h: "hm_wf (reservations host4)"
    "snd (reserve_capacity Debug 5 8 ''a'' (Some ''m'') small_req host4) = Some (Inr ())" by (simp_all add: host4_eval)
  have "reservations host4 = hm_empty" by (simp add: host4_eval)
  then have n: "\<And>k' r. k' \<noteq> ''a'' \<Longrightarrow> hm_get (reservations host4) k' = Some r \<Longrightarrow> cr_manifest_id r \<noteq> Some ''m''"
    by simp
  show ?thesis using reservation_lifetime [OF h n] by simp
qed

theorem reserve_race_witness:
  "\<exists>v'. (ledger_conc Debug)\<^sup>*\<^sup>*
      (host4, [Calling ''a'' None big_req, Calling ''b'' None big_req])
      (v', [Finished (Some (Inr ())), Finished (Some (Inr ()))])
    \<and> \<not> ledger_fits Debug v'"
proof (rule reserve_race)
  show "reservations host4 = hm_empty" "''a'' \<noteq> (''b'' :: string)" by (simp_all add: host4_eval)
  show "fits_with Debug (unat (request_total_cpu big_req)) (unat (request_total_memory big_req))
           (unat (request_total_storage big_req)) host4" by (simp add: host4_eval)
  show "\<not> fits_with Debug (2 * unat (request_total_cpu big_req)) (2 * unat (request_total_memory big_req))
           (2 * unat (request_total_storage big_req)) host4" by (simp add: host4_eval)
qed

end
