(* ===== verification/Mock_Engine.thy ===== *)
theory Mock_Engine
  imports Runtime
begin

text \<open>
  The in-memory engine, \<open>machine/src/runtime/mock.rs\<close>: its store of workloads, manifest
  metadata, and every method of the trait \<open>RuntimeEngine\<close>. The JSON and YAML parsers and the
  random draw of \<open>should_deployment_succeed\<close> are arguments; clock readings are arguments too,
  one per call of \<open>SystemTime::now\<close>. The theory closes with the interpretation of the locale
  \<open>runtime_engine\<close> on these definitions.
\<close>

record mock_config =
  deployment_success_rate :: f64_bits
  deployment_delay_ms :: u64
  simulate_ports :: bool
  default_ports :: "port_mapping list"

record mock_workload =
  mw_info :: workload_info
  mw_config :: deployment_config

record mock_engine =
  me_workloads :: "(string, mock_workload) hmap"
  me_config :: mock_config

text \<open>The bits of the floating-point number 1.0 are \<open>0x3FF0000000000000\<close>.\<close>

definition mock_config_default :: mock_config where
  "mock_config_default =
     \<lparr> deployment_success_rate = 0x3FF0000000000000,
       deployment_delay_ms = 100,
       simulate_ports = True,
       default_ports = [\<lparr> container_port = 80, host_port = Some 8080, pm_protocol = ''tcp'' \<rparr>] \<rparr>"

definition mock_with_config :: "mock_config \<Rightarrow> mock_engine" where
  "mock_with_config cfg = \<lparr> me_workloads = hm_empty, me_config = cfg \<rparr>"

definition mock_new :: mock_engine where
  "mock_new = mock_with_config mock_config_default"

definition workload_count :: "mock_engine \<Rightarrow> nat" where
  "workload_count e = length (me_workloads e)"

definition get_workloads_by_peer :: "string \<Rightarrow> mock_engine \<Rightarrow> mock_workload list" where
  "get_workloads_by_peer peer e =
     filter (\<lambda>w. deployed_by_peer peer (mw_info w)) (hm_values (me_workloads e))"

definition clear_workloads :: "mock_engine \<Rightarrow> mock_engine" where
  "clear_workloads e = e \<lparr> me_workloads := hm_empty \<rparr>"

definition get_workload_config :: "string \<Rightarrow> mock_engine \<Rightarrow> deployment_config option" where
  "get_workload_config i e = map_option mw_config (hm_get (me_workloads e) i)"

section \<open>Manifest metadata\<close>

type_synonym json_parser = "string \<Rightarrow> json option"

definition put_opt :: "string \<Rightarrow> string option \<Rightarrow> (string, string) hmap \<Rightarrow> (string, string) hmap" where
  "put_opt k v m = (case v of None \<Rightarrow> m | Some s \<Rightarrow> hm_insert k s m)"

definition metadata_of_json :: "json \<Rightarrow> (string, string) hmap" where
  "metadata_of_json v =
     (let m = put_opt ''kind'' (json_get_str ''kind'' v) hm_empty;
          m = put_opt ''apiVersion'' (json_get_str ''apiVersion'' v) m in
      case Option.bind (json_get ''metadata'' v) json_as_object of
        None \<Rightarrow> m
      | Some fs \<Rightarrow>
          (let m = put_opt ''name'' (json_get_str ''name'' (JObject fs)) m in
           put_opt ''namespace'' (json_get_str ''namespace'' (JObject fs)) m))"

definition metadata_of_line :: "string \<Rightarrow> (string, string) hmap \<Rightarrow> (string, string) hmap" where
  "metadata_of_line l m =
     (let l = trim l in
      if starts_with l ''kind:''
      then put_opt ''kind'' (map_option trim (strip_prefix l ''kind:'')) m
      else if starts_with l ''apiVersion:''
      then put_opt ''apiVersion'' (map_option trim (strip_prefix l ''apiVersion:'')) m
      else if contains_str l ''name:''
      then (case split_str ''name:'' l of
              _ # name_part # _ \<Rightarrow>
                (let value = trim name_part in
                 if value = [] then m else hm_insert ''name'' value m)
            | _ \<Rightarrow> m)
      else m)"

definition parse_manifest_metadata :: "json_parser \<Rightarrow> bytes \<Rightarrow> (string, string) hmap" where
  "parse_manifest_metadata parse_json content =
     (let s = from_utf8_lossy content in
      case parse_json s of
        Some v \<Rightarrow> metadata_of_json v
      | None \<Rightarrow> fold metadata_of_line (lines s) hm_empty)"

definition manifest_name :: "json_parser \<Rightarrow> bytes \<Rightarrow> string" where
  "manifest_name parse_json content =
     (case hm_get (parse_manifest_metadata parse_json content) ''name'' of
        Some n \<Rightarrow> n | None \<Rightarrow> ''unnamed'')"

definition generate_workload_id :: "json_parser \<Rightarrow> string \<Rightarrow> bytes \<Rightarrow> string" where
  "generate_workload_id parse_json manifest_id content =
     ''mock-'' @ manifest_name parse_json content @ ''-'' @ manifest_id"

definition generate_workload_id_with_peer :: "json_parser \<Rightarrow> string \<Rightarrow> bytes \<Rightarrow> string \<Rightarrow> string" where
  "generate_workload_id_with_peer parse_json manifest_id content peer_str =
     (let peer_short = (if 12 < length peer_str then drop (length peer_str - 12) peer_str
                        else peer_str) in
      ''mock-'' @ manifest_name parse_json content @ ''-'' @ manifest_id @ ''-'' @ peer_short)"

definition generate_port_mappings :: "mock_engine \<Rightarrow> port_mapping list" where
  "generate_port_mappings e =
     (if simulate_ports (me_config e) then default_ports (me_config e) else [])"

section \<open>The methods of the engine\<close>

definition mock_deploy_workload_with_peer ::
  "json_parser \<Rightarrow> bool \<Rightarrow> system_time \<Rightarrow> string \<Rightarrow> bytes \<Rightarrow> deployment_config \<Rightarrow> string \<Rightarrow> mock_engine
     \<Rightarrow> mock_engine \<times> workload_info runtime_result" where
  "mock_deploy_workload_with_peer parse_json succeeds now manifest_id content config peer e =
     (if \<not> succeeds then (e, Inl (DeploymentFailed ''Mock deployment failure''))
      else
        (let workload_id = generate_workload_id_with_peer parse_json manifest_id content peer;
             metadata = hm_insert ''local_peer_id'' peer (parse_manifest_metadata parse_json content);
             info = \<lparr> wi_id = workload_id, wi_manifest_id = manifest_id, wi_status = Running,
                      wi_metadata = metadata, wi_created_at = now, wi_updated_at = now,
                      wi_ports = generate_port_mappings e \<rparr> in
         (e \<lparr> me_workloads :=
                hm_insert workload_id \<lparr> mw_info = info, mw_config = config \<rparr> (me_workloads e) \<rparr>,
          Inr info)))"

definition mock_validate_manifest :: "(string \<Rightarrow> bool) \<Rightarrow> bytes \<Rightarrow> unit runtime_result" where
  "mock_validate_manifest yaml_ok content =
     (let s = from_utf8_lossy content in
      if trim s = [] then Inl (InvalidManifest ''Empty manifest'')
      else if \<not> yaml_ok s then Inl (InvalidManifest ''Invalid YAML format'')
      else Inr ())"

definition mock_deploy_workload ::
  "json_parser \<Rightarrow> (string \<Rightarrow> bool) \<Rightarrow> bool \<Rightarrow> system_time \<Rightarrow> string \<Rightarrow> bytes \<Rightarrow> deployment_config
     \<Rightarrow> mock_engine \<Rightarrow> mock_engine \<times> workload_info runtime_result" where
  "mock_deploy_workload parse_json yaml_ok succeeds now manifest_id content config e =
     (case mock_validate_manifest yaml_ok content of
        Inl err \<Rightarrow> (e, Inl err)
      | Inr _ \<Rightarrow>
          if \<not> succeeds then (e, Inl (DeploymentFailed ''Mock deployment failure''))
          else
            (let workload_id = generate_workload_id parse_json manifest_id content;
                 info = \<lparr> wi_id = workload_id, wi_manifest_id = manifest_id, wi_status = Running,
                          wi_metadata = parse_manifest_metadata parse_json content,
                          wi_created_at = now, wi_updated_at = now,
                          wi_ports = generate_port_mappings e \<rparr> in
             (e \<lparr> me_workloads :=
                    hm_insert workload_id \<lparr> mw_info = info, mw_config = config \<rparr> (me_workloads e) \<rparr>,
              Inr info)))"

definition mock_get_workload_status ::
  "system_time \<Rightarrow> string \<Rightarrow> mock_engine \<Rightarrow> workload_info runtime_result" where
  "mock_get_workload_status now i e =
     (case hm_get (me_workloads e) i of
        Some w \<Rightarrow> Inr ((mw_info w) \<lparr> wi_updated_at := now \<rparr>)
      | None \<Rightarrow> Inl (WorkloadNotFound i))"

definition mock_list_workloads ::
  "(nat \<Rightarrow> system_time) \<Rightarrow> mock_engine \<Rightarrow> workload_info list runtime_result" where
  "mock_list_workloads clock e =
     Inr (sort_key wi_created_at
       (map (\<lambda>(i, w). (mw_info w) \<lparr> wi_updated_at := clock i \<rparr>)
          (enumerate 0 (hm_values (me_workloads e)))))"

definition mock_remove_workload :: "string \<Rightarrow> mock_engine \<Rightarrow> mock_engine \<times> unit runtime_result" where
  "mock_remove_workload i e =
     (case hm_get (me_workloads e) i of
        Some _ \<Rightarrow> (e \<lparr> me_workloads := hm_remove i (me_workloads e) \<rparr>, Inr ())
      | None \<Rightarrow> (e, Inl (WorkloadNotFound i)))"

definition mock_log_lines :: "string list" where
  "mock_log_lines =
     [''2024-01-01T00:00:00Z [INFO] Mock workload started'',
      ''2024-01-01T00:00:01Z [INFO] Initializing services'',
      ''2024-01-01T00:00:02Z [INFO] Services ready'',
      ''2024-01-01T00:00:03Z [INFO] Workload running normally'',
      ''2024-01-01T00:00:04Z [DEBUG] Processing requests'',
      ''2024-01-01T00:00:05Z [INFO] Health check passed'']"

definition mock_get_workload_logs :: "string \<Rightarrow> nat option \<Rightarrow> mock_engine \<Rightarrow> string runtime_result" where
  "mock_get_workload_logs i tail e =
     (case hm_get (me_workloads e) i of
        None \<Rightarrow> Inl (WorkloadNotFound i)
      | Some w \<Rightarrow>
          (let log_content = (case tail of
                 Some n \<Rightarrow> join nl (rev (take n (rev mock_log_lines)))
               | None \<Rightarrow> join nl mock_log_lines) in
           Inr (log_content @ nl @ ''2024-01-01T00:00:06Z [INFO] Mock logs for workload '' @ i
                @ '' (manifest_id: '' @ wi_manifest_id (mw_info w) @ '')'')))"

definition get_or :: "string \<Rightarrow> string \<Rightarrow> (string, string) hmap \<Rightarrow> string" where
  "get_or k d m = (case hm_get m k of Some v \<Rightarrow> v | None \<Rightarrow> d)"

definition quoted :: "string \<Rightarrow> string" where
  "quoted s = [CHR 0x22] @ s @ [CHR 0x22]"

definition export_header :: "mock_workload \<Rightarrow> string" where
  "export_header w =
     (let info = mw_info w; md = wi_metadata info; name = get_or ''name'' (wi_id info) md in
      join nl
       [''apiVersion: '' @ get_or ''apiVersion'' ''apps/v1'' md,
        ''kind: '' @ get_or ''kind'' ''Deployment'' md,
        ''metadata:'',
        ''  name: '' @ name,
        ''  namespace: '' @ get_or ''namespace'' ''default'' md,
        ''  labels:'',
        ''    beemesh.io/workload-id: '' @ wi_id info,
        ''    beemesh.io/manifest-id: '' @ wi_manifest_id info,
        ''    beemesh.io/generated: '' @ quoted ''true'',
        ''spec:'',
        ''  replicas: '' @ to_decimal (unat (dc_replicas (mw_config w))),
        ''  selector:'',
        ''    matchLabels:'',
        ''      app: '' @ name,
        ''  template:'',
        ''    metadata:'',
        ''      labels:'',
        ''        app: '' @ name,
        ''        beemesh.io/workload-id: '' @ wi_id info,
        ''    spec:'',
        ''      containers:'',
        ''      - name: mock-container'',
        ''        image: mock:latest'',
        ''        ports:''])"

definition export_ports :: "port_mapping list \<Rightarrow> string" where
  "export_ports ps =
     (if ps \<noteq> []
      then concat (map (\<lambda>p. nl @ ''        - containerPort: '' @ to_decimal (unat (container_port p))
                           @ nl @ ''          protocol: '' @ pm_protocol p) ps)
      else nl @ ''        - containerPort: 80'' @ nl @ ''          protocol: TCP'')"

definition export_env :: "(string, string) hmap \<Rightarrow> string" where
  "export_env env =
     (if env = [] then []
      else nl @ ''        env:''
           @ concat (map (\<lambda>(k, v). nl @ ''        - name: '' @ k
                            @ nl @ ''          value: '' @ quoted v) env))"

definition export_limits :: "(f64_bits \<Rightarrow> string) \<Rightarrow> resource_limits \<Rightarrow> string" where
  "export_limits fmt_f64 r =
     (if rl_cpu r = None \<and> rl_memory r = None then []
      else nl @ ''        resources:'' @ nl @ ''          limits:''
           @ (case rl_cpu r of None \<Rightarrow> []
              | Some c \<Rightarrow> nl @ ''            cpu: '' @ quoted (fmt_f64 c))
           @ (case rl_memory r of None \<Rightarrow> []
              | Some m \<Rightarrow> nl @ ''            memory: '' @ quoted (to_decimal (unat m))))"

text \<open>\<open>fmt_f64\<close> is the standard library's decimal form of a floating-point number.\<close>

definition mock_export_manifest ::
  "(f64_bits \<Rightarrow> string) \<Rightarrow> string \<Rightarrow> mock_engine \<Rightarrow> bytes runtime_result" where
  "mock_export_manifest fmt_f64 i e =
     (case hm_get (me_workloads e) i of
        None \<Rightarrow> Inl (WorkloadNotFound i)
      | Some w \<Rightarrow>
          Inr (bytes_of_string
            (export_header w @ export_ports (wi_ports (mw_info w))
             @ export_env (dc_env (mw_config w)) @ export_limits fmt_f64 (dc_resources (mw_config w)))))"

section \<open>Invariant and contract\<close>

text \<open>Every workload is filed under its own id.\<close>

definition mock_ok :: "mock_engine \<Rightarrow> bool" where
  "mock_ok e \<longleftrightarrow> hm_wf (me_workloads e)
     \<and> (\<forall>i w. hm_get (me_workloads e) i = Some w \<longrightarrow> wi_id (mw_info w) = i)"

definition mock_infos :: "mock_engine \<Rightarrow> workload_info list" where
  "mock_infos e = map mw_info (hm_values (me_workloads e))"

lemma mock_ok_new: "mock_ok mock_new"
  by (simp add: mock_ok_def mock_new_def mock_with_config_def)

lemma mock_ok_deploy: "mock_ok e \<Longrightarrow> mock_ok (fst (mock_deploy_workload pj y ok now mid c cfg e))"
  by (auto simp: mock_ok_def mock_deploy_workload_def Let_def split: sum.splits)

lemma mock_ok_deploy_with_peer:
  "mock_ok e \<Longrightarrow> mock_ok (fst (mock_deploy_workload_with_peer pj ok now mid c cfg p e))"
  by (auto simp: mock_ok_def mock_deploy_workload_with_peer_def Let_def)

lemma mock_ok_remove: "mock_ok e \<Longrightarrow> mock_ok (fst (mock_remove_workload i e))"
  by (auto simp: mock_ok_def mock_remove_workload_def split: option.splits)

lemma mock_ok_clear: "mock_ok (clear_workloads e)"
  by (simp add: mock_ok_def clear_workloads_def)

lemma mock_infos_mem:
  assumes "mock_ok e"
  shows "w \<in> set (mock_infos e) \<longleftrightarrow>
     (\<exists>v. hm_get (me_workloads e) (wi_id w) = Some v \<and> mw_info v = w)"
proof -
  have wf: "hm_wf (me_workloads e)"
    and ids: "\<And>i v. hm_get (me_workloads e) i = Some v \<Longrightarrow> wi_id (mw_info v) = i"
    using assms by (simp_all add: mock_ok_def)
  have "w \<in> set (mock_infos e) \<longleftrightarrow> (\<exists>v \<in> set (hm_values (me_workloads e)). mw_info v = w)"
    unfolding mock_infos_def by auto
  also have "\<dots> \<longleftrightarrow> (\<exists>i v. hm_get (me_workloads e) i = Some v \<and> mw_info v = w)"
    unfolding Bex_def set_hm_values [OF wf] by blast
  finally show ?thesis using ids by blast
qed

lemma mock_list_ids:
  "set (map (\<lambda>w. (wi_id w, wi_manifest_id w)) (projr (mock_list_workloads clock e)))
     = set (map (\<lambda>w. (wi_id w, wi_manifest_id w)) (mock_infos e))"
proof -
  let ?f = "\<lambda>w. (wi_id w, wi_manifest_id w)" and ?ws = "hm_values (me_workloads e)"
  have "?f ` (\<lambda>(i, w). (mw_info w) \<lparr> wi_updated_at := clock i \<rparr>) ` set (enumerate 0 ?ws)
      = (\<lambda>w. ?f (mw_info w)) ` snd ` set (enumerate 0 ?ws)"
    by (simp add: image_image case_prod_unfold)
  also have "snd ` set (enumerate 0 ?ws) = set ?ws"
    by (metis list.set_map map_snd_enumerate)
  finally show ?thesis
    by (simp add: mock_list_workloads_def mock_infos_def image_image)
qed

lemma mock_list_distinct:
  assumes "mock_ok e" "mock_list_workloads clock e = Inr ws"
  shows "distinct (map wi_id ws)"
proof -
  let ?vs = "hm_values (me_workloads e)"
  let ?ws = "map (\<lambda>(i, w). (mw_info w) \<lparr> wi_updated_at := clock i \<rparr>) (enumerate 0 ?vs)"
  have "mset ws = mset ?ws" using assms(2) by (auto simp: mock_list_workloads_def)
  then have "mset (map wi_id ws) = mset (map wi_id ?ws)" unfolding mset_map by (rule arg_cong)
  moreover have "map wi_id ?ws = map (\<lambda>w. wi_id (mw_info w)) (map snd (enumerate 0 ?vs))"
    unfolding map_map comp_def case_prod_unfold by simp
  moreover have "map (\<lambda>w. wi_id (mw_info w)) ?vs = map fst (me_workloads e)"
    using assms(1) by (auto simp: mock_ok_def hm_values_def hm_mem_iff [symmetric])
  moreover have "distinct (map fst (me_workloads e))" using assms(1) by (simp add: mock_ok_def hm_wf_def)
  ultimately show ?thesis by (metis map_snd_enumerate mset_eq_imp_distinct_iff)
qed

lemma mock_ids_unique:
  assumes "mock_ok e"
  shows "inj_on wi_id (set (mock_infos e))"
proof (rule inj_onI)
  fix w w' assume "w \<in> set (mock_infos e)" "w' \<in> set (mock_infos e)" and eq: "wi_id w = wi_id w'"
  then obtain v v' where "hm_get (me_workloads e) (wi_id w) = Some v" "mw_info v = w"
      "hm_get (me_workloads e) (wi_id w') = Some v'" "mw_info v' = w'"
    unfolding mock_infos_mem [OF assms] by blast
  then show "w = w'" unfolding eq by simp
qed

interpretation mock: runtime_engine mock_ok mock_infos mock_list_workloads mock_remove_workload
proof
  fix e :: mock_engine and i clock
  assume ok: "mock_ok e"
  show "mock_ok (fst (mock_remove_workload i e))" using ok by (rule mock_ok_remove)
  show "\<exists>ws. mock_list_workloads clock e = Inr ws \<and>
      (\<lambda>w. (wi_id w, wi_manifest_id w)) ` set ws
        = (\<lambda>w. (wi_id w, wi_manifest_id w)) ` set (mock_infos e)"
    using mock_list_ids [of clock e] by (simp add: mock_list_workloads_def)
  show "distinct (map wi_id ws)" if "mock_list_workloads clock e = Inr ws" for ws
    using ok that by (rule mock_list_distinct)
  show "inj_on wi_id (set (mock_infos e))" using ok by (rule mock_ids_unique)
  have ok': "mock_ok (fst (mock_remove_workload i e))" using ok by (rule mock_ok_remove)
  show "set (mock_infos (fst (mock_remove_workload i e)))
      = {w \<in> set (mock_infos e). wi_id w \<noteq> i}"
  proof (cases "hm_get (me_workloads e) i")
    case None
    then show ?thesis by (auto simp: mock_remove_workload_def mock_infos_mem [OF ok])
  next
    case (Some v)
    show ?thesis
      unfolding set_eq_iff mem_Collect_eq mock_infos_mem [OF ok] mock_infos_mem [OF ok']
      using Some by (auto simp: mock_remove_workload_def)
  qed
  show "(\<exists>u. snd (mock_remove_workload i e) = Inr u) \<longleftrightarrow> (\<exists>w \<in> set (mock_infos e). wi_id w = i)"
    using ok by (force simp: mock_infos_mem [OF ok] mock_remove_workload_def mock_ok_def
        split: option.splits)
qed

end
