(* ===== verification/Scheduler.thy ===== *)
theory Scheduler
  imports Complex_Main Prelude
begin

text \<open>
  The placement strategies, \<open>scheduler/src/lib.rs\<close>. A candidate list is scheduled by one of four
  strategies; the only state is the round-robin counter, an atomic \<open>usize\<close> that wraps.

  A load factor is a 32-bit float: a number of the extended rationals, or not a number. The
  order in which a \<open>HashSet\<close> is read, and what a sort does with a comparison that is no total
  order (some load factor is not a number), are parameters: the standard library leaves the
  first open, and for the second promises a permutation or a panic.
\<close>

section \<open>Data\<close>

datatype extended = NegInf | Finite rat | PosInf

datatype f32 = NaN | Num extended

instantiation extended :: linorder
begin

fun less_eq_extended :: "extended \<Rightarrow> extended \<Rightarrow> bool" where
  "less_eq_extended NegInf _ = True"
| "less_eq_extended _ PosInf = True"
| "less_eq_extended (Finite a) (Finite b) = (a \<le> b)"
| "less_eq_extended _ _ = False"

definition less_extended :: "extended \<Rightarrow> extended \<Rightarrow> bool" where
  "less_extended a b = (a \<le> b \<and> \<not> b \<le> a)"

instance
proof
  fix x y z :: extended
  show "x < y \<longleftrightarrow> x \<le> y \<and> \<not> y \<le> x" by (rule less_extended_def)
  show "x \<le> x" by (cases x) auto
  show "x \<le> y \<Longrightarrow> y \<le> z \<Longrightarrow> x \<le> z" by (cases x; cases y; cases z) auto
  show "x \<le> y \<Longrightarrow> y \<le> x \<Longrightarrow> x = y" by (cases x; cases y) auto
  show "x \<le> y \<or> y \<le> x" by (cases x; cases y) auto
qed

end

datatype scheduling_strategy = RoundRobin | Random | LoadBased | FirstAvailable

record node_capabilities =
  cpu_cores :: u32
  memory_mb :: u64
  storage_mb :: u64
  container_runtimes :: "string list"

record node_candidate =
  node_id :: string
  load_factor :: f32
  nc_available :: bool
  nc_capabilities :: node_capabilities

record scheduler_config =
  max_candidates :: "nat option"
  sc_strategy :: scheduling_strategy
  enable_load_balancing :: bool

record scheduler =
  sch_config :: scheduler_config
  round_robin_counter :: usize

record scheduling_plan =
  selected_candidates :: "nat list"
  total_candidates :: nat
  strategy_used :: scheduling_strategy

record scheduler_stats =
  st_strategy :: scheduling_strategy
  st_round_robin_counter :: usize
  st_load_balancing_enabled :: bool

datatype scheduling_error =
    NoCandidatesAvailable
  | NoAvailableCandidates
  | InsufficientCandidates nat nat
  | SelectionFailed

definition display_scheduling_error :: "scheduling_error \<Rightarrow> string" where
  "display_scheduling_error e =
     (case e of
        NoCandidatesAvailable \<Rightarrow> ''No candidates available for scheduling''
      | NoAvailableCandidates \<Rightarrow> ''No candidates are currently available''
      | InsufficientCandidates have need \<Rightarrow>
          ''Insufficient candidates: have '' @ to_decimal have @ '', need '' @ to_decimal need
      | SelectionFailed \<Rightarrow> ''Failed to select candidates'')"

definition default_scheduler_config :: scheduler_config where
  "default_scheduler_config =
     \<lparr> max_candidates = None, sc_strategy = RoundRobin, enable_load_balancing = True \<rparr>"

definition default_node_capabilities :: node_capabilities where
  "default_node_capabilities =
     \<lparr> cpu_cores = 1, memory_mb = 1024, storage_mb = 10240, container_runtimes = [''docker''] \<rparr>"

definition scheduler_new :: "scheduler_config \<Rightarrow> scheduler" where
  "scheduler_new cfg = \<lparr> sch_config = cfg, round_robin_counter = 0 \<rparr>"

section \<open>Operations\<close>

type_synonym indexed = "(nat \<times> node_candidate) list"

text \<open>
  What the environment decides in one call: the build profile, the time since the epoch in
  nanoseconds (\<^const>\<open>None\<close> for a clock set before it), the reading order of a hash set, and the
  outcome of a sort whose comparison is no total order (\<^const>\<open>None\<close> for the panic).
\<close>

record sched_env =
  env_profile :: profile
  env_nanos :: "nat option"
  env_hash_order :: "nat list \<Rightarrow> nat list"
  env_unordered_sort :: "(nat \<times> f32) list \<Rightarrow> (nat \<times> f32) list option"

fun round_robin_loop :: "profile \<Rightarrow> usize \<Rightarrow> indexed \<Rightarrow> nat \<Rightarrow> nat \<Rightarrow> nat list option" where
  "round_robin_loop prof start avail i 0 = Some []"
| "round_robin_loop prof start avail i (Suc n) =
     (case add_u prof start (of_nat i) of
        None \<Rightarrow> None
      | Some w \<Rightarrow>
          map_option ((#) (fst (avail ! (unat w mod length avail))))
            (round_robin_loop prof start avail (Suc i) n))"

definition select_round_robin ::
  "profile \<Rightarrow> indexed \<Rightarrow> nat \<Rightarrow> scheduler \<Rightarrow> scheduler \<times> (scheduling_error + nat list) option" where
  "select_round_robin prof avail cnt s =
     (let start_index = round_robin_counter s;
          s' = s \<lparr> round_robin_counter := start_index + 1 \<rparr> in
      (s', map_option Inr (round_robin_loop prof start_index avail 0 cnt)))"

definition MAX_ATTEMPTS :: nat where
  "MAX_ATTEMPTS = 1000"

definition hs_insert :: "'a \<Rightarrow> 'a list \<Rightarrow> 'a list" where
  "hs_insert x xs = (if x \<in> set xs then xs else xs @ [x])"

function random_loop :: "usize \<Rightarrow> indexed \<Rightarrow> nat \<Rightarrow> nat \<Rightarrow> nat list \<Rightarrow> nat list" where
  "random_loop seed avail cnt attempts selected =
     (if length selected < cnt \<and> attempts < MAX_ATTEMPTS
      then random_loop seed avail cnt (attempts + 1)
             (hs_insert (fst (avail ! (unat (seed + of_nat attempts) mod length avail))) selected)
      else selected)"
  by pat_completeness auto
termination
  by (relation "measure (\<lambda>(seed, avail, cnt, attempts, selected). MAX_ATTEMPTS - attempts)") auto

declare random_loop.simps [simp del]

definition select_random ::
  "sched_env \<Rightarrow> indexed \<Rightarrow> nat \<Rightarrow> (scheduling_error + nat list) option" where
  "select_random env avail cnt =
     (case env_nanos env of
        None \<Rightarrow> None
      | Some nanos \<Rightarrow>
          (let selected = random_loop (of_nat nanos) avail cnt 0 [] in
           if length selected < cnt then Some (Inl SelectionFailed)
           else Some (Inr (env_hash_order env selected))))"

fun num_of :: "f32 \<Rightarrow> extended" where
  "num_of (Num x) = x"
| "num_of NaN = NegInf"

definition sort_by_load :: "sched_env \<Rightarrow> (nat \<times> f32) list \<Rightarrow> (nat \<times> f32) list option" where
  "sort_by_load env xs =
     (if NaN \<in> snd ` set xs then env_unordered_sort env xs
      else Some (sort_key (\<lambda>x. num_of (snd x)) xs))"

definition select_load_based ::
  "sched_env \<Rightarrow> indexed \<Rightarrow> nat \<Rightarrow> (scheduling_error + nat list) option" where
  "select_load_based env avail cnt =
     map_option (\<lambda>sorted. Inr (map fst (take cnt sorted)))
       (sort_by_load env (map (\<lambda>(idx, c). (idx, load_factor c)) avail))"

definition select_candidates ::
  "sched_env \<Rightarrow> indexed \<Rightarrow> nat \<Rightarrow> scheduler \<Rightarrow> scheduler \<times> (scheduling_error + nat list) option" where
  "select_candidates env avail cnt s =
     (case sc_strategy (sch_config s) of
        FirstAvailable \<Rightarrow> (s, Some (Inr (map fst (take cnt avail))))
      | RoundRobin \<Rightarrow> select_round_robin (env_profile env) avail cnt s
      | Random \<Rightarrow> (s, select_random env avail cnt)
      | LoadBased \<Rightarrow> (s, select_load_based env avail cnt))"

definition available_candidates :: "node_candidate list \<Rightarrow> indexed" where
  "available_candidates cs = filter (\<lambda>(_, c). nc_available c) (enumerate 0 cs)"

definition actual_required :: "scheduler \<Rightarrow> nat \<Rightarrow> nat" where
  "actual_required s required =
     (case max_candidates (sch_config s) of Some m \<Rightarrow> min required m | None \<Rightarrow> required)"

definition schedule_workload ::
  "sched_env \<Rightarrow> node_candidate list \<Rightarrow> nat \<Rightarrow> scheduler
     \<Rightarrow> scheduler \<times> (scheduling_error + scheduling_plan) option" where
  "schedule_workload env cs required s =
     (if cs = [] then (s, Some (Inl NoCandidatesAvailable))
      else
        (let avail = available_candidates cs in
         if avail = [] then (s, Some (Inl NoAvailableCandidates))
         else
           (let available_count = length avail; need = actual_required s required in
            if available_count < need
            then (s, Some (Inl (InsufficientCandidates available_count need)))
            else
              (case select_candidates env avail need s of
                 (s', None) \<Rightarrow> (s', None)
               | (s', Some (Inl e)) \<Rightarrow> (s', Some (Inl e))
               | (s', Some (Inr selected)) \<Rightarrow>
                   (s', Some (Inr \<lparr> selected_candidates = selected, total_candidates = length cs,
                                    strategy_used = sc_strategy (sch_config s) \<rparr>))))))"

definition scheduler_get_stats :: "scheduler \<Rightarrow> scheduler_stats" where
  "scheduler_get_stats s =
     \<lparr> st_strategy = sc_strategy (sch_config s), st_round_robin_counter = round_robin_counter s,
       st_load_balancing_enabled = enable_load_balancing (sch_config s) \<rparr>"

section \<open>The available candidates\<close>

lemma set_available: "(i, c) \<in> set (available_candidates cs) \<longleftrightarrow> i < length cs \<and> cs ! i = c \<and> nc_available c"
  by (auto simp: available_candidates_def in_set_enumerate_eq)

lemma distinct_available: "distinct (map fst (available_candidates cs))"
  unfolding available_candidates_def by (rule distinct_map_filter) simp

lemma available_index:
  assumes "i \<in> set (map fst (available_candidates cs))"
  shows "i < length cs \<and> nc_available (cs ! i)"
  using assms by (auto simp: set_available)

text \<open>A selection drawn from the indices of the available candidates, each at most once.\<close>

definition good_selection :: "indexed \<Rightarrow> nat \<Rightarrow> nat list \<Rightarrow> bool" where
  "good_selection avail cnt sel \<longleftrightarrow> length sel = cnt \<and> distinct sel \<and> set sel \<subseteq> fst ` set avail"

lemma good_take:
  assumes "distinct (map fst xs)" "fst ` set xs \<subseteq> fst ` set avail" "cnt \<le> length xs"
  shows "good_selection avail cnt (map fst (take cnt xs))"
proof -
  have "map fst (take cnt xs) = take cnt (map fst xs)" by (simp add: take_map)
  moreover have "set (take cnt (map fst xs)) \<subseteq> fst ` set xs" using set_take_subset by fastforce
  ultimately show ?thesis
    using assms by (auto simp: good_selection_def)
qed

lemma mod_shift_le:
  fixes n :: nat
  assumes "j \<le> k" "k < n" "(b + j) mod n = (b + k) mod n"
  shows "j = k"
proof -
  have "n dvd (b + k) - (b + j)"
    using assms mod_eq_dvd_iff_nat [of "b + j" "b + k" n] by auto
  then have "n dvd k - j" by simp
  moreover have "k - j < n" using assms by simp
  ultimately have "k - j = 0" using dvd_imp_le by fastforce
  with assms(1) show ?thesis by simp
qed

lemma mod_shift_inj:
  fixes n :: nat
  assumes "j < n" "k < n" "(b + j) mod n = (b + k) mod n"
  shows "j = k"
  using assms mod_shift_le [of j k n b] mod_shift_le [of k j n b] by (cases "j \<le> k") auto

lemma good_nth_mod:
  assumes "distinct (map fst avail)" "cnt \<le> length avail" "avail \<noteq> []"
  shows "good_selection avail cnt (map (\<lambda>j. fst (avail ! ((b + j) mod length avail))) [0..<cnt])"
proof -
  let ?n = "length avail"
  have pos: "0 < ?n" using assms(3) by simp
  have "inj_on (\<lambda>j. fst (avail ! ((b + j) mod ?n))) {0..<cnt}"
  proof (rule inj_onI)
    fix j k assume jk: "j \<in> {0..<cnt}" "k \<in> {0..<cnt}"
      and eq: "fst (avail ! ((b + j) mod ?n)) = fst (avail ! ((b + k) mod ?n))"
    have "(b + j) mod ?n = (b + k) mod ?n"
      using nth_eq_iff_index_eq [OF assms(1), of "(b + j) mod ?n" "(b + k) mod ?n"] eq pos by simp
    then show "j = k" using jk assms(2) mod_shift_inj [of j ?n k b] by simp
  qed
  moreover have "fst (avail ! ((b + j) mod ?n)) \<in> fst ` set avail" for j
    using pos by simp
  ultimately show ?thesis
    by (auto simp: good_selection_def distinct_map)
qed

section \<open>Each strategy\<close>

lemma round_robin_loop_eq:
  assumes "unat start + i + n \<le> 2 ^ 64"
  shows "round_robin_loop prof start avail i n
    = Some (map (\<lambda>j. fst (avail ! ((unat start + j) mod length avail))) [i..<i + n])"
  using assms
proof (induction n arbitrary: i)
  case (Suc n)
  have "unat start + i < 2 ^ 64" "i < 2 ^ 64" using Suc.prems by simp_all
  then have "add_u prof start (of_nat i) = Some (start + of_nat i)"
    "unat (start + of_nat i :: usize) = unat start + i"
    by (simp_all add: add_u_def unsigned_of_nat take_bit_eq_mod unat_word_ariths)
  with Suc show ?case
    by (simp add: upt_conv_Cons del: upt_Suc)
qed simp

lemma round_robin_loop_debug:
  "round_robin_loop Debug start avail i n = Some xs \<Longrightarrow> i + n \<le> 2 ^ 64 \<Longrightarrow> n = 0 \<or> unat start + i + n \<le> 2 ^ 64"
proof (induction n arbitrary: i xs)
  case (Suc n)
  then have "add_u Debug start (of_nat i) \<noteq> None"
    by (auto split: option.splits)
  moreover have "i < 2 ^ 64" using Suc.prems by simp
  ultimately have "unat start + i < 2 ^ 64"
    by (auto simp: add_u_def unsigned_of_nat take_bit_eq_mod split: if_splits)
  moreover obtain ys where "round_robin_loop Debug start avail (Suc i) n = Some ys"
    using Suc.prems(1) by (auto split: option.splits)
  then have "n = 0 \<or> unat start + Suc i + n \<le> 2 ^ 64"
    using Suc.IH [of "Suc i" ys] Suc.prems(2) by simp
  ultimately show ?case by auto
qed simp

lemma random_loop_prefix:
  assumes "distinct (map fst avail)" "avail \<noteq> []" "unat seed + 1000 < 2 ^ 64"
    and "cnt \<le> length avail" "a \<le> cnt" "cnt \<le> MAX_ATTEMPTS"
  shows "random_loop seed avail cnt a (map (\<lambda>j. fst (avail ! ((unat seed + j) mod length avail))) [0..<a])
    = map (\<lambda>j. fst (avail ! ((unat seed + j) mod length avail))) [0..<cnt]"
  using assms(5)
proof (induction "cnt - a" arbitrary: a)
  case 0
  then show ?case by (simp add: random_loop.simps)
next
  case (Suc d)
  let ?f = "\<lambda>j. fst (avail ! ((unat seed + j) mod length avail))"
  have lt: "a < cnt" "a < MAX_ATTEMPTS" using Suc assms(6) by simp_all
  then have a: "unat (seed + of_nat a) = unat seed + a"
    using assms(3) by (simp add: MAX_ATTEMPTS_def unsigned_of_nat take_bit_eq_mod unat_word_ariths)
  have "distinct (map ?f [0..<a + 1])"
    using good_nth_mod [OF assms(1) _ assms(2), of "a + 1" "unat seed"] lt assms(4)
    by (auto simp: good_selection_def)
  then have "hs_insert (?f a) (map ?f [0..<a]) = map ?f [0..<a + 1]"
    by (auto simp: hs_insert_def)
  then have "random_loop seed avail cnt a (map ?f [0..<a])
      = random_loop seed avail cnt (a + 1) (map ?f [0..<a + 1])"
    using lt by (subst random_loop.simps) (simp add: a)
  also have "\<dots> = map ?f [0..<cnt]" by (rule Suc.hyps(1)) (use Suc.hyps(2) lt in simp_all)
  finally show ?case .
qed

lemma random_loop_length:
  assumes "length sel \<le> a" "a \<le> MAX_ATTEMPTS"
  shows "length (random_loop seed avail cnt a sel) \<le> MAX_ATTEMPTS"
  using assms
proof (induction seed avail cnt a sel rule: random_loop.induct)
  case (1 seed avail cnt a sel)
  then show ?case
    by (subst random_loop.simps) (auto simp: hs_insert_def)
qed

lemma random_loop_sound:
  assumes "set sel \<subseteq> fst ` set avail" "distinct sel" "length sel \<le> cnt" "avail \<noteq> []"
  shows "set (random_loop seed avail cnt a sel) \<subseteq> fst ` set avail
    \<and> distinct (random_loop seed avail cnt a sel)
    \<and> length (random_loop seed avail cnt a sel) \<le> cnt"
  using assms
proof (induction seed avail cnt a sel rule: random_loop.induct)
  case (1 seed avail cnt a sel)
  show ?case
  proof (cases "length sel < cnt \<and> a < MAX_ATTEMPTS")
    case True
    let ?x = "fst (avail ! (unat (seed + of_nat a) mod length avail))"
    have "?x \<in> fst ` set avail" using 1(5) by simp
    then have "set (hs_insert ?x sel) \<subseteq> fst ` set avail" "distinct (hs_insert ?x sel)"
      "length (hs_insert ?x sel) \<le> cnt"
      using 1 True by (auto simp: hs_insert_def)
    moreover have "random_loop seed avail cnt a sel = random_loop seed avail cnt (a + 1) (hs_insert ?x sel)"
      using True by (subst random_loop.simps) simp
    ultimately show ?thesis using 1(1) [OF True] 1(5) by simp
  next
    case False
    then have "random_loop seed avail cnt a sel = sel" by (subst random_loop.simps) auto
    then show ?thesis using 1 by simp
  qed
qed

text \<open>What the standard library promises of the parameters.\<close>

definition env_laws :: "sched_env \<Rightarrow> bool" where
  "env_laws env \<longleftrightarrow> (\<forall>xs. mset (env_hash_order env xs) = mset xs)
     \<and> (\<forall>xs ys. env_unordered_sort env xs = Some ys \<longrightarrow> mset ys = mset xs)"

lemma good_perm: "mset ys = mset xs \<Longrightarrow> good_selection avail cnt xs \<Longrightarrow> good_selection avail cnt ys"
  unfolding good_selection_def
  by (metis mset_eq_imp_distinct_iff mset_eq_length set_mset_mset)

lemma select_random_good:
  assumes "select_random env avail cnt = Some (Inr sel)" "avail \<noteq> []" "env_laws env"
  shows "good_selection avail cnt sel"
proof -
  obtain nanos where sel: "sel = env_hash_order env (random_loop (of_nat nanos) avail cnt 0 [])"
    and len: "\<not> length (random_loop (of_nat nanos) avail cnt 0 []) < cnt"
    using assms(1) by (auto simp: select_random_def Let_def split: option.splits if_splits)
  have "good_selection avail cnt (random_loop (of_nat nanos) avail cnt 0 [])"
    using random_loop_sound [of "[]" avail cnt "of_nat nanos" 0] len assms(2)
    by (auto simp: good_selection_def)
  then show ?thesis unfolding sel using assms(3) good_perm by (fastforce simp: env_laws_def)
qed

lemma sort_by_load_perm:
  "sort_by_load env xs = Some ys \<Longrightarrow> env_laws env \<Longrightarrow> mset ys = mset xs"
  by (auto simp: sort_by_load_def env_laws_def split: if_splits)

lemma select_load_based_good:
  assumes "select_load_based env avail cnt = Some (Inr sel)" "env_laws env"
    and "distinct (map fst avail)" "cnt \<le> length avail"
  shows "good_selection avail cnt sel"
proof -
  let ?xs = "map (\<lambda>(idx, c). (idx, load_factor c)) avail"
  obtain ys where ys: "sort_by_load env ?xs = Some ys" and sel: "sel = map fst (take cnt ys)"
    using assms(1) by (auto simp: select_load_based_def)
  have perm: "mset ys = mset ?xs" by (rule sort_by_load_perm [OF ys assms(2)])
  have fst_xs: "map fst ?xs = map fst avail" by (simp add: comp_def case_prod_unfold)
  have m: "mset (map fst ys) = mset (map fst avail)"
    using perm fst_xs by (metis mset_map)
  show ?thesis unfolding sel
  proof (rule good_take)
    show "distinct (map fst ys)" using m assms(3) by (metis mset_eq_imp_distinct_iff)
    show "fst ` set ys \<subseteq> fst ` set avail" using m by (metis list.set_map order_refl set_mset_mset)
    show "cnt \<le> length ys" using m assms(4) by (metis length_map mset_eq_length)
  qed
qed

text \<open>
  The round-robin counter has room for this call: it is checked in a debug build, and far from
  the end of the type in a release build.
\<close>

definition counter_ok :: "profile \<Rightarrow> nat \<Rightarrow> scheduler \<Rightarrow> bool" where
  "counter_ok prof cnt s \<longleftrightarrow>
     sc_strategy (sch_config s) = RoundRobin \<longrightarrow> prof = Debug \<or> unat (round_robin_counter s) + cnt \<le> 2 ^ 64"

lemma select_round_robin_good:
  assumes "snd (select_round_robin prof avail cnt s) = Some (Inr sel)"
    and "prof = Debug \<or> unat (round_robin_counter s) + cnt \<le> 2 ^ 64" "cnt \<le> length avail"
    and "length avail \<le> 2 ^ 64" "distinct (map fst avail)" "avail \<noteq> []"
  shows "good_selection avail cnt sel"
proof -
  let ?c = "round_robin_counter s"
  have sel: "round_robin_loop prof ?c avail 0 cnt = Some sel"
    using assms(1) by (auto simp: select_round_robin_def Let_def)
  have "cnt = 0 \<or> unat ?c + 0 + cnt \<le> 2 ^ 64"
  proof (cases "prof = Debug")
    case True
    show ?thesis
      by (rule round_robin_loop_debug [where xs = sel and avail = avail]) (use sel True assms in simp_all)
  qed (use assms(2) in simp)
  then consider "cnt = 0" | "unat ?c + 0 + cnt \<le> 2 ^ 64" by blast
  then have "sel = map (\<lambda>j. fst (avail ! ((unat ?c + j) mod length avail))) [0..<cnt]"
    using sel by cases (use round_robin_loop_eq [of ?c 0 cnt prof avail] in simp_all)
  then show ?thesis using good_nth_mod [OF assms(5,3,6)] by simp
qed

lemma select_candidates_good:
  assumes "snd (select_candidates env avail cnt s) = Some (Inr sel)" "env_laws env"
    and "counter_ok (env_profile env) cnt s" "cnt \<le> length avail"
    and "length avail \<le> 2 ^ 64" "distinct (map fst avail)" "avail \<noteq> []"
  shows "good_selection avail cnt sel"
proof (cases "sc_strategy (sch_config s)")
  case RoundRobin
  then show ?thesis
    using assms by (intro select_round_robin_good) (auto simp: select_candidates_def counter_ok_def)
next
  case Random
  then show ?thesis using assms by (auto simp: select_candidates_def intro: select_random_good)
next
  case LoadBased
  then show ?thesis using assms by (auto simp: select_candidates_def intro: select_load_based_good)
next
  case FirstAvailable
  then show ?thesis using assms by (auto simp: select_candidates_def intro: good_take)
qed

lemma schedule_workload_Ok:
  assumes "snd (schedule_workload env cs required s) = Some (Inr plan)"
  shows "available_candidates cs \<noteq> []"
    and "actual_required s required \<le> length (available_candidates cs)"
    and "snd (select_candidates env (available_candidates cs) (actual_required s required) s)
       = Some (Inr (selected_candidates plan))"
    and "total_candidates plan = length cs" "strategy_used plan = sc_strategy (sch_config s)"
  using assms
  by (auto simp: schedule_workload_def Let_def split: if_splits prod.splits option.splits sum.splits)

lemma length_available_le: "length (available_candidates cs) \<le> length cs"
  unfolding available_candidates_def by (metis length_enumerate length_filter_le)

section \<open>Properties\<close>

text \<open>
  (C9) A plan is sound for every strategy: it names exactly the required number of candidates
  (the configured maximum if that is less), each one in range, available, and named once. The
  standard library is assumed to permute what it orders; the round-robin counter must not wrap
  within the call in a release build.
\<close>

theorem schedule_workload_sound:
  assumes "snd (schedule_workload env cs required s) = Some (Inr plan)"
    and "env_laws env" "counter_ok (env_profile env) (actual_required s required) s"
    and "length cs \<le> 2 ^ 64"
  shows "length (selected_candidates plan) = actual_required s required
    \<and> distinct (selected_candidates plan)
    \<and> (\<forall>i \<in> set (selected_candidates plan). i < length cs \<and> nc_available (cs ! i))"
proof -
  note ok = schedule_workload_Ok [OF assms(1)]
  have "good_selection (available_candidates cs) (actual_required s required) (selected_candidates plan)"
    by (rule select_candidates_good [OF ok(3) assms(2,3) ok(2) _ distinct_available ok(1)])
       (use length_available_le [of cs] assms(4) in linarith)
  then show ?thesis
    using available_index [of _ cs] unfolding good_selection_def by fastforce
qed

lemma sort_key_take_min:
  fixes f :: "'a \<Rightarrow> 'k::linorder"
  assumes "x \<in> set (take n (sort_key f xs))" "y \<in> set (drop n (sort_key f xs))"
  shows "f x \<le> f y"
proof -
  have "sorted (map f (take n (sort_key f xs)) @ map f (drop n (sort_key f xs)))"
    by (metis append_take_drop_id map_append sorted_sort_key)
  then show ?thesis using assms unfolding sorted_append by simp
qed

text \<open>
  The load-based strategy picks the least loaded: when every available candidate has a
  numeric load factor, no available candidate outside the plan has a smaller load than one in it.
\<close>

theorem load_based_minimal:
  assumes "sc_strategy (sch_config s) = LoadBased"
    and "\<And>c. c \<in> set cs \<Longrightarrow> nc_available c \<Longrightarrow> load_factor c \<noteq> NaN"
    and "snd (schedule_workload env cs required s) = Some (Inr plan)"
    and "i \<in> set (selected_candidates plan)"
    and "j < length cs" "nc_available (cs ! j)" "j \<notin> set (selected_candidates plan)"
  shows "num_of (load_factor (cs ! i)) \<le> num_of (load_factor (cs ! j))"
proof -
  let ?av = "available_candidates cs" and ?n = "actual_required s required"
  let ?xs = "map (\<lambda>(idx, c). (idx, load_factor c)) ?av"
  let ?ys = "sort_key (\<lambda>x. num_of (snd x)) ?xs"
  have "NaN \<notin> snd ` set ?xs" using assms(2) by (force simp: set_available)
  then have sel: "selected_candidates plan = map fst (take ?n ?ys)"
    using schedule_workload_Ok(3) [OF assms(3)] assms(1)
    by (simp add: select_candidates_def select_load_based_def sort_by_load_def)
  have mem: "(k, l) \<in> set ?ys \<longleftrightarrow> k < length cs \<and> nc_available (cs ! k) \<and> l = load_factor (cs ! k)" for k l
  proof -
    have "(k, l) \<in> set ?ys \<longleftrightarrow> (\<exists>c. (k, c) \<in> set ?av \<and> l = load_factor c)" by auto
    then show ?thesis by (auto simp: set_available)
  qed
  obtain l where l: "(i, l) \<in> set (take ?n ?ys)" using assms(4) by (auto simp: sel)
  then have "(i, l) \<in> set ?ys" by (rule in_set_takeD)
  then have li: "l = load_factor (cs ! i)" using mem by blast
  have "(j, load_factor (cs ! j)) \<in> set ?ys" using mem assms(5,6) by blast
  moreover have "(j, load_factor (cs ! j)) \<notin> set (take ?n ?ys)"
    using assms(7) unfolding sel by (metis fst_conv image_eqI list.set_map)
  ultimately have "(j, load_factor (cs ! j)) \<in> set (drop ?n ?ys)"
    by (metis Un_iff append_take_drop_id set_append)
  from sort_key_take_min [OF l this] show ?thesis by (simp add: li)
qed

text \<open>Enough is known of the environment for the call to return: clock, counter and loads.\<close>

definition env_regular :: "sched_env \<Rightarrow> node_candidate list \<Rightarrow> nat \<Rightarrow> scheduler \<Rightarrow> bool" where
  "env_regular env cs required s \<longleftrightarrow>
     (case env_nanos env of None \<Rightarrow> False | Some n \<Rightarrow> n mod 2 ^ 64 + 1000 < 2 ^ 64)
     \<and> unat (round_robin_counter s) + actual_required s required \<le> 2 ^ 64
     \<and> list_all (\<lambda>c. load_factor c \<noteq> NaN) cs"

lemma select_random_iff:
  assumes "env_nanos env = Some n" "n mod 2 ^ 64 + 1000 < 2 ^ 64"
    and "distinct (map fst avail)" "avail \<noteq> []" "cnt \<le> length avail"
  shows "\<exists>sel. select_random env avail cnt = Some (if cnt \<le> MAX_ATTEMPTS then Inr sel else Inl SelectionFailed)"
proof -
  have seed: "unat (of_nat n :: usize) = n mod 2 ^ 64"
    by (simp add: unsigned_of_nat take_bit_eq_mod)
  show ?thesis
  proof (cases "cnt \<le> MAX_ATTEMPTS")
    case True
    then have "length (random_loop (of_nat n) avail cnt 0 []) = cnt"
      using random_loop_prefix [OF assms(3,4), of "of_nat n" cnt 0] assms(2,5) seed by simp
    then show ?thesis using True assms(1) by (simp add: select_random_def Let_def)
  next
    case False
    then have "length (random_loop (of_nat n) avail cnt 0 []) < cnt"
      using random_loop_length [of "[]" 0 "of_nat n" avail cnt] by simp
    then show ?thesis using False assms(1) by (simp add: select_random_def Let_def)
  qed
qed

lemma select_candidates_total:
  assumes "env_regular env cs required s" "available_candidates cs \<noteq> []"
    and "actual_required s required \<le> length (available_candidates cs)"
  shows "\<exists>sel. snd (select_candidates env (available_candidates cs) (actual_required s required) s)
    = Some (if sc_strategy (sch_config s) = Random \<and> MAX_ATTEMPTS < actual_required s required
            then Inl SelectionFailed else Inr sel)"
proof (cases "sc_strategy (sch_config s)")
  case RoundRobin
  then show ?thesis
    using round_robin_loop_eq [of "round_robin_counter s" 0 "actual_required s required"] assms(1)
    by (simp add: select_candidates_def select_round_robin_def Let_def env_regular_def)
next
  case Random
  obtain n where "env_nanos env = Some n" "n mod 2 ^ 64 + 1000 < 2 ^ 64"
    using assms(1) by (auto simp: env_regular_def split: option.splits)
  from select_random_iff [OF this distinct_available assms(2,3)] Random show ?thesis
    by (auto simp: select_candidates_def not_less split: if_splits)
next
  case LoadBased
  have "\<And>i c. (i, c) \<in> set (available_candidates cs) \<Longrightarrow> load_factor c \<noteq> NaN"
    using assms(1) by (auto simp: env_regular_def list_all_iff set_available)
  then have "NaN \<notin> snd ` set (map (\<lambda>(idx, c). (idx, load_factor c)) (available_candidates cs))" by force
  then show ?thesis
    using LoadBased by (simp add: select_candidates_def select_load_based_def sort_by_load_def)
qed (simp add: select_candidates_def)

text \<open>
  (C35) Scheduling succeeds exactly when it should, with one exception: it returns a plan if and
  only if some candidate is available, there are enough for the required number, and, under the
  random strategy, that number is at most the 1000 attempts of its loop. A larger request fails
  under the random strategy however many candidates there are.
\<close>

theorem schedule_succeeds_iff:
  assumes "env_regular env cs required s"
  shows "(\<exists>plan. snd (schedule_workload env cs required s) = Some (Inr plan))
    \<longleftrightarrow> (\<exists>c \<in> set cs. nc_available c)
        \<and> actual_required s required \<le> length (filter nc_available cs)
        \<and> (sc_strategy (sch_config s) = Random \<longrightarrow> actual_required s required \<le> 1000)"
proof -
  have "map snd (available_candidates cs) = filter nc_available cs"
    by (simp add: available_candidates_def filter_map [symmetric] comp_def case_prod_unfold
        flip: filter_map [of nc_available snd, unfolded comp_def])
  then have len: "length (available_candidates cs) = length (filter nc_available cs)"
    by (metis length_map)
  have ne: "available_candidates cs \<noteq> [] \<longleftrightarrow> (\<exists>c \<in> set cs. nc_available c)"
    using len by (metis filter_empty_conv length_0_conv)
  show ?thesis
  proof (cases "available_candidates cs \<noteq> [] \<and> actual_required s required \<le> length (available_candidates cs)")
    case True
    then obtain sel where
      "snd (select_candidates env (available_candidates cs) (actual_required s required) s)
        = Some (if sc_strategy (sch_config s) = Random \<and> MAX_ATTEMPTS < actual_required s required
            then Inl SelectionFailed else Inr sel)"
      using select_candidates_total [OF assms] by blast
    with True show ?thesis
      using ne len
      by (auto simp: schedule_workload_def Let_def MAX_ATTEMPTS_def split: prod.splits option.splits sum.splits if_splits)
  next
    case False
    then show ?thesis using ne len schedule_workload_Ok(1,2) [of env cs required s] by metis
  qed
qed

fun schedule_run ::
  "sched_env \<Rightarrow> node_candidate list \<Rightarrow> nat \<Rightarrow> nat \<Rightarrow> scheduler \<Rightarrow> (scheduling_error + scheduling_plan) option list" where
  "schedule_run env cs required 0 s = []"
| "schedule_run env cs required (Suc n) s =
     (case schedule_workload env cs required s of (s', r) \<Rightarrow> r # schedule_run env cs required n s')"

definition selection_of :: "(scheduling_error + scheduling_plan) option \<Rightarrow> nat list" where
  "selection_of r = (case r of Some (Inr p) \<Rightarrow> selected_candidates p | _ \<Rightarrow> [])"

lemma selection_of_Ok [simp]: "selection_of (Some (Inr p)) = selected_candidates p"
  by (simp add: selection_of_def)

lemma schedule_run_round_robin:
  assumes "sc_strategy (sch_config s) = RoundRobin" "max_candidates (sch_config s) = None"
    and "available_candidates cs \<noteq> []" "unat (round_robin_counter s) + n \<le> 2 ^ 64"
  shows "concat (map selection_of (schedule_run env cs 1 n s))
    = map (\<lambda>j. fst (available_candidates cs ! ((unat (round_robin_counter s) + j)
                       mod length (available_candidates cs)))) [0..<n]"
  using assms
proof (induction n arbitrary: s)
  case (Suc n)
  let ?c = "round_robin_counter s" and ?av = "available_candidates cs"
  let ?s' = "s \<lparr> round_robin_counter := ?c + 1 \<rparr>"
  have sel: "round_robin_loop (env_profile env) ?c ?av 0 1 = Some [fst (?av ! (unat ?c mod length ?av))]"
    using round_robin_loop_eq [of ?c 0 1] Suc.prems(4) by simp
  have cs: "cs \<noteq> []" using Suc.prems(3) by (auto simp: available_candidates_def)
  have step: "schedule_workload env cs 1 s = (?s', Some (Inr
      \<lparr> selected_candidates = [fst (?av ! (unat ?c mod length ?av))], total_candidates = length cs,
        strategy_used = RoundRobin \<rparr>))"
    using Suc.prems cs sel
    by (auto simp: schedule_workload_def actual_required_def select_candidates_def
        select_round_robin_def Let_def Suc_le_eq)
  show ?case
  proof (cases n)
    case 0
    then show ?thesis by (simp add: step [unfolded One_nat_def])
  next
    case (Suc m)
    have "unat ?c + 1 < 2 ^ 64" using Suc.prems(4) Suc by simp
    then have c': "unat (?c + 1) = unat ?c + 1" by (simp add: unat_word_ariths)
    have "concat (map selection_of (schedule_run env cs 1 n ?s'))
        = map (\<lambda>j. fst (?av ! ((unat ?c + 1 + j) mod length ?av))) [0..<n]"
      using Suc.IH [of ?s'] Suc.prems c' by simp
    also have "\<dots> = map (\<lambda>j. fst (?av ! ((unat ?c + j) mod length ?av))) [1..<Suc n]"
      by (simp add: map_Suc_upt [symmetric] comp_def del: upt_Suc)
    finally show ?thesis
      by (simp add: step [unfolded One_nat_def] upt_conv_Cons del: upt_Suc)
  qed
qed simp

text \<open>
  Round robin is fair: over as many single-node calls as there are available candidates,
  every available candidate is chosen exactly once, wherever the counter stands.
\<close>

theorem round_robin_fair:
  assumes "sc_strategy (sch_config s) = RoundRobin" "max_candidates (sch_config s) = None"
    and "available_candidates cs \<noteq> []"
    and "unat (round_robin_counter s) + length (available_candidates cs) \<le> 2 ^ 64"
  shows "mset (concat (map selection_of (schedule_run env cs 1 (length (available_candidates cs)) s)))
    = mset (map fst (available_candidates cs))"
proof -
  let ?av = "available_candidates cs"
  let ?sel = "map (\<lambda>j. fst (?av ! ((unat (round_robin_counter s) + j) mod length ?av))) [0..<length ?av]"
  have good: "good_selection ?av (length ?av) ?sel"
    by (rule good_nth_mod [OF distinct_available order_refl assms(3)])
  have "card (set ?sel) = card (fst ` set ?av)"
    using good distinct_available [of cs] distinct_card [of ?sel] distinct_card [of "map fst ?av"]
    by (simp add: good_selection_def)
  then have "set ?sel = set (map fst ?av)"
    using good card_subset_eq [of "fst ` set ?av" "set ?sel"] by (simp add: good_selection_def)
  then have "mset ?sel = mset (map fst ?av)"
    using good distinct_available [of cs] set_eq_iff_mset_eq_distinct [of ?sel "map fst ?av"]
    by (simp add: good_selection_def)
  then show ?thesis unfolding schedule_run_round_robin [OF assms] .
qed

section \<open>Concrete runs\<close>

definition node :: "string \<Rightarrow> f32 \<Rightarrow> bool \<Rightarrow> node_candidate" where
  "node i l a = \<lparr> node_id = i, load_factor = l, nc_available = a,
                 nc_capabilities = default_node_capabilities \<rparr>"

definition demo_env :: sched_env where
  "demo_env = \<lparr> env_profile = Debug, env_nanos = Some 7, env_hash_order = rev,
               env_unordered_sort = (\<lambda>xs. Some xs) \<rparr>"

definition demo_nodes :: "node_candidate list" where
  "demo_nodes = [node ''a'' (Num (Finite 1)) True, node ''b'' (Num (Finite 0)) False,
     node ''c'' (Num (Finite 0)) True, node ''d'' (Num PosInf) True]"

definition demo_scheduler :: "scheduling_strategy \<Rightarrow> scheduler" where
  "demo_scheduler st = scheduler_new \<lparr> max_candidates = None, sc_strategy = st, enable_load_balancing = True \<rparr>"

lemmas demo_defs = demo_env_def demo_nodes_def demo_scheduler_def node_def scheduler_new_def
  schedule_workload_def available_candidates_def actual_required_def select_candidates_def
  select_random_def select_load_based_def select_round_robin_def sort_by_load_def hs_insert_def
  MAX_ATTEMPTS_def Let_def

lemma demo_laws: "env_laws demo_env"
  by (simp add: env_laws_def demo_env_def)

theorem schedule_workload_sound_witness:
  "\<exists>plan. snd (schedule_workload demo_env demo_nodes 2 (demo_scheduler Random)) = Some (Inr plan)
     \<and> length (selected_candidates plan) = 2 \<and> distinct (selected_candidates plan)
     \<and> (\<forall>i \<in> set (selected_candidates plan). i < length demo_nodes \<and> nc_available (demo_nodes ! i))"
proof -
  obtain plan where p: "snd (schedule_workload demo_env demo_nodes 2 (demo_scheduler Random)) = Some (Inr plan)"
    by (simp add: demo_defs random_loop.simps)
  have "counter_ok (env_profile demo_env) (actual_required (demo_scheduler Random) 2) (demo_scheduler Random)"
    "length demo_nodes \<le> 2 ^ 64" "actual_required (demo_scheduler Random) 2 = 2"
    by (simp_all add: demo_defs counter_ok_def)
  with schedule_workload_sound [OF p demo_laws] p show ?thesis by auto
qed

theorem load_based_minimal_witness:
  "num_of (load_factor (demo_nodes ! 2)) \<le> num_of (load_factor (demo_nodes ! 3))"
proof (rule load_based_minimal [where s = "demo_scheduler LoadBased" and cs = demo_nodes and env = demo_env
      and required = 1 and plan = "\<lparr> selected_candidates = [2], total_candidates = 4, strategy_used = LoadBased \<rparr>"])
  show "snd (schedule_workload demo_env demo_nodes 1 (demo_scheduler LoadBased))
    = Some (Inr \<lparr> selected_candidates = [2], total_candidates = 4, strategy_used = LoadBased \<rparr>)"
    by (simp add: demo_defs)
qed (auto simp: demo_defs)

theorem schedule_succeeds_iff_witness:
  "env_regular demo_env demo_nodes 2 (demo_scheduler Random)
   \<and> (\<exists>plan. snd (schedule_workload demo_env demo_nodes 2 (demo_scheduler Random)) = Some (Inr plan))"
proof -
  have r: "env_regular demo_env demo_nodes 2 (demo_scheduler Random)"
    by (simp add: demo_defs env_regular_def)
  show ?thesis using schedule_succeeds_iff [OF r] r by (simp add: demo_defs)
qed

theorem round_robin_fair_witness:
  "mset (concat (map selection_of (schedule_run demo_env demo_nodes 1 3 (demo_scheduler RoundRobin))))
    = {# 0, 2, 3 #}"
proof -
  have "available_candidates demo_nodes \<noteq> []" "length (available_candidates demo_nodes) = 3"
    "map fst (available_candidates demo_nodes) = [0, 2, 3]"
    by (simp_all add: demo_defs)
  then show ?thesis
    using round_robin_fair [of "demo_scheduler RoundRobin" demo_nodes demo_env]
    by (simp add: demo_scheduler_def scheduler_new_def)
qed

end
