(* ===== verification/Nonce_Store.thy ===== *)
theory Nonce_Store
  imports Prelude
begin

text \<open>
  Replay protection, \<open>crypto/src/flatbuffer_envelope.rs\<close>: a store of the nonces seen per peer
  with the instant of their first sight. The contract of such a store is the locale
  \<open>replay_guard\<close>; what a client draws from it over a whole run is proved there once, and the
  store of the source provides it.
\<close>

type_synonym nonce_store = "(string, (string, instant) hmap) hmap"

datatype nonce_error = NonceEmpty | ReplayDetected

definition display_nonce_error :: "nonce_error \<Rightarrow> string" where
  "display_nonce_error e =
     (case e of NonceEmpty \<Rightarrow> ''nonce cannot be empty''
      | ReplayDetected \<Rightarrow> ''replay detected: nonce already seen'')"

definition peer_nonces :: "string \<Rightarrow> nonce_store \<Rightarrow> (string, instant) hmap" where
  "peer_nonces peer st = (case hm_get st peer of Some m \<Rightarrow> m | None \<Rightarrow> hm_empty)"

text \<open>\<open>Instant::duration_since\<close> is zero for a later instant, as is the subtraction of naturals.\<close>

definition check_and_insert_nonce_for_peer ::
  "instant \<Rightarrow> nat \<Rightarrow> string \<Rightarrow> string \<Rightarrow> nonce_store \<Rightarrow> nonce_store \<times> (nonce_error + unit)" where
  "check_and_insert_nonce_for_peer now nonce_window peer nonce st =
     (if nonce = [] then (st, Inl NonceEmpty)
      else
        (let peer_store = hm_retain (\<lambda>_ t. now - t \<le> nonce_window) (peer_nonces peer st) in
         if hm_contains_key peer_store nonce
         then (hm_insert peer peer_store st, Inl ReplayDetected)
         else (hm_insert peer (hm_insert nonce now peer_store) st, Inr ())))"

definition check_and_insert_nonce ::
  "instant \<Rightarrow> nat \<Rightarrow> string \<Rightarrow> nonce_store \<Rightarrow> nonce_store \<times> (nonce_error + unit)" where
  "check_and_insert_nonce now nonce_window nonce st =
     check_and_insert_nonce_for_peer now nonce_window ''global'' nonce st"

section \<open>The contract\<close>

locale replay_guard =
  fixes ok :: "'s \<Rightarrow> bool"
    and seen_at :: "'s \<Rightarrow> string \<Rightarrow> string \<Rightarrow> instant option"
    and check :: "instant \<Rightarrow> nat \<Rightarrow> string \<Rightarrow> string \<Rightarrow> 's \<Rightarrow> 's \<times> (nonce_error + unit)"
  assumes ok_check: "ok s \<Longrightarrow> ok (fst (check now w p n s))"
    and accept_iff: "ok s \<Longrightarrow> n \<noteq> [] \<Longrightarrow> snd (check now w p n s) = Inr () \<longleftrightarrow>
        (case seen_at s p n of None \<Rightarrow> True | Some t \<Rightarrow> w < now - t)"
    and reject_empty: "ok s \<Longrightarrow> check now w p [] s = (s, Inl NonceEmpty)"
    and accept_marks: "ok s \<Longrightarrow> snd (check now w p n s) = Inr () \<Longrightarrow>
        seen_at (fst (check now w p n s)) p n = Some now"
    and keeps: "ok s \<Longrightarrow> seen_at s p' n' = Some t \<Longrightarrow> now - t \<le> w \<Longrightarrow>
        seen_at (fst (check now w p n s)) p' n' = Some t"
    and invents_nothing: "ok s \<Longrightarrow> seen_at (fst (check now w p n s)) p' n' = Some t \<Longrightarrow>
        seen_at s p' n' = Some t \<or> (p' = p \<and> n' = n \<and> t = now)"
begin

text \<open>A run of checks: clock reading, peer and nonce of each.\<close>

definition run :: "nat \<Rightarrow> (instant \<times> string \<times> string) list \<Rightarrow> 's \<Rightarrow> 's" where
  "run w cs s = fold (\<lambda>(now, p, n) s. fst (check now w p n s)) cs s"

lemma run_Nil: "run w [] s = s"
  by (simp add: run_def)

lemma run_Cons: "run w ((now, p, n) # cs) s = run w cs (fst (check now w p n s))"
  by (simp add: run_def)

lemma ok_run: "ok s \<Longrightarrow> ok (run w cs s)"
  by (induction cs arbitrary: s) (auto simp: run_Nil run_Cons ok_check)

lemma run_keeps:
  assumes "ok s" "seen_at s p n = Some t" "\<And>now p' n'. (now, p', n') \<in> set cs \<Longrightarrow> now \<le> t + w"
  shows "seen_at (run w cs s) p n = Some t"
  using assms
proof (induction cs arbitrary: s)
  case Nil
  then show ?case by (simp add: run_Nil)
next
  case (Cons c cs)
  obtain now p' n' where c: "c = (now, p', n')" by (cases c)
  have "now - t \<le> w" using Cons.prems(3) [of now p' n'] c by simp
  then have "seen_at (fst (check now w p' n' s)) p n = Some t"
    using Cons.prems by (intro keeps)
  then have "seen_at (run w cs (fst (check now w p' n' s))) p n = Some t"
    using Cons.prems by (intro Cons.IH ok_check) auto
  then show ?case by (simp add: c run_Cons)
qed

lemma replay_rejected:
  assumes "ok s" "n \<noteq> []" "snd (check t0 w p n s) = Inr ()"
    and "\<And>now p' n'. (now, p', n') \<in> set cs \<Longrightarrow> now \<le> t0 + w" "t \<le> t0 + w"
  shows "snd (check t w p n (run w cs (fst (check t0 w p n s)))) \<noteq> Inr ()"
proof -
  have "seen_at (run w cs (fst (check t0 w p n s))) p n = Some t0"
    using assms by (intro run_keeps ok_check accept_marks) auto
  then show ?thesis
    using assms accept_iff [OF ok_run [OF ok_check [OF assms(1)]]] by simp
qed

end

section \<open>The store of the source\<close>

definition store_ok :: "nonce_store \<Rightarrow> bool" where
  "store_ok st \<longleftrightarrow> (\<forall>p m. hm_get st p = Some m \<longrightarrow> hm_wf m)"

definition nonce_seen_at :: "nonce_store \<Rightarrow> string \<Rightarrow> string \<Rightarrow> instant option" where
  "nonce_seen_at st peer nonce = hm_get (peer_nonces peer st) nonce"

lemma peer_nonces_wf: "store_ok st \<Longrightarrow> hm_wf (peer_nonces p st)"
  by (auto simp: store_ok_def peer_nonces_def split: option.splits)

lemma peer_nonces_insert [simp]:
  "peer_nonces p (hm_insert q m st) = (if p = q then m else peer_nonces p st)"
  by (simp add: peer_nonces_def)

interpretation guard: replay_guard store_ok nonce_seen_at check_and_insert_nonce_for_peer
proof
  fix st :: nonce_store and now w p n p' n' t
  assume ok: "store_ok st"
  note defs = check_and_insert_nonce_for_peer_def Let_def hm_contains_key_def nonce_seen_at_def
  note wf = peer_nonces_wf [OF ok]
  note got = hmi.get_retain_Some [OF wf] hmi.get_retain_None [OF wf]
  show "store_ok (fst (check_and_insert_nonce_for_peer now w p n st))"
    using ok wf [of p] by (auto simp: defs store_ok_def)
  show "n \<noteq> [] \<Longrightarrow> snd (check_and_insert_nonce_for_peer now w p n st) = Inr () \<longleftrightarrow>
      (case nonce_seen_at st p n of None \<Rightarrow> True | Some t \<Rightarrow> w < now - t)"
    by (auto simp: defs got split: option.splits)
  show "check_and_insert_nonce_for_peer now w p [] st = (st, Inl NonceEmpty)"
    by (simp add: defs)
  show "snd (check_and_insert_nonce_for_peer now w p n st) = Inr () \<Longrightarrow>
      nonce_seen_at (fst (check_and_insert_nonce_for_peer now w p n st)) p n = Some now"
    by (auto simp: defs split: if_splits)
  show "nonce_seen_at st p' n' = Some t \<Longrightarrow> now - t \<le> w \<Longrightarrow>
      nonce_seen_at (fst (check_and_insert_nonce_for_peer now w p n st)) p' n' = Some t"
    by (auto simp: defs got)
  show "nonce_seen_at (fst (check_and_insert_nonce_for_peer now w p n st)) p' n' = Some t \<Longrightarrow>
      nonce_seen_at st p' n' = Some t \<or> (p' = p \<and> n' = n \<and> t = now)"
    by (auto simp: defs got split: if_splits)
qed

lemma store_ok_empty: "store_ok hm_empty"
  by (simp add: store_ok_def)

end
