(* ===== verification/Envelope.thy ===== *)
theory Envelope
  imports Nonce_Store
begin

text \<open>
  Signed envelopes: the builders of \<open>protocol/src/lib.rs\<close>, signing and verification of
  \<open>machine/src/libp2p_beemesh/envelope.rs\<close>, \<open>sign_envelope\<close> and \<open>verify_envelope\<close> of
  \<open>crypto/src/lib.rs\<close>, and the entry points of \<open>security.rs\<close> and \<open>message_verifier.rs\<close>.

  FlatBuffers, base64 and ML-DSA are libraries: they are the functions of a record that the
  operations take as an argument, and \<open>crypto_laws\<close> and \<open>dsa_keypair\<close> say what the code relies
  on: what is finished can be read back, what is encoded can be decoded, and a signature made
  with a secret key verifies under the public key of its pair.
\<close>

section \<open>The libraries\<close>

record envelope =
  fe_payload :: "bytes option"
  fe_payload_type :: "string option"
  fe_nonce :: "string option"
  fe_ts :: u64
  fe_alg :: "string option"
  fe_sig :: "string option"
  fe_pubkey :: "string option"
  fe_kem_pubkey :: "string option"
  fe_peer_id :: "string option"

record crypto_lib =
  fb_finish :: "envelope \<Rightarrow> bytes"
  fb_root_as_envelope :: "bytes \<Rightarrow> envelope option"
  b64_encode :: "bytes \<Rightarrow> string"
  b64_decode :: "string \<Rightarrow> bytes option"
  pqc_init_ok :: bool
  dsa_secret_ok :: "bytes \<Rightarrow> bool"
  dsa_public :: "bytes \<Rightarrow> bytes option"
  dsa_sign :: "bytes \<Rightarrow> bytes \<Rightarrow> bytes option"
  dsa_signature_ok :: "bytes \<Rightarrow> bool"
  dsa_verify :: "bytes \<Rightarrow> bytes \<Rightarrow> bytes \<Rightarrow> bool option"

definition crypto_laws :: "crypto_lib \<Rightarrow> bool" where
  "crypto_laws L \<longleftrightarrow> pqc_init_ok L
     \<and> (\<forall>e. fb_root_as_envelope L (fb_finish L e) = Some e)
     \<and> (\<forall>b. b64_decode L (b64_encode L b) = Some b)"

definition dsa_keypair :: "crypto_lib \<Rightarrow> bytes \<Rightarrow> bytes \<Rightarrow> bool" where
  "dsa_keypair L pk sk \<longleftrightarrow> dsa_public L pk = Some pk \<and> dsa_secret_ok L sk
     \<and> (\<forall>m. \<exists>s. dsa_sign L sk m = Some s \<and> dsa_signature_ok L s \<and> dsa_verify L pk m s = Some True)"

text \<open>A signature is bound to one message: the message-bound signature property of ML-DSA.\<close>

definition dsa_binding :: "crypto_lib \<Rightarrow> bool" where
  "dsa_binding L \<longleftrightarrow> (\<forall>pk m m' s.
     dsa_verify L pk m s = Some True \<longrightarrow> dsa_verify L pk m' s = Some True \<longrightarrow> m = m')"

section \<open>Signatures\<close>

datatype envelope_error =
    PqcInitFailed
  | BadSecretKey
  | BadPublicKey
  | SigningFailed
  | InvalidSignatureBytes
  | InvalidSignature
  | VerificationError
  | EnvelopeParseFailed
  | SignatureDecodeFailed
  | PubkeyDecodeFailed
  | NonceRejected nonce_error

definition sign_envelope ::
  "crypto_lib \<Rightarrow> bytes \<Rightarrow> bytes \<Rightarrow> bytes \<Rightarrow> envelope_error + (string \<times> string)" where
  "sign_envelope L sk pk msg =
     (if \<not> pqc_init_ok L then Inl PqcInitFailed
      else if \<not> dsa_secret_ok L sk then Inl BadSecretKey
      else case dsa_public L pk of
             None \<Rightarrow> Inl BadPublicKey
           | Some pk' \<Rightarrow>
               (case dsa_sign L sk msg of
                  None \<Rightarrow> Inl SigningFailed
                | Some s \<Rightarrow> Inr (b64_encode L s, b64_encode L pk')))"

definition verify_envelope ::
  "crypto_lib \<Rightarrow> bytes \<Rightarrow> bytes \<Rightarrow> bytes \<Rightarrow> envelope_error + unit" where
  "verify_envelope L pk msg sig =
     (if \<not> pqc_init_ok L then Inl PqcInitFailed
      else if dsa_public L pk = None then Inl BadPublicKey
      else if \<not> dsa_signature_ok L sig then Inl InvalidSignatureBytes
      else case dsa_verify L pk msg sig of
             Some True \<Rightarrow> Inr ()
           | Some False \<Rightarrow> Inl InvalidSignature
           | None \<Rightarrow> Inl VerificationError)"

section \<open>Builders\<close>

definition or_empty :: "'a list option \<Rightarrow> 'a list" where
  "or_empty x = (case x of Some s \<Rightarrow> s | None \<Rightarrow> [])"

definition build_envelope_canonical_with_peer ::
  "crypto_lib \<Rightarrow> bytes \<Rightarrow> string \<Rightarrow> string \<Rightarrow> u64 \<Rightarrow> string \<Rightarrow> string \<Rightarrow> string option \<Rightarrow> bytes" where
  "build_envelope_canonical_with_peer L payload payload_type nonce ts alg peer kem =
     fb_finish L
       \<lparr> fe_payload = Some payload, fe_payload_type = Some payload_type, fe_nonce = Some nonce,
         fe_ts = ts, fe_alg = Some alg, fe_sig = Some [], fe_pubkey = Some [],
         fe_kem_pubkey = Some (or_empty kem), fe_peer_id = Some peer \<rparr>"

definition build_envelope_canonical ::
  "crypto_lib \<Rightarrow> bytes \<Rightarrow> string \<Rightarrow> string \<Rightarrow> u64 \<Rightarrow> string \<Rightarrow> string option \<Rightarrow> bytes" where
  "build_envelope_canonical L payload payload_type nonce ts alg kem =
     fb_finish L
       \<lparr> fe_payload = Some payload, fe_payload_type = Some payload_type, fe_nonce = Some nonce,
         fe_ts = ts, fe_alg = Some alg, fe_sig = Some [], fe_pubkey = Some [],
         fe_kem_pubkey = Some (or_empty kem), fe_peer_id = Some [] \<rparr>"

definition build_envelope_signed_with_peer ::
  "crypto_lib \<Rightarrow> bytes \<Rightarrow> string \<Rightarrow> string \<Rightarrow> u64 \<Rightarrow> string \<Rightarrow> string \<Rightarrow> string \<Rightarrow> string \<Rightarrow> string
     \<Rightarrow> string option \<Rightarrow> bytes" where
  "build_envelope_signed_with_peer L payload payload_type nonce ts alg sig_prefix sig_b64 pub_b64 peer kem =
     fb_finish L
       \<lparr> fe_payload = Some payload, fe_payload_type = Some payload_type, fe_nonce = Some nonce,
         fe_ts = ts, fe_alg = Some alg, fe_sig = Some (sig_prefix @ '':'' @ sig_b64),
         fe_pubkey = Some pub_b64, fe_kem_pubkey = Some (or_empty kem), fe_peer_id = Some peer \<rparr>"

definition build_envelope_signed ::
  "crypto_lib \<Rightarrow> bytes \<Rightarrow> string \<Rightarrow> string \<Rightarrow> u64 \<Rightarrow> string \<Rightarrow> string \<Rightarrow> string \<Rightarrow> string
     \<Rightarrow> string option \<Rightarrow> bytes" where
  "build_envelope_signed L payload payload_type nonce ts alg sig_prefix sig_b64 pub_b64 kem =
     fb_finish L
       \<lparr> fe_payload = Some payload, fe_payload_type = Some payload_type, fe_nonce = Some nonce,
         fe_ts = ts, fe_alg = Some alg, fe_sig = Some (sig_prefix @ '':'' @ sig_b64),
         fe_pubkey = Some pub_b64, fe_kem_pubkey = Some (or_empty kem), fe_peer_id = Some [] \<rparr>"

section \<open>Signing\<close>

record sign_envelope_config =
  sg_nonce :: "string option"
  sg_timestamp :: "u64 option"
  sg_peer_id :: "string option"
  sg_kem_pub_b64 :: "string option"
  sg_algorithm :: string
  sg_signature_prefix :: string

definition default_sign_config :: sign_envelope_config where
  "default_sign_config =
     \<lparr> sg_nonce = None, sg_timestamp = None, sg_peer_id = None, sg_kem_pub_b64 = None,
       sg_algorithm = ''ml-dsa-65'', sg_signature_prefix = ''ml-dsa-65'' \<rparr>"

record signed_envelope =
  se_bytes :: bytes
  se_nonce :: string
  se_timestamp :: u64

text \<open>
  \<open>uuid\<close> is the identifier drawn when no nonce is given, \<open>millis\<close> the system time in
  milliseconds (\<^const>\<open>None\<close> before the epoch).
\<close>

definition sign_internal ::
  "crypto_lib \<Rightarrow> string \<Rightarrow> nat option \<Rightarrow> bytes \<Rightarrow> string \<Rightarrow> sign_envelope_config \<Rightarrow> bytes \<Rightarrow> bytes
     \<Rightarrow> envelope_error + signed_envelope" where
  "sign_internal L uuid millis payload payload_type cfg pk sk =
     (let nonce = (case sg_nonce cfg of Some n \<Rightarrow> n | None \<Rightarrow> uuid);
          ts = (case sg_timestamp cfg of
                  Some t \<Rightarrow> t
                | None \<Rightarrow> (case millis of Some m \<Rightarrow> of_nat m | None \<Rightarrow> 0));
          canonical =
            (case sg_peer_id cfg of
               Some peer \<Rightarrow> build_envelope_canonical_with_peer L payload payload_type nonce ts
                              (sg_algorithm cfg) peer (sg_kem_pub_b64 cfg)
             | None \<Rightarrow> build_envelope_canonical L payload payload_type nonce ts (sg_algorithm cfg)
                         (sg_kem_pub_b64 cfg)) in
      case sign_envelope L sk pk canonical of
        Inl e \<Rightarrow> Inl e
      | Inr (sig_b64, pub_b64) \<Rightarrow>
          Inr \<lparr> se_bytes =
                  (case sg_peer_id cfg of
                     Some peer \<Rightarrow> build_envelope_signed_with_peer L payload payload_type nonce ts
                                    (sg_algorithm cfg) (sg_signature_prefix cfg) sig_b64 pub_b64 peer
                                    (sg_kem_pub_b64 cfg)
                   | None \<Rightarrow> build_envelope_signed L payload payload_type nonce ts (sg_algorithm cfg)
                               (sg_signature_prefix cfg) sig_b64 pub_b64 (sg_kem_pub_b64 cfg)),
                se_nonce = nonce, se_timestamp = ts \<rparr>)"

definition sign_with_existing_keypair ::
  "crypto_lib \<Rightarrow> string \<Rightarrow> nat option \<Rightarrow> bytes \<Rightarrow> string \<Rightarrow> sign_envelope_config \<Rightarrow> bytes \<Rightarrow> bytes
     \<Rightarrow> envelope_error + signed_envelope" where
  "sign_with_existing_keypair L uuid millis payload payload_type cfg pk sk =
     sign_internal L uuid millis payload payload_type cfg pk sk"

text \<open>The node's keypair as \<open>ensure_keypair_on_disk\<close> returned it.\<close>

definition sign_with_node_keys ::
  "crypto_lib \<Rightarrow> string \<Rightarrow> nat option \<Rightarrow> envelope_error + (bytes \<times> bytes) \<Rightarrow> bytes \<Rightarrow> string
     \<Rightarrow> sign_envelope_config \<Rightarrow> envelope_error + signed_envelope" where
  "sign_with_node_keys L uuid millis keypair payload payload_type cfg =
     (case keypair of
        Inl e \<Rightarrow> Inl e
      | Inr (pk, sk) \<Rightarrow> sign_with_existing_keypair L uuid millis payload payload_type cfg pk sk)"

section \<open>Verification\<close>

record verified_envelope =
  ve_payload :: bytes
  ve_pubkey :: bytes
  ve_signature :: bytes
  ve_timestamp_ms :: u64
  ve_payload_type :: string

fun after_colon :: "string \<Rightarrow> string option" where
  "after_colon [] = None"
| "after_colon (c # cs) = (if c = CHR '':'' then Some cs else after_colon cs)"

definition normalize_and_decode_signature ::
  "crypto_lib \<Rightarrow> string option \<Rightarrow> envelope_error + bytes" where
  "normalize_and_decode_signature L sig_opt =
     (let sig_str = or_empty sig_opt;
          b64_part = (case after_colon sig_str of Some r \<Rightarrow> r | None \<Rightarrow> sig_str) in
      case b64_decode L b64_part of Some b \<Rightarrow> Inr b | None \<Rightarrow> Inl SignatureDecodeFailed)"

text \<open>The bytes whose signature is checked, rebuilt from the fields of a parsed envelope.\<close>

definition rebuilt_canonical :: "crypto_lib \<Rightarrow> envelope \<Rightarrow> bytes" where
  "rebuilt_canonical L e =
     (case fe_peer_id e of
        Some peer \<Rightarrow>
          build_envelope_canonical_with_peer L (or_empty (fe_payload e)) (or_empty (fe_payload_type e))
            (or_empty (fe_nonce e)) (fe_ts e) (or_empty (fe_alg e)) peer (fe_kem_pubkey e)
      | None \<Rightarrow>
          build_envelope_canonical L (or_empty (fe_payload e)) (or_empty (fe_payload_type e))
            (or_empty (fe_nonce e)) (fe_ts e) (or_empty (fe_alg e)) (fe_kem_pubkey e))"

definition verified_parts :: "envelope \<Rightarrow> bytes \<Rightarrow> bytes \<Rightarrow> verified_envelope" where
  "verified_parts e pub sig =
     \<lparr> ve_payload = or_empty (fe_payload e), ve_pubkey = pub, ve_signature = sig,
       ve_timestamp_ms = fe_ts e, ve_payload_type = or_empty (fe_payload_type e) \<rparr>"

definition verify_flatbuffer_envelope_for_peer ::
  "crypto_lib \<Rightarrow> instant \<Rightarrow> nat \<Rightarrow> string \<Rightarrow> bytes \<Rightarrow> nonce_store
     \<Rightarrow> nonce_store \<times> (envelope_error + verified_envelope)" where
  "verify_flatbuffer_envelope_for_peer L now nonce_window peer b st =
     (case fb_root_as_envelope L b of
        None \<Rightarrow> (st, Inl EnvelopeParseFailed)
      | Some e \<Rightarrow>
          (case normalize_and_decode_signature L (Some (or_empty (fe_sig e))) of
             Inl err \<Rightarrow> (st, Inl err)
           | Inr sig \<Rightarrow>
               (case b64_decode L (or_empty (fe_pubkey e)) of
                  None \<Rightarrow> (st, Inl PubkeyDecodeFailed)
                | Some pub \<Rightarrow>
                    (let nonce = or_empty (fe_nonce e);
                         checked = (if nonce \<noteq> []
                                    then check_and_insert_nonce_for_peer now nonce_window peer nonce st
                                    else (st, Inr ())) in
                     case checked of
                       (st', Inl err) \<Rightarrow> (st', Inl (NonceRejected err))
                     | (st', Inr _) \<Rightarrow>
                         (case verify_envelope L pub (rebuilt_canonical L e) sig of
                            Inl err \<Rightarrow> (st', Inl err)
                          | Inr _ \<Rightarrow> (st', Inr (verified_parts e pub sig)))))))"

definition verify_flatbuffer_envelope ::
  "crypto_lib \<Rightarrow> instant \<Rightarrow> nat \<Rightarrow> bytes \<Rightarrow> nonce_store
     \<Rightarrow> nonce_store \<times> (envelope_error + verified_envelope)" where
  "verify_flatbuffer_envelope L now nonce_window b st =
     verify_flatbuffer_envelope_for_peer L now nonce_window ''global'' b st"

definition verify_flatbuffer_envelope_skip_nonce_check ::
  "crypto_lib \<Rightarrow> bytes \<Rightarrow> envelope_error + verified_envelope" where
  "verify_flatbuffer_envelope_skip_nonce_check L b =
     (case fb_root_as_envelope L b of
        None \<Rightarrow> Inl EnvelopeParseFailed
      | Some e \<Rightarrow>
          (case normalize_and_decode_signature L (Some (or_empty (fe_sig e))) of
             Inl err \<Rightarrow> Inl err
           | Inr sig \<Rightarrow>
               (case b64_decode L (or_empty (fe_pubkey e)) of
                  None \<Rightarrow> Inl PubkeyDecodeFailed
                | Some pub \<Rightarrow>
                    (let canonical = build_envelope_canonical L (or_empty (fe_payload e))
                           (or_empty (fe_payload_type e)) (or_empty (fe_nonce e)) (fe_ts e)
                           (or_empty (fe_alg e)) None in
                     case verify_envelope L pub canonical sig of
                       Inl err \<Rightarrow> Inl err
                     | Inr _ \<Rightarrow> Inr (verified_parts e pub sig)))))"

text \<open>\<open>security.rs\<close> fixes the window at 300 seconds.\<close>

definition NONCE_WINDOW :: nat where
  "NONCE_WINDOW = 300 * 1000000000"

definition verify_envelope_and_check_nonce_for_peer ::
  "crypto_lib \<Rightarrow> instant \<Rightarrow> string \<Rightarrow> bytes \<Rightarrow> nonce_store
     \<Rightarrow> nonce_store \<times> (envelope_error + verified_envelope)" where
  "verify_envelope_and_check_nonce_for_peer L now peer b st =
     verify_flatbuffer_envelope_for_peer L now NONCE_WINDOW peer b st"

definition verify_envelope_and_check_nonce ::
  "crypto_lib \<Rightarrow> instant \<Rightarrow> bytes \<Rightarrow> nonce_store
     \<Rightarrow> nonce_store \<times> (envelope_error + verified_envelope)" where
  "verify_envelope_and_check_nonce L now b st =
     verify_envelope_and_check_nonce_for_peer L now ''global'' b st"

datatype envelope_rejection = SignatureRequired envelope_error

definition verify_signed_payload_for_peer ::
  "crypto_lib \<Rightarrow> instant \<Rightarrow> string \<Rightarrow> bytes \<Rightarrow> nonce_store
     \<Rightarrow> nonce_store \<times> (envelope_rejection + verified_envelope)" where
  "verify_signed_payload_for_peer L now peer b st =
     (case verify_envelope_and_check_nonce_for_peer L now peer b st of
        (st', Inl err) \<Rightarrow> (st', Inl (SignatureRequired err))
      | (st', Inr parts) \<Rightarrow> (st', Inr parts))"

text \<open>\<open>verify_signed_message\<close>; the error callback of its callers is the \<^const>\<open>None\<close> branch.\<close>

definition verify_signed_message ::
  "crypto_lib \<Rightarrow> instant \<Rightarrow> string \<Rightarrow> bytes \<Rightarrow> nonce_store \<Rightarrow> nonce_store \<times> verified_envelope option" where
  "verify_signed_message L now peer b st =
     (case verify_signed_payload_for_peer L now peer b st of
        (st', Inr env) \<Rightarrow> (st', Some env)
      | (st', Inl _) \<Rightarrow> (st', None))"

definition split_sig_field :: "string \<Rightarrow> string" where
  "split_sig_field s = (case after_colon s of Some r \<Rightarrow> r | None \<Rightarrow> s)"

definition fb_envelope_extract_sig_pub :: "crypto_lib \<Rightarrow> bytes \<Rightarrow> (bytes \<times> bytes) option" where
  "fb_envelope_extract_sig_pub L b =
     (case fb_root_as_envelope L b of
        None \<Rightarrow> None
      | Some e \<Rightarrow>
          (case fe_sig e of
             None \<Rightarrow> None
           | Some sig_field \<Rightarrow>
               (case b64_decode L (split_sig_field sig_field) of
                  None \<Rightarrow> None
                | Some sig \<Rightarrow>
                    (case fe_pubkey e of
                       None \<Rightarrow> None
                     | Some pub_field \<Rightarrow> map_option (\<lambda>pub. (sig, pub)) (b64_decode L pub_field)))))"

definition fb_envelope_extract_sig_pub_legacy ::
  "crypto_lib \<Rightarrow> bytes \<Rightarrow> envelope_error + (bytes \<times> bytes \<times> bytes \<times> string \<times> string)" where
  "fb_envelope_extract_sig_pub_legacy L b =
     (case fb_root_as_envelope L b of
        None \<Rightarrow> Inl EnvelopeParseFailed
      | Some e \<Rightarrow>
          (let canonical = build_envelope_canonical L (or_empty (fe_payload e))
                 (or_empty (fe_payload_type e)) (or_empty (fe_nonce e)) (fe_ts e) (or_empty (fe_alg e))
                 (Some (or_empty (fe_kem_pubkey e)));
               sig_field = or_empty (fe_sig e); pubkey_field = or_empty (fe_pubkey e) in
           case b64_decode L (split_sig_field sig_field) of
             None \<Rightarrow> Inl SignatureDecodeFailed
           | Some sig \<Rightarrow>
               (case b64_decode L pubkey_field of
                  None \<Rightarrow> Inl PubkeyDecodeFailed
                | Some pub \<Rightarrow> Inr (canonical, sig, pub, sig_field, pubkey_field))))"

section \<open>Lemmas\<close>

lemmas builder_defs = build_envelope_canonical_def build_envelope_canonical_with_peer_def
  build_envelope_signed_def build_envelope_signed_with_peer_def

lemma or_empty_simps [simp]: "or_empty (Some x) = x" "or_empty None = []"
  by (simp_all add: or_empty_def)

lemma after_colon_prefix: "CHR '':'' \<notin> set p \<Longrightarrow> after_colon (p @ CHR '':'' # r) = Some r"
  by (induction p) auto

lemma fb_root_finish [simp]: "crypto_laws L \<Longrightarrow> fb_root_as_envelope L (fb_finish L e) = Some e"
  by (simp add: crypto_laws_def)

lemma fb_finish_inj: "crypto_laws L \<Longrightarrow> fb_finish L a = fb_finish L b \<Longrightarrow> a = b"
  by (metis fb_root_finish option.inject)

lemma b64_roundtrip [simp]: "crypto_laws L \<Longrightarrow> b64_decode L (b64_encode L b) = Some b"
  by (simp add: crypto_laws_def)

text \<open>The canonical form does not depend on whether an empty field is absent.\<close>

lemma rebuilt_canonical_eq:
  "rebuilt_canonical L e = fb_finish L
     \<lparr> fe_payload = Some (or_empty (fe_payload e)), fe_payload_type = Some (or_empty (fe_payload_type e)),
       fe_nonce = Some (or_empty (fe_nonce e)), fe_ts = fe_ts e, fe_alg = Some (or_empty (fe_alg e)),
       fe_sig = Some [], fe_pubkey = Some [], fe_kem_pubkey = Some (or_empty (fe_kem_pubkey e)),
       fe_peer_id = Some (or_empty (fe_peer_id e)) \<rparr>"
  by (simp add: rebuilt_canonical_def builder_defs split: option.splits)

lemma sign_envelope_keypair:
  assumes "crypto_laws L" "dsa_keypair L pk sk"
  shows "\<exists>s. sign_envelope L sk pk m = Inr (b64_encode L s, b64_encode L pk)
    \<and> verify_envelope L pk m s = Inr ()"
proof -
  obtain s where s: "dsa_sign L sk m = Some s" "dsa_signature_ok L s" "dsa_verify L pk m s = Some True"
    using assms(2) unfolding dsa_keypair_def by blast
  have k: "pqc_init_ok L" "dsa_public L pk = Some pk" "dsa_secret_ok L sk"
    using assms unfolding crypto_laws_def dsa_keypair_def by simp_all
  show ?thesis
    by (rule exI [of _ s]) (simp add: sign_envelope_def verify_envelope_def s k)
qed

text \<open>An envelope whose canonical form was signed is accepted, if its nonce is.\<close>

lemma signed_verifies:
  assumes "crypto_laws L" "dsa_keypair L pk sk" "CHR '':'' \<notin> set prefix"
    and "sign_envelope L sk pk (rebuilt_canonical L e) = Inr (sig_b64, pub_b64)"
    and "or_empty (fe_nonce e) \<noteq> [] \<Longrightarrow> snd (check_and_insert_nonce_for_peer now w peer (or_empty (fe_nonce e)) st) = Inr ()"
  defines "e' \<equiv> e \<lparr> fe_sig := Some (prefix @ '':'' @ sig_b64), fe_pubkey := Some pub_b64 \<rparr>"
  shows "\<exists>sig. snd (verify_flatbuffer_envelope_for_peer L now w peer (fb_finish L e') st) = Inr (verified_parts e' pk sig)"
proof -
  obtain s where s: "sig_b64 = b64_encode L s" "pub_b64 = b64_encode L pk"
      "verify_envelope L pk (rebuilt_canonical L e) s = Inr ()"
    using sign_envelope_keypair [OF assms(1,2), of "rebuilt_canonical L e"] assms(4) by auto
  have "rebuilt_canonical L e' = rebuilt_canonical L e" by (simp add: e'_def rebuilt_canonical_eq)
  then show ?thesis
    using assms(1,3,5) s
    by (cases "check_and_insert_nonce_for_peer now w peer (or_empty (fe_nonce e)) st")
      (auto simp: e'_def verify_flatbuffer_envelope_for_peer_def normalize_and_decode_signature_def
        after_colon_prefix Let_def split: sum.splits)
qed

text \<open>An accepted envelope: its fields, keys and signature, and the state of its nonce.\<close>

lemma verify_Inr:
  assumes "snd (verify_flatbuffer_envelope_for_peer L now w peer b st) = Inr parts"
  shows "\<exists>e. fb_root_as_envelope L b = Some e
      \<and> parts = verified_parts e (ve_pubkey parts) (ve_signature parts)
      \<and> dsa_verify L (ve_pubkey parts) (rebuilt_canonical L e) (ve_signature parts) = Some True
      \<and> (or_empty (fe_nonce e) \<noteq> [] \<longrightarrow>
           snd (check_and_insert_nonce_for_peer now w peer (or_empty (fe_nonce e)) st) = Inr ())"
  using assms
  by (auto simp: verify_flatbuffer_envelope_for_peer_def verify_envelope_def Let_def verified_parts_def
      split: option.splits sum.splits prod.splits if_splits bool.splits)

text \<open>The effect of a verification on the store: none, or one check of the envelope's nonce.\<close>

lemma verify_store:
  "fst (verify_flatbuffer_envelope_for_peer L now w peer b st) = st
   \<or> (\<exists>n. fst (verify_flatbuffer_envelope_for_peer L now w peer b st)
        = fst (check_and_insert_nonce_for_peer now w peer n st))"
proof (cases "fb_root_as_envelope L b")
  case (Some e)
  obtain st' r where c: "check_and_insert_nonce_for_peer now w peer (or_empty (fe_nonce e)) st = (st', r)"
    by fastforce
  have "fst (verify_flatbuffer_envelope_for_peer L now w peer b st) \<in> {st, st'}"
    unfolding verify_flatbuffer_envelope_for_peer_def Let_def Some
    by (simp add: c split: sum.splits option.splits)
  then show ?thesis using c by (metis fst_conv insertE singletonD)
qed (simp add: verify_flatbuffer_envelope_for_peer_def)

definition verify_run ::
  "crypto_lib \<Rightarrow> nat \<Rightarrow> (instant \<times> string \<times> bytes) list \<Rightarrow> nonce_store \<Rightarrow> nonce_store" where
  "verify_run L w vs st = fold (\<lambda>(now, peer, b) st. fst (verify_flatbuffer_envelope_for_peer L now w peer b st)) vs st"

lemma verify_run_as_checks:
  "\<exists>cs. verify_run L w vs st = guard.run w cs st \<and> fst ` set cs \<subseteq> fst ` set vs"
proof (induction vs arbitrary: st)
  case Nil
  then show ?case by (auto simp: verify_run_def guard.run_Nil intro: exI [of _ "[]"])
next
  case (Cons v vs)
  obtain now peer b where v: "v = (now, peer, b)" by (cases v)
  let ?st = "fst (verify_flatbuffer_envelope_for_peer L now w peer b st)"
  obtain cs where cs: "verify_run L w vs ?st = guard.run w cs ?st" "fst ` set cs \<subseteq> fst ` set vs"
    using Cons.IH by blast
  have split: "verify_run L w (v # vs) st = verify_run L w vs ?st" by (simp add: verify_run_def v)
  from verify_store [of L now w peer b st] show ?case
  proof
    assume "?st = st"
    then show ?thesis using split cs by auto
  next
    assume "\<exists>n. ?st = fst (check_and_insert_nonce_for_peer now w peer n st)"
    then obtain n where "?st = fst (check_and_insert_nonce_for_peer now w peer n st)" by blast
    then have "verify_run L w (v # vs) st = guard.run w ((now, peer, n) # cs) st"
      using split cs(1) by (simp add: guard.run_Cons)
    then show ?thesis using cs(2) v by (intro exI [of _ "(now, peer, n) # cs"]) auto
  qed
qed

lemma verify_nonce_rejected:
  assumes "fb_root_as_envelope L b = Some e" "or_empty (fe_nonce e) \<noteq> []"
    and "snd (check_and_insert_nonce_for_peer now w peer (or_empty (fe_nonce e)) st) \<noteq> Inr ()"
  shows "\<exists>err. snd (verify_flatbuffer_envelope_for_peer L now w peer b st) = Inl err"
  using assms
  by (auto simp: verify_flatbuffer_envelope_for_peer_def Let_def split: sum.splits option.splits prod.splits)

text \<open>
  No replay within the window: once an envelope with a nonce has been accepted from a peer
  at time \<open>t0\<close>, the same bytes from the same peer are rejected at every time up to \<open>t0\<close> plus the
  window, whatever envelopes from whatever peers were verified in between.
\<close>

theorem replay_protection:
  assumes "store_ok st" "fb_root_as_envelope L b = Some e" "or_empty (fe_nonce e) \<noteq> []"
    and "snd (verify_flatbuffer_envelope_for_peer L t0 w peer b st) = Inr parts"
    and "\<And>now p x. (now, p, x) \<in> set vs \<Longrightarrow> now \<le> t0 + w" "t \<le> t0 + w"
  shows "\<exists>err. snd (verify_flatbuffer_envelope_for_peer L t w peer b
    (verify_run L w vs (fst (verify_flatbuffer_envelope_for_peer L t0 w peer b st)))) = Inl err"
proof -
  let ?n = "or_empty (fe_nonce e)"
  have acc: "snd (check_and_insert_nonce_for_peer t0 w peer ?n st) = Inr ()"
    using verify_Inr [OF assms(4)] assms(2,3) by simp
  have st1: "fst (verify_flatbuffer_envelope_for_peer L t0 w peer b st)
      = fst (check_and_insert_nonce_for_peer t0 w peer ?n st)"
    using assms(2,3,4)
    by (auto simp: verify_flatbuffer_envelope_for_peer_def Let_def split: sum.splits option.splits prod.splits)
  obtain cs where cs: "verify_run L w vs (fst (check_and_insert_nonce_for_peer t0 w peer ?n st))
      = guard.run w cs (fst (check_and_insert_nonce_for_peer t0 w peer ?n st))"
    "fst ` set cs \<subseteq> fst ` set vs"
    using verify_run_as_checks by blast
  have "now \<le> t0 + w" if c: "(now, p', n') \<in> set cs" for now p' n'
  proof -
    have "now \<in> fst ` set vs" using cs(2) c by force
    then show ?thesis using assms(5) by force
  qed
  then have "snd (check_and_insert_nonce_for_peer t w peer ?n
      (guard.run w cs (fst (check_and_insert_nonce_for_peer t0 w peer ?n st)))) \<noteq> Inr ()"
    using guard.replay_rejected [OF assms(1,3) acc _ assms(6)] by blast
  then show ?thesis
    unfolding st1 cs(1) by (rule verify_nonce_rejected [OF assms(2,3)])
qed

section \<open>Properties\<close>

text \<open>
  (C19) What is signed verifies: an envelope made by \<open>sign_internal\<close> with a keypair, with or
  without a peer id and a KEM key, is accepted by a verifier that has not seen its nonce in the
  window, and yields the payload, the payload type, the timestamp and the signer's public key. Whatever the
  time stamp is: the verification does not compare it with the clock, though section 3.3 of
  \<open>machineplane/README.md\<close> asks receivers to reject a clock skew of more than 30 seconds.
\<close>

theorem sign_verify_roundtrip:
  assumes "crypto_laws L" "dsa_keypair L pk sk" "CHR '':'' \<notin> set (sg_signature_prefix cfg)"
    and "sign_internal L uuid millis payload payload_type cfg pk sk = Inr se"
    and "store_ok st" "nonce_seen_at st peer (se_nonce se) = None"
  shows "\<exists>sig. snd (verify_flatbuffer_envelope_for_peer L now w peer (se_bytes se) st)
    = Inr \<lparr> ve_payload = payload, ve_pubkey = pk, ve_signature = sig,
            ve_timestamp_ms = se_timestamp se, ve_payload_type = payload_type \<rparr>"
proof -
  let ?e = "\<lparr> fe_payload = Some payload, fe_payload_type = Some payload_type, fe_nonce = Some (se_nonce se),
      fe_ts = se_timestamp se, fe_alg = Some (sg_algorithm cfg), fe_sig = Some [], fe_pubkey = Some [],
      fe_kem_pubkey = Some (or_empty (sg_kem_pub_b64 cfg)), fe_peer_id = Some (or_empty (sg_peer_id cfg)) \<rparr>"
  obtain sig_b64 pub_b64 where signed: "sign_envelope L sk pk (rebuilt_canonical L ?e) = Inr (sig_b64, pub_b64)"
    "se_bytes se = fb_finish L (?e \<lparr> fe_sig := Some (sg_signature_prefix cfg @ '':'' @ sig_b64), fe_pubkey := Some pub_b64 \<rparr>)"
    using assms(4) unfolding sign_internal_def
    by (auto simp: builder_defs rebuilt_canonical_eq Let_def split: option.splits sum.splits)
  have "or_empty (fe_nonce ?e) \<noteq> [] \<Longrightarrow>
      snd (check_and_insert_nonce_for_peer now w peer (or_empty (fe_nonce ?e)) st) = Inr ()"
    using guard.accept_iff [OF assms(5)] assms(6) by simp
  from signed_verifies [OF assms(1-3) signed(1) this] show ?thesis
    unfolding signed(2) by (auto simp: verified_parts_def)
qed

text \<open>
  (C20) A signature covers the whole envelope: if two envelopes are accepted with the same
  public key and the same signature, they agree in payload, payload type, nonce, timestamp,
  algorithm, sender and KEM key (an absent field counting as empty).
\<close>

theorem tamper_evident:
  assumes "crypto_laws L" "dsa_binding L"
    and "snd (verify_flatbuffer_envelope_for_peer L t w peer b st) = Inr parts"
    and "snd (verify_flatbuffer_envelope_for_peer L t' w' peer' b' st') = Inr parts'"
    and "ve_pubkey parts = ve_pubkey parts'" "ve_signature parts = ve_signature parts'"
    and "fb_root_as_envelope L b = Some e" "fb_root_as_envelope L b' = Some e'"
  shows "or_empty (fe_payload e) = or_empty (fe_payload e')
    \<and> or_empty (fe_payload_type e) = or_empty (fe_payload_type e')
    \<and> or_empty (fe_nonce e) = or_empty (fe_nonce e') \<and> fe_ts e = fe_ts e'
    \<and> or_empty (fe_alg e) = or_empty (fe_alg e')
    \<and> or_empty (fe_peer_id e) = or_empty (fe_peer_id e')
    \<and> or_empty (fe_kem_pubkey e) = or_empty (fe_kem_pubkey e')"
proof -
  have "rebuilt_canonical L e = rebuilt_canonical L e'"
    using verify_Inr [OF assms(3)] verify_Inr [OF assms(4)] assms(2,5-8)
    unfolding dsa_binding_def by fastforce
  then show ?thesis
    unfolding rebuilt_canonical_eq by (auto dest!: fb_finish_inj [OF assms(1)])
qed

text \<open>
  The nonce is recorded before the signature is checked: any envelope whose signature and
  key decode, signed or forged, makes the peer's genuine envelope with the same nonce
  unacceptable for the rest of the window.
\<close>

theorem forged_envelope_burns_nonce:
  assumes "store_ok st" "fb_root_as_envelope L forged = Some f" "fb_root_as_envelope L genuine = Some e"
    and "normalize_and_decode_signature L (Some (or_empty (fe_sig f))) = Inr sig"
    and "b64_decode L (or_empty (fe_pubkey f)) = Some pub"
    and "or_empty (fe_nonce f) = or_empty (fe_nonce e)" "or_empty (fe_nonce e) \<noteq> []"
    and "nonce_seen_at st peer (or_empty (fe_nonce e)) = None" "t \<le> t0 + w"
  shows "\<exists>err. snd (verify_flatbuffer_envelope_for_peer L t w peer genuine
    (fst (verify_flatbuffer_envelope_for_peer L t0 w peer forged st))) = Inl err"
proof -
  let ?n = "or_empty (fe_nonce e)"
  have acc: "snd (check_and_insert_nonce_for_peer t0 w peer ?n st) = Inr ()"
    using guard.accept_iff [OF assms(1,7)] assms(8) by simp
  have st1: "fst (verify_flatbuffer_envelope_for_peer L t0 w peer forged st)
      = fst (check_and_insert_nonce_for_peer t0 w peer ?n st)"
    using assms(2,4-7) acc
    by (auto simp: verify_flatbuffer_envelope_for_peer_def Let_def split: sum.splits option.splits prod.splits)
  have "snd (check_and_insert_nonce_for_peer t w peer ?n
      (guard.run w [] (fst (check_and_insert_nonce_for_peer t0 w peer ?n st)))) \<noteq> Inr ()"
    by (rule guard.replay_rejected [OF assms(1,7) acc _ assms(9)]) simp
  then show ?thesis
    unfolding st1 guard.run_Nil by (rule verify_nonce_rejected [OF assms(3,7)])
qed

text \<open>
  An envelope without a nonce is outside replay protection: its verification neither reads
  nor changes the store, so if it is accepted once it is accepted always.
\<close>

theorem empty_nonce_not_protected:
  assumes "fb_root_as_envelope L b = Some e" "or_empty (fe_nonce e) = []"
  shows "verify_flatbuffer_envelope_for_peer L t w peer b st
    = (st, snd (verify_flatbuffer_envelope_for_peer L t0 w0 peer0 b st0))"
  using assms
  by (auto simp: verify_flatbuffer_envelope_for_peer_def Let_def split: sum.splits option.splits)

text \<open>
  The verifier without nonce check rebuilds the signed bytes without sender and KEM key, so
  it refuses every genuine envelope that was signed with one of them.
\<close>

theorem skip_nonce_check_refuses:
  assumes "crypto_laws L" "dsa_binding L"
    and "fb_root_as_envelope L b = Some e"
    and "snd (verify_flatbuffer_envelope_for_peer L t w peer b st) = Inr parts"
    and "or_empty (fe_peer_id e) \<noteq> [] \<or> or_empty (fe_kem_pubkey e) \<noteq> []"
  shows "\<exists>err. verify_flatbuffer_envelope_skip_nonce_check L b = Inl err"
proof -
  let ?can = "build_envelope_canonical L (or_empty (fe_payload e)) (or_empty (fe_payload_type e))
    (or_empty (fe_nonce e)) (fe_ts e) (or_empty (fe_alg e)) None"
  have ne: "?can \<noteq> rebuilt_canonical L e"
    using assms(5) unfolding rebuilt_canonical_eq builder_defs
    by (auto dest!: fb_finish_inj [OF assms(1)])
  have "dsa_verify L (ve_pubkey parts) ?can (ve_signature parts) \<noteq> Some True"
    using verify_Inr [OF assms(4)] assms(2,3) ne unfolding dsa_binding_def by fastforce
  then show ?thesis
    using assms(3,4)
    by (auto simp: verify_flatbuffer_envelope_skip_nonce_check_def verify_flatbuffer_envelope_for_peer_def
        verify_envelope_def verified_parts_def Let_def
        split: option.splits sum.splits prod.splits if_splits bool.splits)
qed

end
