(* ===== verification/Toy_Codec.thy ===== *)
theory Toy_Codec
  imports Prelude
begin

text \<open>
  A self-delimiting byte format with its reader, for the concrete instances of the serialisation
  libraries: a list of bytes behind its length in unary, an optional list, text, and a list of
  pairs of texts.
\<close>

definition put_list :: "bytes \<Rightarrow> bytes" where
  "put_list bs = replicate (length bs) 1 @ [0] @ bs"

definition get_list :: "bytes \<Rightarrow> (bytes \<times> bytes) option" where
  "get_list bs =
     (let n = length (takeWhile (\<lambda>b. b = 1) bs); rest = drop (Suc n) bs in
      if n < length bs \<and> n \<le> length rest then Some (take n rest, drop n rest) else None)"

lemma get_put_list [simp]: "get_list (put_list bs @ r) = Some (bs, r)"
proof -
  have "takeWhile (\<lambda>b. b = 1) (put_list bs @ r) = replicate (length bs) 1"
    by (simp add: put_list_def takeWhile_append)
  then show ?thesis by (simp add: get_list_def put_list_def)
qed

definition put_opt_list :: "bytes option \<Rightarrow> bytes" where
  "put_opt_list x = (case x of None \<Rightarrow> [0] | Some bs \<Rightarrow> 1 # put_list bs)"

definition get_opt_list :: "bytes \<Rightarrow> (bytes option \<times> bytes) option" where
  "get_opt_list bs =
     (case bs of [] \<Rightarrow> None
      | b # r \<Rightarrow> if b = 0 then Some (None, r)
                 else map_option (\<lambda>(x, r). (Some x, r)) (get_list r))"

lemma get_put_opt_list [simp]: "get_opt_list (put_opt_list x @ r) = Some (x, r)"
  by (cases x) (simp_all add: get_opt_list_def put_opt_list_def)

definition put_str :: "string option \<Rightarrow> bytes" where
  "put_str s = put_opt_list (map_option bytes_of_string s)"

definition get_str :: "bytes \<Rightarrow> (string option \<times> bytes) option" where
  "get_str bs = map_option (\<lambda>(x, r). (map_option string_of_bytes x, r)) (get_opt_list bs)"

lemma get_put_str [simp]: "get_str (put_str s @ r) = Some (s, r)"
  by (cases s) (simp_all add: get_str_def put_str_def)

lemma get_put_str_end [simp]: "get_str (put_str s) = Some (s, [])"
  using get_put_str [of s "[]"] by simp

fun put_pairs :: "(string \<times> string) list \<Rightarrow> bytes" where
  "put_pairs [] = [0]"
| "put_pairs ((k, v) # m) = 1 # put_str (Some k) @ put_str (Some v) @ put_pairs m"

fun get_pairs :: "nat \<Rightarrow> bytes \<Rightarrow> (string \<times> string) list option" where
  "get_pairs 0 bs = None"
| "get_pairs (Suc n) [] = None"
| "get_pairs (Suc n) (b # bs) =
     (if b = 0 then Some []
      else do {
        (k, bs) \<leftarrow> get_str bs;
        (v, bs) \<leftarrow> get_str bs;
        k \<leftarrow> k;
        v \<leftarrow> v;
        m \<leftarrow> get_pairs n bs;
        Some ((k, v) # m) })"

lemma get_put_pairs: "length m < n \<Longrightarrow> get_pairs n (put_pairs m) = Some m"
proof (induction m arbitrary: n rule: put_pairs.induct)
  case 1
  then show ?case by (cases n) auto
next
  case (2 k v m)
  then show ?case by (cases n) auto
qed

lemma length_put_pairs: "length m < length (put_pairs m)"
  by (induction m rule: put_pairs.induct) auto

definition print_pairs :: "(string \<times> string) list \<Rightarrow> string" where
  "print_pairs m = string_of_bytes (put_pairs m)"

definition parse_pairs :: "string \<Rightarrow> (string \<times> string) list option" where
  "parse_pairs s = get_pairs (length s) (bytes_of_string s)"

lemma parse_print_pairs [simp]: "parse_pairs (print_pairs m) = Some m"
proof -
  have "length (print_pairs m) = length (put_pairs m)" by (simp add: print_pairs_def string_of_bytes_def)
  then show ?thesis by (simp add: parse_pairs_def print_pairs_def get_put_pairs length_put_pairs)
qed

end
