(* ===== verification/Envelope_Examples.thy ===== *)
theory Envelope_Examples
  imports Envelope Toy_Codec
begin

text \<open>
  A concrete instance of the libraries behind the envelopes, with which every hypothesis of the
  envelope properties holds: a self-delimiting byte format in place of FlatBuffers, the bytes
  themselves as text in place of base64, and a signature that is key and message in a row.
\<close>

section \<open>The libraries\<close>

definition toy_finish :: "envelope \<Rightarrow> bytes" where
  "toy_finish e = put_opt_list (fe_payload e) @ put_str (fe_payload_type e) @ put_str (fe_nonce e)
     @ put_list (be_encode 8 (unat (fe_ts e))) @ put_str (fe_alg e) @ put_str (fe_sig e)
     @ put_str (fe_pubkey e) @ put_str (fe_kem_pubkey e) @ put_str (fe_peer_id e)"

definition toy_root :: "bytes \<Rightarrow> envelope option" where
  "toy_root b = do {
     (payload, b) \<leftarrow> get_opt_list b;
     (ptype, b) \<leftarrow> get_str b;
     (nonce, b) \<leftarrow> get_str b;
     (ts, b) \<leftarrow> get_list b;
     (alg, b) \<leftarrow> get_str b;
     (sig, b) \<leftarrow> get_str b;
     (pubkey, b) \<leftarrow> get_str b;
     (kem, b) \<leftarrow> get_str b;
     (peer, b) \<leftarrow> get_str b;
     Some \<lparr> fe_payload = payload, fe_payload_type = ptype, fe_nonce = nonce,
            fe_ts = of_nat (be_decode ts), fe_alg = alg, fe_sig = sig, fe_pubkey = pubkey,
            fe_kem_pubkey = kem, fe_peer_id = peer \<rparr> }"

lemma toy_root_finish [simp]: "toy_root (toy_finish e) = Some e"
proof -
  have "unat (fe_ts e) < 256 ^ 8" using unsigned_less [of "fe_ts e", where 'a = nat] by simp
  then show ?thesis by (simp add: toy_root_def toy_finish_def)
qed

definition toy_lib :: crypto_lib where
  "toy_lib = \<lparr> fb_finish = toy_finish, fb_root_as_envelope = toy_root,
     b64_encode = string_of_bytes, b64_decode = (\<lambda>s. Some (bytes_of_string s)), pqc_init_ok = True,
     dsa_secret_ok = (\<lambda>_. True), dsa_public = Some, dsa_sign = (\<lambda>sk m. Some (sk @ m)),
     dsa_signature_ok = (\<lambda>_. True), dsa_verify = (\<lambda>pk m s. Some (s = pk @ m)) \<rparr>"

lemma toy_laws: "crypto_laws toy_lib" "dsa_keypair toy_lib k k" "dsa_binding toy_lib"
  by (auto simp: crypto_laws_def dsa_keypair_def dsa_binding_def toy_lib_def)

section \<open>Concrete runs\<close>

definition toy_config :: sign_envelope_config where
  "toy_config = default_sign_config \<lparr> sg_nonce := Some ''n1'', sg_timestamp := Some 5,
     sg_peer_id := Some ''peerA'' \<rparr>"

definition toy_signed :: signed_envelope where
  "toy_signed = projr (sign_internal toy_lib ''u'' None [1, 2, 3] ''apply'' toy_config [7] [7])"

lemmas toy_eval = toy_signed_def sign_internal_def sign_envelope_def toy_lib_def Let_def toy_config_def
  default_sign_config_def builder_defs verify_flatbuffer_envelope_for_peer_def
  normalize_and_decode_signature_def check_and_insert_nonce_for_peer_def peer_nonces_def
  hm_contains_key_def hm_retain_def hm_empty_def hm_get_def verify_envelope_def rebuilt_canonical_def
  verified_parts_def

lemma toy_signed_Inr:
  "sign_internal toy_lib ''u'' None [1, 2, 3] ''apply'' toy_config [7] [7] = Inr toy_signed"
  by (simp add: toy_signed_def sign_internal_def sign_envelope_def toy_lib_def Let_def toy_config_def
      default_sign_config_def)

lemma toy_signed_parts: "se_nonce toy_signed = ''n1''" "se_timestamp toy_signed = 5"
  by (simp_all add: toy_signed_def sign_internal_def sign_envelope_def toy_lib_def Let_def
      toy_config_def default_sign_config_def)

lemma toy_signed_root:
  "\<exists>e. fb_root_as_envelope toy_lib (se_bytes toy_signed) = Some e
     \<and> fe_nonce e = Some ''n1'' \<and> fe_peer_id e = Some ''peerA''
     \<and> fe_sig e \<noteq> None \<and> fe_pubkey e \<noteq> None"
  by (simp add: toy_signed_def sign_internal_def sign_envelope_def toy_lib_def Let_def toy_config_def
      default_sign_config_def build_envelope_signed_with_peer_def)

lemma toy_nonce_fresh: "store_ok hm_empty" "nonce_seen_at hm_empty p n = None"
  by (simp_all add: store_ok_empty nonce_seen_at_def peer_nonces_def)

theorem sign_verify_roundtrip_witness:
  "\<exists>sig. snd (verify_flatbuffer_envelope_for_peer toy_lib 10 300 ''peerA'' (se_bytes toy_signed) hm_empty)
    = Inr \<lparr> ve_payload = [1, 2, 3], ve_pubkey = [7], ve_signature = sig, ve_timestamp_ms = 5,
            ve_payload_type = ''apply'' \<rparr>"
proof -
  have "CHR '':'' \<notin> set (sg_signature_prefix toy_config)"
    by (simp add: toy_config_def default_sign_config_def)
  from sign_verify_roundtrip [OF toy_laws(1,2) this toy_signed_Inr toy_nonce_fresh]
  show ?thesis unfolding toy_signed_parts .
qed

lemma toy_accepted:
  "\<exists>parts. snd (verify_flatbuffer_envelope_for_peer toy_lib t w p (se_bytes toy_signed) hm_empty) = Inr parts"
  by (simp add: toy_eval)

theorem replay_protection_witness:
  "\<exists>err. snd (verify_flatbuffer_envelope_for_peer toy_lib 310 300 ''peerA'' (se_bytes toy_signed)
     (verify_run toy_lib 300 [(50, ''peerB'', se_bytes toy_signed), (60, ''peerA'', [1])]
       (fst (verify_flatbuffer_envelope_for_peer toy_lib 10 300 ''peerA'' (se_bytes toy_signed) hm_empty))))
     = Inl err"
proof -
  obtain e where e: "fb_root_as_envelope toy_lib (se_bytes toy_signed) = Some e" "fe_nonce e = Some ''n1''"
    using toy_signed_root by blast
  obtain parts where "snd (verify_flatbuffer_envelope_for_peer toy_lib 10 300 ''peerA''
      (se_bytes toy_signed) hm_empty) = Inr parts"
    using toy_accepted by blast
  then show ?thesis
    by (intro replay_protection [OF toy_nonce_fresh(1) e(1)]) (auto simp: e(2))
qed

text \<open>The signed envelope with its empty KEM key left out: accepted with the same signature.\<close>

definition toy_variant :: bytes where
  "toy_variant = toy_finish ((the (toy_root (se_bytes toy_signed))) \<lparr> fe_kem_pubkey := None \<rparr>)"

theorem tamper_evident_witness:
  "\<exists>e e'. fb_root_as_envelope toy_lib (se_bytes toy_signed) = Some e
     \<and> fb_root_as_envelope toy_lib toy_variant = Some e' \<and> e \<noteq> e'
     \<and> or_empty (fe_payload e) = or_empty (fe_payload e') \<and> or_empty (fe_nonce e) = or_empty (fe_nonce e')"
proof -
  let ?V = "\<lambda>b. snd (verify_flatbuffer_envelope_for_peer toy_lib 10 300 ''peerA'' b hm_empty)"
  obtain parts parts' e e' where p: "?V (se_bytes toy_signed) = Inr parts" "?V toy_variant = Inr parts'"
    and eq: "ve_pubkey parts = ve_pubkey parts'" "ve_signature parts = ve_signature parts'"
    and e: "fb_root_as_envelope toy_lib (se_bytes toy_signed) = Some e"
      "fb_root_as_envelope toy_lib toy_variant = Some e'" "e \<noteq> e'"
    by (simp add: toy_variant_def toy_eval)
  from tamper_evident [OF toy_laws(1,3) p eq e(1,2)] e show ?thesis by blast
qed

theorem forged_envelope_burns_nonce_witness:
  "\<exists>err. snd (verify_flatbuffer_envelope_for_peer toy_lib 200 300 ''peerA'' (se_bytes toy_signed)
     (fst (verify_flatbuffer_envelope_for_peer toy_lib 10 300 ''peerA''
       (toy_finish \<lparr> fe_payload = None, fe_payload_type = None, fe_nonce = Some ''n1'', fe_ts = 0,
          fe_alg = None, fe_sig = None, fe_pubkey = None, fe_kem_pubkey = None, fe_peer_id = None \<rparr>)
       hm_empty))) = Inl err"
proof -
  obtain e where e: "fb_root_as_envelope toy_lib (se_bytes toy_signed) = Some e" "fe_nonce e = Some ''n1''"
    using toy_signed_root by blast
  show ?thesis
    by (rule forged_envelope_burns_nonce [OF toy_nonce_fresh(1) _ e(1), where sig = "[]" and pub = "[]"
          and f = "\<lparr> fe_payload = None, fe_payload_type = None, fe_nonce = Some ''n1'', fe_ts = 0,
            fe_alg = None, fe_sig = None, fe_pubkey = None, fe_kem_pubkey = None, fe_peer_id = None \<rparr>"])
       (simp_all add: toy_lib_def e(2) toy_nonce_fresh Let_def normalize_and_decode_signature_def
        bytes_of_string_def)
qed

theorem empty_nonce_not_protected_witness:
  "verify_flatbuffer_envelope_for_peer toy_lib 9 300 ''a''
     (toy_finish \<lparr> fe_payload = None, fe_payload_type = None, fe_nonce = None, fe_ts = 0,
          fe_alg = None, fe_sig = None, fe_pubkey = None, fe_kem_pubkey = None, fe_peer_id = None \<rparr>) hm_empty
   = (hm_empty, snd (verify_flatbuffer_envelope_for_peer toy_lib 1 2 ''b''
     (toy_finish \<lparr> fe_payload = None, fe_payload_type = None, fe_nonce = None, fe_ts = 0,
          fe_alg = None, fe_sig = None, fe_pubkey = None, fe_kem_pubkey = None, fe_peer_id = None \<rparr>) hm_empty))"
  by (rule empty_nonce_not_protected [where e = "\<lparr> fe_payload = None, fe_payload_type = None,
        fe_nonce = None, fe_ts = 0, fe_alg = None, fe_sig = None, fe_pubkey = None,
        fe_kem_pubkey = None, fe_peer_id = None \<rparr>"]) (simp_all add: toy_lib_def)

theorem skip_nonce_check_refuses_witness:
  "\<exists>err. verify_flatbuffer_envelope_skip_nonce_check toy_lib (se_bytes toy_signed) = Inl err"
proof -
  obtain e where e: "fb_root_as_envelope toy_lib (se_bytes toy_signed) = Some e" "fe_peer_id e = Some ''peerA''"
    using toy_signed_root by blast
  obtain parts where "snd (verify_flatbuffer_envelope_for_peer toy_lib 10 300 ''peerA''
      (se_bytes toy_signed) hm_empty) = Inr parts"
    using toy_accepted by blast
  from skip_nonce_check_refuses [OF toy_laws(1,3) e(1) this] e(2) show ?thesis by simp
qed

end
