(* ===== verification/Provider_Manager.thy ===== *)
theory Provider_Manager
  imports Prelude
begin

text \<open>
  The provider manager, \<open>machine/src/provider/mod.rs\<close>: which manifests this node provides, which
  peers provide the others, and who waits for an answer. The DHT is a parameter: what
  \<open>start_providing\<close> answers is an argument, and its findings arrive as calls of
  \<open>handle_provider_found\<close>.

  An asynchronous query is two operations: the part up to the wait, and the part a poll of the
  waiting task runs. A channel is a number; its queue is an entry of \<open>mailboxes\<close>, which exists as
  long as the receiver does, so that a message to a task that has gone is dropped as in the source.
  System time is counted in nanoseconds.
\<close>

type_synonym peer_id = string

datatype provider_error =
    DhtError string
  | NetworkError string
  | ProviderNotFound string
  | Timeout

definition display_provider_error :: "provider_error \<Rightarrow> string" where
  "display_provider_error e =
     (case e of
        DhtError s \<Rightarrow> ''DHT error: '' @ s
      | NetworkError s \<Rightarrow> ''Network error: '' @ s
      | ProviderNotFound s \<Rightarrow> ''Provider not found: '' @ s
      | Timeout \<Rightarrow> ''Timeout waiting for providers'')"

record provider_info =
  pi_peer_id :: peer_id
  pi_manifest_id :: string
  pi_announced_at :: system_time
  pi_last_seen :: system_time
  pi_ttl_seconds :: u64
  pi_metadata :: "(string, string) hmap"

definition is_expired :: "system_time \<Rightarrow> provider_info \<Rightarrow> bool" where
  "is_expired now p =
     (if pi_announced_at p \<le> now
      then (now - pi_announced_at p) div 1000000000 > unat (pi_ttl_seconds p)
      else True)"

definition update_last_seen :: "system_time \<Rightarrow> provider_info \<Rightarrow> provider_info" where
  "update_last_seen now p = p \<lparr> pi_last_seen := now \<rparr>"

record provider_config =
  default_ttl_seconds :: u64
  reannounce_interval_seconds :: u64
  cleanup_interval_seconds :: u64
  max_providers_per_manifest :: nat
  discovery_timeout_seconds :: u64

definition default_provider_config :: provider_config where
  "default_provider_config =
     \<lparr> default_ttl_seconds = 3600, reannounce_interval_seconds = 1800, cleanup_interval_seconds = 300,
       max_providers_per_manifest = 50, discovery_timeout_seconds = 30 \<rparr>"

record provider_manager =
  local_providers :: "(string, provider_info) hmap"
  remote_providers :: "(string, provider_info list) hmap"
  pending_queries :: "(string, nat list) hmap"
  pm_config :: provider_config
  mailboxes :: "(nat, provider_info list list) hmap"

definition provider_manager_new :: "provider_config \<Rightarrow> provider_manager" where
  "provider_manager_new cfg =
     \<lparr> local_providers = hm_empty, remote_providers = hm_empty, pending_queries = hm_empty,
       pm_config = cfg, mailboxes = hm_empty \<rparr>"

definition provider_manager_new_default :: provider_manager where
  "provider_manager_new_default = provider_manager_new default_provider_config"

section \<open>Operations\<close>

text \<open>The key under which a manifest is announced, and the answer of the DHT to the announcement.\<close>

definition provider_key :: "string \<Rightarrow> string" where
  "provider_key manifest_id = ''provider:'' @ manifest_id"

definition announce_via_dht :: "(string \<Rightarrow> string + unit) \<Rightarrow> string \<Rightarrow> provider_error + unit" where
  "announce_via_dht start_providing manifest_id =
     (case start_providing (provider_key manifest_id) of
        Inr _ \<Rightarrow> Inr ()
      | Inl e \<Rightarrow> Inl (DhtError (''Failed to start providing: '' @ e)))"

definition announce_provider ::
  "(string \<Rightarrow> string + unit) \<Rightarrow> system_time \<Rightarrow> system_time \<Rightarrow> peer_id \<Rightarrow> string \<Rightarrow> (string, string) hmap
     \<Rightarrow> provider_manager \<Rightarrow> provider_manager \<times> (provider_error + unit)" where
  "announce_provider start_providing t1 t2 local_peer manifest_id metadata pm =
     (let info = \<lparr> pi_peer_id = local_peer, pi_manifest_id = manifest_id, pi_announced_at = t1,
                   pi_last_seen = t2, pi_ttl_seconds = default_ttl_seconds (pm_config pm),
                   pi_metadata = metadata \<rparr>;
          pm' = pm \<lparr> local_providers := hm_insert manifest_id info (local_providers pm) \<rparr> in
      case announce_via_dht start_providing manifest_id of
        Inl e \<Rightarrow> (pm', Inl e)
      | Inr _ \<Rightarrow> (pm', Inr ()))"

definition stop_providing ::
  "string \<Rightarrow> provider_manager \<Rightarrow> provider_manager \<times> (provider_error + unit)" where
  "stop_providing manifest_id pm =
     (case hm_get (local_providers pm) manifest_id of
        Some _ \<Rightarrow> (pm \<lparr> local_providers := hm_remove manifest_id (local_providers pm) \<rparr>, Inr ())
      | None \<Rightarrow> (pm, Inl (ProviderNotFound manifest_id)))"

definition get_local_providers :: "provider_manager \<Rightarrow> provider_info list" where
  "get_local_providers pm = hm_values (local_providers pm)"

definition get_providers_for_manifest :: "string \<Rightarrow> provider_manager \<Rightarrow> provider_info list" where
  "get_providers_for_manifest manifest_id pm =
     (case hm_get (remote_providers pm) manifest_id of Some ps \<Rightarrow> ps | None \<Rightarrow> [])"

text \<open>
  \<open>query_dht_providers\<close> up to the wait; \<open>tx\<close> is the new channel. The Kademlia query it starts is
  the second component.
\<close>

definition query_dht_start ::
  "nat \<Rightarrow> string \<Rightarrow> provider_manager \<Rightarrow> provider_manager \<times> string" where
  "query_dht_start tx manifest_id pm =
     (let senders = (case hm_get (pending_queries pm) manifest_id of Some s \<Rightarrow> s | None \<Rightarrow> []) in
      (pm \<lparr> pending_queries := hm_insert manifest_id (senders @ [tx]) (pending_queries pm),
            mailboxes := hm_insert tx [] (mailboxes pm) \<rparr>,
       provider_key manifest_id))"

definition sender_alive :: "nat \<Rightarrow> provider_manager \<Rightarrow> bool" where
  "sender_alive tx pm = list_ex (\<lambda>(_, senders). tx \<in> set senders) (pending_queries pm)"

text \<open>
  One poll of the wait: \<^const>\<open>None\<close> while it goes on. A message wins over the timer; a channel
  whose senders are gone is closed.
\<close>

definition query_dht_poll ::
  "bool \<Rightarrow> nat \<Rightarrow> string \<Rightarrow> provider_manager
     \<Rightarrow> provider_manager \<times> (provider_error + provider_info list) option" where
  "query_dht_poll timer_expired tx manifest_id pm =
     (let closed = pm \<lparr> mailboxes := hm_remove tx (mailboxes pm) \<rparr> in
      case hm_get (mailboxes pm) tx of
        None \<Rightarrow> (pm, None)
      | Some (providers # _) \<Rightarrow>
          (closed \<lparr> remote_providers := hm_insert manifest_id providers (remote_providers pm) \<rparr>,
           Some (Inr providers))
      | Some [] \<Rightarrow>
          if \<not> sender_alive tx pm then (closed, Some (Inr []))
          else if timer_expired then (closed, Some (Inl Timeout))
          else (pm, None))"

datatype discover_result =
    Cached "provider_info list"
  | Querying string

definition discover_providers ::
  "(provider_info \<Rightarrow> system_time) \<Rightarrow> nat \<Rightarrow> string \<Rightarrow> provider_manager
     \<Rightarrow> provider_manager \<times> discover_result" where
  "discover_providers clock tx manifest_id pm =
     (let valid = filter (\<lambda>p. \<not> is_expired (clock p) p) (get_providers_for_manifest manifest_id pm) in
      if valid \<noteq> [] then (pm, Cached valid)
      else (case query_dht_start tx manifest_id pm of (pm', key) \<Rightarrow> (pm', Querying key)))"

definition cleanup_expired_providers ::
  "(provider_info \<Rightarrow> system_time) \<Rightarrow> provider_manager \<Rightarrow> provider_manager" where
  "cleanup_expired_providers clock pm =
     pm \<lparr> remote_providers :=
            hm_retain (\<lambda>_ ps. ps \<noteq> [])
              (map (\<lambda>(m, ps). (m, filter (\<lambda>p. \<not> is_expired (clock p) p) ps)) (remote_providers pm)) \<rparr>"

text \<open>One tick of the task that \<open>start_background_tasks\<close> spawns.\<close>

definition background_tick :: "(provider_info \<Rightarrow> system_time) \<Rightarrow> provider_manager \<Rightarrow> provider_manager" where
  "background_tick clock pm =
     (let emptied = map (\<lambda>(m, ps). (m, filter (\<lambda>p. \<not> is_expired (clock p) p) ps)) (remote_providers pm) in
      pm \<lparr> remote_providers := hm_retain (\<lambda>_ ps. ps \<noteq> []) emptied \<rparr>)"

definition reannounce_local_providers ::
  "(string \<Rightarrow> string + unit) \<Rightarrow> provider_manager \<Rightarrow> (string \<times> (provider_error + unit)) list" where
  "reannounce_local_providers start_providing pm =
     map (\<lambda>m. (m, announce_via_dht start_providing m)) (hm_keys (local_providers pm))"

fun first_min_idx :: "nat list \<Rightarrow> nat" where
  "first_min_idx [] = 0"
| "first_min_idx [x] = 0"
| "first_min_idx (x # xs) = (let i = first_min_idx xs in if x \<le> xs ! i then 0 else Suc i)"

definition remove_at :: "nat \<Rightarrow> 'a list \<Rightarrow> 'a list" where
  "remove_at i xs = take i xs @ drop (Suc i) xs"

fun touch_first :: "peer_id \<Rightarrow> system_time \<Rightarrow> provider_info list \<Rightarrow> provider_info list" where
  "touch_first peer now [] = []"
| "touch_first peer now (p # ps) =
     (if pi_peer_id p = peer then update_last_seen now p # ps else p # touch_first peer now ps)"

definition add_provider ::
  "nat \<Rightarrow> system_time \<Rightarrow> provider_info \<Rightarrow> provider_info list \<Rightarrow> provider_info list" where
  "add_provider cap now info ps =
     (if list_ex (\<lambda>p. pi_peer_id p = pi_peer_id info) ps
      then touch_first (pi_peer_id info) now ps
      else
        (let ps' = (if length ps \<ge> cap \<and> ps \<noteq> []
                    then remove_at (first_min_idx (map pi_last_seen ps)) ps else ps) in
         ps' @ [info]))"

text \<open>A message to a channel whose receiver is gone is dropped.\<close>

definition deliver ::
  "provider_info list \<Rightarrow> nat \<Rightarrow> (nat, provider_info list list) hmap \<Rightarrow> (nat, provider_info list list) hmap" where
  "deliver msg tx boxes =
     (case hm_get boxes tx of None \<Rightarrow> boxes | Some q \<Rightarrow> hm_insert tx (q @ [msg]) boxes)"

definition notify_pending :: "string \<Rightarrow> provider_manager \<Rightarrow> provider_manager" where
  "notify_pending manifest_id pm =
     (case hm_get (pending_queries pm) manifest_id of
        None \<Rightarrow> pm
      | Some senders \<Rightarrow>
          (let providers = get_providers_for_manifest manifest_id pm in
           pm \<lparr> pending_queries := hm_remove manifest_id (pending_queries pm),
                mailboxes := fold (deliver providers) senders (mailboxes pm) \<rparr>))"

definition handle_provider_found ::
  "system_time \<Rightarrow> system_time \<Rightarrow> system_time \<Rightarrow> string \<Rightarrow> peer_id \<Rightarrow> provider_manager \<Rightarrow> provider_manager" where
  "handle_provider_found t1 t2 t3 manifest_id peer pm =
     (let info = \<lparr> pi_peer_id = peer, pi_manifest_id = manifest_id, pi_announced_at = t1,
                   pi_last_seen = t2, pi_ttl_seconds = default_ttl_seconds (pm_config pm),
                   pi_metadata = hm_empty \<rparr>;
          ps = add_provider (max_providers_per_manifest (pm_config pm)) t3 info
                 (get_providers_for_manifest manifest_id pm);
          pm' = pm \<lparr> remote_providers := hm_insert manifest_id ps (remote_providers pm) \<rparr> in
      notify_pending manifest_id pm')"

record provider_stats =
  ps_local_providers :: nat
  ps_remote_manifests :: nat
  ps_total_remote_providers :: nat
  ps_pending_queries :: nat

definition provider_get_stats :: "provider_manager \<Rightarrow> provider_stats" where
  "provider_get_stats pm =
     \<lparr> ps_local_providers = length (local_providers pm),
       ps_remote_manifests = length (remote_providers pm),
       ps_total_remote_providers = sum_list (map length (hm_values (remote_providers pm))),
       ps_pending_queries = length (pending_queries pm) \<rparr>"

section \<open>Lists of providers\<close>

text \<open>What the list of a manifest always satisfies.\<close>

definition good_list :: "nat \<Rightarrow> string \<Rightarrow> provider_info list \<Rightarrow> bool" where
  "good_list cap m ps \<longleftrightarrow> distinct (map pi_peer_id ps) \<and> length ps \<le> max 1 cap
     \<and> (\<forall>p \<in> set ps. pi_manifest_id p = m)"

lemma good_list_Nil: "good_list cap m []"
  by (simp add: good_list_def)

lemma first_min_idx_less: "xs \<noteq> [] \<Longrightarrow> first_min_idx xs < length xs"
  by (induction xs rule: first_min_idx.induct) (auto simp: Let_def)

lemma first_min_idx_le: "y \<in> set xs \<Longrightarrow> xs ! first_min_idx xs \<le> y"
proof (induction xs rule: first_min_idx.induct)
  case (3 x y' ys)
  then show ?case by (auto simp: Let_def)
qed auto

lemma set_remove_at_subset: "set (remove_at i xs) \<subseteq> set xs"
  by (auto simp: remove_at_def dest: in_set_takeD in_set_dropD)

lemma length_remove_at: "i < length xs \<Longrightarrow> length (remove_at i xs) = length xs - 1"
  by (simp add: remove_at_def)

lemma map_remove_at: "map f (remove_at i xs) = remove_at i (map f xs)"
  by (simp add: remove_at_def take_map drop_map)

lemma mset_remove_at: "i < length xs \<Longrightarrow> mset xs = add_mset (xs ! i) (mset (remove_at i xs))"
  unfolding remove_at_def by (metis id_take_nth_drop mset_append mset.simps(2) union_mset_add_mset_right)

lemma distinct_remove_at: "distinct xs \<Longrightarrow> distinct (remove_at i xs)"
proof (cases "i < length xs")
  case True
  then have "mset xs = mset (xs ! i # remove_at i xs)" by (simp add: mset_remove_at)
  moreover assume "distinct xs"
  ultimately show ?thesis using mset_eq_imp_distinct_iff by fastforce
qed (simp add: remove_at_def)

lemma touch_first_maps [simp]:
  "map pi_peer_id (touch_first peer t ps) = map pi_peer_id ps"
  "map pi_manifest_id (touch_first peer t ps) = map pi_manifest_id ps"
  "map pi_announced_at (touch_first peer t ps) = map pi_announced_at ps"
  "map pi_ttl_seconds (touch_first peer t ps) = map pi_ttl_seconds ps"
  "length (touch_first peer t ps) = length ps"
  by (induction ps) (auto simp: update_last_seen_def)

lemma good_list_touch: "good_list cap m ps \<Longrightarrow> good_list cap m (touch_first peer t ps)"
  unfolding good_list_def
  by (metis touch_first_maps(1,2,5) image_eqI list.set_map imageE)

lemma good_list_add:
  assumes "good_list cap m ps" "pi_manifest_id info = m"
  shows "good_list cap m (add_provider cap t info ps)"
proof (cases "list_ex (\<lambda>p. pi_peer_id p = pi_peer_id info) ps")
  case True
  then show ?thesis using assms(1) by (simp add: add_provider_def good_list_touch)
next
  case False
  then have fresh: "pi_peer_id info \<notin> set (map pi_peer_id ps)" by (auto simp: list_ex_iff)
  show ?thesis
  proof (cases "length ps \<ge> cap \<and> ps \<noteq> []")
    case True
    let ?i = "first_min_idx (map pi_last_seen ps)"
    have i: "?i < length ps" using True first_min_idx_less [of "map pi_last_seen ps"] by simp
    have sub: "set (remove_at ?i ps) \<subseteq> set ps" by (rule set_remove_at_subset)
    have "distinct (map pi_peer_id (remove_at ?i ps))"
      using assms(1) by (simp add: map_remove_at distinct_remove_at good_list_def)
    moreover have "length (remove_at ?i ps) + 1 \<le> max 1 cap"
      using assms(1) True i by (simp add: length_remove_at good_list_def)
    ultimately show ?thesis
      using assms fresh sub True False
      by (auto simp: add_provider_def good_list_def Let_def)
  next
    case outer: False
    then show ?thesis
      using assms fresh False by (auto simp: add_provider_def good_list_def Let_def)
  qed
qed

lemma good_list_filter: "good_list cap m ps \<Longrightarrow> good_list cap m (filter P ps)"
  unfolding good_list_def
  by (meson distinct_map_filter filter_is_subset le_trans length_filter_le subsetD)

lemma get_cleaned:
  assumes "hm_wf (remote_providers pm)"
  shows "hm_get (remote_providers (cleanup_expired_providers clock pm)) m =
    (case hm_get (remote_providers pm) m of
       None \<Rightarrow> None
     | Some ps \<Rightarrow>
         (let ps' = filter (\<lambda>p. \<not> is_expired (clock p) p) ps in if ps' = [] then None else Some ps'))"
proof -
  let ?f = "filter (\<lambda>p. \<not> is_expired (clock p) p)"
  let ?xs = "map (\<lambda>(m, ps). (m, ?f ps)) (remote_providers pm)"
  have "map fst ?xs = map fst (remote_providers pm)" by (induction "remote_providers pm") auto
  then have wf: "hm_wf ?xs" using assms by (simp add: hm_wf_def comp_def case_prod_unfold)
  have "hm_get ?xs m = map_option ?f (hm_get (remote_providers pm) m)"
    by (simp add: hm_get_def map_of_map)
  then show ?thesis
    by (simp add: cleanup_expired_providers_def hm_get_retain [OF wf] Let_def split: option.splits)
qed

lemma background_tick_is_cleanup: "background_tick clock pm = cleanup_expired_providers clock pm"
  by (simp add: background_tick_def cleanup_expired_providers_def Let_def)

section \<open>Reachable states\<close>

text \<open>
  The manager under any interleaving of its operations, with the tasks that have started a
  discovery: the channel and the manifest of each. A poll belongs to such a task.
\<close>

inductive pm_reach :: "provider_config \<Rightarrow> provider_manager \<Rightarrow> (nat \<times> string) list \<Rightarrow> bool" for cfg where
  reach_new: "pm_reach cfg (provider_manager_new cfg) []"
| reach_announce: "pm_reach cfg pm ts \<Longrightarrow> pm_reach cfg (fst (announce_provider sp t1 t2 me m md pm)) ts"
| reach_stop: "pm_reach cfg pm ts \<Longrightarrow> pm_reach cfg (fst (stop_providing m pm)) ts"
| reach_found: "pm_reach cfg pm ts \<Longrightarrow> pm_reach cfg (handle_provider_found t1 t2 t3 m p pm) ts"
| reach_cleanup: "pm_reach cfg pm ts \<Longrightarrow> pm_reach cfg (cleanup_expired_providers clock pm) ts"
| reach_tick: "pm_reach cfg pm ts \<Longrightarrow> pm_reach cfg (background_tick clock pm) ts"
| reach_discover: "pm_reach cfg pm ts \<Longrightarrow> tx \<notin> fst ` set ts \<Longrightarrow>
    pm_reach cfg (fst (discover_providers clock tx m pm)) ((tx, m) # ts)"
| reach_poll: "pm_reach cfg pm ts \<Longrightarrow> (tx, m) \<in> set ts \<Longrightarrow>
    pm_reach cfg (fst (query_dht_poll expired tx m pm)) ts"

definition pm_inv :: "provider_config \<Rightarrow> provider_manager \<Rightarrow> (nat \<times> string) list \<Rightarrow> bool" where
  "pm_inv cfg pm ts \<longleftrightarrow> pm_config pm = cfg \<and> hm_wf (remote_providers pm) \<and> distinct (map fst ts)
     \<and> (\<forall>m ps. hm_get (remote_providers pm) m = Some ps
          \<longrightarrow> good_list (max_providers_per_manifest cfg) m ps)
     \<and> (\<forall>m senders tx. hm_get (pending_queries pm) m = Some senders \<longrightarrow> tx \<in> set senders
          \<longrightarrow> (tx, m) \<in> set ts)
     \<and> (\<forall>tx. hm_get (mailboxes pm) tx \<noteq> None \<longrightarrow> tx \<in> fst ` set ts)
     \<and> (\<forall>tx q ps m. hm_get (mailboxes pm) tx = Some q \<longrightarrow> ps \<in> set q \<longrightarrow> (tx, m) \<in> set ts
          \<longrightarrow> good_list (max_providers_per_manifest cfg) m ps)"

lemma get_deliver:
  "hm_get (deliver msg t boxes) tx
     = (if t = tx then map_option (\<lambda>q. q @ [msg]) (hm_get boxes tx) else hm_get boxes tx)"
  by (auto simp: deliver_def split: option.splits)

lemma get_deliver_fold:
  "hm_get (fold (deliver msg) txs boxes) tx = Some q \<Longrightarrow> ps \<in> set q \<Longrightarrow>
     (tx \<in> set txs \<and> ps = msg) \<or> (\<exists>q'. hm_get boxes tx = Some q' \<and> ps \<in> set q')"
proof (induction txs arbitrary: boxes)
  case (Cons t txs)
  from Cons.IH [of "deliver msg t boxes"] Cons.prems show ?case
    by (auto simp: get_deliver split: if_splits)
qed auto

lemma deliver_fold_None: "hm_get (fold (deliver msg) txs boxes) tx = None \<longleftrightarrow> hm_get boxes tx = None"
  by (induction txs arbitrary: boxes) (auto simp: get_deliver)

lemma pm_inv_get:
  assumes "pm_inv cfg pm ts"
  shows "good_list (max_providers_per_manifest cfg) m (get_providers_for_manifest m pm)"
  using assms
  by (auto simp: pm_inv_def get_providers_for_manifest_def good_list_Nil split: option.splits)

lemma pm_inv_remote:
  assumes "pm_inv cfg pm ts" "good_list (max_providers_per_manifest cfg) m ps"
  shows "pm_inv cfg (pm \<lparr> remote_providers := hm_insert m ps (remote_providers pm) \<rparr>) ts"
  using assms by (simp add: pm_inv_def)

lemma pm_inv_notify:
  assumes "pm_inv cfg pm ts"
  shows "pm_inv cfg (notify_pending m pm) ts"
proof (cases "hm_get (pending_queries pm) m")
  case None
  then show ?thesis using assms by (simp add: notify_pending_def)
next
  case (Some senders)
  let ?msg = "get_providers_for_manifest m pm" and ?good = "good_list (max_providers_per_manifest cfg)"
  have dist: "distinct (map fst ts)" and snd: "\<And>tx. tx \<in> set senders \<Longrightarrow> (tx, m) \<in> set ts"
    using assms Some by (auto simp: pm_inv_def)
  have boxes: "?good m' ps" if "hm_get (fold (deliver ?msg) senders (mailboxes pm)) tx = Some q"
      "ps \<in> set q" "(tx, m') \<in> set ts" for tx q ps m'
    using get_deliver_fold [OF that(1,2)]
  proof
    assume "tx \<in> set senders \<and> ps = ?msg"
    moreover from this have "m' = m" using snd that(3) dist eq_key_imp_eq_value by fastforce
    ultimately show ?thesis using pm_inv_get [OF assms] by simp
  next
    assume "\<exists>q'. hm_get (mailboxes pm) tx = Some q' \<and> ps \<in> set q'"
    then show ?thesis using assms that(3) unfolding pm_inv_def by blast
  qed
  show ?thesis
    using assms boxes Some unfolding notify_pending_def pm_inv_def
    by (simp add: Let_def deliver_fold_None)
qed

lemma pm_inv_found:
  assumes "pm_inv cfg pm ts"
  shows "pm_inv cfg (handle_provider_found t1 t2 t3 m p pm) ts"
proof -
  have cfg: "pm_config pm = cfg" using assms by (simp add: pm_inv_def)
  show ?thesis
    unfolding handle_provider_found_def Let_def cfg
    by (intro pm_inv_notify pm_inv_remote good_list_add assms pm_inv_get [OF assms]) simp
qed

lemma pm_inv_cleanup:
  assumes "pm_inv cfg pm ts"
  shows "pm_inv cfg (cleanup_expired_providers clock pm) ts"
proof -
  let ?pm = "cleanup_expired_providers clock pm"
  have wf: "hm_wf (remote_providers pm)" using assms by (simp add: pm_inv_def)
  have "hm_wf (remote_providers ?pm)"
    using wf unfolding cleanup_expired_providers_def
    by (auto simp: hm_wf_def comp_def case_prod_unfold intro!: hm_wf_retain [unfolded hm_wf_def])
  moreover have "good_list (max_providers_per_manifest cfg) m ps"
    if "hm_get (remote_providers ?pm) m = Some ps" for m ps
    using that assms unfolding get_cleaned [OF wf]
    by (auto simp: pm_inv_def Let_def good_list_filter split: option.splits if_splits)
  ultimately show ?thesis
    using assms by (simp add: pm_inv_def cleanup_expired_providers_def)
qed

lemma pm_inv_task:
  assumes "pm_inv cfg pm ts" "tx \<notin> fst ` set ts"
  shows "pm_inv cfg pm ((tx, m) # ts)"
  using assms unfolding pm_inv_def by auto

lemma pm_inv_start:
  assumes "pm_inv cfg pm ts" "(tx, m) \<in> set ts"
  shows "pm_inv cfg (fst (query_dht_start tx m pm)) ts"
proof -
  have tx: "tx \<in> fst ` set ts" using assms(2) by force
  have pend: "(t, m') \<in> set ts"
    if "hm_get (pending_queries pm) m' = Some senders" "t \<in> set senders" for m' senders t
    using assms(1) that unfolding pm_inv_def by blast
  show ?thesis
  proof (cases "hm_get (pending_queries pm) m")
    case None
    then show ?thesis
      using assms tx pend unfolding pm_inv_def query_dht_start_def Let_def by simp
  next
    case (Some senders)
    then show ?thesis
      using assms tx pend [OF Some] pend unfolding pm_inv_def query_dht_start_def Let_def by simp
  qed
qed

lemma pm_inv_discover:
  assumes "pm_inv cfg pm ts" "tx \<notin> fst ` set ts"
  shows "pm_inv cfg (fst (discover_providers clock tx m pm)) ((tx, m) # ts)"
proof -
  note task = pm_inv_task [OF assms, of m]
  have "pm_inv cfg (fst (query_dht_start tx m pm)) ((tx, m) # ts)"
    by (rule pm_inv_start [OF task]) simp
  then show ?thesis
    using task by (simp add: discover_providers_def Let_def case_prod_unfold)
qed

lemma pm_inv_closed:
  "pm_inv cfg pm ts \<Longrightarrow> pm_inv cfg (pm \<lparr> mailboxes := hm_remove tx (mailboxes pm) \<rparr>) ts"
  unfolding pm_inv_def by auto

lemma pm_inv_poll:
  assumes "pm_inv cfg pm ts" "(tx, m) \<in> set ts"
  shows "pm_inv cfg (fst (query_dht_poll expired tx m pm)) ts"
proof -
  note closed = pm_inv_closed [OF assms(1), of tx]
  have "good_list (max_providers_per_manifest cfg) m ps"
    if "hm_get (mailboxes pm) tx = Some (ps # q)" for ps q
    using assms that unfolding pm_inv_def by (metis list.set_intros(1))
  then show ?thesis
    using assms(1) closed pm_inv_remote [OF closed]
    by (auto simp: query_dht_poll_def Let_def split: option.splits list.splits)
qed

lemma pm_reach_inv: "pm_reach cfg pm ts \<Longrightarrow> pm_inv cfg pm ts"
proof (induction rule: pm_reach.induct)
  case reach_new
  then show ?case by (simp add: pm_inv_def provider_manager_new_def)
next
  case (reach_announce pm ts sp t1 t2 me m md)
  then show ?case by (simp add: pm_inv_def announce_provider_def Let_def split: sum.splits)
next
  case (reach_stop pm ts m)
  then show ?case by (simp add: pm_inv_def stop_providing_def split: option.splits)
qed (simp_all add: pm_inv_found pm_inv_cleanup background_tick_is_cleanup pm_inv_discover pm_inv_poll)

section \<open>Properties\<close>

text \<open>
  (C21) Under any interleaving of announcements, discoveries, DHT findings, polls and clean-ups,
  the list of every manifest holds each peer at most once, at most the configured number of
  providers (one, if that is zero), and only entries for that manifest.
\<close>

theorem provider_lists_bounded:
  assumes "pm_reach cfg pm ts"
  shows "distinct (map pi_peer_id (get_providers_for_manifest m pm))
    \<and> length (get_providers_for_manifest m pm) \<le> max 1 (max_providers_per_manifest cfg)
    \<and> (\<forall>p \<in> set (get_providers_for_manifest m pm). pi_manifest_id p = m)"
  using pm_inv_get [OF pm_reach_inv [OF assms], of m] unfolding good_list_def .

text \<open>
  Clean-up removes the expired providers and nothing else, and leaves no empty list behind.
\<close>

theorem cleanup_exact:
  assumes "pm_reach cfg pm ts"
  shows "get_providers_for_manifest m (cleanup_expired_providers clock pm)
      = filter (\<lambda>p. \<not> is_expired (clock p) p) (get_providers_for_manifest m pm)
    \<and> hm_get (remote_providers (cleanup_expired_providers clock pm)) m \<noteq> Some []
    \<and> local_providers (cleanup_expired_providers clock pm) = local_providers pm"
proof -
  have "hm_wf (remote_providers pm)" using pm_reach_inv [OF assms] by (simp add: pm_inv_def)
  from get_cleaned [OF this, of clock m] show ?thesis
    by (auto simp: get_providers_for_manifest_def cleanup_expired_providers_def Let_def
        split: option.splits if_splits)
qed

text \<open>
  When the list of a manifest is full and a new peer is found, exactly one provider gives
  way: one that was seen longest ago; the new peer is listed and everyone else stays.
\<close>

theorem eviction_least_recent:
  assumes "cap \<le> length ps" "ps \<noteq> []" "\<forall>p \<in> set ps. pi_peer_id p \<noteq> pi_peer_id info"
  shows "\<exists>old \<in> set ps. (\<forall>p \<in> set ps. pi_last_seen old \<le> pi_last_seen p)
    \<and> mset (add_provider cap t info ps) = add_mset info (mset ps - {# old #})"
proof -
  let ?i = "first_min_idx (map pi_last_seen ps)"
  have i: "?i < length ps" using first_min_idx_less [of "map pi_last_seen ps"] assms(2) by simp
  have least: "pi_last_seen (ps ! ?i) \<le> pi_last_seen p" if "p \<in> set ps" for p
    using first_min_idx_le [of "pi_last_seen p" "map pi_last_seen ps"] that i by simp
  have "\<not> list_ex (\<lambda>p. pi_peer_id p = pi_peer_id info) ps" using assms(3) by (auto simp: list_ex_iff)
  then have "mset (add_provider cap t info ps) = add_mset info (mset (remove_at ?i ps))"
    using assms(1,2) by (simp add: add_provider_def Let_def)
  also have "mset (remove_at ?i ps) = mset ps - {# ps ! ?i #}" by (simp add: mset_remove_at [OF i])
  finally show ?thesis using least i by (intro bexI [of _ "ps ! ?i"]) auto
qed

lemma deliver_fold_once:
  assumes "distinct txs" "tx \<in> set txs" "hm_get boxes tx = Some q"
  shows "hm_get (fold (deliver msg) txs boxes) tx = Some (q @ [msg])"
  using assms
proof (induction txs arbitrary: boxes q)
  case (Cons t txs)
  show ?case
  proof (cases "t = tx")
    case True
    then have "hm_get (fold (deliver msg) txs (deliver msg tx boxes)) tx
        = hm_get (deliver msg tx boxes) tx"
      using Cons.prems(1) by (induction txs arbitrary: boxes rule: rev_induct) (auto simp: get_deliver)
    then show ?thesis using True Cons.prems(3) by (simp add: get_deliver)
  next
    case False
    then show ?thesis using Cons by (simp add: get_deliver)
  qed
qed simp

lemma add_provider_lists_peer:
  "\<exists>p \<in> set (add_provider cap t info ps). pi_peer_id p = pi_peer_id info"
proof (cases "list_ex (\<lambda>p. pi_peer_id p = pi_peer_id info) ps")
  case True
  then have "pi_peer_id info \<in> set (map pi_peer_id (touch_first (pi_peer_id info) t ps))"
    unfolding touch_first_maps list_ex_iff by (metis imageI list.set_map)
  then have "\<exists>p \<in> set (touch_first (pi_peer_id info) t ps). pi_peer_id p = pi_peer_id info"
    unfolding set_map by (metis imageE)
  then show ?thesis using True by (simp add: add_provider_def)
qed (simp add: add_provider_def Let_def)

text \<open>
  A finding answers everyone who waits for the manifest, once: every pending sender whose
  receiver is alive gets one message, the current list, in which the found peer is; no query for
  the manifest is pending afterwards.
\<close>

theorem found_notifies_waiters:
  assumes "hm_get (pending_queries pm) m = Some senders" "distinct senders"
    and "tx \<in> set senders" "hm_get (mailboxes pm) tx = Some q"
  shows "hm_get (pending_queries (handle_provider_found t1 t2 t3 m p pm)) m = None
    \<and> (\<exists>ps. hm_get (mailboxes (handle_provider_found t1 t2 t3 m p pm)) tx = Some (q @ [ps])
          \<and> ps = get_providers_for_manifest m (handle_provider_found t1 t2 t3 m p pm)
          \<and> (\<exists>x \<in> set ps. pi_peer_id x = p))"
  using assms add_provider_lists_peer [where info = "\<lparr> pi_peer_id = p, pi_manifest_id = m,
      pi_announced_at = t1, pi_last_seen = t2, pi_ttl_seconds = default_ttl_seconds (pm_config pm),
      pi_metadata = hm_empty \<rparr>"]
  by (simp add: handle_provider_found_def notify_pending_def Let_def get_providers_for_manifest_def
      deliver_fold_once)

text \<open>
  Being found again does not keep a provider alive: the finding renews \<open>last_seen\<close> only, and
  expiry counts from the first announcement, so a peer the DHT reports without a break still
  expires once the time to live has passed since it was first listed.
\<close>

theorem refound_provider_still_expires:
  assumes "\<exists>x \<in> set (get_providers_for_manifest m pm). pi_peer_id x = p"
  shows "map (is_expired now) (get_providers_for_manifest m (handle_provider_found t1 t2 t3 m p pm))
    = map (is_expired now) (get_providers_for_manifest m pm)"
proof -
  let ?ps = "get_providers_for_manifest m pm"
  have same: "map (is_expired now) (touch_first p t3 ps) = map (is_expired now) ps" for ps
    by (induction ps) (auto simp: update_last_seen_def is_expired_def)
  have "get_providers_for_manifest m (handle_provider_found t1 t2 t3 m p pm) = touch_first p t3 ?ps"
    using assms
    by (auto simp: handle_provider_found_def notify_pending_def Let_def get_providers_for_manifest_def
        add_provider_def list_ex_iff split: option.splits)
  then show ?thesis by (simp only: same)
qed

section \<open>Concrete runs\<close>

definition tiny_config :: provider_config where
  "tiny_config = default_provider_config \<lparr> default_ttl_seconds := 5, max_providers_per_manifest := 1 \<rparr>"

definition demo_pm :: provider_manager where
  "demo_pm = handle_provider_found 7 7 7 ''m'' ''p''
     (fst (discover_providers (\<lambda>_. 0) 3 ''m'' (provider_manager_new tiny_config)))"

lemma demo_reach: "pm_reach tiny_config demo_pm [(3, ''m'')]"
  unfolding demo_pm_def by (intro reach_found reach_discover reach_new) simp

lemmas demo_eval = demo_pm_def tiny_config_def default_provider_config_def provider_manager_new_def
  handle_provider_found_def notify_pending_def discover_providers_def query_dht_start_def
  get_providers_for_manifest_def add_provider_def deliver_def cleanup_expired_providers_def
  is_expired_def hm_empty_def hm_get_def hm_insert_def hm_remove_def hm_retain_def Let_def

theorem provider_lists_bounded_witness:
  "length (get_providers_for_manifest ''m'' (handle_provider_found 8 8 8 ''m'' ''q'' demo_pm)) \<le> 1"
  using provider_lists_bounded [OF reach_found [OF demo_reach, of 8 8 8 "''m''" "''q''"], of "''m''"]
  by (simp add: tiny_config_def)

theorem cleanup_exact_witness:
  "get_providers_for_manifest ''m'' (cleanup_expired_providers (\<lambda>_. 6000000007) demo_pm) = []
   \<and> get_providers_for_manifest ''m'' (cleanup_expired_providers (\<lambda>_. 5000000007) demo_pm) \<noteq> []"
proof -
  have "filter (\<lambda>p. \<not> is_expired 6000000007 p) (get_providers_for_manifest ''m'' demo_pm) = []"
    "filter (\<lambda>p. \<not> is_expired 5000000007 p) (get_providers_for_manifest ''m'' demo_pm) \<noteq> []"
    by (simp_all add: demo_eval)
  with cleanup_exact [OF demo_reach] show ?thesis by simp
qed

theorem eviction_least_recent_witness:
  "\<exists>old \<in> set (get_providers_for_manifest ''m'' demo_pm).
     (\<forall>p \<in> set (get_providers_for_manifest ''m'' demo_pm). pi_last_seen old \<le> pi_last_seen p)
     \<and> mset (add_provider 1 9 (\<lparr> pi_peer_id = ''q'', pi_manifest_id = ''m'', pi_announced_at = 9,
          pi_last_seen = 9, pi_ttl_seconds = 5, pi_metadata = [] \<rparr>) (get_providers_for_manifest ''m'' demo_pm))
       = add_mset (\<lparr> pi_peer_id = ''q'', pi_manifest_id = ''m'', pi_announced_at = 9,
          pi_last_seen = 9, pi_ttl_seconds = 5, pi_metadata = [] \<rparr>)
          (mset (get_providers_for_manifest ''m'' demo_pm) - {# old #})"
  by (rule eviction_least_recent) (simp_all add: demo_eval)

theorem found_notifies_waiters_witness:
  "\<exists>ps. hm_get (mailboxes (handle_provider_found 7 7 7 ''m'' ''p''
       (fst (discover_providers (\<lambda>_. 0) 3 ''m'' (provider_manager_new tiny_config))))) 3 = Some [ps]
     \<and> (\<exists>x \<in> set ps. pi_peer_id x = ''p'')"
  using found_notifies_waiters [where tx = 3 and q = "[]" and senders = "[3]" and m = "''m''"
      and pm = "fst (discover_providers (\<lambda>_. 0) 3 ''m'' (provider_manager_new tiny_config))"
      and p = "''p''" and ?t1.0 = 7 and ?t2.0 = 7 and ?t3.0 = 7]
  by (simp add: demo_eval)

theorem refound_provider_still_expires_witness:
  "map (is_expired 6000000007)
     (get_providers_for_manifest ''m'' (handle_provider_found 6000000006 6000000006 6000000006 ''m'' ''p'' demo_pm))
   = [True]"
proof -
  have "\<exists>x \<in> set (get_providers_for_manifest ''m'' demo_pm). pi_peer_id x = ''p''"
    "map (is_expired 6000000007) (get_providers_for_manifest ''m'' demo_pm) = [True]"
    by (simp_all add: demo_eval)
  with refound_provider_still_expires [of "''m''" demo_pm "''p''" 6000000007] show ?thesis by simp
qed

end
