(* ===== verification/Announcements.thy ===== *)
theory Announcements
  imports Provider_Manager
begin

text \<open>
  Provider announcements, \<open>machine/src/provider/announcements.rs\<close>: their byte format for the DHT
  with its parser, the metadata builder and the validation. The codec of peer ids and the JSON
  form of the metadata belong to libraries: they are the functions of a record argument. The
  system clock counts nanoseconds since the epoch; the standard library keeps seconds in 64
  signed bits and panics beyond, which is the error \<open>TimestampPanic\<close> here.
\<close>

record announcement =
  an_peer_id :: peer_id
  an_manifest_id :: string
  an_timestamp :: system_time
  an_ttl_seconds :: u64
  an_metadata :: "(string, string) hmap"
  an_signature :: "bytes option"

record announcement_lib =
  peer_to_bytes :: "peer_id \<Rightarrow> bytes"
  peer_from_bytes :: "bytes \<Rightarrow> peer_id option"
  metadata_to_json :: "(string, string) hmap \<Rightarrow> string"
  metadata_from_json :: "string \<Rightarrow> (string, string) hmap option"

datatype announcement_error =
    InvalidData string
  | InvalidPeerId
  | InvalidUtf8
  | InvalidJson
  | TimestampPanic

definition announcement_new ::
  "system_time \<Rightarrow> peer_id \<Rightarrow> string \<Rightarrow> u64 \<Rightarrow> (string, string) hmap \<Rightarrow> announcement" where
  "announcement_new now peer manifest_id ttl metadata =
     \<lparr> an_peer_id = peer, an_manifest_id = manifest_id, an_timestamp = now, an_ttl_seconds = ttl,
       an_metadata = metadata, an_signature = None \<rparr>"

definition announcement_new_signed ::
  "system_time \<Rightarrow> peer_id \<Rightarrow> string \<Rightarrow> u64 \<Rightarrow> (string, string) hmap \<Rightarrow> bytes \<Rightarrow> announcement" where
  "announcement_new_signed now peer manifest_id ttl metadata sig =
     \<lparr> an_peer_id = peer, an_manifest_id = manifest_id, an_timestamp = now, an_ttl_seconds = ttl,
       an_metadata = metadata, an_signature = Some sig \<rparr>"

definition announcement_is_expired :: "system_time \<Rightarrow> announcement \<Rightarrow> bool" where
  "announcement_is_expired now a =
     (if an_timestamp a \<le> now
      then (now - an_timestamp a) div 1000000000 > unat (an_ttl_seconds a)
      else True)"

definition get_dht_key :: "announcement \<Rightarrow> string" where
  "get_dht_key a = ''provider:'' @ an_manifest_id a"

section \<open>The byte format\<close>

text \<open>A block with its length as a big-endian 32-bit number; a longer length is truncated by the cast.\<close>

definition put_block :: "bytes \<Rightarrow> bytes" where
  "put_block bs = be_encode 4 (length bs) @ bs"

definition to_bytes :: "announcement_lib \<Rightarrow> announcement \<Rightarrow> bytes" where
  "to_bytes L a =
     put_block (peer_to_bytes L (an_peer_id a))
     @ put_block (bytes_of_string (an_manifest_id a))
     @ be_encode 8 (an_timestamp a div 1000000000)
     @ be_encode 8 (unat (an_ttl_seconds a))
     @ put_block (bytes_of_string (metadata_to_json L (an_metadata a)))
     @ (case an_signature a of Some sig \<Rightarrow> 1 # put_block sig | None \<Rightarrow> [0])"

text \<open>The bound check of the parser in front of every read, and the read itself.\<close>

definition read_n :: "string \<Rightarrow> nat \<Rightarrow> bytes \<Rightarrow> announcement_error + (bytes \<times> bytes)" where
  "read_n err n bs = (if length bs < n then Inl (InvalidData err) else Inr (take n bs, drop n bs))"

definition sum_bind :: "'e + 'a \<Rightarrow> ('a \<Rightarrow> 'e + 'b) \<Rightarrow> 'e + 'b" where
  "sum_bind x f = (case x of Inl e \<Rightarrow> Inl e | Inr a \<Rightarrow> f a)"

definition or_err :: "'e \<Rightarrow> 'a option \<Rightarrow> 'e + 'a" where
  "or_err e x = (case x of None \<Rightarrow> Inl e | Some a \<Rightarrow> Inr a)"

definition read_block :: "string \<Rightarrow> string \<Rightarrow> bytes \<Rightarrow> announcement_error + (bytes \<times> bytes)" where
  "read_block err_len err_data bs =
     sum_bind (read_n err_len 4 bs) (\<lambda>(len, bs). read_n err_data (be_decode len) bs)"

definition read_signature :: "bytes \<Rightarrow> announcement_error + bytes option" where
  "read_signature bs =
     sum_bind (read_n ''Invalid data: missing signature flag'' 1 bs) (\<lambda>(flag, bs).
       if hd flag = 1
       then sum_bind (read_block ''Invalid data: missing signature length''
                        ''Invalid data: signature too short'' bs)
              (\<lambda>(sig, _). Inr (Some sig))
       else Inr None)"

definition from_bytes :: "announcement_lib \<Rightarrow> bytes \<Rightarrow> announcement_error + announcement" where
  "from_bytes L bs =
     sum_bind (read_block ''Invalid data: missing peer ID length'' ''Invalid data: peer ID too short'' bs)
       (\<lambda>(peer_bytes, bs).
     sum_bind (or_err InvalidPeerId (peer_from_bytes L peer_bytes)) (\<lambda>peer.
     sum_bind (read_block ''Invalid data: missing manifest ID length''
                 ''Invalid data: manifest ID too short'' bs) (\<lambda>(manifest_bytes, bs).
     sum_bind (or_err InvalidUtf8 (from_utf8 manifest_bytes)) (\<lambda>manifest_id.
     sum_bind (read_n ''Invalid data: missing timestamp'' 8 bs) (\<lambda>(ts, bs).
     sum_bind (if be_decode ts < 2 ^ 63 then Inr () else Inl TimestampPanic) (\<lambda>_.
     sum_bind (read_n ''Invalid data: missing TTL'' 8 bs) (\<lambda>(ttl, bs).
     sum_bind (read_block ''Invalid data: missing metadata length''
                 ''Invalid data: metadata too short'' bs) (\<lambda>(json_bytes, bs).
     sum_bind (or_err InvalidUtf8 (from_utf8 json_bytes)) (\<lambda>json.
     sum_bind (or_err InvalidJson (metadata_from_json L json)) (\<lambda>metadata.
     sum_bind (read_signature bs) (\<lambda>sig.
       Inr \<lparr> an_peer_id = peer, an_manifest_id = manifest_id,
             an_timestamp = be_decode ts * 1000000000, an_ttl_seconds = of_nat (be_decode ttl),
             an_metadata = metadata, an_signature = sig \<rparr>)))))))))))"

section \<open>The manager\<close>

text \<open>
  \<open>AnnouncementManager::announce_provider\<close>: the DHT answers to \<open>put_record\<close> and \<open>start_providing\<close>
  are arguments, the record that is stored is part of the first call.
\<close>

definition manager_announce_provider ::
  "announcement_lib \<Rightarrow> (string \<Rightarrow> bytes \<Rightarrow> string + unit) \<Rightarrow> (string \<Rightarrow> string + unit) \<Rightarrow> system_time \<Rightarrow> peer_id
     \<Rightarrow> string \<Rightarrow> u64 \<Rightarrow> (string, string) hmap \<Rightarrow> provider_error + unit" where
  "manager_announce_provider L put_record start_providing now local_peer manifest_id ttl metadata =
     (let a = announcement_new now local_peer manifest_id ttl metadata in
      case put_record (get_dht_key a) (to_bytes L a) of
        Inl e \<Rightarrow> Inl (DhtError (''Failed to put record: '' @ e))
      | Inr _ \<Rightarrow>
          (case start_providing (get_dht_key a) of
             Inr _ \<Rightarrow> Inr ()
           | Inl e \<Rightarrow> Inl (DhtError (''Failed to start providing: '' @ e))))"

text \<open>The key that the hash table is told to stop providing, and the result.\<close>

definition stop_announcing :: "string \<Rightarrow> string \<times> (provider_error + unit)" where
  "stop_announcing manifest_id = (''provider:'' @ manifest_id, Inr ())"

lemma stop_announcing_key: "fst (stop_announcing (an_manifest_id a)) = get_dht_key a"
  by (simp add: stop_announcing_def get_dht_key_def)

definition insert_all :: "('k \<times> 'v) list \<Rightarrow> ('k, 'v) hmap \<Rightarrow> ('k, 'v) hmap" where
  "insert_all kvs m = fold (\<lambda>(k, v) m. hm_insert k v m) kvs m"

definition create_metadata ::
  "system_time \<Rightarrow> string list \<Rightarrow> (string, string) hmap option \<Rightarrow> (string, string) hmap
     \<Rightarrow> (string, string) hmap" where
  "create_metadata now capabilities resource_info custom_fields =
     (let m = (if capabilities \<noteq> [] then hm_insert ''capabilities'' (join '','' capabilities) hm_empty
               else hm_empty);
          m = (case resource_info of
                 Some rs \<Rightarrow> insert_all (map (\<lambda>(k, v). (''resource.'' @ k, v)) rs) m
               | None \<Rightarrow> m);
          m = insert_all custom_fields m in
      hm_insert ''announced_at'' (to_decimal (now div 1000000000)) m)"

definition validate_announcement :: "system_time \<Rightarrow> announcement \<Rightarrow> bool" where
  "validate_announcement now a =
     (if announcement_is_expired now a then False
      else if an_manifest_id a = [] then False
      else True)"

section \<open>Lemmas\<close>

lemma sum_bind_simps [simp]: "sum_bind (Inr a) f = f a" "sum_bind (Inl e) f = Inl e"
  by (simp_all add: sum_bind_def)

lemma or_err_Some [simp]: "or_err e (Some a) = Inr a"
  by (simp add: or_err_def)

lemma read_n_append [simp]: "length xs = n \<Longrightarrow> read_n err n (xs @ ys) = Inr (xs, ys)"
  by (auto simp: read_n_def)

lemma read_block_put [simp]: "length bs < 2 ^ 32 \<Longrightarrow> read_block e1 e2 (put_block bs @ r) = Inr (bs, r)"
  by (simp add: read_block_def put_block_def)

lemma read_signature_put:
  "(\<forall>s. sig = Some s \<longrightarrow> length s < 2 ^ 32) \<Longrightarrow>
     read_signature ((case sig of Some s \<Rightarrow> 1 # put_block s | None \<Rightarrow> [0]) @ r) = Inr sig"
  by (cases sig) (simp_all add: read_signature_def read_n_def)

text \<open>A read from a truncated input either fails, or the cut is behind what it reads.\<close>

lemma read_n_cut:
  assumes "length xs = n"
  shows "read_n err n (take k (xs @ ys))
    = (if k < n then Inl (InvalidData err) else Inr (xs, take (k - n) ys))"
  using assms by (auto simp: read_n_def min_def)

lemma read_block_cut:
  assumes "length bs < 2 ^ 32"
  shows "(\<exists>e. read_block e1 e2 (take k (put_block bs @ ys)) = Inl e)
    \<or> (length (put_block bs) \<le> k
       \<and> read_block e1 e2 (take k (put_block bs @ ys)) = Inr (bs, take (k - length (put_block bs)) ys))"
proof (cases "k < 4")
  case True
  then show ?thesis
    using read_n_cut [of "be_encode 4 (length bs)" 4 e1 k "bs @ ys"]
    by (simp add: read_block_def put_block_def)
next
  case False
  then show ?thesis
    using assms read_n_cut [of "be_encode 4 (length bs)" 4 e1 k "bs @ ys"]
      read_n_cut [of bs "length bs" e2 "k - 4" ys]
    by (auto simp: read_block_def put_block_def)
qed

text \<open>The announcements the format can carry: lengths that fit their prefix, a time in range.\<close>

definition encodable :: "announcement_lib \<Rightarrow> announcement \<Rightarrow> bool" where
  "encodable L a \<longleftrightarrow>
     length (peer_to_bytes L (an_peer_id a)) < 2 ^ 32
     \<and> length (an_manifest_id a) < 2 ^ 32 \<and> valid_string (an_manifest_id a)
     \<and> an_timestamp a div 1000000000 < 2 ^ 63
     \<and> length (metadata_to_json L (an_metadata a)) < 2 ^ 32
     \<and> valid_string (metadata_to_json L (an_metadata a))
     \<and> (\<forall>s. an_signature a = Some s \<longrightarrow> length s < 2 ^ 32)"

definition announcement_laws :: "announcement_lib \<Rightarrow> bool" where
  "announcement_laws L \<longleftrightarrow> (\<forall>p. peer_from_bytes L (peer_to_bytes L p) = Some p)
     \<and> (\<forall>m. \<exists>m'. metadata_from_json L (metadata_to_json L m) = Some m' \<and> (\<forall>k. hm_get m' k = hm_get m k))"

lemma length_bytes_of_string [simp]: "length (bytes_of_string s) = length s"
  by (simp add: bytes_of_string_def)

text \<open>
  (C22) Announcements survive the wire: parsing the serialised form, whatever follows it, returns
  peer, manifest, time to live and signature unchanged, the timestamp to the second, and metadata
  with the same entries.
\<close>

theorem announcement_roundtrip:
  assumes "announcement_laws L" "encodable L a"
  shows "\<exists>md. from_bytes L (to_bytes L a @ rest)
      = Inr (a \<lparr> an_timestamp := an_timestamp a div 1000000000 * 1000000000, an_metadata := md \<rparr>)
    \<and> (\<forall>k. hm_get md k = hm_get (an_metadata a) k)"
proof -
  obtain md where md: "metadata_from_json L (metadata_to_json L (an_metadata a)) = Some md"
    "\<forall>k. hm_get md k = hm_get (an_metadata a) k"
    using assms(1) unfolding announcement_laws_def by blast
  have "unat (an_ttl_seconds a) < 256 ^ 8" using unsigned_less [of "an_ttl_seconds a", where 'a = nat] by simp
  moreover have "an_timestamp a div 1000000000 < 256 ^ 8" using assms(2) by (simp add: encodable_def)
  ultimately have "from_bytes L (to_bytes L a @ rest)
      = Inr (a \<lparr> an_timestamp := an_timestamp a div 1000000000 * 1000000000, an_metadata := md \<rparr>)"
    using assms md(1)
    by (simp add: from_bytes_def to_bytes_def encodable_def announcement_laws_def read_signature_put)
  with md(2) show ?thesis by blast
qed

text \<open>Rejection of every proper prefix, along the steps of the parser.\<close>

lemma reject_bind: "(\<And>a. x = Inr a \<Longrightarrow> \<exists>e. f a = Inl e) \<Longrightarrow> \<exists>e. sum_bind x f = Inl e"
  by (cases x) auto

lemma reject_read_n:
  assumes "k < length (xs @ ys)" "length xs = n"
    and "\<And>k. k < length ys \<Longrightarrow> \<exists>e. f (xs, take k ys) = Inl e"
  shows "\<exists>e. sum_bind (read_n err n (take k (xs @ ys))) f = Inl e"
  using assms by (simp add: read_n_cut del: take_append)

lemma reject_read_block:
  assumes "k < length (put_block bs @ ys)" "length bs < 2 ^ 32"
    and "\<And>k. k < length ys \<Longrightarrow> \<exists>e. f (bs, take k ys) = Inl e"
  shows "\<exists>e. sum_bind (read_block e1 e2 (take k (put_block bs @ ys))) f = Inl e"
  using read_block_cut [OF assms(2), of e1 e2 k ys]
proof
  assume "length (put_block bs) \<le> k
     \<and> read_block e1 e2 (take k (put_block bs @ ys)) = Inr (bs, take (k - length (put_block bs)) ys)"
  moreover from this have "length (put_block bs) \<le> k" by blast
  then have "k - length (put_block bs) < length ys" using assms(1) unfolding length_append by linarith
  ultimately show ?thesis using assms(3) by (simp del: take_append)
qed auto

lemma reject_signature:
  assumes "k < length (case sig of Some s \<Rightarrow> 1 # put_block s | None \<Rightarrow> [0])"
    and "\<forall>s. sig = Some s \<longrightarrow> length s < 2 ^ 32"
  shows "\<exists>e. read_signature (take k (case sig of Some s \<Rightarrow> 1 # put_block s | None \<Rightarrow> [0])) = Inl e"
proof (cases sig)
  case None
  then show ?thesis using assms(1) by (simp add: read_signature_def read_n_def)
next
  case (Some s)
  have "\<exists>e. sum_bind (read_block e1 e2 (take k' (put_block s @ []))) (\<lambda>(sig, _). Inr (Some sig)) = Inl e"
    if "k' < length (put_block s)" for k' e1 e2
    by (rule reject_read_block) (use that Some assms(2) in auto)
  then show ?thesis
    using assms(1) Some by (cases k) (auto simp: read_signature_def read_n_def)
qed

text \<open>
  A truncated announcement is never accepted: the parser answers every proper prefix of a
  serialised announcement with an error, whatever the libraries make of its parts.
\<close>

theorem truncated_announcement_rejected:
  assumes "encodable L a" "n < length (to_bytes L a)"
  shows "\<exists>e. from_bytes L (take n (to_bytes L a)) = Inl e"
proof -
  have len: "length (peer_to_bytes L (an_peer_id a)) < 2 ^ 32"
    "length (bytes_of_string (an_manifest_id a)) < 2 ^ 32"
    "length (bytes_of_string (metadata_to_json L (an_metadata a))) < 2 ^ 32"
    "\<forall>s. an_signature a = Some s \<longrightarrow> length s < 2 ^ 32"
    using assms(1) by (simp_all add: encodable_def)
  show ?thesis
    using assms(2) unfolding from_bytes_def to_bytes_def
    apply (rule reject_read_block [OF _ len(1)])
    apply (unfold prod.case)
    apply (rule reject_bind)
    apply (erule reject_read_block [OF _ len(2)])
    apply (unfold prod.case)
    apply (rule reject_bind)
    apply (erule reject_read_n)
     apply simp
    apply (unfold prod.case)
    apply (rule reject_bind)
    apply (erule reject_read_n)
     apply simp
    apply (unfold prod.case)
    apply (erule reject_read_block [OF _ len(3)])
    apply (unfold prod.case)
    apply (rule reject_bind)
    apply (rule reject_bind)
    apply (drule reject_signature [OF _ len(4)])
    apply (erule exE)
    apply simp
    done
qed

text \<open>
  A peer can bring the parser down: a timestamp of \<open>2^63\<close> seconds or more, in an otherwise
  well-formed announcement, ends in the panic of the addition to the epoch.
\<close>

theorem huge_timestamp_panics:
  assumes "announcement_laws L" "length (peer_to_bytes L p) < 2 ^ 32"
    and "length m < 2 ^ 32" "valid_string m" "2 ^ 63 \<le> secs" "secs < 2 ^ 64"
  shows "from_bytes L (put_block (peer_to_bytes L p) @ put_block (bytes_of_string m)
      @ be_encode 8 secs @ rest) = Inl TimestampPanic"
  using assms by (simp add: from_bytes_def announcement_laws_def)

lemma insert_all_get:
  "hm_get (insert_all kvs m) k = (case map_of (rev kvs) k of Some v \<Rightarrow> Some v | None \<Rightarrow> hm_get m k)"
  unfolding insert_all_def
  by (induction kvs rule: rev_induct) (auto split: option.splits)

text \<open>
  Metadata precedence: the announcement time always wins, then the custom fields, then the
  resources under their prefix, then the capabilities.
\<close>

theorem create_metadata_get:
  assumes "distinct (map fst custom)"
  shows "hm_get (create_metadata now caps (Some res) custom) k =
    (if k = ''announced_at'' then Some (to_decimal (now div 1000000000))
     else case map_of custom k of
            Some v \<Rightarrow> Some v
          | None \<Rightarrow>
              (case map_of (rev (map (\<lambda>(k, v). (''resource.'' @ k, v)) res)) k of
                 Some v \<Rightarrow> Some v
               | None \<Rightarrow> if k = ''capabilities'' \<and> caps \<noteq> [] then Some (join '','' caps) else None))"
proof -
  have "map_of (rev custom) = map_of custom"
    using assms map_of_inject_set [of "rev custom" custom] by (simp flip: rev_map)
  then show ?thesis
    by (simp add: create_metadata_def insert_all_get Let_def split: option.splits)
qed

end
