(* ===== verification/Announcements_Examples.thy ===== *)
theory Announcements_Examples
  imports Announcements Toy_Codec
begin

text \<open>
  A concrete instance of the libraries behind the announcements (peer ids as their bytes, metadata
  in the self-delimiting format) and runs of the announcement properties on it.
\<close>

definition toy_announcement_lib :: announcement_lib where
  "toy_announcement_lib =
     \<lparr> peer_to_bytes = bytes_of_string, peer_from_bytes = (\<lambda>b. Some (string_of_bytes b)),
       metadata_to_json = print_pairs, metadata_from_json = parse_pairs \<rparr>"

lemma toy_announcement_laws: "announcement_laws toy_announcement_lib"
  by (auto simp: announcement_laws_def toy_announcement_lib_def)

definition toy_announcement :: announcement where
  "toy_announcement = announcement_new_signed 5000000007 ''peer'' ''m1'' 60 [(''a'', ''b'')] [1, 2]"

lemma toy_encodable: "encodable toy_announcement_lib toy_announcement"
  by (simp add: encodable_def toy_announcement_lib_def toy_announcement_def announcement_new_signed_def
      print_pairs_def put_str_def put_opt_list_def put_list_def string_of_bytes_def bytes_of_string_def
      valid_string_def utf8_seq_def utf8_width_def Let_def)

theorem announcement_roundtrip_witness:
  "\<exists>md. from_bytes toy_announcement_lib (to_bytes toy_announcement_lib toy_announcement @ [9])
      = Inr (toy_announcement \<lparr> an_timestamp := 5000000000, an_metadata := md \<rparr>)
    \<and> hm_get md ''a'' = Some ''b''"
proof -
  have "an_timestamp toy_announcement div 1000000000 * 1000000000 = 5000000000"
    "hm_get (an_metadata toy_announcement) ''a'' = Some ''b''"
    by (simp_all add: toy_announcement_def announcement_new_signed_def hm_get_def)
  with announcement_roundtrip [OF toy_announcement_laws toy_encodable, of "[9]"] show ?thesis by auto
qed

theorem truncated_announcement_rejected_witness:
  "\<exists>e. from_bytes toy_announcement_lib (take 10 (to_bytes toy_announcement_lib toy_announcement)) = Inl e"
proof (rule truncated_announcement_rejected [OF toy_encodable])
  show "10 < length (to_bytes toy_announcement_lib toy_announcement)"
    by (simp add: to_bytes_def put_block_def toy_announcement_def announcement_new_signed_def)
qed

theorem huge_timestamp_panics_witness:
  "from_bytes toy_announcement_lib (put_block (peer_to_bytes toy_announcement_lib ''p'')
      @ put_block (bytes_of_string ''m'') @ be_encode 8 9223372036854775808 @ []) = Inl TimestampPanic"
  by (rule huge_timestamp_panics [OF toy_announcement_laws])
     (simp_all add: toy_announcement_lib_def valid_string_def utf8_seq_def utf8_width_def Let_def)

theorem create_metadata_get_witness:
  "hm_get (create_metadata 3000000000 [''gpu''] (Some [(''cpu'', ''4'')]) [(''announced_at'', ''x'')]) ''announced_at''
     = Some ''3''"
proof -
  have d: "distinct (map fst [(''announced_at'', ''x'')])" by simp
  show ?thesis
    unfolding create_metadata_get [OF d] by (simp add: to_decimal.simps digit_def char_of_def bit_iff_odd)
qed

end
