(* ===== verification/Discovery.thy ===== *)
theory Discovery
  imports Provider_Manager "HOL-Library.Product_Lexorder"
begin

text \<open>
  The discovery manager, \<open>machine/src/provider/discovery.rs\<close>: queries with their limits, a cache of
  results, and the channels of the tasks that wait. Channels are numbers with a queue in
  \<open>dm_mailboxes\<close>, as in the provider manager; an asynchronous method is the part up to its wait and
  the part a poll runs. Durations are nanoseconds.
\<close>

section \<open>Data\<close>

record discovery_query =
  dq_manifest_id :: string
  dq_started_at :: system_time
  dq_timeout :: nat
  dq_min_providers :: nat
  dq_max_providers :: nat
  dq_include_expired :: bool

definition secs :: "nat \<Rightarrow> nat" where
  "secs n = n * 1000000000"

definition query_new :: "system_time \<Rightarrow> string \<Rightarrow> discovery_query" where
  "query_new now manifest_id =
     \<lparr> dq_manifest_id = manifest_id, dq_started_at = now, dq_timeout = secs 30, dq_min_providers = 1,
       dq_max_providers = 10, dq_include_expired = False \<rparr>"

definition with_timeout :: "nat \<Rightarrow> discovery_query \<Rightarrow> discovery_query" where
  "with_timeout t q = q \<lparr> dq_timeout := t \<rparr>"

definition with_min_providers :: "nat \<Rightarrow> discovery_query \<Rightarrow> discovery_query" where
  "with_min_providers n q = q \<lparr> dq_min_providers := n \<rparr>"

definition with_max_providers :: "nat \<Rightarrow> discovery_query \<Rightarrow> discovery_query" where
  "with_max_providers n q = q \<lparr> dq_max_providers := n \<rparr>"

definition include_expired :: "bool \<Rightarrow> discovery_query \<Rightarrow> discovery_query" where
  "include_expired b q = q \<lparr> dq_include_expired := b \<rparr>"

definition is_timed_out :: "system_time \<Rightarrow> discovery_query \<Rightarrow> bool" where
  "is_timed_out now q = (now - dq_started_at q > dq_timeout q)"

definition query_dht_key :: "discovery_query \<Rightarrow> string" where
  "query_dht_key q = ''provider:'' @ dq_manifest_id q"

record discovery_result =
  dr_manifest_id :: string
  dr_providers :: "provider_info list"
  dr_success :: bool
  dr_error :: "string option"
  dr_duration :: nat
  dr_timed_out :: bool

record discovery_config =
  cache_ttl_seconds :: u64
  max_concurrent_queries :: nat
  default_timeout_seconds :: u64
  cache_cleanup_interval_seconds :: u64

definition default_discovery_config :: discovery_config where
  "default_discovery_config =
     \<lparr> cache_ttl_seconds = 300, max_concurrent_queries = 20, default_timeout_seconds = 30,
       cache_cleanup_interval_seconds = 60 \<rparr>"

record discovery_manager =
  active_queries :: "(string, discovery_query) hmap"
  pending_channels :: "(string, nat list) hmap"
  provider_cache :: "(string, provider_info list \<times> system_time) hmap"
  dm_config :: discovery_config
  dm_mailboxes :: "(nat, discovery_result list) hmap"

definition discovery_manager_new :: "discovery_config \<Rightarrow> discovery_manager" where
  "discovery_manager_new cfg =
     \<lparr> active_queries = hm_empty, pending_channels = hm_empty, provider_cache = hm_empty,
       dm_config = cfg, dm_mailboxes = hm_empty \<rparr>"

section \<open>Filtering\<close>

fun dedup_peers :: "peer_id list \<Rightarrow> provider_info list \<Rightarrow> provider_info list" where
  "dedup_peers seen [] = []"
| "dedup_peers seen (p # ps) =
     (if pi_peer_id p \<in> set seen then dedup_peers seen ps
      else p # dedup_peers (pi_peer_id p # seen) ps)"

definition filter_providers ::
  "(provider_info \<Rightarrow> system_time) \<Rightarrow> discovery_query \<Rightarrow> provider_info list \<Rightarrow> provider_info list" where
  "filter_providers clock q ps =
     (let ps = (if \<not> dq_include_expired q then filter (\<lambda>p. \<not> is_expired (clock p) p) ps else ps);
          ps = dedup_peers [] ps;
          ps = sort_key (\<lambda>p. - int (pi_last_seen p)) ps in
      if length ps > dq_max_providers q then take (dq_max_providers q) ps else ps)"

section \<open>The cache\<close>

definition cache_ttl :: "discovery_manager \<Rightarrow> nat" where
  "cache_ttl dm = secs (unat (cache_ttl_seconds (dm_config dm)))"

definition get_cached_providers ::
  "system_time \<Rightarrow> string \<Rightarrow> discovery_manager \<Rightarrow> discovery_result option" where
  "get_cached_providers now manifest_id dm =
     (case hm_get (provider_cache dm) manifest_id of
        None \<Rightarrow> None
      | Some (ps, cached_at) \<Rightarrow>
          if now - cached_at < cache_ttl dm
          then Some \<lparr> dr_manifest_id = manifest_id, dr_providers = ps, dr_success = True,
                      dr_error = None, dr_duration = 0, dr_timed_out = False \<rparr>
          else None)"

definition cache_providers ::
  "system_time \<Rightarrow> string \<Rightarrow> provider_info list \<Rightarrow> discovery_manager \<Rightarrow> discovery_manager" where
  "cache_providers now manifest_id ps dm =
     dm \<lparr> provider_cache := hm_insert manifest_id (ps, now) (provider_cache dm) \<rparr>"

definition cleanup_query :: "string \<Rightarrow> discovery_manager \<Rightarrow> discovery_manager" where
  "cleanup_query manifest_id dm = dm \<lparr> active_queries := hm_remove manifest_id (active_queries dm) \<rparr>"

definition cleanup_expired_cache :: "(string \<Rightarrow> system_time) \<Rightarrow> discovery_manager \<Rightarrow> discovery_manager" where
  "cleanup_expired_cache clock dm =
     dm \<lparr> provider_cache :=
            hm_retain (\<lambda>m (_, cached_at). clock m - cached_at < cache_ttl dm) (provider_cache dm) \<rparr>"

section \<open>Queries\<close>

definition open_channel :: "nat \<Rightarrow> string \<Rightarrow> discovery_manager \<Rightarrow> discovery_manager" where
  "open_channel tx manifest_id dm =
     (let chans = (case hm_get (pending_channels dm) manifest_id of Some c \<Rightarrow> c | None \<Rightarrow> []) in
      dm \<lparr> pending_channels := hm_insert manifest_id (chans @ [tx]) (pending_channels dm),
           dm_mailboxes := hm_insert tx [] (dm_mailboxes dm) \<rparr>)"

text \<open>\<open>start_discovery_query\<close> up to the wait; the key is the Kademlia query it starts.\<close>

definition start_discovery_query ::
  "nat \<Rightarrow> discovery_query \<Rightarrow> discovery_manager \<Rightarrow> discovery_manager \<times> string" where
  "start_discovery_query tx q dm =
     (let dm = dm \<lparr> active_queries := hm_insert (dq_manifest_id q) q (active_queries dm) \<rparr> in
      (open_channel tx (dq_manifest_id q) dm, query_dht_key q))"

datatype discovery_step =
    CachedResult discovery_result
  | WaitingForExisting
  | QueryRejected provider_error
  | QueryStarted string

definition dm_discover_providers ::
  "system_time \<Rightarrow> nat \<Rightarrow> discovery_query \<Rightarrow> discovery_manager \<Rightarrow> discovery_manager \<times> discovery_step" where
  "dm_discover_providers now tx q dm =
     (let m = dq_manifest_id q in
      case get_cached_providers now m dm of
        Some r \<Rightarrow>
          if dr_providers r \<noteq> [] then (dm, CachedResult r)
          else if hm_contains_key (active_queries dm) m then (open_channel tx m dm, WaitingForExisting)
          else if length (active_queries dm) \<ge> max_concurrent_queries (dm_config dm)
          then (dm, QueryRejected (NetworkError ''Too many concurrent queries''))
          else (case start_discovery_query tx q dm of (dm', key) \<Rightarrow> (dm', QueryStarted key))
      | None \<Rightarrow>
          if hm_contains_key (active_queries dm) m then (open_channel tx m dm, WaitingForExisting)
          else if length (active_queries dm) \<ge> max_concurrent_queries (dm_config dm)
          then (dm, QueryRejected (NetworkError ''Too many concurrent queries''))
          else (case start_discovery_query tx q dm of (dm', key) \<Rightarrow> (dm', QueryStarted key)))"

definition failed_result :: "string \<Rightarrow> string \<Rightarrow> nat \<Rightarrow> bool \<Rightarrow> discovery_result" where
  "failed_result manifest_id err duration timed_out =
     \<lparr> dr_manifest_id = manifest_id, dr_providers = [], dr_success = False, dr_error = Some err,
       dr_duration = duration, dr_timed_out = timed_out \<rparr>"

definition channel_alive :: "nat \<Rightarrow> discovery_manager \<Rightarrow> bool" where
  "channel_alive tx dm = list_ex (\<lambda>(_, txs). tx \<in> set txs) (pending_channels dm)"

text \<open>One poll of the wait in \<open>start_discovery_query\<close>; \<^const>\<open>None\<close> while it goes on.\<close>

definition start_discovery_poll ::
  "bool \<Rightarrow> system_time \<Rightarrow> nat \<Rightarrow> string \<Rightarrow> discovery_manager \<Rightarrow> discovery_manager \<times> discovery_result option" where
  "start_discovery_poll timer_expired now tx m dm =
     (let closed = dm \<lparr> dm_mailboxes := hm_remove tx (dm_mailboxes dm) \<rparr>;
          timeout = secs (unat (default_timeout_seconds (dm_config dm))) in
      case hm_get (dm_mailboxes dm) tx of
        None \<Rightarrow> (dm, None)
      | Some (r # _) \<Rightarrow>
          ((if dr_success r \<and> dr_providers r \<noteq> [] then cache_providers now m (dr_providers r) closed
            else closed),
           Some r)
      | Some [] \<Rightarrow>
          if \<not> channel_alive tx dm
          then (cleanup_query m closed, Some (failed_result m ''Discovery channel closed'' timeout False))
          else if timer_expired
          then (cleanup_query m closed, Some (failed_result m ''Discovery timeout'' timeout True))
          else (dm, None))"

definition wait_for_existing_poll ::
  "bool \<Rightarrow> nat \<Rightarrow> discovery_manager
     \<Rightarrow> discovery_manager \<times> (provider_error + discovery_result) option" where
  "wait_for_existing_poll timer_expired tx dm =
     (let closed = dm \<lparr> dm_mailboxes := hm_remove tx (dm_mailboxes dm) \<rparr> in
      case hm_get (dm_mailboxes dm) tx of
        None \<Rightarrow> (dm, None)
      | Some (r # _) \<Rightarrow> (closed, Some (Inr r))
      | Some [] \<Rightarrow>
          if \<not> channel_alive tx dm then (closed, Some (Inl (NetworkError ''Query channel closed'')))
          else if timer_expired then (closed, Some (Inl Timeout))
          else (dm, None))"

definition deliver_result ::
  "discovery_result \<Rightarrow> nat \<Rightarrow> (nat, discovery_result list) hmap \<Rightarrow> (nat, discovery_result list) hmap" where
  "deliver_result r tx boxes =
     (case hm_get boxes tx of None \<Rightarrow> boxes | Some q \<Rightarrow> hm_insert tx (q @ [r]) boxes)"

definition notify_channels :: "string \<Rightarrow> discovery_result \<Rightarrow> discovery_manager \<Rightarrow> discovery_manager" where
  "notify_channels m r dm =
     (case hm_get (pending_channels dm) m of
        None \<Rightarrow> dm
      | Some txs \<Rightarrow>
          dm \<lparr> pending_channels := hm_remove m (pending_channels dm),
               dm_mailboxes := fold (deliver_result r) txs (dm_mailboxes dm) \<rparr>)"

definition handle_providers_found ::
  "(nat \<Rightarrow> system_time) \<Rightarrow> (nat \<Rightarrow> system_time) \<Rightarrow> (provider_info \<Rightarrow> system_time) \<Rightarrow> system_time \<Rightarrow> string
     \<Rightarrow> peer_id list \<Rightarrow> nat \<Rightarrow> discovery_manager \<Rightarrow> discovery_manager" where
  "handle_providers_found announced seen clock now m peers duration dm =
     (case hm_get (active_queries dm) m of
        None \<Rightarrow> dm
      | Some q \<Rightarrow>
          (let infos = map (\<lambda>(i, p). \<lparr> pi_peer_id = p, pi_manifest_id = m, pi_announced_at = announced i,
                               pi_last_seen = seen i, pi_ttl_seconds = 3600, pi_metadata = hm_empty \<rparr>)
                         (enumerate 0 peers);
               found = filter_providers clock q infos;
               r = \<lparr> dr_manifest_id = m, dr_providers = found, dr_success = True, dr_error = None,
                     dr_duration = duration, dr_timed_out = False \<rparr>;
               dm = (if found \<noteq> [] then cache_providers now m found dm else dm) in
           cleanup_query m (notify_channels m r dm)))"

definition handle_discovery_error ::
  "system_time \<Rightarrow> string \<Rightarrow> string \<Rightarrow> discovery_manager \<Rightarrow> discovery_manager" where
  "handle_discovery_error now m err dm =
     (let duration = (case hm_get (active_queries dm) m of Some q \<Rightarrow> now - dq_started_at q | None \<Rightarrow> 0) in
      cleanup_query m (notify_channels m (failed_result m err duration False) dm))"

record discovery_stats =
  ds_active_queries :: nat
  ds_cached_manifests :: nat
  ds_pending_channels :: nat

definition discovery_get_stats :: "discovery_manager \<Rightarrow> discovery_stats" where
  "discovery_get_stats dm =
     \<lparr> ds_active_queries = length (active_queries dm), ds_cached_manifests = length (provider_cache dm),
       ds_pending_channels = length (pending_channels dm) \<rparr>"

section \<open>Utilities\<close>

definition create_query :: "system_time \<Rightarrow> string \<Rightarrow> discovery_query" where
  "create_query now m = query_new now m"

definition create_custom_query :: "system_time \<Rightarrow> string \<Rightarrow> u64 \<Rightarrow> nat \<Rightarrow> nat \<Rightarrow> discovery_query" where
  "create_custom_query now m timeout_seconds min_p max_p =
     with_max_providers max_p (with_min_providers min_p
       (with_timeout (secs (unat timeout_seconds)) (query_new now m)))"

text \<open>Peer ids are ordered by their bytes; \<open>peer_key\<close> gives them.\<close>

definition extract_peer_ids :: "(peer_id \<Rightarrow> 'k :: linorder) \<Rightarrow> provider_info list \<Rightarrow> peer_id list" where
  "extract_peer_ids peer_key ps = remdups_adj (sort_key peer_key (map pi_peer_id ps))"

text \<open>Most recently seen first, then most recently announced, then by peer id.\<close>

definition sort_by_preference :: "(peer_id \<Rightarrow> 'k :: linorder) \<Rightarrow> provider_info list \<Rightarrow> provider_info list" where
  "sort_by_preference peer_key ps =
     sort_key (\<lambda>p. (- int (pi_last_seen p), - int (pi_announced_at p), peer_key (pi_peer_id p))) ps"

definition group_by_manifest :: "provider_info list \<Rightarrow> (string, provider_info list) hmap" where
  "group_by_manifest ps =
     fold (\<lambda>p g. hm_insert (pi_manifest_id p)
             ((case hm_get g (pi_manifest_id p) of Some l \<Rightarrow> l | None \<Rightarrow> []) @ [p]) g) ps hm_empty"

definition filter_by_metadata :: "provider_info list \<Rightarrow> (string, string) hmap \<Rightarrow> provider_info list" where
  "filter_by_metadata ps criteria =
     filter (\<lambda>p. list_all (\<lambda>(k, v). hm_get (pi_metadata p) k = Some v) criteria) ps"

section \<open>What the utilities return\<close>

lemma distinct_remdups_adj_sorted:
  assumes "sorted (map f xs)" "inj f"
  shows "distinct (remdups_adj xs)"
  using assms(1)
proof (induction xs rule: remdups_adj.induct)
  case (3 x y xs)
  have "x \<notin> set (y # xs)" if "x \<noteq> y"
  proof
    assume "x \<in> set (y # xs)"
    then have "f y \<le> f x" using "3.prems" by auto
    moreover have "f x \<le> f y" using "3.prems" by simp
    ultimately show False using that assms(2) by (metis antisym injD)
  qed
  then show ?case using 3 by (cases "x = y") auto
qed simp_all

text \<open>The peers of the list, each once.\<close>

theorem extract_peer_ids_set:
  assumes "inj peer_key"
  shows "set (extract_peer_ids peer_key ps) = pi_peer_id ` set ps \<and> distinct (extract_peer_ids peer_key ps)"
proof -
  have "sorted (map peer_key (sort_key peer_key (map pi_peer_id ps)))" by (rule sorted_sort_key)
  from distinct_remdups_adj_sorted [OF this assms] show ?thesis by (simp add: extract_peer_ids_def)
qed

text \<open>The same providers, and before each one only such as were seen no earlier.\<close>

theorem sort_by_preference_order:
  "mset (sort_by_preference peer_key ps) = mset ps
   \<and> sorted_wrt (\<lambda>p q. pi_last_seen q \<le> pi_last_seen p
       \<and> (pi_last_seen p = pi_last_seen q \<longrightarrow> pi_announced_at q \<le> pi_announced_at p)) (sort_by_preference peer_key ps)"
proof -
  let ?k = "\<lambda>p. (- int (pi_last_seen p), - int (pi_announced_at p), peer_key (pi_peer_id p))"
  have "sorted_wrt (\<le>) (map ?k (sort_key ?k ps))" using sorted_sort_key [of ?k ps] by simp
  then have "sorted_wrt (\<lambda>p q. ?k p \<le> ?k q) (sort_key ?k ps)" by (simp add: sorted_wrt_map)
  then have "sorted_wrt (\<lambda>p q. pi_last_seen q \<le> pi_last_seen p
       \<and> (pi_last_seen p = pi_last_seen q \<longrightarrow> pi_announced_at q \<le> pi_announced_at p)) (sort_key ?k ps)"
    by (rule sorted_wrt_mono_rel [rotated]) (auto simp: less_eq_prod_def)
  then show ?thesis by (simp add: sort_by_preference_def)
qed

section \<open>Lemmas\<close>

lemma dedup_peers_props:
  "distinct (map pi_peer_id (dedup_peers seen ps))
   \<and> set (dedup_peers seen ps) \<subseteq> set ps
   \<and> pi_peer_id ` set (dedup_peers seen ps) = pi_peer_id ` set ps - set seen"
proof (induction ps arbitrary: seen)
  case (Cons p ps)
  show ?case using Cons [of seen] Cons [of "pi_peer_id p # seen"] by auto
qed simp

text \<open>
  The filter of a discovery: no peer twice, most recently seen first, at most the maximum
  asked for, nothing that was not found and, unless asked for, nothing expired. What it drops for
  the maximum was not seen later than what it keeps.
\<close>

theorem filter_providers_correct:
  "distinct (map pi_peer_id (filter_providers clock q ps))
   \<and> sorted (map (\<lambda>p. - int (pi_last_seen p)) (filter_providers clock q ps))
   \<and> length (filter_providers clock q ps) \<le> dq_max_providers q
   \<and> (\<forall>p \<in> set (filter_providers clock q ps).
        p \<in> set ps \<and> (\<not> dq_include_expired q \<longrightarrow> \<not> is_expired (clock p) p))
   \<and> (\<exists>dropped. mset (dedup_peers [] (if dq_include_expired q then ps
                        else filter (\<lambda>p. \<not> is_expired (clock p) p) ps))
          = mset (filter_providers clock q ps) + mset dropped
        \<and> (\<forall>d \<in> set dropped. \<forall>p \<in> set (filter_providers clock q ps). pi_last_seen d \<le> pi_last_seen p))"
proof -
  let ?in = "if dq_include_expired q then ps else filter (\<lambda>p. \<not> is_expired (clock p) p) ps"
  let ?n = "dq_max_providers q"
  let ?k = "\<lambda>p. - int (pi_last_seen p)"
  let ?s = "sort_key ?k (dedup_peers [] ?in)"
  have eq: "filter_providers clock q ps = take ?n ?s"
    unfolding filter_providers_def Let_def by (cases "dq_include_expired q") simp_all
  note dd = dedup_peers_props [of "[]" ?in]
  have m: "mset ?s = mset (dedup_peers [] ?in)" by simp
  have dist: "distinct (map pi_peer_id ?s)"
  proof -
    have "mset (map pi_peer_id ?s) = mset (map pi_peer_id (dedup_peers [] ?in))" by simp
    then show ?thesis using dd mset_eq_imp_distinct_iff by blast
  qed
  have sorted: "sorted (map ?k (take ?n ?s) @ map ?k (drop ?n ?s))"
    unfolding map_append [symmetric] append_take_drop_id by (rule sorted_sort_key)
  have sub: "p \<in> set ps \<and> (\<not> dq_include_expired q \<longrightarrow> \<not> is_expired (clock p) p)"
    if "p \<in> set (take ?n ?s)" for p
  proof -
    have "p \<in> set ?s" using that by (rule in_set_takeD)
    then have "p \<in> set ?in" using dd by auto
    then show ?thesis by (cases "dq_include_expired q") simp_all
  qed
  have "distinct (map pi_peer_id (take ?n ?s))" using dist by (simp add: take_map [symmetric])
  moreover have "sorted (map ?k (take ?n ?s))" using sorted unfolding sorted_append by blast
  moreover have "\<forall>p \<in> set (take ?n ?s). p \<in> set ps \<and> (\<not> dq_include_expired q \<longrightarrow> \<not> is_expired (clock p) p)"
    using sub by blast
  moreover have "mset (dedup_peers [] ?in) = mset (take ?n ?s) + mset (drop ?n ?s)"
    unfolding m [symmetric] mset_append [symmetric] append_take_drop_id ..
  moreover have "\<forall>d \<in> set (drop ?n ?s). \<forall>p \<in> set (take ?n ?s). pi_last_seen d \<le> pi_last_seen p"
    using sorted unfolding sorted_append by auto
  moreover have "length (take ?n ?s) \<le> ?n" by simp
  ultimately show ?thesis unfolding eq by blast
qed

section \<open>Reachable states\<close>

inductive dm_reach :: "discovery_config \<Rightarrow> discovery_manager \<Rightarrow> bool" for cfg where
  dm_new: "dm_reach cfg (discovery_manager_new cfg)"
| dm_discover: "dm_reach cfg dm \<Longrightarrow> dm_reach cfg (fst (dm_discover_providers now tx q dm))"
| dm_poll: "dm_reach cfg dm \<Longrightarrow> dm_reach cfg (fst (start_discovery_poll expired now tx m dm))"
| dm_wait: "dm_reach cfg dm \<Longrightarrow> dm_reach cfg (fst (wait_for_existing_poll expired tx dm))"
| dm_found: "dm_reach cfg dm \<Longrightarrow> dm_reach cfg (handle_providers_found an sn clk now m peers d dm)"
| dm_error: "dm_reach cfg dm \<Longrightarrow> dm_reach cfg (handle_discovery_error now m err dm)"
| dm_expire: "dm_reach cfg dm \<Longrightarrow> dm_reach cfg (cleanup_expired_cache clock dm)"

definition dm_inv :: "discovery_config \<Rightarrow> discovery_manager \<Rightarrow> bool" where
  "dm_inv cfg dm \<longleftrightarrow> dm_config dm = cfg \<and> length (active_queries dm) \<le> max_concurrent_queries cfg
     \<and> (\<forall>m q. hm_get (active_queries dm) m = Some q \<longrightarrow> dq_manifest_id q = m)"

lemma length_hm_insert_le: "length (hm_insert k v m) \<le> Suc (length m)"
proof (cases "hm_get m k")
  case None
  then show ?thesis by (simp add: hm_insert_fresh)
next
  case (Some w)
  then show ?thesis by (simp add: length_hm_insert_present)
qed

lemma dm_inv_same:
  "dm_inv cfg dm \<Longrightarrow> active_queries dm' = active_queries dm \<Longrightarrow> dm_config dm' = dm_config dm \<Longrightarrow> dm_inv cfg dm'"
  by (simp add: dm_inv_def)

lemma dm_inv_cleanup: "dm_inv cfg dm \<Longrightarrow> dm_inv cfg (cleanup_query m dm)"
  using length_hm_remove_le [of m "active_queries dm"]
  by (auto simp: dm_inv_def cleanup_query_def)

lemma dm_inv_start:
  assumes "dm_inv cfg dm" "\<not> length (active_queries dm) \<ge> max_concurrent_queries (dm_config dm)"
  shows "dm_inv cfg (fst (start_discovery_query tx q dm))"
  using assms length_hm_insert_le [of "dq_manifest_id q" q "active_queries dm"]
  by (auto simp: dm_inv_def start_discovery_query_def open_channel_def Let_def)

lemma active_same [simp]:
  "active_queries (open_channel tx m dm) = active_queries dm" "dm_config (open_channel tx m dm) = dm_config dm"
  "active_queries (notify_channels m r dm) = active_queries dm"
  "dm_config (notify_channels m r dm) = dm_config dm"
  "active_queries (cache_providers now m ps dm) = active_queries dm"
  "dm_config (cache_providers now m ps dm) = dm_config dm"
  by (simp_all add: open_channel_def notify_channels_def cache_providers_def Let_def split: option.splits)

lemma dm_reach_inv: "dm_reach cfg dm \<Longrightarrow> dm_inv cfg dm"
proof (induction rule: dm_reach.induct)
  case dm_new
  show ?case by (simp add: dm_inv_def discovery_manager_new_def hm_empty_def hm_get_def)
next
  case (dm_discover dm now tx q)
  then show ?case
    by (auto simp: dm_discover_providers_def Let_def case_prod_unfold dm_inv_start
        split: option.splits intro: dm_inv_same)
next
  case (dm_poll dm expired now tx m)
  then have "dm_inv cfg (dm \<lparr> dm_mailboxes := b \<rparr>)" for b by (simp add: dm_inv_def)
  with dm_poll show ?case
    by (auto simp: start_discovery_poll_def Let_def split: option.splits list.splits
        intro: dm_inv_cleanup dm_inv_same)
next
  case (dm_wait dm expired tx)
  then show ?case
    by (auto simp: wait_for_existing_poll_def Let_def dm_inv_def split: option.splits list.splits)
next
  case (dm_found dm an sn clk now m peers d)
  have "dm_inv cfg (notify_channels m r dm)" "dm_inv cfg (notify_channels m r (cache_providers now m ps dm))"
    for r ps
    by (rule dm_inv_same [OF dm_found.IH]; simp)+
  with dm_found.IH show ?case
    by (auto simp: handle_providers_found_def Let_def split: option.splits intro: dm_inv_cleanup)
next
  case (dm_error dm now m err)
  have "dm_inv cfg (notify_channels m r dm)" for r by (rule dm_inv_same [OF dm_error.IH]) simp_all
  then show ?case by (simp add: handle_discovery_error_def Let_def dm_inv_cleanup)
next
  case (dm_expire dm clock)
  then show ?case by (simp add: dm_inv_def cleanup_expired_cache_def)
qed

text \<open>
  The number of active queries never exceeds the configured maximum, and every active query
  is filed under its own manifest, whatever is called in whatever order.
\<close>

theorem active_queries_bounded:
  assumes "dm_reach cfg dm"
  shows "length (active_queries dm) \<le> max_concurrent_queries cfg
    \<and> (\<forall>m q. hm_get (active_queries dm) m = Some q \<longrightarrow> dq_manifest_id q = m)"
  using dm_reach_inv [OF assms] by (simp add: dm_inv_def)

text \<open>
  \<open>discover_providers\<close> borrows the manager exclusively for as long as it waits, so no handler
  can answer it: when it starts a query, every poll before the timer leaves it waiting, and the
  one after ends with a timeout and no providers; its sender stays among the pending channels.
\<close>

theorem exclusive_discovery_times_out:
  assumes "dm_discover_providers now tx q dm = (dm', QueryStarted key)"
  shows "start_discovery_poll False t tx (dq_manifest_id q) dm' = (dm', None)
    \<and> (\<exists>dm'' r. start_discovery_poll True t tx (dq_manifest_id q) dm' = (dm'', Some r)
          \<and> dr_timed_out r \<and> dr_providers r = []
          \<and> (\<exists>txs. hm_get (pending_channels dm'') (dq_manifest_id q) = Some txs \<and> tx \<in> set txs))"
proof -
  have dm': "dm' = fst (start_discovery_query tx q dm)"
    using assms
    by (auto simp: dm_discover_providers_def Let_def case_prod_unfold split: option.splits if_splits)
  have box: "hm_get (dm_mailboxes dm') tx = Some []"
    and chan: "\<exists>txs. hm_get (pending_channels dm') (dq_manifest_id q) = Some txs \<and> tx \<in> set txs"
    by (simp_all add: dm' start_discovery_query_def open_channel_def Let_def)
  then have "channel_alive tx dm'"
    by (auto simp: channel_alive_def list_ex_iff dest!: hm_get_SomeD)
  with box chan show ?thesis
    by (simp add: start_discovery_poll_def Let_def failed_result_def cleanup_query_def)
qed

section \<open>Concrete runs\<close>

definition two_found :: "provider_info list" where
  "two_found = [\<lparr> pi_peer_id = ''a'', pi_manifest_id = ''m'', pi_announced_at = 1, pi_last_seen = 1,
      pi_ttl_seconds = 9, pi_metadata = [] \<rparr>,
    \<lparr> pi_peer_id = ''b'', pi_manifest_id = ''m'', pi_announced_at = 1, pi_last_seen = 5,
      pi_ttl_seconds = 9, pi_metadata = [] \<rparr>]"

theorem filter_providers_correct_witness:
  "length (filter_providers (\<lambda>_. 6) (with_max_providers 1 (query_new 0 ''m'')) two_found) \<le> 1
   \<and> map pi_peer_id (filter_providers (\<lambda>_. 6) (with_max_providers 1 (query_new 0 ''m'')) two_found) = [''b'']"
proof
  show "length (filter_providers (\<lambda>_. 6) (with_max_providers 1 (query_new 0 ''m'')) two_found) \<le> 1"
    using filter_providers_correct [of "\<lambda>_. 6" "with_max_providers 1 (query_new 0 ''m'')" two_found]
    by (simp add: with_max_providers_def)
  show "map pi_peer_id (filter_providers (\<lambda>_. 6) (with_max_providers 1 (query_new 0 ''m'')) two_found) = [''b'']"
    by (simp add: filter_providers_def with_max_providers_def query_new_def two_found_def is_expired_def Let_def)
qed

theorem active_queries_bounded_witness:
  "length (active_queries (fst (dm_discover_providers 0 1 (query_new 0 ''m'')
     (discovery_manager_new default_discovery_config)))) \<le> 20"
  using active_queries_bounded [OF dm_discover [OF dm_new, of default_discovery_config 0 1 "query_new 0 ''m''"]]
  by (simp add: default_discovery_config_def)

theorem exclusive_discovery_times_out_witness:
  "\<exists>dm'' r. start_discovery_poll True 9 1 ''m''
       (fst (dm_discover_providers 0 1 (query_new 0 ''m'') (discovery_manager_new default_discovery_config)))
     = (dm'', Some r) \<and> dr_timed_out r"
proof -
  have "dm_discover_providers 0 1 (query_new 0 ''m'') (discovery_manager_new default_discovery_config)
    = (fst (dm_discover_providers 0 1 (query_new 0 ''m'') (discovery_manager_new default_discovery_config)),
       QueryStarted ''provider:m'')"
    by (simp add: dm_discover_providers_def discovery_manager_new_def default_discovery_config_def
        get_cached_providers_def hm_contains_key_def hm_empty_def hm_get_def start_discovery_query_def
        query_dht_key_def query_new_def Let_def)
  from exclusive_discovery_times_out [OF this, of 9] show ?thesis by (auto simp: query_new_def)
qed

end
