(* ===== verification/Recipient_Blob.thy ===== *)
theory Recipient_Blob
  imports Prelude
begin

text \<open>
  Payloads encrypted for a recipient, \<open>crypto/src/lib.rs\<close>: a key is encapsulated to the KEM key of
  the recipient, the payload is encrypted under it, and both travel in one blob
  \<open>0x02, wlen u16, wrapped, nlen u8, nonce, clen u32, ciphertext\<close>, numbers big-endian. ML-KEM and
  AES-GCM are the functions of a record, with the randomness of an encapsulation as an argument.
  The library panics on a nonce that is not 12 bytes long; the panic is the value \<^const>\<open>None\<close>.
\<close>

record kem_lib =
  kl_init_ok :: bool
  kl_public_ok :: "bytes \<Rightarrow> bool"
  kl_encapsulate :: "bytes \<Rightarrow> bytes \<Rightarrow> (bytes \<times> bytes) option"
  kl_secret_ok :: "bytes \<Rightarrow> bool"
  kl_ciphertext_ok :: "bytes \<Rightarrow> bool"
  kl_decapsulate :: "bytes \<Rightarrow> bytes \<Rightarrow> bytes option"
  kl_aes_key_ok :: "bytes \<Rightarrow> bool"
  kl_aes_encrypt :: "bytes \<Rightarrow> bytes \<Rightarrow> bytes \<Rightarrow> bytes option"
  kl_aes_decrypt :: "bytes \<Rightarrow> bytes \<Rightarrow> bytes \<Rightarrow> bytes option"

datatype blob_error =
    KemInitFailed
  | BadKemPublicKey
  | EncapsulationFailed
  | BadKemSecretKey
  | InvalidCiphertextBytes
  | DecapsulationFailed
  | InvalidAesKey
  | AesEncryptError
  | AesDecryptError
  | UnsupportedBlobVersion
  | BlobTooShort string
  | InvalidNonceLength nat

definition NONCE_BYTES :: nat where
  "NONCE_BYTES = 12"

text \<open>The ciphertext and the shared secret, from the random bytes \<open>r\<close>.\<close>

definition encapsulate_to_pubkey :: "kem_lib \<Rightarrow> bytes \<Rightarrow> bytes \<Rightarrow> blob_error + (bytes \<times> bytes)" where
  "encapsulate_to_pubkey L r pub_bytes =
     (if \<not> kl_init_ok L then Inl KemInitFailed
      else if \<not> kl_public_ok L pub_bytes then Inl BadKemPublicKey
      else case kl_encapsulate L r pub_bytes of
             None \<Rightarrow> Inl EncapsulationFailed
           | Some (ct, shared) \<Rightarrow> Inr (ct, shared))"

definition decapsulate_share :: "kem_lib \<Rightarrow> bytes \<Rightarrow> bytes \<Rightarrow> blob_error + bytes" where
  "decapsulate_share L priv_bytes ciphertext =
     (if \<not> kl_init_ok L then Inl KemInitFailed
      else if \<not> kl_secret_ok L priv_bytes then Inl BadKemSecretKey
      else if \<not> kl_ciphertext_ok L ciphertext then Inl InvalidCiphertextBytes
      else case kl_decapsulate L priv_bytes ciphertext of
             None \<Rightarrow> Inl DecapsulationFailed
           | Some shared \<Rightarrow> Inr shared)"

definition blob_layout :: "bytes \<Rightarrow> bytes \<Rightarrow> bytes \<Rightarrow> bytes" where
  "blob_layout wrapped nonce ciphertext =
     [2] @ be_encode 2 (length wrapped) @ wrapped @ [of_nat (length nonce)] @ nonce
     @ be_encode 4 (length ciphertext) @ ciphertext"

definition encrypt_payload_for_recipient ::
  "kem_lib \<Rightarrow> bytes \<Rightarrow> bytes \<Rightarrow> bytes \<Rightarrow> bytes \<Rightarrow> blob_error + bytes" where
  "encrypt_payload_for_recipient L r nonce recipient_pub payload =
     (case encapsulate_to_pubkey L r recipient_pub of
        Inl e \<Rightarrow> Inl e
      | Inr (wrapped_ct, shared_secret) \<Rightarrow>
          if \<not> kl_aes_key_ok L shared_secret then Inl InvalidAesKey
          else case kl_aes_encrypt L shared_secret nonce payload of
                 None \<Rightarrow> Inl AesEncryptError
               | Some ciphertext \<Rightarrow> Inr (blob_layout wrapped_ct nonce ciphertext))"

definition blob_fields :: "bytes \<Rightarrow> blob_error + (bytes \<times> bytes \<times> bytes)" where
  "blob_fields blob =
     (if blob = [] \<or> hd blob \<noteq> 2 then Inl UnsupportedBlobVersion
      else
        (let rest = tl blob in
         if length rest < 2 then Inl (BlobTooShort ''blob too short'')
         else
           (let wlen = be_decode (take 2 rest); rest = drop 2 rest in
            if length rest < wlen then Inl (BlobTooShort ''blob too short for wrapped'')
            else
              (let wrapped = take wlen rest; rest = drop wlen rest in
               if rest = [] then Inl (BlobTooShort ''blob too short for nonce len'')
               else
                 (let nlen = unat (hd rest); rest = tl rest in
                  if length rest < nlen then Inl (BlobTooShort ''blob too short for nonce'')
                  else
                    (let nonce = take nlen rest; rest = drop nlen rest in
                     if length rest < 4 then Inl (BlobTooShort ''blob too short for ct len'')
                     else
                       (let clen = be_decode (take 4 rest); rest = drop 4 rest in
                        if length rest < clen then Inl (BlobTooShort ''blob too short for ciphertext'')
                        else Inr (wrapped, nonce, take clen rest))))))))"

definition decrypt_payload_from_recipient_blob ::
  "kem_lib \<Rightarrow> bytes \<Rightarrow> bytes \<Rightarrow> (blob_error + bytes) option" where
  "decrypt_payload_from_recipient_blob L blob priv_kem_bytes =
     (case blob_fields blob of
        Inl e \<Rightarrow> Some (Inl e)
      | Inr (wrapped, nonce, ciphertext) \<Rightarrow>
          (case decapsulate_share L priv_kem_bytes wrapped of
             Inl e \<Rightarrow> Some (Inl e)
           | Inr shared \<Rightarrow>
               if \<not> kl_aes_key_ok L shared then Some (Inl InvalidAesKey)
               else if length nonce \<noteq> NONCE_BYTES then None
               else case kl_aes_decrypt L shared nonce ciphertext of
                      None \<Rightarrow> Some (Inl AesDecryptError)
                    | Some plain \<Rightarrow> Some (Inr plain)))"

text \<open>
  A manifest under a fresh key; the printed document and the two random values are arguments.
  The decryption checks the length of its nonce.
\<close>

definition encrypt_manifest ::
  "kem_lib \<Rightarrow> bytes \<Rightarrow> bytes \<Rightarrow> bytes \<Rightarrow> blob_error + (bytes \<times> bytes \<times> bytes \<times> bytes)" where
  "encrypt_manifest L key nonce_bytes plaintext =
     (if \<not> kl_aes_key_ok L key then Inl InvalidAesKey
      else case kl_aes_encrypt L key nonce_bytes plaintext of
             None \<Rightarrow> Inl AesEncryptError
           | Some ciphertext \<Rightarrow> Inr (ciphertext, nonce_bytes, key, nonce_bytes))"

definition decrypt_manifest :: "kem_lib \<Rightarrow> bytes \<Rightarrow> bytes \<Rightarrow> bytes \<Rightarrow> blob_error + bytes" where
  "decrypt_manifest L key nonce_bytes ciphertext =
     (if \<not> kl_aes_key_ok L key then Inl InvalidAesKey
      else if length nonce_bytes \<noteq> NONCE_BYTES then Inl (InvalidNonceLength (length nonce_bytes))
      else case kl_aes_decrypt L key nonce_bytes ciphertext of
             None \<Rightarrow> Inl AesDecryptError
           | Some plain \<Rightarrow> Inr plain)"

section \<open>What the code relies on\<close>

definition kem_pair :: "kem_lib \<Rightarrow> bytes \<Rightarrow> bytes \<Rightarrow> bool" where
  "kem_pair L pk sk \<longleftrightarrow> kl_init_ok L \<and> kl_public_ok L pk \<and> kl_secret_ok L sk
     \<and> (\<forall>r. \<exists>ct shared. kl_encapsulate L r pk = Some (ct, shared) \<and> length ct < 2 ^ 16
          \<and> kl_ciphertext_ok L ct \<and> kl_decapsulate L sk ct = Some shared \<and> kl_aes_key_ok L shared)"

definition aes_laws :: "kem_lib \<Rightarrow> bool" where
  "aes_laws L \<longleftrightarrow> (\<forall>k n p. kl_aes_key_ok L k \<longrightarrow> length n = NONCE_BYTES \<longrightarrow>
     (\<exists>c. kl_aes_encrypt L k n p = Some c \<and> length c = length p + 16 \<and> kl_aes_decrypt L k n c = Some p))"

section \<open>The layout\<close>

definition layout_fits :: "bytes \<Rightarrow> bytes \<Rightarrow> bytes \<Rightarrow> bool" where
  "layout_fits w n c \<longleftrightarrow> length w < 2 ^ 16 \<and> length n < 2 ^ 8 \<and> length c < 2 ^ 32"

lemma blob_fields_layout:
  assumes "layout_fits w n c"
  shows "blob_fields (blob_layout w n c @ rest) = Inr (w, n, c)"
proof -
  have "be_decode (be_encode 2 (length w)) = length w" "be_decode (be_encode 4 (length c)) = length c"
    using assms by (simp_all add: layout_fits_def)
  moreover have "unat (of_nat (length n) :: u8) = length n"
    using assms by (simp add: layout_fits_def unat_of_nat)
  ultimately show ?thesis by (simp add: blob_fields_def blob_layout_def Let_def)
qed

lemma be_encode_take: "k \<le> length bs \<Longrightarrow> be_encode k (be_decode (take k bs)) = take k bs"
  using be_encode_decode [of "take k bs"] by simp

lemma blob_fieldsD:
  assumes "blob_fields b = Inr (w, n, c)"
  shows "layout_fits w n c \<and> (\<exists>rest. b = blob_layout w n c @ rest)"
proof -
  define r0 where "r0 = tl b"
  define r1 where "r1 = drop 2 r0"
  define r2 where "r2 = drop (be_decode (take 2 r0)) r1"
  define r3 where "r3 = drop (unat (hd r2)) (tl r2)"
  define r4 where "r4 = drop 4 r3"
  have parsed: "b = 2 # r0" "2 \<le> length r0" "be_decode (take 2 r0) \<le> length r1" "w = take (be_decode (take 2 r0)) r1"
    "r2 \<noteq> []" "unat (hd r2) \<le> length (tl r2)" "n = take (unat (hd r2)) (tl r2)" "4 \<le> length r3"
    "be_decode (take 4 r3) \<le> length r4" "c = take (be_decode (take 4 r3)) r4"
    using assms unfolding blob_fields_def Let_def r0_def [symmetric] r1_def [symmetric] r2_def [symmetric]
      r3_def [symmetric] r4_def [symmetric]
    by (auto simp: r0_def neq_Nil_conv split: if_splits)
  have len: "length w = be_decode (take 2 r0)" "length n = unat (hd r2)" "length c = be_decode (take 4 r3)"
    using parsed by simp_all
  have "layout_fits w n c"
    unfolding layout_fits_def len
    using be_decode_bound [of "take 2 r0"] be_decode_bound [of "take 4 r3"] unsigned_less [of "hd r2"] parsed(2,8)
    by simp
  moreover have "b = blob_layout w n c @ drop (be_decode (take 4 r3)) r4"
  proof -
    let ?rest = "drop (be_decode (take 4 r3)) r4"
    have "take 2 r0 @ r1 = r0" by (simp add: r1_def)
    moreover have "w @ r2 = r1" by (simp add: parsed(4) r2_def)
    moreover have "hd r2 # n @ r3 = r2" using parsed(5) by (simp add: parsed(7) r3_def)
    moreover have "take 4 r3 @ r4 = r3" by (simp add: r4_def)
    moreover have "c @ ?rest = r4" by (simp add: parsed(10))
    ultimately have "b = 2 # take 2 r0 @ w @ hd r2 # n @ take 4 r3 @ c @ ?rest"
      using parsed(1) by (simp only:)
    then show ?thesis using parsed(2,8) by (simp add: blob_layout_def len be_encode_take)
  qed
  ultimately show ?thesis by blast
qed

lemma blob_fields_iff:
  "blob_fields b = Inr (w, n, c) \<longleftrightarrow> layout_fits w n c \<and> (\<exists>rest. b = blob_layout w n c @ rest)"
  using blob_fields_layout blob_fieldsD by blast

lemma blob_made:
  assumes "kem_pair L pk sk" "aes_laws L" "length nonce = NONCE_BYTES" "length payload + 16 < 2 ^ 32"
  shows "\<exists>blob. encrypt_payload_for_recipient L r nonce pk payload = Inr blob
    \<and> decrypt_payload_from_recipient_blob L (blob @ rest) sk = Some (Inr payload)"
proof -
  obtain ct shared where kem: "kl_encapsulate L r pk = Some (ct, shared)" "length ct < 2 ^ 16"
      "kl_ciphertext_ok L ct" "kl_decapsulate L sk ct = Some shared" "kl_aes_key_ok L shared"
    and ok: "kl_init_ok L" "kl_public_ok L pk" "kl_secret_ok L sk"
    using assms(1) unfolding kem_pair_def by meson
  obtain c where c: "kl_aes_encrypt L shared nonce payload = Some c" "length c = length payload + 16"
      "kl_aes_decrypt L shared nonce c = Some payload"
    using assms(2,3) kem(5) unfolding aes_laws_def by meson
  have "layout_fits ct nonce c" using kem(2) c(2) assms(3,4) by (simp add: layout_fits_def NONCE_BYTES_def)
  then show ?thesis
    by (simp add: encrypt_payload_for_recipient_def encapsulate_to_pubkey_def ok kem c assms(3)
        decrypt_payload_from_recipient_blob_def blob_fields_layout decapsulate_share_def)
qed

section \<open>Properties\<close>

text \<open>
  What is encrypted for a recipient is decrypted with the recipient's key: for every payload
  that fits the length field, whatever the randomness, and whatever follows the blob.
\<close>

theorem blob_roundtrip:
  assumes "kem_pair L pk sk" "aes_laws L" "length nonce = NONCE_BYTES" "length payload + 16 < 2 ^ 32"
  shows "\<exists>blob. encrypt_payload_for_recipient L r nonce pk payload = Inr blob
    \<and> decrypt_payload_from_recipient_blob L (blob @ rest) sk = Some (Inr payload)"
  using assms by (rule blob_made)

text \<open>
  (C37) Decryption panics on exactly the blobs whose fields are complete, whose wrapped key the
  recipient can decapsulate, and whose nonce has a length other than 12; every other input is
  answered with a payload or an error.
\<close>

theorem decrypt_panics_iff:
  "decrypt_payload_from_recipient_blob L b sk = None \<longleftrightarrow>
     (\<exists>w n c rest shared. b = blob_layout w n c @ rest \<and> layout_fits w n c \<and> length n \<noteq> NONCE_BYTES
        \<and> decapsulate_share L sk w = Inr shared \<and> kl_aes_key_ok L shared)"
  (is "?panics \<longleftrightarrow> ?bad")
proof
  assume ?panics
  then obtain w n c shared where "blob_fields b = Inr (w, n, c)" "decapsulate_share L sk w = Inr shared"
      "kl_aes_key_ok L shared" "length n \<noteq> NONCE_BYTES"
    unfolding decrypt_payload_from_recipient_blob_def by (auto split: sum.splits option.splits if_splits)
  then show ?bad unfolding blob_fields_iff by blast
next
  assume ?bad
  then show ?panics
    by (auto simp: decrypt_payload_from_recipient_blob_def blob_fields_layout)
qed

section \<open>Examples\<close>

text \<open>A toy library: keys are equal, the wrapped key is the key, encryption pads with zeros.\<close>

definition toy_kem :: kem_lib where
  "toy_kem =
     \<lparr> kl_init_ok = True, kl_public_ok = (\<lambda>_. True), kl_encapsulate = (\<lambda>r pk. Some ([7], [7])),
       kl_secret_ok = (\<lambda>_. True), kl_ciphertext_ok = (\<lambda>ct. length ct = 1),
       kl_decapsulate = (\<lambda>sk ct. Some ct), kl_aes_key_ok = (\<lambda>k. length k = 1),
       kl_aes_encrypt = (\<lambda>k n p. Some (p @ replicate 16 0)),
       kl_aes_decrypt = (\<lambda>k n c. if length c < 16 then None else Some (take (length c - 16) c)) \<rparr>"

theorem blob_roundtrip_witness:
  "\<exists>blob. encrypt_payload_for_recipient toy_kem [] (replicate 12 5) [1] [10, 11] = Inr blob
    \<and> decrypt_payload_from_recipient_blob toy_kem (blob @ [9]) [2] = Some (Inr [10, 11])"
  by (rule blob_roundtrip) (simp_all add: kem_pair_def aes_laws_def toy_kem_def NONCE_BYTES_def)

end
