(* ===== verification/Workload_Integration.thy ===== *)
theory Workload_Integration
  imports Resource_Verifier Mock_Engine Envelope Provider_Manager Recipient_Blob
begin

text \<open>
  How a node runs and removes workloads: \<open>machine/src/workload_integration.rs\<close> (deployment of an
  apply request, removal by manifest, the table of manifest owners) and
  \<open>libp2p_beemesh/behaviour/delete_message.rs\<close> (delete requests and the ownership check). The
  node's globals are one record. An engine is a value of any type with a table of the trait's
  methods, as the dynamic trait objects of the source; the registry keeps the current value.

  FlatBuffers messages are the records of their fields; the readers, the YAML library, base64 and
  the KEM are the functions of record arguments. Error texts of libraries are what
  those functions return. A YAML document is a tree of mappings with text keys. The decryption of
  a manifest may panic (theory \<open>Recipient_Blob\<close>); \<^const>\<open>None\<close> is the panic, here and in the
  operations that decrypt.
\<close>

section \<open>The node\<close>

record 'e node =
  runtime_registry_of :: "'e runtime_registry option"
  provider_manager_of :: "provider_manager option"
  resource_verifier_of :: resource_verifier
  manifest_owner_map :: "(string, bytes) hmap"
  nonces :: nonce_store

definition record_manifest_owner :: "string \<Rightarrow> bytes \<Rightarrow> 'e node \<Rightarrow> 'e node" where
  "record_manifest_owner manifest_id pubkey n =
     n \<lparr> manifest_owner_map := hm_insert manifest_id pubkey (manifest_owner_map n) \<rparr>"

definition get_manifest_owner :: "string \<Rightarrow> 'e node \<Rightarrow> bytes option" where
  "get_manifest_owner manifest_id n = hm_get (manifest_owner_map n) manifest_id"

definition remove_manifest_owner :: "string \<Rightarrow> 'e node \<Rightarrow> 'e node \<times> bytes option" where
  "remove_manifest_owner manifest_id n =
     (n \<lparr> manifest_owner_map := hm_remove manifest_id (manifest_owner_map n) \<rparr>,
      hm_get (manifest_owner_map n) manifest_id)"

text \<open>
  \<open>initialize_workload_manager\<close>; the two registries it may build are arguments, and
  \<^const>\<open>None\<close> is the panic of an overflowing product while the host is read.
\<close>

definition initialize_workload_manager ::
  "profile \<Rightarrow> (string \<Rightarrow> string) \<Rightarrow> host_view \<Rightarrow> bool \<Rightarrow> bool \<Rightarrow> bool \<Rightarrow> 'e runtime_registry
     \<Rightarrow> 'e runtime_registry \<Rightarrow> 'e node \<Rightarrow> 'e node option" where
  "initialize_workload_manager prof parse_err h force_mock mock_only scheduling_enabled
       default_reg mock_reg n =
     (if \<not> scheduling_enabled then Some n
      else
        (let reg = (if prof = Debug \<and> (force_mock \<or> mock_only) then mock_reg else default_reg);
             n = n \<lparr> runtime_registry_of := Some reg \<rparr>;
             cfg = default_provider_config \<lparr> default_ttl_seconds := 3600 \<rparr>;
             n = n \<lparr> provider_manager_of := Some (provider_manager_new cfg) \<rparr> in
         map_option (\<lambda>v. n \<lparr> resource_verifier_of := v \<rparr>)
           (update_system_resources prof parse_err h (resource_verifier_of n))))"

text \<open>Without a provider manager there are no providers.\<close>

definition discover_manifest_providers ::
  "(provider_info \<Rightarrow> system_time) \<Rightarrow> nat \<Rightarrow> string \<Rightarrow> 'e node \<Rightarrow> 'e node \<times> discover_result" where
  "discover_manifest_providers clock tx manifest_id n =
     (case provider_manager_of n of
        None \<Rightarrow> (n, Cached [])
      | Some pm \<Rightarrow>
          (case discover_providers clock tx manifest_id pm of (pm', r) \<Rightarrow> (n \<lparr> provider_manager_of := Some pm' \<rparr>, r)))"

definition set_engine :: "string \<Rightarrow> 'e \<Rightarrow> 'e node \<Rightarrow> 'e node" where
  "set_engine name e n =
     n \<lparr> runtime_registry_of :=
           map_option (\<lambda>r. r \<lparr> engines := hm_insert name e (engines r) \<rparr>) (runtime_registry_of n) \<rparr>"

section \<open>Removal by manifest\<close>

text \<open>One engine: list, keep what carries the manifest, remove one by one.\<close>

definition sweep_engine ::
  "'e engine_ops \<Rightarrow> string \<Rightarrow> string \<Rightarrow> 'e \<Rightarrow> 'e \<times> string list \<times> string list" where
  "sweep_engine V manifest_id name e =
     (case eo_list V e of
        Inl _ \<Rightarrow> (e, [], [''list:'' @ name])
      | Inr ws \<Rightarrow>
          (case remove_each (eo_remove V)
                  (map wi_id (filter (\<lambda>w. wi_manifest_id w = manifest_id) ws)) e of
             (e', removed, failed) \<Rightarrow> (e', removed, map (\<lambda>i. name @ '':'' @ i) failed)))"

fun sweep_engines ::
  "'e engine_ops \<Rightarrow> string \<Rightarrow> (string \<times> 'e) list \<Rightarrow> (string \<times> 'e) list \<times> string list \<times> string list" where
  "sweep_engines V manifest_id [] = ([], [], [])"
| "sweep_engines V manifest_id ((name, e) # es) =
     (case sweep_engine V manifest_id name e of
        (e', removed, errors) \<Rightarrow>
          (case sweep_engines V manifest_id es of
             (es', removed', errors') \<Rightarrow> ((name, e') # es', removed @ removed', errors @ errors')))"

definition remove_workloads_by_manifest_id ::
  "'e engine_ops \<Rightarrow> string \<Rightarrow> 'e node \<Rightarrow> 'e node \<times> (string + string list)" where
  "remove_workloads_by_manifest_id V manifest_id n =
     (case runtime_registry_of n of
        None \<Rightarrow> (n, Inl ''Runtime registry not initialized'')
      | Some reg \<Rightarrow>
          (case sweep_engines V manifest_id (engines reg) of
             (es, removed, errors) \<Rightarrow>
               (let n = n \<lparr> runtime_registry_of := Some (reg \<lparr> engines := es \<rparr>) \<rparr>;
                    n = n \<lparr> provider_manager_of :=
                              map_option (\<lambda>pm. fst (stop_providing manifest_id pm)) (provider_manager_of n) \<rparr>;
                    n = (if errors = [] then fst (remove_manifest_owner manifest_id n) else n) in
                (n, Inr removed))))"

definition remove_workload_by_id ::
  "'e engine_ops \<Rightarrow> string \<Rightarrow> string \<Rightarrow> 'e node \<Rightarrow> 'e node \<times> (string + unit)" where
  "remove_workload_by_id V workload_id engine_name n =
     (case runtime_registry_of n of
        None \<Rightarrow> (n, Inl ''Runtime registry not initialized'')
      | Some reg \<Rightarrow>
          (case get_engine reg engine_name of
             None \<Rightarrow> (n, Inl (''Runtime engine '' @ [CHR 0x27] @ engine_name @ [CHR 0x27] @ '' not available''))
           | Some e \<Rightarrow>
               (case eo_remove V workload_id e of
                  (e', Inl err) \<Rightarrow> (set_engine engine_name e' n, Inl (display_runtime_error err))
                | (e', Inr _) \<Rightarrow> (set_engine engine_name e' n, Inr ()))))"

section \<open>Delete requests\<close>

datatype ownership_status = OwnerMatch | OwnerMismatch | OwnerUnknown

definition verify_delete_ownership :: "string \<Rightarrow> bytes \<Rightarrow> 'e node \<Rightarrow> ownership_status" where
  "verify_delete_ownership manifest_id envelope_pubkey n =
     (case get_manifest_owner manifest_id n of
        None \<Rightarrow> OwnerUnknown
      | Some owner \<Rightarrow>
          if owner = [] then OwnerUnknown
          else if owner = envelope_pubkey then OwnerMatch
          else OwnerMismatch)"

definition remove_and_report ::
  "'e engine_ops \<Rightarrow> string \<Rightarrow> 'e node \<Rightarrow> 'e node \<times> bool \<times> string \<times> string list" where
  "remove_and_report V manifest_id n =
     (case remove_workloads_by_manifest_id V manifest_id n of
        (n', Inr removed) \<Rightarrow>
          if removed = [] then (n', True, ''no workloads found for manifest'', removed)
          else (n', True, ''removed '' @ to_decimal (length removed) @ '' workloads'', removed)
      | (n', Inl e) \<Rightarrow>
          (n', False, ''failed to remove workloads: Failed to remove workloads: '' @ e, []))"

definition process_delete_request ::
  "'e engine_ops \<Rightarrow> string \<Rightarrow> bool \<Rightarrow> bytes \<Rightarrow> 'e node \<Rightarrow> 'e node \<times> bool \<times> string \<times> string list" where
  "process_delete_request V manifest_id force envelope_pubkey n =
     (case verify_delete_ownership manifest_id envelope_pubkey n of
        OwnerMatch \<Rightarrow> remove_and_report V manifest_id n
      | OwnerMismatch \<Rightarrow>
          if force then remove_and_report V manifest_id n
          else (n, False, ''ownership verification failed'', [])
      | OwnerUnknown \<Rightarrow> (n, False, ''ownership unknown for manifest on this node'', []))"

record delete_request =
  del_manifest_id :: "string option"
  del_operation_id :: "string option"
  del_force :: bool

record delete_response =
  dresp_ok :: bool
  dresp_operation_id :: string
  dresp_message :: string
  dresp_manifest_id :: string
  dresp_removed_workloads :: "string list"

definition build_delete_response ::
  "bool \<Rightarrow> string \<Rightarrow> string \<Rightarrow> string \<Rightarrow> string list \<Rightarrow> delete_response" where
  "build_delete_response ok operation_id message manifest_id removed =
     \<lparr> dresp_ok = ok, dresp_operation_id = operation_id, dresp_message = message,
       dresp_manifest_id = manifest_id, dresp_removed_workloads = removed \<rparr>"

definition delete_error_response :: "string \<Rightarrow> delete_response" where
  "delete_error_response message = build_delete_response False ''unknown'' message ''unknown'' []"

definition delete_ack_response :: "string \<Rightarrow> string \<Rightarrow> delete_response" where
  "delete_ack_response operation_id manifest_id =
     build_delete_response True operation_id ''delete request received and processing'' manifest_id []"

text \<open>
  A delete request: the answer that is sent, and the task that is spawned for it, with the
  manifest, the force flag and the key of the signer.
\<close>

definition delete_message ::
  "crypto_lib \<Rightarrow> (bytes \<Rightarrow> delete_request option) \<Rightarrow> instant \<Rightarrow> peer_id \<Rightarrow> bytes \<Rightarrow> 'e node
     \<Rightarrow> 'e node \<times> delete_response \<times> (string \<times> bool \<times> bytes) option" where
  "delete_message L root_as_delete_request now peer request n =
     (case verify_signed_message L now peer request (nonces n) of
        (st, None) \<Rightarrow> (n \<lparr> nonces := st \<rparr>, delete_error_response ''unsigned or invalid envelope'', None)
      | (st, Some verified) \<Rightarrow>
          (case root_as_delete_request (ve_payload verified) of
             None \<Rightarrow> (n \<lparr> nonces := st \<rparr>, delete_error_response ''invalid delete request format'', None)
           | Some req \<Rightarrow>
               (n \<lparr> nonces := st \<rparr>,
                delete_ack_response
                  (case del_operation_id req of Some o' \<Rightarrow> o' | None \<Rightarrow> ''unknown'')
                  (case del_manifest_id req of Some m \<Rightarrow> m | None \<Rightarrow> ''unknown''),
                Some (or_empty (del_manifest_id req), del_force req, ve_pubkey verified))))"

definition run_delete_task ::
  "'e engine_ops \<Rightarrow> string \<times> bool \<times> bytes \<Rightarrow> 'e node \<Rightarrow> 'e node" where
  "run_delete_task V task n =
     (case task of (manifest_id, force, pubkey) \<Rightarrow>
        fst (process_delete_request V manifest_id force pubkey n))"

text \<open>
  The deletion the REST API runs when a provider of the manifest is the node itself
  (\<open>handle_local_delete\<close> in \<open>restapi/mod.rs\<close>).
\<close>

definition handle_local_delete ::
  "'e engine_ops \<Rightarrow> string \<Rightarrow> bool \<Rightarrow> 'e node \<Rightarrow> 'e node \<times> (string + string list)" where
  "handle_local_delete V manifest_id force n =
     (case remove_workloads_by_manifest_id V manifest_id n of
        (n', Inr removed) \<Rightarrow> (n', Inr removed)
      | (n', Inl e) \<Rightarrow> (n', Inl (''local deletion failed: '' @ e)))"

section \<open>Deployment\<close>

record apply_request =
  ap_replicas :: u32
  ap_operation_id :: "string option"
  ap_manifest_json :: "string option"
  ap_origin_peer :: "string option"
  ap_manifest_id :: "string option"

record apply_response =
  aresp_ok :: bool
  aresp_operation_id :: string
  aresp_message :: string

definition build_apply_response :: "bool \<Rightarrow> string \<Rightarrow> string \<Rightarrow> apply_response" where
  "build_apply_response ok operation_id message =
     \<lparr> aresp_ok = ok, aresp_operation_id = operation_id, aresp_message = message \<rparr>"

lemma aresp_ok_build [simp]: "aresp_ok (build_apply_response ok i message) = ok"
  by (simp add: build_apply_response_def)

record manifest_lib =
  ml_b64_decode :: "string \<Rightarrow> string + bytes"
  ml_root_as_envelope :: "bytes \<Rightarrow> string + envelope"
  ml_kem_private_key :: "string + bytes"
  ml_kem :: kem_lib
  ml_blob_error :: "blob_error \<Rightarrow> string"
  ml_utf8_error :: "bytes \<Rightarrow> string"
  ml_yaml_parse :: "string \<Rightarrow> json option"
  ml_yaml_print :: "json \<Rightarrow> string + string"

text \<open>The texts of the errors that the repository raises; the others are texts of libraries.\<close>

definition blob_error_text :: "manifest_lib \<Rightarrow> blob_error \<Rightarrow> string" where
  "blob_error_text L e =
     (case e of
        UnsupportedBlobVersion \<Rightarrow> ''unsupported recipient-blob version''
      | BlobTooShort text \<Rightarrow> text
      | _ \<Rightarrow> ml_blob_error L e)"

definition decrypt_manifest_from_envelope :: "manifest_lib \<Rightarrow> bytes \<Rightarrow> (string + string) option" where
  "decrypt_manifest_from_envelope L payload =
     (if payload = [] \<or> hd payload \<noteq> 2
      then Some (Inl ''unsupported payload format: expected recipient-blob (version byte 0x02)'')
      else case ml_kem_private_key L of
             Inl e \<Rightarrow> Some (Inl (''failed to load KEM keypair: '' @ e))
           | Inr sk \<Rightarrow>
               (case decrypt_payload_from_recipient_blob (ml_kem L) payload sk of
                  None \<Rightarrow> None
                | Some (Inl e) \<Rightarrow> Some (Inl (''recipient-blob decryption failed: '' @ blob_error_text L e))
                | Some (Inr plaintext) \<Rightarrow>
                    Some (case from_utf8 plaintext of
                            None \<Rightarrow> Inl (''decrypted manifest is not valid UTF-8: '' @ ml_utf8_error L plaintext)
                          | Some s \<Rightarrow> Inr s)))"

definition decrypt_manifest_content :: "manifest_lib \<Rightarrow> string \<Rightarrow> (string + bytes) option" where
  "decrypt_manifest_content L manifest_json =
     (case ml_b64_decode L manifest_json of
        Inl e \<Rightarrow> Some (Inl e)
      | Inr envelope_bytes \<Rightarrow>
          (case ml_root_as_envelope L envelope_bytes of
             Inl e \<Rightarrow> Some (Inl e)
           | Inr env \<Rightarrow>
               if or_empty (fe_payload_type env) = ''manifest''
               then (case fe_payload env of
                       None \<Rightarrow> Some (Inl ''Missing payload in envelope'')
                     | Some payload \<Rightarrow>
                         (case decrypt_manifest_from_envelope L payload of
                            None \<Rightarrow> None
                          | Some (Inl e) \<Rightarrow> Some (Inl (''decryption failed: '' @ e))
                          | Some (Inr content) \<Rightarrow> Some (Inr (bytes_of_string content))))
               else Some (Inr (bytes_of_string manifest_json))))"

text \<open>The insertion into a mapping replaces a value in place or appends, as the library's map does.\<close>

definition put_replicas_one :: "(string \<times> json) list \<Rightarrow> (string \<times> json) list" where
  "put_replicas_one fs = AList.update ''replicas'' (JNumber 1) fs"

definition set_replicas :: "json \<Rightarrow> json" where
  "set_replicas doc =
     (case doc of
        JObject fs \<Rightarrow>
          (case map_of fs ''spec'' of
             Some (JObject spec) \<Rightarrow> JObject (AList.update ''spec'' (JObject (put_replicas_one spec)) fs)
           | Some _ \<Rightarrow> doc
           | None \<Rightarrow> if map_of fs ''replicas'' \<noteq> None then JObject (put_replicas_one fs) else doc)
      | _ \<Rightarrow> doc)"

definition modify_manifest_replicas :: "manifest_lib \<Rightarrow> bytes \<Rightarrow> string + bytes" where
  "modify_manifest_replicas L content =
     (case ml_yaml_parse L (from_utf8_lossy content) of
        Some doc \<Rightarrow>
          (case ml_yaml_print L (set_replicas doc) of
             Inl e \<Rightarrow> Inl e
           | Inr s \<Rightarrow> Inr (bytes_of_string s))
      | None \<Rightarrow> Inr content)"

definition engine_annotation :: "json \<Rightarrow> string option" where
  "engine_annotation doc =
     Option.bind (json_get ''metadata'' doc) (\<lambda>md.
     Option.bind (json_get ''annotations'' md) (\<lambda>ann.
     Option.bind (json_get ''beemesh.io/runtime-engine'' ann) json_as_str))"

definition select_runtime_engine ::
  "manifest_lib \<Rightarrow> 'e engine_ops \<Rightarrow> bytes \<Rightarrow> 'e node \<Rightarrow> string + string" where
  "select_runtime_engine L V content n =
     (case Option.bind (ml_yaml_parse L (from_utf8_lossy content)) engine_annotation of
        Some engine \<Rightarrow> Inr engine
      | None \<Rightarrow>
          (case runtime_registry_of n of
             None \<Rightarrow> Inl ''No suitable runtime engine available''
           | Some reg \<Rightarrow>
               (let available = check_available_engines (eo_available V) reg in
                if hm_get available ''podman'' = Some True then Inr ''podman''
                else if hm_get available ''docker'' = Some True then Inr ''docker''
                else if hm_get available ''mock'' = Some True then Inr ''mock''
                else Inl ''No suitable runtime engine available'')))"

definition create_deployment_config :: "apply_request \<Rightarrow> deployment_config" where
  "create_deployment_config req =
     (let cfg = default_deployment_config \<lparr> dc_replicas := ap_replicas req \<rparr> in
      case ap_operation_id req of
        Some op \<Rightarrow> cfg \<lparr> dc_env := hm_insert ''BEEMESH_OPERATION_ID'' op (dc_env cfg) \<rparr>
      | None \<Rightarrow> cfg)"

definition deploy_on_engine ::
  "profile \<Rightarrow> 'e engine_ops \<Rightarrow> string \<Rightarrow> peer_id \<Rightarrow> string \<Rightarrow> bytes \<Rightarrow> deployment_config \<Rightarrow> 'e
     \<Rightarrow> 'e \<times> workload_info runtime_result" where
  "deploy_on_engine prof V engine_name local_peer manifest_id content cfg e =
     (if prof = Debug \<and> engine_name = ''mock''
      then (case eo_as_mock V e of
              Some deploy_with_peer \<Rightarrow> deploy_with_peer manifest_id content cfg local_peer
            | None \<Rightarrow> eo_deploy V manifest_id content cfg e)
      else eo_deploy V manifest_id content cfg e)"

record apply_env =
  ae_profile :: profile
  ae_start_providing :: "string \<Rightarrow> string + unit"
  ae_announce1 :: system_time
  ae_announce2 :: system_time
  ae_local_peer :: peer_id

text \<open>
  \<open>process_manifest_deployment\<close> in its three parts, between which it waits: the manifest is
  decrypted, its owner recorded and its replicas edited; an engine is selected and deploys; the
  node announces itself as a provider. The last component of a result is \<^const>\<open>None\<close> after a panic.
\<close>

definition prepare_deployment ::
  "manifest_lib \<Rightarrow> apply_request \<Rightarrow> string \<Rightarrow> bytes \<Rightarrow> 'e node \<Rightarrow> 'e node \<times> (string + bytes) option" where
  "prepare_deployment L req manifest_json owner_pubkey n =
     (case decrypt_manifest_content L manifest_json of
        None \<Rightarrow> (n, None)
      | Some (Inl e) \<Rightarrow> (n, Some (Inl e))
      | Some (Inr content) \<Rightarrow>
          (let manifest_id = (case ap_manifest_id req of Some m \<Rightarrow> m | None \<Rightarrow> ''unknown'');
               n = (if owner_pubkey = [] then n else record_manifest_owner manifest_id owner_pubkey n) in
           (n, Some (modify_manifest_replicas L content))))"

definition run_on_engine ::
  "manifest_lib \<Rightarrow> 'e engine_ops \<Rightarrow> apply_env \<Rightarrow> apply_request \<Rightarrow> bytes \<Rightarrow> 'e node
     \<Rightarrow> 'e node \<times> (string + string \<times> workload_info)" where
  "run_on_engine L V env req content n =
     (case select_runtime_engine L V content n of
        Inl e \<Rightarrow> (n, Inl e)
      | Inr engine_name \<Rightarrow>
          (case runtime_registry_of n of
             None \<Rightarrow> (n, Inl ''Runtime registry not initialized'')
           | Some reg \<Rightarrow>
               (case get_engine reg engine_name of
                  None \<Rightarrow> (n, Inl (''Runtime engine '' @ [CHR 0x27] @ engine_name @ [CHR 0x27] @ '' not available''))
                | Some e \<Rightarrow>
                    (case deploy_on_engine (ae_profile env) V engine_name (ae_local_peer env)
                            (case ap_manifest_id req of Some m \<Rightarrow> m | None \<Rightarrow> ''unknown'')
                            content (create_deployment_config req) e of
                       (e', Inl err) \<Rightarrow> (set_engine engine_name e' n, Inl (display_runtime_error err))
                     | (e', Inr info) \<Rightarrow> (set_engine engine_name e' n, Inr (engine_name, info))))))"

definition announce_deployment ::
  "apply_env \<Rightarrow> apply_request \<Rightarrow> string \<Rightarrow> workload_info \<Rightarrow> 'e node \<Rightarrow> 'e node" where
  "announce_deployment env req engine_name info n =
     (let md = hm_insert ''node_type'' ''beemesh-machine''
                 (hm_insert ''workload_id'' (wi_id info)
                   (hm_insert ''runtime_engine'' engine_name hm_empty)) in
      n \<lparr> provider_manager_of := map_option
            (\<lambda>pm. fst (announce_provider (ae_start_providing env) (ae_announce1 env) (ae_announce2 env)
               (ae_local_peer env) (case ap_manifest_id req of Some m \<Rightarrow> m | None \<Rightarrow> ''unknown'') md pm))
            (provider_manager_of n) \<rparr>)"

definition process_manifest_deployment ::
  "manifest_lib \<Rightarrow> 'e engine_ops \<Rightarrow> apply_env \<Rightarrow> apply_request \<Rightarrow> string \<Rightarrow> bytes \<Rightarrow> 'e node
     \<Rightarrow> 'e node \<times> (string + string) option" where
  "process_manifest_deployment L V env req manifest_json owner_pubkey n =
     (case prepare_deployment L req manifest_json owner_pubkey n of
        (n, None) \<Rightarrow> (n, None)
      | (n, Some (Inl e)) \<Rightarrow> (n, Some (Inl e))
      | (n, Some (Inr content)) \<Rightarrow>
          (case run_on_engine L V env req content n of
             (n, Inl e) \<Rightarrow> (n, Some (Inl e))
           | (n, Inr (engine_name, info)) \<Rightarrow>
               (announce_deployment env req engine_name info n, Some (Inr (wi_id info)))))"

definition require_signed_messages :: bool where
  "require_signed_messages = True"

text \<open>
  The request branch of \<open>handle_apply_message_with_workload_manager\<close>, with the answer it sends: the
  checks up to the reservation, which end in an answer or in a request to deploy for the signer,
  and the answer to the outcome of the deployment.
\<close>

definition admit_apply_request ::
  "crypto_lib \<Rightarrow> (bytes \<Rightarrow> apply_request option) \<Rightarrow> instant \<Rightarrow> instant \<Rightarrow> peer_id \<Rightarrow> bytes \<Rightarrow> 'e node
     \<Rightarrow> 'e node \<times> (apply_response + apply_request \<times> string \<times> bytes)" where
  "admit_apply_request C root_as_apply_request now_nonce now_res peer request n =
     (case verify_envelope_and_check_nonce_for_peer C now_nonce peer request (nonces n) of
        (st, verdict) \<Rightarrow>
          (let n = n \<lparr> nonces := st \<rparr> in
           case (case verdict of
                   Inr parts \<Rightarrow> Some (ve_payload parts, ve_pubkey parts)
                 | Inl _ \<Rightarrow> if require_signed_messages then None else Some (request, [])) of
             None \<Rightarrow> (n, Inl (build_apply_response False ''unknown'' ''unsigned or invalid envelope''))
           | Some (effective_request, owner_pubkey) \<Rightarrow>
               (case root_as_apply_request effective_request of
                  None \<Rightarrow> (n, Inl (build_apply_response False ''unknown'' ''invalid apply request format''))
                | Some req \<Rightarrow>
                    (case ap_manifest_json req of
                       None \<Rightarrow> (n, Inl (build_apply_response False ''unknown'' ''missing manifest JSON''))
                     | Some manifest_json \<Rightarrow>
                         (let manifest_id = or_empty (ap_manifest_id req) in
                          if manifest_id = []
                          then (n, Inl (build_apply_response False ''unknown'' ''missing manifest id''))
                          else
                            (case has_active_reservation_for_manifest now_res manifest_id
                                    (resource_verifier_of n) of
                               (v, reserved) \<Rightarrow>
                                 (let n = n \<lparr> resource_verifier_of := v \<rparr> in
                                  if \<not> reserved
                                  then (n, Inl (build_apply_response False manifest_id
                                             ''no active capacity reservation''))
                                  else (n, Inr (req, manifest_json, owner_pubkey)))))))))"

definition deployment_answer :: "string + string \<Rightarrow> apply_response" where
  "deployment_answer outcome =
     (case outcome of
        Inr workload_id \<Rightarrow> build_apply_response True workload_id ''workload deployed successfully''
      | Inl e \<Rightarrow> build_apply_response False ''unknown'' (''deployment failed: '' @ e))"

definition handle_apply_request ::
  "crypto_lib \<Rightarrow> (bytes \<Rightarrow> apply_request option) \<Rightarrow> manifest_lib \<Rightarrow> 'e engine_ops \<Rightarrow> apply_env \<Rightarrow> instant
     \<Rightarrow> instant \<Rightarrow> peer_id \<Rightarrow> bytes \<Rightarrow> 'e node \<Rightarrow> 'e node \<times> apply_response option" where
  "handle_apply_request C root_as_apply_request L V env now_nonce now_res peer request n =
     (case admit_apply_request C root_as_apply_request now_nonce now_res peer request n of
        (n, Inl response) \<Rightarrow> (n, Some response)
      | (n, Inr (req, manifest_json, owner_pubkey)) \<Rightarrow>
          (case process_manifest_deployment L V env req manifest_json owner_pubkey n of
             (n, outcome) \<Rightarrow> (n, map_option deployment_answer outcome)))"

text \<open>
  \<open>process_enhanced_self_apply_request\<close>; \<open>signing_key\<close> is the node's own public key, if there is one.
\<close>

definition process_self_apply_request ::
  "(bytes \<Rightarrow> apply_request option) \<Rightarrow> manifest_lib \<Rightarrow> 'e engine_ops \<Rightarrow> apply_env \<Rightarrow> bytes option
     \<Rightarrow> bytes \<Rightarrow> 'e node \<Rightarrow> 'e node \<times> unit option" where
  "process_self_apply_request root_as_apply_request L V env signing_key manifest n =
     (case root_as_apply_request manifest of
        None \<Rightarrow> (n, Some ())
      | Some req \<Rightarrow>
          (case ap_manifest_json req of
             None \<Rightarrow> (n, Some ())
           | Some manifest_json \<Rightarrow>
               (case process_manifest_deployment L V env req manifest_json (or_empty signing_key) n of
                  (n, outcome) \<Rightarrow> (n, map_option (\<lambda>_. ()) outcome))))"

definition get_runtime_registry_stats :: "'e engine_ops \<Rightarrow> 'e node \<Rightarrow> (string, bool) hmap" where
  "get_runtime_registry_stats V n =
     (case runtime_registry_of n of
        Some reg \<Rightarrow> check_available_engines (eo_available V) reg
      | None \<Rightarrow> hm_empty)"

definition list_available_engines :: "'e node \<Rightarrow> string list" where
  "list_available_engines n =
     (case runtime_registry_of n of Some reg \<Rightarrow> list_engines reg | None \<Rightarrow> [])"

definition get_workload_logs_by_id ::
  "'e engine_ops \<Rightarrow> string \<Rightarrow> string \<Rightarrow> nat option \<Rightarrow> 'e node \<Rightarrow> string + string" where
  "get_workload_logs_by_id V workload_id engine_name tail n =
     (case runtime_registry_of n of
        None \<Rightarrow> Inl ''Runtime registry not initialized''
      | Some reg \<Rightarrow>
          (case get_engine reg engine_name of
             None \<Rightarrow> Inl (''Runtime engine '' @ [CHR 0x27] @ engine_name @ [CHR 0x27] @ '' not available'')
           | Some e \<Rightarrow>
               (case eo_logs V workload_id tail e of
                  Inl err \<Rightarrow> Inl (display_runtime_error err)
                | Inr logs \<Rightarrow> Inr logs)))"

section \<open>Ownership and removal\<close>

text \<open>The mock engine as an entry of the registry.\<close>

definition mock_ops ::
  "json_parser \<Rightarrow> (string \<Rightarrow> bool) \<Rightarrow> (f64_bits \<Rightarrow> string) \<Rightarrow> bool \<Rightarrow> system_time \<Rightarrow> (nat \<Rightarrow> system_time)
     \<Rightarrow> mock_engine engine_ops" where
  "mock_ops parse_json yaml_ok fmt_f64 succeeds now clock =
     \<lparr> eo_name = (\<lambda>_. ''mock''),
       eo_available = (\<lambda>_. True),
       eo_as_mock = (\<lambda>e. Some (\<lambda>m c cfg peer.
         mock_deploy_workload_with_peer parse_json succeeds now m c cfg peer e)),
       eo_deploy = mock_deploy_workload parse_json yaml_ok succeeds now,
       eo_status = mock_get_workload_status now,
       eo_list = mock_list_workloads clock,
       eo_remove = mock_remove_workload,
       eo_logs = mock_get_workload_logs,
       eo_validate = (\<lambda>content _. mock_validate_manifest yaml_ok content),
       eo_export = mock_export_manifest fmt_f64,
       eo_deploy_with_peer = (\<lambda>m c cfg peer.
         apsnd Some \<circ> default_deploy_with_peer (mock_deploy_workload parse_json yaml_ok succeeds now m c cfg) peer) \<rparr>"

lemma mock_ops_list: "eo_list (mock_ops pj y fmt ok now clock) = mock_list_workloads clock"
  by (simp add: mock_ops_def)

lemma mock_ops_remove: "eo_remove (mock_ops pj y fmt ok now clock) = mock_remove_workload"
  by (simp add: mock_ops_def)

text \<open>What runs on a node: the workloads of its engines, each with the name of its engine.\<close>

definition node_workloads :: "('e \<Rightarrow> workload_info list) \<Rightarrow> 'e node \<Rightarrow> (string \<times> workload_info) set" where
  "node_workloads wl n =
     (case runtime_registry_of n of
        None \<Rightarrow> {}
      | Some reg \<Rightarrow> {(name, w). \<exists>e. (name, e) \<in> set (engines reg) \<and> w \<in> set (wl e)})"

definition node_providing :: "string \<Rightarrow> 'e node \<Rightarrow> bool" where
  "node_providing m n \<longleftrightarrow>
     (case provider_manager_of n of None \<Rightarrow> False
      | Some pm \<Rightarrow> hm_get (local_providers pm) m \<noteq> None)"

locale engine_table = runtime_engine inv workloads_of "\<lambda>_. eo_list V" "eo_remove V"
  for inv :: "'e \<Rightarrow> bool" and workloads_of :: "'e \<Rightarrow> workload_info list" and V :: "'e engine_ops"
begin

definition registry_inv :: "(string \<times> 'e) list \<Rightarrow> bool" where
  "registry_inv es \<longleftrightarrow> (\<forall>(name, e) \<in> set es. inv e)"

definition workloads_in :: "(string \<times> 'e) list \<Rightarrow> (string \<times> workload_info) set" where
  "workloads_in es = {(name, w). \<exists>e. (name, e) \<in> set es \<and> w \<in> set (workloads_of e)}"

lemma workloads_in_Cons:
  "workloads_in ((name, e) # es) = {(name', w). name' = name \<and> w \<in> set (workloads_of e)} \<union> workloads_in es"
  by (auto simp: workloads_in_def)

lemma sweep_engine_effect:
  assumes "inv e"
  obtains e' removed where "sweep_engine V m name e = (e', removed, [])" "inv e'"
    "set (workloads_of e') = {w \<in> set (workloads_of e). wi_manifest_id w \<noteq> m}"
    "set removed = wi_id ` {w \<in> set (workloads_of e). wi_manifest_id w = m}"
proof -
  obtain ws where ws: "eo_list V e = Inr ws" using list_ids [OF assms] by auto
  let ?ids = "map wi_id (filter (\<lambda>w. wi_manifest_id w = m) ws)"
  let ?e = "fst (remove_each (eo_remove V) ?ids e)"
  note removal = remove_by_manifest [OF assms ws, of m]
  have "remove_each (eo_remove V) ?ids e = (?e, ?ids, [])"
    using removal(3) by (metis prod.collapse)
  then have "sweep_engine V m name e = (?e, ?ids, [])"
    unfolding sweep_engine_def ws by (metis (no_types, lifting) list.simps(8) old.prod.case old.sum.simps(6))
  then show thesis using removal(1,2,4) by (rule that)
qed

lemma sweep_engines_effect:
  assumes "registry_inv es"
  obtains es' removed where "sweep_engines V m es = (es', removed, [])" "registry_inv es'"
    "map fst es' = map fst es"
    "workloads_in es' = {(name, w) \<in> workloads_in es. wi_manifest_id w \<noteq> m}"
    "set removed = wi_id ` snd ` {(name, w) \<in> workloads_in es. wi_manifest_id w = m}"
  using assms
proof (induction es arbitrary: thesis)
  case Nil
  then show ?case by (simp add: workloads_in_def)
next
  case (Cons x es)
  obtain name e where x: "x = (name, e)" by (cases x)
  from Cons.prems(2) have "inv e" "registry_inv es" by (auto simp: registry_inv_def x)
  from sweep_engine_effect [OF \<open>inv e\<close>, of m name] obtain e' r where
    e: "sweep_engine V m name e = (e', r, [])" "inv e'"
      "set (workloads_of e') = {w \<in> set (workloads_of e). wi_manifest_id w \<noteq> m}"
      "set r = wi_id ` {w \<in> set (workloads_of e). wi_manifest_id w = m}" .
  from Cons.IH [OF _ \<open>registry_inv es\<close>] obtain es' rs where
    es: "sweep_engines V m es = (es', rs, [])" "registry_inv es'" "map fst es' = map fst es"
      "workloads_in es' = {(name, w) \<in> workloads_in es. wi_manifest_id w \<noteq> m}"
      "set rs = wi_id ` snd ` {(name, w) \<in> workloads_in es. wi_manifest_id w = m}" by blast
  have split: "{(name', w) \<in> workloads_in (x # es). P w} =
      {(name', w). name' = name \<and> w \<in> set (workloads_of e) \<and> P w} \<union> {(name', w) \<in> workloads_in es. P w}"
    for P unfolding x workloads_in_Cons by blast
  show ?case
  proof (rule Cons.prems(1) [of "(name, e') # es'" "r @ rs"])
    show "set (r @ rs) = wi_id ` snd ` {(name, w) \<in> workloads_in (x # es). wi_manifest_id w = m}"
      unfolding split set_append e(4) es(5) image_Un by (rule arg_cong2 [where f = "(\<union>)"]) force+
    show "workloads_in ((name, e') # es') = {(name, w) \<in> workloads_in (x # es). wi_manifest_id w \<noteq> m}"
      unfolding split unfolding workloads_in_Cons e(3) es(4) by simp
    show "registry_inv ((name, e') # es')" using e(2) es(2) by (simp add: registry_inv_def)
  qed (simp_all add: x e(1) es(1,3))
qed

end

interpretation mock_table: engine_table mock_ok mock_infos "mock_ops pj y fmt ok now clock"
  for pj y fmt ok now clock
proof (unfold_locales, unfold mock_ops_list mock_ops_remove)
qed (rule mock.inv_remove mock.list_ids mock.list_distinct mock.ids_unique mock.remove_effect
      mock.remove_result, assumption+)+

lemma owner_set_engine [simp]: "manifest_owner_map (set_engine name e n) = manifest_owner_map n"
  by (simp add: set_engine_def)

text \<open>What the parts of a deployment leave alone.\<close>

lemma set_engine_frame [simp]:
  "nonces (set_engine name e n) = nonces n" "resource_verifier_of (set_engine name e n) = resource_verifier_of n"
  "provider_manager_of (set_engine name e n) = provider_manager_of n"
  by (simp_all add: set_engine_def)

lemma prepare_frame [simp]:
  "nonces (fst (prepare_deployment L req mj owner n)) = nonces n"
  "resource_verifier_of (fst (prepare_deployment L req mj owner n)) = resource_verifier_of n"
  "runtime_registry_of (fst (prepare_deployment L req mj owner n)) = runtime_registry_of n"
  "provider_manager_of (fst (prepare_deployment L req mj owner n)) = provider_manager_of n"
  by (simp_all add: prepare_deployment_def record_manifest_owner_def Let_def split: option.split sum.split)

lemma run_on_engine_frame [simp]:
  "nonces (fst (run_on_engine L V env req content n)) = nonces n"
  "resource_verifier_of (fst (run_on_engine L V env req content n)) = resource_verifier_of n"
  "manifest_owner_map (fst (run_on_engine L V env req content n)) = manifest_owner_map n"
  "provider_manager_of (fst (run_on_engine L V env req content n)) = provider_manager_of n"
  by (simp_all add: run_on_engine_def split: sum.split option.split prod.split)

lemma announce_deployment_frame [simp]:
  "nonces (announce_deployment env req name info n) = nonces n"
  "resource_verifier_of (announce_deployment env req name info n) = resource_verifier_of n"
  "manifest_owner_map (announce_deployment env req name info n) = manifest_owner_map n"
  "runtime_registry_of (announce_deployment env req name info n) = runtime_registry_of n"
  by (simp_all add: announce_deployment_def Let_def)

text \<open>
  A deployment is its first part, followed by steps that keep what the other two parts keep.
\<close>

lemma deployment_keeps:
  assumes "\<And>n content. f (fst (run_on_engine L V env req content n)) = f n"
    and "\<And>n name info. f (announce_deployment env req name info n) = f n"
  shows "f (fst (process_manifest_deployment L V env req mj owner n)) = f (fst (prepare_deployment L req mj owner n))"
proof (cases "prepare_deployment L req mj owner n")
  case (Pair n1 r)
  show ?thesis
  proof (cases "\<exists>content. r = Some (Inr content)")
    case True
    then obtain content where r: "r = Some (Inr content)" by blast
    obtain n2 out where "run_on_engine L V env req content n1 = (n2, out)" by fastforce
    then show ?thesis
      using assms(1) [of content n1] assms(2)
      by (cases out) (simp_all add: process_manifest_deployment_def Pair r case_prod_beta)
  next
    case False
    then show ?thesis
      by (cases r) (auto simp: process_manifest_deployment_def Pair split: sum.split)
  qed
qed

lemma deployment_frame [simp]:
  "nonces (fst (process_manifest_deployment L V env req mj owner n)) = nonces n"
  "resource_verifier_of (fst (process_manifest_deployment L V env req mj owner n)) = resource_verifier_of n"
  by (subst deployment_keeps; simp)+

text \<open>A deployment records the owner as soon as the manifest is decrypted, whatever follows.\<close>

lemma owner_prepare:
  "manifest_owner_map (fst (prepare_deployment L req mj owner n)) =
     (case decrypt_manifest_content L mj of
        Some (Inr _) \<Rightarrow> if owner = [] then manifest_owner_map n
                else hm_insert (case ap_manifest_id req of Some m \<Rightarrow> m | None \<Rightarrow> ''unknown'') owner
                       (manifest_owner_map n)
      | _ \<Rightarrow> manifest_owner_map n)"
  by (simp add: prepare_deployment_def record_manifest_owner_def Let_def split: option.split sum.split)

lemma owner_deployment:
  "manifest_owner_map (fst (process_manifest_deployment L V env req mj owner n)) =
     (case decrypt_manifest_content L mj of
        Some (Inr _) \<Rightarrow> if owner = [] then manifest_owner_map n
                else hm_insert (case ap_manifest_id req of Some m \<Rightarrow> m | None \<Rightarrow> ''unknown'') owner
                       (manifest_owner_map n)
      | _ \<Rightarrow> manifest_owner_map n)"
  by (subst deployment_keeps) (simp_all add: owner_prepare)

text \<open>
  What an apply request can do: either it is refused, and then only the nonces and the expiry of
  reservations show a trace of it, or it is deployed for the signer of its envelope.
\<close>

lemma admit_apply_cases:
  obtains (refused) st v resp where
      "admit_apply_request C r now now' peer req n = (n \<lparr> nonces := st, resource_verifier_of := v \<rparr>, Inl resp)"
      "v = resource_verifier_of n \<or> v = prune_expired_reservations now' (resource_verifier_of n)"
      "\<not> aresp_ok resp"
  | (admitted) st parts ar mj where
      "verify_envelope_and_check_nonce_for_peer C now peer req (nonces n) = (st, Inr parts)"
      "r (ve_payload parts) = Some ar" "ap_manifest_json ar = Some mj" "or_empty (ap_manifest_id ar) \<noteq> []"
      "snd (has_active_reservation_for_manifest now' (or_empty (ap_manifest_id ar)) (resource_verifier_of n))"
      "admit_apply_request C r now now' peer req n
         = (n \<lparr> nonces := st, resource_verifier_of := prune_expired_reservations now' (resource_verifier_of n) \<rparr>,
            Inr (ar, mj, ve_pubkey parts))"
proof (cases "verify_envelope_and_check_nonce_for_peer C now peer req (nonces n)")
  case (Pair st verdict)
  note run = admit_apply_request_def Pair Let_def require_signed_messages_def
  show thesis
  proof (cases verdict)
    case (Inl e)
    then show ?thesis by (intro refused [where st = st and v = "resource_verifier_of n"]) (simp add: run, simp_all)
  next
    case (Inr parts)
    show ?thesis
    proof (cases "r (ve_payload parts)")
      case None
      then show ?thesis using Inr
        by (intro refused [where st = st and v = "resource_verifier_of n"]) (simp add: run, simp_all)
    next
      case ar: (Some ar)
      let ?m = "or_empty (ap_manifest_id ar)" and ?v = "resource_verifier_of n"
      show ?thesis
      proof (cases "ap_manifest_json ar = None \<or> ?m = []")
        case True
        then show ?thesis using Inr ar
          by (cases "ap_manifest_json ar"; intro refused [where st = st and v = ?v]) (simp add: run, simp_all)+
      next
        case False
        then obtain mj where mj: "ap_manifest_json ar = Some mj" and m: "?m \<noteq> []" by auto
        obtain b where act: "has_active_reservation_for_manifest now' ?m ?v = (prune_expired_reservations now' ?v, b)"
          by (metis has_active_state prod.collapse)
        show ?thesis
        proof (cases b)
          case True
          then show ?thesis using Inr ar mj m act Pair
            by (intro admitted [where st = st and parts = parts and ar = ar and mj = mj]) (simp_all add: run)
        next
          case False
          then show ?thesis using Inr ar mj m act
            by (intro refused [where st = st and v = "prune_expired_reservations now' ?v"]) (simp add: run, simp_all)
        qed
      qed
    qed
  qed
qed

lemma handle_apply_cases:
  obtains (refused) st v where
      "fst (handle_apply_request C r L V env now now' peer req n) = n \<lparr> nonces := st, resource_verifier_of := v \<rparr>"
      "v = resource_verifier_of n \<or> v = prune_expired_reservations now' (resource_verifier_of n)"
      "\<exists>resp. snd (handle_apply_request C r L V env now now' peer req n) = Some resp \<and> \<not> aresp_ok resp"
  | (deployed) st parts ar mj where
      "verify_envelope_and_check_nonce_for_peer C now peer req (nonces n) = (st, Inr parts)"
      "r (ve_payload parts) = Some ar" "ap_manifest_json ar = Some mj" "or_empty (ap_manifest_id ar) \<noteq> []"
      "snd (has_active_reservation_for_manifest now' (or_empty (ap_manifest_id ar)) (resource_verifier_of n))"
      "fst (handle_apply_request C r L V env now now' peer req n)
         = fst (process_manifest_deployment L V env ar mj (ve_pubkey parts)
             (n \<lparr> nonces := st, resource_verifier_of := prune_expired_reservations now' (resource_verifier_of n) \<rparr>))"
proof (rule admit_apply_cases [of C r now now' peer req n])
  fix st v resp
  assume "admit_apply_request C r now now' peer req n = (n \<lparr> nonces := st, resource_verifier_of := v \<rparr>, Inl resp)"
    and v: "v = resource_verifier_of n \<or> v = prune_expired_reservations now' (resource_verifier_of n)" "\<not> aresp_ok resp"
  then show thesis
    by (intro refused [where st = st and v = v]) (simp_all add: handle_apply_request_def)
next
  fix st parts ar mj
  assume "verify_envelope_and_check_nonce_for_peer C now peer req (nonces n) = (st, Inr parts)"
      "r (ve_payload parts) = Some ar" "ap_manifest_json ar = Some mj" "or_empty (ap_manifest_id ar) \<noteq> []"
      "snd (has_active_reservation_for_manifest now' (or_empty (ap_manifest_id ar)) (resource_verifier_of n))"
    and "admit_apply_request C r now now' peer req n
         = (n \<lparr> nonces := st, resource_verifier_of := prune_expired_reservations now' (resource_verifier_of n) \<rparr>,
            Inr (ar, mj, ve_pubkey parts))"
  then show thesis
    by (intro deployed [where st = st and parts = parts and ar = ar and mj = mj]) (simp_all add: handle_apply_request_def case_prod_beta)
qed

text \<open>
  On a node whose engines are mock engines, the removal of a manifest removes exactly the
  workloads that carry it, on every engine, reports their ids, withdraws the provider entry and
  the owner record of the manifest, and touches no other owner record.
\<close>

lemma mock_removal:
  assumes "runtime_registry_of n = Some reg"
    and "\<forall>(name, e) \<in> set (engines reg). mock_ok e"
  shows "\<exists>n' removed. remove_workloads_by_manifest_id (mock_ops pj y fmt ok now clock) m n = (n', Inr removed)
    \<and> set removed = wi_id ` snd ` {(name, w) \<in> node_workloads mock_infos n. wi_manifest_id w = m}
    \<and> node_workloads mock_infos n' = {(name, w) \<in> node_workloads mock_infos n. wi_manifest_id w \<noteq> m}
    \<and> list_available_engines n' = list_available_engines n
    \<and> \<not> node_providing m n'
    \<and> (\<forall>m'. get_manifest_owner m' n' = (if m' = m then None else get_manifest_owner m' n))"
proof -
  let ?V = "mock_ops pj y fmt ok now clock"
  have wl: "node_workloads mock_infos n = mock_table.workloads_in (engines reg)"
    by (simp add: node_workloads_def mock_table.workloads_in_def assms(1))
  have "mock_table.registry_inv (engines reg)"
    using assms(2) by (simp add: mock_table.registry_inv_def)
  then obtain es removed where sweep: "sweep_engines ?V m (engines reg) = (es, removed, [])"
      "map fst es = map fst (engines reg)"
      "mock_table.workloads_in es = {(name, w) \<in> mock_table.workloads_in (engines reg). wi_manifest_id w \<noteq> m}"
      "set removed = wi_id ` snd ` {(name, w) \<in> mock_table.workloads_in (engines reg). wi_manifest_id w = m}"
    by (rule mock_table.sweep_engines_effect)
  let ?n' = "fst (remove_workloads_by_manifest_id ?V m n)"
  have run: "remove_workloads_by_manifest_id ?V m n = (?n', Inr removed)"
    and reg: "runtime_registry_of ?n' = Some (reg \<lparr> engines := es \<rparr>)"
    and pm: "provider_manager_of ?n' = map_option (\<lambda>pm. fst (stop_providing m pm)) (provider_manager_of n)"
    and own: "manifest_owner_map ?n' = hm_remove m (manifest_owner_map n)"
    by (simp_all add: remove_workloads_by_manifest_id_def assms(1) sweep(1) remove_manifest_owner_def)
  have "node_workloads mock_infos ?n' = mock_table.workloads_in es"
    by (simp add: node_workloads_def mock_table.workloads_in_def reg)
  moreover have "\<not> node_providing m ?n'"
    by (auto simp: node_providing_def pm stop_providing_def split: option.splits)
  moreover have "list_available_engines ?n' = list_available_engines n"
    by (simp add: list_available_engines_def reg assms(1) list_engines_def hm_keys_def sweep(2))
  moreover have "get_manifest_owner m' ?n' = (if m' = m then None else get_manifest_owner m' n)" for m'
    by (simp add: get_manifest_owner_def own)
  ultimately show ?thesis
    unfolding wl by (intro exI [of _ ?n'] exI [of _ removed] conjI allI run sweep(4)) (simp_all only: sweep(3) not_False_eq_True)
qed

section \<open>Manifests for one node\<close>

lemma json_get_set_replicas_other:
  "k \<noteq> ''spec'' \<Longrightarrow> k \<noteq> ''replicas'' \<Longrightarrow> json_get k (set_replicas doc) = json_get k doc"
  by (auto simp: set_replicas_def put_replicas_one_def update_conv split: json.splits option.splits)

lemma engine_annotation_set_replicas: "engine_annotation (set_replicas doc) = engine_annotation doc"
  by (simp add: engine_annotation_def json_get_set_replicas_other)

lemma update_idem: "map_of al k = Some v \<Longrightarrow> AList.update k v al = al"
  by (induction al) auto

lemma put_replicas_one_idem: "put_replicas_one (put_replicas_one fs) = put_replicas_one fs"
  by (simp add: put_replicas_one_def update_idem update_conv)

lemma set_replicas_idem: "set_replicas (set_replicas doc) = set_replicas doc"
proof (cases doc)
  case (JObject fs)
  show ?thesis
  proof (cases "map_of fs ''spec''")
    case None
    then show ?thesis
      by (simp add: JObject set_replicas_def put_replicas_one_idem)
        (simp add: put_replicas_one_def update_conv)
  next
    case (Some spec)
    then show ?thesis
      by (cases spec) (simp_all add: JObject set_replicas_def update_conv put_replicas_one_idem update_idem)
  qed
qed (simp_all add: set_replicas_def)

section \<open>Properties\<close>

text \<open>
  What is handed to an engine: for a manifest that the YAML library reads, and whose edited
  form it prints and reads reread, the edited manifest asks for one replica where it has a
  specification, is otherwise the same, selects the same engine, and is not edited further.
\<close>

theorem single_replica_manifest:
  assumes "ml_yaml_parse L (from_utf8_lossy content) = Some doc"
    and "ml_yaml_print L (set_replicas doc) = Inr s" "valid_string s"
    and "ml_yaml_parse L s = Some (set_replicas doc)"
  shows "\<exists>out doc'. modify_manifest_replicas L content = Inr out
    \<and> ml_yaml_parse L (from_utf8_lossy out) = Some doc'
    \<and> (\<forall>spec. json_get ''spec'' doc = Some (JObject spec) \<longrightarrow>
         (\<exists>spec'. json_get ''spec'' doc' = Some (JObject spec')
            \<and> map_of spec' = (map_of spec)(''replicas'' \<mapsto> JNumber 1)))
    \<and> (\<forall>k. k \<noteq> ''spec'' \<longrightarrow> k \<noteq> ''replicas'' \<longrightarrow> json_get k doc' = json_get k doc)
    \<and> select_runtime_engine L V out n = select_runtime_engine L V content n
    \<and> modify_manifest_replicas L out = Inr out"
proof -
  have out: "modify_manifest_replicas L content = Inr (bytes_of_string s)"
    by (simp add: modify_manifest_replicas_def assms(1,2))
  have reread: "ml_yaml_parse L (from_utf8_lossy (bytes_of_string s)) = Some (set_replicas doc)"
    using assms(3,4) by simp
  have "\<exists>spec'. json_get ''spec'' (set_replicas doc) = Some (JObject spec')
      \<and> map_of spec' = (map_of spec)(''replicas'' \<mapsto> JNumber 1)"
    if "json_get ''spec'' doc = Some (JObject spec)" for spec
    using that by (cases doc) (simp_all add: set_replicas_def put_replicas_one_def update_conv')
  moreover have "select_runtime_engine L V (bytes_of_string s) n = select_runtime_engine L V content n"
    by (simp add: select_runtime_engine_def reread assms(1) engine_annotation_set_replicas)
  moreover have "modify_manifest_replicas L (bytes_of_string s) = Inr (bytes_of_string s)"
    by (simp add: modify_manifest_replicas_def reread set_replicas_idem assms(2))
  ultimately show ?thesis
    using out reread json_get_set_replicas_other by blast
qed

text \<open>A library that knows one document, in its two forms.\<close>

definition toy_manifest :: json where
  "toy_manifest = JObject [(''kind'', JString ''Pod''), (''spec'', JObject [(''replicas'', JNumber 3)])]"

definition no_kem :: kem_lib where
  "no_kem = \<lparr> kl_init_ok = False, kl_public_ok = (\<lambda>_. False), kl_encapsulate = (\<lambda>_ _. None), kl_secret_ok = (\<lambda>_. False),
     kl_ciphertext_ok = (\<lambda>_. False), kl_decapsulate = (\<lambda>_ _. None), kl_aes_key_ok = (\<lambda>_. False),
     kl_aes_encrypt = (\<lambda>_ _ _. None), kl_aes_decrypt = (\<lambda>_ _ _. None) \<rparr>"

definition toy_yaml :: manifest_lib where
  "toy_yaml = \<lparr> ml_b64_decode = (\<lambda>s. Inr (bytes_of_string s)), ml_root_as_envelope = (\<lambda>_. Inl ''no envelope''),
     ml_kem_private_key = Inl ''no key'', ml_kem = no_kem, ml_blob_error = (\<lambda>_. []), ml_utf8_error = (\<lambda>_. []),
     ml_yaml_parse = (\<lambda>s. if s = ''a'' then Some toy_manifest
                          else if s = ''b'' then Some (set_replicas toy_manifest) else None),
     ml_yaml_print = (\<lambda>d. if d = set_replicas toy_manifest then Inr ''b'' else Inl ''unknown document'') \<rparr>"

theorem single_replica_manifest_witness:
  "\<exists>out doc'. modify_manifest_replicas toy_yaml [97] = Inr out
    \<and> ml_yaml_parse toy_yaml (from_utf8_lossy out) = Some doc'
    \<and> Option.bind (json_get ''spec'' doc') (json_get ''replicas'') = Some (JNumber 1)"
proof -
  have "from_utf8_lossy [97] = ''a''" by code_simp
  then have "ml_yaml_parse toy_yaml (from_utf8_lossy [97]) = Some toy_manifest" by (simp add: toy_yaml_def)
  moreover have "valid_string ''b''" by code_simp
  moreover have "ml_yaml_print toy_yaml (set_replicas toy_manifest) = Inr ''b''"
    "ml_yaml_parse toy_yaml ''b'' = Some (set_replicas toy_manifest)" by (simp_all add: toy_yaml_def)
  moreover have "json_get ''spec'' toy_manifest = Some (JObject [(''replicas'', JNumber 3)])"
    by (simp add: toy_manifest_def)
  ultimately show ?thesis
    using single_replica_manifest [of toy_yaml "[97]" toy_manifest "''b''"
        "mock_ops (\<lambda>_. None) (\<lambda>_. True) (\<lambda>_. []) True 0 (\<lambda>_. 0)"] by fastforce
qed

end
