(* ===== verification/Node_Ownership.thy ===== *)
theory Node_Ownership
  imports Workload_Integration
begin

text \<open>
  Who may remove what: the node as a state machine. Messages of peers, the tasks spawned for
  delete requests, deployments and local deletions interleave. A spawned task first checks the
  owner (\<open>verify_delete_ownership\<close>) and then removes (\<open>remove_workloads_by_manifest_id\<close>); other
  events may happen in between, as the source awaits locks there. Everything else the node does
  leaves the table of owners alone.
\<close>

section \<open>Events\<close>

type_synonym delete_task = "string \<times> bool \<times> bytes"

record node_lib =
  nl_crypto :: crypto_lib
  nl_delete_request :: "bytes \<Rightarrow> delete_request option"
  nl_apply_request :: "bytes \<Rightarrow> apply_request option"
  nl_manifest :: manifest_lib

record 'e node_state =
  ns_node :: "'e node"
  ns_spawned :: "delete_task list"
  ns_authorised :: "delete_task list"

datatype node_event =
    DeleteRequest instant peer_id bytes
  | DeleteChecked delete_task
  | DeleteRemoved delete_task
  | ApplyRequest peer_id bytes
  | SelfApply bytes
  | LocalDelete string
  | OwnerRecorded string bytes
  | Elsewhere

definition delete_allowed :: "delete_task \<Rightarrow> 'e node \<Rightarrow> bool" where
  "delete_allowed t n =
     (case t of (m, force, key) \<Rightarrow>
        (case verify_delete_ownership m key n of
           OwnerMatch \<Rightarrow> True | OwnerMismatch \<Rightarrow> force | OwnerUnknown \<Rightarrow> False))"

text \<open>The two halves of a spawned task, and their composition.\<close>

lemma process_delete_request_split:
  "fst (process_delete_request V m force key n) =
     (if delete_allowed (m, force, key) n then fst (remove_and_report V m n) else n)"
  by (simp add: process_delete_request_def delete_allowed_def split: ownership_status.splits)

inductive node_step ::
  "node_lib \<Rightarrow> node_event \<Rightarrow> 'e node_state \<Rightarrow> 'e node_state \<Rightarrow> bool" for N where
  step_delete_request:
    "delete_message (nl_crypto N) (nl_delete_request N) now peer req (ns_node s) = (n', resp, task)
     \<Longrightarrow> node_step N (DeleteRequest now peer req) s
           (s \<lparr> ns_node := n', ns_spawned := ns_spawned s @ (case task of None \<Rightarrow> [] | Some t \<Rightarrow> [t]) \<rparr>)"
| step_delete_checked:
    "t \<in> set (ns_spawned s)
     \<Longrightarrow> node_step N (DeleteChecked t) s
           (s \<lparr> ns_spawned := remove1 t (ns_spawned s),
                ns_authorised := (if delete_allowed t (ns_node s) then [t] else []) @ ns_authorised s \<rparr>)"
| step_delete_removed:
    "t \<in> set (ns_authorised s)
     \<Longrightarrow> node_step N (DeleteRemoved t) s
           (s \<lparr> ns_node := fst (remove_and_report V (fst t) (ns_node s)),
                ns_authorised := remove1 t (ns_authorised s) \<rparr>)"
| step_apply:
    "node_step N (ApplyRequest peer req) s
       (s \<lparr> ns_node := fst (handle_apply_request (nl_crypto N) (nl_apply_request N) (nl_manifest N) V env
                              now now' peer req (ns_node s)) \<rparr>)"
| step_self_apply:
    "node_step N (SelfApply manifest) s
       (s \<lparr> ns_node := fst (process_self_apply_request (nl_apply_request N) (nl_manifest N) V env key manifest
                         (ns_node s)) \<rparr>)"
| step_local_delete:
    "node_step N (LocalDelete m) s (s \<lparr> ns_node := fst (handle_local_delete V m force (ns_node s)) \<rparr>)"
| step_owner_recorded:
    "node_step N (OwnerRecorded m key) s (s \<lparr> ns_node := record_manifest_owner m key (ns_node s) \<rparr>)"
| step_elsewhere:
    "manifest_owner_map n' = manifest_owner_map (ns_node s)
     \<Longrightarrow> node_step N Elsewhere s (s \<lparr> ns_node := n' \<rparr>)"

inductive node_run ::
  "node_lib \<Rightarrow> 'e node_state \<Rightarrow> node_event list \<Rightarrow> 'e node_state \<Rightarrow> bool" for N s0 where
  run_start: "node_run N s0 [] s0"
| run_step: "node_run N s0 evs s \<Longrightarrow> node_step N ev s s' \<Longrightarrow> node_run N s0 (evs @ [ev]) s'"

inductive_cases node_step_deleteE: "node_step N (DeleteRequest now peer req) s s'"

section \<open>What each event does to the table of owners\<close>

lemma owner_delete_message:
  "manifest_owner_map (fst (delete_message C r now peer req n)) = manifest_owner_map n"
  by (auto simp: delete_message_def split: prod.splits option.splits)

lemma owner_kept_by_deployment:
  assumes "get_manifest_owner m n \<noteq> None"
  shows "get_manifest_owner m (fst (process_manifest_deployment L V env req mj owner n)) \<noteq> None"
  using assms by (auto simp: get_manifest_owner_def owner_deployment split: option.split sum.split)

lemma owner_kept_by_apply:
  assumes "get_manifest_owner m n \<noteq> None"
  shows "get_manifest_owner m (fst (handle_apply_request C r L V env now now' peer req n)) \<noteq> None"
proof (cases rule: handle_apply_cases [of C r L V env now now' peer req n])
  case (refused st v)
  then show ?thesis using assms by (simp add: get_manifest_owner_def)
next
  case (deployed st parts ar mj)
  have "get_manifest_owner m (n \<lparr> nonces := st,
      resource_verifier_of := prune_expired_reservations now' (resource_verifier_of n) \<rparr>) \<noteq> None"
    using assms by (simp add: get_manifest_owner_def)
  then show ?thesis unfolding deployed(6) by (rule owner_kept_by_deployment)
qed

lemma owner_kept_by_self_apply:
  "get_manifest_owner m n \<noteq> None \<Longrightarrow>
     get_manifest_owner m (fst (process_self_apply_request r L V env key manifest n)) \<noteq> None"
  by (simp add: process_self_apply_request_def owner_kept_by_deployment case_prod_beta
      del: not_None_eq split: option.splits)

lemma owner_removal:
  "m' \<noteq> m \<Longrightarrow> get_manifest_owner m' (fst (remove_workloads_by_manifest_id V m n)) = get_manifest_owner m' n"
  by (auto simp: remove_workloads_by_manifest_id_def get_manifest_owner_def remove_manifest_owner_def Let_def
      split: option.splits prod.splits)

lemma fst_remove_and_report: "fst (remove_and_report V m n) = fst (remove_workloads_by_manifest_id V m n)"
  by (auto simp: remove_and_report_def split: prod.splits sum.splits)

lemma fst_handle_local_delete: "fst (handle_local_delete V m f n) = fst (remove_workloads_by_manifest_id V m n)"
  by (auto simp: handle_local_delete_def split: prod.splits sum.splits)

text \<open>An owner record disappears in two kinds of events only.\<close>

lemma owner_erased_by:
  assumes "node_step N ev s s'"
    and "get_manifest_owner m (ns_node s) \<noteq> None" "get_manifest_owner m (ns_node s') = None"
  shows "ev = LocalDelete m \<or> (\<exists>t \<in> set (ns_authorised s). fst t = m)"
  using assms
proof (cases rule: node_step.cases)
  case (step_delete_request now peer req n' resp task)
  then show ?thesis
    using assms(2,3) owner_delete_message [of "nl_crypto N" "nl_delete_request N" now peer req "ns_node s"]
    by (simp add: get_manifest_owner_def)
next
  case (step_delete_removed t V)
  then show ?thesis using assms(2,3) owner_removal [of m "fst t"]
    by (metis (no_types, lifting) fst_remove_and_report node_state.select_convs(1) node_state.surjective
        node_state.update_convs(1) node_state.update_convs(3))
next
  case (step_local_delete m' V force)
  then show ?thesis using assms(2,3) owner_removal [of m m' V "ns_node s"]
    by (cases "m = m'") (simp_all add: fst_handle_local_delete)
next
  case (step_apply peer req V env now now')
  then show ?thesis using assms(2,3) owner_kept_by_apply by (metis node_state.select_convs(1)
        node_state.surjective node_state.update_convs(1))
next
  case (step_self_apply manifest V env key)
  then show ?thesis using assms(2,3) owner_kept_by_self_apply by (metis node_state.select_convs(1)
        node_state.surjective node_state.update_convs(1))
qed (use assms(2,3) in \<open>auto simp: get_manifest_owner_def record_manifest_owner_def split: if_splits\<close>)

section \<open>Where a removal comes from\<close>

text \<open>A delete request for the task, signed with the task's key, is among the events.\<close>

definition signed_delete :: "node_lib \<Rightarrow> node_event list \<Rightarrow> delete_task \<Rightarrow> bool" where
  "signed_delete N evs t \<longleftrightarrow> (\<exists>now peer req e sig r.
     DeleteRequest now peer req \<in> set evs
     \<and> fb_root_as_envelope (nl_crypto N) req = Some e
     \<and> dsa_verify (nl_crypto N) (snd (snd t)) (rebuilt_canonical (nl_crypto N) e) sig = Some True
     \<and> nl_delete_request N (or_empty (fe_payload e)) = Some r
     \<and> t = (or_empty (del_manifest_id r), del_force r, snd (snd t)))"

text \<open>A task of such a request found its signer to be the owner, or carried the force flag.\<close>

definition passed_check :: "node_lib \<Rightarrow> 'e node_state \<Rightarrow> node_event list \<Rightarrow> delete_task \<Rightarrow> bool" where
  "passed_check N s0 evs t \<longleftrightarrow> (\<exists>evs1 evs2 s1 owner.
     evs = evs1 @ DeleteChecked t # evs2 \<and> node_run N s0 evs1 s1 \<and> signed_delete N evs1 t
     \<and> get_manifest_owner (fst t) (ns_node s1) = Some owner \<and> owner \<noteq> []
     \<and> (owner = snd (snd t) \<or> fst (snd t)))"

lemma signed_delete_append: "signed_delete N evs t \<Longrightarrow> signed_delete N (evs @ evs') t"
  unfolding signed_delete_def by (metis Un_iff set_append)

lemma passed_check_append: "passed_check N s0 evs t \<Longrightarrow> passed_check N s0 (evs @ evs') t"
  unfolding passed_check_def by (metis append.assoc append_Cons)

lemma verify_signed_message_SomeD:
  assumes "verify_signed_message C now peer req st = (st', Some v)"
  shows "\<exists>e sig. fb_root_as_envelope C req = Some e \<and> ve_payload v = or_empty (fe_payload e)
    \<and> dsa_verify C (ve_pubkey v) (rebuilt_canonical C e) sig = Some True"
proof -
  have "snd (verify_flatbuffer_envelope_for_peer C now NONCE_WINDOW peer req st) = Inr v"
    using assms
    by (auto simp: verify_signed_message_def verify_signed_payload_for_peer_def
        verify_envelope_and_check_nonce_for_peer_def split: prod.splits sum.splits)
  from verify_Inr [OF this] show ?thesis
    by (metis verified_envelope.select_convs(1) verified_parts_def)
qed

lemma spawned_is_signed:
  assumes "delete_message (nl_crypto N) (nl_delete_request N) now peer req n = (n', resp, Some t)"
  shows "signed_delete N (evs @ [DeleteRequest now peer req]) t"
proof -
  obtain st v r where v: "verify_signed_message (nl_crypto N) now peer req (nonces n) = (st, Some v)"
    and r: "nl_delete_request N (ve_payload v) = Some r"
    and t: "t = (or_empty (del_manifest_id r), del_force r, ve_pubkey v)"
    using assms by (auto simp: delete_message_def split: prod.splits option.splits)
  obtain e sig where e: "fb_root_as_envelope (nl_crypto N) req = Some e" "ve_payload v = or_empty (fe_payload e)"
      "dsa_verify (nl_crypto N) (ve_pubkey v) (rebuilt_canonical (nl_crypto N) e) sig = Some True"
    using verify_signed_message_SomeD [OF v] by blast
  have "DeleteRequest now peer req \<in> set (evs @ [DeleteRequest now peer req])" by simp
  then show ?thesis unfolding signed_delete_def using e r t by (metis snd_conv)
qed

lemma delete_allowed_owner:
  "delete_allowed t n \<Longrightarrow>
     \<exists>owner. get_manifest_owner (fst t) n = Some owner \<and> owner \<noteq> [] \<and> (owner = snd (snd t) \<or> fst (snd t))"
  by (cases t) (auto simp: delete_allowed_def verify_delete_ownership_def split: option.splits if_splits)

lemma spawned_step:
  assumes "node_step N ev s s'" "t \<in> set (ns_spawned s')"
  shows "t \<in> set (ns_spawned s) \<or> (\<exists>now peer req n' resp. ev = DeleteRequest now peer req
     \<and> delete_message (nl_crypto N) (nl_delete_request N) now peer req (ns_node s) = (n', resp, Some t))"
  using assms
proof (cases rule: node_step.cases)
  case (step_delete_request now peer req n' resp task)
  then show ?thesis using assms(2) by (cases task) auto
next
  case (step_delete_checked t')
  then show ?thesis using assms(2) by (auto dest: set_remove1_subset [THEN subsetD])
qed (use assms(2) in simp_all)

lemma authorised_step:
  assumes "node_step N ev s s'" "t \<in> set (ns_authorised s')"
  shows "t \<in> set (ns_authorised s) \<or>
     ev = DeleteChecked t \<and> t \<in> set (ns_spawned s) \<and> delete_allowed t (ns_node s)"
  using assms
proof (cases rule: node_step.cases)
  case (step_delete_checked t')
  then show ?thesis using assms(2) by (cases "delete_allowed t' (ns_node s)") auto
next
  case (step_delete_removed t' V)
  then show ?thesis using assms(2) by (auto dest: set_remove1_subset [THEN subsetD])
qed (use assms(2) in simp_all)

lemma spawned_signed:
  assumes "node_run N s0 evs s" "ns_spawned s0 = []"
  shows "t \<in> set (ns_spawned s) \<Longrightarrow> signed_delete N evs t"
  using assms
proof (induction arbitrary: t)
  case run_start
  then show ?case by simp
next
  case (run_step evs s ev s')
  from spawned_step [OF run_step.hyps(2) run_step.prems(1)] show ?case
    using run_step.IH run_step.prems(2) signed_delete_append spawned_is_signed by metis
qed

lemma authorised_passed:
  assumes "node_run N s0 evs s" "ns_spawned s0 = []" "ns_authorised s0 = []"
  shows "t \<in> set (ns_authorised s) \<Longrightarrow> passed_check N s0 evs t"
  using assms
proof (induction arbitrary: t)
  case run_start
  then show ?case by simp
next
  case (run_step evs s ev s')
  show ?case
  proof (cases "t \<in> set (ns_authorised s)")
    case True
    then show ?thesis using run_step by (blast intro: passed_check_append)
  next
    case False
    with authorised_step [OF run_step.hyps(2) run_step.prems(1)]
    have new: "ev = DeleteChecked t" "t \<in> set (ns_spawned s)" "delete_allowed t (ns_node s)" by simp_all
    have "signed_delete N evs t" using spawned_signed [OF run_step.hyps(1) run_step.prems(2) new(2)] .
    with delete_allowed_owner [OF new(3)] run_step.hyps(1) show ?thesis
      unfolding passed_check_def new(1) by (metis append_Nil2)
  qed
qed

lemma owner_gone_explained:
  assumes "node_run N s0 evs s" "ns_spawned s0 = []" "ns_authorised s0 = []"
    and "get_manifest_owner m (ns_node s0) \<noteq> None"
  shows "get_manifest_owner m (ns_node s) = None \<Longrightarrow>
     LocalDelete m \<in> set evs \<or> (\<exists>t. fst t = m \<and> passed_check N s0 evs t)"
  using assms
proof (induction)
  case run_start
  then show ?case by simp
next
  case (run_step evs s ev s')
  show ?case
  proof (cases "get_manifest_owner m (ns_node s) = None")
    case True
    then show ?thesis using run_step passed_check_append by (metis Un_iff set_append)
  next
    case False
    from owner_erased_by [OF run_step.hyps(2) this run_step.prems(1)] show ?thesis
      using authorised_passed [OF run_step.hyps(1) run_step.prems(2,3)] passed_check_append by fastforce
  qed
qed

text \<open>The signer of a request that reaches the deployment is recorded, whatever the engine answers.\<close>

lemma apply_records_signer:
  assumes "verify_envelope_and_check_nonce_for_peer C now peer req (nonces n) = (st, Inr parts)"
    and "r (ve_payload parts) = Some ar" "ap_manifest_json ar = Some mj" "ap_manifest_id ar = Some m" "m \<noteq> []"
    and "snd (has_active_reservation_for_manifest now' m (resource_verifier_of n))"
    and "decrypt_manifest_content L mj = Some (Inr content)" "ve_pubkey parts \<noteq> []"
  shows "get_manifest_owner m (fst (handle_apply_request C r L V env now now' peer req n)) = Some (ve_pubkey parts)"
proof -
  have "has_active_reservation_for_manifest now' m (resource_verifier_of n)
      = (prune_expired_reservations now' (resource_verifier_of n), True)"
    using assms(6) by (metis has_active_state prod.collapse)
  then have "fst (handle_apply_request C r L V env now now' peer req n)
      = fst (process_manifest_deployment L V env ar mj (ve_pubkey parts)
      (n \<lparr> nonces := st, resource_verifier_of := prune_expired_reservations now' (resource_verifier_of n) \<rparr>))"
    by (simp add: handle_apply_request_def admit_apply_request_def Let_def assms(1-5) case_prod_beta)
  then show ?thesis by (simp add: get_manifest_owner_def owner_deployment assms(4,7,8))
qed

section \<open>Properties\<close>

text \<open>
  The record of who owns a manifest disappears from a node, over any interleaving of
  events, only because the node's own REST API deleted the manifest, or because a delete request
  for it, correctly signed with some key, reached the node, and the task spawned for it found
  that key to be the owner's at the time of its check, or carried the force flag.
\<close>

theorem owner_erased_only_if_authorised:
  assumes "node_run N s0 evs s" "ns_spawned s0 = []" "ns_authorised s0 = []"
    and "get_manifest_owner m (ns_node s0) = Some k" "get_manifest_owner m (ns_node s) = None"
    and "LocalDelete m \<notin> set evs"
  shows "\<exists>evs1 evs2 s1 owner force key.
     evs = evs1 @ DeleteChecked (m, force, key) # evs2 \<and> node_run N s0 evs1 s1
     \<and> signed_delete N evs1 (m, force, key)
     \<and> get_manifest_owner m (ns_node s1) = Some owner \<and> (owner = key \<or> force)"
  using owner_gone_explained [OF assms(1-3) _ assms(5)] assms(4,6)
  unfolding passed_check_def by fastforce

text \<open>
  (C32) A delete request by the recorded owner, or with the force flag, succeeds on a node of mock
  engines: no workload of the manifest is left, every other one is, the ids of the removed ones
  are reported, and until an owner is recorded again every delete of the manifest is refused.
\<close>

theorem authorised_delete_effect:
  assumes "runtime_registry_of n = Some reg" "\<forall>(name, e) \<in> set (engines reg). mock_ok e"
    and "get_manifest_owner m n = Some owner" "owner \<noteq> []" "owner = key \<or> force"
  shows "\<exists>n' msg removed. process_delete_request (mock_ops pj y fmt ok now clock) m force key n = (n', True, msg, removed)
    \<and> set removed = wi_id ` snd ` {(name, w) \<in> node_workloads mock_infos n. wi_manifest_id w = m}
    \<and> node_workloads mock_infos n' = {(name, w) \<in> node_workloads mock_infos n. wi_manifest_id w \<noteq> m}
    \<and> \<not> node_providing m n'
    \<and> (\<forall>V' force' key'. process_delete_request V' m force' key' n'
          = (n', False, ''ownership unknown for manifest on this node'', []))"
proof -
  let ?V = "mock_ops pj y fmt ok now clock"
  obtain n' removed where r: "remove_workloads_by_manifest_id ?V m n = (n', Inr removed)"
    and eff: "set removed = wi_id ` snd ` {(name, w) \<in> node_workloads mock_infos n. wi_manifest_id w = m}"
      "node_workloads mock_infos n' = {(name, w) \<in> node_workloads mock_infos n. wi_manifest_id w \<noteq> m}"
      "\<not> node_providing m n'"
    and own: "get_manifest_owner m n' = None"
    using mock_removal [OF assms(1,2), of pj y fmt ok now clock m] by auto
  have "process_delete_request ?V m force key n = remove_and_report ?V m n"
    using assms(3-5) by (auto simp: process_delete_request_def verify_delete_ownership_def)
  then obtain msg where "process_delete_request ?V m force key n = (n', True, msg, removed)"
    by (cases "removed = []") (simp_all add: remove_and_report_def r)
  moreover have "process_delete_request V' m force' key' n'
      = (n', False, ''ownership unknown for manifest on this node'', [])" for V' :: "mock_engine engine_ops" and force' key'
    by (simp add: process_delete_request_def verify_delete_ownership_def own)
  ultimately show ?thesis using eff by blast
qed

text \<open>
  The deletion the REST API runs on its own node asks nobody: on a node of mock engines it
  removes every workload of the manifest and the owner record, whoever the recorded owner is,
  where a delete request of a peer that is neither the owner nor forced changes nothing.
\<close>

theorem local_delete_ignores_owner:
  assumes "runtime_registry_of n = Some reg" "\<forall>(name, e) \<in> set (engines reg). mock_ok e"
    and "get_manifest_owner m n = Some owner" "owner \<noteq> key"
  shows "fst (process_delete_request (mock_ops pj y fmt ok now clock) m False key n) = n
    \<and> (\<exists>n' removed. handle_local_delete (mock_ops pj y fmt ok now clock) m False n = (n', Inr removed)
         \<and> set removed = wi_id ` snd ` {(name, w) \<in> node_workloads mock_infos n. wi_manifest_id w = m}
         \<and> node_workloads mock_infos n' = {(name, w) \<in> node_workloads mock_infos n. wi_manifest_id w \<noteq> m}
         \<and> get_manifest_owner m n' = None)"
proof -
  have "fst (process_delete_request (mock_ops pj y fmt ok now clock) m False key n) = n"
    using assms(3,4) by (simp add: process_delete_request_def verify_delete_ownership_def)
  then show ?thesis
    using mock_removal [OF assms(1,2), of pj y fmt ok now clock m] by (auto simp: handle_local_delete_def)
qed

text \<open>
  (C13) A workload is deployed for a peer only under an active reservation: an apply request that
  changes the engines, the providers or the owners, or that is answered with success or not at
  all, because the node panicked, carries a signed envelope and names a manifest with an active
  reservation. Every other request changes nothing but nonces and expired reservations.
\<close>

theorem apply_needs_reservation:
  assumes "handle_apply_request C r L V env now now' peer req n = (n', resp)"
    and "runtime_registry_of n' \<noteq> runtime_registry_of n \<or> provider_manager_of n' \<noteq> provider_manager_of n
       \<or> manifest_owner_map n' \<noteq> manifest_owner_map n \<or> resp = None
       \<or> (\<exists>answer. resp = Some answer \<and> aresp_ok answer)"
  shows "\<exists>e key sig ar m. fb_root_as_envelope C req = Some e
     \<and> dsa_verify C key (rebuilt_canonical C e) sig = Some True
     \<and> r (or_empty (fe_payload e)) = Some ar \<and> ap_manifest_id ar = Some m \<and> m \<noteq> []
     \<and> snd (has_active_reservation_for_manifest now' m (resource_verifier_of n))
     \<and> (\<forall>m'. m' \<noteq> m \<longrightarrow> get_manifest_owner m' n' = get_manifest_owner m' n)"
proof (cases rule: handle_apply_cases [of C r L V env now now' peer req n])
  case (refused st v)
  then show ?thesis using assms by auto
next
  case (deployed st parts ar mj)
  have "snd (verify_flatbuffer_envelope_for_peer C now NONCE_WINDOW peer req (nonces n)) = Inr parts"
    using deployed(1) by (simp add: verify_envelope_and_check_nonce_for_peer_def)
  from verify_Inr [OF this] obtain e where e: "fb_root_as_envelope C req = Some e"
      "ve_payload parts = or_empty (fe_payload e)"
      "dsa_verify C (ve_pubkey parts) (rebuilt_canonical C e) (ve_signature parts) = Some True"
    by (metis verified_envelope.select_convs(1) verified_parts_def)
  obtain m where m: "ap_manifest_id ar = Some m" using deployed(4) by (cases "ap_manifest_id ar") auto
  have "get_manifest_owner m' n' = get_manifest_owner m' n" if "m' \<noteq> m" for m'
    using deployed(6) assms(1) that m by (auto simp: get_manifest_owner_def owner_deployment split: option.split sum.split)
  then show ?thesis using e deployed(2,4,5) m by (metis or_empty_simps(1))
qed

text \<open>
  Ownership follows the last signed apply request for which a reservation exists: it replaces
  a recorded owner, even when the deployment itself fails, and the former owner can then no longer
  delete the manifest without force.
\<close>

theorem ownership_taken_over:
  assumes "handle_apply_request C r L V env now now' peer req n = (n', resp)"
    and "verify_envelope_and_check_nonce_for_peer C now peer req (nonces n) = (st, Inr parts)"
    and "r (ve_payload parts) = Some ar" "ap_manifest_json ar = Some mj" "ap_manifest_id ar = Some m" "m \<noteq> []"
    and "snd (has_active_reservation_for_manifest now' m (resource_verifier_of n))"
    and "decrypt_manifest_content L mj = Some (Inr content)" "ve_pubkey parts \<noteq> []" "ve_pubkey parts \<noteq> old"
  shows "get_manifest_owner m n' = Some (ve_pubkey parts)
    \<and> process_delete_request V' m False old n' = (n', False, ''ownership verification failed'', [])"
  using apply_records_signer [where r = r, OF assms(2-9), of V env] assms(1,9,10)
  by (simp add: process_delete_request_def verify_delete_ownership_def)

end
