(* ===== verification/Node_Examples.thy ===== *)
theory Node_Examples
  imports Node_Ownership Envelope_Examples
begin

text \<open>
  A concrete node for the properties of theory \<open>Node_Ownership\<close>: one mock engine with a workload
  of manifest \<open>m\<close> and one of manifest \<open>k\<close>, the owner of \<open>m\<close> being the key of the envelope of
  theory \<open>Envelope_Examples\<close>.
\<close>

definition toy_workload :: "string \<Rightarrow> string \<Rightarrow> mock_workload" where
  "toy_workload i m = \<lparr> mw_info = \<lparr> wi_id = i, wi_manifest_id = m, wi_status = Running, wi_metadata = hm_empty,
     wi_created_at = 0, wi_updated_at = 0, wi_ports = [] \<rparr>, mw_config = default_deployment_config \<rparr>"

definition toy_engine :: mock_engine where
  "toy_engine = \<lparr> me_workloads = [(''w1'', toy_workload ''w1'' ''m''), (''w2'', toy_workload ''w2'' ''k'')],
     me_config = mock_config_default \<rparr>"

definition toy_registry :: "mock_engine runtime_registry" where
  "toy_registry = \<lparr> engines = [(''mock'', toy_engine)], default_engine = Some ''mock'' \<rparr>"

definition toy_reservation :: capacity_reservation where
  "toy_reservation = \<lparr> cr_cpu_milli = 1, cr_memory_bytes = 1, cr_storage_bytes = 1, cr_manifest_id = Some ''m'',
     cr_expires_at = 100 \<rparr>"

definition toy_node :: "bytes \<Rightarrow> mock_engine node" where
  "toy_node owner = \<lparr> runtime_registry_of = Some toy_registry,
     provider_manager_of = Some provider_manager_new_default,
     resource_verifier_of = verifier_new \<lparr> reservations := [(''r'', toy_reservation)] \<rparr>,
     manifest_owner_map = [(''m'', owner)], nonces = hm_empty \<rparr>"

definition toy_ops :: "mock_engine engine_ops" where
  "toy_ops = mock_ops (\<lambda>_. None) (\<lambda>_. True) (\<lambda>_. []) True 0 (\<lambda>_. 0)"

definition toy_delete :: delete_request where
  "toy_delete = \<lparr> del_manifest_id = Some ''m'', del_operation_id = None, del_force = False \<rparr>"

definition toy_node_lib :: node_lib where
  "toy_node_lib = \<lparr> nl_crypto = toy_lib,
     nl_delete_request = (\<lambda>b. if b = [1, 2, 3] then Some toy_delete else None),
     nl_apply_request = (\<lambda>_. None), nl_manifest = toy_yaml \<rparr>"

lemma toy_engine_ok: "mock_ok toy_engine"
  by (auto simp: mock_ok_def toy_engine_def toy_workload_def hm_wf_def hm_get_def split: if_splits)

lemma toy_node_parts [simp]:
  "runtime_registry_of (toy_node k) = Some toy_registry" "get_manifest_owner ''m'' (toy_node k) = Some k"
  "nonces (toy_node k) = hm_empty"
  by (simp_all add: toy_node_def get_manifest_owner_def hm_get_def)

lemma toy_node_ok: "\<forall>(name, e) \<in> set (engines toy_registry). mock_ok e"
  by (simp add: toy_registry_def toy_engine_ok)

lemma toy_node_workloads:
  "node_workloads mock_infos (toy_node k)
     = {(''mock'', mw_info (toy_workload ''w1'' ''m'')), (''mock'', mw_info (toy_workload ''w2'' ''k''))}"
  by (auto simp: node_workloads_def toy_registry_def mock_infos_def toy_engine_def hm_values_def)

lemma toy_workload_ids [simp]:
  "wi_id (mw_info (toy_workload i m)) = i" "wi_manifest_id (mw_info (toy_workload i m)) = m"
  by (simp_all add: toy_workload_def)

theorem authorised_delete_effect_witness:
  "\<exists>n' msg removed. process_delete_request toy_ops ''m'' False [7] (toy_node [7]) = (n', True, msg, removed)
     \<and> set removed = {''w1''}
     \<and> node_workloads mock_infos n' = {(''mock'', mw_info (toy_workload ''w2'' ''k''))}"
proof -
  have m: "{(name, w) \<in> node_workloads mock_infos (toy_node k). wi_manifest_id w = ''m''}
      = {(''mock'', mw_info (toy_workload ''w1'' ''m''))}"
    and k: "{(name, w) \<in> node_workloads mock_infos (toy_node k). wi_manifest_id w \<noteq> ''m''}
      = {(''mock'', mw_info (toy_workload ''w2'' ''k''))}" for k
    unfolding toy_node_workloads by auto
  have "([7] :: bytes) \<noteq> [] \<and> (([7] :: bytes) = [7] \<or> False)" by simp
  from authorised_delete_effect [OF toy_node_parts(1) toy_node_ok toy_node_parts(2) conjunct1 [OF this]
      conjunct2 [OF this], where pj = "\<lambda>_. None" and y = "\<lambda>_. True" and fmt = "\<lambda>_. []" and ok = True and now = 0
      and clock = "\<lambda>_. 0", folded toy_ops_def]
  show ?thesis unfolding m k by auto
qed

theorem local_delete_ignores_owner_witness:
  "fst (process_delete_request toy_ops ''m'' False [8] (toy_node [7])) = toy_node [7]
    \<and> (\<exists>n' removed. handle_local_delete toy_ops ''m'' False (toy_node [7]) = (n', Inr removed)
         \<and> get_manifest_owner ''m'' n' = None)"
proof -
  have "([7] :: bytes) \<noteq> [8]" by simp
  from local_delete_ignores_owner [OF toy_node_parts(1) toy_node_ok toy_node_parts(2) this]
  show ?thesis unfolding toy_ops_def by blast
qed

section \<open>A run of the node\<close>

lemma toy_verified:
  "\<exists>st v. verify_signed_message toy_lib 10 ''peerA'' (se_bytes toy_signed) hm_empty = (st, Some v)
     \<and> ve_payload v = [1, 2, 3] \<and> ve_pubkey v = [7]"
  by (simp add: toy_eval verify_signed_message_def verify_signed_payload_for_peer_def
      verify_envelope_and_check_nonce_for_peer_def)

definition toy_start :: "mock_engine node_state" where
  "toy_start = \<lparr> ns_node = toy_node [7], ns_spawned = [], ns_authorised = [] \<rparr>"

lemma toy_run:
  "\<exists>s. node_run toy_node_lib toy_start
         [DeleteRequest 10 ''peerA'' (se_bytes toy_signed), DeleteChecked (''m'', False, [7]),
          DeleteRemoved (''m'', False, [7])] s
       \<and> get_manifest_owner ''m'' (ns_node s) = None"
proof -
  let ?t = "(''m'', False, [7]) :: delete_task" and ?req = "DeleteRequest 10 ''peerA'' (se_bytes toy_signed)"
  obtain st v where v: "verify_signed_message toy_lib 10 ''peerA'' (se_bytes toy_signed) hm_empty = (st, Some v)"
      "ve_payload v = [1, 2, 3]" "ve_pubkey v = [7]"
    using toy_verified by blast
  define n1 where "n1 = toy_node [7] \<lparr> nonces := st \<rparr>"
  obtain resp where dm: "delete_message (nl_crypto toy_node_lib) (nl_delete_request toy_node_lib) 10 ''peerA''
      (se_bytes toy_signed) (ns_node toy_start) = (n1, resp, Some ?t)"
    by (simp add: delete_message_def toy_node_lib_def toy_start_def v toy_delete_def n1_def)
  define s1 where "s1 = toy_start \<lparr> ns_node := n1, ns_spawned := [?t] \<rparr>"
  define s2 where "s2 = s1 \<lparr> ns_spawned := [], ns_authorised := [?t] \<rparr>"
  define s3 where "s3 = s2 \<lparr> ns_node := fst (remove_and_report toy_ops ''m'' n1), ns_authorised := [] \<rparr>"
  have own: "get_manifest_owner ''m'' n1 = Some [7]" by (simp add: n1_def get_manifest_owner_def toy_node_def hm_get_def)
  have st1: "node_step toy_node_lib ?req toy_start s1"
    using step_delete_request [OF dm] by (simp add: s1_def toy_start_def)
  have st2: "node_step toy_node_lib (DeleteChecked ?t) s1 s2"
    using step_delete_checked [of ?t s1 toy_node_lib] own
    by (simp add: s1_def s2_def toy_start_def delete_allowed_def verify_delete_ownership_def)
  have st3: "node_step toy_node_lib (DeleteRemoved ?t) s2 s3"
    using step_delete_removed [of ?t s2 toy_node_lib toy_ops] by (simp add: s2_def s3_def s1_def)
  have "node_run toy_node_lib toy_start ((([] @ [?req]) @ [DeleteChecked ?t]) @ [DeleteRemoved ?t]) s3"
    by (rule run_step [OF run_step [OF run_step [OF run_start st1] st2] st3])
  moreover have "runtime_registry_of n1 = Some toy_registry" by (simp add: n1_def)
  from mock_removal [OF this toy_node_ok, of "\<lambda>_. None" "\<lambda>_. True" "\<lambda>_. []" True 0 "\<lambda>_. 0" "''m''"]
  obtain n' removed where "remove_workloads_by_manifest_id toy_ops ''m'' n1 = (n', Inr removed)"
      "get_manifest_owner ''m'' n' = None"
    unfolding toy_ops_def by auto
  then have "get_manifest_owner ''m'' (ns_node s3) = None"
    by (simp add: s3_def fst_remove_and_report)
  ultimately show ?thesis by auto
qed

theorem owner_erased_only_if_authorised_witness:
  "\<exists>evs1 evs2 s1 owner force key.
     [DeleteRequest 10 ''peerA'' (se_bytes toy_signed), DeleteChecked (''m'', False, [7]),
      DeleteRemoved (''m'', False, [7])] = evs1 @ DeleteChecked (''m'', force, key) # evs2
     \<and> node_run toy_node_lib toy_start evs1 s1 \<and> signed_delete toy_node_lib evs1 (''m'', force, key)
     \<and> get_manifest_owner ''m'' (ns_node s1) = Some owner \<and> (owner = key \<or> force)"
proof -
  obtain s where "node_run toy_node_lib toy_start
         [DeleteRequest 10 ''peerA'' (se_bytes toy_signed), DeleteChecked (''m'', False, [7]),
          DeleteRemoved (''m'', False, [7])] s" "get_manifest_owner ''m'' (ns_node s) = None"
    using toy_run by blast
  then show ?thesis
    by (intro owner_erased_only_if_authorised [where k = "[7]"]) (simp_all add: toy_start_def)
qed

section \<open>An apply request\<close>

text \<open>The signed payload as an apply request; its manifest is the text of an envelope of another type.\<close>

definition toy_apply :: apply_request where
  "toy_apply = \<lparr> ap_replicas = 1, ap_operation_id = None, ap_manifest_json = Some ''a'', ap_origin_peer = None,
     ap_manifest_id = Some ''m'' \<rparr>"

definition toy_plain :: manifest_lib where
  "toy_plain = toy_yaml \<lparr> ml_root_as_envelope := (\<lambda>_. Inr \<lparr> fe_payload = None, fe_payload_type = None,
     fe_nonce = None, fe_ts = 0, fe_alg = None, fe_sig = None, fe_pubkey = None, fe_kem_pubkey = None,
     fe_peer_id = None \<rparr>) \<rparr>"

definition toy_env :: apply_env where
  "toy_env = \<lparr> ae_profile = Debug, ae_start_providing = (\<lambda>_. Inr ()), ae_announce1 = 0, ae_announce2 = 0,
     ae_local_peer = ''peerB'' \<rparr>"

definition toy_handle :: "bytes \<Rightarrow> mock_engine node \<times> apply_response option" where
  "toy_handle req = handle_apply_request toy_lib (\<lambda>b. if b = [1, 2, 3] then Some toy_apply else None) toy_plain
     toy_ops toy_env 10 20 ''peerA'' req (toy_node [9])"

lemma toy_apply_verified:
  "\<exists>st parts. verify_envelope_and_check_nonce_for_peer toy_lib 10 ''peerA'' (se_bytes toy_signed)
       (nonces (toy_node [9])) = (st, Inr parts) \<and> ve_payload parts = [1, 2, 3] \<and> ve_pubkey parts = [7]"
  by (simp add: toy_eval verify_envelope_and_check_nonce_for_peer_def)

lemma toy_reserved: "snd (has_active_reservation_for_manifest 20 ''m'' (resource_verifier_of (toy_node k)))"
  by (simp add: has_active_reservation_for_manifest_def prune_expired_reservations_def Let_def toy_node_def
      toy_reservation_def hm_retain_def hm_values_def)

lemma toy_decrypts: "decrypt_manifest_content toy_plain ''a'' = Some (Inr (bytes_of_string ''a''))"
  by (simp add: decrypt_manifest_content_def toy_plain_def toy_yaml_def)

theorem ownership_taken_over_witness:
  "get_manifest_owner ''m'' (fst (toy_handle (se_bytes toy_signed))) = Some [7]
   \<and> process_delete_request toy_ops ''m'' False [9] (fst (toy_handle (se_bytes toy_signed)))
       = (fst (toy_handle (se_bytes toy_signed)), False, ''ownership verification failed'', [])"
proof -
  obtain st parts where v: "verify_envelope_and_check_nonce_for_peer toy_lib 10 ''peerA'' (se_bytes toy_signed)
       (nonces (toy_node [9])) = (st, Inr parts)" "ve_payload parts = [1, 2, 3]" "ve_pubkey parts = [7]"
    using toy_apply_verified by blast
  have "get_manifest_owner ''m'' (fst (toy_handle (se_bytes toy_signed))) = Some (ve_pubkey parts)
   \<and> process_delete_request toy_ops ''m'' False [9] (fst (toy_handle (se_bytes toy_signed)))
       = (fst (toy_handle (se_bytes toy_signed)), False, ''ownership verification failed'', [])"
    by (rule ownership_taken_over [OF _ v(1) _ _ _ _ toy_reserved toy_decrypts, where ar = toy_apply
          and r = "\<lambda>b. if b = [1, 2, 3] then Some toy_apply else None" and V = toy_ops and env = toy_env
          and resp = "snd (toy_handle (se_bytes toy_signed))"])
      (simp_all add: v(2,3) toy_apply_def toy_handle_def)
  then show ?thesis unfolding v(3) .
qed

lemma toy_owner_changed:
  "manifest_owner_map (fst (toy_handle (se_bytes toy_signed))) \<noteq> manifest_owner_map (toy_node [9])"
proof -
  obtain st parts where v: "verify_envelope_and_check_nonce_for_peer toy_lib 10 ''peerA'' (se_bytes toy_signed)
       (nonces (toy_node [9])) = (st, Inr parts)" "ve_payload parts = [1, 2, 3]" "ve_pubkey parts = [7]"
    using toy_apply_verified by blast
  have "get_manifest_owner ''m'' (fst (toy_handle (se_bytes toy_signed))) = Some (ve_pubkey parts)"
    unfolding toy_handle_def
    by (rule apply_records_signer [OF v(1) _ _ _ _ toy_reserved toy_decrypts, where ar = toy_apply])
      (simp_all add: v(2,3) toy_apply_def)
  then have "get_manifest_owner ''m'' (fst (toy_handle (se_bytes toy_signed))) \<noteq> get_manifest_owner ''m'' (toy_node [9])"
    unfolding v(3) by simp
  then show ?thesis by (auto simp: get_manifest_owner_def)
qed

theorem apply_needs_reservation_witness:
  "\<exists>e key sig (ar :: apply_request) m. fb_root_as_envelope toy_lib (se_bytes toy_signed) = Some e
     \<and> dsa_verify toy_lib key (rebuilt_canonical toy_lib e) sig = Some True
     \<and> ap_manifest_id ar = Some m
     \<and> snd (has_active_reservation_for_manifest 20 m (resource_verifier_of (toy_node [9])))"
proof -
  have "handle_apply_request toy_lib (\<lambda>b. if b = [1, 2, 3] then Some toy_apply else None) toy_plain
     toy_ops toy_env 10 20 ''peerA'' (se_bytes toy_signed) (toy_node [9])
     = (fst (toy_handle (se_bytes toy_signed)), snd (toy_handle (se_bytes toy_signed)))"
    by (simp add: toy_handle_def)
  note applied = apply_needs_reservation [OF this disjI2 [OF disjI2 [OF disjI1 [OF toy_owner_changed]]]]
  from applied obtain e key sig and ar :: apply_request and m where "fb_root_as_envelope toy_lib (se_bytes toy_signed) = Some e"
      "dsa_verify toy_lib key (rebuilt_canonical toy_lib e) sig = Some True" "ap_manifest_id ar = Some m"
      "snd (has_active_reservation_for_manifest 20 m (resource_verifier_of (toy_node [9])))"
    by (elim exE conjE) (rule that)
  then show ?thesis by (intro exI conjI)
qed

end
