(* ===== verification/Accounting.thy ===== *)
theory Accounting
  imports Resource_Verifier Mock_Engine
begin

text \<open>
  What the resource verifier learns from a running engine. \<open>update_allocated_resources\<close> reads the
  metadata keys \<open>cpu_milli\<close>, \<open>memory_bytes\<close> and \<open>storage_bytes\<close> of every listed workload; the
  engines write \<open>kind\<close>, \<open>apiVersion\<close>, \<open>name\<close>, \<open>namespace\<close> and \<open>local_peer_id\<close>.
\<close>

inductive mock_reach :: "mock_engine \<Rightarrow> bool" where
  reach_new: "mock_reach (mock_with_config cfg)"
| reach_deploy: "mock_reach e \<Longrightarrow> mock_reach (fst (mock_deploy_workload pj y ok now m c cfg e))"
| reach_deploy_peer: "mock_reach e \<Longrightarrow> mock_reach (fst (mock_deploy_workload_with_peer pj ok now m c cfg p e))"
| reach_remove: "mock_reach e \<Longrightarrow> mock_reach (fst (mock_remove_workload i e))"
| reach_clear: "mock_reach e \<Longrightarrow> mock_reach (clear_workloads e)"

definition engine_keys :: "string set" where
  "engine_keys = {''kind'', ''apiVersion'', ''name'', ''namespace'', ''local_peer_id''}"

definition keys_within :: "(string, string) hmap \<Rightarrow> bool" where
  "keys_within m \<longleftrightarrow> (\<forall>k. hm_get m k \<noteq> None \<longrightarrow> k \<in> engine_keys)"

lemma keys_within_empty [simp]: "keys_within hm_empty"
  by (simp add: keys_within_def)

lemma keys_within_insert [simp]: "keys_within m \<Longrightarrow> k \<in> engine_keys \<Longrightarrow> keys_within (hm_insert k v m)"
  by (simp add: keys_within_def)

lemma keys_within_put_opt [simp]: "keys_within m \<Longrightarrow> k \<in> engine_keys \<Longrightarrow> keys_within (put_opt k v m)"
  by (simp add: put_opt_def split: option.split)

lemma engine_keys_mem [simp]:
  "''kind'' \<in> engine_keys" "''apiVersion'' \<in> engine_keys" "''name'' \<in> engine_keys"
  "''namespace'' \<in> engine_keys" "''local_peer_id'' \<in> engine_keys"
  by (simp_all add: engine_keys_def)

lemma keys_within_line: "keys_within m \<Longrightarrow> keys_within (metadata_of_line l m)"
  by (simp add: metadata_of_line_def Let_def split: list.split)

lemma keys_within_metadata: "keys_within (parse_manifest_metadata pj c)"
proof -
  have lines: "keys_within m \<Longrightarrow> keys_within (fold metadata_of_line ls m)" for ls m
    by (induction ls arbitrary: m) (simp_all add: keys_within_line)
  show ?thesis
    by (simp add: parse_manifest_metadata_def metadata_of_json_def Let_def lines split: option.split)
qed

lemma mock_reach_metadata:
  "mock_reach e \<Longrightarrow> hm_get (me_workloads e) i = Some w \<Longrightarrow> keys_within (wi_metadata (mw_info w))"
proof (induction arbitrary: i w rule: mock_reach.induct)
  case (reach_deploy e pj y ok now m c cfg)
  then show ?case
    by (auto simp: mock_deploy_workload_def Let_def keys_within_metadata split: sum.splits if_splits)
next
  case (reach_deploy_peer e pj ok now m c cfg p)
  then show ?case
    by (auto simp: mock_deploy_workload_with_peer_def Let_def keys_within_metadata split: if_splits)
next
  case (reach_remove e j)
  then show ?case by (auto simp: mock_remove_workload_def split: option.splits if_splits)
qed (simp_all add: mock_with_config_def clear_workloads_def)

lemma mock_reach_ok: "mock_reach e \<Longrightarrow> mock_ok e"
  by (induction rule: mock_reach.induct)
    (simp_all add: mock_ok_deploy mock_ok_deploy_with_peer mock_ok_remove mock_ok_clear,
     simp add: mock_ok_def mock_with_config_def)

lemma tally_without_keys:
  assumes "\<forall>w \<in> set ws. keys_within (wi_metadata w)" "unat cnt + length ws < 2 ^ 32"
  shows "tally_workloads prof ws (cpu, mem, sto, cnt) = Some (cpu, mem, sto, cnt + of_nat (length ws))"
  using assms
proof (induction ws arbitrary: cnt)
  case (Cons w ws)
  have none: "hm_get (wi_metadata w) ''cpu_milli'' = None" "hm_get (wi_metadata w) ''memory_bytes'' = None"
      "hm_get (wi_metadata w) ''storage_bytes'' = None"
    using Cons.prems(1) by (auto simp: keys_within_def engine_keys_def)
  have "unat cnt + unat (1 :: u32) < 2 ^ 32" using Cons.prems(2) by simp
  then have cnt: "add_u prof cnt 1 = Some (cnt + 1)" "unat (cnt + 1) = unat cnt + 1"
    by (simp_all add: add_u_small unat_word_ariths)
  with Cons show ?case by (simp add: add_parsed_def none ac_simps)
qed simp

section \<open>Property\<close>

text \<open>
  In every state a mock engine can reach, an update of the resource verifier from its
  workload list counts the workloads but finds nothing allocated: the processor, memory and
  storage that running workloads use never reduce what the node offers.
\<close>

theorem mock_workloads_not_accounted:
  assumes "mock_reach e" "workload_count e < 2 ^ 32"
  shows "update_allocated_resources prof (Some (Some (mock_list_workloads clock e))) r
    = Some (r \<lparr> allocated_cpu_milli := 0, allocated_memory_bytes := 0, allocated_storage_bytes := 0,
               running_workloads := of_nat (workload_count e) \<rparr>)"
proof -
  obtain ws where ws: "mock_list_workloads clock e = Inr ws" by (simp add: mock_list_workloads_def)
  have len: "length ws = workload_count e"
    using ws by (auto simp: mock_list_workloads_def workload_count_def hm_values_def)
  have "\<forall>w \<in> set ws. keys_within (wi_metadata w)"
  proof
    fix w assume "w \<in> set ws"
    then obtain v t where v: "v \<in> set (hm_values (me_workloads e))" "w = (mw_info v) \<lparr> wi_updated_at := t \<rparr>"
      using ws by (auto simp: mock_list_workloads_def in_set_enumerate_eq) (use nth_mem in blast)
    moreover have "hm_wf (me_workloads e)" using mock_reach_ok [OF assms(1)] by (simp add: mock_ok_def)
    ultimately show "keys_within (wi_metadata w)"
      using mock_reach_metadata [OF assms(1)] set_hm_values by fastforce
  qed
  from tally_without_keys [OF this, of 0 prof 0 0 0] show ?thesis
    using assms(2) len by (simp add: update_allocated_resources_def ws)
qed

definition one_workload :: mock_engine where
  "one_workload =
     fst (mock_deploy_workload (\<lambda>_. None) (\<lambda>_. True) True 7 ''m'' [110] default_deployment_config mock_new)"

theorem mock_workloads_not_accounted_witness:
  "update_allocated_resources Debug (Some (Some (mock_list_workloads (\<lambda>_. 9) one_workload)))
      (system_resources_of verifier_new)
     = Some ((system_resources_of verifier_new) \<lparr> allocated_cpu_milli := 0, allocated_memory_bytes := 0,
          allocated_storage_bytes := 0, running_workloads := 1 \<rparr>)"
proof -
  have "mock_reach one_workload"
    unfolding one_workload_def mock_new_def by (intro reach_deploy reach_new)
  moreover have count: "workload_count one_workload = 1"
    by code_simp
  ultimately show ?thesis
    using mock_workloads_not_accounted [of one_workload Debug "\<lambda>_. 9" "system_resources_of verifier_new"] by simp
qed

end
