(* ===== verification/Capacity.thy ===== *)
theory Capacity
  imports Resource_Verifier Envelope
begin

text \<open>
  The negotiation of capacity between nodes (\<open>libp2p_beemesh\<close>: \<open>behaviour/scheduler_message.rs\<close>,
  \<open>behaviour/gossipsub_message.rs\<close>, \<open>control/query_capacity.rs\<close>, \<open>capacity.rs\<close>, \<open>reply.rs\<close>,
  \<open>utils.rs\<close>) and the byte codec of the request-response protocols
  (\<open>request_response_codec.rs\<close>). A capacity request is verified, checked against the ledger of
  the resource verifier and, if it fits, reserved and answered with a bid. The channels of waiting
  queries are numbers; what is sent to them is recorded in order.

  FlatBuffers readers are arguments, and so is the node's KEM key. A panic of the check or of the
  reservation is caught by the thread that runs it, as in the source.
\<close>

section \<open>Requests and replies\<close>

definition FREE_CAPACITY_PREFIX :: string where
  "FREE_CAPACITY_PREFIX = ''beemesh-free-capacity''"

definition FREE_CAPACITY_TIMEOUT_MS :: u64 where
  "FREE_CAPACITY_TIMEOUT_MS = 500"

record capacity_request =
  cq_request_id :: "string option"
  cq_cpu_milli :: u32
  cq_memory_bytes :: u64
  cq_storage_bytes :: u64
  cq_replicas :: u32

record capacity_reply_params =
  cp_ok :: bool
  cp_cpu_milli :: u32
  cp_memory_bytes :: u64
  cp_storage_bytes :: u64
  cp_request_id :: string
  cp_responder_peer :: string
  cp_region :: string
  cp_capabilities :: "string list"

text \<open>The reply as it is built: the parameters and the KEM key, if the node has one.\<close>

record capacity_reply =
  rp_params :: capacity_reply_params
  rp_kem_pub_b64 :: "string option"

definition baseline_capacity_params :: "string \<Rightarrow> string \<Rightarrow> capacity_reply_params" where
  "baseline_capacity_params request_id responder_peer =
     \<lparr> cp_ok = True, cp_cpu_milli = 1000, cp_memory_bytes = 1024 * 1024 * 512,
       cp_storage_bytes = 1024 * 1024 * 1024, cp_request_id = request_id,
       cp_responder_peer = responder_peer, cp_region = ''local'', cp_capabilities = [''default''] \<rparr>"

definition build_capacity_reply :: "string option \<Rightarrow> capacity_reply_params \<Rightarrow> capacity_reply" where
  "build_capacity_reply kem params = \<lparr> rp_params = params, rp_kem_pub_b64 = kem \<rparr>"

definition build_capacity_reply_with ::
  "string option \<Rightarrow> string \<Rightarrow> string \<Rightarrow> (capacity_reply_params \<Rightarrow> capacity_reply_params) \<Rightarrow> capacity_reply" where
  "build_capacity_reply_with kem request_id responder_peer adjust =
     build_capacity_reply kem (adjust (baseline_capacity_params request_id responder_peer))"

definition compose_capacity_reply ::
  "string option \<Rightarrow> string \<Rightarrow> string \<Rightarrow> (capacity_reply_params \<Rightarrow> capacity_reply_params) \<Rightarrow> capacity_reply" where
  "compose_capacity_reply kem request_id responder_peer adjust =
     build_capacity_reply_with kem request_id responder_peer adjust"

definition compose_default_capacity_reply :: "string option \<Rightarrow> string \<Rightarrow> string \<Rightarrow> capacity_reply" where
  "compose_default_capacity_reply kem request_id responder_peer =
     compose_capacity_reply kem request_id responder_peer (\<lambda>params. params)"

definition extract_manifest_id_from_request_id :: "string \<Rightarrow> string option" where
  "extract_manifest_id_from_request_id request_id =
     (let current = (case split_char (CHR '':'') request_id of
                       prefix # manifest # _ \<Rightarrow>
                         if prefix = FREE_CAPACITY_PREFIX \<and> manifest \<noteq> [] then Some manifest else None
                     | _ \<Rightarrow> None) in
      if current \<noteq> None then current
      else if starts_with request_id FREE_CAPACITY_PREFIX
      then (case split_char (CHR ''-'') request_id of
              _ # part # _ \<Rightarrow> if part \<noteq> [] then Some part else None
            | _ \<Rightarrow> None)
      else None)"

section \<open>The node\<close>

record capacity_node =
  cn_verifier :: resource_verifier
  cn_nonces :: nonce_store
  cn_pending :: "(string, nat list) hmap"
  cn_sent :: "(nat \<times> string) list"

record capacity_env =
  ce_profile :: profile
  ce_now_nonce :: instant
  ce_now_ms :: u64
  ce_check :: instant
  ce_prune :: instant
  ce_reserve :: instant
  ce_kem :: "string option"
  ce_local_peer :: string
  ce_disabled :: bool

definition notify_capacity_observers :: "string \<Rightarrow> string \<Rightarrow> capacity_node \<Rightarrow> capacity_node" where
  "notify_capacity_observers request_id payload n =
     (case hm_get (cn_pending n) request_id of
        None \<Rightarrow> n
      | Some senders \<Rightarrow> n \<lparr> cn_sent := cn_sent n @ map (\<lambda>tx. (tx, payload)) senders \<rparr>)"

definition stale :: "capacity_env \<Rightarrow> u64 \<Rightarrow> bool" where
  "stale env timestamp_ms \<longleftrightarrow> saturating_sub (ce_now_ms env) timestamp_ms > FREE_CAPACITY_TIMEOUT_MS"

definition request_of :: "capacity_request \<Rightarrow> resource_request" where
  "request_of q =
     resource_request_new (Some (cq_cpu_milli q)) (Some (cq_memory_bytes q)) (Some (cq_storage_bytes q))
       (cq_replicas q)"

text \<open>The check and the reservation; \<^const>\<open>None\<close> where the handler returns without a bid.\<close>

definition check_and_reserve ::
  "capacity_env \<Rightarrow> string \<Rightarrow> string \<Rightarrow> resource_request \<Rightarrow> resource_verifier
     \<Rightarrow> resource_verifier \<times> capacity_check_result option" where
  "check_and_reserve env request_id manifest_id q v =
     (case verify_capacity (ce_profile env) (ce_check env) q v of
        (v, None) \<Rightarrow> (v, None)
      | (v, Some check_result) \<Rightarrow>
          if \<not> has_capacity check_result then (v, None)
          else
            (case reserve_capacity (ce_profile env) (ce_prune env) (ce_reserve env) request_id
                    (Some manifest_id) q v of
               (v, Some (Inr _)) \<Rightarrow> (v, Some check_result)
             | (v, Some (Inl _)) \<Rightarrow> (v, None)
             | (v, None) \<Rightarrow> (v, None)))"

definition bid ::
  "capacity_env \<Rightarrow> string \<Rightarrow> capacity_check_result \<Rightarrow> capacity_reply" where
  "bid env request_id check_result =
     compose_capacity_reply (ce_kem env) request_id (ce_local_peer env)
       (\<lambda>params. params \<lparr> cp_ok := True, cp_cpu_milli := cr_available_cpu_milli check_result,
          cp_memory_bytes := cr_available_memory_bytes check_result,
          cp_storage_bytes := cr_available_storage_bytes check_result \<rparr>)"

text \<open>A capacity request that is parsed: the part the two handlers share.\<close>

definition answer_capacity_request ::
  "capacity_env \<Rightarrow> u64 \<Rightarrow> capacity_request \<Rightarrow> capacity_node \<Rightarrow> capacity_node \<times> capacity_reply option" where
  "answer_capacity_request env timestamp_ms cap_req n =
     (let orig_request_id = or_empty (cq_request_id cap_req) in
      if stale env timestamp_ms then (n, None)
      else
        (case extract_manifest_id_from_request_id orig_request_id of
           None \<Rightarrow> (n, None)
         | Some manifest_id \<Rightarrow>
             (case check_and_reserve env orig_request_id manifest_id (request_of cap_req) (cn_verifier n) of
                (v, None) \<Rightarrow> (n \<lparr> cn_verifier := v \<rparr>, None)
              | (v, Some check_result) \<Rightarrow>
                  (n \<lparr> cn_verifier := v \<rparr>, Some (bid env orig_request_id check_result)))))"

text \<open>\<open>scheduler_message\<close>: the answer, if one is sent, and the response branch.\<close>

definition scheduler_request ::
  "crypto_lib \<Rightarrow> (bytes \<Rightarrow> capacity_request option) \<Rightarrow> capacity_env \<Rightarrow> string \<Rightarrow> bytes \<Rightarrow> capacity_node
     \<Rightarrow> capacity_node \<times> capacity_reply option" where
  "scheduler_request L root_as_capacity_request env peer request n =
     (if ce_disabled env then (n, None)
      else
        (case verify_signed_message L (ce_now_nonce env) peer request (cn_nonces n) of
           (st, None) \<Rightarrow> (n \<lparr> cn_nonces := st \<rparr>, None)
         | (st, Some verified) \<Rightarrow>
             (case root_as_capacity_request (ve_payload verified) of
                None \<Rightarrow> (n \<lparr> cn_nonces := st \<rparr>, None)
              | Some cap_req \<Rightarrow>
                  answer_capacity_request env (ve_timestamp_ms verified) cap_req (n \<lparr> cn_nonces := st \<rparr>))))"

definition scheduler_response ::
  "(bytes \<Rightarrow> (string option \<times> string option) option) \<Rightarrow> string \<Rightarrow> bytes \<Rightarrow> capacity_node \<Rightarrow> capacity_node" where
  "scheduler_response root_as_capacity_reply peer response n =
     (case root_as_capacity_reply response of
        None \<Rightarrow> n
      | Some (request_id, kem_pubkey) \<Rightarrow>
          notify_capacity_observers (or_empty request_id) (peer @ '':'' @ or_empty kem_pubkey) n)"

text \<open>\<open>gossipsub_message\<close>; the reply is what is signed and published.\<close>

definition gossipsub_message ::
  "crypto_lib \<Rightarrow> (bytes \<Rightarrow> capacity_request option) \<Rightarrow> (bytes \<Rightarrow> (string option \<times> string option) option)
     \<Rightarrow> capacity_env \<Rightarrow> string \<Rightarrow> bytes \<Rightarrow> capacity_node \<Rightarrow> capacity_node \<times> capacity_reply option" where
  "gossipsub_message L root_as_capacity_request root_as_capacity_reply env peer message n =
     (case verify_signed_message L (ce_now_nonce env) peer message (cn_nonces n) of
        (st, None) \<Rightarrow> (n \<lparr> cn_nonces := st \<rparr>, None)
      | (st, Some verified) \<Rightarrow>
          (case root_as_capacity_request (ve_payload verified) of
             Some cap_req \<Rightarrow>
               answer_capacity_request env (ve_timestamp_ms verified) cap_req (n \<lparr> cn_nonces := st \<rparr>)
           | None \<Rightarrow>
               (case root_as_capacity_reply (ve_payload verified) of
                  None \<Rightarrow> (n \<lparr> cn_nonces := st \<rparr>, None)
                | Some (request_id, _) \<Rightarrow>
                    (notify_capacity_observers (or_empty request_id) peer (n \<lparr> cn_nonces := st \<rparr>), None))))"

text \<open>
  \<open>handle_query_capacity_with_payload\<close>; the request that goes out is the given one under the
  query's id, and \<open>broadcast_ok\<close> says whether the keys for its signature could be loaded.
\<close>

definition query_capacity ::
  "(bytes \<Rightarrow> capacity_request option) \<Rightarrow> capacity_env \<Rightarrow> bool \<Rightarrow> string \<Rightarrow> nat \<Rightarrow> bytes \<Rightarrow> capacity_node
     \<Rightarrow> capacity_node \<times> capacity_request option" where
  "query_capacity root_as_capacity_request env broadcast_ok request_id reply_tx payload n =
     (let senders = (case hm_get (cn_pending n) request_id of Some s \<Rightarrow> s | None \<Rightarrow> []);
          n = n \<lparr> cn_pending := hm_insert request_id (senders @ [reply_tx]) (cn_pending n) \<rparr> in
      case root_as_capacity_request payload of
        None \<Rightarrow> (n, None)
      | Some cap_req \<Rightarrow>
          (let out = cap_req \<lparr> cq_request_id := Some request_id \<rparr> in
           if \<not> broadcast_ok then (n, None)
           else if ce_disabled env then (n, Some out)
           else
             (let reply = compose_capacity_reply (ce_kem env) request_id (ce_local_peer env)
                    (\<lambda>params. params \<lparr> cp_cpu_milli := cq_cpu_milli cap_req,
                       cp_memory_bytes := cq_memory_bytes cap_req,
                       cp_storage_bytes := cq_storage_bytes cap_req \<rparr>);
                  local_response = ce_local_peer env @ '':'' @ or_empty (rp_kem_pub_b64 reply) in
              (notify_capacity_observers request_id local_response n, Some out))))"

section \<open>Candidates\<close>

text \<open>
  \<open>get_candidates\<close> in \<open>restapi/mod.rs\<close>: the id of the query, the loop over the responses that
  arrive in time, and the candidates read from them.
\<close>

definition candidates_request_id :: "string \<Rightarrow> string \<Rightarrow> string" where
  "candidates_request_id task_id uuid = FREE_CAPACITY_PREFIX @ '':'' @ task_id @ '':'' @ uuid"

fun collect_responders :: "string list \<Rightarrow> string list \<Rightarrow> string list" where
  "collect_responders responders [] = responders"
| "collect_responders responders (peer # rest) =
     (if peer \<in> set responders then collect_responders responders rest
      else
        (let responders = responders @ [peer] in
         if length responders \<ge> 5 then responders else collect_responders responders rest))"

fun split_at_colon :: "string \<Rightarrow> (string \<times> string) option" where
  "split_at_colon [] = None"
| "split_at_colon (c # cs) =
     (if c = CHR '':'' then Some ([], cs)
      else map_option (\<lambda>(a, b). (c # a, b)) (split_at_colon cs))"

definition parse_candidates :: "string list \<Rightarrow> (string \<times> string) list" where
  "parse_candidates responders =
     List.map_filter (\<lambda>r. case split_at_colon r of
        Some (peer, pubkey) \<Rightarrow> if pubkey \<noteq> [] then Some (peer, pubkey) else None
      | None \<Rightarrow> None) responders"

section \<open>The byte codec\<close>

definition codec_write :: "bytes \<Rightarrow> bytes" where
  "codec_write req = be_encode 4 (length req mod 2 ^ 32) @ req"

definition read_exact :: "nat \<Rightarrow> bytes \<Rightarrow> (bytes \<times> bytes) option" where
  "read_exact k io = (if length io < k then None else Some (take k io, drop k io))"

definition codec_read :: "bytes \<Rightarrow> (bytes \<times> bytes) option" where
  "codec_read io =
     (case read_exact 4 io of
        None \<Rightarrow> None
      | Some (len_buf, io) \<Rightarrow> read_exact (be_decode len_buf) io)"

section \<open>Lemmas\<close>

lemma check_and_reserve_None:
  assumes "check_and_reserve env k m q v = (v', None)" "hm_wf (reservations v)"
    and "hm_get (reservations v') i = Some r"
  shows "hm_get (reservations v) i = Some r"
proof -
  let ?v = "prune_expired_reservations (ce_check env) v"
  have pruned: "hm_wf (reservations (prune_expired_reservations t v))"
    "hm_get (reservations (prune_expired_reservations t v)) i = Some r \<Longrightarrow> hm_get (reservations v) i = Some r"
    if "hm_wf (reservations v)" for t v
    using that by (simp_all add: prune_expired_reservations_def hmi.get_retain_Some)
  have "v' = ?v \<or> (\<exists>t. v' = prune_expired_reservations t ?v)"
  proof -
    obtain o1 where vc: "verify_capacity (ce_profile env) (ce_check env) q v = (?v, o1)"
      by (metis prod.collapse verify_capacity_state)
    show ?thesis
      using assms(1) unfolding check_and_reserve_def vc
      by (auto simp: reserve_capacity_def reserve_begin_def Let_def
          split: option.splits if_splits prod.splits sum.splits reserve_phase.splits)
  qed
  then show ?thesis using pruned assms(2,3) by metis
qed

lemma check_and_reserve_Some:
  assumes "check_and_reserve env k m q v = (v', Some c)" "hm_wf (reservations v)"
  shows "\<exists>r. hm_get (reservations v') k = Some r \<and> cr_manifest_id r = Some m
      \<and> cr_expires_at r = ce_reserve env + reservation_hold_duration"
    and "hm_wf (reservations v')"
    and "ledger_fits (ce_profile env) v \<Longrightarrow> ledger_fits (ce_profile env) v'"
    and "unat (request_total_cpu q) \<le> unat (cr_available_cpu_milli c)"
    and "unat (request_total_memory q) \<le> unat (cr_available_memory_bytes c)"
    and "unat (request_total_storage q) \<le> unat (cr_available_storage_bytes c)"
proof -
  let ?v = "prune_expired_reservations (ce_check env) v"
  obtain o1 where vc: "verify_capacity (ce_profile env) (ce_check env) q v = (?v, o1)"
    by (metis prod.collapse verify_capacity_state)
  have o1: "o1 = Some c" "has_capacity c"
    and v': "v' = fst (reserve_capacity (ce_profile env) (ce_prune env) (ce_reserve env) k (Some m) q ?v)"
    and ok: "snd (reserve_capacity (ce_profile env) (ce_prune env) (ce_reserve env) k (Some m) q ?v) = Some (Inr ())"
    using assms(1) unfolding check_and_reserve_def vc
    by (auto split: option.splits if_splits prod.splits sum.splits)
  have wf: "hm_wf (reservations ?v)" using assms(2) by (simp add: prune_expired_reservations_def)
  from reserve_capacity_Ok_entry [OF ok wf] show
    "\<exists>r. hm_get (reservations v') k = Some r \<and> cr_manifest_id r = Some m
      \<and> cr_expires_at r = ce_reserve env + reservation_hold_duration" "hm_wf (reservations v')"
    unfolding v' by blast+
  show "ledger_fits (ce_profile env) v \<Longrightarrow> ledger_fits (ce_profile env) v'"
    unfolding v' by (intro reserve_capacity_fits fits_prune)
  from vc o1 show "unat (request_total_cpu q) \<le> unat (cr_available_cpu_milli c)"
    "unat (request_total_memory q) \<le> unat (cr_available_memory_bytes c)"
    "unat (request_total_storage q) \<le> unat (cr_available_storage_bytes c)"
    by (auto simp: verify_capacity_def Let_def capacity_rejected_def not_less word_le_nat_alt
        split: option.splits if_splits)
qed

lemma entry_active:
  assumes "hm_wf (reservations v)" "hm_get (reservations v) k = Some r" "cr_manifest_id r = Some m"
    "t < cr_expires_at r"
  shows "snd (has_active_reservation_for_manifest t m v)"
  using assms
  by (auto simp: has_active_reservation_for_manifest_def prune_expired_reservations_def Let_def list_ex_iff
      ex_hm_values hmi.get_retain_Some)

lemma verify_signed_message_SomeE:
  assumes "verify_signed_message C now peer req st = (st', Some v)"
  obtains e sig where "fb_root_as_envelope C req = Some e" "ve_payload v = or_empty (fe_payload e)"
    "ve_timestamp_ms v = fe_ts e" "dsa_verify C (ve_pubkey v) (rebuilt_canonical C e) sig = Some True"
proof -
  have "snd (verify_flatbuffer_envelope_for_peer C now NONCE_WINDOW peer req st) = Inr v"
    using assms
    by (auto simp: verify_signed_message_def verify_signed_payload_for_peer_def
        verify_envelope_and_check_nonce_for_peer_def split: prod.splits sum.splits)
  from verify_Inr [OF this] show thesis
    by (metis that verified_envelope.select_convs(1,4) verified_parts_def)
qed

lemma collect_responders_keeps: "set responders \<subseteq> set (collect_responders responders ms)"
proof (induction ms arbitrary: responders)
  case (Cons m ms)
  from Cons [of responders] Cons [of "responders @ [m]"] show ?case by (auto simp: Let_def)
qed simp

lemma split_at_colon_append: "CHR '':'' \<notin> set p \<Longrightarrow> split_at_colon (p @ CHR '':'' # k) = Some (p, k)"
  by (induction p) auto

section \<open>Properties\<close>

text \<open>
  (C14) A capacity request over the request-response protocol is answered only if it is correctly
  signed, at most half a second old and names a manifest; the answer is a bid that covers the
  request, and it is backed: until three seconds after the reservation an apply request for the
  manifest finds it, and a ledger that was not overbooked still is not. Without an answer no
  reservation is made or changed.
\<close>

theorem capacity_request_outcome:
  assumes "scheduler_request L root env peer req n = (n', answer)" "hm_wf (reservations (cn_verifier n))"
  shows "case answer of
      None \<Rightarrow> (\<forall>k r. hm_get (reservations (cn_verifier n')) k = Some r
                 \<longrightarrow> hm_get (reservations (cn_verifier n)) k = Some r)
    | Some rep \<Rightarrow> (\<exists>e key sig q m. fb_root_as_envelope L req = Some e
        \<and> dsa_verify L key (rebuilt_canonical L e) sig = Some True
        \<and> root (or_empty (fe_payload e)) = Some q
        \<and> unat (ce_now_ms env) \<le> unat (fe_ts e) + 500
        \<and> extract_manifest_id_from_request_id (or_empty (cq_request_id q)) = Some m
        \<and> cp_ok (rp_params rep) \<and> cp_request_id (rp_params rep) = or_empty (cq_request_id q)
        \<and> unat (request_total_cpu (request_of q)) \<le> unat (cp_cpu_milli (rp_params rep))
        \<and> unat (request_total_memory (request_of q)) \<le> unat (cp_memory_bytes (rp_params rep))
        \<and> unat (request_total_storage (request_of q)) \<le> unat (cp_storage_bytes (rp_params rep))
        \<and> (\<forall>t < ce_reserve env + 3 * 1000000000.
             snd (has_active_reservation_for_manifest t m (cn_verifier n')))
        \<and> (ledger_fits (ce_profile env) (cn_verifier n) \<longrightarrow> ledger_fits (ce_profile env) (cn_verifier n')))"
proof (cases answer)
  case None
  then show ?thesis
    using assms check_and_reserve_None
    by (auto simp: scheduler_request_def answer_capacity_request_def Let_def
        split: if_splits prod.splits option.splits)
next
  case (Some rep)
  obtain st v q m vf c where v: "verify_signed_message L (ce_now_nonce env) peer req (cn_nonces n) = (st, Some v)"
    and q: "root (ve_payload v) = Some q" and fresh: "\<not> stale env (ve_timestamp_ms v)"
    and m: "extract_manifest_id_from_request_id (or_empty (cq_request_id q)) = Some m"
    and c: "check_and_reserve env (or_empty (cq_request_id q)) m (request_of q) (cn_verifier n) = (vf, Some c)"
    and rep: "rep = bid env (or_empty (cq_request_id q)) c" and n': "cn_verifier n' = vf"
    using assms(1) Some
    by (auto simp: scheduler_request_def answer_capacity_request_def Let_def
        split: if_splits prod.splits option.splits)
  obtain e sig where e: "fb_root_as_envelope L req = Some e" "ve_payload v = or_empty (fe_payload e)"
      "ve_timestamp_ms v = fe_ts e" "dsa_verify L (ve_pubkey v) (rebuilt_canonical L e) sig = Some True"
    using verify_signed_message_SomeE [OF v] .
  note backed = check_and_reserve_Some [OF c assms(2)]
  have "unat (ce_now_ms env) \<le> unat (fe_ts e) + 500"
    using fresh by (simp add: stale_def e(3) not_less word_le_nat_alt unat_saturating_sub FREE_CAPACITY_TIMEOUT_MS_def)
  moreover have "snd (has_active_reservation_for_manifest t m (cn_verifier n'))"
    if "t < ce_reserve env + 3 * 1000000000" for t
    using backed(1,2) that entry_active unfolding n'
    by (auto simp: reservation_hold_duration_def RESERVATION_HOLD_SECS_def)
  moreover have "cp_ok (rp_params rep)" "cp_request_id (rp_params rep) = or_empty (cq_request_id q)"
    "cp_cpu_milli (rp_params rep) = cr_available_cpu_milli c"
    "cp_memory_bytes (rp_params rep) = cr_available_memory_bytes c"
    "cp_storage_bytes (rp_params rep) = cr_available_storage_bytes c"
    by (simp_all add: rep bid_def compose_capacity_reply_def build_capacity_reply_with_def
        build_capacity_reply_def baseline_capacity_params_def)
  ultimately show ?thesis
    unfolding Some option.case using e q m backed(3-6) n' by (intro exI conjI) auto
qed

text \<open>
  The manifest of a capacity query is the one its id was made from, for a task id without a
  colon. An id in the older form, with dashes, is always read as the manifest \<open>free\<close>, a part of
  the prefix itself.
\<close>

theorem request_id_manifest:
  assumes "task_id \<noteq> []" "CHR '':'' \<notin> set task_id" "CHR '':'' \<notin> set uuid"
  shows "extract_manifest_id_from_request_id (candidates_request_id task_id uuid) = Some task_id
    \<and> extract_manifest_id_from_request_id (FREE_CAPACITY_PREFIX @ ''-'' @ task_id @ ''-'' @ uuid) = Some ''free''"
proof
  have "CHR '':'' \<notin> set FREE_CAPACITY_PREFIX" by (simp add: FREE_CAPACITY_PREFIX_def)
  then show "extract_manifest_id_from_request_id (candidates_request_id task_id uuid) = Some task_id"
    using assms(1,2)
    by (simp add: extract_manifest_id_from_request_id_def candidates_request_id_def split_char_append)
  have "split_char (CHR ''-'') (FREE_CAPACITY_PREFIX @ s) = ''beemesh'' # ''free'' # split_char (CHR ''-'') (''capacity'' @ s)" for s
    using split_char_append [of "CHR ''-''" "''beemesh''" "''free-capacity'' @ s"]
      split_char_append [of "CHR ''-''" "''free''" "''capacity'' @ s"]
    by (simp add: FREE_CAPACITY_PREFIX_def)
  moreover have "CHR '':'' \<notin> set (FREE_CAPACITY_PREFIX @ ''-'' @ task_id @ ''-'' @ uuid)"
    using assms by (simp add: FREE_CAPACITY_PREFIX_def)
  from split_char_none [OF this] have "split_char (CHR '':'') (FREE_CAPACITY_PREFIX @ ''-'' @ task_id @ ''-'' @ uuid)
      = [FREE_CAPACITY_PREFIX @ ''-'' @ task_id @ ''-'' @ uuid]" .
  ultimately show "extract_manifest_id_from_request_id (FREE_CAPACITY_PREFIX @ ''-'' @ task_id @ ''-'' @ uuid)
      = Some ''free''"
    unfolding extract_manifest_id_from_request_id_def by simp
qed

text \<open>
  The node that asks is always among the candidates of its own query, if it has a KEM key and
  takes part in scheduling: its ledger is neither asked nor changed.
\<close>

theorem originator_always_candidate:
  assumes "root payload = Some q" "\<not> ce_disabled env" "ce_kem env = Some key" "key \<noteq> []"
    and "CHR '':'' \<notin> set (ce_local_peer env)" "hm_get (cn_pending n) request_id = None"
    and "query_capacity root env True request_id tx payload n = (n', out)"
  shows "cn_verifier n' = cn_verifier n
    \<and> (tx, ce_local_peer env @ '':'' @ key) \<in> set (cn_sent n')
    \<and> (ce_local_peer env, key)
        \<in> set (parse_candidates (collect_responders [] ((ce_local_peer env @ '':'' @ key) # later)))"
proof -
  have "cn_verifier n' = cn_verifier n" "(tx, ce_local_peer env @ '':'' @ key) \<in> set (cn_sent n')"
    using assms(7)
    by (auto simp: query_capacity_def Let_def assms(1-3,6) notify_capacity_observers_def compose_capacity_reply_def
        build_capacity_reply_with_def build_capacity_reply_def)
  moreover have "ce_local_peer env @ '':'' @ key
      \<in> set (collect_responders [] ((ce_local_peer env @ '':'' @ key) # later))"
    using collect_responders_keeps [of "[ce_local_peer env @ '':'' @ key]" later] by (simp add: Let_def)
  ultimately show ?thesis
    using split_at_colon_append [OF assms(5), of key] assms(4)
    by (force simp: parse_candidates_def List.map_filter_def)
qed

text \<open>
  (C36) What the codec reads from the bytes it wrote, followed by anything, is the message and what
  follows, for messages shorter than four gibibytes; of a longer one, only as many bytes as its
  length modulo \<open>2^32\<close>, and the rest stays on the stream.
\<close>

theorem codec_read_write:
  "codec_read (codec_write req @ rest)
     = Some (take (length req mod 2 ^ 32) req, drop (length req mod 2 ^ 32) req @ rest)"
proof -
  have "length req mod 2 ^ 32 < 256 ^ 4" by simp
  then have "be_decode (be_encode 4 (length req mod 2 ^ 32)) = length req mod 2 ^ 32" by (rule be_decode_encode)
  moreover have "length req mod 2 ^ 32 \<le> length req" by simp
  ultimately show ?thesis by (simp add: codec_read_def codec_write_def read_exact_def)
qed

end
