(* ===== verification/Capacity_Examples.thy ===== *)
theory Capacity_Examples
  imports Capacity Envelope_Examples
begin

text \<open>
  Concrete runs for the properties of theory \<open>Capacity\<close>: a node with four cores and an empty
  ledger answers the envelope of theory \<open>Envelope_Examples\<close>, read as a capacity request for the
  manifest \<open>m\<close>.
\<close>

definition toy_capacity_request :: capacity_request where
  "toy_capacity_request = \<lparr> cq_request_id = Some (candidates_request_id ''m'' ''u''), cq_cpu_milli = 100,
     cq_memory_bytes = 1000, cq_storage_bytes = 1000, cq_replicas = 1 \<rparr>"

definition toy_capacity_root :: "bytes \<Rightarrow> capacity_request option" where
  "toy_capacity_root b = (if b = [1, 2, 3] then Some toy_capacity_request else None)"

definition toy_capacity_env :: capacity_env where
  "toy_capacity_env = \<lparr> ce_profile = Debug, ce_now_nonce = 10, ce_now_ms = 100, ce_check = 11, ce_prune = 12,
     ce_reserve = 13, ce_kem = Some ''key'', ce_local_peer = ''here'', ce_disabled = False \<rparr>"

definition toy_capacity_node :: capacity_node where
  "toy_capacity_node = \<lparr> cn_verifier = host4, cn_nonces = hm_empty, cn_pending = hm_empty, cn_sent = [] \<rparr>"

definition toy_answer :: "capacity_node \<times> capacity_reply option" where
  "toy_answer = scheduler_request toy_lib toy_capacity_root toy_capacity_env ''peerA'' (se_bytes toy_signed)
     toy_capacity_node"

lemma toy_capacity_verified:
  "\<exists>st v. verify_signed_message toy_lib 10 ''peerA'' (se_bytes toy_signed) hm_empty = (st, Some v)
     \<and> ve_payload v = [1, 2, 3] \<and> ve_timestamp_ms v = 5"
  by (simp add: toy_eval verify_signed_message_def verify_signed_payload_for_peer_def
      verify_envelope_and_check_nonce_for_peer_def)

lemma toy_manifest_extracted:
  "extract_manifest_id_from_request_id (candidates_request_id ''m'' ''u'') = Some ''m''"
  by code_simp

lemma toy_check:
  "snd (check_and_reserve toy_capacity_env (candidates_request_id ''m'' ''u'') ''m'' (request_of toy_capacity_request)
     host4) \<noteq> None"
  by (simp add: check_and_reserve_def request_of_def toy_capacity_request_def toy_capacity_env_def host4_def ledger_eval)

lemma toy_not_stale: "\<not> stale toy_capacity_env 5"
  by code_simp

lemma toy_answered: "\<exists>n' rep. toy_answer = (n', Some rep)"
proof -
  obtain st v where v: "verify_signed_message toy_lib 10 ''peerA'' (se_bytes toy_signed) hm_empty = (st, Some v)"
      "ve_payload v = [1, 2, 3]" "ve_timestamp_ms v = 5"
    using toy_capacity_verified by blast
  obtain vf c where c: "check_and_reserve toy_capacity_env (candidates_request_id ''m'' ''u'') ''m''
      (request_of toy_capacity_request) host4 = (vf, Some c)"
    using toy_check by (metis option.exhaust prod.collapse)
  have "ce_now_nonce toy_capacity_env = 10" "\<not> ce_disabled toy_capacity_env"
    by (simp_all add: toy_capacity_env_def)
  then show ?thesis
    by (simp add: toy_answer_def scheduler_request_def toy_capacity_node_def v toy_capacity_root_def
        answer_capacity_request_def toy_not_stale toy_capacity_request_def [THEN arg_cong, of cq_request_id]
        toy_manifest_extracted c Let_def)
qed

theorem capacity_request_outcome_witness:
  "\<exists>n' rep m. toy_answer = (n', Some rep) \<and> cp_request_id (rp_params rep) = candidates_request_id ''m'' ''u''
     \<and> snd (has_active_reservation_for_manifest 1000 m (cn_verifier n'))"
proof -
  obtain n' rep where a: "toy_answer = (n', Some rep)" using toy_answered by blast
  have "hm_wf (reservations (cn_verifier toy_capacity_node))"
    by (simp add: toy_capacity_node_def host4_def verifier_new_def hm_wf_def hm_empty_def)
  from capacity_request_outcome [OF a [unfolded toy_answer_def] this]
  obtain e q m where "fb_root_as_envelope toy_lib (se_bytes toy_signed) = Some e"
      "toy_capacity_root (or_empty (fe_payload e)) = Some q"
      "cp_request_id (rp_params rep) = or_empty (cq_request_id q)"
    and act: "\<forall>t < ce_reserve toy_capacity_env + 3 * 1000000000.
        snd (has_active_reservation_for_manifest t m (cn_verifier n'))" by auto
  then have "cp_request_id (rp_params rep) = candidates_request_id ''m'' ''u''"
    by (auto simp: toy_capacity_root_def toy_capacity_request_def split: if_splits)
  moreover have "snd (has_active_reservation_for_manifest 1000 m (cn_verifier n'))"
    using act by (simp add: toy_capacity_env_def)
  ultimately show ?thesis using a by blast
qed

theorem request_id_manifest_witness:
  "extract_manifest_id_from_request_id (candidates_request_id ''task1'' ''u'') = Some ''task1''
   \<and> extract_manifest_id_from_request_id ''beemesh-free-capacity-task1-u'' = Some ''free''"
  using request_id_manifest [of "''task1''" "''u''"] by (simp add: FREE_CAPACITY_PREFIX_def)

theorem originator_always_candidate_witness:
  "let n' = fst (query_capacity toy_capacity_root toy_capacity_env True ''r'' 4 [1, 2, 3] toy_capacity_node) in
   cn_verifier n' = host4 \<and> (4, ''here:key'') \<in> set (cn_sent n')
   \<and> (''here'', ''key'') \<in> set (parse_candidates (collect_responders [] (''here:key'' # [''other''])))"
  using originator_always_candidate [of toy_capacity_root "[1, 2, 3]" toy_capacity_request toy_capacity_env "''key''"
      toy_capacity_node "''r''" 4 "fst (query_capacity toy_capacity_root toy_capacity_env True ''r'' 4 [1, 2, 3] toy_capacity_node)"
      "snd (query_capacity toy_capacity_root toy_capacity_env True ''r'' 4 [1, 2, 3] toy_capacity_node)" "[''other'']"]
  by (simp add: toy_capacity_root_def toy_capacity_env_def toy_capacity_node_def Let_def)

end
