(* ===== verification/Workload_Manager.thy ===== *)
theory Workload_Manager
  imports Workload_Integration
begin

text \<open>
  The workload manager, \<open>machine/src/workload_manager.rs\<close>: it deploys on an engine of its
  registry, keeps a table of what it deployed, announces and withdraws the node as a provider,
  and sends an event for each of these. The abstract contract is a map from workload ids to
  manifest ids; on mock engines the manager implements it exactly. Events are listed in the order
  they are sent; without a channel none is.
\<close>

section \<open>State\<close>

datatype workload_manager_error =
    WmRuntimeError runtime_error
  | WmProviderError provider_error
  | WmWorkloadNotFound string
  | WmManifestValidationFailed string
  | NoRuntimeEngineAvailable
  | WmNetworkError string

record workload_manager_config =
  announce_as_provider :: bool
  provider_ttl_seconds :: u64
  preferred_runtime :: "string option"
  validate_manifests :: bool
  max_concurrent_deployments :: nat

definition default_workload_manager_config :: workload_manager_config where
  "default_workload_manager_config =
     \<lparr> announce_as_provider = True, provider_ttl_seconds = 3600, preferred_runtime = None,
       validate_manifests = True, max_concurrent_deployments = 10 \<rparr>"

record deployment_status =
  ds_workload_id :: string
  ds_manifest_id :: string
  ds_status :: workload_status
  ds_runtime_engine :: string
  ds_announced_as_provider :: bool
  ds_deployed_at :: system_time
  ds_last_updated :: system_time
  ds_config :: deployment_config

datatype workload_event =
    WorkloadDeployed string string string
  | EvDeploymentFailed string string
  | WorkloadRemoved string string
  | ProviderAnnounced string peer_id
  | ProviderStopped string

record 'e workload_manager =
  wm_registry :: "'e runtime_registry"
  wm_providers :: provider_manager
  wm_deployments :: "(string, deployment_status) hmap"
  wm_config :: workload_manager_config
  wm_channel :: bool
  wm_events :: "workload_event list"

definition workload_manager_new ::
  "'e runtime_registry \<Rightarrow> workload_manager_config \<Rightarrow> 'e workload_manager" where
  "workload_manager_new registry config =
     \<lparr> wm_registry = registry,
       wm_providers = provider_manager_new
         (default_provider_config \<lparr> default_ttl_seconds := provider_ttl_seconds config \<rparr>),
       wm_deployments = hm_empty, wm_config = config, wm_channel = False, wm_events = [] \<rparr>"

definition set_event_channel :: "'e workload_manager \<Rightarrow> 'e workload_manager" where
  "set_event_channel m = m \<lparr> wm_channel := True, wm_events := [] \<rparr>"

definition send_event :: "workload_event \<Rightarrow> 'e workload_manager \<Rightarrow> 'e workload_manager" where
  "send_event ev m = (if wm_channel m then m \<lparr> wm_events := wm_events m @ [ev] \<rparr> else m)"

section \<open>Operations\<close>

record wm_env =
  we_start_providing :: "string \<Rightarrow> string + unit"
  we_announce1 :: system_time
  we_announce2 :: system_time
  we_local_peer :: peer_id

definition get_runtime_engine ::
  "'e engine_ops \<Rightarrow> 'e workload_manager \<Rightarrow> workload_manager_error + string" where
  "get_runtime_engine V m =
     (let preferred = (case preferred_runtime (wm_config m) of
            None \<Rightarrow> None
          | Some name \<Rightarrow>
              (case get_engine (wm_registry m) name of
                 None \<Rightarrow> None
               | Some e \<Rightarrow> if eo_available V e then Some name else None)) in
      case preferred of
        Some name \<Rightarrow> Inr name
      | None \<Rightarrow>
          (case get_default_engine (wm_registry m) of
             None \<Rightarrow> Inl NoRuntimeEngineAvailable
           | Some e \<Rightarrow> if eo_available V e then Inr (eo_name V e) else Inl NoRuntimeEngineAvailable))"

definition validate_manifest_content ::
  "'e engine_ops \<Rightarrow> bytes \<Rightarrow> 'e workload_manager \<Rightarrow> workload_manager_error + unit" where
  "validate_manifest_content V content m =
     (case get_runtime_engine V m of
        Inl err \<Rightarrow> Inl err
      | Inr name \<Rightarrow>
          (case get_engine (wm_registry m) name of
             None \<Rightarrow> Inl NoRuntimeEngineAvailable
           | Some e \<Rightarrow>
               (case eo_validate V content e of
                  Inl err \<Rightarrow> Inl (WmRuntimeError err)
                | Inr _ \<Rightarrow> Inr ())))"

definition put_engine :: "string \<Rightarrow> 'e \<Rightarrow> 'e workload_manager \<Rightarrow> 'e workload_manager" where
  "put_engine name e m =
     m \<lparr> wm_registry := (wm_registry m) \<lparr> engines := hm_insert name e (engines (wm_registry m)) \<rparr> \<rparr>"

definition wm_announce ::
  "wm_env \<Rightarrow> string \<Rightarrow> string \<Rightarrow> 'e workload_manager \<Rightarrow> 'e workload_manager \<times> (workload_manager_error + unit)" where
  "wm_announce env manifest_id engine_name m =
     (let metadata = hm_insert ''node_type'' ''beemesh-machine''
                       (hm_insert ''runtime_engine'' engine_name hm_empty) in
      case announce_provider (we_start_providing env) (we_announce1 env) (we_announce2 env)
             (we_local_peer env) manifest_id metadata (wm_providers m) of
        (pm, Inl e) \<Rightarrow> (m \<lparr> wm_providers := pm \<rparr>, Inl (WmProviderError e))
      | (pm, Inr _) \<Rightarrow> (m \<lparr> wm_providers := pm \<rparr>, Inr ()))"

text \<open>What follows a successful call of the engine: the record, the announcement, the events.\<close>

definition finish_deployment ::
  "wm_env \<Rightarrow> string \<Rightarrow> deployment_config \<Rightarrow> string \<Rightarrow> workload_info \<Rightarrow> 'e workload_manager
     \<Rightarrow> 'e workload_manager \<times> deployment_status" where
  "finish_deployment env manifest_id config engine_name info m =
     (let status = \<lparr> ds_workload_id = wi_id info, ds_manifest_id = manifest_id, ds_status = wi_status info,
            ds_runtime_engine = engine_name, ds_announced_as_provider = False,
            ds_deployed_at = wi_created_at info, ds_last_updated = wi_updated_at info,
            ds_config = config \<rparr>;
          m = m \<lparr> wm_deployments := hm_insert (wi_id info) status (wm_deployments m) \<rparr>;
          (m, final_status) =
            (if announce_as_provider (wm_config m)
             then (case wm_announce env manifest_id engine_name m of
                     (m, Inr _) \<Rightarrow>
                       (send_event (ProviderAnnounced manifest_id (we_local_peer env)) m,
                        status \<lparr> ds_announced_as_provider := True \<rparr>)
                   | (m, Inl _) \<Rightarrow> (m, status))
             else (m, status)) in
      (send_event (WorkloadDeployed (wi_id info) manifest_id engine_name) m, final_status))"

definition wm_deploy_workload ::
  "'e engine_ops \<Rightarrow> wm_env \<Rightarrow> string \<Rightarrow> bytes \<Rightarrow> deployment_config \<Rightarrow> 'e workload_manager
     \<Rightarrow> 'e workload_manager \<times> (workload_manager_error + deployment_status)" where
  "wm_deploy_workload V env manifest_id content config m =
     (case (if validate_manifests (wm_config m) then validate_manifest_content V content m else Inr ()) of
        Inl err \<Rightarrow> (m, Inl err)
      | Inr _ \<Rightarrow>
          (case get_runtime_engine V m of
             Inl err \<Rightarrow> (m, Inl err)
           | Inr engine_name \<Rightarrow>
               (case get_engine (wm_registry m) engine_name of
                  None \<Rightarrow> (m, Inl NoRuntimeEngineAvailable)
                | Some e \<Rightarrow>
                    (case eo_deploy V manifest_id content config e of
                       (e', Inl err) \<Rightarrow> (put_engine engine_name e' m, Inl (WmRuntimeError err))
                     | (e', Inr info) \<Rightarrow>
                         (case finish_deployment env manifest_id config engine_name info
                                 (put_engine engine_name e' m) of
                            (m, status) \<Rightarrow> (m, Inr status))))))"

text \<open>What follows the removal on the engine.\<close>

definition finish_removal ::
  "string \<Rightarrow> deployment_status \<Rightarrow> 'e workload_manager \<Rightarrow> 'e workload_manager" where
  "finish_removal workload_id status m =
     (let m = (if ds_announced_as_provider status
               then (case stop_providing (ds_manifest_id status) (wm_providers m) of
                       (pm, Inr _) \<Rightarrow> send_event (ProviderStopped (ds_manifest_id status)) (m \<lparr> wm_providers := pm \<rparr>)
                     | (pm, Inl _) \<Rightarrow> m \<lparr> wm_providers := pm \<rparr>)
               else m);
          m = m \<lparr> wm_deployments := hm_remove workload_id (wm_deployments m) \<rparr> in
      send_event (WorkloadRemoved workload_id (ds_manifest_id status)) m)"

definition wm_remove_workload ::
  "'e engine_ops \<Rightarrow> string \<Rightarrow> 'e workload_manager \<Rightarrow> 'e workload_manager \<times> (workload_manager_error + unit)" where
  "wm_remove_workload V workload_id m =
     (case hm_get (wm_deployments m) workload_id of
        None \<Rightarrow> (m, Inl (WmWorkloadNotFound workload_id))
      | Some status \<Rightarrow>
          (case get_engine (wm_registry m) (ds_runtime_engine status) of
             None \<Rightarrow> (m, Inl NoRuntimeEngineAvailable)
           | Some e \<Rightarrow>
               (case eo_remove V workload_id e of
                  (e', Inl err) \<Rightarrow> (put_engine (ds_runtime_engine status) e' m, Inl (WmRuntimeError err))
                | (e', Inr _) \<Rightarrow>
                    (finish_removal workload_id status (put_engine (ds_runtime_engine status) e' m), Inr ()))))"

definition workloads_of_manifest :: "string \<Rightarrow> 'e workload_manager \<Rightarrow> string list" where
  "workloads_of_manifest manifest_id m =
     map fst (filter (\<lambda>(_, d). ds_manifest_id d = manifest_id) (wm_deployments m))"

fun wm_remove_each ::
  "'e engine_ops \<Rightarrow> string list \<Rightarrow> 'e workload_manager \<Rightarrow> 'e workload_manager \<times> string list" where
  "wm_remove_each V [] m = (m, [])"
| "wm_remove_each V (i # is) m =
     (case wm_remove_workload V i m of
        (m, Inr _) \<Rightarrow> (case wm_remove_each V is m of (m, removed) \<Rightarrow> (m, i # removed))
      | (m, Inl _) \<Rightarrow> wm_remove_each V is m)"

definition wm_remove_workloads_by_manifest_id ::
  "'e engine_ops \<Rightarrow> string \<Rightarrow> 'e workload_manager
     \<Rightarrow> 'e workload_manager \<times> (workload_manager_error + string list)" where
  "wm_remove_workloads_by_manifest_id V manifest_id m =
     (let ids = workloads_of_manifest manifest_id m in
      if ids = [] then (m, Inr [])
      else (case wm_remove_each V ids m of (m, removed) \<Rightarrow> (m, Inr removed)))"

definition wm_get_workload_status ::
  "'e engine_ops \<Rightarrow> string \<Rightarrow> 'e workload_manager
     \<Rightarrow> 'e workload_manager \<times> (workload_manager_error + deployment_status)" where
  "wm_get_workload_status V workload_id m =
     (case hm_get (wm_deployments m) workload_id of
        None \<Rightarrow> (m, Inl (WmWorkloadNotFound workload_id))
      | Some status \<Rightarrow>
          (case get_engine (wm_registry m) (ds_runtime_engine status) of
             None \<Rightarrow> (m, Inl NoRuntimeEngineAvailable)
           | Some e \<Rightarrow>
               (case eo_status V workload_id e of
                  Inl _ \<Rightarrow> (m, Inr status)
                | Inr info \<Rightarrow>
                    (let status = status \<lparr> ds_status := wi_status info, ds_last_updated := wi_updated_at info \<rparr> in
                     (m \<lparr> wm_deployments := hm_insert workload_id status (wm_deployments m) \<rparr>, Inr status)))))"

definition wm_list_workloads :: "'e workload_manager \<Rightarrow> deployment_status list" where
  "wm_list_workloads m = hm_values (wm_deployments m)"

text \<open>\<open>list_workloads_by_peer\<close> asks the engines of the node's registry, not of its own.\<close>

definition wm_list_workloads_by_peer ::
  "'e engine_ops \<Rightarrow> 'e runtime_registry option \<Rightarrow> string \<Rightarrow> 'e workload_manager \<Rightarrow> deployment_status list" where
  "wm_list_workloads_by_peer V global_registry peer m =
     filter (\<lambda>d. case global_registry of
                   None \<Rightarrow> False
                 | Some reg \<Rightarrow>
                     (case get_engine reg (ds_runtime_engine d) of
                        None \<Rightarrow> False
                      | Some e \<Rightarrow>
                          (case eo_status V (ds_workload_id d) e of
                             Inl _ \<Rightarrow> False
                           | Inr info \<Rightarrow> deployed_by_peer peer info)))
       (hm_values (wm_deployments m))"

definition wm_get_workload_logs ::
  "'e engine_ops \<Rightarrow> string \<Rightarrow> nat option \<Rightarrow> 'e workload_manager \<Rightarrow> workload_manager_error + string" where
  "wm_get_workload_logs V workload_id tail m =
     (case hm_get (wm_deployments m) workload_id of
        None \<Rightarrow> Inl (WmWorkloadNotFound workload_id)
      | Some status \<Rightarrow>
          (case get_engine (wm_registry m) (ds_runtime_engine status) of
             None \<Rightarrow> Inl NoRuntimeEngineAvailable
           | Some e \<Rightarrow>
               (case eo_logs V workload_id tail e of Inl err \<Rightarrow> Inl (WmRuntimeError err) | Inr logs \<Rightarrow> Inr logs)))"

definition wm_export_workload_manifest ::
  "'e engine_ops \<Rightarrow> string \<Rightarrow> 'e workload_manager \<Rightarrow> workload_manager_error + bytes" where
  "wm_export_workload_manifest V workload_id m =
     (case hm_get (wm_deployments m) workload_id of
        None \<Rightarrow> Inl (WmWorkloadNotFound workload_id)
      | Some status \<Rightarrow>
          (case get_engine (wm_registry m) (ds_runtime_engine status) of
             None \<Rightarrow> Inl NoRuntimeEngineAvailable
           | Some e \<Rightarrow>
               (case eo_export V workload_id e of Inl err \<Rightarrow> Inl (WmRuntimeError err) | Inr b \<Rightarrow> Inr b)))"

text \<open>A lookup that is not answered from the table waits for the hash table, as in theory \<open>Provider_Manager\<close>.\<close>

definition wm_discover_providers ::
  "(provider_info \<Rightarrow> system_time) \<Rightarrow> nat \<Rightarrow> string \<Rightarrow> 'e workload_manager \<Rightarrow> 'e workload_manager \<times> discover_result" where
  "wm_discover_providers clock tx manifest_id m =
     (case discover_providers clock tx manifest_id (wm_providers m) of (pm, r) \<Rightarrow> (m \<lparr> wm_providers := pm \<rparr>, r))"

definition get_runtime_engine_by_name :: "string \<Rightarrow> 'e workload_manager \<Rightarrow> workload_manager_error + string" where
  "get_runtime_engine_by_name name m =
     (if get_engine (wm_registry m) name \<noteq> None then Inr name else Inl NoRuntimeEngineAvailable)"

record workload_manager_stats =
  ws_total_workloads :: nat
  ws_status_counts :: "(string, nat) hmap"
  ws_engine_counts :: "(string, nat) hmap"
  ws_announced_providers :: nat
  ws_provider_stats :: provider_stats

definition count_entry :: "string \<Rightarrow> (string, nat) hmap \<Rightarrow> (string, nat) hmap" where
  "count_entry k c = hm_insert k ((case hm_get c k of Some n \<Rightarrow> n | None \<Rightarrow> 0) + 1) c"

text \<open>\<open>debug_status\<close> is the derived \<open>Debug\<close> form of a status.\<close>

definition wm_get_stats ::
  "(workload_status \<Rightarrow> string) \<Rightarrow> 'e workload_manager \<Rightarrow> workload_manager_stats" where
  "wm_get_stats debug_status m =
     (let ds = hm_values (wm_deployments m) in
      \<lparr> ws_total_workloads = length (wm_deployments m),
        ws_status_counts = fold (\<lambda>d. count_entry (debug_status (ds_status d))) ds hm_empty,
        ws_engine_counts = fold (\<lambda>d. count_entry (ds_runtime_engine d)) ds hm_empty,
        ws_announced_providers = length (filter ds_announced_as_provider ds),
        ws_provider_stats = provider_get_stats (wm_providers m) \<rparr>)"

section \<open>The contract\<close>

text \<open>
  A table of deployments, seen as a map from workload ids to manifest ids, from which known ids
  can be removed one at a time; the removal of a list is proved once against it.
\<close>

locale deployment_table =
  fixes inv :: "'m \<Rightarrow> bool"
    and deployed :: "'m \<Rightarrow> string \<rightharpoonup> string"
    and remove_one :: "string \<Rightarrow> 'm \<Rightarrow> 'm \<times> ('err + unit)"
    and remove_all :: "string list \<Rightarrow> 'm \<Rightarrow> 'm \<times> string list"
  assumes remove_known: "inv m \<Longrightarrow> deployed m i = Some mf \<Longrightarrow>
        \<exists>m'. remove_one i m = (m', Inr ()) \<and> inv m' \<and> deployed m' = (deployed m)(i := None)"
    and remove_all_Nil: "remove_all [] m = (m, [])"
    and remove_all_Cons: "remove_one i m = (m', Inr ()) \<Longrightarrow>
        remove_all (i # is) m = (fst (remove_all is m'), i # snd (remove_all is m'))"
begin

lemma remove_all_known:
  assumes "inv m" "distinct is" "\<forall>i \<in> set is. deployed m i \<noteq> None"
  shows "\<exists>m'. remove_all is m = (m', is) \<and> inv m' \<and> deployed m' = deployed m |` (- set is)"
  using assms
proof (induction "is" arbitrary: m)
  case Nil
  then show ?case by (simp add: remove_all_Nil)
next
  case (Cons i "is")
  obtain mf where "deployed m i = Some mf" using Cons.prems(3) by auto
  from remove_known [OF Cons.prems(1) this] obtain m1 where
    m1: "remove_one i m = (m1, Inr ())" "inv m1" "deployed m1 = (deployed m)(i := None)" by blast
  have "\<forall>j \<in> set is. deployed m1 j \<noteq> None" using Cons.prems(2,3) by (auto simp: m1(3))
  with Cons.IH [OF m1(2)] Cons.prems(2) obtain m2 where
    m2: "remove_all is m1 = (m2, is)" "inv m2" "deployed m2 = deployed m1 |` (- set is)" by auto
  have "deployed m2 = deployed m |` (- set (i # is))"
    unfolding m2(3) m1(3) by (auto simp: restrict_map_def fun_eq_iff)
  then show ?case using remove_all_Cons [OF m1(1)] m2 by simp
qed

end

text \<open>The abstract operations and their outcomes.\<close>

datatype wm_op =
    Deploy string bytes deployment_config
  | Remove string
  | RemoveManifest string
  | Status string

datatype wm_outcome = Deployed string | Removed "string list" | Reported string string | Refused

inductive spec_step :: "wm_op \<Rightarrow> wm_outcome \<Rightarrow> (string \<rightharpoonup> string) \<Rightarrow> (string \<rightharpoonup> string) \<Rightarrow> bool" where
  spec_deploy: "spec_step (Deploy mf c cfg) (Deployed i) t (t(i \<mapsto> mf))"
| spec_deploy_refused: "spec_step (Deploy mf c cfg) Refused t t"
| spec_remove: "t i = Some mf \<Longrightarrow> spec_step (Remove i) (Removed [i]) t (t(i := None))"
| spec_remove_unknown: "t i = None \<Longrightarrow> spec_step (Remove i) Refused t t"
| spec_remove_manifest: "distinct is \<Longrightarrow> set is = {i. t i = Some mf} \<Longrightarrow>
    spec_step (RemoveManifest mf) (Removed is) t (t |` {i. t i \<noteq> Some mf})"
| spec_status: "t i = Some mf \<Longrightarrow> spec_step (Status i) (Reported i mf) t t"
| spec_status_unknown: "t i = None \<Longrightarrow> spec_step (Status i) Refused t t"

inductive spec_run :: "(wm_op \<times> wm_outcome) list \<Rightarrow> (string \<rightharpoonup> string) \<Rightarrow> bool" where
  spec_start: "spec_run [] Map.empty"
| spec_more: "spec_run evs t \<Longrightarrow> spec_step op r t t' \<Longrightarrow> spec_run (evs @ [(op, r)]) t'"

definition wm_exec ::
  "'e engine_ops \<Rightarrow> wm_env \<Rightarrow> wm_op \<Rightarrow> 'e workload_manager \<Rightarrow> 'e workload_manager \<times> wm_outcome" where
  "wm_exec V env op m =
     (case op of
        Deploy mf c cfg \<Rightarrow>
          (case wm_deploy_workload V env mf c cfg m of
             (m', Inr status) \<Rightarrow> (m', Deployed (ds_workload_id status)) | (m', Inl _) \<Rightarrow> (m', Refused))
      | Remove i \<Rightarrow>
          (case wm_remove_workload V i m of (m', Inr _) \<Rightarrow> (m', Removed [i]) | (m', Inl _) \<Rightarrow> (m', Refused))
      | RemoveManifest mf \<Rightarrow>
          (case wm_remove_workloads_by_manifest_id V mf m of
             (m', Inr removed) \<Rightarrow> (m', Removed removed) | (m', Inl _) \<Rightarrow> (m', Refused))
      | Status i \<Rightarrow>
          (case wm_get_workload_status V i m of
             (m', Inr status) \<Rightarrow> (m', Reported i (ds_manifest_id status)) | (m', Inl _) \<Rightarrow> (m', Refused)))"

text \<open>A run of the manager on mock engines; clock and deployment luck differ from call to call.\<close>

inductive wm_run ::
  "mock_engine workload_manager \<Rightarrow> (wm_op \<times> wm_outcome) list \<Rightarrow> mock_engine workload_manager \<Rightarrow> bool" for m0 where
  wm_start: "wm_run m0 [] m0"
| wm_more: "wm_run m0 evs m \<Longrightarrow> wm_exec (mock_ops pj y fmt ok now clock) env op m = (m', r)
    \<Longrightarrow> wm_run m0 (evs @ [(op, r)]) m'"

definition wm_deployed :: "'e workload_manager \<Rightarrow> string \<rightharpoonup> string" where
  "wm_deployed m i = map_option ds_manifest_id (hm_get (wm_deployments m) i)"

definition wm_ok :: "mock_engine workload_manager \<Rightarrow> bool" where
  "wm_ok m \<longleftrightarrow> hm_wf (wm_deployments m)
     \<and> (\<forall>name e. get_engine (wm_registry m) name = Some e \<longrightarrow> mock_ok e)
     \<and> (\<forall>i d. hm_get (wm_deployments m) i = Some d \<longrightarrow>
          (\<exists>e. get_engine (wm_registry m) (ds_runtime_engine d) = Some e \<and> hm_get (me_workloads e) i \<noteq> None))"

section \<open>Lemmas\<close>

lemma send_event_simps [simp]:
  "wm_registry (send_event ev m) = wm_registry m" "wm_providers (send_event ev m) = wm_providers m"
  "wm_deployments (send_event ev m) = wm_deployments m" "wm_config (send_event ev m) = wm_config m"
  by (simp_all add: send_event_def)

lemma put_engine_simps [simp]:
  "wm_providers (put_engine name e m) = wm_providers m" "wm_deployments (put_engine name e m) = wm_deployments m"
  "wm_config (put_engine name e m) = wm_config m"
  "get_engine (wm_registry (put_engine name e m)) n = (if n = name then Some e else get_engine (wm_registry m) n)"
  by (simp_all add: put_engine_def get_engine_def)

lemma wm_announce_simps [simp]:
  "wm_registry (fst (wm_announce env mf name m)) = wm_registry m"
  "wm_deployments (fst (wm_announce env mf name m)) = wm_deployments m"
  by (simp_all add: wm_announce_def Let_def split: prod.splits sum.splits)

lemma finish_deployment_simps:
  "wm_registry (fst (finish_deployment env mf cfg name info m)) = wm_registry m"
  "wm_deployments (fst (finish_deployment env mf cfg name info m)) = hm_insert (wi_id info)
     \<lparr> ds_workload_id = wi_id info, ds_manifest_id = mf, ds_status = wi_status info, ds_runtime_engine = name,
       ds_announced_as_provider = False, ds_deployed_at = wi_created_at info, ds_last_updated = wi_updated_at info,
       ds_config = cfg \<rparr> (wm_deployments m)"
  "ds_workload_id (snd (finish_deployment env mf cfg name info m)) = wi_id info"
proof -
  define d where "d = \<lparr> ds_workload_id = wi_id info, ds_manifest_id = mf, ds_status = wi_status info,
    ds_runtime_engine = name, ds_announced_as_provider = False, ds_deployed_at = wi_created_at info,
    ds_last_updated = wi_updated_at info, ds_config = cfg \<rparr>"
  define m1 where "m1 = m \<lparr> wm_deployments := hm_insert (wi_id info) d (wm_deployments m) \<rparr>"
  obtain m2 r where m2: "wm_announce env mf name m1 = (m2, r)" by fastforce
  have "wm_registry m2 = wm_registry m" "wm_deployments m2 = hm_insert (wi_id info) d (wm_deployments m)"
    using wm_announce_simps [of env mf name m1] unfolding m2 by (simp_all add: m1_def)
  then show "wm_registry (fst (finish_deployment env mf cfg name info m)) = wm_registry m"
    "wm_deployments (fst (finish_deployment env mf cfg name info m)) = hm_insert (wi_id info)
       \<lparr> ds_workload_id = wi_id info, ds_manifest_id = mf, ds_status = wi_status info, ds_runtime_engine = name,
         ds_announced_as_provider = False, ds_deployed_at = wi_created_at info, ds_last_updated = wi_updated_at info,
         ds_config = cfg \<rparr> (wm_deployments m)"
    "ds_workload_id (snd (finish_deployment env mf cfg name info m)) = wi_id info"
    unfolding finish_deployment_def Let_def d_def [symmetric] m1_def [symmetric] m2
    by (cases r; simp add: m1_def d_def)+
qed

lemma finish_removal_simps [simp]:
  "wm_registry (finish_removal i d m) = wm_registry m"
  "wm_deployments (finish_removal i d m) = hm_remove i (wm_deployments m)"
  by (simp_all add: finish_removal_def Let_def split: prod.splits sum.splits)

lemma mock_deploy_workloads:
  "mock_deploy_workload pj y ok now mf c cfg e = (e', Inr info) \<Longrightarrow>
     hm_get (me_workloads e') i \<noteq> None \<longleftrightarrow> i = wi_id info \<or> hm_get (me_workloads e) i \<noteq> None"
  by (auto simp: mock_deploy_workload_def Let_def split: sum.splits if_splits)

lemma mock_deploy_failed:
  "mock_deploy_workload pj y ok now mf c cfg e = (e', Inl err) \<Longrightarrow> e' = e"
  by (auto simp: mock_deploy_workload_def Let_def split: sum.splits if_splits)

lemma mock_ops_simps [simp]:
  "eo_deploy (mock_ops pj y fmt ok now clock) = mock_deploy_workload pj y ok now"
  "eo_remove (mock_ops pj y fmt ok now clock) = mock_remove_workload"
  "eo_status (mock_ops pj y fmt ok now clock) = mock_get_workload_status now"
  by (simp_all add: mock_ops_def)

lemma wm_deployed_insert [simp]:
  "wm_deployed (m \<lparr> wm_deployments := hm_insert i d (wm_deployments m') \<rparr>) = (wm_deployed m')(i \<mapsto> ds_manifest_id d)"
  by (simp add: wm_deployed_def fun_eq_iff)

lemma wm_ok_new:
  assumes "\<forall>(name, e) \<in> set (engines reg). mock_ok e"
  shows "wm_ok (workload_manager_new reg cfg)" "wm_deployed (workload_manager_new reg cfg) = Map.empty"
  using assms
  by (auto simp: wm_ok_def workload_manager_new_def wm_deployed_def get_engine_def dest!: hm_get_SomeD)

text \<open>One engine changes, and with it the table.\<close>

lemma wm_ok_update:
  assumes "wm_ok m" "get_engine (wm_registry m) name = Some e" "mock_ok e'" "hm_wf (wm_deployments m')"
    and "\<And>n. get_engine (wm_registry m') n = (if n = name then Some e' else get_engine (wm_registry m) n)"
    and "\<And>i d. hm_get (wm_deployments m') i = Some d \<Longrightarrow>
       (hm_get (wm_deployments m) i = Some d \<and> (hm_get (me_workloads e) i \<noteq> None \<longrightarrow> hm_get (me_workloads e') i \<noteq> None))
       \<or> (ds_runtime_engine d = name \<and> hm_get (me_workloads e') i \<noteq> None)"
  shows "wm_ok m'"
  unfolding wm_ok_def
proof (intro conjI allI impI)
  fix i d assume d: "hm_get (wm_deployments m') i = Some d"
  show "\<exists>e. get_engine (wm_registry m') (ds_runtime_engine d) = Some e \<and> hm_get (me_workloads e) i \<noteq> None"
  proof (cases "ds_runtime_engine d = name \<and> hm_get (me_workloads e') i \<noteq> None")
    case True
    then show ?thesis by (simp add: assms(5))
  next
    case False
    with assms(6) [OF d] have old: "hm_get (wm_deployments m) i = Some d"
      and kept: "hm_get (me_workloads e) i \<noteq> None \<longrightarrow> hm_get (me_workloads e') i \<noteq> None" by blast+
    from old assms(1) obtain e1 where "get_engine (wm_registry m) (ds_runtime_engine d) = Some e1"
        "hm_get (me_workloads e1) i \<noteq> None" unfolding wm_ok_def by blast
    with kept assms(2,5) show ?thesis by (cases "ds_runtime_engine d = name") auto
  qed
next
  fix n e1 assume "get_engine (wm_registry m') n = Some e1"
  with assms(1,3,5) show "mock_ok e1" unfolding wm_ok_def by (auto split: if_splits)
qed (use assms(4) in simp)

lemma put_engine_same:
  assumes "get_engine (wm_registry m) name = Some e" "wm_ok m"
  shows "wm_ok (put_engine name e m) \<and> wm_deployed (put_engine name e m) = wm_deployed m"
proof
  have "mock_ok e" "hm_wf (wm_deployments m)" using assms by (simp_all add: wm_ok_def)
  then show "wm_ok (put_engine name e m)"
    by (intro wm_ok_update [OF assms(2,1)]) (auto simp del: not_None_eq)
  show "wm_deployed (put_engine name e m) = wm_deployed m" by (simp add: wm_deployed_def fun_eq_iff)
qed

lemma wm_deploy_outcome:
  assumes "wm_ok m" "wm_deploy_workload (mock_ops pj y fmt ok now clock) env mf c cfg m = (m', r)"
  shows "wm_ok m' \<and> (case r of Inl _ \<Rightarrow> wm_deployed m' = wm_deployed m
     | Inr d \<Rightarrow> wm_deployed m' = (wm_deployed m)(ds_workload_id d \<mapsto> mf))"
proof -
  let ?V = "mock_ops pj y fmt ok now clock"
  consider (early) err where "m' = m" "r = Inl err"
    | (engine) name e e' res where "get_engine (wm_registry m) name = Some e"
        "mock_deploy_workload pj y ok now mf c cfg e = (e', res)"
        "(m', r) = (case res of Inl err \<Rightarrow> (put_engine name e' m, Inl (WmRuntimeError err))
           | Inr info \<Rightarrow> (fst (finish_deployment env mf cfg name info (put_engine name e' m)),
                Inr (snd (finish_deployment env mf cfg name info (put_engine name e' m)))))"
    using assms(2) unfolding wm_deploy_workload_def
    by (auto split: sum.splits option.splits prod.splits if_splits)
  then show ?thesis
  proof cases
    case early
    then show ?thesis using assms(1) by simp
  next
    case engine
    have e: "mock_ok e" using assms(1) engine(1) by (auto simp: wm_ok_def)
    show ?thesis
    proof (cases res)
      case (Inl err)
      with engine(2) have "e' = e" using mock_deploy_failed by blast
      with put_engine_same [OF engine(1) assms(1)] show ?thesis using engine(3) Inl by simp
    next
      case (Inr info)
      note grown = mock_deploy_workloads [OF engine(2) [unfolded Inr]]
      have e': "mock_ok e'" using mock_ok_deploy [OF e, of pj y ok now mf c cfg] engine(2) by simp
      have m': "m' = fst (finish_deployment env mf cfg name info (put_engine name e' m))"
        and r: "r = Inr (snd (finish_deployment env mf cfg name info (put_engine name e' m)))"
        using engine(3) Inr by simp_all
      have "wm_ok m'"
        using assms(1) grown
        by (intro wm_ok_update [OF assms(1) engine(1) e'])
          (auto simp: m' finish_deployment_simps wm_ok_def simp del: not_None_eq split: if_splits)
      moreover have "wm_deployed m' = (wm_deployed m)(wi_id info \<mapsto> mf)"
        unfolding wm_deployed_def m' finish_deployment_simps by (auto simp: fun_eq_iff)
      ultimately show ?thesis unfolding r by (simp add: finish_deployment_simps)
    qed
  qed
qed

lemma wm_remove_known:
  assumes "wm_ok m" "wm_deployed m i = Some mf"
  shows "\<exists>m'. wm_remove_workload (mock_ops pj y fmt ok now clock) i m = (m', Inr ()) \<and> wm_ok m'
     \<and> wm_deployed m' = (wm_deployed m)(i := None)"
proof -
  obtain d where d: "hm_get (wm_deployments m) i = Some d" using assms(2) by (auto simp: wm_deployed_def)
  then obtain e w where e: "get_engine (wm_registry m) (ds_runtime_engine d) = Some e"
      "hm_get (me_workloads e) i = Some w"
    using assms(1) unfolding wm_ok_def by blast
  let ?e = "e \<lparr> me_workloads := hm_remove i (me_workloads e) \<rparr>"
  let ?m = "finish_removal i d (put_engine (ds_runtime_engine d) ?e m)"
  have run: "wm_remove_workload (mock_ops pj y fmt ok now clock) i m = (?m, Inr ())"
    by (simp add: wm_remove_workload_def d e mock_remove_workload_def)
  have "mock_ok ?e"
    using mock_ok_remove [of e i] assms(1) e by (auto simp: wm_ok_def mock_remove_workload_def)
  then have "wm_ok ?m"
    using assms(1) by (intro wm_ok_update [OF assms(1) e(1)]) (auto simp: wm_ok_def split: if_splits)
  moreover have "wm_deployed ?m = (wm_deployed m)(i := None)" by (auto simp: wm_deployed_def fun_eq_iff)
  ultimately show ?thesis using run by blast
qed

interpretation wm_table: deployment_table wm_ok wm_deployed "wm_remove_workload (mock_ops pj y fmt ok now clock)"
    "wm_remove_each (mock_ops pj y fmt ok now clock)"
  for pj y fmt ok now clock
  by unfold_locales (simp_all add: wm_remove_known split: prod.splits)

lemma wm_status_outcome:
  assumes "wm_ok m" "wm_get_workload_status (mock_ops pj y fmt ok now clock) i m = (m', r)"
  shows "wm_ok m' \<and> wm_deployed m' = wm_deployed m
     \<and> (case r of Inl _ \<Rightarrow> wm_deployed m i = None | Inr d \<Rightarrow> wm_deployed m i = Some (ds_manifest_id d))"
proof (cases "hm_get (wm_deployments m) i")
  case None
  then show ?thesis using assms by (auto simp: wm_get_workload_status_def wm_deployed_def)
next
  case (Some d)
  obtain e w where e: "get_engine (wm_registry m) (ds_runtime_engine d) = Some e" "hm_get (me_workloads e) i = Some w"
    using assms(1) Some unfolding wm_ok_def by blast
  let ?d = "d \<lparr> ds_status := wi_status (mw_info w), ds_last_updated := now \<rparr>"
  have m': "m' = m \<lparr> wm_deployments := hm_insert i ?d (wm_deployments m) \<rparr>" and r: "r = Inr ?d"
    using assms(2) by (simp_all add: wm_get_workload_status_def Some e mock_get_workload_status_def Let_def)
  have "wm_ok m'" using assms(1) e unfolding m' wm_ok_def by auto
  moreover have "wm_deployed m' = wm_deployed m"
    using Some unfolding m' wm_deployed_insert by (simp add: wm_deployed_def fun_upd_idem)
  ultimately show ?thesis unfolding r by (simp add: wm_deployed_def Some)
qed

lemma wm_exec_simulated:
  assumes ok: "wm_ok m" and run: "wm_exec (mock_ops pj y fmt ok' now clock) env op m = (m', r)"
  shows "wm_ok m' \<and> spec_step op r (wm_deployed m) (wm_deployed m')"
proof (cases op)
  case (Deploy mf c cfg)
  then show ?thesis
    using run wm_deploy_outcome [OF ok]
    by (force simp: wm_exec_def split: prod.splits sum.splits intro: spec_deploy spec_deploy_refused)
next
  case (Remove i)
  show ?thesis
  proof (cases "wm_deployed m i")
    case None
    then show ?thesis using run ok Remove
      by (auto simp: wm_exec_def wm_remove_workload_def wm_deployed_def intro: spec_remove_unknown)
  next
    case (Some mf)
    then show ?thesis using run Remove wm_remove_known [OF ok Some, of pj y fmt ok' now clock]
      by (auto simp: wm_exec_def intro: spec_remove)
  qed
next
  case (RemoveManifest mf)
  let ?ids = "workloads_of_manifest mf m"
  have wf: "hm_wf (wm_deployments m)" using ok by (simp add: wm_ok_def)
  have ids: "set ?ids = {i. wm_deployed m i = Some mf}" "distinct ?ids"
    using wf unfolding workloads_of_manifest_def wm_deployed_def hm_wf_def
    by (force simp: hm_mem_iff [OF wf], simp add: distinct_map_filter)
  obtain m1 where m1: "wm_remove_each (mock_ops pj y fmt ok' now clock) ?ids m = (m1, ?ids)" "wm_ok m1"
      "wm_deployed m1 = wm_deployed m |` (- set ?ids)"
    using wm_table.remove_all_known [OF ok ids(2)] ids(1) by fastforce
  have "m' = m1 \<and> r = Removed ?ids"
    using run m1(1) RemoveManifest
    by (auto simp: wm_exec_def wm_remove_workloads_by_manifest_id_def Let_def split: if_splits)
  then show ?thesis
    using m1(2,3) spec_remove_manifest [OF ids(2,1)] RemoveManifest by (simp add: ids(1) Compl_eq)
next
  case (Status i)
  then show ?thesis
    using run wm_status_outcome [OF ok]
    by (force simp: wm_exec_def split: prod.splits sum.splits intro: spec_status spec_status_unknown)
qed

text \<open>Every state a manager reaches, over engines of any kind.\<close>

inductive wm_reach :: "'e workload_manager \<Rightarrow> 'e workload_manager \<Rightarrow> bool" for m0 where
  reach_start: "wm_reach m0 m0"
| reach_exec: "wm_reach m0 m \<Longrightarrow> wm_reach m0 (fst (wm_exec V env op m))"
| reach_channel: "wm_reach m0 m \<Longrightarrow> wm_reach m0 (set_event_channel m)"

definition never_announced :: "'e workload_manager \<Rightarrow> bool" where
  "never_announced m \<longleftrightarrow> hm_wf (wm_deployments m)
     \<and> (\<forall>i d. hm_get (wm_deployments m) i = Some d \<longrightarrow> \<not> ds_announced_as_provider d)
     \<and> (\<forall>mf. ProviderStopped mf \<notin> set (wm_events m))"

lemma never_announced_send:
  "never_announced m \<Longrightarrow> (\<And>mf. ev \<noteq> ProviderStopped mf) \<Longrightarrow> never_announced (send_event ev m)"
  by (auto simp: never_announced_def send_event_def)

lemma never_announced_put [simp]: "never_announced (put_engine name e m) = never_announced m"
  by (simp add: never_announced_def put_engine_def)

lemma never_announced_announce: "never_announced m \<Longrightarrow> never_announced (fst (wm_announce env mf name m))"
  by (auto simp: never_announced_def wm_announce_def Let_def split: prod.splits sum.splits)

lemma never_announced_finish:
  assumes "never_announced m"
  shows "never_announced (fst (finish_deployment env mf cfg name info m))"
proof -
  define d where "d = \<lparr> ds_workload_id = wi_id info, ds_manifest_id = mf, ds_status = wi_status info,
    ds_runtime_engine = name, ds_announced_as_provider = False, ds_deployed_at = wi_created_at info,
    ds_last_updated = wi_updated_at info, ds_config = cfg \<rparr>"
  define m1 where "m1 = m \<lparr> wm_deployments := hm_insert (wi_id info) d (wm_deployments m) \<rparr>"
  obtain m2 r where m2: "wm_announce env mf name m1 = (m2, r)" by fastforce
  have m1: "never_announced m1" using assms by (auto simp: never_announced_def m1_def d_def)
  then have "never_announced m2" using never_announced_announce [of m1 env mf name] by (simp add: m2)
  with m1 show ?thesis
    unfolding finish_deployment_def Let_def d_def [symmetric] m1_def [symmetric] m2
    by (cases r) (auto intro!: never_announced_send)
qed

lemma never_announced_remove: "never_announced m \<Longrightarrow> never_announced (fst (wm_remove_workload V i m))"
  by (auto simp: wm_remove_workload_def finish_removal_def Let_def never_announced_def send_event_def put_engine_def
      split: option.splits prod.splits sum.splits if_splits)

lemma never_announced_remove_each: "never_announced m \<Longrightarrow> never_announced (fst (wm_remove_each V is m))"
proof (induction V "is" m rule: wm_remove_each.induct)
  case (2 V i "is" m)
  show ?case
    using 2 never_announced_remove [OF "2.prems", of V i] by (auto split: prod.splits sum.splits)
qed simp

lemma never_announced_deploy:
  assumes "never_announced m"
  shows "never_announced (fst (wm_deploy_workload V env mf c cfg m))"
proof -
  obtain m' r where run: "wm_deploy_workload V env mf c cfg m = (m', r)" by fastforce
  consider "m' = m" | name e where "m' = put_engine name e m"
    | name e info d where "finish_deployment env mf cfg name info (put_engine name e m) = (m', d)"
    using run unfolding wm_deploy_workload_def
    by (auto split: sum.splits option.splits prod.splits if_splits)
  then have "never_announced m'" 
    using assms by cases (simp, simp, metis fst_conv never_announced_finish never_announced_put)
  then show ?thesis by (simp add: run)
qed

lemma never_announced_exec: "never_announced m \<Longrightarrow> never_announced (fst (wm_exec V env op m))"
proof (cases op)
  case (Deploy mf c cfg)
  moreover assume "never_announced m"
  ultimately show ?thesis using never_announced_deploy [of m V env mf c cfg]
    by (auto simp: wm_exec_def split: prod.splits sum.splits)
next
  case (Remove i)
  moreover assume "never_announced m"
  ultimately show ?thesis using never_announced_remove [of m V i]
    by (auto simp: wm_exec_def split: prod.splits sum.splits)
next
  case (RemoveManifest mf)
  moreover assume "never_announced m"
  ultimately show ?thesis using never_announced_remove_each [of m V "workloads_of_manifest mf m"]
    by (auto simp: wm_exec_def wm_remove_workloads_by_manifest_id_def Let_def split: prod.splits sum.splits)
next
  case (Status i)
  moreover assume "never_announced m"
  ultimately show ?thesis
    by (auto simp: wm_exec_def wm_get_workload_status_def never_announced_def Let_def
        split: prod.splits sum.splits option.splits)
qed

lemma reach_never_announced: "wm_reach (workload_manager_new reg cfg) m \<Longrightarrow> never_announced m"
proof (induction rule: wm_reach.induct)
  case reach_start
  then show ?case by (simp add: never_announced_def workload_manager_new_def)
next
  case (reach_exec m V env op)
  then show ?case by (simp add: never_announced_exec)
next
  case (reach_channel m)
  then show ?case by (simp add: never_announced_def set_event_channel_def)
qed

section \<open>Properties\<close>

text \<open>
  (C4) Refinement: whatever sequence of deployments, removals, removals by manifest and status
  queries a workload manager over mock engines runs, its answers are those of a map from workload
  ids to manifest ids, and its table is that map.
\<close>

theorem workload_manager_refines:
  assumes "\<forall>(name, e) \<in> set (engines reg). mock_ok e" "wm_run (workload_manager_new reg cfg) evs m"
  shows "spec_run evs (wm_deployed m)"
proof -
  have "wm_ok m \<and> spec_run evs (wm_deployed m)"
    using assms(2)
  proof (induction rule: wm_run.induct)
    case wm_start
    then show ?case using wm_ok_new [OF assms(1)] by (simp add: spec_start)
  next
    case (wm_more evs m pj y fmt ok now clock env op m' r)
    then show ?case using wm_exec_simulated spec_more by blast
  qed
  then show ?thesis ..
qed

text \<open>
  An announcement is never withdrawn: the table keeps the status from before the
  announcement, so in every state reached from a new manager, over engines of any kind, a
  successful removal leaves the providers as they are, no event reports a withdrawal, and the
  statistics count no announced workload.
\<close>

theorem announcement_never_withdrawn:
  assumes "wm_reach (workload_manager_new reg cfg) m"
  shows "wm_providers (fst (wm_remove_workload V i m)) = wm_providers m
    \<and> ProviderStopped mf \<notin> set (wm_events m)
    \<and> ws_announced_providers (wm_get_stats debug_status m) = 0"
proof -
  have "never_announced m" using assms by (rule reach_never_announced)
  then show ?thesis
    by (auto simp: never_announced_def wm_remove_workload_def finish_removal_def wm_get_stats_def Let_def
        hm_values_def filter_empty_conv hm_mem_iff [symmetric] split: option.splits prod.splits sum.splits)
qed

section \<open>Concrete runs\<close>

definition wm_env0 :: wm_env where
  "wm_env0 = \<lparr> we_start_providing = (\<lambda>_. Inr ()), we_announce1 = 0, we_announce2 = 0, we_local_peer = ''p'' \<rparr>"

definition mock_registry0 :: "mock_engine runtime_registry" where
  "mock_registry0 = \<lparr> engines = [(''mock'', mock_new)], default_engine = Some ''mock'' \<rparr>"

definition mock_ops0 :: "mock_engine engine_ops" where
  "mock_ops0 = mock_ops (\<lambda>_. None) (\<lambda>_. True) (\<lambda>_. []) True 7 (\<lambda>_. 9)"

definition manager0 :: "mock_engine workload_manager" where
  "manager0 = workload_manager_new mock_registry0 default_workload_manager_config"

definition manager1 :: "mock_engine workload_manager" where
  "manager1 = fst (wm_exec mock_ops0 wm_env0 (Deploy ''m'' [110] default_deployment_config) manager0)"

lemma manager1_deployed:
  "wm_exec mock_ops0 wm_env0 (Deploy ''m'' [110] default_deployment_config) manager0
     = (manager1, Deployed ''mock-unnamed-m'')"
proof -
  have "snd (wm_exec mock_ops0 wm_env0 (Deploy ''m'' [110] default_deployment_config) manager0)
      = Deployed ''mock-unnamed-m''" by code_simp
  then show ?thesis by (simp add: manager1_def prod_eq_iff)
qed

theorem workload_manager_refines_witness:
  "spec_run [(Deploy ''m'' [110] default_deployment_config, Deployed ''mock-unnamed-m'')] (wm_deployed manager1)"
proof -
  have "wm_run manager0 ([] @ [(Deploy ''m'' [110] default_deployment_config, Deployed ''mock-unnamed-m'')]) manager1"
    using manager1_deployed unfolding mock_ops0_def by (rule wm_more [OF wm_start])
  moreover have "\<forall>(name, e) \<in> set (engines mock_registry0). mock_ok e"
    by (simp add: mock_registry0_def mock_ok_new)
  ultimately show ?thesis
    using workload_manager_refines [of mock_registry0 default_workload_manager_config] unfolding manager0_def by simp
qed

theorem announcement_never_withdrawn_witness:
  "snd (wm_remove_workload mock_ops0 ''mock-unnamed-m'' manager1) = Inr ()
   \<and> hm_get (local_providers (wm_providers (fst (wm_remove_workload mock_ops0 ''mock-unnamed-m'' manager1)))) ''m'' \<noteq> None"
proof -
  have "wm_reach manager0 manager1"
    unfolding manager1_def by (rule reach_exec [OF reach_start])
  from announcement_never_withdrawn [OF this [unfolded manager0_def], of mock_ops0 "''mock-unnamed-m''"]
  have "wm_providers (fst (wm_remove_workload mock_ops0 ''mock-unnamed-m'' manager1)) = wm_providers manager1"
    by blast
  moreover have "hm_get (local_providers (wm_providers manager1)) ''m'' \<noteq> None" by code_simp
  moreover have "snd (wm_remove_workload mock_ops0 ''mock-unnamed-m'' manager1) = Inr ()" by code_simp
  ultimately show ?thesis by simp
qed

end
