(* ===== verification/Command_Host.thy ===== *)
theory Command_Host
  imports Runtime
begin

text \<open>
  What the engines for podman and docker (\<open>machine/src/runtime/engines\<close>) use of the host: child
  processes, temporary files, the clock, the parsers and printers of the libraries. The host is
  an argument: a record of functions over a state of any type. An action reads and changes that
  state and returns a result of the trait; \<open>and_then\<close> is the question mark of the code and
  \<open>match_result\<close> a \<open>match\<close> on a result. Paths are bytes, and only some of them are text.
\<close>

named_theorems keeps_intros "actions that keep an invariant of the host"

section \<open>YAML values\<close>

text \<open>
  The shape of \<open>serde_yaml::Value\<close>: the keys of a mapping are values, a value may carry a tag,
  which the accessors look through, and a number is kept as its text.
\<close>

datatype yaml =
    YNull
  | YBool bool
  | YNumber string
  | YString string
  | YSequence "yaml list"
  | YMapping "(yaml \<times> yaml) list"
  | YTagged string yaml

fun untag :: "yaml \<Rightarrow> yaml" where
  "untag (YTagged t v) = untag v"
| "untag v = v"

definition yaml_as_mapping :: "yaml \<Rightarrow> (yaml \<times> yaml) list option" where
  "yaml_as_mapping v = (case untag v of YMapping m \<Rightarrow> Some m | _ \<Rightarrow> None)"

definition yaml_as_str :: "yaml \<Rightarrow> string option" where
  "yaml_as_str v = (case untag v of YString s \<Rightarrow> Some s | _ \<Rightarrow> None)"

definition yaml_get :: "string \<Rightarrow> yaml \<Rightarrow> yaml option" where
  "yaml_get k v = Option.bind (yaml_as_mapping v) (\<lambda>m. map_of m (YString k))"

fun yaml_path :: "string list \<Rightarrow> yaml \<Rightarrow> yaml option" where
  "yaml_path [] v = Some v"
| "yaml_path (k # ks) v = Option.bind (yaml_get k v) (yaml_path ks)"

definition yaml_get_str :: "string \<Rightarrow> yaml \<Rightarrow> string option" where
  "yaml_get_str k v = Option.bind (yaml_get k v) yaml_as_str"

text \<open>\<open>get_mut\<close> followed by a change of what it points to, and \<open>insert\<close> on a mapping.\<close>

fun yaml_modify :: "string \<Rightarrow> (yaml \<Rightarrow> yaml) \<Rightarrow> yaml \<Rightarrow> yaml" where
  "yaml_modify k f (YMapping m) = YMapping (map (\<lambda>(a, b). (a, if a = YString k then f b else b)) m)"
| "yaml_modify k f (YTagged t v) = YTagged t (yaml_modify k f v)"
| "yaml_modify k f v = v"

fun yaml_insert :: "string \<Rightarrow> yaml \<Rightarrow> yaml \<Rightarrow> yaml" where
  "yaml_insert k x (YMapping m) = YMapping (hm_insert (YString k) x m)"
| "yaml_insert k x (YTagged t v) = YTagged t (yaml_insert k x v)"
| "yaml_insert k x v = v"

lemma map_of_modify:
  "map_of (map (\<lambda>(a, b). (a, if a = k then f b else b)) m) a
     = (if a = k then map_option f (map_of m k) else map_of m a)"
  by (induction m) auto

lemma yaml_get_modify:
  "yaml_get k (yaml_modify j f v) = (if k = j then map_option f (yaml_get k v) else yaml_get k v)"
  by (induction j f v rule: yaml_modify.induct) (auto simp: yaml_get_def yaml_as_mapping_def map_of_modify)

lemma yaml_get_insert:
  "yaml_get k (yaml_insert j x v)
     = (if k = j \<and> yaml_as_mapping v \<noteq> None then Some x else yaml_get k v)"
  by (induction j x v rule: yaml_insert.induct)
    (auto simp: yaml_get_def yaml_as_mapping_def hm_get_def [symmetric])

section \<open>Text\<close>

definition ascii_lower :: "string \<Rightarrow> string" where
  "ascii_lower s = map (\<lambda>c. if 65 \<le> (of_char c :: nat) \<and> (of_char c :: nat) \<le> 90
     then char_of ((of_char c :: nat) + 32) else c) s"

definition path_join :: "string \<Rightarrow> string \<Rightarrow> string" where
  "path_join dir name = (if ends_with dir ''/'' then dir @ name else dir @ ''/'' @ name)"

definition path_to_str :: "string \<Rightarrow> string option" where
  "path_to_str path = (if valid_string path then Some path else None)"

fun json_as_array :: "json \<Rightarrow> json list option" where
  "json_as_array (JArray vs) = Some vs"
| "json_as_array _ = None"

section \<open>The host\<close>

record command =
  cmd_program :: string
  cmd_args :: "string list"
  cmd_env :: "(string \<times> string) list"

record process_output =
  po_success :: bool
  po_stdout :: bytes
  po_stderr :: bytes

record 'h host =
  ho_run :: "command \<Rightarrow> 'h \<Rightarrow> 'h \<times> (string + process_output)"
  ho_new_uuid :: "'h \<Rightarrow> 'h \<times> string"
  ho_temp_dir :: string
  ho_write_file :: "string \<Rightarrow> bytes \<Rightarrow> 'h \<Rightarrow> 'h \<times> (string + unit)"
  ho_remove_file :: "string \<Rightarrow> 'h \<Rightarrow> 'h \<times> (string + unit)"
  ho_now :: "'h \<Rightarrow> 'h \<times> system_time"
  ho_yaml_parse :: "string \<Rightarrow> string + yaml"
  ho_yaml_print :: "yaml \<Rightarrow> string + string"
  ho_json_parse :: "string \<Rightarrow> json option"
  ho_show_f64 :: "f64_bits \<Rightarrow> string"

section \<open>Actions\<close>

type_synonym ('h, 'a) action = "'h \<Rightarrow> 'h \<times> 'a runtime_result"

definition ret :: "'a \<Rightarrow> ('h, 'a) action" where
  "ret x h = (h, Inr x)"

definition raise :: "runtime_error \<Rightarrow> ('h, 'a) action" where
  "raise err h = (h, Inl err)"

definition match_result :: "('h, 'a) action \<Rightarrow> ('a runtime_result \<Rightarrow> ('h, 'b) action) \<Rightarrow> ('h, 'b) action" where
  "match_result f k h = (case f h of (h', r) \<Rightarrow> k r h')"

definition and_then :: "('h, 'a) action \<Rightarrow> ('a \<Rightarrow> ('h, 'b) action) \<Rightarrow> ('h, 'b) action" where
  "and_then f k = match_result f (\<lambda>r. case r of Inl err \<Rightarrow> raise err | Inr x \<Rightarrow> k x)"

definition lift_result :: "'a runtime_result \<Rightarrow> ('h, 'a) action" where
  "lift_result r h = (h, r)"

text \<open>A step of the host that cannot fail, and one whose failure is an input or output error.\<close>

definition lift_step :: "('h \<Rightarrow> 'h \<times> 'a) \<Rightarrow> ('h, 'a) action" where
  "lift_step f h = (case f h of (h', x) \<Rightarrow> (h', Inr x))"

definition lift_io :: "('h \<Rightarrow> 'h \<times> (string + 'a)) \<Rightarrow> ('h, 'a) action" where
  "lift_io f h = (case f h of (h', Inl err) \<Rightarrow> (h', Inl (IoError err)) | (h', Inr x) \<Rightarrow> (h', Inr x))"

definition process_command_output :: "process_output \<Rightarrow> string runtime_result" where
  "process_command_output output =
     (if po_success output then Inr (from_utf8_lossy (po_stdout output))
      else Inl (CommandFailed (from_utf8_lossy (po_stderr output))))"

definition run_process :: "'h host \<Rightarrow> command \<Rightarrow> ('h, string) action" where
  "run_process H c = and_then (lift_io (ho_run H c)) (\<lambda>output. lift_result (process_command_output output))"

definition cleanup_temp_file :: "'h host \<Rightarrow> string \<Rightarrow> ('h, unit) action" where
  "cleanup_temp_file H path = match_result (lift_io (ho_remove_file H path)) (\<lambda>_. ret ())"

lemmas action_defs = ret_def raise_def match_result_def and_then_def lift_result_def lift_step_def lift_io_def

lemma and_then_assoc: "and_then (and_then f g) k = and_then f (\<lambda>x. and_then (g x) k)"
  by (auto simp: fun_eq_iff action_defs split: prod.splits sum.splits)

lemma and_then_ret [simp]: "and_then (ret x) k = k x" "and_then f ret = f"
  by (auto simp: fun_eq_iff action_defs split: prod.splits sum.splits)

lemma and_then_raise [simp]: "and_then (raise err) k = raise err"
  by (auto simp: fun_eq_iff action_defs)

lemma and_then_match:
  "and_then (match_result f g) k = match_result f (\<lambda>r. and_then (g r) k)"
  by (auto simp: fun_eq_iff action_defs split: prod.splits sum.splits)

lemma match_result_cong: "(\<And>r. k r = k' r) \<Longrightarrow> match_result f k = match_result f k'"
  by (simp add: match_result_def fun_eq_iff)

lemma cleanup_result: "snd (cleanup_temp_file H path h) = Inr ()"
  by (simp add: cleanup_temp_file_def action_defs split: prod.splits)

section \<open>Invariants of the host\<close>

definition keeps :: "('h \<Rightarrow> bool) \<Rightarrow> ('h, 'a) action \<Rightarrow> bool" where
  "keeps I f \<longleftrightarrow> (\<forall>h. I h \<longrightarrow> I (fst (f h)))"

lemma keeps_match [keeps_intros]: "keeps I f \<Longrightarrow> (\<And>r. keeps I (k r)) \<Longrightarrow> keeps I (match_result f k)"
  by (auto simp: keeps_def match_result_def split: prod.splits)

lemma keeps_pure [keeps_intros]: "keeps I (ret x)" "keeps I (raise err)" "keeps I (lift_result r)"
  by (simp_all add: keeps_def action_defs)

lemma keeps_and_then [keeps_intros]: "keeps I f \<Longrightarrow> (\<And>x. keeps I (k x)) \<Longrightarrow> keeps I (and_then f k)"
  unfolding and_then_def by (rule keeps_match) (auto split: sum.splits intro: keeps_pure)

text \<open>
  What a client of the host may assume when it watches over the commands: a predicate on host
  states that survives every use of the host but possibly the commands that are not allowed.
\<close>

locale watched_host =
  fixes H :: "'h host" and I :: "'h \<Rightarrow> bool" and allowed :: "command \<Rightarrow> bool"
  assumes run_allowed: "allowed c \<Longrightarrow> I h \<Longrightarrow> I (fst (ho_run H c h))"
    and uuid_kept: "I h \<Longrightarrow> I (fst (ho_new_uuid H h))"
    and write_kept: "I h \<Longrightarrow> I (fst (ho_write_file H path b h))"
    and remove_kept: "I h \<Longrightarrow> I (fst (ho_remove_file H path h))"
    and now_kept: "I h \<Longrightarrow> I (fst (ho_now H h))"
begin

lemma keeps_lift_io: "(\<And>h. I h \<Longrightarrow> I (fst (f h))) \<Longrightarrow> keeps I (lift_io f)"
  unfolding keeps_def lift_io_def by (auto split: prod.splits sum.splits) (metis fst_conv)+

lemma keeps_lift_step: "(\<And>h. I h \<Longrightarrow> I (fst (f h))) \<Longrightarrow> keeps I (lift_step f)"
  unfolding keeps_def lift_step_def by (auto split: prod.splits) (metis fst_conv)

lemma keeps_run: "allowed c \<Longrightarrow> keeps I (run_process H c)"
  unfolding run_process_def by (intro keeps_intros keeps_lift_io run_allowed)

lemma keeps_steps:
  "keeps I (lift_step (ho_new_uuid H))" "keeps I (lift_step (ho_now H))"
  "keeps I (lift_io (ho_write_file H path b))" "keeps I (cleanup_temp_file H path)"
  unfolding cleanup_temp_file_def
  by (intro keeps_intros keeps_lift_io keeps_lift_step uuid_kept now_kept write_kept remove_kept; assumption)+

end

text \<open>A host that keeps the list of the commands it was asked to run.\<close>

definition logged :: "'h host \<Rightarrow> (command list \<times> 'h) host" where
  "logged H =
     \<lparr> ho_run = (\<lambda>c (log, h). case ho_run H c h of (h', r) \<Rightarrow> ((log @ [c], h'), r)),
       ho_new_uuid = (\<lambda>(log, h). case ho_new_uuid H h of (h', r) \<Rightarrow> ((log, h'), r)),
       ho_temp_dir = ho_temp_dir H,
       ho_write_file = (\<lambda>path b (log, h). case ho_write_file H path b h of (h', r) \<Rightarrow> ((log, h'), r)),
       ho_remove_file = (\<lambda>path (log, h). case ho_remove_file H path h of (h', r) \<Rightarrow> ((log, h'), r)),
       ho_now = (\<lambda>(log, h). case ho_now H h of (h', r) \<Rightarrow> ((log, h'), r)),
       ho_yaml_parse = ho_yaml_parse H, ho_yaml_print = ho_yaml_print H,
       ho_json_parse = ho_json_parse H, ho_show_f64 = ho_show_f64 H \<rparr>"

definition all_logged :: "(command \<Rightarrow> bool) \<Rightarrow> command list \<times> 'h \<Rightarrow> bool" where
  "all_logged P s \<longleftrightarrow> (\<forall>c \<in> set (fst s). P c)"

interpretation logged: watched_host "logged H" "all_logged P" P for H :: "'h host" and P
  by unfold_locales (auto simp: logged_def all_logged_def split: prod.splits)

end
