(* ===== verification/Podman_Engine.thy ===== *)
theory Podman_Engine
  imports Command_Host
begin

text \<open>
  The engine for podman, \<open>machine/src/runtime/engines/podman.rs\<close>: its configuration, the two ways
  it runs a command (over a socket, or locally), and every method of the trait, as actions on a
  host. Results of commands that the code only logs are dropped.
\<close>

section \<open>Configuration\<close>

record podman_settings =
  ps_socket_override :: "string option"
  ps_force_remote :: bool

record podman_engine =
  pe_binary :: string
  pe_socket :: "string option"
  pe_force_remote :: bool

definition normalize_socket :: "string \<Rightarrow> string" where
  "normalize_socket value = (if contains_str value ''://'' then value else ''unix://'' @ value)"

definition configure_runtime :: "string option \<Rightarrow> bool \<Rightarrow> podman_settings" where
  "configure_runtime socket force_remote =
     \<lparr> ps_socket_override = Option.bind socket (\<lambda>value.
         if trim value = [] then None else Some (normalize_socket (trim value))),
       ps_force_remote = force_remote \<rparr>"

definition podman_with_binary :: "podman_settings \<Rightarrow> string \<Rightarrow> podman_engine" where
  "podman_with_binary st binary_path =
     \<lparr> pe_binary = binary_path, pe_socket = ps_socket_override st, pe_force_remote = ps_force_remote st \<rparr>"

definition podman_new :: "podman_settings \<Rightarrow> podman_engine" where
  "podman_new st = podman_with_binary st ''podman''"

section \<open>Commands\<close>

definition socket_command :: "podman_engine \<Rightarrow> string \<Rightarrow> string list \<Rightarrow> command" where
  "socket_command e socket args =
     \<lparr> cmd_program = pe_binary e, cmd_args = [''--remote'', ''--url'', socket] @ args,
       cmd_env = [(''CONTAINER_HOST'', socket), (''PODMAN_HOST'', socket)] \<rparr>"

definition local_command :: "podman_engine \<Rightarrow> string list \<Rightarrow> command" where
  "local_command e args = \<lparr> cmd_program = pe_binary e, cmd_args = args, cmd_env = [] \<rparr>"

definition execute_command_with_socket ::
  "'h host \<Rightarrow> podman_engine \<Rightarrow> string list \<Rightarrow> string \<Rightarrow> ('h, string) action" where
  "execute_command_with_socket H e args socket = run_process H (socket_command e socket args)"

definition execute_command_local :: "'h host \<Rightarrow> podman_engine \<Rightarrow> string list \<Rightarrow> ('h, string) action" where
  "execute_command_local H e args = run_process H (local_command e args)"

definition is_socket_connection_error :: "string \<Rightarrow> bool" where
  "is_socket_connection_error stderr =
     (let lower = ascii_lower stderr in
      contains_str lower ''dial unix'' \<or> contains_str lower ''connect:''
      \<or> contains_str lower ''connection refused'' \<or> contains_str lower ''no such file or directory'')"

definition podman_execute :: "'h host \<Rightarrow> podman_engine \<Rightarrow> string list \<Rightarrow> ('h, string) action" where
  "podman_execute H e args =
     (let without_socket =
        (if pe_force_remote e
         then raise (CommandFailed ''Podman socket command failed and fallback disabled'')
         else execute_command_local H e args) in
      case pe_socket e of
        None \<Rightarrow> without_socket
      | Some socket \<Rightarrow>
          match_result (execute_command_with_socket H e args socket) (\<lambda>r.
            case r of
              Inr output \<Rightarrow> ret output
            | Inl err \<Rightarrow>
                if pe_force_remote e then raise err
                else (case err of
                        CommandFailed stderr \<Rightarrow>
                          if is_socket_connection_error stderr then without_socket else raise err
                      | _ \<Rightarrow> raise err)))"

section \<open>Manifests\<close>

definition put_metadata :: "string \<Rightarrow> string option \<Rightarrow> (string, string) hmap \<Rightarrow> (string, string) hmap" where
  "put_metadata k v m = (case v of None \<Rightarrow> m | Some s \<Rightarrow> hm_insert k s m)"

definition podman_manifest_metadata :: "'h host \<Rightarrow> bytes \<Rightarrow> (string, string) hmap" where
  "podman_manifest_metadata H content =
     (case ho_yaml_parse H (from_utf8_lossy content) of
        Inl _ \<Rightarrow> hm_empty
      | Inr doc \<Rightarrow>
          (let m = put_metadata ''kind'' (yaml_get_str ''kind'' doc) hm_empty;
               m = put_metadata ''apiVersion'' (yaml_get_str ''apiVersion'' doc) m in
           case yaml_get ''metadata'' doc of
             None \<Rightarrow> m
           | Some meta \<Rightarrow>
               put_metadata ''namespace'' (yaml_get_str ''namespace'' meta)
                 (put_metadata ''name'' (yaml_get_str ''name'' meta) m)))"

definition podman_workload_id :: "string \<Rightarrow> string" where
  "podman_workload_id manifest_id = ''beemesh-'' @ manifest_id"

text \<open>The two names that \<open>create_temp_manifest_file\<close> writes into the document.\<close>

definition rename_pod :: "string \<Rightarrow> yaml \<Rightarrow> yaml" where
  "rename_pod pod_name doc =
     (let doc = yaml_modify ''metadata'' (yaml_insert ''name'' (YString pod_name)) doc in
      yaml_modify ''spec'' (yaml_modify ''template'' (yaml_modify ''metadata''
        (yaml_insert ''name'' (YString (pod_name @ ''-pod''))))) doc)"

definition podman_temp_manifest :: "'h host \<Rightarrow> bytes \<Rightarrow> string \<Rightarrow> ('h, string) action" where
  "podman_temp_manifest H content manifest_id =
     and_then (lift_step (ho_new_uuid H)) (\<lambda>uuid.
       let temp_file = path_join (ho_temp_dir H) (''beemesh-manifest-'' @ uuid @ ''.yaml'') in
       case ho_yaml_parse H (from_utf8_lossy content) of
         Inl err \<Rightarrow> raise (InvalidManifest (''YAML parse error: '' @ err))
       | Inr doc \<Rightarrow>
           (case ho_yaml_print H (rename_pod (''beemesh-'' @ manifest_id) doc) of
              Inl err \<Rightarrow> raise (InvalidManifest (''YAML serialize error: '' @ err))
            | Inr modified \<Rightarrow>
                and_then (lift_io (ho_write_file H temp_file (bytes_of_string modified)))
                  (\<lambda>_. ret temp_file)))"

definition podman_validate_manifest :: "'h host \<Rightarrow> bytes \<Rightarrow> unit runtime_result" where
  "podman_validate_manifest H content =
     (case ho_yaml_parse H (from_utf8_lossy content) of
        Inl err \<Rightarrow> Inl (InvalidManifest (''YAML parse error: '' @ err))
      | Inr doc \<Rightarrow>
          if yaml_get ''apiVersion'' doc = None then Inl (InvalidManifest ''Missing apiVersion field'')
          else if yaml_get ''kind'' doc = None then Inl (InvalidManifest ''Missing kind field'')
          else Inr ())"

section \<open>Deployment\<close>

text \<open>The ports are never read from the output: the list is empty whatever podman answers.\<close>

definition podman_port_mappings :: "'h host \<Rightarrow> podman_engine \<Rightarrow> string \<Rightarrow> ('h, port_mapping list) action" where
  "podman_port_mappings H e pod_name =
     match_result (podman_execute H e [''pod'', ''inspect'', pod_name @ ''-pod'', ''--format'', ''json'']) (\<lambda>r.
       case r of
         Inr _ \<Rightarrow> ret []
       | Inl _ \<Rightarrow>
           match_result (podman_execute H e [''pod'', ''inspect'', pod_name, ''--format'', ''json''])
             (\<lambda>_. ret []))"

definition runtime_option_args :: "string \<times> string \<Rightarrow> string list" where
  "runtime_option_args kv =
     (case kv of (key, value) \<Rightarrow>
        if key = ''network'' then [''--network'', value]
        else if key = ''volume'' then [''--volume'', value]
        else if key = ''security-opt'' then [''--security-opt'', value]
        else [])"

definition play_args :: "'h host \<Rightarrow> deployment_config \<Rightarrow> string \<Rightarrow> string list" where
  "play_args H config temp_file =
     [''kube'', ''play'', ''--replace'']
     @ (if dc_replicas config > 1 then [''--replicas'', to_decimal (unat (dc_replicas config))] else [])
     @ (case rl_memory (dc_resources config) of
          None \<Rightarrow> [] | Some memory \<Rightarrow> [''--memory'', to_decimal (unat memory) @ ''b''])
     @ (case rl_cpu (dc_resources config) of
          None \<Rightarrow> [] | Some cpu \<Rightarrow> [''--cpus'', ho_show_f64 H cpu])
     @ concat (map runtime_option_args (dc_runtime_options config))
     @ [temp_file]"

definition play_and_report ::
  "'h host \<Rightarrow> podman_engine \<Rightarrow> string \<Rightarrow> string list \<Rightarrow> string \<Rightarrow> (string, string) hmap
     \<Rightarrow> ('h, workload_info) action" where
  "play_and_report H e manifest_id args temp_file metadata =
     match_result (podman_execute H e args) (\<lambda>r.
       and_then (cleanup_temp_file H temp_file) (\<lambda>_.
         case r of
           Inl err \<Rightarrow> raise (DeploymentFailed (''Podman deployment failed: '' @ display_runtime_error err))
         | Inr _ \<Rightarrow>
             and_then (podman_port_mappings H e (''beemesh-'' @ manifest_id)) (\<lambda>ports.
               and_then (lift_step (ho_now H)) (\<lambda>now.
                 ret \<lparr> wi_id = podman_workload_id manifest_id, wi_manifest_id = manifest_id,
                       wi_status = Running, wi_metadata = metadata,
                       wi_created_at = now, wi_updated_at = now, wi_ports = ports \<rparr>))))"

definition podman_deploy_workload ::
  "'h host \<Rightarrow> podman_engine \<Rightarrow> string \<Rightarrow> bytes \<Rightarrow> deployment_config \<Rightarrow> ('h, workload_info) action" where
  "podman_deploy_workload H e manifest_id content config =
     and_then (lift_result (podman_validate_manifest H content)) (\<lambda>_.
       and_then (podman_temp_manifest H content manifest_id) (\<lambda>temp_file.
         case path_to_str temp_file of
           None \<Rightarrow> raise (InvalidManifest ''Invalid temporary file path'')
         | Some path \<Rightarrow>
             play_and_report H e manifest_id (play_args H config path) temp_file
               (podman_manifest_metadata H content)))"

text \<open>With a peer, a path that is no text is a panic.\<close>

definition podman_deploy_with_peer ::
  "'h host \<Rightarrow> podman_engine \<Rightarrow> string \<Rightarrow> bytes \<Rightarrow> deployment_config \<Rightarrow> string
     \<Rightarrow> 'h \<Rightarrow> 'h \<times> workload_info runtime_result option" where
  "podman_deploy_with_peer H e manifest_id content config local_peer_id h =
     (case and_then (lift_result (podman_validate_manifest H content))
             (\<lambda>_. podman_temp_manifest H content manifest_id) h of
        (h', Inl err) \<Rightarrow> (h', Some (Inl err))
      | (h', Inr temp_file) \<Rightarrow>
          (case path_to_str temp_file of
             None \<Rightarrow> (h', None)
           | Some path \<Rightarrow>
               apsnd Some (play_and_report H e manifest_id [''kube'', ''play'', ''--replace'', path] temp_file
                 (hm_insert ''local_peer_id'' local_peer_id (podman_manifest_metadata H content)) h')))"

section \<open>The other methods\<close>

definition podman_is_available :: "'h host \<Rightarrow> podman_engine \<Rightarrow> 'h \<Rightarrow> 'h \<times> bool" where
  "podman_is_available H e h =
     (case pe_socket e of
        Some socket \<Rightarrow>
          (case execute_command_with_socket H e [''--version''] socket h of (h', r) \<Rightarrow> (h', \<not> isl r))
      | None \<Rightarrow>
          if pe_force_remote e then (h, False)
          else (case execute_command_local H e [''--version''] h of (h', r) \<Rightarrow> (h', \<not> isl r)))"

definition podman_get_workload_status :: "'h host \<Rightarrow> podman_engine \<Rightarrow> string \<Rightarrow> ('h, workload_info) action" where
  "podman_get_workload_status H e workload_id =
     and_then (podman_execute H e [''pod'', ''ls'', ''--format'', ''json'']) (\<lambda>_.
       and_then (lift_step (ho_now H)) (\<lambda>now.
         ret \<lparr> wi_id = workload_id, wi_manifest_id = ''unknown'', wi_status = Unknown,
               wi_metadata = hm_empty, wi_created_at = now, wi_updated_at = now, wi_ports = [] \<rparr>))"

definition pod_manifest_id :: "string \<Rightarrow> string" where
  "pod_manifest_id pod_name =
     (let stripped = (case strip_prefix pod_name ''beemesh-'' of Some s \<Rightarrow> s | None \<Rightarrow> pod_name) in
      if ends_with pod_name ''-pod''
      then (case strip_suffix stripped ''-pod'' of Some s \<Rightarrow> s | None \<Rightarrow> pod_name)
      else stripped)"

definition pod_status :: "json \<Rightarrow> workload_status" where
  "pod_status pod =
     (case json_get_str ''Status'' pod of
        None \<Rightarrow> Unknown
      | Some s \<Rightarrow>
          if s = ''Running'' then Running
          else if s = ''Stopped'' \<or> s = ''Exited'' then Stopped
          else if s = ''Error'' then Failed ''Pod in error state''
          else if s = ''Failed'' then Failed ''Pod failed''
          else Unknown)"

definition pod_labels :: "json \<Rightarrow> (string, string) hmap" where
  "pod_labels pod =
     (case Option.bind (json_get ''Labels'' pod) json_as_object of
        None \<Rightarrow> hm_empty
      | Some labels \<Rightarrow> fold (\<lambda>(k, v). put_metadata k (json_as_str v)) labels hm_empty)"

text \<open>
  \<open>checked_add\<close> fails from \<open>2^63\<close> seconds on; a text that is not a number of seconds, such as a
  date, counts as the epoch.
\<close>

definition pod_created :: "json \<Rightarrow> system_time option" where
  "pod_created pod =
     Option.bind (json_get_str ''Created'' pod) (\<lambda>s.
       let secs = (case parse_unsigned 64 s of Some n \<Rightarrow> n | None \<Rightarrow> 0) in
       if secs < 2 ^ 63 then Some (secs * 1000000000) else None)"

definition workload_of_pod :: "'h host \<Rightarrow> string \<Rightarrow> json \<Rightarrow> ('h, workload_info) action" where
  "workload_of_pod H pod_name pod =
     and_then (case pod_created pod of Some t \<Rightarrow> ret t | None \<Rightarrow> lift_step (ho_now H)) (\<lambda>created_at.
       and_then (lift_step (ho_now H)) (\<lambda>now.
         ret \<lparr> wi_id = ''beemesh-'' @ pod_manifest_id pod_name, wi_manifest_id = pod_manifest_id pod_name,
               wi_status = pod_status pod, wi_metadata = pod_labels pod,
               wi_created_at = created_at, wi_updated_at = now, wi_ports = [] \<rparr>))"

fun workloads_of_pods :: "'h host \<Rightarrow> json list \<Rightarrow> ('h, workload_info list) action" where
  "workloads_of_pods H [] = ret []"
| "workloads_of_pods H (pod # pods) =
     (case json_get_str ''Name'' pod of
        Some pod_name \<Rightarrow>
          if starts_with pod_name ''beemesh-''
          then and_then (workload_of_pod H pod_name pod) (\<lambda>w.
                 and_then (workloads_of_pods H pods) (\<lambda>ws. ret (w # ws)))
          else workloads_of_pods H pods
      | None \<Rightarrow> workloads_of_pods H pods)"

definition podman_list_workloads :: "'h host \<Rightarrow> podman_engine \<Rightarrow> ('h, workload_info list) action" where
  "podman_list_workloads H e =
     and_then (podman_execute H e [''pod'', ''ls'', ''--format'', ''json'']) (\<lambda>output.
       if trim output = [] then ret []
       else (case ho_json_parse H output of
               None \<Rightarrow> ret []
             | Some v \<Rightarrow>
                 (case json_as_array v of
                    None \<Rightarrow> ret []
                  | Some pods \<Rightarrow> workloads_of_pods H pods)))"

fun remove_listed :: "'h host \<Rightarrow> podman_engine \<Rightarrow> string list \<Rightarrow> ('h, unit) action" where
  "remove_listed H e [] = ret ()"
| "remove_listed H e (line # rest) =
     (let pod_id = trim line in
      if pod_id = [] then remove_listed H e rest
      else match_result (podman_execute H e [''pod'', ''rm'', ''-f'', pod_id])
             (\<lambda>_. remove_listed H e rest))"

definition podman_remove_workload :: "'h host \<Rightarrow> podman_engine \<Rightarrow> string \<Rightarrow> ('h, unit) action" where
  "podman_remove_workload H e workload_id =
     match_result (podman_execute H e [''pod'', ''rm'', ''-f'', workload_id @ ''-pod'']) (\<lambda>r.
       case r of
         Inr _ \<Rightarrow> ret ()
       | Inl _ \<Rightarrow>
           match_result (podman_execute H e [''pod'', ''rm'', ''-f'', workload_id]) (\<lambda>r.
             case r of
               Inr _ \<Rightarrow> ret ()
             | Inl _ \<Rightarrow>
                 and_then (podman_execute H e
                     [''pod'', ''ls'', ''-q'', ''--filter'', ''name='' @ workload_id])
                   (\<lambda>output. remove_listed H e (lines output))))"

definition podman_get_workload_logs ::
  "'h host \<Rightarrow> podman_engine \<Rightarrow> string \<Rightarrow> nat option \<Rightarrow> ('h, string) action" where
  "podman_get_workload_logs H e workload_id tail =
     match_result (podman_execute H e
         ([''pod'', ''logs''] @ (case tail of None \<Rightarrow> [] | Some n \<Rightarrow> [''--tail'', to_decimal n]) @ [workload_id]))
       (\<lambda>r. case r of
              Inr logs \<Rightarrow> ret logs
            | Inl err \<Rightarrow> ret (''Failed to retrieve logs: '' @ display_runtime_error err))"

text \<open>The first name that can be exported, or the last error.\<close>

fun export_first ::
  "'h host \<Rightarrow> podman_engine \<Rightarrow> string list \<Rightarrow> runtime_error option \<Rightarrow> 'h
     \<Rightarrow> 'h \<times> (runtime_error option + string)" where
  "export_first H e [] last_error h = (h, Inl last_error)"
| "export_first H e (name # names) last_error h =
     (case podman_execute H e [''generate'', ''kube'', name] h of
        (h', Inr manifest_yaml) \<Rightarrow> (h', Inr manifest_yaml)
      | (h', Inl err) \<Rightarrow> export_first H e names (Some err) h')"

definition export_failure :: "string \<Rightarrow> runtime_error option \<Rightarrow> runtime_error" where
  "export_failure workload_id last_error =
     WorkloadNotFound
       (case last_error of
          Some err \<Rightarrow> ''Failed to export manifest for workload '' @ workload_id @ '': '' @ display_runtime_error err
        | None \<Rightarrow> ''No running pod found for workload '' @ workload_id)"

definition podman_export_manifest :: "'h host \<Rightarrow> podman_engine \<Rightarrow> string \<Rightarrow> ('h, bytes) action" where
  "podman_export_manifest H e workload_id h =
     (case export_first H e [workload_id @ ''-pod'', workload_id] None h of
        (h', Inr manifest_yaml) \<Rightarrow> (h', Inr (bytes_of_string manifest_yaml))
      | (h', Inl last_error) \<Rightarrow>
          (case podman_execute H e
                 [''pod'', ''ls'', ''--format'', ''{{.Name}}'', ''--filter'', ''name='' @ workload_id] h' of
             (h'', Inl err) \<Rightarrow> (h'', Inl (export_failure workload_id (Some err)))
           | (h'', Inr output) \<Rightarrow>
               (case export_first H e
                      (filter (\<lambda>name. name \<noteq> [] \<and> contains_str name workload_id) (map trim (lines output)))
                      last_error h'' of
                  (h3, Inr manifest_yaml) \<Rightarrow> (h3, Inr (bytes_of_string manifest_yaml))
                | (h3, Inl last_error) \<Rightarrow> (h3, Inl (export_failure workload_id last_error)))))"

section \<open>Which commands the engine runs\<close>

text \<open>A call of a method of the trait, and what it does to the host.\<close>

datatype podman_call =
    CallIsAvailable
  | CallDeploy string bytes deployment_config
  | CallDeployWithPeer string bytes deployment_config string
  | CallStatus string
  | CallList
  | CallRemove string
  | CallLogs string "nat option"
  | CallExport string

definition podman_perform :: "'h host \<Rightarrow> podman_engine \<Rightarrow> podman_call \<Rightarrow> 'h \<Rightarrow> 'h" where
  "podman_perform H e call h =
     (case call of
        CallIsAvailable \<Rightarrow> fst (podman_is_available H e h)
      | CallDeploy m c cfg \<Rightarrow> fst (podman_deploy_workload H e m c cfg h)
      | CallDeployWithPeer m c cfg peer \<Rightarrow> fst (podman_deploy_with_peer H e m c cfg peer h)
      | CallStatus i \<Rightarrow> fst (podman_get_workload_status H e i h)
      | CallList \<Rightarrow> fst (podman_list_workloads H e h)
      | CallRemove i \<Rightarrow> fst (podman_remove_workload H e i h)
      | CallLogs i n \<Rightarrow> fst (podman_get_workload_logs H e i n h)
      | CallExport i \<Rightarrow> fst (podman_export_manifest H e i h))"

text \<open>
  The engine against a watched host: if commands over its socket are allowed, and local ones
  unless it is forced to be remote, every method keeps what is watched.
\<close>

locale podman_client = watched_host H I allowed
  for H :: "'h host" and I :: "'h \<Rightarrow> bool" and allowed :: "command \<Rightarrow> bool" +
  fixes e :: podman_engine
  assumes socket_allowed: "pe_socket e = Some s \<Longrightarrow> allowed (socket_command e s args)"
    and local_allowed: "\<not> pe_force_remote e \<Longrightarrow> allowed (local_command e args)"
begin

lemma keeps_execute: "keeps I (podman_execute H e args)"
  unfolding podman_execute_def execute_command_with_socket_def execute_command_local_def Let_def
  by (auto split: option.splits sum.splits runtime_error.splits
      intro!: keeps_intros keeps_run socket_allowed local_allowed)

lemma keeps_play: "keeps I (play_and_report H e m args f md)"
  unfolding play_and_report_def podman_port_mappings_def
  by (auto split: sum.splits intro!: keeps_intros keeps_execute keeps_steps)

lemma keeps_temp_manifest: "keeps I (podman_temp_manifest H content m)"
  unfolding podman_temp_manifest_def Let_def
  by (auto split: sum.splits intro!: keeps_intros keeps_steps)

lemma keeps_workloads_of_pods: "keeps I (workloads_of_pods H pods)"
  by (induction pods)
    (auto simp: workload_of_pod_def split: option.splits intro!: keeps_intros keeps_steps)

lemma keeps_remove_listed: "keeps I (remove_listed H e ls)"
  by (induction ls) (auto simp: Let_def intro!: keeps_intros keeps_execute)

lemma export_first_kept: "I h \<Longrightarrow> I (fst (export_first H e names le h))"
proof (induction names arbitrary: le h)
  case (Cons name names)
  have "I (fst (podman_execute H e [''generate'', ''kube'', name] h))"
    using keeps_execute Cons.prems unfolding keeps_def by blast
  then show ?case using Cons.IH by (auto split: prod.splits sum.splits)
qed simp

lemma kept_case:
  "I (fst x) \<Longrightarrow> I (fst (case x of (h, Inl l) \<Rightarrow> (h, f l) | (h, Inr r) \<Rightarrow> (h, g r)))"
  by (auto split: prod.splits sum.splits)

lemma export_kept:
  assumes "I h"
  shows "I (fst (podman_export_manifest H e i h))"
proof -
  obtain h1 r1 where 1: "export_first H e [i @ ''-pod'', i] None h = (h1, r1)" by fastforce
  obtain h2 r2 where 2: "podman_execute H e
      [''pod'', ''ls'', ''--format'', ''{{.Name}}'', ''--filter'', ''name='' @ i] h1 = (h2, r2)" by fastforce
  have "I h1" using export_first_kept [OF assms] 1 by (metis fst_conv)
  moreover from this have "I h2" using keeps_execute 2 unfolding keeps_def by (metis fst_conv)
  moreover from this have "I (fst (export_first H e names le h2))" for names le by (rule export_first_kept)
  ultimately show ?thesis
    unfolding podman_export_manifest_def 1 prod.case
    by (cases r1; cases r2) (simp_all add: 2 [simplified] kept_case)
qed

lemma available_kept: "I h \<Longrightarrow> I (fst (podman_is_available H e h))"
  unfolding podman_is_available_def execute_command_with_socket_def execute_command_local_def
  using keeps_run [OF socket_allowed] keeps_run [OF local_allowed] unfolding keeps_def
  by (auto split: prod.splits option.splits) (metis fst_conv)+

lemma with_peer_kept:
  assumes "I h"
  shows "I (fst (podman_deploy_with_peer H e m c cfg peer h))"
proof -
  obtain h' r where made: "and_then (lift_result (podman_validate_manifest H c)) (\<lambda>_. podman_temp_manifest H c m) h = (h', r)"
    by fastforce
  have "keeps I (and_then (lift_result (podman_validate_manifest H c)) (\<lambda>_. podman_temp_manifest H c m))"
    by (intro keeps_intros keeps_temp_manifest)
  then have "I h'" using assms made unfolding keeps_def by (metis fst_conv)
  then have "I (fst (play_and_report H e m args f md h'))" for args f md using keeps_play unfolding keeps_def by blast
  with \<open>I h'\<close> show ?thesis by (simp add: podman_deploy_with_peer_def made split: sum.split option.split)
qed

lemma perform_kept: "I h \<Longrightarrow> I (podman_perform H e call h)"
proof -
  have "keeps I (podman_deploy_workload H e m c cfg)"
    "keeps I (podman_get_workload_status H e i)" "keeps I (podman_list_workloads H e)"
    "keeps I (podman_remove_workload H e i)" "keeps I (podman_get_workload_logs H e i n)" for m c cfg i n
    unfolding podman_deploy_workload_def podman_get_workload_status_def
      podman_list_workloads_def podman_remove_workload_def podman_get_workload_logs_def
    by (auto split: sum.splits option.splits intro!: keeps_intros keeps_execute keeps_steps keeps_play
        keeps_temp_manifest keeps_workloads_of_pods keeps_remove_listed)
  then show "I h \<Longrightarrow> I (podman_perform H e call h)"
    unfolding podman_perform_def keeps_def
    by (auto split: podman_call.splits intro: export_kept available_kept with_peer_kept)
qed

end

definition podman_allowed :: "podman_engine \<Rightarrow> command \<Rightarrow> bool" where
  "podman_allowed e c \<longleftrightarrow> (\<exists>s args. pe_socket e = Some s \<and> c = socket_command e s args)
     \<or> (\<not> pe_force_remote e \<and> (\<exists>args. c = local_command e args))"

interpretation podman_log: podman_client "logged H" "all_logged (podman_allowed e)" "podman_allowed e" e
  for H :: "'h host" and e
  by unfold_locales (auto simp: podman_allowed_def)

section \<open>Names\<close>

lemma podman_name_suffix: "pod_manifest_id (podman_workload_id m @ ''-pod'') = m"
proof -
  have "ends_with (podman_workload_id m @ ''-pod'') ''-pod''" unfolding ends_with_iff by blast
  moreover have "strip_prefix (podman_workload_id m @ ''-pod'') ''beemesh-'' = Some (m @ ''-pod'')"
    unfolding podman_workload_id_def append_assoc by (rule strip_prefix_append)
  ultimately show ?thesis by (simp add: pod_manifest_id_def)
qed

lemma podman_name_plain:
  "pod_manifest_id (podman_workload_id m) = m \<longleftrightarrow> \<not> ends_with (podman_workload_id m) ''-pod''"
proof -
  have pre: "strip_prefix (podman_workload_id m) ''beemesh-'' = Some m"
    unfolding podman_workload_id_def by (rule strip_prefix_append)
  have "(case strip_suffix m ''-pod'' of Some s \<Rightarrow> s | None \<Rightarrow> podman_workload_id m) \<noteq> m"
    by (auto simp: strip_suffix_def podman_workload_id_def ends_with_iff split: if_splits)
  then show ?thesis by (simp add: pod_manifest_id_def pre)
qed

section \<open>Properties\<close>

definition connection_failed :: "'h host \<Rightarrow> command \<Rightarrow> 'h \<Rightarrow> bool" where
  "connection_failed H c h =
     (case snd (ho_run H c h) of
        Inl _ \<Rightarrow> False
      | Inr out \<Rightarrow> \<not> po_success out \<and> is_socket_connection_error (from_utf8_lossy (po_stderr out)))"

text \<open>
  (C27) An engine that is forced to be remote never runs a command on the local podman: whatever
  method is called, on whatever host, every command goes over the configured socket, and without
  a socket none is run.
\<close>

theorem force_remote_never_local:
  assumes "pe_force_remote e" "c \<in> set (fst (podman_perform (logged H) e call ([], h)))"
  shows "\<exists>socket args. pe_socket e = Some socket \<and> c = socket_command e socket args"
proof -
  have "all_logged (podman_allowed e) (podman_perform (logged H) e call ([], h))"
    by (rule podman_log.perform_kept) (simp add: all_logged_def)
  with assms show ?thesis by (auto simp: all_logged_def podman_allowed_def)
qed

text \<open>
  The commands one request for a command leads to, exactly: with a socket the remote one,
  followed by the local one only if the remote one ran, failed, and its error output reads like a
  failed connection; without a socket the local one; no local one when the engine is forced to be
  remote.
\<close>

theorem commands_of_execute:
  "fst (fst (podman_execute (logged H) e args (log, h))) =
     log @ (case pe_socket e of
              None \<Rightarrow> if pe_force_remote e then [] else [local_command e args]
            | Some s \<Rightarrow> socket_command e s args #
                (if \<not> pe_force_remote e \<and> connection_failed H (socket_command e s args) h
                 then [local_command e args] else []))"
  by (auto simp: podman_execute_def execute_command_with_socket_def execute_command_local_def run_process_def
      process_command_output_def connection_failed_def logged_def action_defs Let_def
      split: option.splits prod.splits sum.splits if_splits)

text \<open>
  The names a deployment writes into a manifest are read back from a listing of the pods:
  from the name of a pod template always, from the name of the object itself exactly if the
  workload id does not end in \<open>-pod\<close>.
\<close>

theorem pod_names_read_back:
  assumes "yaml_path [''metadata''] doc = Some md" "yaml_as_mapping md \<noteq> None"
    and "yaml_path [''spec'', ''template'', ''metadata''] doc = Some tmd" "yaml_as_mapping tmd \<noteq> None"
  shows "\<exists>name pod_name.
      Option.bind (yaml_path [''metadata'', ''name''] (rename_pod (podman_workload_id m) doc)) yaml_as_str = Some name
    \<and> Option.bind (yaml_path [''spec'', ''template'', ''metadata'', ''name''] (rename_pod (podman_workload_id m) doc))
        yaml_as_str = Some pod_name
    \<and> pod_manifest_id pod_name = m
    \<and> (pod_manifest_id name = m \<longleftrightarrow> \<not> ends_with name ''-pod'')"
proof -
  have "Option.bind (yaml_path [''metadata'', ''name''] (rename_pod (podman_workload_id m) doc)) yaml_as_str
      = Some (podman_workload_id m)"
    using assms(1,2) by (auto simp: rename_pod_def yaml_get_modify yaml_get_insert yaml_as_str_def bind_eq_Some_conv)
  moreover have "Option.bind (yaml_path [''spec'', ''template'', ''metadata'', ''name'']
      (rename_pod (podman_workload_id m) doc)) yaml_as_str = Some (podman_workload_id m @ ''-pod'')"
    using assms(3,4) by (auto simp: rename_pod_def yaml_get_modify yaml_get_insert yaml_as_str_def bind_eq_Some_conv)
  ultimately show ?thesis using podman_name_suffix podman_name_plain by blast
qed

section \<open>Examples\<close>

definition silent_host :: "unit host" where
  "silent_host =
     \<lparr> ho_run = (\<lambda>_ h. (h, Inr \<lparr> po_success = True, po_stdout = [], po_stderr = [] \<rparr>)),
       ho_new_uuid = (\<lambda>h. (h, ''u'')), ho_temp_dir = ''/tmp'',
       ho_write_file = (\<lambda>_ _ h. (h, Inr ())), ho_remove_file = (\<lambda>_ h. (h, Inr ())), ho_now = (\<lambda>h. (h, 5)),
       ho_yaml_parse = (\<lambda>_. Inr (YMapping [(YString ''services'', YNull), (YString ''kind'', YNull),
         (YString ''apiVersion'', YNull)])),
       ho_yaml_print = (\<lambda>_. Inr []), ho_json_parse = (\<lambda>_. None), ho_show_f64 = (\<lambda>_. []) \<rparr>"

definition remote_engine :: podman_engine where
  "remote_engine = podman_new (configure_runtime (Some '' /run/podman.sock'') True)"

theorem force_remote_never_local_witness:
  "pe_force_remote remote_engine
   \<and> (\<exists>c \<in> set (fst (podman_perform (logged silent_host) remote_engine (CallRemove ''w'') ([], ()))).
        \<exists>socket args. pe_socket remote_engine = Some socket \<and> c = socket_command remote_engine socket args)"
proof -
  have force: "pe_force_remote remote_engine" by code_simp
  have "set (fst (podman_perform (logged silent_host) remote_engine (CallRemove ''w'') ([], ()))) \<noteq> {}"
    by code_simp
  then obtain c where c: "c \<in> set (fst (podman_perform (logged silent_host) remote_engine (CallRemove ''w'') ([], ())))"
    unfolding ex_in_conv [symmetric] by (rule exE)
  from force_remote_never_local [OF force c] force c show ?thesis by blast
qed

definition deployment_doc :: yaml where
  "deployment_doc = YMapping [(YString ''metadata'', YMapping []), (YString ''spec'',
     YMapping [(YString ''template'', YMapping [(YString ''metadata'', YTagged ''t'' (YMapping []))])])]"

theorem pod_names_read_back_witness:
  "\<exists>name pod_name.
      Option.bind (yaml_path [''metadata'', ''name''] (rename_pod (podman_workload_id ''a'') deployment_doc))
        yaml_as_str = Some name
    \<and> Option.bind (yaml_path [''spec'', ''template'', ''metadata'', ''name'']
        (rename_pod (podman_workload_id ''a'') deployment_doc)) yaml_as_str = Some pod_name
    \<and> pod_manifest_id pod_name = ''a'' \<and> (pod_manifest_id name = ''a'' \<longleftrightarrow> \<not> ends_with name ''-pod'')"
proof -
  have "yaml_path [''metadata''] deployment_doc = Some (YMapping [])"
    "yaml_path [''spec'', ''template'', ''metadata''] deployment_doc = Some (YTagged ''t'' (YMapping []))"
    "yaml_as_mapping (YMapping []) \<noteq> None" "yaml_as_mapping (YTagged ''t'' (YMapping [])) \<noteq> None"
    by code_simp+
  then show ?thesis using pod_names_read_back [of deployment_doc "YMapping []" _ "''a''"] by blast
qed

end
