(* ===== verification/Docker_Engine.thy ===== *)
theory Docker_Engine
  imports Command_Host
begin

text \<open>
  The engine for docker, \<open>machine/src/runtime/engines/docker.rs\<close>: manifests are compose files and
  a workload is a compose project named after it. The methods are actions on a host.
\<close>

record docker_engine =
  de_binary :: string

definition docker_with_binary :: "string \<Rightarrow> docker_engine" where
  "docker_with_binary binary_path = \<lparr> de_binary = binary_path \<rparr>"

definition docker_new :: docker_engine where
  "docker_new = docker_with_binary ''docker''"

definition docker_command :: "docker_engine \<Rightarrow> string list \<Rightarrow> command" where
  "docker_command e args = \<lparr> cmd_program = de_binary e, cmd_args = args, cmd_env = [] \<rparr>"

definition docker_execute :: "'h host \<Rightarrow> docker_engine \<Rightarrow> string list \<Rightarrow> ('h, string) action" where
  "docker_execute H e args = run_process H (docker_command e args)"

section \<open>Manifests\<close>

definition docker_manifest_metadata :: "'h host \<Rightarrow> bytes \<Rightarrow> (string, string) hmap" where
  "docker_manifest_metadata H content =
     (case ho_yaml_parse H (from_utf8_lossy content) of
        Inl _ \<Rightarrow> hm_empty
      | Inr doc \<Rightarrow>
          (let m = (case yaml_get_str ''version'' doc of
                      Some version \<Rightarrow> hm_insert ''version'' version hm_empty | None \<Rightarrow> hm_empty);
               m = (case Option.bind (yaml_get ''services'' doc) yaml_as_mapping of
                      Some services \<Rightarrow>
                        hm_insert ''services'' (join '','' (List.map_filter (yaml_as_str \<circ> fst) services)) m
                    | None \<Rightarrow> m) in
           case Option.bind (yaml_get ''metadata'' doc) yaml_as_mapping of
             Some meta \<Rightarrow>
               (case Option.bind (map_of meta (YString ''name'')) yaml_as_str of
                  Some name \<Rightarrow> hm_insert ''name'' name m | None \<Rightarrow> m)
           | None \<Rightarrow> m))"

definition docker_workload_id :: "'h host \<Rightarrow> string \<Rightarrow> bytes \<Rightarrow> string" where
  "docker_workload_id H manifest_id content =
     ''beemesh-'' @ (case hm_get (docker_manifest_metadata H content) ''name'' of
                       Some name \<Rightarrow> name | None \<Rightarrow> ''unnamed'') @ ''-'' @ manifest_id"

definition docker_temp_manifest :: "'h host \<Rightarrow> bytes \<Rightarrow> ('h, string) action" where
  "docker_temp_manifest H content =
     and_then (lift_step (ho_new_uuid H)) (\<lambda>uuid.
       let temp_file = path_join (ho_temp_dir H) (''beemesh-compose-'' @ uuid @ ''.yml'') in
       and_then (lift_io (ho_write_file H temp_file content)) (\<lambda>_. ret temp_file))"

definition docker_validate_manifest :: "'h host \<Rightarrow> bytes \<Rightarrow> unit runtime_result" where
  "docker_validate_manifest H content =
     (case ho_yaml_parse H (from_utf8_lossy content) of
        Inl err \<Rightarrow> Inl (InvalidManifest (''YAML parse error: '' @ err))
      | Inr doc \<Rightarrow>
          if yaml_get ''services'' doc = None
          then Inl (InvalidManifest ''Missing services section in Docker Compose'')
          else Inr ())"

text \<open>\<open>extract_port_mappings\<close>, which no method calls: the first host port of each TCP port.\<close>

definition port_of_entry :: "string \<times> json \<Rightarrow> port_mapping option" where
  "port_of_entry entry =
     (case entry of (port_text, host_bindings) \<Rightarrow>
        Option.bind (strip_suffix port_text ''/tcp'') (\<lambda>port_str.
        Option.bind (parse_unsigned 16 port_str) (\<lambda>port_num.
          Some \<lparr> container_port = of_nat port_num,
                 host_port =
                   Option.bind (json_as_array host_bindings) (\<lambda>bindings.
                     case bindings of
                       [] \<Rightarrow> None
                     | binding # _ \<Rightarrow>
                         Option.bind (json_get_str ''HostPort'' binding)
                           (\<lambda>s. map_option of_nat (parse_unsigned 16 s))),
                 pm_protocol = ''tcp'' \<rparr>)))"

definition docker_port_mappings :: "'h host \<Rightarrow> docker_engine \<Rightarrow> string \<Rightarrow> ('h, port_mapping list) action" where
  "docker_port_mappings H e container_name =
     and_then (docker_execute H e [''inspect'', container_name, ''--format'', ''{{json .NetworkSettings.Ports}}''])
       (\<lambda>output.
         ret (case Option.bind (ho_json_parse H output) json_as_object of
                None \<Rightarrow> [] | Some entries \<Rightarrow> List.map_filter port_of_entry entries))"

section \<open>The methods of the trait\<close>

definition docker_is_available :: "'h host \<Rightarrow> docker_engine \<Rightarrow> 'h \<Rightarrow> 'h \<times> bool" where
  "docker_is_available H e h =
     (case ho_run H (docker_command e [''--version'']) h of
        (h', Inr output) \<Rightarrow> (h', po_success output) | (h', Inl _) \<Rightarrow> (h', False))"

definition compose_up_args :: "deployment_config \<Rightarrow> string \<Rightarrow> string \<Rightarrow> string list" where
  "compose_up_args config temp_file workload_id =
     [''compose'', ''-f'', temp_file, ''-p'', workload_id]
     @ (if dc_replicas config > 1 then [''up'', ''-d'', ''--scale'', ''service=1''] else [''up'', ''-d''])"

definition up_and_report ::
  "'h host \<Rightarrow> docker_engine \<Rightarrow> string \<Rightarrow> string \<Rightarrow> string list \<Rightarrow> string \<Rightarrow> (string, string) hmap
     \<Rightarrow> ('h, workload_info) action" where
  "up_and_report H e manifest_id workload_id args temp_file metadata =
     match_result (docker_execute H e args) (\<lambda>r.
       and_then (cleanup_temp_file H temp_file) (\<lambda>_.
         case r of
           Inl err \<Rightarrow> raise (DeploymentFailed (''Docker deployment failed: '' @ display_runtime_error err))
         | Inr _ \<Rightarrow>
             and_then (lift_step (ho_now H)) (\<lambda>now.
               ret \<lparr> wi_id = workload_id, wi_manifest_id = manifest_id, wi_status = Running,
                     wi_metadata = metadata, wi_created_at = now, wi_updated_at = now, wi_ports = [] \<rparr>)))"

definition docker_deploy_workload ::
  "'h host \<Rightarrow> docker_engine \<Rightarrow> string \<Rightarrow> bytes \<Rightarrow> deployment_config \<Rightarrow> ('h, workload_info) action" where
  "docker_deploy_workload H e manifest_id content config =
     and_then (lift_result (docker_validate_manifest H content)) (\<lambda>_.
       let workload_id = docker_workload_id H manifest_id content in
       and_then (docker_temp_manifest H content) (\<lambda>temp_file.
         case path_to_str temp_file of
           None \<Rightarrow> raise (InvalidManifest ''Invalid temporary file path'')
         | Some path \<Rightarrow>
             up_and_report H e manifest_id workload_id (compose_up_args config path workload_id) temp_file
               (docker_manifest_metadata H content)))"

text \<open>With a peer, a path that is no text is a panic.\<close>

definition docker_deploy_with_peer ::
  "'h host \<Rightarrow> docker_engine \<Rightarrow> string \<Rightarrow> bytes \<Rightarrow> deployment_config \<Rightarrow> string
     \<Rightarrow> 'h \<Rightarrow> 'h \<times> workload_info runtime_result option" where
  "docker_deploy_with_peer H e manifest_id content config local_peer_id h =
     (let workload_id = docker_workload_id H manifest_id content in
      case and_then (lift_result (docker_validate_manifest H content)) (\<lambda>_. docker_temp_manifest H content) h of
        (h', Inl err) \<Rightarrow> (h', Some (Inl err))
      | (h', Inr temp_file) \<Rightarrow>
          (case path_to_str temp_file of
             None \<Rightarrow> (h', None)
           | Some path \<Rightarrow>
               apsnd Some (up_and_report H e manifest_id workload_id (compose_up_args config path workload_id) temp_file
                 (hm_insert ''local_peer_id'' local_peer_id (docker_manifest_metadata H content)) h')))"

definition docker_get_workload_status :: "'h host \<Rightarrow> docker_engine \<Rightarrow> string \<Rightarrow> ('h, workload_info) action" where
  "docker_get_workload_status H e workload_id =
     and_then (docker_execute H e [''compose'', ''-p'', workload_id, ''ps'', ''--format'', ''json'']) (\<lambda>output.
       and_then (lift_step (ho_now H)) (\<lambda>now.
         ret \<lparr> wi_id = workload_id, wi_manifest_id = ''unknown'',
               wi_status = (if trim output = [] then Stopped else Running),
               wi_metadata = hm_empty, wi_created_at = now, wi_updated_at = now, wi_ports = [] \<rparr>))"

definition container_status :: "json \<Rightarrow> workload_status" where
  "container_status info =
     (case json_get_str ''State'' info of
        None \<Rightarrow> Unknown
      | Some s \<Rightarrow>
          if s = ''running'' then Running
          else if s = ''exited'' then Stopped
          else if s = ''created'' then Starting
          else Unknown)"

fun workloads_of_lines :: "'h host \<Rightarrow> string list \<Rightarrow> ('h, workload_info list) action" where
  "workloads_of_lines H [] = ret []"
| "workloads_of_lines H (line # rest) =
     (case ho_json_parse H line of
        None \<Rightarrow> workloads_of_lines H rest
      | Some info \<Rightarrow>
          (case json_get_str ''Names'' info of
             None \<Rightarrow> workloads_of_lines H rest
           | Some name \<Rightarrow>
               and_then (lift_step (ho_now H)) (\<lambda>now.
                 and_then (workloads_of_lines H rest) (\<lambda>ws.
                   ret (\<lparr> wi_id = name, wi_manifest_id = ''unknown'', wi_status = container_status info,
                          wi_metadata = hm_empty, wi_created_at = now, wi_updated_at = now,
                          wi_ports = [] \<rparr> # ws)))))"

definition docker_list_workloads :: "'h host \<Rightarrow> docker_engine \<Rightarrow> ('h, workload_info list) action" where
  "docker_list_workloads H e =
     and_then (docker_execute H e [''ps'', ''-a'', ''--filter'', ''name=beemesh-'', ''--format'', ''json''])
       (\<lambda>output. workloads_of_lines H (lines output))"

definition docker_remove_workload :: "'h host \<Rightarrow> docker_engine \<Rightarrow> string \<Rightarrow> ('h, unit) action" where
  "docker_remove_workload H e workload_id =
     match_result (docker_execute H e [''compose'', ''-p'', workload_id, ''down'', ''-v'']) (\<lambda>r.
       case r of
         Inr _ \<Rightarrow> ret ()
       | Inl _ \<Rightarrow> match_result (docker_execute H e [''container'', ''rm'', ''-f'', workload_id]) (\<lambda>_. ret ()))"

definition docker_get_workload_logs ::
  "'h host \<Rightarrow> docker_engine \<Rightarrow> string \<Rightarrow> nat option \<Rightarrow> ('h, string) action" where
  "docker_get_workload_logs H e workload_id tail =
     match_result (docker_execute H e ([''compose'', ''-p'', workload_id, ''logs'']
         @ (case tail of None \<Rightarrow> [] | Some n \<Rightarrow> [''--tail'', to_decimal n])))
       (\<lambda>r. case r of
              Inr logs \<Rightarrow> ret logs
            | Inl err \<Rightarrow> ret (''Failed to retrieve logs: '' @ display_runtime_error err))"

definition compose_service :: "'h host \<Rightarrow> string \<Rightarrow> string" where
  "compose_service H line =
     (case ho_json_parse H line of
        None \<Rightarrow> []
      | Some info \<Rightarrow>
          (case (json_get_str ''Names'' info, json_get_str ''Image'' info) of
             (Some names, Some image_name) \<Rightarrow>
               (let service_name = last (split_char (CHR ''/'') names) in
                ''  '' @ service_name @ '':'' @ nl @ ''    image: '' @ image_name @ nl
                @ ''    container_name: '' @ names @ nl @ ''    restart: unless-stopped'' @ nl)
           | _ \<Rightarrow> []))"

definition docker_export_manifest :: "'h host \<Rightarrow> docker_engine \<Rightarrow> string \<Rightarrow> ('h, bytes) action" where
  "docker_export_manifest H e workload_id =
     match_result (docker_execute H e [''compose'', ''-p'', workload_id, ''config'']) (\<lambda>r.
       case r of
         Inr compose_config \<Rightarrow> ret (bytes_of_string compose_config)
       | Inl _ \<Rightarrow>
           match_result (docker_execute H e
               [''ps'', ''-a'', ''--filter'', ''name='' @ workload_id, ''--format'', ''json'']) (\<lambda>r.
             case r of
               Inr output \<Rightarrow>
                 if trim output = []
                 then raise (WorkloadNotFound (''No containers found for workload '' @ workload_id))
                 else ret (bytes_of_string
                        (''# Generated Docker Compose manifest for workload: '' @ workload_id @ nl
                         @ ''version: '' @ [CHR 0x27] @ ''3.8'' @ [CHR 0x27] @ nl @ ''services:'' @ nl
                         @ concat (map (compose_service H) (lines output))))
             | Inl err \<Rightarrow>
                 raise (WorkloadNotFound (''Failed to export manifest for workload '' @ workload_id @ '': ''
                   @ display_runtime_error err))))"

section \<open>Lemmas\<close>

lemma docker_listed_unknown:
  "workloads_of_lines H ls h = (h', Inr ws) \<Longrightarrow> \<forall>w \<in> set ws. wi_manifest_id w = ''unknown''"
proof (induction ls arbitrary: h h' ws)
  case (Cons l ls)
  then show ?case
    by (fastforce simp: action_defs split: option.splits prod.splits sum.splits)
qed (simp add: action_defs)

lemma docker_list_unknown:
  "docker_list_workloads H e h = (h', Inr ws) \<Longrightarrow> \<forall>w \<in> set ws. wi_manifest_id w = ''unknown''"
  by (auto simp: docker_list_workloads_def and_then_def match_result_def raise_def
      dest: docker_listed_unknown split: prod.splits sum.splits)

end
