(* ===== verification/Container_Engines.thy ===== *)
theory Container_Engines
  imports Podman_Engine Docker_Engine Workload_Integration
begin

text \<open>
  The engines for podman and docker as entries of the registry, each with the part of the host it
  works on, and what the node's operations do over them. Methods that only read leave the host as
  it is, so their tables keep the result alone.
\<close>

definition podman_ops :: "'h host \<Rightarrow> (podman_engine \<times> 'h) engine_ops" where
  "podman_ops H =
     \<lparr> eo_name = (\<lambda>_. ''podman''),
       eo_available = (\<lambda>(e, h). snd (podman_is_available H e h)),
       eo_as_mock = (\<lambda>_. None),
       eo_deploy = (\<lambda>m c cfg (e, h). apfst (Pair e) (podman_deploy_workload H e m c cfg h)),
       eo_status = (\<lambda>i (e, h). snd (podman_get_workload_status H e i h)),
       eo_list = (\<lambda>(e, h). snd (podman_list_workloads H e h)),
       eo_remove = (\<lambda>i (e, h). apfst (Pair e) (podman_remove_workload H e i h)),
       eo_logs = (\<lambda>i n (e, h). snd (podman_get_workload_logs H e i n h)),
       eo_validate = (\<lambda>c _. podman_validate_manifest H c),
       eo_export = (\<lambda>i (e, h). snd (podman_export_manifest H e i h)),
       eo_deploy_with_peer = (\<lambda>m c cfg peer (e, h). apfst (Pair e) (podman_deploy_with_peer H e m c cfg peer h)) \<rparr>"

definition docker_ops :: "'h host \<Rightarrow> (docker_engine \<times> 'h) engine_ops" where
  "docker_ops H =
     \<lparr> eo_name = (\<lambda>_. ''docker''),
       eo_available = (\<lambda>(e, h). snd (docker_is_available H e h)),
       eo_as_mock = (\<lambda>_. None),
       eo_deploy = (\<lambda>m c cfg (e, h). apfst (Pair e) (docker_deploy_workload H e m c cfg h)),
       eo_status = (\<lambda>i (e, h). snd (docker_get_workload_status H e i h)),
       eo_list = (\<lambda>(e, h). snd (docker_list_workloads H e h)),
       eo_remove = (\<lambda>i (e, h). apfst (Pair e) (docker_remove_workload H e i h)),
       eo_logs = (\<lambda>i n (e, h). snd (docker_get_workload_logs H e i n h)),
       eo_validate = (\<lambda>c _. docker_validate_manifest H c),
       eo_export = (\<lambda>i (e, h). snd (docker_export_manifest H e i h)),
       eo_deploy_with_peer = (\<lambda>m c cfg peer (e, h). apfst (Pair e) (docker_deploy_with_peer H e m c cfg peer h)) \<rparr>"

section \<open>Deployment with a peer\<close>

lemma default_deploy_and_then:
  "default_deploy_with_peer f peer =
     and_then f (\<lambda>info. ret (info \<lparr> wi_metadata := hm_insert ''local_peer_id'' peer (wi_metadata info) \<rparr>))"
  by (auto simp: fun_eq_iff default_deploy_with_peer_def action_defs split: prod.splits sum.splits)

lemma match_result_sum:
  "and_then (case r of Inl x \<Rightarrow> f x | Inr y \<Rightarrow> g y) k = (case r of Inl x \<Rightarrow> and_then (f x) k | Inr y \<Rightarrow> and_then (g y) k)"
  by (cases r) simp_all

lemma and_then_option:
  "and_then (case x of None \<Rightarrow> f | Some y \<Rightarrow> g y) k = (case x of None \<Rightarrow> and_then f k | Some y \<Rightarrow> and_then (g y) k)"
  by (cases x) simp_all

lemma and_then_at: "and_then f k h = (case f h of (h', Inl err) \<Rightarrow> (h', Inl err) | (h', Inr x) \<Rightarrow> k x h')"
  by (auto simp: action_defs split: prod.split sum.split)

lemma up_and_report_peer:
  "and_then (up_and_report H e m i args f md)
     (\<lambda>info. ret (info \<lparr> wi_metadata := hm_insert ''local_peer_id'' peer (wi_metadata info) \<rparr>))
   = up_and_report H e m i args f (hm_insert ''local_peer_id'' peer md)"
  unfolding up_and_report_def by (simp add: and_then_match and_then_assoc match_result_sum cong: sum.case_cong)

lemma play_and_report_peer:
  "and_then (play_and_report H e m args f md)
     (\<lambda>info. ret (info \<lparr> wi_metadata := hm_insert ''local_peer_id'' peer (wi_metadata info) \<rparr>))
   = play_and_report H e m args f (hm_insert ''local_peer_id'' peer md)"
  unfolding play_and_report_def by (simp add: and_then_match and_then_assoc match_result_sum cong: sum.case_cong)

definition plain_config :: "deployment_config \<Rightarrow> bool" where
  "plain_config cfg \<longleftrightarrow> dc_replicas cfg \<le> 1 \<and> rl_memory (dc_resources cfg) = None \<and> rl_cpu (dc_resources cfg) = None
     \<and> list_all (\<lambda>kv. runtime_option_args kv = []) (dc_runtime_options cfg)"

lemma play_args_plain: "plain_config cfg \<Longrightarrow> play_args H cfg f = [''kube'', ''play'', ''--replace'', f]"
  by (auto simp: plain_config_def play_args_def list_all_iff)

text \<open>
  What a deployment with a peer does, against the default of the trait: the same, unless it panics,
  where the default reports that the path is invalid.
\<close>

definition as_default :: "'h \<times> 'a runtime_result option \<Rightarrow> 'h \<times> 'a runtime_result \<Rightarrow> bool" where
  "as_default r d \<longleftrightarrow>
     (case r of
        (h, Some x) \<Rightarrow> d = (h, x)
      | (h, None) \<Rightarrow> d = (h, Inl (InvalidManifest ''Invalid temporary file path'')))"

lemma as_default_simps:
  "as_default (h, Some x) d \<longleftrightarrow> d = (h, x)" "as_default (apsnd Some y) d \<longleftrightarrow> d = y"
  "as_default (h, None) d \<longleftrightarrow> d = (h, Inl (InvalidManifest ''Invalid temporary file path''))"
  by (simp_all add: as_default_def apsnd_def map_prod_def case_prod_beta)

lemma docker_with_peer:
  "as_default (docker_deploy_with_peer H d m c cfg peer h) (default_deploy_with_peer (docker_deploy_workload H d m c cfg) peer h)"
proof -
  let ?made = "and_then (lift_result (docker_validate_manifest H c)) (\<lambda>_. docker_temp_manifest H c)"
  have deploy: "default_deploy_with_peer (docker_deploy_workload H d m c cfg) peer = and_then ?made (\<lambda>temp_file.
      case path_to_str temp_file of
        None \<Rightarrow> raise (InvalidManifest ''Invalid temporary file path'')
      | Some path \<Rightarrow> up_and_report H d m (docker_workload_id H m c) (compose_up_args cfg path (docker_workload_id H m c)) temp_file
          (hm_insert ''local_peer_id'' peer (docker_manifest_metadata H c)))"
    unfolding default_deploy_and_then docker_deploy_workload_def
    by (simp add: and_then_assoc up_and_report_peer [symmetric] and_then_option Let_def cong: option.case_cong)
  obtain h' r where "?made h = (h', r)" by fastforce
  then show ?thesis
    by (cases r) (simp_all add: deploy as_default_simps docker_deploy_with_peer_def and_then_at raise_def Let_def split: option.split)
qed

lemma podman_with_peer:
  assumes "plain_config cfg'"
  shows "as_default (podman_deploy_with_peer H p m c cfg peer h) (default_deploy_with_peer (podman_deploy_workload H p m c cfg') peer h)"
proof -
  let ?made = "and_then (lift_result (podman_validate_manifest H c)) (\<lambda>_. podman_temp_manifest H c m)"
  have deploy: "default_deploy_with_peer (podman_deploy_workload H p m c cfg') peer = and_then ?made (\<lambda>temp_file.
      case path_to_str temp_file of
        None \<Rightarrow> raise (InvalidManifest ''Invalid temporary file path'')
      | Some path \<Rightarrow> play_and_report H p m [''kube'', ''play'', ''--replace'', path] temp_file
          (hm_insert ''local_peer_id'' peer (podman_manifest_metadata H c)))"
    unfolding default_deploy_and_then podman_deploy_workload_def
    by (simp add: and_then_assoc play_and_report_peer [symmetric] and_then_option play_args_plain [OF assms] cong: option.case_cong)
  obtain h' r where "?made h = (h', r)" by fastforce
  then show ?thesis
    by (cases r) (simp_all add: deploy as_default_simps podman_deploy_with_peer_def and_then_at raise_def split: option.split)
qed

text \<open>
  (C34) Deploying with a peer is the default of the trait, deploying and then adding the peer to the
  metadata: the same commands in the same order, the same host afterwards and the same result, on any host. On
  docker this holds for every configuration, on podman for a configuration of one replica
  without limits and options; podman ignores the configuration otherwise. There is one exception: if the path of the temporary
  file is not UTF-8, the default reports an invalid manifest and the deployment with a peer panics, and in
  no other case.
\<close>

theorem deploy_with_peer_is_default:
  "as_default (docker_deploy_with_peer H d m c cfg peer h) (default_deploy_with_peer (docker_deploy_workload H d m c cfg) peer h)
   \<and> (plain_config cfg \<longrightarrow> as_default (podman_deploy_with_peer H p m c cfg peer h)
        (default_deploy_with_peer (podman_deploy_workload H p m c cfg) peer h))
   \<and> as_default (podman_deploy_with_peer H p m c cfg peer h)
        (default_deploy_with_peer (podman_deploy_workload H p m c default_deployment_config) peer h)
   \<and> (snd (docker_deploy_with_peer H d m c cfg peer h) = None \<longleftrightarrow>
        docker_validate_manifest H c = Inr () \<and> (\<exists>h' f. docker_temp_manifest H c h = (h', Inr f) \<and> \<not> valid_string f))
   \<and> (snd (podman_deploy_with_peer H p m c cfg peer h) = None \<longleftrightarrow>
        podman_validate_manifest H c = Inr () \<and> (\<exists>h' f. podman_temp_manifest H c m h = (h', Inr f) \<and> \<not> valid_string f))"
proof (intro conjI impI)
  show "as_default (podman_deploy_with_peer H p m c cfg peer h)
      (default_deploy_with_peer (podman_deploy_workload H p m c default_deployment_config) peer h)"
    by (rule podman_with_peer) (simp add: plain_config_def default_deployment_config_def hm_empty_def)
  show "snd (docker_deploy_with_peer H d m c cfg peer h) = None \<longleftrightarrow>
      docker_validate_manifest H c = Inr () \<and> (\<exists>h' f. docker_temp_manifest H c h = (h', Inr f) \<and> \<not> valid_string f)"
    by (auto simp: docker_deploy_with_peer_def and_then_at lift_result_def path_to_str_def Let_def
        split: sum.splits prod.splits if_splits)
  show "snd (podman_deploy_with_peer H p m c cfg peer h) = None \<longleftrightarrow>
      podman_validate_manifest H c = Inr () \<and> (\<exists>h' f. podman_temp_manifest H c m h = (h', Inr f) \<and> \<not> valid_string f)"
    by (auto simp: podman_deploy_with_peer_def and_then_at lift_result_def path_to_str_def
        split: sum.splits prod.splits if_splits)
qed (rule docker_with_peer podman_with_peer; assumption?)+

section \<open>Removal by manifest on docker\<close>

lemma docker_sweep:
  assumes "m \<noteq> ''unknown''" "\<not> isl (eo_list (docker_ops H) e)"
  shows "sweep_engine (docker_ops H) m name e = (e, [], [])"
proof -
  obtain d h where e: "e = (d, h)" by fastforce
  obtain h' ws where ws: "docker_list_workloads H d h = (h', Inr ws)"
    using assms(2) unfolding e docker_ops_def
    by (cases "docker_list_workloads H d h"; cases "snd (docker_list_workloads H d h)") auto
  have "filter (\<lambda>w. wi_manifest_id w = m) ws = []"
    using docker_list_unknown [OF ws] assms(1) by (auto simp: filter_empty_conv)
  then show ?thesis by (simp add: sweep_engine_def e docker_ops_def ws remove_each_def)
qed

lemma docker_sweep_all:
  assumes "m \<noteq> ''unknown''" "\<forall>(name, e) \<in> set es. \<not> isl (eo_list (docker_ops H) e)"
  shows "sweep_engines (docker_ops H) m es = (es, [], [])"
  using assms(2)
proof (induction es)
  case (Cons x es)
  then show ?case by (cases x) (simp add: docker_sweep [OF assms(1)])
qed simp

text \<open>
  On docker a delete request removes nothing and says it succeeded: the listing names no
  manifest, so the owner is told that there are no workloads, the engines and their hosts are as
  before, and the owner is forgotten, so that every further request for the manifest is refused.
\<close>

theorem docker_delete_removes_nothing:
  assumes "m \<noteq> ''unknown''" "runtime_registry_of n = Some reg"
    and "\<forall>(name, e) \<in> set (engines reg). \<not> isl (eo_list (docker_ops H) e)"
    and "get_manifest_owner m n = Some owner" "owner \<noteq> []"
  shows "\<exists>n'. process_delete_request (docker_ops H) m force owner n
        = (n', True, ''no workloads found for manifest'', [])
    \<and> runtime_registry_of n' = Some reg
    \<and> process_delete_request (docker_ops H) m force' owner' n'
        = (n', False, ''ownership unknown for manifest on this node'', [])"
proof -
  obtain n' where run: "remove_workloads_by_manifest_id (docker_ops H) m n = (n', Inr [])"
      "runtime_registry_of n' = Some reg" "get_manifest_owner m n' = None"
    by (simp add: remove_workloads_by_manifest_id_def assms(2) docker_sweep_all [OF assms(1,3)] Let_def
        remove_manifest_owner_def get_manifest_owner_def)
  then have "process_delete_request (docker_ops H) m force owner n
      = (n', True, ''no workloads found for manifest'', [])"
    by (simp add: process_delete_request_def verify_delete_ownership_def assms(4,5) remove_and_report_def)
  with run(2,3) show ?thesis by (simp add: process_delete_request_def verify_delete_ownership_def)
qed

section \<open>Examples\<close>

definition docker_node :: "(docker_engine \<times> unit) node" where
  "docker_node =
     \<lparr> runtime_registry_of = Some \<lparr> engines = [(''docker'', (docker_new, ()))], default_engine = Some ''docker'' \<rparr>,
       provider_manager_of = None, resource_verifier_of = verifier_new, manifest_owner_map = [(''m'', [7])],
       nonces = hm_empty \<rparr>"

theorem docker_delete_removes_nothing_witness:
  "\<exists>n'. process_delete_request (docker_ops silent_host) ''m'' False [7] docker_node
      = (n', True, ''no workloads found for manifest'', [])
    \<and> runtime_registry_of n' = runtime_registry_of docker_node
    \<and> process_delete_request (docker_ops silent_host) ''m'' True [8] n'
      = (n', False, ''ownership unknown for manifest on this node'', [])"
proof -
  have "runtime_registry_of docker_node
      = Some \<lparr> engines = [(''docker'', (docker_new, ()))], default_engine = Some ''docker'' \<rparr>"
    "get_manifest_owner ''m'' docker_node = Some [7]"
    by (simp_all add: docker_node_def get_manifest_owner_def hm_get_def)
  moreover have "\<not> isl (eo_list (docker_ops silent_host) (docker_new, ()))" by code_simp
  ultimately show ?thesis
    using docker_delete_removes_nothing [of "''m''" docker_node _ silent_host "[7]" False True "[8]"] by simp
qed

text \<open>A host whose temporary directory has a name that is not UTF-8.\<close>

definition odd_host :: "unit host" where
  "odd_host = silent_host \<lparr> ho_temp_dir := [char_of (255 :: nat)], ho_yaml_parse := (\<lambda>_. Inr (YMapping [(YString ''services'', YNull)])) \<rparr>"

theorem deploy_with_peer_is_default_witness:
  "as_default (podman_deploy_with_peer silent_host remote_engine ''m'' [] default_deployment_config ''p'' ())
     (default_deploy_with_peer (podman_deploy_workload silent_host remote_engine ''m'' [] default_deployment_config) ''p'' ())
   \<and> snd (docker_deploy_with_peer odd_host docker_new ''m'' [] default_deployment_config ''p'' ()) = None"
proof -
  have "plain_config default_deployment_config" by code_simp
  moreover have "docker_validate_manifest odd_host [] = Inr ()" by code_simp
  moreover have "snd (docker_temp_manifest odd_host [] ()) = Inr (char_of (255 :: nat) # ''/beemesh-compose-u.yml'')"
    "\<not> valid_string (char_of (255 :: nat) # ''/beemesh-compose-u.yml'')" by code_simp+
  then have "\<exists>h' f. docker_temp_manifest odd_host [] () = (h', Inr f) \<and> \<not> valid_string f" by (metis prod.collapse)
  ultimately show ?thesis
    using deploy_with_peer_is_default [of silent_host docker_new "''m''" "[]" default_deployment_config "''p''" "()" remote_engine]
      deploy_with_peer_is_default [of odd_host docker_new "''m''" "[]" default_deployment_config "''p''" "()" remote_engine]
    by blast
qed

end
