(* ===== verification/Keypairs.thy ===== *)
theory Keypairs
  imports Envelope Recipient_Blob
begin

text \<open>
  Where the keys of a node come from: the key files and ephemeral keys of \<open>crypto/src/lib.rs\<close>, and
  the manager of \<open>crypto/src/keypair_manager.rs\<close> with its own cache. The file system is a record of
  functions over a state of any type, described by the locale \<open>key_files\<close>; a keypair that a call
  may generate is an argument of the call. Log output is left out.
\<close>

section \<open>State\<close>

type_synonym keypair = "bytes \<times> bytes"

datatype keypair_mode = Persistent | Ephemeral

record keypair_config =
  signing_mode :: keypair_mode
  kem_mode :: keypair_mode
  key_directory :: "string option"

definition default_keypair_config :: keypair_config where
  "default_keypair_config = \<lparr> signing_mode = Persistent, kem_mode = Persistent, key_directory = None \<rparr>"

record 'f key_env =
  ke_exists :: "string \<Rightarrow> 'f \<Rightarrow> bool"
  ke_create_dir_all :: "string \<Rightarrow> 'f \<Rightarrow> 'f \<times> (string + unit)"
  ke_set_permissions :: "string \<Rightarrow> nat \<Rightarrow> 'f \<Rightarrow> 'f \<times> (string + unit)"
  ke_read :: "string \<Rightarrow> 'f \<Rightarrow> string + bytes"
  ke_write :: "string \<Rightarrow> bytes \<Rightarrow> 'f \<Rightarrow> 'f \<times> (string + unit)"
  ke_home_dir :: "string option"
  ke_pqc_init :: "string + unit"

text \<open>
  The globals: the configuration, the two ephemeral keypairs that the functions for key files
  keep, and the two that the manager keeps.
\<close>

record 'f key_state =
  k_files :: 'f
  k_config :: keypair_config
  k_ephemeral_signing :: "keypair option"
  k_ephemeral_kem :: "keypair option"
  k_cached_signing :: "keypair option"
  k_cached_kem :: "keypair option"

definition set_keypair_config :: "keypair_config \<Rightarrow> 'f key_state \<Rightarrow> 'f key_state" where
  "set_keypair_config config k = k \<lparr> k_config := config \<rparr>"

section \<open>Key files\<close>

definition get_keypair_config :: "'f key_state \<Rightarrow> keypair_config" where
  "get_keypair_config k = k_config k"

definition child_path :: "string \<Rightarrow> string \<Rightarrow> string" where
  "child_path dir name = (if ends_with dir ''/'' then dir @ name else dir @ ''/'' @ name)"

definition resolve_key_dir :: "'f key_env \<Rightarrow> string option \<Rightarrow> string + string" where
  "resolve_key_dir E dir_override =
     (case dir_override of
        Some path \<Rightarrow> Inr path
      | None \<Rightarrow>
          (case ke_home_dir E of
             None \<Rightarrow> Inl ''could not determine home dir''
           | Some home \<Rightarrow> Inr (child_path home ''.beemesh'')))"

definition ensure_key_dir :: "'f key_env \<Rightarrow> string \<Rightarrow> 'f \<Rightarrow> 'f \<times> (string + unit)" where
  "ensure_key_dir E path f =
     (case (if \<not> ke_exists E path f then ke_create_dir_all E path f else (f, Inr ())) of
        (f', Inl e) \<Rightarrow> (f', Inl e)
      | (f', Inr _) \<Rightarrow> ke_set_permissions E path (7 * 8 ^ 2) f')"

definition generate_keypair :: "'f key_env \<Rightarrow> string + keypair \<Rightarrow> string + keypair" where
  "generate_keypair E drawn = (case ke_pqc_init E of Inl e \<Rightarrow> Inl e | Inr _ \<Rightarrow> drawn)"

definition write_keypair :: "'f key_env \<Rightarrow> string \<Rightarrow> string \<Rightarrow> keypair \<Rightarrow> 'f \<Rightarrow> 'f \<times> (string + keypair)" where
  "write_keypair E pub_path priv_path pair f =
     (case pair of (pubb, privb) \<Rightarrow>
        (case ke_write E pub_path pubb f of
           (f, Inl e) \<Rightarrow> (f, Inl e)
         | (f, Inr _) \<Rightarrow>
             (case ke_write E priv_path privb f of
                (f, Inl e) \<Rightarrow> (f, Inl e)
              | (f, Inr _) \<Rightarrow>
                  (case ke_set_permissions E pub_path (6 * 8 ^ 2) f of
                     (f, Inl e) \<Rightarrow> (f, Inl e)
                   | (f, Inr _) \<Rightarrow>
                       (case ke_set_permissions E priv_path (6 * 8 ^ 2) f of
                          (f, Inl e) \<Rightarrow> (f, Inl e)
                        | (f, Inr _) \<Rightarrow> (f, Inr (pubb, privb)))))))"

definition load_or_generate ::
  "'f key_env \<Rightarrow> string option \<Rightarrow> string \<Rightarrow> string \<Rightarrow> string + keypair \<Rightarrow> 'f \<Rightarrow> 'f \<times> (string + keypair)" where
  "load_or_generate E dir_override pub_file priv_file drawn f =
     (case resolve_key_dir E dir_override of
        Inl e \<Rightarrow> (f, Inl e)
      | Inr key_dir \<Rightarrow>
          (case ensure_key_dir E key_dir f of
             (f, Inl e) \<Rightarrow> (f, Inl e)
           | (f, Inr _) \<Rightarrow>
               (let pub_path = child_path key_dir pub_file; priv_path = child_path key_dir priv_file in
                if ke_exists E pub_path f \<and> ke_exists E priv_path f
                then (case ke_read E pub_path f of
                        Inl e \<Rightarrow> (f, Inl e)
                      | Inr pubb \<Rightarrow>
                          (case ke_read E priv_path f of
                             Inl e \<Rightarrow> (f, Inl e) | Inr privb \<Rightarrow> (f, Inr (pubb, privb))))
                else (case generate_keypair E drawn of
                        Inl e \<Rightarrow> (f, Inl e)
                      | Inr pair \<Rightarrow> write_keypair E pub_path priv_path pair f))))"

definition ensure_keypair_on_disk ::
  "'f key_env \<Rightarrow> string + keypair \<Rightarrow> 'f key_state \<Rightarrow> 'f key_state \<times> (string + keypair)" where
  "ensure_keypair_on_disk E drawn k =
     (case signing_mode (k_config k) of
        Ephemeral \<Rightarrow>
          (case k_ephemeral_signing k of
             Some pair \<Rightarrow> (k, Inr pair)
           | None \<Rightarrow>
               (case generate_keypair E drawn of
                  Inl e \<Rightarrow> (k, Inl e)
                | Inr pair \<Rightarrow> (k \<lparr> k_ephemeral_signing := Some pair \<rparr>, Inr pair)))
      | Persistent \<Rightarrow>
          (case load_or_generate E (key_directory (k_config k)) ''pubkey.bin'' ''privkey.bin'' drawn (k_files k) of
             (f, r) \<Rightarrow> (k \<lparr> k_files := f \<rparr>, r)))"

definition ensure_kem_keypair_on_disk ::
  "'f key_env \<Rightarrow> string + keypair \<Rightarrow> 'f key_state \<Rightarrow> 'f key_state \<times> (string + keypair)" where
  "ensure_kem_keypair_on_disk E drawn k =
     (case kem_mode (k_config k) of
        Ephemeral \<Rightarrow>
          (case k_ephemeral_kem k of
             Some pair \<Rightarrow> (k, Inr pair)
           | None \<Rightarrow>
               (case generate_keypair E drawn of
                  Inl e \<Rightarrow> (k, Inl e)
                | Inr pair \<Rightarrow> (k \<lparr> k_ephemeral_kem := Some pair \<rparr>, Inr pair)))
      | Persistent \<Rightarrow>
          (case load_or_generate E (key_directory (k_config k)) ''kem_pub.bin'' ''kem_priv.bin'' drawn (k_files k) of
             (f, r) \<Rightarrow> (k \<lparr> k_files := f \<rparr>, r)))"

definition ensure_keypair_ephemeral :: "'f key_env \<Rightarrow> string + keypair \<Rightarrow> string + keypair" where
  "ensure_keypair_ephemeral E drawn = generate_keypair E drawn"

section \<open>The manager\<close>

datatype keypair_error =
    GenerationFailed string
  | LoadingFailed string
  | StorageFailed string
  | InvalidFormat string
  | KpPqcInitFailed string

datatype keypair_type = Signing | Kem

definition map_keypair_error ::
  "(string \<Rightarrow> keypair_error) \<Rightarrow> 'f key_state \<times> (string + 'a) \<Rightarrow> 'f key_state \<times> (keypair_error + 'a)" where
  "map_keypair_error err r = (case r of (k, Inl e) \<Rightarrow> (k, Inl (err e)) | (k, Inr x) \<Rightarrow> (k, Inr x))"

definition get_persistent_signing_keypair ::
  "'f key_env \<Rightarrow> string + keypair \<Rightarrow> 'f key_state \<Rightarrow> 'f key_state \<times> (keypair_error + keypair)" where
  "get_persistent_signing_keypair E drawn k =
     map_keypair_error (\<lambda>e. LoadingFailed (''signing keypair: '' @ e)) (ensure_keypair_on_disk E drawn k)"

definition get_persistent_kem_keypair ::
  "'f key_env \<Rightarrow> string + keypair \<Rightarrow> 'f key_state \<Rightarrow> 'f key_state \<times> (keypair_error + keypair)" where
  "get_persistent_kem_keypair E drawn k =
     map_keypair_error (\<lambda>e. LoadingFailed (''KEM keypair: '' @ e)) (ensure_kem_keypair_on_disk E drawn k)"

definition get_ephemeral_signing_keypair ::
  "'f key_env \<Rightarrow> string + keypair \<Rightarrow> 'f key_state \<Rightarrow> 'f key_state \<times> (keypair_error + keypair)" where
  "get_ephemeral_signing_keypair E drawn k =
     (case k_cached_signing k of
        Some pair \<Rightarrow> (k, Inr pair)
      | None \<Rightarrow>
          (case ensure_keypair_ephemeral E drawn of
             Inl e \<Rightarrow> (k, Inl (GenerationFailed (''ephemeral signing keypair: '' @ e)))
           | Inr pair \<Rightarrow> (k \<lparr> k_cached_signing := Some pair \<rparr>, Inr pair)))"

definition get_ephemeral_kem_keypair ::
  "'f key_env \<Rightarrow> string + keypair \<Rightarrow> 'f key_state \<Rightarrow> 'f key_state \<times> (keypair_error + keypair)" where
  "get_ephemeral_kem_keypair E drawn k =
     (case k_cached_kem k of
        Some pair \<Rightarrow> (k, Inr pair)
      | None \<Rightarrow>
          (case ke_pqc_init E of
             Inl e \<Rightarrow> (k, Inl (KpPqcInitFailed e))
           | Inr _ \<Rightarrow>
               (case drawn of
                  Inl e \<Rightarrow> (k, Inl (GenerationFailed (''KEM keypair generation: '' @ e)))
                | Inr pair \<Rightarrow> (k \<lparr> k_cached_kem := Some pair \<rparr>, Inr pair))))"

definition get_signing_keypair ::
  "'f key_env \<Rightarrow> string + keypair \<Rightarrow> keypair_mode \<Rightarrow> 'f key_state \<Rightarrow> 'f key_state \<times> (keypair_error + keypair)" where
  "get_signing_keypair E drawn mode k =
     (case mode of Persistent \<Rightarrow> get_persistent_signing_keypair E drawn k
      | Ephemeral \<Rightarrow> get_ephemeral_signing_keypair E drawn k)"

definition get_kem_keypair ::
  "'f key_env \<Rightarrow> string + keypair \<Rightarrow> keypair_mode \<Rightarrow> 'f key_state \<Rightarrow> 'f key_state \<times> (keypair_error + keypair)" where
  "get_kem_keypair E drawn mode k =
     (case mode of Persistent \<Rightarrow> get_persistent_kem_keypair E drawn k
      | Ephemeral \<Rightarrow> get_ephemeral_kem_keypair E drawn k)"

definition generate_fresh_keypair ::
  "'f key_env \<Rightarrow> string + keypair \<Rightarrow> keypair_type \<Rightarrow> keypair_error + keypair" where
  "generate_fresh_keypair E drawn kt =
     (case ke_pqc_init E of
        Inl e \<Rightarrow> Inl (KpPqcInitFailed e)
      | Inr _ \<Rightarrow>
          (case drawn of
             Inl e \<Rightarrow> Inl (GenerationFailed
               ((case kt of Signing \<Rightarrow> ''signing keypair: '' | Kem \<Rightarrow> ''KEM keypair: '') @ e))
           | Inr pair \<Rightarrow> Inr pair))"

definition sign_with_keypair ::
  "crypto_lib \<Rightarrow> (envelope_error \<Rightarrow> string) \<Rightarrow> 'f key_env \<Rightarrow> string + keypair \<Rightarrow> bytes \<Rightarrow> keypair_mode
     \<Rightarrow> 'f key_state \<Rightarrow> 'f key_state \<times> (keypair_error + (string \<times> string))" where
  "sign_with_keypair L show_error E drawn data mode k =
     (case get_signing_keypair E drawn mode k of
        (k', Inl e) \<Rightarrow> (k', Inl e)
      | (k', Inr (pub_bytes, priv_bytes)) \<Rightarrow>
          (case sign_envelope L priv_bytes pub_bytes data of
             Inl e \<Rightarrow> (k', Inl (GenerationFailed (''signing operation: '' @ show_error e)))
           | Inr r \<Rightarrow> (k', Inr r)))"

definition verify_signature :: "crypto_lib \<Rightarrow> bytes \<Rightarrow> bytes \<Rightarrow> bytes \<Rightarrow> bool" where
  "verify_signature L pub_bytes data sig_bytes =
     (case verify_envelope L pub_bytes data sig_bytes of Inr _ \<Rightarrow> True | Inl _ \<Rightarrow> False)"

definition decapsulate_with_keypair ::
  "kem_lib \<Rightarrow> (blob_error \<Rightarrow> string) \<Rightarrow> 'f key_env \<Rightarrow> string + keypair \<Rightarrow> bytes \<Rightarrow> keypair_mode
     \<Rightarrow> 'f key_state \<Rightarrow> 'f key_state \<times> (keypair_error + bytes)" where
  "decapsulate_with_keypair L show_error E drawn ciphertext mode k =
     (case get_kem_keypair E drawn mode k of
        (k', Inl e) \<Rightarrow> (k', Inl e)
      | (k', Inr (pub_bytes, priv_bytes)) \<Rightarrow>
          (case decapsulate_share L priv_bytes ciphertext of
             Inl e \<Rightarrow> (k', Inl (GenerationFailed (''KEM decapsulation: '' @ show_error e)))
           | Inr shared \<Rightarrow> (k', Inr shared)))"

definition clear_ephemeral_caches :: "'f key_state \<Rightarrow> 'f key_state" where
  "clear_ephemeral_caches k = k \<lparr> k_cached_signing := None, k_cached_kem := None \<rparr>"

record keypair_info =
  ki_type :: keypair_type
  ki_mode :: keypair_mode
  ki_public_key_len :: nat
  ki_private_key_len :: nat

definition get_keypair_info ::
  "'f key_env \<Rightarrow> string + keypair \<Rightarrow> keypair_type \<Rightarrow> keypair_mode \<Rightarrow> 'f key_state
     \<Rightarrow> 'f key_state \<times> (keypair_error + keypair_info)" where
  "get_keypair_info E drawn kt mode k =
     (case (case kt of Signing \<Rightarrow> get_signing_keypair E drawn mode k | Kem \<Rightarrow> get_kem_keypair E drawn mode k) of
        (k', Inl e) \<Rightarrow> (k', Inl e)
      | (k', Inr (pub_bytes, priv_bytes)) \<Rightarrow>
          (k', Inr \<lparr> ki_type = kt, ki_mode = mode, ki_public_key_len = length pub_bytes,
                     ki_private_key_len = length priv_bytes \<rparr>))"

text \<open>The default mode is the one of the signing keys, for both kinds of keys.\<close>

definition default_storage_mode :: "'f key_state \<Rightarrow> keypair_mode" where
  "default_storage_mode k = signing_mode (k_config k)"

definition get_default_signing_keypair ::
  "'f key_env \<Rightarrow> string + keypair \<Rightarrow> 'f key_state \<Rightarrow> 'f key_state \<times> (keypair_error + keypair)" where
  "get_default_signing_keypair E drawn k = get_signing_keypair E drawn (default_storage_mode k) k"

definition get_default_kem_keypair ::
  "'f key_env \<Rightarrow> string + keypair \<Rightarrow> 'f key_state \<Rightarrow> 'f key_state \<times> (keypair_error + keypair)" where
  "get_default_kem_keypair E drawn k = get_kem_keypair E drawn (default_storage_mode k) k"

definition sign_with_default_keypair ::
  "crypto_lib \<Rightarrow> (envelope_error \<Rightarrow> string) \<Rightarrow> 'f key_env \<Rightarrow> string + keypair \<Rightarrow> bytes \<Rightarrow> 'f key_state
     \<Rightarrow> 'f key_state \<times> (keypair_error + (string \<times> string))" where
  "sign_with_default_keypair L show_error E drawn data k =
     sign_with_keypair L show_error E drawn data (default_storage_mode k) k"

definition decapsulate_with_default_keypair ::
  "kem_lib \<Rightarrow> (blob_error \<Rightarrow> string) \<Rightarrow> 'f key_env \<Rightarrow> string + keypair \<Rightarrow> bytes \<Rightarrow> 'f key_state
     \<Rightarrow> 'f key_state \<times> (keypair_error + bytes)" where
  "decapsulate_with_default_keypair L show_error E drawn ciphertext k =
     decapsulate_with_keypair L show_error E drawn ciphertext (default_storage_mode k) k"

definition km_encapsulate_to_pubkey ::
  "kem_lib \<Rightarrow> (blob_error \<Rightarrow> string) \<Rightarrow> bytes \<Rightarrow> bytes \<Rightarrow> keypair_error + (bytes \<times> bytes)" where
  "km_encapsulate_to_pubkey L show_error randomness pub_bytes =
     (case encapsulate_to_pubkey L randomness pub_bytes of
        Inl e \<Rightarrow> Inl (GenerationFailed (''KEM encapsulation: '' @ show_error e))
      | Inr r \<Rightarrow> Inr r)"

text \<open>The two functions of the crate's root that call the manager.\<close>

definition ensure_keypair_ephemeral_cached ::
  "(keypair_error \<Rightarrow> string) \<Rightarrow> 'f key_env \<Rightarrow> string + keypair \<Rightarrow> 'f key_state \<Rightarrow> 'f key_state \<times> (string + keypair)" where
  "ensure_keypair_ephemeral_cached show_error E drawn k =
     (case get_ephemeral_signing_keypair E drawn k of
        (k', Inl e) \<Rightarrow> (k', Inl (''ephemeral cached keypair: '' @ show_error e))
      | (k', Inr kp) \<Rightarrow> (k', Inr kp))"

definition clear_ephemeral_keypair_cache :: "'f key_state \<Rightarrow> 'f key_state" where
  "clear_ephemeral_keypair_cache k = clear_ephemeral_caches k"

text \<open>The cache holds one keypair until it is cleared; then the next call generates another.\<close>

lemma ephemeral_cached_again:
  assumes "ensure_keypair_ephemeral_cached sh E drawn k = (k1, Inr kp)"
  shows "ensure_keypair_ephemeral_cached sh E drawn' k1 = (k1, Inr kp)"
  using assms by (auto simp: ensure_keypair_ephemeral_cached_def get_ephemeral_signing_keypair_def
      split: option.splits sum.splits prod.splits)

lemma ephemeral_cache_cleared:
  "ke_pqc_init E = Inr () \<Longrightarrow>
     snd (ensure_keypair_ephemeral_cached sh E (Inr kp) (clear_ephemeral_keypair_cache k)) = Inr kp"
  by (simp add: ensure_keypair_ephemeral_cached_def get_ephemeral_signing_keypair_def clear_ephemeral_keypair_cache_def
      clear_ephemeral_caches_def ensure_keypair_ephemeral_def generate_keypair_def)

section \<open>What the key files promise\<close>

text \<open>
  The laws of a file system that the stability of keys rests on: what exists stays and keeps its
  content unless it is written, what was written can be read, a directory that was created
  exists, and permissions can be set on what exists.
\<close>

locale key_files =
  fixes E :: "'f key_env"
  assumes create_exists: "ke_create_dir_all E p f = (f', Inr ()) \<Longrightarrow> ke_exists E p f'"
    and create_keeps: "ke_create_dir_all E p f = (f', r) \<Longrightarrow> ke_exists E q f \<Longrightarrow>
        ke_exists E q f' \<and> ke_read E q f' = ke_read E q f"
    and permissions: "ke_exists E p f \<Longrightarrow> snd (ke_set_permissions E p mode f) = Inr ()"
    and permissions_keep: "ke_exists E q (fst (ke_set_permissions E p mode f)) = ke_exists E q f
        \<and> ke_read E q (fst (ke_set_permissions E p mode f)) = ke_read E q f"
    and write_read: "ke_write E p b f = (f', Inr ()) \<Longrightarrow> ke_exists E p f' \<and> ke_read E p f' = Inr b"
    and write_keeps: "ke_write E p b f = (f', r) \<Longrightarrow> q \<noteq> p \<Longrightarrow> ke_exists E q f \<Longrightarrow>
        ke_exists E q f' \<and> ke_read E q f' = ke_read E q f"
begin

definition holds :: "string \<Rightarrow> string \<Rightarrow> string \<Rightarrow> keypair \<Rightarrow> 'f \<Rightarrow> bool" where
  "holds dir pub_path priv_path pair f \<longleftrightarrow> ke_exists E dir f \<and> ke_exists E pub_path f \<and> ke_exists E priv_path f
     \<and> ke_read E pub_path f = Inr (fst pair) \<and> ke_read E priv_path f = Inr (snd pair)"

lemma key_dir_kept:
  "ke_exists E dir f \<Longrightarrow> \<exists>f'. ensure_key_dir E dir f = (f', Inr ())
     \<and> (\<forall>q. ke_exists E q f' = ke_exists E q f \<and> ke_read E q f' = ke_read E q f)"
  using permissions [of dir f "7 * 8 ^ 2"] permissions_keep [of _ dir "7 * 8 ^ 2" f]
  by (cases "ke_set_permissions E dir (7 * 8 ^ 2) f") (auto simp: ensure_key_dir_def)

lemma load_held:
  assumes "resolve_key_dir E d = Inr dir" "holds dir (child_path dir pub) (child_path dir priv) pair f"
  shows "\<exists>f'. load_or_generate E d pub priv drawn f = (f', Inr pair)"
  using key_dir_kept [of dir f] assms by (auto simp: load_or_generate_def holds_def Let_def)

lemma key_dir_made:
  assumes "ensure_key_dir E dir f = (f', Inr ())"
  shows "ke_exists E dir f'"
proof -
  obtain f1 where f1: "(if \<not> ke_exists E dir f then ke_create_dir_all E dir f else (f, Inr ())) = (f1, Inr ())"
      "ke_set_permissions E dir (7 * 8 ^ 2) f1 = (f', Inr ())"
    using assms by (auto simp: ensure_key_dir_def split: prod.splits sum.splits)
  then have "ke_exists E dir f1" using create_exists by (auto split: if_splits)
  then show ?thesis using permissions_keep [of dir dir "7 * 8 ^ 2" f1] f1(2) by simp
qed

lemma write_held:
  assumes "write_keypair E pub priv pair f = (f', Inr pair')" "ke_exists E dir f"
    and "pub \<noteq> priv" "dir \<noteq> pub" "dir \<noteq> priv"
  shows "pair' = pair \<and> holds dir pub priv pair f'"
proof -
  obtain pubb privb where pair: "pair = (pubb, privb)" by fastforce
  obtain f1 where f1: "ke_write E pub pubb f = (f1, Inr ())"
    using assms(1) pair by (auto simp: write_keypair_def split: prod.splits sum.splits)
  obtain f2 where f2: "ke_write E priv privb f1 = (f2, Inr ())"
    using assms(1) pair f1 by (auto simp: write_keypair_def split: prod.splits sum.splits)
  let ?f3 = "fst (ke_set_permissions E pub (6 * 8 ^ 2) f2)"
  have f': "f' = fst (ke_set_permissions E priv (6 * 8 ^ 2) ?f3)" and "pair' = pair"
    using assms(1) pair f1 f2 by (auto simp: write_keypair_def split: prod.splits sum.splits)
  moreover have "holds dir pub priv pair f2"
    using write_read [OF f1] write_read [OF f2] write_keeps [OF f1, of dir] write_keeps [OF f2, of dir]
      write_keeps [OF f2, of pub] assms(2-5) pair by (simp add: holds_def)
  ultimately show ?thesis by (simp add: holds_def permissions_keep)
qed

lemma load_or_generate_holds:
  assumes "load_or_generate E d pub priv drawn f = (f', Inr pair)" "pub \<noteq> []" "priv \<noteq> []" "pub \<noteq> priv"
  shows "\<exists>dir. resolve_key_dir E d = Inr dir \<and> holds dir (child_path dir pub) (child_path dir priv) pair f'"
proof -
  obtain dir f1 where dir: "resolve_key_dir E d = Inr dir" "ensure_key_dir E dir f = (f1, Inr ())"
    using assms(1) by (auto simp: load_or_generate_def split: sum.splits prod.splits)
  let ?pub = "child_path dir pub" and ?priv = "child_path dir priv"
  have neq: "?pub \<noteq> ?priv" "dir \<noteq> ?pub" "dir \<noteq> ?priv" using assms(2-4) by (auto simp: child_path_def)
  have f1: "ke_exists E dir f1" using dir(2) by (rule key_dir_made)
  show ?thesis
  proof (cases "ke_exists E ?pub f1 \<and> ke_exists E ?priv f1")
    case True
    then show ?thesis using assms(1) dir f1
      by (auto simp: load_or_generate_def holds_def Let_def split: sum.splits)
  next
    case False
    then obtain p where "generate_keypair E drawn = Inr p" "write_keypair E ?pub ?priv p f1 = (f', Inr pair)"
      using assms(1) dir by (auto simp: load_or_generate_def Let_def split: sum.splits)
    with write_held [OF _ f1 neq] dir(1) show ?thesis by blast
  qed
qed

text \<open>What is held under one pair of names is not touched by a call for another pair.\<close>

lemma key_dir_keeps:
  assumes "ensure_key_dir E dir f = (f', r)" "ke_exists E q f"
  shows "ke_exists E q f' \<and> ke_read E q f' = ke_read E q f"
proof -
  obtain f1 r1 where f1: "(if \<not> ke_exists E dir f then ke_create_dir_all E dir f else (f, Inr ())) = (f1, r1)"
    by fastforce
  then have kept: "ke_exists E q f1 \<and> ke_read E q f1 = ke_read E q f"
    using create_keeps [of dir f f1 r1 q] assms(2) by (auto split: if_splits)
  have "f' = f1 \<or> f' = fst (ke_set_permissions E dir (7 * 8 ^ 2) f1)"
    using assms(1) f1 by (auto simp: ensure_key_dir_def split: sum.splits)
  then show ?thesis using kept permissions_keep by auto
qed

lemma write_keeps_other:
  assumes "write_keypair E pub priv pair f = (f', r)" "ke_exists E q f" "q \<noteq> pub" "q \<noteq> priv"
  shows "ke_exists E q f' \<and> ke_read E q f' = ke_read E q f"
proof -
  obtain pubb privb where pair: "pair = (pubb, privb)" by fastforce
  obtain f1 r1 where f1: "ke_write E pub pubb f = (f1, r1)" by fastforce
  obtain f2 r2 where f2: "ke_write E priv privb f1 = (f2, r2)" by fastforce
  let ?f3 = "fst (ke_set_permissions E pub (6 * 8 ^ 2) f2)"
  have "f' = f1 \<or> f' = f2 \<or> f' = ?f3 \<or> f' = fst (ke_set_permissions E priv (6 * 8 ^ 2) ?f3)"
    using assms(1) unfolding write_keypair_def pair
    by (auto simp: f1 f2 split: prod.splits sum.splits)
  moreover have "ke_exists E q f1 \<and> ke_read E q f1 = ke_read E q f"
    by (rule write_keeps [OF f1 assms(3,2)])
  moreover from this have "ke_exists E q f2 \<and> ke_read E q f2 = ke_read E q f"
    using write_keeps [OF f2 assms(4)] by simp
  ultimately show ?thesis using permissions_keep by auto
qed

lemma load_keeps_other:
  assumes "load_or_generate E d pub priv drawn f = (f', r)" "ke_exists E q f"
    and "\<And>dir. resolve_key_dir E d = Inr dir \<Longrightarrow> q \<noteq> child_path dir pub \<and> q \<noteq> child_path dir priv"
  shows "ke_exists E q f' \<and> ke_read E q f' = ke_read E q f"
proof (cases "resolve_key_dir E d")
  case (Inl e)
  then show ?thesis using assms(1,2) by (simp add: load_or_generate_def)
next
  case (Inr dir)
  obtain f1 r1 where f1: "ensure_key_dir E dir f = (f1, r1)" by fastforce
  note kept = key_dir_keeps [OF f1 assms(2)]
  have "f' = f1 \<or> (\<exists>p. write_keypair E (child_path dir pub) (child_path dir priv) p f1 = (f', r))"
    using assms(1) by (auto simp: load_or_generate_def Inr f1 Let_def split: sum.splits if_splits)
  then show ?thesis using kept write_keeps_other assms(3) [OF Inr] by metis
qed

lemma held_by_other:
  assumes "load_or_generate E d pub priv drawn f = (f', r)" "resolve_key_dir E d = Inr dir"
    and "holds dir (child_path dir pub') (child_path dir priv') pair f"
    and "{pub', priv'} \<inter> {pub, priv} = {}" "[] \<notin> {pub, priv}"
  shows "holds dir (child_path dir pub') (child_path dir priv') pair f'"
proof -
  have keep: "ke_exists E q f' \<and> ke_read E q f' = ke_read E q f"
    if "q \<in> {dir, child_path dir pub', child_path dir priv'}" for q
    using that assms(2-5) by (intro load_keeps_other [OF assms(1)]) (auto simp: holds_def child_path_def)
  then show ?thesis using assms(3) by (simp add: holds_def)
qed

text \<open>The keypair that every further call will return.\<close>

definition signing_fixed :: "keypair \<Rightarrow> 'f key_state \<Rightarrow> bool" where
  "signing_fixed pair k \<longleftrightarrow>
     (case signing_mode (k_config k) of
        Ephemeral \<Rightarrow> k_ephemeral_signing k = Some pair
      | Persistent \<Rightarrow> \<exists>dir. resolve_key_dir E (key_directory (k_config k)) = Inr dir
          \<and> holds dir (child_path dir ''pubkey.bin'') (child_path dir ''privkey.bin'') pair (k_files k))"

lemma signing_fixed_call:
  assumes "signing_fixed pair k"
  shows "\<exists>k'. ensure_keypair_on_disk E drawn k = (k', Inr pair)"
proof (cases "signing_mode (k_config k)")
  case Persistent
  then obtain dir where "resolve_key_dir E (key_directory (k_config k)) = Inr dir"
      "holds dir (child_path dir ''pubkey.bin'') (child_path dir ''privkey.bin'') pair (k_files k)"
    using assms by (auto simp: signing_fixed_def)
  from load_held [OF this] obtain f' where
    "load_or_generate E (key_directory (k_config k)) ''pubkey.bin'' ''privkey.bin'' drawn (k_files k) = (f', Inr pair)"
    by blast
  then show ?thesis using Persistent by (simp add: ensure_keypair_on_disk_def)
qed (use assms in \<open>simp add: signing_fixed_def ensure_keypair_on_disk_def\<close>)

lemma signing_fixed_after:
  assumes "ensure_keypair_on_disk E drawn k = (k', Inr pair)"
  shows "signing_fixed pair k'"
proof (cases "signing_mode (k_config k)")
  case Persistent
  then obtain f' where f': "load_or_generate E (key_directory (k_config k)) ''pubkey.bin'' ''privkey.bin'' drawn (k_files k)
      = (f', Inr pair)" "k' = k \<lparr> k_files := f' \<rparr>"
    using assms by (auto simp: ensure_keypair_on_disk_def split: prod.splits)
  from load_or_generate_holds [OF f'(1)] show ?thesis using Persistent f'(2) by (simp add: signing_fixed_def)
next
  case Ephemeral
  then show ?thesis
    using assms by (auto simp: ensure_keypair_on_disk_def signing_fixed_def split: option.splits sum.splits)
qed

lemma signing_fixed_kem:
  assumes "signing_fixed pair k"
  shows "signing_fixed pair (fst (ensure_kem_keypair_on_disk E drawn k))"
proof (cases "kem_mode (k_config k)")
  case Persistent
  obtain f' r where f': "load_or_generate E (key_directory (k_config k)) ''kem_pub.bin'' ''kem_priv.bin'' drawn (k_files k)
      = (f', r)" by fastforce
  have "holds dir (child_path dir ''pubkey.bin'') (child_path dir ''privkey.bin'') pair f'"
    if "resolve_key_dir E (key_directory (k_config k)) = Inr dir"
      "holds dir (child_path dir ''pubkey.bin'') (child_path dir ''privkey.bin'') pair (k_files k)" for dir
    using held_by_other [OF f' that] by simp
  then show ?thesis using assms Persistent
    by (auto simp: ensure_kem_keypair_on_disk_def f' signing_fixed_def split: keypair_mode.splits)
next
  case Ephemeral
  then show ?thesis using assms
    by (auto simp: ensure_kem_keypair_on_disk_def signing_fixed_def split: option.splits sum.splits keypair_mode.splits)
qed

end

section \<open>Files as a map\<close>

text \<open>
  The file operations on a map from paths to files and directories; writing and creating may fail
  on the paths \<open>broken\<close>.
\<close>

type_synonym disk = "(string, bytes option) hmap"

definition disk_env :: "(string \<Rightarrow> bool) \<Rightarrow> string option \<Rightarrow> string + unit \<Rightarrow> disk key_env" where
  "disk_env broken home init =
     \<lparr> ke_exists = (\<lambda>p f. hm_contains_key f p),
       ke_create_dir_all = (\<lambda>p f.
         case hm_get f p of
           Some (Some _) \<Rightarrow> (f, Inl ''not a directory'')
         | Some None \<Rightarrow> (f, Inr ())
         | None \<Rightarrow> if broken p then (f, Inl ''io error'') else (hm_insert p None f, Inr ())),
       ke_set_permissions = (\<lambda>p mode f.
         if hm_contains_key f p then (f, Inr ()) else (f, Inl ''no such file'')),
       ke_read = (\<lambda>p f.
         case hm_get f p of
           Some (Some b) \<Rightarrow> Inr b | Some None \<Rightarrow> Inl ''is a directory'' | None \<Rightarrow> Inl ''no such file''),
       ke_write = (\<lambda>p b f.
         if broken p \<or> hm_get f p = Some None then (f, Inl ''io error'') else (hm_insert p (Some b) f, Inr ())),
       ke_home_dir = home, ke_pqc_init = init \<rparr>"

interpretation disk: key_files "disk_env broken home init" for broken home init
  by unfold_locales (auto simp: disk_env_def hm_contains_key_def split: option.splits if_splits)

text \<open>The calls that may come between two uses of the signing keypair.\<close>

inductive key_steps :: "'f key_env \<Rightarrow> 'f key_state \<Rightarrow> 'f key_state \<Rightarrow> bool" for E where
  keys_start: "key_steps E k k"
| keys_signing: "key_steps E k k1 \<Longrightarrow> key_steps E k (fst (ensure_keypair_on_disk E drawn k1))"
| keys_kem: "key_steps E k k1 \<Longrightarrow> key_steps E k (fst (ensure_kem_keypair_on_disk E drawn k1))"
| keys_manager_signing: "key_steps E k k1 \<Longrightarrow> key_steps E k (fst (get_signing_keypair E drawn mode k1))"
| keys_manager_kem: "key_steps E k k1 \<Longrightarrow> key_steps E k (fst (get_kem_keypair E drawn mode k1))"
| keys_clear: "key_steps E k k1 \<Longrightarrow> key_steps E k (clear_ephemeral_caches k1)"

lemma fst_map_keypair_error [simp]: "fst (map_keypair_error err r) = fst r"
  by (auto simp: map_keypair_error_def split: prod.splits sum.splits)

context key_files
begin

lemma signing_fixed_cached [simp]:
  "signing_fixed pair (k \<lparr> k_cached_signing := a \<rparr>) = signing_fixed pair k"
  "signing_fixed pair (k \<lparr> k_cached_kem := b \<rparr>) = signing_fixed pair k"
  by (simp_all add: signing_fixed_def split: keypair_mode.splits)

lemma signing_fixed_signing:
  "signing_fixed pair k \<Longrightarrow> signing_fixed pair (fst (ensure_keypair_on_disk E drawn k))"
  using signing_fixed_call [of pair k drawn] signing_fixed_after by fastforce

lemma signing_fixed_steps: "key_steps E k k' \<Longrightarrow> signing_fixed pair k \<Longrightarrow> signing_fixed pair k'"
proof (induction rule: key_steps.induct)
  case (keys_manager_signing k k1 drawn mode)
  then show ?case using signing_fixed_signing
    by (auto simp: get_signing_keypair_def get_persistent_signing_keypair_def get_ephemeral_signing_keypair_def
        split: keypair_mode.splits option.splits sum.splits)
next
  case (keys_manager_kem k k1 drawn mode)
  then show ?case using signing_fixed_kem
    by (auto simp: get_kem_keypair_def get_persistent_kem_keypair_def get_ephemeral_kem_keypair_def
        split: keypair_mode.splits option.splits sum.splits)
qed (simp_all add: signing_fixed_signing signing_fixed_kem clear_ephemeral_caches_def)

end

section \<open>Properties\<close>

text \<open>
  The signing keypair of a node does not change: once a call returned it, every later call
  returns the same one, whatever keypairs would be generated, whatever calls for other keys and
  of the manager come between, and whichever files cannot be written; with key files and with
  ephemeral keys.
\<close>

theorem signing_keypair_stable:
  assumes "ensure_keypair_on_disk (disk_env broken home init) drawn k = (k1, Inr pair)"
    and "key_steps (disk_env broken home init) k1 k2"
  shows "\<exists>k3. ensure_keypair_on_disk (disk_env broken home init) drawn' k2 = (k3, Inr pair)"
  using disk.signing_fixed_call [OF disk.signing_fixed_steps [OF assms(2) disk.signing_fixed_after [OF assms(1)]]] .

section \<open>Examples\<close>

definition keys0 :: "disk key_state" where
  "keys0 = \<lparr> k_files = [], k_config = default_keypair_config, k_ephemeral_signing = None,
     k_ephemeral_kem = None, k_cached_signing = None, k_cached_kem = None \<rparr>"

definition env0 :: "disk key_env" where
  "env0 = disk_env (\<lambda>_. False) (Some ''/home/u'') (Inr ())"

theorem signing_keypair_stable_witness:
  "snd (ensure_keypair_on_disk env0 (Inr ([1], [2])) keys0) = Inr ([1], [2])
   \<and> (\<exists>k3. ensure_keypair_on_disk env0 (Inr ([3], [4]))
        (fst (ensure_kem_keypair_on_disk env0 (Inr ([5], [6]))
          (fst (ensure_keypair_on_disk env0 (Inr ([1], [2])) keys0)))) = (k3, Inr ([1], [2])))"
proof -
  have first: "snd (ensure_keypair_on_disk env0 (Inr ([1], [2])) keys0) = Inr ([1], [2])" by code_simp
  then have call: "ensure_keypair_on_disk env0 (Inr ([1], [2])) keys0
      = (fst (ensure_keypair_on_disk env0 (Inr ([1], [2])) keys0), Inr ([1], [2]))" by (metis prod.collapse)
  show ?thesis
    using first signing_keypair_stable [OF call [unfolded env0_def] keys_kem [OF keys_start]] unfolding env0_def by blast
qed

end
