(* ===== verification/Messages.thy ===== *)
theory Messages
  imports Workload_Integration Capacity Recipient_Blob
begin

text \<open>
  The messages of the protocol, \<open>protocol/src/lib.rs\<close>: the builders of the FlatBuffers messages,
  each the record of the fields it sets; encrypted envelopes; the name of a manifest and the
  manifest ids computed from it. The hash function of the standard library is an argument, and
  \<^const>\<open>None\<close> is the panic of a slice that is longer than its text.
\<close>

section \<open>Messages\<close>

record health_message =
  hm_ok :: bool
  hm_status :: "string option"

definition build_health :: "bool \<Rightarrow> string \<Rightarrow> health_message" where
  "build_health ok status = \<lparr> hm_ok = ok, hm_status = Some status \<rparr>"

definition build_capacity_request :: "u32 \<Rightarrow> u64 \<Rightarrow> u64 \<Rightarrow> u32 \<Rightarrow> capacity_request" where
  "build_capacity_request cpu_milli memory_bytes storage_bytes replicas =
     \<lparr> cq_request_id = None, cq_cpu_milli = cpu_milli, cq_memory_bytes = memory_bytes,
       cq_storage_bytes = storage_bytes, cq_replicas = replicas \<rparr>"

definition build_apply_request :: "u32 \<Rightarrow> string \<Rightarrow> string \<Rightarrow> string \<Rightarrow> string \<Rightarrow> apply_request" where
  "build_apply_request replicas operation_id manifest_json origin_peer manifest_id =
     \<lparr> ap_replicas = replicas, ap_operation_id = Some operation_id, ap_manifest_json = Some manifest_json,
       ap_origin_peer = Some origin_peer, ap_manifest_id = Some manifest_id \<rparr>"

text \<open>The sender that a delete request names is read by nobody and left out of the record.\<close>

definition build_delete_request :: "string \<Rightarrow> string \<Rightarrow> string \<Rightarrow> bool \<Rightarrow> delete_request" where
  "build_delete_request manifest_id operation_id origin_peer force =
     \<lparr> del_manifest_id = Some manifest_id, del_operation_id = Some operation_id, del_force = force \<rparr>"

record handshake_message =
  hs_nonce :: u32
  hs_timestamp :: u64
  hs_protocol_version :: "string option"
  hs_signature :: "string option"

definition build_handshake :: "u32 \<Rightarrow> u64 \<Rightarrow> string \<Rightarrow> string \<Rightarrow> handshake_message" where
  "build_handshake nonce timestamp protocol_version signature =
     \<lparr> hs_nonce = nonce, hs_timestamp = timestamp, hs_protocol_version = Some protocol_version,
       hs_signature = Some signature \<rparr>"

text \<open>The two enumerations of the generated code are numbers of eight bits, with names for three of them.\<close>

datatype signature_scheme = SignatureScheme (scheme_number: "8 word")
datatype operation_type = OperationType (operation_number: "8 word")

definition signature_schemes :: "(signature_scheme \<times> string) list" where
  "signature_schemes =
     [(SignatureScheme 0, ''NONE''), (SignatureScheme 1, ''ED25519''), (SignatureScheme 2, ''RSA_PSS'')]"

definition operation_types :: "(operation_type \<times> string) list" where
  "operation_types = [(OperationType 0, ''APPLY''), (OperationType 1, ''UPDATE''), (OperationType 2, ''DELETE'')]"

definition scheme_variant_name :: "signature_scheme \<Rightarrow> string option" where
  "scheme_variant_name s = map_of signature_schemes s"

definition operation_variant_name :: "operation_type \<Rightarrow> string option" where
  "operation_variant_name p = map_of operation_types p"

record applied_manifest =
  am_id :: "string option"
  am_operation_id :: "string option"
  am_origin_peer :: "string option"
  am_owner_pubkey :: "bytes option"
  am_signature_scheme :: signature_scheme
  am_signature :: "bytes option"
  am_manifest_json :: "string option"
  am_manifest_kind :: "string option"
  am_labels :: "(string option \<times> string option) list option"
  am_timestamp :: u64
  am_operation :: operation_type
  am_ttl_secs :: u32
  am_content_hash :: "string option"

definition build_applied_manifest ::
  "string \<Rightarrow> string \<Rightarrow> string \<Rightarrow> bytes \<Rightarrow> bytes \<Rightarrow> string \<Rightarrow> string \<Rightarrow> (string \<times> string) list \<Rightarrow> u64 \<Rightarrow> u32
     \<Rightarrow> string \<Rightarrow> applied_manifest" where
  "build_applied_manifest i operation_id origin_peer owner_pubkey signature manifest_json manifest_kind
       labels timestamp ttl_secs content_hash =
     \<lparr> am_id = Some i, am_operation_id = Some operation_id, am_origin_peer = Some origin_peer,
       am_owner_pubkey = Some owner_pubkey, am_signature_scheme = SignatureScheme 0, am_signature = Some signature,
       am_manifest_json = Some manifest_json, am_manifest_kind = Some manifest_kind,
       am_labels = Some (map (\<lambda>(k, v). (Some k, Some v)) labels), am_timestamp = timestamp,
       am_operation = OperationType 0, am_ttl_secs = ttl_secs, am_content_hash = Some content_hash \<rparr>"

definition build_manifest_target :: "string \<Rightarrow> string \<Rightarrow> string \<times> string" where
  "build_manifest_target peer_id payload_json = (peer_id, payload_json)"

text \<open>The messages the REST API answers with.\<close>

datatype rest_message =
    NodesResponse "string list"
  | CandidatesResponse bool "(string \<times> string) list"
  | TaskCreateResponse bool string string u64 string
  | TaskStatusResponse string string "string list" "string list" "string option"
  | DeleteResponse delete_response
  | ApplyResponse apply_response

definition build_nodes_response :: "string list \<Rightarrow> rest_message" where
  "build_nodes_response peers = NodesResponse peers"

definition build_candidates_response_with_keys :: "bool \<Rightarrow> (string \<times> string) list \<Rightarrow> rest_message" where
  "build_candidates_response_with_keys ok candidates = CandidatesResponse ok candidates"

definition build_candidates_response :: "bool \<Rightarrow> string list \<Rightarrow> rest_message" where
  "build_candidates_response ok responders =
     build_candidates_response_with_keys ok (map (\<lambda>peer_id. (peer_id, [])) responders)"

definition build_task_create_response :: "bool \<Rightarrow> string \<Rightarrow> string \<Rightarrow> u64 \<Rightarrow> rest_message" where
  "build_task_create_response ok task_id manifest_id selection_window_ms =
     TaskCreateResponse ok task_id manifest_id selection_window_ms ''task created''"

definition build_task_status_response ::
  "string \<Rightarrow> string \<Rightarrow> string list \<Rightarrow> string list \<Rightarrow> string option \<Rightarrow> rest_message" where
  "build_task_status_response task_id st assigned_peers shares_distributed manifest_cid =
     TaskStatusResponse task_id st assigned_peers shares_distributed manifest_cid"

section \<open>Encrypted envelopes\<close>

datatype sealing_error = SealBlob blob_error | SealKey | SealSign envelope_error

definition hex_digit :: "nat \<Rightarrow> char" where
  "hex_digit d = (if d < 10 then char_of (48 + d) else char_of (87 + d))"

fun to_hex :: "nat \<Rightarrow> string" where
  "to_hex n = (if n < 16 then [hex_digit n] else to_hex (n div 16) @ [hex_digit (n mod 16)])"

declare to_hex.simps [simp del]

text \<open>
  The nonce of the envelope is the hash \<open>time_hash\<close> of the current time; \<open>secs\<close> is the time in
  seconds.
\<close>

definition build_encrypted_envelope ::
  "crypto_lib \<Rightarrow> kem_lib \<Rightarrow> bytes \<Rightarrow> bytes \<Rightarrow> u64 \<Rightarrow> u64 \<Rightarrow> bytes \<Rightarrow> string \<Rightarrow> bytes \<Rightarrow> bytes \<Rightarrow> string
     \<Rightarrow> sealing_error + bytes" where
  "build_encrypted_envelope L K r aes_nonce time_hash secs payload payload_type recipient_pubkey
       sender_privkey sender_pubkey =
     (case encrypt_payload_for_recipient K r aes_nonce recipient_pubkey payload of
        Inl e \<Rightarrow> Inl (SealBlob e)
      | Inr encrypted_payload \<Rightarrow>
          (let nonce = to_hex (unat time_hash);
               canonical = build_envelope_canonical L encrypted_payload payload_type nonce secs ''ml-dsa-65'' None in
           case b64_decode L sender_pubkey of
             None \<Rightarrow> Inl SealKey
           | Some pk \<Rightarrow>
               (case sign_envelope L sender_privkey pk canonical of
                  Inl e \<Rightarrow> Inl (SealSign e)
                | Inr (sig_b64, pub_b64) \<Rightarrow>
                    Inr (build_envelope_signed L encrypted_payload payload_type nonce secs ''ml-dsa-65''
                           ''ml-dsa-65'' sig_b64 pub_b64 None))))"

definition build_encrypted_envelope_with_peer ::
  "crypto_lib \<Rightarrow> kem_lib \<Rightarrow> bytes \<Rightarrow> bytes \<Rightarrow> u64 \<Rightarrow> u64 \<Rightarrow> bytes \<Rightarrow> string \<Rightarrow> bytes \<Rightarrow> bytes \<Rightarrow> string
     \<Rightarrow> string \<Rightarrow> string option \<Rightarrow> sealing_error + bytes" where
  "build_encrypted_envelope_with_peer L K r aes_nonce time_hash secs payload payload_type recipient_pubkey
       sender_privkey sender_pubkey peer_id sender_kem_pub_b64 =
     (case encrypt_payload_for_recipient K r aes_nonce recipient_pubkey payload of
        Inl e \<Rightarrow> Inl (SealBlob e)
      | Inr encrypted_payload \<Rightarrow>
          (let nonce = to_hex (unat time_hash);
               canonical = build_envelope_canonical_with_peer L encrypted_payload payload_type nonce secs
                             ''ml-dsa-65'' peer_id sender_kem_pub_b64 in
           case b64_decode L sender_pubkey of
             None \<Rightarrow> Inl SealKey
           | Some pk \<Rightarrow>
               (case sign_envelope L sender_privkey pk canonical of
                  Inl e \<Rightarrow> Inl (SealSign e)
                | Inr (sig_b64, pub_b64) \<Rightarrow>
                    Inr (build_envelope_signed_with_peer L encrypted_payload payload_type nonce secs ''ml-dsa-65''
                           ''ml-dsa-65'' sig_b64 pub_b64 peer_id sender_kem_pub_b64))))"

section \<open>Manifest ids\<close>

fun first_name :: "string list \<Rightarrow> string option" where
  "first_name [] = None"
| "first_name (line # rest) =
     (let trimmed = trim line in
      if starts_with trimmed ''name:''
      then (case split_char (CHR '':'') trimmed of _ # s # _ \<Rightarrow> Some (trim s) | _ \<Rightarrow> None)
      else first_name rest)"

definition extract_manifest_name :: "bytes \<Rightarrow> string option" where
  "extract_manifest_name manifest_data = Option.bind (from_utf8 manifest_data) (\<lambda>s. first_name (lines s))"

text \<open>The first 16 digits of a hash, if it has that many.\<close>

definition short_hash :: "u64 \<Rightarrow> string option" where
  "short_hash h = (let s = to_hex (unat h) in if length s < 16 then None else Some (take 16 s))"

text \<open>What a hasher is fed: a name, a name and a version, or the bytes of a manifest.\<close>

datatype hash_input = HashStr string | HashStrU64 string u64 | HashBytes bytes

definition compute_manifest_id :: "(hash_input \<Rightarrow> u64) \<Rightarrow> string \<Rightarrow> u64 \<Rightarrow> string option" where
  "compute_manifest_id hash name version = short_hash (hash (HashStrU64 name version))"

definition compute_manifest_id_from_content :: "(hash_input \<Rightarrow> u64) \<Rightarrow> bytes \<Rightarrow> string option" where
  "compute_manifest_id_from_content hash manifest_data = short_hash (hash (HashBytes manifest_data))"

section \<open>Hexadecimal digits\<close>

lemma length_to_hex: "n < 16 ^ Suc k \<Longrightarrow> 16 ^ k \<le> n \<or> k = 0 \<Longrightarrow> length (to_hex n) = Suc k"
proof (induction k arbitrary: n)
  case 0
  then show ?case by (subst to_hex.simps) simp
next
  case (Suc k)
  then have "16 ^ Suc k \<le> n" by simp
  then have "16 \<le> n" by (metis le_trans one_le_numeral power_increasing power_one_right Suc_le_mono le0 One_nat_def)
  moreover have "n div 16 < 16 ^ Suc k" "16 ^ k \<le> n div 16"
    using Suc.prems \<open>16 ^ Suc k \<le> n\<close> by (simp_all add: less_mult_imp_div_less mult.commute less_eq_div_iff_mult_less_eq)
  ultimately show ?case using Suc.IH by (subst to_hex.simps) simp
qed

lemma length_to_hex_mono: "n < 16 ^ Suc k \<Longrightarrow> length (to_hex n) \<le> Suc k"
proof (induction k arbitrary: n)
  case 0
  then show ?case by (subst to_hex.simps) simp
next
  case (Suc k)
  show ?case
  proof (cases "n < 16")
    case True
    then show ?thesis by (subst to_hex.simps) simp
  next
    case False
    have "n div 16 < 16 ^ Suc k" using Suc.prems by (simp add: less_mult_imp_div_less mult.commute)
    with False Suc.IH show ?thesis by (subst to_hex.simps) simp
  qed
qed

lemma short_hash_Some: "2 ^ 60 \<le> unat h \<Longrightarrow> short_hash h = Some (to_hex (unat h))"
proof -
  assume "2 ^ 60 \<le> unat h"
  moreover have "unat h < 2 ^ 64" using unsigned_less [of h] by simp
  ultimately have "length (to_hex (unat h)) = Suc 15" by (intro length_to_hex) simp_all
  then show ?thesis by (simp add: short_hash_def Let_def)
qed

lemma short_hash_None: "unat h < 2 ^ 60 \<Longrightarrow> short_hash h = None"
proof -
  assume "unat h < 2 ^ 60"
  then have "length (to_hex (unat h)) \<le> Suc 14" by (intro length_to_hex_mono) simp
  then show ?thesis by (simp add: short_hash_def Let_def)
qed

end
