(* ===== verification/Rest_Api.thy ===== *)
theory Rest_Api
  imports Messages
begin

text \<open>
  The REST API of a node, \<open>machine/src/restapi\<close>: the middleware that opens encrypted envelopes
  (\<open>envelope_handler.rs\<close>) and the handlers of the routes (\<open>mod.rs\<close>). A response is an HTTP status
  or the bytes of a body; \<open>wire\<close> writes a FlatBuffers message. What a handler asks of the network
  loop is answered by an argument, which may also be that the loop is gone, that it closed the
  channel, or that the time was up. A panic is the value \<^const>\<open>None\<close>, or \<open>Panicked\<close> in the
  middleware.
\<close>

section \<open>The envelope handler\<close>

record envelope_metadata =
  em_signing_pubkey :: bytes
  em_kem_pubkey :: bytes
  em_peer_id :: "string option"

definition empty_metadata :: envelope_metadata where
  "empty_metadata = \<lparr> em_signing_pubkey = [], em_kem_pubkey = [], em_peer_id = None \<rparr>"

record envelope_handler =
  eh_kem_private_key :: bytes
  eh_signing_private_key :: "bytes option"
  eh_public_key :: string

text \<open>The keypair of the process, if it was set, and what loading the key files returned.\<close>

definition envelope_handler_new ::
  "(bytes \<times> bytes) option option \<Rightarrow> string + (bytes \<times> bytes) \<Rightarrow> bytes \<Rightarrow> string \<Rightarrow> envelope_handler" where
  "envelope_handler_new node_keypair on_disk kem_private_key public_key =
     (let from_disk = (case on_disk of Inr (_, priv_bytes) \<Rightarrow> Some priv_bytes | Inl _ \<Rightarrow> None) in
      \<lparr> eh_kem_private_key = kem_private_key,
        eh_signing_private_key =
          (case node_keypair of
             Some (Some (_, priv_bytes)) \<Rightarrow> Some priv_bytes
           | Some None \<Rightarrow> from_disk
           | None \<Rightarrow> from_disk),
        eh_public_key = public_key \<rparr>)"

datatype request_error =
    RequestParse
  | RequestVerification envelope_error
  | RequestNoPayload
  | RequestDecryption blob_error

definition decrypt_request_envelope ::
  "crypto_lib \<Rightarrow> kem_lib \<Rightarrow> instant \<Rightarrow> envelope_handler \<Rightarrow> bytes \<Rightarrow> nonce_store
     \<Rightarrow> nonce_store \<times> (request_error + bytes) option" where
  "decrypt_request_envelope L K now h envelope_bytes st =
     (case fb_root_as_envelope L envelope_bytes of
        None \<Rightarrow> (st, Some (Inl RequestParse))
      | Some e \<Rightarrow>
          (let peer_id = (case fe_peer_id e of Some p \<Rightarrow> p | None \<Rightarrow> ''global'') in
           case verify_flatbuffer_envelope_for_peer L now (300 * 1000000000) peer_id envelope_bytes st of
             (st', Inl err) \<Rightarrow> (st', Some (Inl (RequestVerification err)))
           | (st', Inr _) \<Rightarrow>
               (case fe_payload e of
                  None \<Rightarrow> (st', Some (Inl RequestNoPayload))
                | Some encrypted_payload \<Rightarrow>
                    (case decrypt_payload_from_recipient_blob K encrypted_payload (eh_kem_private_key h) of
                       None \<Rightarrow> (st', None)
                     | Some (Inl err) \<Rightarrow> (st', Some (Inl (RequestDecryption err)))
                     | Some (Inr payload) \<Rightarrow> (st', Some (Inr payload))))))"

text \<open>The random values and the time an encrypted response is made with.\<close>

record reply_env =
  re_randomness :: bytes
  re_aes_nonce :: bytes
  re_uuid :: string
  re_millis :: nat

definition encrypt_response_envelope_with_key ::
  "crypto_lib \<Rightarrow> kem_lib \<Rightarrow> reply_env \<Rightarrow> envelope_handler \<Rightarrow> bytes \<Rightarrow> string \<Rightarrow> bytes \<Rightarrow> bytes option" where
  "encrypt_response_envelope_with_key L K re h payload payload_type kem_pubkey =
     (if kem_pubkey = [] \<or> \<not> kl_public_ok K kem_pubkey then None
      else case encrypt_payload_for_recipient K (re_randomness re) (re_aes_nonce re) kem_pubkey payload of
             Inl _ \<Rightarrow> None
           | Inr encrypted_blob \<Rightarrow>
               (let ts = of_nat (re_millis re);
                    canonical = build_envelope_canonical L encrypted_blob payload_type (re_uuid re) ts ''ml-dsa-65'' None in
                case eh_signing_private_key h of
                  None \<Rightarrow> None
                | Some signing_key \<Rightarrow>
                    (case b64_decode L (eh_public_key h) of
                       None \<Rightarrow> None
                     | Some public_key_bytes \<Rightarrow>
                         (case sign_envelope L signing_key public_key_bytes canonical of
                            Inl _ \<Rightarrow> None
                          | Inr (sig_b64, pub_b64) \<Rightarrow>
                              Some (build_envelope_signed L encrypted_blob payload_type (re_uuid re) ts
                                ''ml-dsa-65'' ''ml-dsa-65'' sig_b64 pub_b64 None)))))"

definition extract_peer_id :: "string option \<Rightarrow> envelope \<Rightarrow> string option" where
  "extract_peer_id peer_header e = (case peer_header of Some p \<Rightarrow> Some p | None \<Rightarrow> fe_peer_id e)"

section \<open>The middleware\<close>

text \<open>A request: its content type, if the header is readable, and its body, if it can be read.\<close>

record http_request =
  rq_content_type :: "string option"
  rq_body :: "bytes option"

datatype middleware_outcome = Rejected_with nat | Forwarded envelope_metadata "bytes option" | Panicked

definition decode_key :: "crypto_lib \<Rightarrow> string option \<Rightarrow> bytes" where
  "decode_key L key = (case Option.bind key (b64_decode L) of Some b \<Rightarrow> b | None \<Rightarrow> [])"

definition metadata_of_envelope :: "crypto_lib \<Rightarrow> envelope \<Rightarrow> envelope_metadata" where
  "metadata_of_envelope L e =
     \<lparr> em_signing_pubkey = decode_key L (fe_pubkey e), em_kem_pubkey = decode_key L (fe_kem_pubkey e),
       em_peer_id = fe_peer_id e \<rparr>"

definition envelope_middleware ::
  "crypto_lib \<Rightarrow> kem_lib \<Rightarrow> instant \<Rightarrow> envelope_handler \<Rightarrow> http_request \<Rightarrow> nonce_store
     \<Rightarrow> nonce_store \<times> middleware_outcome" where
  "envelope_middleware L K now h req st =
     (if rq_content_type req = Some ''application/octet-stream''
      then (case rq_body req of
              None \<Rightarrow> (st, Rejected_with 400)
            | Some body_bytes \<Rightarrow>
                (case fb_root_as_envelope L body_bytes of
                   None \<Rightarrow> (st, Forwarded empty_metadata (Some body_bytes))
                 | Some e \<Rightarrow>
                     (case decrypt_request_envelope L K now h body_bytes st of
                        (st', None) \<Rightarrow> (st', Panicked)
                      | (st', Some (Inl _)) \<Rightarrow> (st', Rejected_with 401)
                      | (st', Some (Inr payload)) \<Rightarrow> (st', Forwarded (metadata_of_envelope L e) (Some payload)))))
      else (st, Forwarded empty_metadata (rq_body req)))"

section \<open>Responses\<close>

type_synonym http_response = "nat + bytes"

definition create_response_with_fallback :: "bytes \<Rightarrow> http_response" where
  "create_response_with_fallback payload = Inr payload"

definition create_encrypted_response_with_key ::
  "crypto_lib \<Rightarrow> kem_lib \<Rightarrow> reply_env \<Rightarrow> envelope_handler \<Rightarrow> bytes \<Rightarrow> string \<Rightarrow> string option \<Rightarrow> bytes
     \<Rightarrow> http_response" where
  "create_encrypted_response_with_key L K re h payload payload_type peer_id kem_pubkey =
     (case peer_id of
        None \<Rightarrow> Inr payload
      | Some _ \<Rightarrow>
          (case encrypt_response_envelope_with_key L K re h payload payload_type kem_pubkey of
             Some encrypted_envelope \<Rightarrow> Inr encrypted_envelope
           | None \<Rightarrow> Inr payload))"

definition create_response_for_envelope_metadata ::
  "crypto_lib \<Rightarrow> kem_lib \<Rightarrow> reply_env \<Rightarrow> envelope_handler \<Rightarrow> bytes \<Rightarrow> string \<Rightarrow> envelope_metadata
     \<Rightarrow> http_response" where
  "create_response_for_envelope_metadata L K re h payload payload_type md =
     (if em_kem_pubkey md \<noteq> []
      then create_encrypted_response_with_key L K re h payload payload_type (em_peer_id md) (em_kem_pubkey md)
      else create_response_with_fallback payload)"

section \<open>State of the API\<close>

record task_record =
  tr_manifest_bytes :: bytes
  tr_created_at :: system_time
  tr_shares_distributed :: "(string, bool) hmap"
  tr_manifests_distributed :: "(string, string) hmap"
  tr_assigned_peers :: "string list option"
  tr_manifest_cid :: "string option"
  tr_last_operation_id :: "string option"
  tr_owner_pubkey :: bytes

record 'e rest_state =
  rs_peers :: "string list"
  rs_task_store :: "(string, task_record) hmap"
  rs_decrypted_manifests :: "(string, json) hmap"
  rs_operation_manifest :: "(string, string) hmap"
  rs_node :: "'e node"
  rs_handler :: envelope_handler

definition store_decrypted_manifest :: "string \<Rightarrow> json \<Rightarrow> 'e rest_state \<Rightarrow> 'e rest_state" where
  "store_decrypted_manifest manifest_id v s =
     s \<lparr> rs_decrypted_manifests := hm_insert manifest_id v (rs_decrypted_manifests s) \<rparr>"

definition store_operation_manifest_mapping :: "string \<Rightarrow> string \<Rightarrow> 'e rest_state \<Rightarrow> 'e rest_state" where
  "store_operation_manifest_mapping operation_id manifest_cid s =
     s \<lparr> rs_operation_manifest := hm_insert operation_id manifest_cid (rs_operation_manifest s) \<rparr>"

definition get_manifest_cid_for_operation :: "string \<Rightarrow> 'e rest_state \<Rightarrow> string option" where
  "get_manifest_cid_for_operation operation_id s = hm_get (rs_operation_manifest s) operation_id"

definition get_decrypted_manifests_map :: "'e rest_state \<Rightarrow> json" where
  "get_decrypted_manifests_map s = JObject (rs_decrypted_manifests s)"

text \<open>The state of a new router: no task is known.\<close>

definition build_router_state ::
  "string list \<Rightarrow> 'e node \<Rightarrow> envelope_handler \<Rightarrow> (string, json) hmap \<Rightarrow> (string, string) hmap \<Rightarrow> 'e rest_state" where
  "build_router_state peers n h decrypted operations =
     \<lparr> rs_peers = peers, rs_task_store = hm_empty, rs_decrypted_manifests = decrypted,
       rs_operation_manifest = operations, rs_node = n, rs_handler = h \<rparr>"

section \<open>Tasks\<close>

record task_env =
  te_hash :: "hash_input \<Rightarrow> u64"
  te_uuid :: string
  te_envelope_nonce :: bytes
  te_millis :: nat
  te_now :: system_time
  te_reply :: reply_env

text \<open>The manifest id and the operation id of a new task.\<close>

definition hashed_manifest_id :: "task_env \<Rightarrow> bytes \<Rightarrow> string option" where
  "hashed_manifest_id te payload =
     short_hash (case extract_manifest_name payload of
       Some name \<Rightarrow> te_hash te (HashStr name) | None \<Rightarrow> te_hash te (HashBytes payload))"

definition task_ids :: "task_env \<Rightarrow> (string, string) hmap \<Rightarrow> bytes \<Rightarrow> (string \<times> string) option" where
  "task_ids te params payload =
     (case hm_get params ''manifest_id'' of
        Some i \<Rightarrow> Some (i, case hm_get params ''operation_id'' of Some op \<Rightarrow> op | None \<Rightarrow> te_uuid te)
      | None \<Rightarrow>
          (case hm_get params ''operation_id'' of
             Some operation_id \<Rightarrow> map_option (\<lambda>i. (i, operation_id)) (hashed_manifest_id te payload)
           | None \<Rightarrow> map_option (\<lambda>i. (i, te_uuid te)) (hashed_manifest_id te payload)))"

definition manifest_bytes_to_store :: "crypto_lib \<Rightarrow> task_env \<Rightarrow> bytes \<Rightarrow> bytes" where
  "manifest_bytes_to_store L te payload =
     (if payload \<noteq> [] \<and> hd payload = 2
      then build_envelope_canonical L payload ''manifest'' (b64_encode L (te_envelope_nonce te))
             (of_nat (te_millis te)) ''ml-kem-512'' None
      else payload)"

definition create_task ::
  "crypto_lib \<Rightarrow> kem_lib \<Rightarrow> (rest_message \<Rightarrow> bytes) \<Rightarrow> task_env \<Rightarrow> (string, string) hmap \<Rightarrow> envelope_metadata
     \<Rightarrow> bytes \<Rightarrow> 'e rest_state \<Rightarrow> ('e rest_state \<times> http_response) option" where
  "create_task L K wire te params md payload s =
     (case task_ids te params payload of
        None \<Rightarrow> None
      | Some (manifest_id, operation_id) \<Rightarrow>
          (let s = store_operation_manifest_mapping operation_id manifest_id s;
               owner_pubkey = em_signing_pubkey md;
               rec = \<lparr> tr_manifest_bytes = manifest_bytes_to_store L te payload, tr_created_at = te_now te,
                       tr_shares_distributed = hm_empty, tr_manifests_distributed = hm_empty,
                       tr_assigned_peers = None, tr_manifest_cid = Some manifest_id,
                       tr_last_operation_id = Some operation_id, tr_owner_pubkey = owner_pubkey \<rparr>;
               s = s \<lparr> rs_task_store := hm_insert manifest_id rec (rs_task_store s) \<rparr>;
               s = (if owner_pubkey \<noteq> []
                    then s \<lparr> rs_node := record_manifest_owner manifest_id owner_pubkey (rs_node s) \<rparr> else s);
               response_data = wire (build_task_create_response True manifest_id manifest_id FREE_CAPACITY_TIMEOUT_MS) in
           Some (s, if em_kem_pubkey md \<noteq> []
                    then create_encrypted_response_with_key L K (te_reply te) (rs_handler s) response_data
                           ''task_create_response'' (em_peer_id md) (em_kem_pubkey md)
                    else create_response_with_fallback response_data)))"

definition error_status :: "(rest_message \<Rightarrow> bytes) \<Rightarrow> http_response" where
  "error_status wire = create_response_with_fallback (wire (build_task_status_response [] ''Error'' [] [] None))"

text \<open>The document \<open>{"ok": true, "manifest_id": ...}\<close> is printed by \<open>print_json\<close>.\<close>

definition get_task_manifest_id ::
  "(rest_message \<Rightarrow> bytes) \<Rightarrow> (json \<Rightarrow> string) \<Rightarrow> string \<Rightarrow> 'e rest_state \<Rightarrow> http_response" where
  "get_task_manifest_id wire print_json task_id s =
     (case hm_get (rs_task_store s) task_id of
        None \<Rightarrow> error_status wire
      | Some task \<Rightarrow>
          (case tr_last_operation_id task of
             None \<Rightarrow> error_status wire
           | Some operation_id \<Rightarrow>
               (case (case get_manifest_cid_for_operation operation_id s of
                        Some cid \<Rightarrow> Some cid | None \<Rightarrow> tr_manifest_cid task) of
                  None \<Rightarrow> error_status wire
                | Some manifest_id \<Rightarrow>
                    create_response_with_fallback (bytes_of_string (print_json
                      (JObject [(''ok'', JBool True), (''manifest_id'', JString manifest_id)]))))))"

definition get_task_status :: "(rest_message \<Rightarrow> bytes) \<Rightarrow> string \<Rightarrow> 'e rest_state \<Rightarrow> http_response" where
  "get_task_status wire task_id s =
     (case hm_get (rs_task_store s) task_id of
        None \<Rightarrow> error_status wire
      | Some r \<Rightarrow>
          create_response_with_fallback (wire (build_task_status_response task_id ''Pending''
            (case tr_assigned_peers r of Some ps \<Rightarrow> ps | None \<Rightarrow> [])
            (map fst (filter snd (tr_shares_distributed r)))
            (tr_manifest_cid r))))"

section \<open>Candidates and nodes\<close>

definition get_nodes :: "(rest_message \<Rightarrow> bytes) \<Rightarrow> 'e rest_state \<Rightarrow> http_response" where
  "get_nodes wire s = create_response_with_fallback (wire (build_nodes_response (rs_peers s)))"

text \<open>The query that is sent, and the response from the messages that arrive in time.\<close>

definition candidates_query :: "string \<Rightarrow> string \<Rightarrow> string \<times> capacity_request" where
  "candidates_query task_id uuid =
     (candidates_request_id task_id uuid,
      build_capacity_request 500 (512 * 1024 * 1024) (10 * 1024 * 1024 * 1024) 1)"

definition get_candidates ::
  "crypto_lib \<Rightarrow> kem_lib \<Rightarrow> (rest_message \<Rightarrow> bytes) \<Rightarrow> reply_env \<Rightarrow> envelope_metadata \<Rightarrow> string list
     \<Rightarrow> 'e rest_state \<Rightarrow> http_response" where
  "get_candidates L K wire re md replies s =
     (let response_data = wire (build_candidates_response_with_keys True
            (parse_candidates (collect_responders [] replies))) in
      if em_kem_pubkey md \<noteq> []
      then create_encrypted_response_with_key L K re (rs_handler s) response_data ''candidates_response''
             (em_peer_id md) (em_kem_pubkey md)
      else create_response_with_fallback response_data)"

definition get_kem_public_key :: "crypto_lib \<Rightarrow> string + (bytes \<times> bytes) \<Rightarrow> string" where
  "get_kem_public_key L kem_keypair =
     (case kem_keypair of
        Inr (kem_pub_bytes, _) \<Rightarrow> b64_encode L kem_pub_bytes
      | Inl e \<Rightarrow> ''ERROR: Failed to get KEM public key: '' @ e)"

definition get_signing_public_key :: "crypto_lib \<Rightarrow> string + (bytes \<times> bytes) \<Rightarrow> string" where
  "get_signing_public_key L keypair =
     (case keypair of
        Inr (signing_pub_bytes, _) \<Rightarrow> b64_encode L signing_pub_bytes
      | Inl e \<Rightarrow> ''ERROR: Failed to get signing public key: '' @ e)"

section \<open>Deleting a task\<close>

datatype 'a answer = Answer 'a | ChannelClosed | TimedOut | SendFailed string

text \<open>The peers that the network loop answered with, as text.\<close>

definition find_manifest_providers :: "peer_id list answer \<Rightarrow> string + string list" where
  "find_manifest_providers holders =
     (case holders of
        SendFailed _ \<Rightarrow> Inr [] | Answer providers \<Rightarrow> Inr providers | ChannelClosed \<Rightarrow> Inr [] | TimedOut \<Rightarrow> Inr [])"

definition send_delete_request_to_peer ::
  "(string \<Rightarrow> string + peer_id) \<Rightarrow> (string + string) answer \<Rightarrow> string \<Rightarrow> string + string" where
  "send_delete_request_to_peer parse_peer reply peer_id =
     (case parse_peer peer_id of
        Inl e \<Rightarrow> Inl (''Invalid peer ID '' @ [CHR 0x27] @ peer_id @ [CHR 0x27] @ '': '' @ e)
      | Inr _ \<Rightarrow>
          (case reply of
             SendFailed e \<Rightarrow> Inl (''Failed to send delete request to libp2p control: '' @ e)
           | Answer (Inr result) \<Rightarrow> Inr result
           | Answer (Inl e) \<Rightarrow> Inl e
           | ChannelClosed \<Rightarrow> Inl ''Reply channel closed''
           | TimedOut \<Rightarrow> Inl ''Request timed out''))"

record delete_env =
  dv_millis :: nat
  dv_holders :: "peer_id list answer"
  dv_local_peer :: "peer_id answer"
  dv_parse_peer :: "string \<Rightarrow> string + peer_id"
  dv_remote :: "string \<Rightarrow> (string + string) answer"
  dv_debug :: "string list \<Rightarrow> string"
  dv_reply :: reply_env

text \<open>One provider after the other: who was asked, what failed, and what was removed here.\<close>

fun delete_at_providers ::
  "'e engine_ops \<Rightarrow> delete_env \<Rightarrow> peer_id \<Rightarrow> string \<Rightarrow> bool \<Rightarrow> string list
     \<Rightarrow> string list \<times> string list \<times> string list \<Rightarrow> 'e node \<Rightarrow> 'e node \<times> string list \<times> string list \<times> string list" where
  "delete_at_providers V dv local_peer task_id force [] acc n = (n, acc)"
| "delete_at_providers V dv local_peer task_id force (p # ps) (done, failed, removed) n =
     (case dv_parse_peer dv p of
        Inl _ \<Rightarrow> delete_at_providers V dv local_peer task_id force ps (done, failed @ [p @ '':invalid_peer_id''], removed) n
      | Inr provider \<Rightarrow>
          if provider = local_peer
          then (case handle_local_delete V task_id force n of
                  (n', Inr ws) \<Rightarrow> delete_at_providers V dv local_peer task_id force ps (done @ [p], failed, removed @ ws) n'
                | (n', Inl e) \<Rightarrow>
                    delete_at_providers V dv local_peer task_id force ps
                      (done, failed @ [p @ '':self_delete_failed:'' @ e], removed) n')
          else (case send_delete_request_to_peer (dv_parse_peer dv) (dv_remote dv p) p of
                  Inr _ \<Rightarrow> delete_at_providers V dv local_peer task_id force ps (done @ [p], failed, removed) n
                | Inl e \<Rightarrow> delete_at_providers V dv local_peer task_id force ps (done, failed @ [p @ '':'' @ e], removed) n))"

definition delete_summary :: "delete_env \<Rightarrow> string list \<Rightarrow> string list \<Rightarrow> string" where
  "delete_summary dv successful failed =
     (if successful \<noteq> []
      then if failed = [] then ''Delete requests sent to '' @ to_decimal (length successful) @ '' providers''
           else ''Delete requests sent to '' @ to_decimal (length successful) @ ''/''
                @ to_decimal (length successful + length failed) @ '' providers. Failures: '' @ dv_debug dv failed
      else ''Failed to send delete requests to any providers: '' @ dv_debug dv failed)"

definition delete_task ::
  "crypto_lib \<Rightarrow> kem_lib \<Rightarrow> (rest_message \<Rightarrow> bytes) \<Rightarrow> 'e engine_ops \<Rightarrow> delete_env \<Rightarrow> string
     \<Rightarrow> envelope_metadata \<Rightarrow> bytes \<Rightarrow> 'e rest_state \<Rightarrow> 'e rest_state \<times> http_response" where
  "delete_task L K wire V dv task_id md body s =
     (let operation_id = ''delete-'' @ task_id @ ''-'' @ to_decimal (dv_millis dv);
          force = contains_str (from_utf8_lossy body) ''force=true'';
          respond = (\<lambda>s ok message removed.
            (s, create_response_for_envelope_metadata L K (dv_reply dv) (rs_handler s)
                  (wire (DeleteResponse (build_delete_response ok operation_id message task_id removed)))
                  ''delete_response'' md)) in
      case find_manifest_providers (dv_holders dv) of
        Inl e \<Rightarrow> respond s False (''Failed to discover providers: '' @ e) []
      | Inr providers \<Rightarrow>
          if providers = [] then respond s True ''No providers found for task'' []
          else (case dv_local_peer dv of
                  SendFailed e \<Rightarrow> respond s False (''Failed to get local peer ID: '' @ e) []
                | Answer local_peer \<Rightarrow>
                    (case delete_at_providers V dv local_peer task_id force providers ([], [], []) (rs_node s) of
                       (n', successful, failed, removed) \<Rightarrow>
                         respond (s \<lparr> rs_node := n' \<rparr>) (successful \<noteq> []) (delete_summary dv successful failed) removed)
                | _ \<Rightarrow> respond s False ''Timeout getting local peer ID'' []))"

section \<open>Forwarding an apply request\<close>

definition apply_direct ::
  "(rest_message \<Rightarrow> bytes) \<Rightarrow> (string \<Rightarrow> string + peer_id) \<Rightarrow> (string + string) answer \<Rightarrow> string \<Rightarrow> http_response" where
  "apply_direct wire parse_peer reply peer_id =
     (let respond = (\<lambda>ok operation_id message.
            create_response_with_fallback (wire (ApplyResponse (build_apply_response ok operation_id message)))) in
      case parse_peer peer_id of
        Inl e \<Rightarrow> respond False ''unknown'' (''Invalid peer ID: '' @ e)
      | Inr _ \<Rightarrow>
          (case reply of
             SendFailed _ \<Rightarrow> respond False ''unknown'' ''Failed to forward request to libp2p''
           | Answer (Inr _) \<Rightarrow> respond True ''forwarded'' ''Request forwarded successfully''
           | Answer (Inl e) \<Rightarrow> respond False ''forwarded'' (''Forward failed: '' @ e)
           | _ \<Rightarrow> respond False ''forwarded'' ''Timeout waiting for peer response''))"

section \<open>Debugging\<close>

definition jstr_opt :: "string option \<Rightarrow> json" where
  "jstr_opt v = (case v of Some s \<Rightarrow> JString s | None \<Rightarrow> JNull)"

definition debug_error :: "string \<Rightarrow> json" where
  "debug_error message = JObject [(''ok'', JBool False), (''error'', JString message)]"

definition debug_decrypted_manifests :: "'e rest_state \<Rightarrow> json" where
  "debug_decrypted_manifests s =
     JObject [(''ok'', JBool True), (''decrypted_manifests'', get_decrypted_manifests_map s)]"

definition debug_active_announces :: "string list \<Rightarrow> json" where
  "debug_active_announces cids = JObject [(''ok'', JBool True), (''cids'', JArray (map JString cids))]"

definition debug_local_peer_id :: "peer_id answer \<Rightarrow> json" where
  "debug_local_peer_id reply =
     (case reply of
        SendFailed _ \<Rightarrow> debug_error ''Failed to send control message''
      | Answer peer_id \<Rightarrow> JObject [(''ok'', JBool True), (''local_peer_id'', JString peer_id)]
      | ChannelClosed \<Rightarrow> debug_error ''Control channel closed''
      | TimedOut \<Rightarrow> debug_error ''Timeout waiting for local peer ID'')"

definition debug_dht_peers :: "(string + json) answer \<Rightarrow> json" where
  "debug_dht_peers reply =
     (case reply of
        SendFailed e \<Rightarrow> debug_error (''Failed to send DHT peers request: '' @ e)
      | Answer (Inr peer_info) \<Rightarrow> JObject [(''ok'', JBool True), (''dht_peers'', peer_info)]
      | Answer (Inl e) \<Rightarrow> debug_error (''DHT peers query failed: '' @ e)
      | ChannelClosed \<Rightarrow> debug_error ''DHT peers channel closed''
      | TimedOut \<Rightarrow> debug_error ''DHT peers request timed out'')"

definition debug_peers :: "'e rest_state \<Rightarrow> json" where
  "debug_peers s =
     JObject [(''ok'', JBool True), (''peers'', JArray (map JString (rs_peers s))),
              (''count'', JNumber (int (length (rs_peers s))))]"

definition debug_task :: "task_record \<Rightarrow> json" where
  "debug_task r =
     JObject [(''manifest_cid'', jstr_opt (tr_manifest_cid r)),
              (''created_at'', JNumber (int (tr_created_at r div 1000000000))),
              (''assigned_peers'', case tr_assigned_peers r of None \<Rightarrow> JNull | Some ps \<Rightarrow> JArray (map JString ps)),
              (''shares_distributed_count'', JNumber (int (length (tr_shares_distributed r)))),
              (''manifest_bytes_len'', JNumber (int (length (tr_manifest_bytes r))))]"

definition debug_all_tasks :: "'e rest_state \<Rightarrow> json" where
  "debug_all_tasks s =
     JObject [(''ok'', JBool True), (''tasks'', JObject (map (\<lambda>(i, r). (i, debug_task r)) (rs_task_store s)))]"

definition debug_port :: "port_mapping \<Rightarrow> json" where
  "debug_port p =
     JObject [(''container_port'', JNumber (uint (container_port p))),
              (''host_port'', case host_port p of None \<Rightarrow> JNull | Some h \<Rightarrow> JNumber (uint h)),
              (''protocol'', JString (pm_protocol p))]"

text \<open>The mock engine of a debug build; \<open>export\<close> is its method and \<open>debug_status\<close> the derived format.\<close>

definition debug_workload ::
  "(workload_status \<Rightarrow> string) \<Rightarrow> (string \<Rightarrow> mock_engine \<Rightarrow> bytes runtime_result) \<Rightarrow> mock_engine \<Rightarrow> mock_workload
     \<Rightarrow> string \<times> json" where
  "debug_workload debug_status export e w =
     (let i = mw_info w in
      (wi_id i,
       JObject [(''manifest_id'', JString (wi_manifest_id i)), (''status'', JString (debug_status (wi_status i))),
                (''metadata'', JObject (map (\<lambda>(k, v). (k, JString v)) (wi_metadata i))),
                (''created_at'', JNumber (int (wi_created_at i div 1000000000))),
                (''updated_at'', JNumber (int (wi_updated_at i div 1000000000))),
                (''ports'', JArray (map debug_port (wi_ports i))),
                (''exported_manifest'',
                 jstr_opt (case export (wi_id i) e of Inr b \<Rightarrow> from_utf8 b | Inl _ \<Rightarrow> None))]))"

definition debug_workloads_by_peer ::
  "profile \<Rightarrow> (workload_status \<Rightarrow> string) \<Rightarrow> (string \<Rightarrow> mock_engine \<Rightarrow> bytes runtime_result)
     \<Rightarrow> ('e \<Rightarrow> mock_engine option) \<Rightarrow> string \<Rightarrow> 'e rest_state \<Rightarrow> json" where
  "debug_workloads_by_peer prof debug_status export downcast peer_id s =
     (case (if prof = Debug
            then Option.bind (runtime_registry_of (rs_node s))
                   (\<lambda>reg. Option.bind (get_engine reg ''mock'') downcast)
            else None) of
        None \<Rightarrow>
          JObject [(''ok'', JBool False), (''error'', JString ''MockEngine not available''),
                   (''peer_id'', JString peer_id), (''workload_count'', JNumber 0), (''workloads'', JObject [])]
      | Some e \<Rightarrow>
          (let ws = get_workloads_by_peer peer_id e in
           JObject [(''ok'', JBool True), (''peer_id'', JString peer_id),
                    (''workload_count'', JNumber (int (length ws))),
                    (''workloads'', JObject (fold (\<lambda>w. case debug_workload debug_status export e w of
                       (i, v) \<Rightarrow> hm_insert i v) ws hm_empty))]))"

section \<open>Routes\<close>

text \<open>
  A route behind the middleware. A handler that takes the body answers a body that cannot be read
  with the status 400; a handler may panic.
\<close>

definition serve ::
  "crypto_lib \<Rightarrow> kem_lib \<Rightarrow> instant \<Rightarrow> (envelope_metadata \<Rightarrow> bytes \<Rightarrow> 'e rest_state \<Rightarrow> ('e rest_state \<times> http_response) option)
     \<Rightarrow> http_request \<Rightarrow> 'e rest_state \<Rightarrow> ('e rest_state \<times> http_response) option" where
  "serve L K now handler req s =
     (case envelope_middleware L K now (rs_handler s) req (nonces (rs_node s)) of
        (st, outcome) \<Rightarrow>
          (let s = s \<lparr> rs_node := (rs_node s) \<lparr> nonces := st \<rparr> \<rparr> in
           case outcome of
             Rejected_with status \<Rightarrow> Some (s, Inl status)
           | Panicked \<Rightarrow> None
           | Forwarded md None \<Rightarrow> Some (s, Inl 400)
           | Forwarded md (Some body) \<Rightarrow> handler md body s))"

definition post_tasks ::
  "crypto_lib \<Rightarrow> kem_lib \<Rightarrow> instant \<Rightarrow> (rest_message \<Rightarrow> bytes) \<Rightarrow> task_env \<Rightarrow> (string, string) hmap \<Rightarrow> http_request
     \<Rightarrow> 'e rest_state \<Rightarrow> ('e rest_state \<times> http_response) option" where
  "post_tasks L K now wire te params = serve L K now (create_task L K wire te params)"

definition delete_tasks ::
  "crypto_lib \<Rightarrow> kem_lib \<Rightarrow> instant \<Rightarrow> (rest_message \<Rightarrow> bytes) \<Rightarrow> 'e engine_ops \<Rightarrow> delete_env \<Rightarrow> string \<Rightarrow> http_request
     \<Rightarrow> 'e rest_state \<Rightarrow> ('e rest_state \<times> http_response) option" where
  "delete_tasks L K now wire V dv task_id =
     serve L K now (\<lambda>md body s. Some (delete_task L K wire V dv task_id md body s))"

end
