(* ===== verification/Rest_Security.thy ===== *)
theory Rest_Security
  imports Rest_Api
begin

text \<open>
  What the REST API guarantees and what it does not: which requests reach a handler and with which
  identity, what a created task looks like afterwards, how many candidates a query returns, and
  that the deletion of a task needs no identity at all.
\<close>

section \<open>Lemmas\<close>

lemma decrypt_request_Some:
  assumes "decrypt_request_envelope L K now h b st = (st', Some (Inr payload))" "fb_root_as_envelope L b = Some e"
  shows "\<exists>key sig blob. b64_decode L (or_empty (fe_pubkey e)) = Some key
    \<and> dsa_verify L key (rebuilt_canonical L e) sig = Some True
    \<and> (or_empty (fe_nonce e) \<noteq> [] \<longrightarrow> snd (check_and_insert_nonce_for_peer now (300 * 1000000000)
         (case fe_peer_id e of Some p \<Rightarrow> p | None \<Rightarrow> ''global'') (or_empty (fe_nonce e)) st) = Inr ())
    \<and> fe_payload e = Some blob \<and> decrypt_payload_from_recipient_blob K blob (eh_kem_private_key h) = Some (Inr payload)"
proof -
  let ?peer = "case fe_peer_id e of Some p \<Rightarrow> p | None \<Rightarrow> ''global''"
  obtain parts where parts: "verify_flatbuffer_envelope_for_peer L now (300 * 1000000000) ?peer b st = (st', Inr parts)"
    and blob: "\<exists>blob. fe_payload e = Some blob
      \<and> decrypt_payload_from_recipient_blob K blob (eh_kem_private_key h) = Some (Inr payload)"
    using assms unfolding decrypt_request_envelope_def Let_def
    by (auto split: prod.splits sum.splits option.splits)
  have key: "b64_decode L (or_empty (fe_pubkey e)) = Some (ve_pubkey parts)"
    using parts assms(2) unfolding verify_flatbuffer_envelope_for_peer_def Let_def
    by (auto simp: verified_parts_def split: sum.splits option.splits prod.splits if_splits)
  from parts have "snd (verify_flatbuffer_envelope_for_peer L now (300 * 1000000000) ?peer b st) = Inr parts" by simp
  from verify_Inr [OF this] assms(2) key blob show ?thesis by auto
qed

lemma delete_at_append:
  "delete_at_providers V dv me m force (ps @ qs) acc n =
     (case delete_at_providers V dv me m force ps acc n of (n', acc') \<Rightarrow> delete_at_providers V dv me m force qs acc' n')"
  by (induction V dv me m force ps acc n rule: delete_at_providers.induct)
    (auto split: sum.splits prod.splits)

lemma delete_at_remote:
  "\<forall>q \<in> set ps. dv_parse_peer dv q \<noteq> Inr me \<Longrightarrow> fst (delete_at_providers V dv me m force ps acc n) = n"
  by (induction V dv me m force ps acc n rule: delete_at_providers.induct) (auto split: sum.splits)

lemma delete_at_local:
  assumes "\<forall>q \<in> set (ps @ qs). dv_parse_peer dv q \<noteq> Inr me" "dv_parse_peer dv p = Inr me"
  shows "fst (delete_at_providers V dv me m force (ps @ p # qs) acc n) = fst (handle_local_delete V m force n)"
proof -
  obtain n1 d f r where 1: "delete_at_providers V dv me m force ps acc n = (n1, d, f, r)"
    by (metis prod_cases4)
  have "n1 = n" using delete_at_remote [of ps dv me V m force acc n] assms(1) by (simp add: 1)
  moreover have "fst (delete_at_providers V dv me m force (p # qs) (d, f, r) n) = fst (handle_local_delete V m force n)"
    using delete_at_remote [of qs dv me] assms by (auto split: prod.splits sum.splits)
  ultimately show ?thesis by (simp add: delete_at_append 1)
qed

lemma serve_unsigned:
  assumes "rq_content_type req \<noteq> Some ''application/octet-stream''" "rq_body req = Some body"
  shows "serve L K now handler req s = handler empty_metadata body s"
  using assms by (simp add: serve_def envelope_middleware_def)

lemma collect_bounded:
  "length responders < 5 \<Longrightarrow> distinct responders \<Longrightarrow>
     length (collect_responders responders ms) \<le> 5 \<and> distinct (collect_responders responders ms)
     \<and> set (collect_responders responders ms) \<subseteq> set responders \<union> set ms"
proof (induction responders ms rule: collect_responders.induct)
  case (2 responders peer rest)
  then show ?case by (auto simp: Let_def)
qed simp

lemma short_hash_iff: "short_hash h = None \<longleftrightarrow> unat h < 2 ^ 60"
  using short_hash_Some [of h] short_hash_None [of h] by fastforce

lemma sealed_request_opened:
  assumes "crypto_laws L" "dsa_keypair L pk sk" "kem_pair K kpk (eh_kem_private_key h)" "aes_laws K"
    and "length aes_nonce = NONCE_BYTES" "length payload + 16 < 2 ^ 32"
    and "store_ok st" "nonce_seen_at st peer (to_hex (unat time_hash)) = None"
  shows "\<exists>body st'. build_encrypted_envelope_with_peer L K r aes_nonce time_hash secs payload ptype kpk sk
      (b64_encode L pk) peer kem = Inr body
    \<and> envelope_middleware L K now h \<lparr> rq_content_type = Some ''application/octet-stream'', rq_body = Some body \<rparr> st
      = (st', Forwarded \<lparr> em_signing_pubkey = pk, em_kem_pubkey = decode_key L (Some (or_empty kem)),
                          em_peer_id = Some peer \<rparr> (Some payload))"
proof -
  obtain blob where blob: "encrypt_payload_for_recipient K r aes_nonce kpk payload = Inr blob"
      "decrypt_payload_from_recipient_blob K blob (eh_kem_private_key h) = Some (Inr payload)"
    using blob_made [OF assms(3-6), of r "[]"] by auto
  let ?e = "\<lparr> fe_payload = Some blob, fe_payload_type = Some ptype, fe_nonce = Some (to_hex (unat time_hash)),
      fe_ts = secs, fe_alg = Some ''ml-dsa-65'', fe_sig = Some [], fe_pubkey = Some [],
      fe_kem_pubkey = Some (or_empty kem), fe_peer_id = Some peer \<rparr>"
  have canonical: "build_envelope_canonical_with_peer L blob ptype (to_hex (unat time_hash)) secs ''ml-dsa-65'' peer kem
      = rebuilt_canonical L ?e"
    by (simp add: builder_defs rebuilt_canonical_eq)
  obtain s where sign: "sign_envelope L sk pk (rebuilt_canonical L ?e) = Inr (b64_encode L s, b64_encode L pk)"
    using sign_envelope_keypair [OF assms(1,2)] by blast
  let ?e' = "?e \<lparr> fe_sig := Some (''ml-dsa-65'' @ '':'' @ b64_encode L s), fe_pubkey := Some (b64_encode L pk) \<rparr>"
  have body: "build_encrypted_envelope_with_peer L K r aes_nonce time_hash secs payload ptype kpk sk
      (b64_encode L pk) peer kem = Inr (fb_finish L ?e')"
    using assms(1) by (simp add: build_encrypted_envelope_with_peer_def blob Let_def canonical sign
        build_envelope_signed_with_peer_def)
  have "or_empty (fe_nonce ?e) \<noteq> [] \<Longrightarrow>
      snd (check_and_insert_nonce_for_peer now (300 * 1000000000) peer (or_empty (fe_nonce ?e)) st) = Inr ()"
    using guard.accept_iff [OF assms(7)] assms(8) by simp
  from signed_verifies [OF assms(1,2) _ sign this, of "''ml-dsa-65''"] obtain st' sg where
    "verify_flatbuffer_envelope_for_peer L now (300 * 1000000000) peer (fb_finish L ?e') st = (st', Inr (verified_parts ?e' pk sg))"
    by (auto simp: prod_eq_iff)
  then have "envelope_middleware L K now h \<lparr> rq_content_type = Some ''application/octet-stream'', rq_body = Some (fb_finish L ?e') \<rparr> st
      = (st', Forwarded (metadata_of_envelope L ?e') (Some payload))"
    using assms(1) by (simp add: envelope_middleware_def decrypt_request_envelope_def blob)
  then show ?thesis unfolding body using assms(1) by (simp add: metadata_of_envelope_def decode_key_def)
qed

section \<open>Properties\<close>

text \<open>
  (C5) What reaches a handler. Of a request that does not declare an octet stream, and of one whose octets are
  no envelope, the body as it came, unverified, with empty metadata and the store of nonces as before. Of every
  other request, the payload of an envelope: its signature is correct under the
  key that the metadata name, its nonce, if it is not empty, is new, and the payload is what the blob in it decrypts
  to under the node's key. A request with an envelope that fails a check reaches no handler.
\<close>

theorem middleware_authenticates:
  assumes "envelope_middleware L K now h req st = (st', Forwarded md body)"
  shows "rq_content_type req \<noteq> Some ''application/octet-stream'' \<and> md = empty_metadata \<and> body = rq_body req \<and> st' = st
    \<or> (\<exists>b. rq_content_type req = Some ''application/octet-stream'' \<and> rq_body req = Some b
         \<and> fb_root_as_envelope L b = None \<and> md = empty_metadata \<and> body = Some b \<and> st' = st)
    \<or> (\<exists>e key sig blob b payload. rq_content_type req = Some ''application/octet-stream'' \<and> rq_body req = Some b
    \<and> fb_root_as_envelope L b = Some e \<and> md = metadata_of_envelope L e
    \<and> b64_decode L (or_empty (fe_pubkey e)) = Some key \<and> (em_signing_pubkey md \<noteq> [] \<longrightarrow> key = em_signing_pubkey md)
    \<and> dsa_verify L key (rebuilt_canonical L e) sig = Some True
    \<and> (or_empty (fe_nonce e) \<noteq> [] \<longrightarrow> snd (check_and_insert_nonce_for_peer now (300 * 1000000000)
         (case fe_peer_id e of Some p \<Rightarrow> p | None \<Rightarrow> ''global'') (or_empty (fe_nonce e)) st) = Inr ())
    \<and> fe_payload e = Some blob \<and> decrypt_payload_from_recipient_blob K blob (eh_kem_private_key h) = Some (Inr payload)
    \<and> body = Some payload)"
    (is "?plain \<or> ?no_envelope \<or> ?envelope")
proof (cases "?plain \<or> ?no_envelope")
  case False
  then obtain b e payload where req: "rq_content_type req = Some ''application/octet-stream''" "rq_body req = Some b"
      "fb_root_as_envelope L b = Some e" "decrypt_request_envelope L K now h b st = (st', Some (Inr payload))"
      "md = metadata_of_envelope L e" "body = Some payload"
    using assms by (auto simp: envelope_middleware_def split: if_splits option.splits prod.splits sum.splits)
  have "key = em_signing_pubkey md" if "b64_decode L (or_empty (fe_pubkey e)) = Some key" "em_signing_pubkey md \<noteq> []" for key
    using that unfolding req(5) metadata_of_envelope_def decode_key_def
    by (cases "fe_pubkey e") (auto simp: or_empty_def)
  then have ?envelope using decrypt_request_Some [OF req(4,3)] req by metis
  then show ?thesis by blast
qed blast

text \<open>
  What a client seals a node opens: an envelope that \<open>build_encrypted_envelope_with_peer\<close> makes
  for the node's KEM key, sent as an octet stream with a nonce the node has not seen, reaches the
  handler as the payload, with the client's signing key, KEM key and peer id as metadata.
\<close>

theorem sealed_request_accepted:
  assumes "crypto_laws L" "dsa_keypair L pk sk" "kem_pair K kpk (eh_kem_private_key h)" "aes_laws K"
    and "length aes_nonce = NONCE_BYTES" "length payload + 16 < 2 ^ 32"
    and "store_ok st" "nonce_seen_at st peer (to_hex (unat time_hash)) = None"
  shows "\<exists>body st'. build_encrypted_envelope_with_peer L K r aes_nonce time_hash secs payload ptype kpk sk
      (b64_encode L pk) peer kem = Inr body
    \<and> envelope_middleware L K now h \<lparr> rq_content_type = Some ''application/octet-stream'', rq_body = Some body \<rparr> st
      = (st', Forwarded \<lparr> em_signing_pubkey = pk, em_kem_pubkey = decode_key L (Some (or_empty kem)),
                          em_peer_id = Some peer \<rparr> (Some payload))"
  using assms by (rule sealed_request_opened)

text \<open>
  (C38) Creating a task panics exactly if the request names no manifest id and the hash it is
  computed from is below \<open>2^60\<close>, one hash in sixteen, because the hash is printed without leading
  zeros. The state of the node is then as before.
\<close>

theorem create_task_panics_iff:
  "create_task L K wire te params md payload s = None \<longleftrightarrow>
     hm_get params ''manifest_id'' = None
     \<and> unat (te_hash te (case extract_manifest_name payload of Some name \<Rightarrow> HashStr name | None \<Rightarrow> HashBytes payload)) < 2 ^ 60"
proof -
  have "create_task L K wire te params md payload s = None \<longleftrightarrow> task_ids te params payload = None"
    by (simp add: create_task_def Let_def split: option.splits prod.splits)
  then show ?thesis
    by (auto simp: task_ids_def hashed_manifest_id_def short_hash_iff split: option.splits)
qed

text \<open>
  A created task is found: under its id the status is pending with the manifest id, the route
  for manifest ids returns that id, and the signer of the request, if there is one, is now the
  owner of the manifest, whoever owned it before.
\<close>

theorem created_task_found:
  assumes "create_task L K wire te params md payload s = Some (s', resp)"
  shows "\<exists>i. (case hm_get params ''manifest_id'' of Some j \<Rightarrow> i = j | None \<Rightarrow> hashed_manifest_id te payload = Some i)
    \<and> get_task_status wire i s' = Inr (wire (TaskStatusResponse i ''Pending'' [] [] (Some i)))
    \<and> get_task_manifest_id wire print_json i s'
        = Inr (bytes_of_string (print_json (JObject [(''ok'', JBool True), (''manifest_id'', JString i)])))
    \<and> get_manifest_owner i (rs_node s')
        = (if em_signing_pubkey md = [] then get_manifest_owner i (rs_node s) else Some (em_signing_pubkey md))
    \<and> (em_signing_pubkey md \<noteq> [] \<longrightarrow> verify_delete_ownership i (em_signing_pubkey md) (rs_node s') = OwnerMatch)"
proof -
  obtain i op where i: "task_ids te params payload = Some (i, op)"
    and s': "s' = fst (the (create_task L K wire te params md payload s))"
    using assms by (auto simp: create_task_def split: option.splits prod.splits)
  have "case hm_get params ''manifest_id'' of Some j \<Rightarrow> i = j | None \<Rightarrow> hashed_manifest_id te payload = Some i"
    using i by (auto simp: task_ids_def split: option.splits)
  then show ?thesis
    unfolding s'
    by (intro exI [of _ i])
      (simp add: create_task_def i Let_def store_operation_manifest_mapping_def get_task_status_def hm_empty_def
        build_task_status_response_def create_response_with_fallback_def get_task_manifest_id_def
        get_manifest_cid_for_operation_def record_manifest_owner_def get_manifest_owner_def
        verify_delete_ownership_def)
qed

text \<open>
  A query for candidates returns at most five, each from a different message, and each with
  the key that the message carried.
\<close>

theorem candidates_bounded:
  "length (parse_candidates (collect_responders [] replies)) \<le> 5
   \<and> (\<forall>(peer, key) \<in> set (parse_candidates (collect_responders [] replies)).
        key \<noteq> [] \<and> (\<exists>msg \<in> set replies. split_at_colon msg = Some (peer, key)))"
proof -
  have bound: "length (collect_responders [] replies) \<le> 5" "set (collect_responders [] replies) \<subseteq> set replies"
    using collect_bounded [of "[]" replies] by auto
  have "length (parse_candidates rs) \<le> length rs" for rs
    by (simp add: parse_candidates_def List.map_filter_def)
  moreover have "key \<noteq> [] \<and> (\<exists>msg \<in> set rs. split_at_colon msg = Some (peer, key))"
    if "(peer, key) \<in> set (parse_candidates rs)" for peer key rs
    using that unfolding parse_candidates_def List.map_filter_def by (force split: option.splits if_splits)
  ultimately show ?thesis using bound by (fastforce intro: le_trans)
qed

text \<open>
  (C39) Deleting a task needs no identity: a request that is not an envelope reaches the handler,
  and on a node of mock engines that is itself a provider of the manifest it removes every
  workload of the manifest and the record of its owner, whoever that is.
\<close>

theorem unauthenticated_delete:
  assumes "rq_content_type req \<noteq> Some ''application/octet-stream''" "rq_body req = Some body"
    and "dv_holders dv = Answer (ps @ p # qs)" "dv_local_peer dv = Answer me" "dv_parse_peer dv p = Inr me"
    and "\<forall>q \<in> set (ps @ qs). dv_parse_peer dv q \<noteq> Inr me"
    and "runtime_registry_of (rs_node s) = Some reg" "\<forall>(name, e) \<in> set (engines reg). mock_ok e"
  shows "\<exists>s' resp. delete_tasks L K now wire (mock_ops pj y fmt ok t clock) dv m req s = Some (s', resp)
    \<and> node_workloads mock_infos (rs_node s') = {(name, w) \<in> node_workloads mock_infos (rs_node s). wi_manifest_id w \<noteq> m}
    \<and> get_manifest_owner m (rs_node s') = None"
proof -
  let ?V = "mock_ops pj y fmt ok t clock" and ?force = "contains_str (from_utf8_lossy body) ''force=true''"
  obtain n' removed where n': "handle_local_delete ?V m ?force (rs_node s) = (n', Inr removed)"
      "node_workloads mock_infos n' = {(name, w) \<in> node_workloads mock_infos (rs_node s). wi_manifest_id w \<noteq> m}"
      "get_manifest_owner m n' = None"
    using mock_removal [OF assms(7,8), of pj y fmt ok t clock m] by (auto simp: handle_local_delete_def)
  obtain n1 a b c where run: "delete_at_providers ?V dv me m ?force (ps @ p # qs) ([], [], []) (rs_node s) = (n1, a, b, c)"
    by (metis prod_cases4)
  have "n1 = n'" using delete_at_local [OF assms(6,5), of ?V m ?force "([], [], [])" "rs_node s"] by (simp add: run n')
  then show ?thesis
    unfolding delete_tasks_def serve_unsigned [OF assms(1,2)]
    by (simp add: delete_task_def Let_def find_manifest_providers_def assms(3,4) run n')
qed

end
