(* ===== verification/Rest_Examples.thy ===== *)
theory Rest_Examples
  imports Rest_Security Node_Examples
begin

text \<open>
  Concrete requests for the properties of theory \<open>Rest_Security\<close>: an encrypted and signed envelope,
  a new task, and the deletion of a task by a request without an envelope, on the node of theory
  \<open>Node_Examples\<close>.
\<close>

definition toy_handler :: envelope_handler where
  "toy_handler = envelope_handler_new (Some (Some ([7], [7]))) (Inl []) [2] (string_of_bytes [7])"

definition toy_blob :: bytes where
  "toy_blob = blob_layout [7] (replicate 12 5) ([9] @ replicate 16 0)"

lemma toy_blob_made: "encrypt_payload_for_recipient toy_kem [] (replicate 12 5) [1] [9] = Inr toy_blob"
  by (simp add: encrypt_payload_for_recipient_def encapsulate_to_pubkey_def toy_kem_def toy_blob_def)

lemma toy_blob_opened: "decrypt_payload_from_recipient_blob toy_kem toy_blob [2] = Some (Inr [9])"
proof -
  have "blob_fields toy_blob = Inr ([7], replicate 12 5, [9] @ replicate 16 0)"
    unfolding toy_blob_def using blob_fields_layout [where rest = "[]"] by (simp add: layout_fits_def)
  then show ?thesis
    by (simp add: decrypt_payload_from_recipient_blob_def decapsulate_share_def toy_kem_def NONCE_BYTES_def)
qed

definition toy_sealed :: bytes where
  "toy_sealed = projr (build_encrypted_envelope toy_lib toy_kem [] (replicate 12 5) 3 4 [9] ''t'' [1] [7]
     (string_of_bytes [7]))"

definition toy_sealed_envelope :: envelope where
  "toy_sealed_envelope = \<lparr> fe_payload = Some toy_blob, fe_payload_type = Some ''t'', fe_nonce = Some (to_hex 3),
     fe_ts = 4, fe_alg = Some ''ml-dsa-65'',
     fe_sig = Some (''ml-dsa-65'' @ '':'' @ string_of_bytes ([7] @ build_envelope_canonical toy_lib toy_blob ''t''
       (to_hex 3) 4 ''ml-dsa-65'' None)),
     fe_pubkey = Some (string_of_bytes [7]), fe_kem_pubkey = Some [], fe_peer_id = Some [] \<rparr>"

lemma toy_lib_simps [simp]:
  "fb_root_as_envelope toy_lib (toy_finish e) = Some e" "fb_finish toy_lib = toy_finish"
  "b64_decode toy_lib s = Some (bytes_of_string s)" "b64_encode toy_lib b = string_of_bytes b"
  "pqc_init_ok toy_lib" "dsa_secret_ok toy_lib k" "dsa_public toy_lib k = Some k"
  "dsa_sign toy_lib k m = Some (k @ m)" "dsa_signature_ok toy_lib sg" "dsa_verify toy_lib k m sg = Some (sg = k @ m)"
  by (simp_all add: toy_lib_def)

lemma toy_sealed_is: "toy_sealed = toy_finish toy_sealed_envelope"
  by (simp add: toy_sealed_def build_encrypted_envelope_def toy_blob_made Let_def sign_envelope_def
      toy_sealed_envelope_def build_envelope_signed_def or_empty_def)

definition toy_request :: http_request where
  "toy_request = \<lparr> rq_content_type = Some ''application/octet-stream'', rq_body = Some toy_sealed \<rparr>"

lemma toy_verified_request:
  "\<exists>st parts. verify_flatbuffer_envelope_for_peer toy_lib 0 w [] (toy_finish toy_sealed_envelope) [] = (st, Inr parts)"
proof -
  have nonce: "or_empty (fe_nonce toy_sealed_envelope) \<noteq> []"
    by (simp add: toy_sealed_envelope_def or_empty_def) (subst to_hex.simps, simp)
  moreover have "rebuilt_canonical toy_lib toy_sealed_envelope
      = build_envelope_canonical toy_lib toy_blob ''t'' (to_hex 3) 4 ''ml-dsa-65'' None"
    by (simp add: rebuilt_canonical_def toy_sealed_envelope_def builder_defs or_empty_def)
  moreover have "snd (check_and_insert_nonce_for_peer 0 w [] (or_empty (fe_nonce toy_sealed_envelope)) []) = Inr ()"
    using nonce by (simp add: check_and_insert_nonce_for_peer_def peer_nonces_def Let_def hm_get_def hm_empty_def
        hm_retain_def hm_contains_key_def)
  moreover have "normalize_and_decode_signature toy_lib (Some (or_empty (fe_sig toy_sealed_envelope)))
      = Inr ([7] @ build_envelope_canonical toy_lib toy_blob ''t'' (to_hex 3) 4 ''ml-dsa-65'' None)"
    "or_empty (fe_pubkey toy_sealed_envelope) = string_of_bytes [7]"
    by (simp_all add: normalize_and_decode_signature_def toy_sealed_envelope_def or_empty_def)
  ultimately show ?thesis
    by (simp add: verify_flatbuffer_envelope_for_peer_def Let_def verify_envelope_def split: prod.splits)
      (metis snd_conv sum.simps(6) prod.collapse)
qed

lemma toy_forwarded:
  "\<exists>st. envelope_middleware toy_lib toy_kem 0 toy_handler toy_request []
     = (st, Forwarded (metadata_of_envelope toy_lib toy_sealed_envelope) (Some [9]))"
proof -
  obtain st parts where
    "verify_flatbuffer_envelope_for_peer toy_lib 0 (300 * 1000000000) [] (toy_finish toy_sealed_envelope) [] = (st, Inr parts)"
    using toy_verified_request by blast
  moreover have "fe_peer_id toy_sealed_envelope = Some []" "fe_payload toy_sealed_envelope = Some toy_blob"
    "eh_kem_private_key toy_handler = [2]"
    by (simp_all add: toy_sealed_envelope_def toy_handler_def envelope_handler_new_def)
  ultimately show ?thesis
    by (simp add: envelope_middleware_def toy_request_def toy_sealed_is decrypt_request_envelope_def toy_blob_opened)
qed

theorem middleware_authenticates_witness:
  "\<exists>st e sig blob payload. envelope_middleware toy_lib toy_kem 0 toy_handler toy_request []
      = (st, Forwarded (metadata_of_envelope toy_lib e) (Some payload))
    \<and> em_signing_pubkey (metadata_of_envelope toy_lib e) = [7]
    \<and> dsa_verify toy_lib [7] (rebuilt_canonical toy_lib e) sig = Some True
    \<and> fe_payload e = Some blob \<and> decrypt_payload_from_recipient_blob toy_kem blob [2] = Some (Inr payload)"
proof -
  have key: "em_signing_pubkey (metadata_of_envelope toy_lib toy_sealed_envelope) = [7]"
    by (simp add: metadata_of_envelope_def decode_key_def toy_sealed_envelope_def)
  then have md: "metadata_of_envelope toy_lib toy_sealed_envelope \<noteq> empty_metadata" by (auto simp: empty_metadata_def)
  obtain st where st: "envelope_middleware toy_lib toy_kem 0 toy_handler toy_request []
      = (st, Forwarded (metadata_of_envelope toy_lib toy_sealed_envelope) (Some [9]))"
    using toy_forwarded by blast
  have "eh_kem_private_key toy_handler = [2]" by (simp add: toy_handler_def envelope_handler_new_def)
  moreover from middleware_authenticates [OF st] md obtain e k sig blob payload where
      "metadata_of_envelope toy_lib toy_sealed_envelope = metadata_of_envelope toy_lib e"
      "em_signing_pubkey (metadata_of_envelope toy_lib toy_sealed_envelope) \<noteq> [] \<longrightarrow>
         k = em_signing_pubkey (metadata_of_envelope toy_lib toy_sealed_envelope)"
      "dsa_verify toy_lib k (rebuilt_canonical toy_lib e) sig = Some True" "fe_payload e = Some blob"
      "decrypt_payload_from_recipient_blob toy_kem blob (eh_kem_private_key toy_handler) = Some (Inr payload)"
      "Some [9] = Some payload" by blast
  ultimately show ?thesis
    using st key by (intro exI [of _ st] exI [of _ e] exI [of _ sig] exI [of _ blob] exI [of _ payload]) simp
qed

theorem sealed_request_accepted_witness:
  "\<exists>body st'. build_encrypted_envelope_with_peer toy_lib toy_kem [] (replicate 12 5) 3 4 [9] ''t'' [1] [7]
      (b64_encode toy_lib [7]) ''p'' None = Inr body
    \<and> envelope_middleware toy_lib toy_kem 0 toy_handler
        \<lparr> rq_content_type = Some ''application/octet-stream'', rq_body = Some body \<rparr> hm_empty
      = (st', Forwarded \<lparr> em_signing_pubkey = [7], em_kem_pubkey = decode_key toy_lib (Some (or_empty None)),
                          em_peer_id = Some ''p'' \<rparr> (Some [9]))"
  by (rule sealed_request_accepted [OF toy_laws(1,2)])
    (simp_all add: kem_pair_def aes_laws_def toy_kem_def NONCE_BYTES_def store_ok_def nonce_seen_at_def peer_nonces_def)

section \<open>Tasks\<close>

definition toy_reply_env :: reply_env where
  "toy_reply_env = \<lparr> re_randomness = [], re_aes_nonce = replicate 12 5, re_uuid = ''u'', re_millis = 0 \<rparr>"

definition toy_task_env :: task_env where
  "toy_task_env = \<lparr> te_hash = (\<lambda>_. 0), te_uuid = ''u'', te_envelope_nonce = [], te_millis = 0, te_now = 0,
     te_reply = toy_reply_env \<rparr>"

definition toy_rest :: "mock_engine rest_state" where
  "toy_rest = build_router_state [] (toy_node [7]) toy_handler hm_empty hm_empty"

definition signed_by :: "bytes \<Rightarrow> envelope_metadata" where
  "signed_by key = \<lparr> em_signing_pubkey = key, em_kem_pubkey = [], em_peer_id = None \<rparr>"

theorem created_task_found_witness:
  "\<exists>s' resp. create_task toy_lib toy_kem (\<lambda>_. []) toy_task_env [(''manifest_id'', ''m'')] (signed_by [8]) [] toy_rest
      = Some (s', resp)
    \<and> verify_delete_ownership ''m'' [8] (rs_node s') = OwnerMatch"
proof -
  obtain s' resp where run: "create_task toy_lib toy_kem (\<lambda>_. []) toy_task_env [(''manifest_id'', ''m'')] (signed_by [8]) []
      toy_rest = Some (s', resp)"
    by (simp add: create_task_def task_ids_def hm_get_def Let_def)
  from created_task_found [OF run] have "verify_delete_ownership ''m'' [8] (rs_node s') = OwnerMatch"
    by (auto simp: hm_get_def signed_by_def)
  with run show ?thesis by blast
qed

theorem candidates_bounded_witness:
  "length (parse_candidates (collect_responders [] [''a:1'', ''b:2'', ''a:1''])) \<le> 5
   \<and> (''b'', ''2'') \<in> set (parse_candidates (collect_responders [] [''a:1'', ''b:2'', ''a:1'']))"
  using candidates_bounded [of "[''a:1'', ''b:2'', ''a:1'']"] by (simp add: parse_candidates_def List.map_filter_def)

definition toy_delete_env :: delete_env where
  "toy_delete_env = \<lparr> dv_millis = 0, dv_holders = Answer [''x'', ''me''], dv_local_peer = Answer ''me'',
     dv_parse_peer = Inr, dv_remote = (\<lambda>_. TimedOut), dv_debug = (\<lambda>_. []), dv_reply = toy_reply_env \<rparr>"

theorem unauthenticated_delete_witness:
  "\<exists>s' resp. delete_tasks toy_lib toy_kem 0 (\<lambda>_. []) toy_ops toy_delete_env ''m''
      \<lparr> rq_content_type = None, rq_body = Some [] \<rparr> toy_rest = Some (s', resp)
    \<and> node_workloads mock_infos (rs_node s') = {(''mock'', mw_info (toy_workload ''w2'' ''k''))}
    \<and> get_manifest_owner ''m'' (rs_node s') = None"
proof -
  let ?req = "\<lparr> rq_content_type = None, rq_body = Some [] \<rparr>"
  have node: "rs_node toy_rest = toy_node [7]" by (simp add: toy_rest_def build_router_state_def)
  have left: "{(name, w) \<in> node_workloads mock_infos (rs_node toy_rest). wi_manifest_id w \<noteq> ''m''}
      = {(''mock'', mw_info (toy_workload ''w2'' ''k''))}"
    unfolding node toy_node_workloads by auto
  have "\<exists>s' resp. delete_tasks toy_lib toy_kem 0 (\<lambda>_. []) toy_ops toy_delete_env ''m'' ?req toy_rest = Some (s', resp)
    \<and> node_workloads mock_infos (rs_node s')
        = {(name, w) \<in> node_workloads mock_infos (rs_node toy_rest). wi_manifest_id w \<noteq> ''m''}
    \<and> get_manifest_owner ''m'' (rs_node s') = None"
    unfolding toy_ops_def
  proof (rule unauthenticated_delete)
    show "dv_holders toy_delete_env = Answer ([''x''] @ ''me'' # [])" by (simp add: toy_delete_env_def)
    show "\<forall>q \<in> set ([''x''] @ []). dv_parse_peer toy_delete_env q \<noteq> Inr ''me''" by (simp add: toy_delete_env_def)
    show "runtime_registry_of (rs_node toy_rest) = Some toy_registry" unfolding node by simp
  qed (simp_all add: toy_delete_env_def toy_node_ok)
  then show ?thesis unfolding left .
qed

end
