(* ===== verification/Network_Control.thy ===== *)
theory Network_Control
  imports Messages Node_Ownership
begin

text \<open>
  The control interface of the network task, \<open>libp2p_beemesh/control\<close>: the messages other parts
  of the host send to it, the announcements it keeps alive, the pending lookups and the events of
  the distributed hash table that answer them (\<open>behaviour/kademlia_event.rs\<close>), with the signing
  helpers of \<open>libp2p_beemesh/utils.rs\<close>.

  libp2p is a library. What the code asks of the swarm is a log of calls, in order; what the swarm
  answers (who is connected, which identifier a query got, whether a record could be stored) is
  given by an environment, one for each message that is handled, together with the readings of the
  clocks and the random numbers. Reply channels are numbers, and what is sent on them is a log too.
  The calls that a deployment makes through the provider manager are part of that component and
  not in this log.
\<close>

section \<open>State\<close>

datatype rr_protocol = ApplyRr | HandshakeRr | SchedulerRr | DeleteRr

datatype swarm_call =
    SendRequest rr_protocol peer_id bytes
  | RespondHandshake peer_id bytes
  | RespondApply peer_id apply_response
  | RespondDelete peer_id delete_response
  | RespondCapacity peer_id capacity_reply
  | Publish bytes
  | StartProviding string bool
  | GetProviders string nat
  | Bootstrap
  | AddAddress peer_id string
  | RemovePeer peer_id
  | RemoveExplicitPeer peer_id

datatype control_reply =
    UnitReply "string + unit"
  | TextReply "string + string"
  | PeersReply "peer_id list"
  | PeerReply peer_id
  | JsonReply json

datatype libp2p_control =
    QueryCapacityWithPayload string nat bytes
  | SendApplyRequest peer_id bytes nat
  | SendDeleteRequest peer_id bytes nat
  | FindManifestHolders string nat
  | BootstrapDht nat
  | AnnounceProvider string u64 nat
  | WithdrawProvider string nat
  | GetDhtPeers nat
  | GetConnectedPeers nat
  | GetLocalPeerId nat

record announce_entry =
  ann_ttl_ms :: u64
  ann_next_due :: instant

record handshake_state =
  hst_attempts :: u8
  hst_last_attempt :: int
  hst_confirmed :: bool

text \<open>
  An apply request of a peer whose handler waits: for the engine that is to run the manifest, or for
  the announcement of the workload.
\<close>

datatype apply_stage =
    EnginePending peer_id apply_request bytes
  | AnnouncePending peer_id apply_request string workload_info

record 'e mesh_node =
  mn_node :: "'e node"
  mn_applying :: "apply_stage option"
  mn_spawned :: "delete_task list"
  mn_authorised :: "delete_task list"
  mn_scheduling :: "(peer_id, bool) hmap"
  mn_pending_queries :: "(string, nat list) hmap"
  mn_observed :: "(nat \<times> string) list"
  mn_handshakes :: "(peer_id, handshake_state) hmap"
  mn_announces :: "(string, announce_entry) hmap"
  mn_enqueued :: "libp2p_control list"
  mn_provider_queries :: "(string, nat) hmap"
  mn_manifest_requests :: "(nat, nat \<times> instant) hmap"
  mn_peers :: "peer_id list"
  mn_calls :: "swarm_call list"
  mn_replies :: "(nat \<times> control_reply) list"
  mn_running :: bool

text \<open>
  What one handling sees: the peers, the answers of the hash table (\<open>nv_start_providing k\<close> answers
  the \<open>k\<close>-th call), the readings of the clocks, the random numbers, and the node's keypair.
\<close>

record net_env =
  nv_local_peer :: peer_id
  nv_connected :: "peer_id list"
  nv_all_peers :: "peer_id list"
  nv_start_providing :: "nat \<Rightarrow> string + unit"
  nv_query_id :: nat
  nv_clock :: "nat \<Rightarrow> instant"
  nv_millis :: u64
  nv_random :: "nat \<Rightarrow> u32"
  nv_keypair :: "envelope_error + bytes \<times> bytes"
  nv_capacity :: capacity_env
  nv_apply :: apply_env

record mesh_lib =
  xl_node :: node_lib
  xl_handshake :: "handshake_message \<Rightarrow> bytes"
  xl_root_as_handshake :: "bytes \<Rightarrow> handshake_message option"
  xl_capacity_request :: "capacity_request \<Rightarrow> bytes"
  xl_capacity_reply :: "capacity_reply \<Rightarrow> bytes"
  xl_root_as_capacity_request :: "bytes \<Rightarrow> capacity_request option"
  xl_root_as_capacity_reply :: "bytes \<Rightarrow> (string option \<times> string option) option"
  xl_show_query :: "nat \<Rightarrow> string"

definition call :: "swarm_call \<Rightarrow> 'e mesh_node \<Rightarrow> 'e mesh_node" where
  "call c s = s \<lparr> mn_calls := mn_calls s @ [c] \<rparr>"

definition reply :: "nat \<Rightarrow> control_reply \<Rightarrow> 'e mesh_node \<Rightarrow> 'e mesh_node" where
  "reply tx r s = s \<lparr> mn_replies := mn_replies s @ [(tx, r)] \<rparr>"

definition register_scheduling_preference :: "peer_id \<Rightarrow> bool \<Rightarrow> 'e mesh_node \<Rightarrow> 'e mesh_node" where
  "register_scheduling_preference peer disabled s =
     s \<lparr> mn_scheduling := hm_insert peer disabled (mn_scheduling s) \<rparr>"

definition is_scheduling_disabled_for :: "peer_id \<Rightarrow> 'e mesh_node \<Rightarrow> bool" where
  "is_scheduling_disabled_for peer s =
     (case hm_get (mn_scheduling s) peer of Some d \<Rightarrow> d | None \<Rightarrow> False)"

text \<open>The part of the node that capacity messages work on.\<close>

definition capacity_view :: "'e mesh_node \<Rightarrow> capacity_node" where
  "capacity_view s =
     \<lparr> cn_verifier = resource_verifier_of (mn_node s), cn_nonces = nonces (mn_node s),
       cn_pending = mn_pending_queries s, cn_sent = mn_observed s \<rparr>"

definition put_capacity :: "capacity_node \<Rightarrow> 'e mesh_node \<Rightarrow> 'e mesh_node" where
  "put_capacity c s =
     s \<lparr> mn_node := (mn_node s) \<lparr> resource_verifier_of := cn_verifier c, nonces := cn_nonces c \<rparr>,
         mn_pending_queries := cn_pending c, mn_observed := cn_sent c \<rparr>"

definition capacity_env_of :: "net_env \<Rightarrow> 'e mesh_node \<Rightarrow> capacity_env" where
  "capacity_env_of E s =
     (nv_capacity E) \<lparr> ce_now_nonce := nv_clock E 0, ce_local_peer := nv_local_peer E,
        ce_disabled := is_scheduling_disabled_for (nv_local_peer E) s \<rparr>"

definition apply_env_of :: "net_env \<Rightarrow> apply_env" where
  "apply_env_of E = (nv_apply E) \<lparr> ae_local_peer := nv_local_peer E \<rparr>"

section \<open>Signing helpers\<close>

definition make_nonce :: "string option \<Rightarrow> u32 \<Rightarrow> string" where
  "make_nonce prefix r =
     (case prefix of
        Some p \<Rightarrow> p @ ''_'' @ to_decimal (unat r)
      | None \<Rightarrow> ''nonce_'' @ to_decimal (unat r))"

definition sign_payload_default ::
  "crypto_lib \<Rightarrow> net_env \<Rightarrow> bytes \<Rightarrow> string \<Rightarrow> string option \<Rightarrow> envelope_error + bytes" where
  "sign_payload_default L E payload payload_type nonce_prefix =
     (let nonce = make_nonce nonce_prefix (nv_random E 0);
          sign_cfg = default_sign_config \<lparr> sg_nonce := Some nonce, sg_timestamp := Some (nv_millis E) \<rparr> in
      case sign_with_node_keys L [] None (nv_keypair E) payload payload_type sign_cfg of
        Inl e \<Rightarrow> Inl e
      | Inr envl \<Rightarrow> Inr (se_bytes envl))"

definition sign_capacity_reply ::
  "crypto_lib \<Rightarrow> string \<Rightarrow> nat option \<Rightarrow> net_env \<Rightarrow> bytes \<Rightarrow> envelope_error + signed_envelope" where
  "sign_capacity_reply L uuid millis E payload =
     sign_with_node_keys L uuid millis (nv_keypair E) payload ''capacity_reply'' default_sign_config"

fun send_signed_to ::
  "crypto_lib \<Rightarrow> net_env \<Rightarrow> bytes \<Rightarrow> string \<Rightarrow> bytes \<Rightarrow> bytes \<Rightarrow> nat \<Rightarrow> peer_id list \<Rightarrow> 'e mesh_node
     \<Rightarrow> 'e mesh_node \<times> nat" where
  "send_signed_to L E payload payload_type pk sk k [] s = (s, 0)"
| "send_signed_to L E payload payload_type pk sk k (peer # peers) s =
     (let nonce = make_nonce (Some (peer @ ''_query'')) (nv_random E k);
          sign_cfg = default_sign_config \<lparr> sg_nonce := Some nonce, sg_timestamp := Some (nv_millis E) \<rparr> in
      case sign_with_existing_keypair L [] None payload payload_type sign_cfg pk sk of
        Inr envl \<Rightarrow>
          (case send_signed_to L E payload payload_type pk sk (Suc k) peers
                  (call (SendRequest SchedulerRr peer (se_bytes envl)) s) of
             (s', sent) \<Rightarrow> (s', Suc sent))
      | Inl e \<Rightarrow> send_signed_to L E payload payload_type pk sk (Suc k) peers s)"

definition broadcast_signed_request_to_peers ::
  "crypto_lib \<Rightarrow> net_env \<Rightarrow> bytes \<Rightarrow> string \<Rightarrow> 'e mesh_node \<Rightarrow> 'e mesh_node \<times> (envelope_error + nat)" where
  "broadcast_signed_request_to_peers L E payload payload_type s =
     (case nv_keypair E of
        Inl e \<Rightarrow> (s, Inl e)
      | Inr (pk, sk) \<Rightarrow>
          (case send_signed_to L E payload payload_type pk sk 0 (nv_all_peers E) s of
             (s', sent) \<Rightarrow> (s', Inr sent)))"

section \<open>Requests to peers\<close>

definition handle_query_capacity_with_payload ::
  "mesh_lib \<Rightarrow> net_env \<Rightarrow> string \<Rightarrow> nat \<Rightarrow> bytes \<Rightarrow> 'e mesh_node \<Rightarrow> 'e mesh_node" where
  "handle_query_capacity_with_payload X E request_id reply_tx payload s =
     (let can_sign = (case nv_keypair E of Inr _ \<Rightarrow> True | Inl _ \<Rightarrow> False) in
      case query_capacity (xl_root_as_capacity_request X) (capacity_env_of E s) can_sign request_id reply_tx
             payload (capacity_view s) of
        (c, None) \<Rightarrow> put_capacity c s
      | (c, Some cap_req) \<Rightarrow>
          fst (broadcast_signed_request_to_peers (nl_crypto (xl_node X)) E (xl_capacity_request X cap_req)
                 ''capacity'' (put_capacity c s)))"

text \<open>
  The manifest id that the handler computes from the request is used by nothing. \<open>signing_key\<close> is
  the public half of the node's keypair. A panic ends the network task.
\<close>

definition handle_send_apply_request ::
  "mesh_lib \<Rightarrow> 'e engine_ops \<Rightarrow> net_env \<Rightarrow> peer_id \<Rightarrow> bytes \<Rightarrow> nat \<Rightarrow> 'e mesh_node \<Rightarrow> 'e mesh_node" where
  "handle_send_apply_request X V E peer manifest reply_tx s =
     (if peer = nv_local_peer E
      then
        (let key = (case nv_keypair E of Inr (pk, _) \<Rightarrow> Some pk | Inl _ \<Rightarrow> None) in
         case process_self_apply_request (nl_apply_request (xl_node X)) (nl_manifest (xl_node X)) V
                (apply_env_of E) key manifest (mn_node s) of
           (n, None) \<Rightarrow> s \<lparr> mn_node := n, mn_running := False \<rparr>
         | (n, Some _) \<Rightarrow>
             reply reply_tx (TextReply (Inr (''Apply request handled locally for '' @ peer))) (s \<lparr> mn_node := n \<rparr>))
      else
        (let signed_apply_request =
               (case sign_payload_default (nl_crypto (xl_node X)) E manifest ''apply_request'' (Some ''apply'') of
                  Inr b \<Rightarrow> b
                | Inl _ \<Rightarrow> manifest) in
         reply reply_tx (TextReply (Inr (''Apply request sent to '' @ peer)))
           (call (SendRequest ApplyRr peer signed_apply_request) s)))"

definition handle_send_delete_request :: "peer_id \<Rightarrow> bytes \<Rightarrow> nat \<Rightarrow> 'e mesh_node \<Rightarrow> 'e mesh_node" where
  "handle_send_delete_request peer delete_request reply_tx s =
     reply reply_tx (TextReply (Inr ''Delete request sent''))
       (call (SendRequest DeleteRr peer delete_request) s)"

section \<open>Announcements\<close>

text \<open>The time to live is not used: the announcement of a key and its withdrawal are the same call.\<close>

definition announce_provider_direct ::
  "net_env \<Rightarrow> nat \<Rightarrow> string \<Rightarrow> u64 \<Rightarrow> 'e mesh_node \<Rightarrow> 'e mesh_node \<times> (string + unit)" where
  "announce_provider_direct E k cid ttl_ms s =
     (if nv_connected E = [] then (s, Inl ''No connected peers for DHT announcement'')
      else
        (case nv_start_providing E k of
           Inr _ \<Rightarrow> (call (StartProviding cid True) s, Inr ())
         | Inl e \<Rightarrow> (call (StartProviding cid False) s, Inl (''kademlia start_providing failed: '' @ e))))"

fun announce_attempts ::
  "net_env \<Rightarrow> string \<Rightarrow> u64 \<Rightarrow> nat list \<Rightarrow> 'e mesh_node \<Rightarrow> 'e mesh_node \<times> bool" where
  "announce_attempts E cid ttl_ms [] s = (s, False)"
| "announce_attempts E cid ttl_ms (k # ks) s =
     (case announce_provider_direct E k cid ttl_ms s of
        (s', Inr _) \<Rightarrow> (s', True)
      | (s', Inl _) \<Rightarrow> announce_attempts E cid ttl_ms ks s')"

text \<open>Instants are in nanoseconds.\<close>

definition renewal_interval :: "u64 \<Rightarrow> nat" where
  "renewal_interval ttl_ms = unat (max 2000 (ttl_ms div 3)) * 1000000"

definition handle_announce_provider ::
  "net_env \<Rightarrow> string \<Rightarrow> u64 \<Rightarrow> nat \<Rightarrow> 'e mesh_node \<Rightarrow> 'e mesh_node" where
  "handle_announce_provider E cid ttl_ms reply_tx s =
     (case announce_attempts E cid ttl_ms [0, 1, 2] s of
        (s', True) \<Rightarrow>
          (let next = (if ttl_ms = 0 then nv_clock E 0 + 3600 * 1000000000
                       else nv_clock E 0 + renewal_interval ttl_ms) in
           reply reply_tx (UnitReply (Inr ()))
             (s' \<lparr> mn_announces := hm_insert cid \<lparr> ann_ttl_ms = ttl_ms, ann_next_due = next \<rparr> (mn_announces s') \<rparr>))
      | (s', False) \<Rightarrow>
          reply reply_tx (UnitReply (Inl ''All provider announcement attempts failed'')) s')"

definition handle_withdraw_provider :: "net_env \<Rightarrow> string \<Rightarrow> nat \<Rightarrow> 'e mesh_node \<Rightarrow> 'e mesh_node" where
  "handle_withdraw_provider E cid reply_tx s =
     (case announce_provider_direct E 0 cid 0 (s \<lparr> mn_announces := hm_remove cid (mn_announces s) \<rparr>) of
        (s', Inr _) \<Rightarrow> reply reply_tx (UnitReply (Inr ())) s'
      | (s', Inl e) \<Rightarrow> reply reply_tx (UnitReply (Inl e)) s')"

text \<open>The clock is read once for the comparisons (reading 0) and again after each announcement.\<close>

fun renew_entries ::
  "net_env \<Rightarrow> nat \<Rightarrow> (string, announce_entry) hmap \<Rightarrow> 'e mesh_node
     \<Rightarrow> 'e mesh_node \<times> (string, announce_entry) hmap" where
  "renew_entries E k [] s = (s, [])"
| "renew_entries E k ((cid, entry) # es) s =
     (if ann_ttl_ms entry = 0 \<or> \<not> ann_next_due entry \<le> nv_clock E 0
      then (case renew_entries E k es s of (s', es') \<Rightarrow> (s', (cid, entry) # es'))
      else
        (case renew_entries E (Suc k) es (fst (announce_provider_direct E k cid (ann_ttl_ms entry) s)) of
           (s', es') \<Rightarrow>
             (s', (cid, entry \<lparr> ann_next_due := nv_clock E (Suc k) + renewal_interval (ann_ttl_ms entry) \<rparr>)
                  # es')))"

definition renew_due_providers :: "net_env \<Rightarrow> 'e mesh_node \<Rightarrow> 'e mesh_node" where
  "renew_due_providers E s =
     (case renew_entries E 0 (mn_announces s) s of (s', es) \<Rightarrow> s' \<lparr> mn_announces := es \<rparr>)"

fun withdraw_keys :: "net_env \<Rightarrow> nat \<Rightarrow> string list \<Rightarrow> 'e mesh_node \<Rightarrow> 'e mesh_node" where
  "withdraw_keys E k [] s = s"
| "withdraw_keys E k (cid # cids) s =
     withdraw_keys E (Suc k) cids (fst (announce_provider_direct E k cid 0 s))"

definition withdraw_all_providers :: "net_env \<Rightarrow> 'e mesh_node \<Rightarrow> 'e mesh_node" where
  "withdraw_all_providers E s =
     withdraw_keys E 0 (hm_keys (mn_announces s)) (s \<lparr> mn_announces := hm_empty \<rparr>)"

definition list_active_announces :: "'e mesh_node \<Rightarrow> string list" where
  "list_active_announces s = hm_keys (mn_announces s)"

section \<open>Pending requests\<close>

definition insert_pending_providers_query :: "mesh_lib \<Rightarrow> nat \<Rightarrow> nat \<Rightarrow> 'e mesh_node \<Rightarrow> 'e mesh_node" where
  "insert_pending_providers_query X i sender s =
     s \<lparr> mn_provider_queries := hm_insert (xl_show_query X i) sender (mn_provider_queries s) \<rparr>"

definition take_pending_providers_query ::
  "mesh_lib \<Rightarrow> nat \<Rightarrow> 'e mesh_node \<Rightarrow> 'e mesh_node \<times> nat option" where
  "take_pending_providers_query X i s =
     (s \<lparr> mn_provider_queries := hm_remove (xl_show_query X i) (mn_provider_queries s) \<rparr>,
      hm_get (mn_provider_queries s) (xl_show_query X i))"

definition handle_find_manifest_holders ::
  "mesh_lib \<Rightarrow> net_env \<Rightarrow> string \<Rightarrow> nat \<Rightarrow> 'e mesh_node \<Rightarrow> 'e mesh_node" where
  "handle_find_manifest_holders X E manifest_id reply_tx s =
     insert_pending_providers_query X (nv_query_id E) reply_tx
       (call (GetProviders (''provider:'' @ manifest_id) (nv_query_id E)) s)"

definition MANIFEST_REQUEST_TIMEOUT :: nat where
  "MANIFEST_REQUEST_TIMEOUT = 5 * 1000000000"

definition cleanup_timed_out_manifest_requests :: "instant \<Rightarrow> 'e mesh_node \<Rightarrow> 'e mesh_node" where
  "cleanup_timed_out_manifest_requests now s =
     (let late = (\<lambda>(tx, timestamp). now - timestamp > MANIFEST_REQUEST_TIMEOUT);
          timed_out = filter (\<lambda>(_, r). late r) (mn_manifest_requests s) in
      s \<lparr> mn_manifest_requests := hm_retain (\<lambda>_ r. \<not> late r) (mn_manifest_requests s),
          mn_replies := mn_replies s
            @ map (\<lambda>(_, tx, _). (tx, UnitReply (Inl ''Request timeout''))) timed_out \<rparr>)"

definition manifest_fetch_outbound_failure :: "nat \<Rightarrow> string \<Rightarrow> 'e mesh_node \<Rightarrow> 'e mesh_node" where
  "manifest_fetch_outbound_failure request_id error s =
     (let s' = s \<lparr> mn_manifest_requests := hm_remove request_id (mn_manifest_requests s) \<rparr> in
      case hm_get (mn_manifest_requests s) request_id of
        Some (tx, _) \<Rightarrow> reply tx (UnitReply (Inl (''Outbound failure: '' @ error))) s'
      | None \<Rightarrow> s')"

section \<open>Control messages\<close>

definition dht_info :: "net_env \<Rightarrow> json" where
  "dht_info E = JObject
     [(''local_peer_id'', JString (nv_local_peer E)),
      (''connected_peers'', JArray (map JString (nv_connected E))),
      (''connected_count'', JNumber (int (length (nv_connected E))))]"

fun handle_control_message ::
  "mesh_lib \<Rightarrow> 'e engine_ops \<Rightarrow> net_env \<Rightarrow> libp2p_control \<Rightarrow> 'e mesh_node \<Rightarrow> 'e mesh_node" where
  "handle_control_message X V E (QueryCapacityWithPayload request_id tx payload) s =
     handle_query_capacity_with_payload X E request_id tx payload s"
| "handle_control_message X V E (SendApplyRequest peer manifest tx) s =
     handle_send_apply_request X V E peer manifest tx s"
| "handle_control_message X V E (SendDeleteRequest peer delete_request tx) s =
     handle_send_delete_request peer delete_request tx s"
| "handle_control_message X V E (FindManifestHolders manifest_id tx) s =
     handle_find_manifest_holders X E manifest_id tx s"
| "handle_control_message X V E (BootstrapDht tx) s =
     reply tx (UnitReply (Inr ())) (call Bootstrap s)"
| "handle_control_message X V E (AnnounceProvider cid ttl_ms tx) s =
     handle_announce_provider E cid ttl_ms tx s"
| "handle_control_message X V E (GetDhtPeers tx) s = reply tx (JsonReply (dht_info E)) s"
| "handle_control_message X V E (WithdrawProvider cid tx) s = handle_withdraw_provider E cid tx s"
| "handle_control_message X V E (GetConnectedPeers tx) s = reply tx (PeersReply (nv_connected E)) s"
| "handle_control_message X V E (GetLocalPeerId tx) s = reply tx (PeerReply (nv_local_peer E)) s"

definition enqueue_control :: "libp2p_control \<Rightarrow> 'e mesh_node \<Rightarrow> 'e mesh_node" where
  "enqueue_control msg s = s \<lparr> mn_enqueued := mn_enqueued s @ [msg] \<rparr>"

text \<open>
  The queue is emptied first; its messages are handled in order, the \<open>k\<close>-th in \<open>Es k\<close>, up to one
  that panics.
\<close>

definition drain_enqueued_controls ::
  "mesh_lib \<Rightarrow> 'e engine_ops \<Rightarrow> (nat \<Rightarrow> net_env) \<Rightarrow> 'e mesh_node \<Rightarrow> 'e mesh_node" where
  "drain_enqueued_controls X V Es s =
     fold (\<lambda>(k, msg) s. if mn_running s then handle_control_message X V (Es k) msg s else s)
       (enumerate 0 (mn_enqueued s)) (s \<lparr> mn_enqueued := [] \<rparr>)"

section \<open>Events of the hash table\<close>

datatype query_result =
    GetRecordFound | GetRecordErr | GetRecordFinished
  | ProvidersFound "peer_id list" | ProvidersFinished | ProvidersErr
  | PutRecordOk | PutRecordErr | BootstrapOk | BootstrapErr
  | StartProvidingOk | StartProvidingErr | OtherResult

datatype kad_event =
    OutboundQueryProgressed nat query_result
  | RoutingUpdated bool
  | UnroutablePeer peer_id | RoutablePeer peer_id string | PendingRoutablePeer peer_id string
  | InboundRequest | ModeChanged

text \<open>A lookup that ends without providers falls into the branch of the other results.\<close>

definition query_progressed :: "mesh_lib \<Rightarrow> nat \<Rightarrow> query_result \<Rightarrow> 'e mesh_node \<Rightarrow> 'e mesh_node" where
  "query_progressed X i result s =
     (case result of
        ProvidersFound providers \<Rightarrow>
          (case take_pending_providers_query X i s of
             (s', Some tx) \<Rightarrow> reply tx (PeersReply providers) s'
           | (s', None) \<Rightarrow> s')
      | ProvidersErr \<Rightarrow>
          (case take_pending_providers_query X i s of
             (s', Some tx) \<Rightarrow> reply tx (PeersReply []) s'
           | (s', None) \<Rightarrow> s')
      | _ \<Rightarrow> s)"

definition kademlia_event :: "mesh_lib \<Rightarrow> kad_event \<Rightarrow> 'e mesh_node \<Rightarrow> 'e mesh_node" where
  "kademlia_event X ev s =
     (case ev of OutboundQueryProgressed i result \<Rightarrow> query_progressed X i result s | _ \<Rightarrow> s)"

section \<open>Frames\<close>

text \<open>What a control message leaves alone: the handshake table, and the handshake requests.\<close>

named_theorems frame \<open>parts of the node that an operation does not change\<close>

lemma call_frame [frame]:
  "mn_node (call c s) = mn_node s" "mn_applying (call c s) = mn_applying s" "mn_running (call c s) = mn_running s" "mn_spawned (call c s) = mn_spawned s"
  "mn_authorised (call c s) = mn_authorised s" "mn_handshakes (call c s) = mn_handshakes s"
  "mn_announces (call c s) = mn_announces s" "mn_provider_queries (call c s) = mn_provider_queries s"
  "mn_replies (call c s) = mn_replies s" "mn_calls (call c s) = mn_calls s @ [c]"
  "mn_manifest_requests (call c s) = mn_manifest_requests s" "mn_scheduling (call c s) = mn_scheduling s"
  by (simp_all add: call_def)

lemma reply_frame [frame]:
  "mn_node (reply tx r s) = mn_node s" "mn_spawned (reply tx r s) = mn_spawned s"
  "mn_authorised (reply tx r s) = mn_authorised s" "mn_handshakes (reply tx r s) = mn_handshakes s"
  "mn_announces (reply tx r s) = mn_announces s" "mn_provider_queries (reply tx r s) = mn_provider_queries s"
  "mn_calls (reply tx r s) = mn_calls s" "mn_replies (reply tx r s) = mn_replies s @ [(tx, r)]"
  "mn_manifest_requests (reply tx r s) = mn_manifest_requests s" "mn_scheduling (reply tx r s) = mn_scheduling s"
  by (simp_all add: reply_def)

lemma put_capacity_frame [frame]:
  "mn_spawned (put_capacity c s) = mn_spawned s" "mn_authorised (put_capacity c s) = mn_authorised s"
  "mn_handshakes (put_capacity c s) = mn_handshakes s" "mn_calls (put_capacity c s) = mn_calls s"
  "manifest_owner_map (mn_node (put_capacity c s)) = manifest_owner_map (mn_node s)"
  "nonces (mn_node (put_capacity c s)) = cn_nonces c"
  by (simp_all add: put_capacity_def)

lemma drain_invariant:
  assumes "\<And>k msg s. P s \<Longrightarrow> P (handle_control_message X V (Es k) msg s)" "P (s \<lparr> mn_enqueued := [] \<rparr>)"
  shows "P (drain_enqueued_controls X V Es s)"
proof -
  have "P s \<Longrightarrow> P (fold (\<lambda>(k, msg) s. if mn_running s then handle_control_message X V (Es k) msg s else s) ms s)" for ms s
    by (induction ms arbitrary: s) (auto simp: assms(1))
  with assms(2) show ?thesis by (simp add: drain_enqueued_controls_def)
qed

lemma announce_direct_cases:
  obtains (refused) e where "nv_connected E = []" "announce_provider_direct E k cid ttl s = (s, Inl e)"
  | (called) ok r where "nv_connected E \<noteq> []"
      "announce_provider_direct E k cid ttl s = (call (StartProviding cid ok) s, r)" "ok = (r = Inr ())"
proof (cases "nv_connected E = []")
  case True
  then show ?thesis using that(1) by (simp add: announce_provider_direct_def)
next
  case False
  then show ?thesis
    using that(2) by (cases "nv_start_providing E k") (auto simp: announce_provider_direct_def)
qed

end
