(* ===== verification/Handshake.thy ===== *)
theory Handshake
  imports Network_Control
begin

text \<open>
  Handshakes between peers: the message handlers of \<open>behaviour/handshake_message.rs\<close> and the timer
  of \<open>start_libp2p_node\<close> in \<open>libp2p_beemesh/mod.rs\<close> that sends the requests. A peer is confirmed
  once a signed handshake message of it was read; an unconfirmed peer gets at most three requests,
  at least two seconds apart, and is dropped after them.
\<close>

section \<open>Messages\<close>

definition put_nonces :: "nonce_store \<Rightarrow> 'e mesh_node \<Rightarrow> 'e mesh_node" where
  "put_nonces st s = s \<lparr> mn_node := (mn_node s) \<lparr> nonces := st \<rparr> \<rparr>"

text \<open>The entry for a peer, made if there is none; the initial attempt lies three seconds back.\<close>

definition ensure_handshake_state ::
  "instant \<Rightarrow> peer_id \<Rightarrow> (peer_id, handshake_state) hmap \<Rightarrow> handshake_state" where
  "ensure_handshake_state now peer states =
     (case hm_get states peer of
        Some st \<Rightarrow> st
      | None \<Rightarrow> \<lparr> hst_attempts = 0, hst_last_attempt = int now - 3 * 1000000000, hst_confirmed = False \<rparr>)"

definition confirm :: "instant \<Rightarrow> peer_id \<Rightarrow> 'e mesh_node \<Rightarrow> 'e mesh_node" where
  "confirm now peer s =
     s \<lparr> mn_handshakes := hm_insert peer
           ((ensure_handshake_state now peer (mn_handshakes s)) \<lparr> hst_confirmed := True \<rparr>) (mn_handshakes s) \<rparr>"

definition handshake_error_response :: "mesh_lib \<Rightarrow> bytes" where
  "handshake_error_response X = xl_handshake X (build_handshake 0 0 [] [])"

definition signed_handshake_response :: "mesh_lib \<Rightarrow> net_env \<Rightarrow> peer_id \<Rightarrow> bytes" where
  "signed_handshake_response X E peer =
     (let timestamp = nv_millis E;
          nonce = ''handshake_resp_'' @ to_decimal (unat (nv_random E 0));
          handshake_response =
            xl_handshake X (build_handshake (nv_random E 1) timestamp ''beemesh/1.0'' peer);
          sign_cfg = default_sign_config \<lparr> sg_nonce := Some nonce, sg_timestamp := Some timestamp \<rparr> in
      case sign_with_node_keys (nl_crypto (xl_node X)) [] None (nv_keypair E) handshake_response
             ''handshake'' sign_cfg of
        Inr envl \<Rightarrow> se_bytes envl
      | Inl e \<Rightarrow> handshake_error_response X)"

definition handshake_request ::
  "mesh_lib \<Rightarrow> net_env \<Rightarrow> peer_id \<Rightarrow> bytes \<Rightarrow> 'e mesh_node \<Rightarrow> 'e mesh_node \<times> bytes" where
  "handshake_request X E peer request s =
     (case verify_signed_message (nl_crypto (xl_node X)) (nv_clock E 0) peer request (nonces (mn_node s)) of
        (st, None) \<Rightarrow> (put_nonces st s, handshake_error_response X)
      | (st, Some verified) \<Rightarrow>
          (case xl_root_as_handshake X (ve_payload verified) of
             Some _ \<Rightarrow> (confirm (nv_clock E 1) peer (put_nonces st s), signed_handshake_response X E peer)
           | None \<Rightarrow> (put_nonces st s, handshake_error_response X)))"

definition handshake_response ::
  "mesh_lib \<Rightarrow> net_env \<Rightarrow> peer_id \<Rightarrow> bytes \<Rightarrow> 'e mesh_node \<Rightarrow> 'e mesh_node" where
  "handshake_response X E peer response s =
     (case verify_signed_message (nl_crypto (xl_node X)) (nv_clock E 0) peer response (nonces (mn_node s)) of
        (st, None) \<Rightarrow> put_nonces st s
      | (st, Some verified) \<Rightarrow>
          (case xl_root_as_handshake X (ve_payload verified) of
             Some _ \<Rightarrow> confirm (nv_clock E 1) peer (put_nonces st s)
           | None \<Rightarrow> put_nonces st s))"

datatype rr_message = Request bytes | Response bytes

definition handshake_message_event ::
  "mesh_lib \<Rightarrow> net_env \<Rightarrow> peer_id \<Rightarrow> rr_message \<Rightarrow> 'e mesh_node \<Rightarrow> 'e mesh_node" where
  "handshake_message_event X E peer message s =
     (case message of
        Request request \<Rightarrow>
          (case handshake_request X E peer request s of
             (s', resp) \<Rightarrow> call (RespondHandshake peer resp) s')
      | Response response \<Rightarrow> handshake_response X E peer response s)"

section \<open>The timer\<close>

text \<open>The signed request to one peer, or nothing if the keys cannot be loaded or used.\<close>

definition handshake_request_bytes :: "mesh_lib \<Rightarrow> net_env \<Rightarrow> bytes option" where
  "handshake_request_bytes X E =
     (let timestamp = nv_millis E; nonce = nv_random E 0 in
      case nv_keypair E of
        Inl _ \<Rightarrow> None
      | Inr (pub_bytes, sk_bytes) \<Rightarrow>
          (let request = xl_handshake X (build_handshake nonce timestamp ''beemesh/1.0'' (nv_local_peer E));
               envelope_nonce = ''handshake_req_'' @ to_decimal (unat nonce);
               canonical = build_envelope_canonical (nl_crypto (xl_node X)) request ''handshake'' envelope_nonce
                             timestamp ''ml-dsa-65'' None in
           case sign_envelope (nl_crypto (xl_node X)) sk_bytes pub_bytes canonical of
             Inl _ \<Rightarrow> None
           | Inr (sig_b64, pub_b64) \<Rightarrow>
               Some (build_envelope_signed (nl_crypto (xl_node X)) request ''handshake'' envelope_nonce timestamp
                       ''ml-dsa-65'' ''ml-dsa-65'' sig_b64 pub_b64 None)))"

datatype tick_action = KeepPeer | DropPeer | AttemptPeer

definition tick_action_of :: "instant \<Rightarrow> handshake_state \<Rightarrow> tick_action" where
  "tick_action_of now st =
     (if hst_confirmed st then KeepPeer
      else if 3 \<le> hst_attempts st then DropPeer
      else if 2 * 1000000000 \<le> int now - hst_last_attempt st then AttemptPeer
      else KeepPeer)"

text \<open>One pass over the table, the \<open>k\<close>-th entry in environment \<open>Es k\<close>; the last component is \<open>to_remove\<close>.\<close>

fun tick_entries ::
  "mesh_lib \<Rightarrow> (nat \<Rightarrow> net_env) \<Rightarrow> nat \<Rightarrow> (peer_id, handshake_state) hmap
     \<Rightarrow> swarm_call list \<times> (peer_id, handshake_state) hmap \<times> peer_id list" where
  "tick_entries X Es k [] = ([], [], [])"
| "tick_entries X Es k ((peer, st) # rest) =
     (case tick_entries X Es (Suc k) rest of
        (calls, states, to_remove) \<Rightarrow>
          (case tick_action_of (nv_clock (Es k) 0) st of
             KeepPeer \<Rightarrow> (calls, (peer, st) # states, to_remove)
           | DropPeer \<Rightarrow> (RemoveExplicitPeer peer # calls, (peer, st) # states, peer # to_remove)
           | AttemptPeer \<Rightarrow>
               (case handshake_request_bytes X (Es k) of
                  None \<Rightarrow> (calls, (peer, st) # states, to_remove)
                | Some b \<Rightarrow>
                    (SendRequest HandshakeRr peer b # calls,
                     (peer, st \<lparr> hst_attempts := hst_attempts st + 1,
                                hst_last_attempt := int (nv_clock (Es k) 1) \<rparr>) # states,
                     to_remove))))"

definition handshake_tick ::
  "mesh_lib \<Rightarrow> (nat \<Rightarrow> net_env) \<Rightarrow> net_env \<Rightarrow> 'e mesh_node \<Rightarrow> 'e mesh_node" where
  "handshake_tick X Es E s =
     (case tick_entries X Es 0 (mn_handshakes s) of
        (calls, states, to_remove) \<Rightarrow>
          s \<lparr> mn_calls := mn_calls s @ calls,
              mn_handshakes := fold hm_remove to_remove states,
              mn_peers := nv_all_peers E \<rparr>)"

section \<open>Lemmas\<close>

lemma put_nonces_simps [simp]:
  "mn_handshakes (put_nonces st s) = mn_handshakes s" "mn_calls (put_nonces st s) = mn_calls s"
  "nonces (mn_node (put_nonces st s)) = st"
  by (simp_all add: put_nonces_def)

lemma confirm_simps [simp]:
  "mn_node (confirm now p s) = mn_node s" "mn_calls (confirm now p s) = mn_calls s"
  by (simp_all add: confirm_def)

definition is_confirmed :: "peer_id \<Rightarrow> 'e mesh_node \<Rightarrow> bool" where
  "is_confirmed peer s \<longleftrightarrow> (\<exists>st. hm_get (mn_handshakes s) peer = Some st \<and> hst_confirmed st)"

lemma is_confirmed_confirm: "is_confirmed p (confirm now q s) \<longleftrightarrow> p = q \<or> is_confirmed p s"
  by (auto simp: is_confirmed_def confirm_def)

lemma is_confirmed_put_nonces [simp]: "is_confirmed p (put_nonces st s) = is_confirmed p s"
  by (simp add: is_confirmed_def)

lemma is_confirmed_call [simp]: "is_confirmed p (call c s) = is_confirmed p s"
  by (simp add: is_confirmed_def call_def)

text \<open>A table of confirmed peers: the timer sends nothing, drops nobody and changes no entry.\<close>

definition all_confirmed :: "'e mesh_node \<Rightarrow> bool" where
  "all_confirmed s \<longleftrightarrow> (\<forall>(p, st) \<in> set (mn_handshakes s). hst_confirmed st)"

lemma tick_all_confirmed:
  "\<forall>(p, st) \<in> set m. hst_confirmed st \<Longrightarrow> tick_entries X Es k m = ([], m, [])"
  by (induction m arbitrary: k) (auto simp: tick_action_of_def)

lemma handshake_tick_confirmed:
  assumes "all_confirmed s"
  shows "handshake_tick X Es E s = s \<lparr> mn_peers := nv_all_peers E \<rparr>"
  using tick_all_confirmed [of "mn_handshakes s" X Es 0] assms
  by (simp add: handshake_tick_def all_confirmed_def)

lemma all_confirmed_confirm: "all_confirmed s \<Longrightarrow> all_confirmed (confirm now p s)"
  by (auto simp: all_confirmed_def confirm_def dest!: hm_insert_mem)

lemma all_confirmed_cong: "mn_handshakes s' = mn_handshakes s \<Longrightarrow> all_confirmed s' = all_confirmed s"
  by (simp add: all_confirmed_def)

section \<open>Requests to a peer\<close>

fun handshake_target :: "swarm_call \<Rightarrow> peer_id option" where
  "handshake_target (SendRequest HandshakeRr p b) = Some p"
| "handshake_target _ = None"

definition requests_to :: "peer_id \<Rightarrow> swarm_call list \<Rightarrow> nat" where
  "requests_to p cs = length (filter (\<lambda>c. handshake_target c = Some p) cs)"

section \<open>A handshake between two nodes\<close>

lemma signed_message_accepted:
  assumes "crypto_laws L" "dsa_keypair L pk sk" "store_ok st" "nonce_seen_at st peer nonce = None"
    and "sign_envelope L sk pk (build_envelope_canonical L payload ptype nonce ts alg None) = Inr (sig, pub)"
  shows "\<exists>st' v. verify_signed_message L now peer
      (build_envelope_signed L payload ptype nonce ts alg ''ml-dsa-65'' sig pub None) st = (st', Some v)
    \<and> ve_payload v = payload"
proof -
  let ?e = "\<lparr> fe_payload = Some payload, fe_payload_type = Some ptype, fe_nonce = Some nonce, fe_ts = ts,
      fe_alg = Some alg, fe_sig = Some [], fe_pubkey = Some [], fe_kem_pubkey = Some [], fe_peer_id = Some [] \<rparr>"
  let ?e' = "?e \<lparr> fe_sig := Some (''ml-dsa-65'' @ '':'' @ sig), fe_pubkey := Some pub \<rparr>"
  have "rebuilt_canonical L ?e = build_envelope_canonical L payload ptype nonce ts alg None"
    by (simp add: rebuilt_canonical_eq builder_defs)
  moreover have "or_empty (fe_nonce ?e) \<noteq> [] \<Longrightarrow>
      snd (check_and_insert_nonce_for_peer now NONCE_WINDOW peer (or_empty (fe_nonce ?e)) st) = Inr ()"
    using guard.accept_iff [OF assms(3)] assms(4) by simp
  ultimately obtain v where v: "snd (verify_flatbuffer_envelope_for_peer L now NONCE_WINDOW peer (fb_finish L ?e') st)
      = Inr (verified_parts ?e' pk v)"
    using signed_verifies [OF assms(1,2), of "''ml-dsa-65''" ?e sig pub now NONCE_WINDOW peer st] assms(5) by auto
  have "fb_finish L ?e' = build_envelope_signed L payload ptype nonce ts alg ''ml-dsa-65'' sig pub None"
    by (simp add: builder_defs)
  with v show ?thesis
    by (auto simp: verify_signed_message_def verify_signed_payload_for_peer_def verified_parts_def
        verify_envelope_and_check_nonce_for_peer_def split: prod.splits sum.splits)
qed

text \<open>What is built as a handshake message can be read as one.\<close>

definition handshake_laws :: "mesh_lib \<Rightarrow> bool" where
  "handshake_laws X \<longleftrightarrow> crypto_laws (nl_crypto (xl_node X))
     \<and> (\<forall>h. xl_root_as_handshake X (xl_handshake X h) = Some h)"

lemma handshake_request_confirms:
  assumes "handshake_laws X" "nv_keypair EA = Inr (pk, sk)" "dsa_keypair (nl_crypto (xl_node X)) pk sk"
    and "store_ok (nonces (mn_node s))"
    and "nonce_seen_at (nonces (mn_node s)) p (''handshake_req_'' @ to_decimal (unat (nv_random EA 0))) = None"
  shows "\<exists>b s'. handshake_request_bytes X EA = Some b
    \<and> handshake_request X E p b s = (s', signed_handshake_response X E p) \<and> is_confirmed p s'"
proof -
  let ?L = "nl_crypto (xl_node X)"
  let ?req = "xl_handshake X (build_handshake (nv_random EA 0) (nv_millis EA) ''beemesh/1.0'' (nv_local_peer EA))"
  let ?nonce = "''handshake_req_'' @ to_decimal (unat (nv_random EA 0))"
  have laws: "crypto_laws ?L" "\<And>h. xl_root_as_handshake X (xl_handshake X h) = Some h"
    using assms(1) by (simp_all add: handshake_laws_def)
  obtain sig pub where signed: "sign_envelope ?L sk pk
      (build_envelope_canonical ?L ?req ''handshake'' ?nonce (nv_millis EA) ''ml-dsa-65'' None) = Inr (sig, pub)"
    using sign_envelope_keypair [OF laws(1) assms(3)] by blast
  from signed_message_accepted [OF laws(1) assms(3,4,5) this, of "nv_clock E 0"]
  obtain st v where "verify_signed_message ?L (nv_clock E 0) p (build_envelope_signed ?L ?req ''handshake'' ?nonce
      (nv_millis EA) ''ml-dsa-65'' ''ml-dsa-65'' sig pub None) (nonces (mn_node s)) = (st, Some v)"
    "ve_payload v = ?req" by blast
  then show ?thesis
    using signed by (simp add: handshake_request_bytes_def Let_def assms(2) handshake_request_def laws(2)
        is_confirmed_confirm)
qed

lemma handshake_response_confirms:
  assumes "handshake_laws X" "nv_keypair EB = Inr (pk, sk)" "dsa_keypair (nl_crypto (xl_node X)) pk sk"
    and "store_ok (nonces (mn_node s))"
    and "nonce_seen_at (nonces (mn_node s)) p (''handshake_resp_'' @ to_decimal (unat (nv_random EB 0))) = None"
  shows "is_confirmed p (handshake_response X E p (signed_handshake_response X EB q) s)"
proof -
  let ?L = "nl_crypto (xl_node X)"
  let ?resp = "xl_handshake X (build_handshake (nv_random EB 1) (nv_millis EB) ''beemesh/1.0'' q)"
  let ?nonce = "''handshake_resp_'' @ to_decimal (unat (nv_random EB 0))"
  have laws: "crypto_laws ?L" "\<And>h. xl_root_as_handshake X (xl_handshake X h) = Some h"
    using assms(1) by (simp_all add: handshake_laws_def)
  obtain sig pub where signed: "sign_envelope ?L sk pk
      (build_envelope_canonical ?L ?resp ''handshake'' ?nonce (nv_millis EB) ''ml-dsa-65'' None) = Inr (sig, pub)"
    using sign_envelope_keypair [OF laws(1) assms(3)] by blast
  have "signed_handshake_response X EB q = build_envelope_signed ?L ?resp ''handshake'' ?nonce
      (nv_millis EB) ''ml-dsa-65'' ''ml-dsa-65'' sig pub None"
    using signed by (simp add: signed_handshake_response_def sign_with_node_keys_def assms(2) Let_def
        sign_with_existing_keypair_def sign_internal_def default_sign_config_def)
  moreover obtain st v where "verify_signed_message ?L (nv_clock E 0) p (build_envelope_signed ?L ?resp ''handshake''
      ?nonce (nv_millis EB) ''ml-dsa-65'' ''ml-dsa-65'' sig pub None) (nonces (mn_node s)) = (st, Some v)"
    "ve_payload v = ?resp"
    using signed_message_accepted [OF laws(1) assms(3,4,5) signed, of "nv_clock E 0"] by blast
  ultimately show ?thesis
    by (simp add: handshake_response_def laws(2) is_confirmed_confirm)
qed

section \<open>Properties\<close>

text \<open>
  (C18) A handshake between two nodes with keypairs completes: the request that the timer of node
  A makes is accepted by node B, which then counts A as confirmed and answers with a signed
  message; A accepts that answer and counts B as confirmed. The only condition on the state of the
  nodes is that neither has seen the other's nonce before.
\<close>

theorem handshake_completes:
  assumes "handshake_laws X"
    and "nv_keypair EA = Inr (pkA, skA)" "dsa_keypair (nl_crypto (xl_node X)) pkA skA"
    and "nv_keypair EB = Inr (pkB, skB)" "dsa_keypair (nl_crypto (xl_node X)) pkB skB"
    and "store_ok (nonces (mn_node sA))" "store_ok (nonces (mn_node sB))"
    and "nonce_seen_at (nonces (mn_node sB)) pA (''handshake_req_'' @ to_decimal (unat (nv_random EA 0))) = None"
    and "nonce_seen_at (nonces (mn_node sA)) pB (''handshake_resp_'' @ to_decimal (unat (nv_random EB 0))) = None"
  shows "\<exists>b sB' resp. handshake_request_bytes X EA = Some b
    \<and> handshake_request X EB pA b sB = (sB', resp) \<and> is_confirmed pA sB'
    \<and> is_confirmed pB (handshake_response X EA' pB resp sA)"
  using handshake_request_confirms [OF assms(1-3,7,8)] handshake_response_confirms [OF assms(1,4,5,6,9)]
  by metis

end
