(* ===== verification/Event_Loop.thy ===== *)
theory Event_Loop
  imports Handshake
begin

text \<open>
  The event loop of the network task, \<open>start_libp2p_node\<close> in \<open>libp2p_beemesh/mod.rs\<close>: one iteration
  of the \<open>select!\<close> for each event, composed of the handlers of the other theories. Beside the loop
  run the tasks that delete requests spawn, and the requests of the REST API, whose envelopes are
  checked against the same store of nonces, with its local deletions.

  The handler of an apply request waits twice: after the owner is recorded, and after the engine has
  deployed. The loop handles no other event meanwhile, but the tasks and the REST API go on. In a run
  of the node such a request is therefore either one iteration or three steps, between which
  others may come; a request of the node to itself is one step. A panic ends the loop.

  Most branches leave most of the node alone; the frame lemmas at the end say so, and the theory
  \<open>Node_Runs\<close> builds the properties of whole runs on them.
\<close>

section \<open>The loop\<close>

datatype loop_event =
    ControlReceived libp2p_control
  | ControlClosed
  | HandshakeMessage peer_id rr_message
  | ApplyMessage peer_id rr_message
  | DeleteMessage peer_id rr_message
  | GossipMessage peer_id bytes
  | KademliaEvent kad_event
  | SchedulerMessage peer_id rr_message
  | ManifestFetchFailure nat string
  | ConnectionEstablished peer_id string
  | ConnectionClosed peer_id nat
  | LoggedEvent
  | HandshakeTick
  | RenewTick
  | CleanupTick

definition on_apply_message ::
  "mesh_lib \<Rightarrow> 'e engine_ops \<Rightarrow> net_env \<Rightarrow> peer_id \<Rightarrow> rr_message \<Rightarrow> 'e mesh_node \<Rightarrow> 'e mesh_node" where
  "on_apply_message X V E peer message s =
     (case message of
        Request request \<Rightarrow>
          (case handle_apply_request (nl_crypto (xl_node X)) (nl_apply_request (xl_node X))
                  (nl_manifest (xl_node X)) V (apply_env_of E) (nv_clock E 0) (nv_clock E 1) peer request (mn_node s) of
             (n, Some resp) \<Rightarrow> call (RespondApply peer resp) (s \<lparr> mn_node := n \<rparr>)
           | (n, None) \<Rightarrow> s \<lparr> mn_node := n, mn_running := False \<rparr>)
      | Response _ \<Rightarrow> s)"

text \<open>The same request in steps, up to the next point at which the handler waits.\<close>

definition begin_apply ::
  "mesh_lib \<Rightarrow> net_env \<Rightarrow> peer_id \<Rightarrow> bytes \<Rightarrow> 'e mesh_node \<Rightarrow> 'e mesh_node" where
  "begin_apply X E peer request s =
     (case admit_apply_request (nl_crypto (xl_node X)) (nl_apply_request (xl_node X)) (nv_clock E 0) (nv_clock E 1)
             peer request (mn_node s) of
        (n, Inl resp) \<Rightarrow> call (RespondApply peer resp) (s \<lparr> mn_node := n \<rparr>)
      | (n, Inr (req, manifest_json, owner_pubkey)) \<Rightarrow>
          (case prepare_deployment (nl_manifest (xl_node X)) req manifest_json owner_pubkey n of
             (n, None) \<Rightarrow> s \<lparr> mn_node := n, mn_running := False \<rparr>
           | (n, Some (Inl e)) \<Rightarrow> call (RespondApply peer (deployment_answer (Inl e))) (s \<lparr> mn_node := n \<rparr>)
           | (n, Some (Inr content)) \<Rightarrow> s \<lparr> mn_node := n, mn_applying := Some (EnginePending peer req content) \<rparr>))"

definition continue_apply ::
  "mesh_lib \<Rightarrow> 'e engine_ops \<Rightarrow> net_env \<Rightarrow> apply_stage \<Rightarrow> 'e mesh_node \<Rightarrow> 'e mesh_node" where
  "continue_apply X V E stage s =
     (case stage of
        EnginePending peer req content \<Rightarrow>
          (case run_on_engine (nl_manifest (xl_node X)) V (apply_env_of E) req content (mn_node s) of
             (n, Inl e) \<Rightarrow>
               call (RespondApply peer (deployment_answer (Inl e))) (s \<lparr> mn_node := n, mn_applying := None \<rparr>)
           | (n, Inr (engine_name, info)) \<Rightarrow>
               s \<lparr> mn_node := n, mn_applying := Some (AnnouncePending peer req engine_name info) \<rparr>)
      | AnnouncePending peer req engine_name info \<Rightarrow>
          call (RespondApply peer (deployment_answer (Inr (wi_id info))))
            (s \<lparr> mn_node := announce_deployment (apply_env_of E) req engine_name info (mn_node s), mn_applying := None \<rparr>))"

definition on_delete_message ::
  "mesh_lib \<Rightarrow> net_env \<Rightarrow> peer_id \<Rightarrow> rr_message \<Rightarrow> 'e mesh_node \<Rightarrow> 'e mesh_node" where
  "on_delete_message X E peer message s =
     (case message of
        Request request \<Rightarrow>
          (case delete_message (nl_crypto (xl_node X)) (nl_delete_request (xl_node X)) (nv_clock E 0) peer request
                  (mn_node s) of
             (n, resp, task) \<Rightarrow>
               call (RespondDelete peer resp)
                 (s \<lparr> mn_node := n,
                      mn_spawned := mn_spawned s @ (case task of None \<Rightarrow> [] | Some t \<Rightarrow> [t]) \<rparr>))
      | Response _ \<Rightarrow> s)"

text \<open>The reply to a gossiped request is signed and published; without a signature nothing is sent.\<close>

definition on_gossip_message :: "mesh_lib \<Rightarrow> net_env \<Rightarrow> peer_id \<Rightarrow> bytes \<Rightarrow> 'e mesh_node \<Rightarrow> 'e mesh_node" where
  "on_gossip_message X E peer message s =
     (case gossipsub_message (nl_crypto (xl_node X)) (xl_root_as_capacity_request X) (xl_root_as_capacity_reply X)
             (capacity_env_of E s) peer message (capacity_view s) of
        (c, None) \<Rightarrow> put_capacity c s
      | (c, Some capacity_reply) \<Rightarrow>
          (case sign_payload_default (nl_crypto (xl_node X)) E (xl_capacity_reply X capacity_reply)
                  ''capacity_reply'' (Some ''capreply'') of
             Inr b \<Rightarrow> call (Publish b) (put_capacity c s)
           | Inl _ \<Rightarrow> put_capacity c s))"

definition on_scheduler_message ::
  "mesh_lib \<Rightarrow> net_env \<Rightarrow> peer_id \<Rightarrow> rr_message \<Rightarrow> 'e mesh_node \<Rightarrow> 'e mesh_node" where
  "on_scheduler_message X E peer message s =
     (case message of
        Request request \<Rightarrow>
          (case scheduler_request (nl_crypto (xl_node X)) (xl_root_as_capacity_request X) (capacity_env_of E s) peer
                  request (capacity_view s) of
             (c, None) \<Rightarrow> put_capacity c s
           | (c, Some capacity_reply) \<Rightarrow> call (RespondCapacity peer capacity_reply) (put_capacity c s))
      | Response response \<Rightarrow>
          put_capacity (scheduler_response (xl_root_as_capacity_reply X) peer response (capacity_view s)) s)"

definition on_connection_established :: "net_env \<Rightarrow> peer_id \<Rightarrow> string \<Rightarrow> 'e mesh_node \<Rightarrow> 'e mesh_node" where
  "on_connection_established E peer addr s =
     (let s = call (AddAddress peer addr) s in
      if 2 \<le> length (nv_connected E) then call Bootstrap s else s)"

definition on_connection_closed :: "peer_id \<Rightarrow> nat \<Rightarrow> 'e mesh_node \<Rightarrow> 'e mesh_node" where
  "on_connection_closed peer num_established s =
     (if num_established = 0 then call (RemovePeer peer) s else s)"

text \<open>
  One iteration. \<open>E\<close> is what the iteration sees; where a branch handles several items (the queued
  control messages, the entries of the handshake table), the \<open>k\<close>-th sees \<open>Es k\<close>.
\<close>

fun handle_event ::
  "mesh_lib \<Rightarrow> 'e engine_ops \<Rightarrow> (nat \<Rightarrow> net_env) \<Rightarrow> net_env \<Rightarrow> loop_event \<Rightarrow> 'e mesh_node \<Rightarrow> 'e mesh_node" where
  "handle_event X V Es E (ControlReceived msg) s = handle_control_message X V E msg s"
| "handle_event X V Es E ControlClosed s = (withdraw_all_providers E s) \<lparr> mn_running := False \<rparr>"
| "handle_event X V Es E (HandshakeMessage peer message) s = handshake_message_event X E peer message s"
| "handle_event X V Es E (ApplyMessage peer message) s = on_apply_message X V E peer message s"
| "handle_event X V Es E (DeleteMessage peer message) s = on_delete_message X E peer message s"
| "handle_event X V Es E (GossipMessage peer message) s = on_gossip_message X E peer message s"
| "handle_event X V Es E (KademliaEvent ev) s = kademlia_event X ev s"
| "handle_event X V Es E (SchedulerMessage peer message) s = on_scheduler_message X E peer message s"
| "handle_event X V Es E (ManifestFetchFailure request_id error) s = manifest_fetch_outbound_failure request_id error s"
| "handle_event X V Es E (ConnectionEstablished peer addr) s = on_connection_established E peer addr s"
| "handle_event X V Es E (ConnectionClosed peer num_established) s = on_connection_closed peer num_established s"
| "handle_event X V Es E LoggedEvent s = s"
| "handle_event X V Es E HandshakeTick s = handshake_tick X Es E s"
| "handle_event X V Es E RenewTick s =
     (let s = drain_enqueued_controls X V Es s in if mn_running s then renew_due_providers E s else s)"
| "handle_event X V Es E CleanupTick s = cleanup_timed_out_manifest_requests (nv_clock E 0) s"

section \<open>The whole node\<close>

datatype mesh_event =
    LoopEvent net_env loop_event
  | ApplyBegun net_env peer_id bytes
  | ApplyContinued net_env
  | TaskChecked delete_task
  | TaskRemoved delete_task
  | RestDelete string
  | RestRequest instant peer_id bytes
  | ControlEnqueued libp2p_control

inductive mesh_step :: "mesh_lib \<Rightarrow> mesh_event \<Rightarrow> 'e mesh_node \<Rightarrow> 'e mesh_node \<Rightarrow> bool" for X where
  step_loop:
    "mn_running s \<Longrightarrow> mn_applying s = None \<Longrightarrow> mesh_step X (LoopEvent E ev) s (handle_event X V Es E ev s)"
| step_apply_begun:
    "mn_running s \<Longrightarrow> mn_applying s = None \<Longrightarrow>
       mesh_step X (ApplyBegun E peer request) s (begin_apply X E peer request s)"
| step_apply_continued:
    "mn_applying s = Some stage \<Longrightarrow> mesh_step X (ApplyContinued E) s (continue_apply X V E stage s)"
| step_task_checked:
    "t \<in> set (mn_spawned s) \<Longrightarrow>
       mesh_step X (TaskChecked t) s
         (s \<lparr> mn_spawned := remove1 t (mn_spawned s),
              mn_authorised := (if delete_allowed t (mn_node s) then [t] else []) @ mn_authorised s \<rparr>)"
| step_task_removed:
    "t \<in> set (mn_authorised s) \<Longrightarrow>
       mesh_step X (TaskRemoved t) s
         (s \<lparr> mn_node := fst (remove_and_report V (fst t) (mn_node s)),
              mn_authorised := remove1 t (mn_authorised s) \<rparr>)"
| step_rest_delete:
    "mesh_step X (RestDelete m) s (s \<lparr> mn_node := fst (handle_local_delete V m force (mn_node s)) \<rparr>)"
| step_rest_request:
    "mesh_step X (RestRequest now peer b) s
       (put_nonces (fst (verify_flatbuffer_envelope_for_peer (nl_crypto (xl_node X)) now NONCE_WINDOW peer b
                           (nonces (mn_node s)))) s)"
| step_enqueued: "mesh_step X (ControlEnqueued msg) s (enqueue_control msg s)"

inductive mesh_run :: "mesh_lib \<Rightarrow> 'e mesh_node \<Rightarrow> mesh_event list \<Rightarrow> 'e mesh_node \<Rightarrow> bool" for X s0 where
  mesh_start: "mesh_run X s0 [] s0"
| mesh_next: "mesh_run X s0 evs s \<Longrightarrow> mesh_step X ev s s' \<Longrightarrow> mesh_run X s0 (evs @ [ev]) s'"

inductive_cases mesh_step_loopE: "mesh_step X (LoopEvent E ev) s s'"

section \<open>Frames\<close>

text \<open>
  The core of the node: its globals, the delete tasks, the handshake table and the handshake
  requests that were sent. Most branches of the loop leave all of it alone.
\<close>

definition handshake_calls :: "'e mesh_node \<Rightarrow> swarm_call list" where
  "handshake_calls s = filter (\<lambda>c. handshake_target c \<noteq> None) (mn_calls s)"

definition tasks_view :: "'e mesh_node \<Rightarrow> delete_task list \<times> delete_task list" where
  "tasks_view s = (mn_spawned s, mn_authorised s)"

definition handshake_view :: "'e mesh_node \<Rightarrow> (peer_id, handshake_state) hmap \<times> swarm_call list" where
  "handshake_view s = (mn_handshakes s, handshake_calls s)"

definition core :: "'e mesh_node \<Rightarrow> 'e node \<times> (delete_task list \<times> delete_task list)
    \<times> (peer_id, handshake_state) hmap \<times> swarm_call list" where
  "core s = (mn_node s, tasks_view s, handshake_view s)"

lemmas view_defs = core_def tasks_view_def handshake_view_def handshake_calls_def

lemma core_updates [simp]:
  "core (s \<lparr> mn_announces := a \<rparr>) = core s" "core (s \<lparr> mn_provider_queries := q \<rparr>) = core s"
  "core (s \<lparr> mn_manifest_requests := r \<rparr>) = core s" "core (s \<lparr> mn_replies := rs \<rparr>) = core s"
  "core (s \<lparr> mn_enqueued := e \<rparr>) = core s" "core (s \<lparr> mn_running := x \<rparr>) = core s"
  "core (s \<lparr> mn_applying := ap \<rparr>) = core s"
  "core (s \<lparr> mn_peers := ps \<rparr>) = core s" "core (reply tx rep s) = core s"
  "handshake_target c = None \<Longrightarrow> core (call c s) = core s"
  by (simp_all add: view_defs frame)

lemma core_announce_direct [simp]: "core (fst (announce_provider_direct E k cid ttl s)) = core s"
  by (rule announce_direct_cases [of E k cid ttl s]) simp_all

lemma core_attempts [simp]: "core (fst (announce_attempts E cid ttl ks s)) = core s"
proof (induction ks arbitrary: s)
  case (Cons k ks)
  show ?case
    by (rule announce_direct_cases [of E k cid ttl s]) (simp_all add: Cons.IH split: sum.split)
qed simp

lemma core_renew [simp]: "core (fst (renew_entries E k es s)) = core s"
  by (induction es arbitrary: k s) (auto simp: case_prod_beta)

lemma core_withdraw [simp]: "core (withdraw_keys E k cids s) = core s"
  by (induction cids arbitrary: k s) simp_all

lemma core_send_signed [simp]: "core (fst (send_signed_to L E payload ptype pk sk k peers s)) = core s"
  by (induction peers arbitrary: k s) (auto simp: case_prod_beta Let_def split: sum.split)

lemma core_broadcast [simp]: "core (fst (broadcast_signed_request_to_peers L E payload ptype s)) = core s"
  by (auto simp: broadcast_signed_request_to_peers_def case_prod_beta split: sum.split)

lemma core_handle_announce [simp]: "core (handle_announce_provider E cid ttl tx s) = core s"
proof (cases "announce_attempts E cid ttl [0, 1, 2] s")
  case (Pair s' ok)
  then have "core s' = core s" using core_attempts by (metis fst_conv)
  then show ?thesis unfolding handle_announce_provider_def Pair by (cases ok) (simp_all add: Let_def)
qed

lemma core_handle_withdraw [simp]: "core (handle_withdraw_provider E cid tx s) = core s"
  by (rule announce_direct_cases [of E 0 cid 0 "s \<lparr> mn_announces := hm_remove cid (mn_announces s) \<rparr>"])
    (simp_all add: handle_withdraw_provider_def split: sum.split)

lemma core_quiet [simp]:
  "core (renew_due_providers E s) = core s" "core (withdraw_all_providers E s) = core s"
  "core (cleanup_timed_out_manifest_requests now s) = core s"
  "core (manifest_fetch_outbound_failure i err s) = core s"
  "core (handle_find_manifest_holders X E m tx s) = core s"
  "core (kademlia_event X ev s) = core s"
  "core (on_connection_established E p addr s) = core s" "core (on_connection_closed p n s) = core s"
  "core (handle_send_delete_request p d tx s) = core s" "core (enqueue_control msg s) = core s"
  by (simp_all add: renew_due_providers_def withdraw_all_providers_def cleanup_timed_out_manifest_requests_def
      manifest_fetch_outbound_failure_def handle_find_manifest_holders_def insert_pending_providers_query_def
      kademlia_event_def query_progressed_def take_pending_providers_query_def on_connection_established_def
      on_connection_closed_def handle_send_delete_request_def enqueue_control_def Let_def case_prod_beta
      split: option.split kad_event.split query_result.split)

text \<open>The branches that work on the node's globals leave the handshakes alone.\<close>

lemma handshake_view_core: "core s' = core s \<Longrightarrow> handshake_view s' = handshake_view s"
  by (simp add: core_def)

lemma tasks_view_core: "core s' = core s \<Longrightarrow> tasks_view s' = tasks_view s"
  by (simp add: core_def)

lemma node_core: "core s' = core s \<Longrightarrow> mn_node s' = mn_node s"
  by (simp add: core_def)

lemma views_put_capacity [simp]:
  "handshake_view (put_capacity c s) = handshake_view s" "tasks_view (put_capacity c s) = tasks_view s"
  by (simp_all add: view_defs frame)

lemma views_update_node [simp]:
  "handshake_view (s \<lparr> mn_node := n \<rparr>) = handshake_view s" "tasks_view (s \<lparr> mn_node := n \<rparr>) = tasks_view s"
  "handshake_view (s \<lparr> mn_running := x \<rparr>) = handshake_view s" "tasks_view (s \<lparr> mn_running := x \<rparr>) = tasks_view s"
  "handshake_view (s \<lparr> mn_applying := ap \<rparr>) = handshake_view s" "tasks_view (s \<lparr> mn_applying := ap \<rparr>) = tasks_view s"
  "handshake_view (s \<lparr> mn_enqueued := ms \<rparr>) = handshake_view s" "tasks_view (s \<lparr> mn_enqueued := ms \<rparr>) = tasks_view s"
  "handshake_view (s \<lparr> mn_spawned := ts \<rparr>) = handshake_view s"
  "handshake_view (s \<lparr> mn_authorised := ts \<rparr>) = handshake_view s"
  "handshake_view (put_nonces st s) = handshake_view s" "tasks_view (put_nonces st s) = tasks_view s"
  by (simp_all add: view_defs put_nonces_def)

lemma views_call [simp]:
  "handshake_target c = None \<Longrightarrow> handshake_view (call c s) = handshake_view s"
  "tasks_view (call c s) = tasks_view s" "handshake_view (reply tx r s) = handshake_view s"
  "tasks_view (reply tx r s) = tasks_view s"
  by (simp_all add: view_defs frame)

lemma views_query_capacity:
  "handshake_view (handle_query_capacity_with_payload X E i tx payload s) = handshake_view s"
  "tasks_view (handle_query_capacity_with_payload X E i tx payload s) = tasks_view s"
  by (auto simp: handle_query_capacity_with_payload_def Let_def
      handshake_view_core [OF core_broadcast] tasks_view_core [OF core_broadcast] split: prod.split option.split)

lemma views_send_apply:
  "handshake_view (handle_send_apply_request X V E p m tx s) = handshake_view s"
  "tasks_view (handle_send_apply_request X V E p m tx s) = tasks_view s"
  by (simp_all add: handle_send_apply_request_def Let_def split: prod.split option.split)

lemma views_control:
  "handshake_view (handle_control_message X V E msg s) = handshake_view s"
  "tasks_view (handle_control_message X V E msg s) = tasks_view s"
  by (cases msg; auto simp: views_query_capacity views_send_apply intro: handshake_view_core)
    (cases msg; auto simp: views_query_capacity views_send_apply intro: tasks_view_core)

lemma views_drain:
  "handshake_view (drain_enqueued_controls X V Es s) = handshake_view s"
  "tasks_view (drain_enqueued_controls X V Es s) = tasks_view s"
  by (rule drain_invariant; simp add: views_control)+

lemma views_peers:
  "handshake_view (on_apply_message X V E p msg s) = handshake_view s"
  "handshake_view (on_delete_message X E p msg s) = handshake_view s"
  "handshake_view (on_gossip_message X E p b s) = handshake_view s"
  "handshake_view (on_scheduler_message X E p msg s) = handshake_view s"
  "tasks_view (on_apply_message X V E p msg s) = tasks_view s"
  "tasks_view (on_gossip_message X E p b s) = tasks_view s"
  "tasks_view (on_scheduler_message X E p msg s) = tasks_view s"
  by (simp_all add: on_apply_message_def on_delete_message_def on_gossip_message_def on_scheduler_message_def
      split: rr_message.split prod.split option.split sum.split)

lemma views_apply_steps:
  "handshake_view (begin_apply X E p b s) = handshake_view s" "tasks_view (begin_apply X E p b s) = tasks_view s"
  "handshake_view (continue_apply X V E stage s) = handshake_view s"
  "tasks_view (continue_apply X V E stage s) = tasks_view s"
  by (simp_all add: begin_apply_def continue_apply_def split: prod.split option.split sum.split apply_stage.split)

text \<open>If nothing comes between the steps of a request, they do what the iteration does.\<close>

lemma apply_uninterrupted:
  assumes "mn_running s" "mn_applying s = None"
  shows "\<exists>k. mesh_run X s (ApplyBegun E p b # replicate k (ApplyContinued E))
     (handle_event X V Es E (ApplyMessage p (Request b)) s)"
proof -
  let ?b = "begin_apply X E p b s" and ?e = "handle_event X V Es E (ApplyMessage p (Request b)) s"
  have "mesh_run X s ([] @ [ApplyBegun E p b]) ?b" using assms by (intro mesh_next [OF mesh_start] step_apply_begun)
  then have begun: "mesh_run X s [ApplyBegun E p b] ?b" by simp
  have go: "mesh_run X s (evs @ [ApplyContinued E]) (continue_apply X V E stage t)"
    if "mesh_run X s evs t" "mn_applying t = Some stage" for evs t stage
    by (rule mesh_next [OF that(1) step_apply_continued [OF that(2)]])
  have idle: "s \<lparr> mn_node := n, mn_applying := None \<rparr> = s \<lparr> mn_node := n \<rparr>" for n
    using assms(2) by (cases s) simp
  note defs = begin_apply_def continue_apply_def on_apply_message_def handle_apply_request_def
    process_manifest_deployment_def frame idle
  obtain n r where adm: "admit_apply_request (nl_crypto (xl_node X)) (nl_apply_request (xl_node X)) (nv_clock E 0)
      (nv_clock E 1) p b (mn_node s) = (n, r)" by fastforce
  show ?thesis
  proof (cases "\<exists>req mj owner n1 content. r = Inr (req, mj, owner)
      \<and> prepare_deployment (nl_manifest (xl_node X)) req mj owner n = (n1, Some (Inr content))")
    case False
    then have e: "?e = ?b"
      using adm by (cases r) (auto simp: defs split: prod.split option.split sum.split)
    show ?thesis by (rule exI [of _ 0], subst e) (use begun in simp)
  next
    case True
    then obtain req mj owner n1 content where r: "r = Inr (req, mj, owner)"
        "prepare_deployment (nl_manifest (xl_node X)) req mj owner n = (n1, Some (Inr content))" by blast
    have b: "?b = s \<lparr> mn_node := n1, mn_applying := Some (EnginePending p req content) \<rparr>"
      using adm r by (simp add: begin_apply_def)
    then have two: "mesh_run X s ([ApplyBegun E p b] @ [ApplyContinued E]) (continue_apply X V E (EnginePending p req content) ?b)"
      by (intro go [OF begun]) simp
    obtain n2 out where out: "run_on_engine (nl_manifest (xl_node X)) V (apply_env_of E) req content n1 = (n2, out)" by fastforce
    show ?thesis
    proof (cases out)
      case (Inl err)
      then have e: "?e = continue_apply X V E (EnginePending p req content) ?b"
        using adm r b out by (simp add: defs)
      show ?thesis by (rule exI [of _ "Suc 0"], subst e) (use two in simp)
    next
      case (Inr named)
      then obtain name info where named: "out = Inr (name, info)" by (cases named) simp
      let ?c = "continue_apply X V E (EnginePending p req content) ?b"
      have c: "?c = s \<lparr> mn_node := n2, mn_applying := Some (AnnouncePending p req name info) \<rparr>"
        using b out named by (simp add: continue_apply_def)
      then have e: "?e = continue_apply X V E (AnnouncePending p req name info) ?c"
        using adm r b out named by (simp add: defs)
      have "mesh_run X s (([ApplyBegun E p b] @ [ApplyContinued E]) @ [ApplyContinued E])
          (continue_apply X V E (AnnouncePending p req name info) ?c)" using c by (intro go [OF two]) simp
      then show ?thesis by (intro exI [of _ "Suc (Suc 0)"], subst e) simp
    qed
  qed
qed

end
