(* ===== verification/Node_Runs.thy ===== *)
theory Node_Runs
  imports Event_Loop
begin

text \<open>
  Runs of the whole node: any interleaving of the event loop, of the tasks it spawns and of the
  REST API. What the components guarantee one by one holds for such a run: only signed handshakes
  confirm a peer, the ledger of reservations is never overdrawn, no envelope is accepted twice
  whatever protocol it comes through, and owner records disappear only through authorised deletions.
\<close>

section \<open>Handshakes\<close>

fun message_bytes :: "rr_message \<Rightarrow> bytes" where
  "message_bytes (Request b) = b"
| "message_bytes (Response b) = b"

text \<open>The bytes are an envelope with a valid signature around a handshake message.\<close>

definition signed_handshake :: "mesh_lib \<Rightarrow> bytes \<Rightarrow> bool" where
  "signed_handshake X b \<longleftrightarrow> (\<exists>e key sig. fb_root_as_envelope (nl_crypto (xl_node X)) b = Some e
     \<and> dsa_verify (nl_crypto (xl_node X)) key (rebuilt_canonical (nl_crypto (xl_node X)) e) sig = Some True
     \<and> xl_root_as_handshake X (or_empty (fe_payload e)) \<noteq> None)"

lemma signed_handshakeI:
  assumes "verify_signed_message (nl_crypto (xl_node X)) now p b st = (st', Some v)"
    and "xl_root_as_handshake X (ve_payload v) = Some h"
  shows "signed_handshake X b"
  using verify_signed_message_SomeD [OF assms(1)] assms(2) unfolding signed_handshake_def by force

lemma handshake_message_cases:
  obtains (unchanged) "handshake_view (handshake_message_event X E p msg s) = handshake_view s"
  | (confirmed) t where "signed_handshake X (message_bytes msg)"
      "handshake_view (handshake_message_event X E p msg s) = handshake_view (confirm t p s)"
proof (cases "verify_signed_message (nl_crypto (xl_node X)) (nv_clock E 0) p (message_bytes msg) (nonces (mn_node s))")
  case (Pair st verdict)
  have shift: "handshake_view (confirm t p (put_nonces st s)) = handshake_view (confirm t p s)" for t
    by (simp add: view_defs confirm_def put_nonces_def)
  note run = handshake_message_event_def handshake_request_def handshake_response_def Let_def shift
  show thesis
  proof (cases "\<exists>v h. verdict = Some v \<and> xl_root_as_handshake X (ve_payload v) = Some h")
    case True
    then obtain v h where v: "verdict = Some v" "xl_root_as_handshake X (ve_payload v) = Some h" by blast
    then have "signed_handshake X (message_bytes msg)" using Pair signed_handshakeI by blast
    then show thesis by (rule confirmed) (use Pair v in \<open>cases msg; simp add: run\<close>)
  next
    case False
    then show thesis
      using Pair by (intro unchanged) (cases msg; auto simp: run split: option.split)
  qed
qed

lemma all_confirmed_view: "handshake_view s' = handshake_view s \<Longrightarrow> all_confirmed s' = all_confirmed s"
  by (simp add: view_defs all_confirmed_def)

lemma is_confirmed_view: "handshake_view s' = handshake_view s \<Longrightarrow> is_confirmed p s' = is_confirmed p s"
  by (simp add: view_defs is_confirmed_def)

text \<open>
  One step, from a state in which every entry is confirmed: the table stays so, no handshake
  request is sent, and a newly confirmed peer has sent a signed handshake.
\<close>

lemma handshake_calls_confirm [simp]: "handshake_calls (confirm t p s) = handshake_calls s"
  by (simp add: handshake_calls_def)

lemma handle_event_handshakes:
  assumes "all_confirmed s"
  shows "handshake_view (handle_event X V Es E ev s) = handshake_view s
    \<or> (\<exists>p msg t. ev = HandshakeMessage p msg \<and> signed_handshake X (message_bytes msg)
         \<and> handshake_view (handle_event X V Es E ev s) = handshake_view (confirm t p s))"
proof (cases ev)
  case (HandshakeMessage p msg)
  show ?thesis
    by (rule handshake_message_cases [of X E p msg s]) (auto simp: HandshakeMessage)
next
  case HandshakeTick
  then show ?thesis by (simp add: handshake_tick_confirmed [OF assms] view_defs)
next
  case RenewTick
  then show ?thesis by (simp add: handshake_view_core [OF core_quiet(1)] views_drain Let_def)
next
  case ControlClosed
  have "core ((withdraw_all_providers E s) \<lparr> mn_running := False \<rparr>) = core s" by simp
  from handshake_view_core [OF this] show ?thesis unfolding ControlClosed by simp
qed (auto simp: views_control views_peers intro: handshake_view_core)

lemma mesh_step_handshakes:
  assumes "mesh_step X ev s s'" "all_confirmed s"
  shows "handshake_view s' = handshake_view s
    \<or> (\<exists>E p msg t. ev = LoopEvent E (HandshakeMessage p msg) \<and> signed_handshake X (message_bytes msg)
         \<and> handshake_view s' = handshake_view (confirm t p s))"
  using assms(1)
proof cases
  case (step_loop E lev V Es)
  then show ?thesis using handle_event_handshakes [OF assms(2), of X V Es E lev] by blast
qed (simp_all add: handshake_view_core [OF core_quiet(10)] views_apply_steps)

lemma run_handshakes:
  assumes "mesh_run X s0 evs s" "mn_handshakes s0 = hm_empty"
  shows "all_confirmed s \<and> handshake_calls s = handshake_calls s0
    \<and> (\<forall>p. is_confirmed p s \<longrightarrow>
         (\<exists>E msg. LoopEvent E (HandshakeMessage p msg) \<in> set evs \<and> signed_handshake X (message_bytes msg)))"
  using assms
proof (induction)
  case mesh_start
  then show ?case by (simp add: all_confirmed_def is_confirmed_def hm_empty_def hm_get_def)
next
  case (mesh_next evs s ev s')
  then have IH: "all_confirmed s" "handshake_calls s = handshake_calls s0"
    "\<And>p. is_confirmed p s \<Longrightarrow>
       \<exists>E msg. LoopEvent E (HandshakeMessage p msg) \<in> set evs \<and> signed_handshake X (message_bytes msg)"
    by simp_all
  from mesh_step_handshakes [OF mesh_next.hyps(2) IH(1)] show ?case
  proof
    assume v: "handshake_view s' = handshake_view s"
    then show ?thesis using IH
      by (auto simp: all_confirmed_view [OF v] is_confirmed_view [OF v] handshake_view_def) blast
  next
    assume "\<exists>E p msg t. ev = LoopEvent E (HandshakeMessage p msg) \<and> signed_handshake X (message_bytes msg)
         \<and> handshake_view s' = handshake_view (confirm t p s)"
    then obtain E p msg t where ev: "ev = LoopEvent E (HandshakeMessage p msg)" "signed_handshake X (message_bytes msg)"
      and v: "handshake_view s' = handshake_view (confirm t p s)" by blast
    have "handshake_calls s' = handshake_calls s" using v by (simp add: handshake_view_def)
    then show ?thesis
      using IH ev all_confirmed_confirm [OF IH(1)]
      by (auto simp: all_confirmed_view [OF v] is_confirmed_view [OF v] is_confirmed_confirm) (metis Un_iff)+
  qed
qed

section \<open>The store of nonces\<close>

text \<open>The envelopes that an event has verified, with the reading of the clock.\<close>

fun checked :: "mesh_event \<Rightarrow> 'e mesh_node \<Rightarrow> (instant \<times> peer_id \<times> bytes) list" where
  "checked (LoopEvent E (HandshakeMessage p msg)) s = [(nv_clock E 0, p, message_bytes msg)]"
| "checked (LoopEvent E (ApplyMessage p (Request b))) s = [(nv_clock E 0, p, b)]"
| "checked (LoopEvent E (DeleteMessage p (Request b))) s = [(nv_clock E 0, p, b)]"
| "checked (LoopEvent E (GossipMessage p b)) s = [(nv_clock E 0, p, b)]"
| "checked (LoopEvent E (SchedulerMessage p (Request b))) s =
     (if is_scheduling_disabled_for (nv_local_peer E) s then [] else [(nv_clock E 0, p, b)])"
| "checked (ApplyBegun E p b) s = [(nv_clock E 0, p, b)]"
| "checked (RestRequest now p b) s = [(now, p, b)]"
| "checked _ s = []"

fun event_time :: "mesh_event \<Rightarrow> instant option" where
  "event_time (LoopEvent E ev) = Some (nv_clock E 0)"
| "event_time (ApplyBegun E p b) = Some (nv_clock E 0)"
| "event_time (RestRequest now p b) = Some now"
| "event_time _ = None"

lemma checked_time: "(now, p, b) \<in> set (checked ev s) \<Longrightarrow> event_time ev = Some now"
  by (induction ev s rule: checked.induct) (auto split: if_splits)

lemma fst_verify_signed_message:
  "fst (verify_signed_message L now p b st) = fst (verify_flatbuffer_envelope_for_peer L now NONCE_WINDOW p b st)"
  by (simp add: verify_signed_message_def verify_signed_payload_for_peer_def
      verify_envelope_and_check_nonce_for_peer_def split: prod.split sum.split)

lemma snd_verify_signed_message:
  "snd (verify_signed_message L now p b st) = Some v \<longleftrightarrow>
     snd (verify_flatbuffer_envelope_for_peer L now NONCE_WINDOW p b st) = Inr v"
  by (auto simp: verify_signed_message_def verify_signed_payload_for_peer_def
      verify_envelope_and_check_nonce_for_peer_def split: prod.split sum.split)

lemma nonces_admit:
  "nonces (fst (admit_apply_request C r now now' p b n)) =
     fst (verify_flatbuffer_envelope_for_peer C now NONCE_WINDOW p b (nonces n))"
proof (cases "verify_envelope_and_check_nonce_for_peer C now p b (nonces n)")
  case (Pair st verdict)
  then have "st = fst (verify_flatbuffer_envelope_for_peer C now NONCE_WINDOW p b (nonces n))"
    by (simp add: verify_envelope_and_check_nonce_for_peer_def)
  moreover have "nonces (fst (admit_apply_request C r now now' p b n)) = st"
    by (simp add: admit_apply_request_def Pair Let_def require_signed_messages_def case_prod_beta split: sum.split option.split)
  ultimately show ?thesis by simp
qed

lemma nonces_apply:
  "nonces (fst (handle_apply_request C r L V env now now' p b n)) =
     fst (verify_flatbuffer_envelope_for_peer C now NONCE_WINDOW p b (nonces n))"
  using nonces_admit [of C r now now' p b n]
  by (auto simp: handle_apply_request_def case_prod_beta split: prod.splits sum.splits)

text \<open>A signed apply request for a manifest with a reservation is admitted.\<close>

lemma admit_accepts:
  assumes "verify_envelope_and_check_nonce_for_peer C now p b (nonces n) = (st, Inr v)" "r (ve_payload v) = Some ar"
    and "ap_manifest_json ar = Some mj" "ap_manifest_id ar = Some m" "m \<noteq> []"
    and "snd (has_active_reservation_for_manifest now' m (resource_verifier_of n))"
  shows "admit_apply_request C r now now' p b n
    = (n \<lparr> nonces := st, resource_verifier_of := prune_expired_reservations now' (resource_verifier_of n) \<rparr>,
       Inr (ar, mj, ve_pubkey v))"
proof -
  have "has_active_reservation_for_manifest now' m (resource_verifier_of n)
      = (prune_expired_reservations now' (resource_verifier_of n), True)"
    using assms(6) by (metis has_active_state prod.collapse)
  then show ?thesis by (simp add: admit_apply_request_def Let_def assms(1-5))
qed

text \<open>The node's part of what the steps of an apply request leave.\<close>

lemma node_apply_message:
  "mn_node (on_apply_message X V E p (Request b) s) =
     fst (handle_apply_request (nl_crypto (xl_node X)) (nl_apply_request (xl_node X)) (nl_manifest (xl_node X)) V
            (apply_env_of E) (nv_clock E 0) (nv_clock E 1) p b (mn_node s))"
  "on_apply_message X V E p (Response r) s = s"
  by (simp_all add: on_apply_message_def frame case_prod_beta split: option.split)

lemma node_begin_apply:
  "mn_node (begin_apply X E p b s) =
     (case admit_apply_request (nl_crypto (xl_node X)) (nl_apply_request (xl_node X)) (nv_clock E 0) (nv_clock E 1)
             p b (mn_node s) of
        (n, Inl _) \<Rightarrow> n
      | (n, Inr (req, mj, owner)) \<Rightarrow> fst (prepare_deployment (nl_manifest (xl_node X)) req mj owner n))"
  by (simp add: begin_apply_def frame case_prod_beta split: sum.split option.split)

lemma node_continue_apply:
  "mn_node (continue_apply X V E stage s) =
     (case stage of
        EnginePending _ req content \<Rightarrow>
          fst (run_on_engine (nl_manifest (xl_node X)) V (apply_env_of E) req content (mn_node s))
      | AnnouncePending _ req name info \<Rightarrow> announce_deployment (apply_env_of E) req name info (mn_node s))"
  by (simp add: continue_apply_def frame case_prod_beta split: apply_stage.split sum.split)

lemma node_send_apply:
  "mn_node (handle_send_apply_request X V E p manifest tx s) =
     (if p = nv_local_peer E
      then fst (process_self_apply_request (nl_apply_request (xl_node X)) (nl_manifest (xl_node X)) V (apply_env_of E)
                  (case nv_keypair E of Inr (pk, _) \<Rightarrow> Some pk | Inl _ \<Rightarrow> None) manifest (mn_node s))
      else mn_node s)"
  by (simp add: handle_send_apply_request_def frame case_prod_beta Let_def split: option.split)

lemma nonces_begin:
  "nonces (mn_node (begin_apply X E p b s)) = fst (verify_flatbuffer_envelope_for_peer (nl_crypto (xl_node X)) (nv_clock E 0)
     NONCE_WINDOW p b (nonces (mn_node s)))"
  by (simp add: node_begin_apply nonces_admit case_prod_beta split: sum.split)

text \<open>The later steps of an apply request change the engines and the providers only.\<close>

lemma continue_frame:
  "nonces (mn_node (continue_apply X V E stage s)) = nonces (mn_node s)"
  "resource_verifier_of (mn_node (continue_apply X V E stage s)) = resource_verifier_of (mn_node s)"
  "manifest_owner_map (mn_node (continue_apply X V E stage s)) = manifest_owner_map (mn_node s)"
  by (simp_all add: node_continue_apply split: apply_stage.split)

lemma nonces_delete_message:
  "nonces (fst (delete_message C r now p b n)) = fst (verify_flatbuffer_envelope_for_peer C now NONCE_WINDOW p b (nonces n))"
  by (simp add: delete_message_def fst_verify_signed_message [symmetric] split: prod.split option.split)

lemma nonces_answer [simp]: "cn_nonces (fst (answer_capacity_request env ts q c)) = cn_nonces c"
  by (simp add: answer_capacity_request_def Let_def split: option.split prod.split)

lemma nonces_notify [simp]: "cn_nonces (notify_capacity_observers i payload c) = cn_nonces c"
  by (simp add: notify_capacity_observers_def split: option.split)

lemma nonces_gossip:
  "cn_nonces (fst (gossipsub_message L rq rp env p b c)) =
     fst (verify_flatbuffer_envelope_for_peer L (ce_now_nonce env) NONCE_WINDOW p b (cn_nonces c))"
  by (simp add: gossipsub_message_def fst_verify_signed_message [symmetric] split: prod.split option.split)

lemma nonces_scheduler_request:
  "cn_nonces (fst (scheduler_request L rq env p b c)) =
     (if ce_disabled env then cn_nonces c
      else fst (verify_flatbuffer_envelope_for_peer L (ce_now_nonce env) NONCE_WINDOW p b (cn_nonces c)))"
  by (simp add: scheduler_request_def fst_verify_signed_message [symmetric] split: prod.split option.split)

lemma nonces_query_capacity [simp]:
  "cn_nonces (fst (query_capacity rq env ok i tx payload c)) = cn_nonces c"
  by (simp add: query_capacity_def Let_def split: option.split)

lemma nonces_removal [simp]: "nonces (fst (remove_workloads_by_manifest_id V m n)) = nonces n"
  by (auto simp: remove_workloads_by_manifest_id_def remove_manifest_owner_def Let_def
      split: option.split prod.split)

lemma capacity_env_of_simps [simp]:
  "ce_now_nonce (capacity_env_of E s) = nv_clock E 0"
  "ce_disabled (capacity_env_of E s) = is_scheduling_disabled_for (nv_local_peer E) s"
  "ce_profile (capacity_env_of E s) = ce_profile (nv_capacity E)"
  by (simp_all add: capacity_env_of_def)

lemma capacity_view_simps [simp]:
  "cn_nonces (capacity_view s) = nonces (mn_node s)" "cn_verifier (capacity_view s) = resource_verifier_of (mn_node s)"
  by (simp_all add: capacity_view_def)

lemma nonces_control: "nonces (mn_node (handle_control_message X V E msg s)) = nonces (mn_node s)"
proof (cases msg)
  case (QueryCapacityWithPayload i tx payload)
  obtain c out where q: "query_capacity (xl_root_as_capacity_request X) (capacity_env_of E s)
      (case nv_keypair E of Inr _ \<Rightarrow> True | Inl _ \<Rightarrow> False) i tx payload (capacity_view s) = (c, out)"
    by fastforce
  then have "cn_nonces c = nonces (mn_node s)" by (metis fst_conv nonces_query_capacity capacity_view_simps(1))
  then show ?thesis
    unfolding QueryCapacityWithPayload
    by (simp add: handle_query_capacity_with_payload_def q node_core [OF core_broadcast] frame split: option.split)
next
  case (SendApplyRequest p manifest tx)
  then show ?thesis
    by (simp add: handle_send_apply_request_def Let_def frame process_self_apply_request_def case_prod_beta
        split: option.split)
qed (simp_all add: frame node_core [OF core_handle_announce] node_core [OF core_handle_withdraw]
      node_core [OF core_quiet(5)] node_core [OF core_quiet(9)])

lemma nonces_drain: "nonces (mn_node (drain_enqueued_controls X V Es s)) = nonces (mn_node s)"
  by (rule drain_invariant) (simp_all add: nonces_control)

lemma nonces_handshake:
  "nonces (mn_node (handshake_message_event X E p msg s)) =
     fst (verify_flatbuffer_envelope_for_peer (nl_crypto (xl_node X)) (nv_clock E 0) NONCE_WINDOW p
            (message_bytes msg) (nonces (mn_node s)))"
  by (cases msg) (simp_all add: handshake_message_event_def handshake_request_def handshake_response_def
      fst_verify_signed_message [symmetric] frame split: prod.split option.split)

text \<open>Every event runs its envelopes through the store, and nothing else changes it.\<close>

lemma verify_run_simps [simp]:
  "verify_run L w [] st = st"
  "verify_run L w ((now, p, b) # vs) st = verify_run L w vs (fst (verify_flatbuffer_envelope_for_peer L now w p b st))"
  by (simp_all add: verify_run_def)

lemma verify_run_append: "verify_run L w (vs @ vs') st = verify_run L w vs' (verify_run L w vs st)"
  by (simp add: verify_run_def)

lemma nonces_handle_event:
  "nonces (mn_node (handle_event X V Es E ev s)) =
     verify_run (nl_crypto (xl_node X)) NONCE_WINDOW (checked (LoopEvent E ev) s) (nonces (mn_node s))"
proof (cases ev)
  case (ControlReceived msg)
  then show ?thesis by (simp add: nonces_control)
next
  case ControlClosed
  then show ?thesis by (simp add: node_core [OF core_quiet(2)])
next
  case (HandshakeMessage p msg)
  then show ?thesis by (simp add: nonces_handshake)
next
  case (ApplyMessage p msg)
  then show ?thesis
    by (cases msg) (simp_all add: node_apply_message nonces_apply)
next
  case (DeleteMessage p msg)
  then show ?thesis by (cases msg) (simp_all add: on_delete_message_def nonces_delete_message frame case_prod_beta)
next
  case (GossipMessage p b)
  then show ?thesis
    by (simp add: on_gossip_message_def nonces_gossip frame case_prod_beta split: option.split sum.split)
next
  case (SchedulerMessage p msg)
  then show ?thesis
    by (cases msg) (simp_all add: on_scheduler_message_def nonces_scheduler_request frame case_prod_beta
        scheduler_response_def split: option.split)
next
  case HandshakeTick
  then show ?thesis by (simp add: handshake_tick_def split: prod.split)
next
  case RenewTick
  then show ?thesis by (simp add: node_core [OF core_quiet(1)] nonces_drain Let_def)
next
  case (KademliaEvent kev)
  then show ?thesis by (simp add: node_core [OF core_quiet(6)])
next
  case (ManifestFetchFailure i err)
  then show ?thesis by (simp add: node_core [OF core_quiet(4)])
next
  case (ConnectionEstablished p addr)
  then show ?thesis by (simp add: node_core [OF core_quiet(7)])
next
  case (ConnectionClosed p n)
  then show ?thesis by (simp add: node_core [OF core_quiet(8)])
next
  case CleanupTick
  then show ?thesis by (simp add: node_core [OF core_quiet(3)])
qed simp

lemma nonces_mesh_step:
  assumes "mesh_step X ev s s'"
  shows "nonces (mn_node s') =
    verify_run (nl_crypto (xl_node X)) NONCE_WINDOW (checked ev s) (nonces (mn_node s))"
  using assms
proof cases
  case (step_loop E lev V Es)
  then show ?thesis by (simp only: nonces_handle_event)
qed (simp_all add: nonces_begin continue_frame fst_remove_and_report fst_handle_local_delete node_core [OF core_quiet(10)])

lemma nonces_mesh_run:
  assumes "mesh_run X s0 evs s"
  shows "\<exists>vs. nonces (mn_node s) = verify_run (nl_crypto (xl_node X)) NONCE_WINDOW vs (nonces (mn_node s0))
    \<and> (\<forall>(now, p, b) \<in> set vs. Some now \<in> event_time ` set evs)"
  using assms
proof (induction)
  case mesh_start
  show ?case by (rule exI [of _ "[]"]) simp
next
  case (mesh_next evs s ev s')
  then obtain vs where vs: "nonces (mn_node s) = verify_run (nl_crypto (xl_node X)) NONCE_WINDOW vs (nonces (mn_node s0))"
    "\<forall>(now, p, b) \<in> set vs. Some now \<in> event_time ` set evs" by blast
  have "nonces (mn_node s') =
      verify_run (nl_crypto (xl_node X)) NONCE_WINDOW (vs @ checked ev s) (nonces (mn_node s0))"
    by (simp add: nonces_mesh_step [OF mesh_next.hyps(2)] vs(1) verify_run_append)
  moreover have "\<forall>(now, p, b) \<in> set (vs @ checked ev s). Some now \<in> event_time ` set (evs @ [ev])"
    using vs(2) checked_time [of _ _ _ ev s] by fastforce
  ultimately show ?case by blast
qed

section \<open>The ledger of reservations\<close>

text \<open>
  The loop works on the ledger through the operations of the resource verifier alone. These are
  the operations of one event, with the readings of the clock that they use.
\<close>

definition ledger_op_at :: "capacity_env \<Rightarrow> instant \<Rightarrow> ledger_op \<Rightarrow> bool" where
  "ledger_op_at env now op =
     (case op of
        Reserve t1 t2 k mf q \<Rightarrow> t1 = ce_prune env \<and> t2 = ce_reserve env \<and> mf \<noteq> None
          \<and> mf = extract_manifest_id_from_request_id k
      | Verify t q \<Rightarrow> t = ce_check env
      | HasActive t m \<Rightarrow> t = now)"

lemma ledger_op_at_simps [simp]:
  "ledger_op_at env now (Reserve t1 t2 k mf q) \<longleftrightarrow> t1 = ce_prune env \<and> t2 = ce_reserve env \<and> mf \<noteq> None
     \<and> mf = extract_manifest_id_from_request_id k"
  "ledger_op_at env now (Verify t q) \<longleftrightarrow> t = ce_check env"
  "ledger_op_at env now (HasActive t m) \<longleftrightarrow> t = now"
  by (simp_all add: ledger_op_at_def)

lemma ledger_op_at_capacity_env [simp]: "ledger_op_at (capacity_env_of E s) = ledger_op_at (nv_capacity E)"
  by (intro ext) (simp add: ledger_op_at_def capacity_env_of_def split: ledger_op.split)

lemma ledger_check_and_reserve:
  assumes "extract_manifest_id_from_request_id i = Some m"
  shows "\<exists>ops. list_all (ledger_op_at env now) ops \<and> fst (check_and_reserve env i m q v) = fold (ledger_step (ce_profile env)) ops v"
proof (cases "\<exists>v1 r. verify_capacity (ce_profile env) (ce_check env) q v = (v1, Some r) \<and> has_capacity r")
  case True
  then obtain r where "verify_capacity (ce_profile env) (ce_check env) q v
      = (prune_expired_reservations (ce_check env) v, Some r)" "has_capacity r"
    by (metis fst_conv verify_capacity_state)
  then show ?thesis
    by (intro exI [of _ "[Verify (ce_check env) q, Reserve (ce_prune env) (ce_reserve env) i (Some m) q]"])
      (auto simp: check_and_reserve_def assms split: prod.split option.split sum.split)
next
  case False
  obtain o1 where "verify_capacity (ce_profile env) (ce_check env) q v
      = (prune_expired_reservations (ce_check env) v, o1)"
    by (metis prod.collapse verify_capacity_state)
  with False show ?thesis
    by (intro exI [of _ "[Verify (ce_check env) q]"])
      (auto simp: check_and_reserve_def split: prod.split option.split sum.split)
qed

lemma ledger_answer:
  "\<exists>ops. list_all (ledger_op_at env now) ops
     \<and> cn_verifier (fst (answer_capacity_request env ts q c)) = fold (ledger_step (ce_profile env)) ops (cn_verifier c)"
proof (cases "stale env ts \<or> extract_manifest_id_from_request_id (or_empty (cq_request_id q)) = None")
  case True
  then show ?thesis by (intro exI [of _ "[]"]) (auto simp: answer_capacity_request_def Let_def)
next
  case False
  then obtain m where m: "\<not> stale env ts" "extract_manifest_id_from_request_id (or_empty (cq_request_id q)) = Some m" by auto
  then have "cn_verifier (fst (answer_capacity_request env ts q c))
      = fst (check_and_reserve env (or_empty (cq_request_id q)) m (request_of q) (cn_verifier c))"
    by (simp add: answer_capacity_request_def Let_def split: prod.split option.split)
  then show ?thesis using ledger_check_and_reserve [OF m(2)] by metis
qed

lemma ledger_none: "\<exists>ops. list_all P ops \<and> v = fold (ledger_step prof) ops v"
  by (rule exI [of _ "[]"]) simp

lemma ledger_gossip:
  "\<exists>ops. list_all (ledger_op_at env now) ops
     \<and> cn_verifier (fst (gossipsub_message L rq rp env p b c)) = fold (ledger_step (ce_profile env)) ops (cn_verifier c)"
  using ledger_answer [where env = env and c = "c \<lparr> cn_nonces := _ \<rparr>" and now = now] ledger_none
  by (auto simp: gossipsub_message_def notify_capacity_observers_def split: prod.split option.split)

lemma ledger_scheduler_request:
  "\<exists>ops. list_all (ledger_op_at env now) ops
     \<and> cn_verifier (fst (scheduler_request L rq env p b c)) = fold (ledger_step (ce_profile env)) ops (cn_verifier c)"
  using ledger_answer [where env = env and c = "c \<lparr> cn_nonces := _ \<rparr>" and now = now] ledger_none
  by (auto simp: scheduler_request_def split: prod.split option.split)

lemma ledger_admit:
  "\<exists>ops. list_all (ledger_op_at ce now') ops
     \<and> resource_verifier_of (fst (admit_apply_request C r now now' p b n)) = fold (ledger_step prof) ops (resource_verifier_of n)"
proof (cases rule: admit_apply_cases [of C r now now' p b n])
  case (refused st v resp)
  then show ?thesis
    using ledger_none by (auto intro: exI [of _ "[HasActive now' []]"] simp: has_active_state)
next
  case (admitted st parts ar mj)
  then show ?thesis by (intro exI [of _ "[HasActive now' []]"]) (simp add: has_active_state)
qed

lemma verifier_apply:
  "resource_verifier_of (fst (handle_apply_request C r L V env now now' p b n))
     = resource_verifier_of (fst (admit_apply_request C r now now' p b n))"
  by (simp add: handle_apply_request_def case_prod_beta split: prod.split sum.split)

lemma verifier_begin:
  "resource_verifier_of (mn_node (begin_apply X E p b s)) = resource_verifier_of (fst (admit_apply_request
     (nl_crypto (xl_node X)) (nl_apply_request (xl_node X)) (nv_clock E 0) (nv_clock E 1) p b (mn_node s)))"
  by (simp add: node_begin_apply case_prod_beta split: sum.split)

lemma verifier_control: "resource_verifier_of (mn_node (handle_control_message X V E msg s)) = resource_verifier_of (mn_node s)"
proof (cases msg)
  case (QueryCapacityWithPayload i tx payload)
  have "cn_verifier (fst (query_capacity rq env ok i tx payload c)) = cn_verifier c" for rq env ok c
    by (simp add: query_capacity_def notify_capacity_observers_def Let_def split: option.split)
  then show ?thesis
    unfolding QueryCapacityWithPayload
    by (simp add: handle_query_capacity_with_payload_def Let_def case_prod_beta node_core [OF core_broadcast]
        put_capacity_def split: option.split)
next
  case (SendApplyRequest p manifest tx)
  then show ?thesis
    by (simp add: handle_send_apply_request_def Let_def frame process_self_apply_request_def case_prod_beta
        split: option.split)
qed (simp_all add: frame node_core [OF core_handle_announce] node_core [OF core_handle_withdraw]
      node_core [OF core_quiet(5)] node_core [OF core_quiet(9)])

lemma verifier_drain: "resource_verifier_of (mn_node (drain_enqueued_controls X V Es s)) = resource_verifier_of (mn_node s)"
  by (rule drain_invariant) (simp_all add: verifier_control)

lemma ledger_handle_event:
  "\<exists>ops. list_all (ledger_op_at (nv_capacity E) (nv_clock E 1)) ops
     \<and> resource_verifier_of (mn_node (handle_event X V Es E ev s))
     = fold (ledger_step (ce_profile (nv_capacity E))) ops (resource_verifier_of (mn_node s))"
proof (cases ev)
  case (HandshakeMessage p msg)
  have "resource_verifier_of (mn_node (handshake_message_event X E p msg s)) = resource_verifier_of (mn_node s)"
    by (simp add: handshake_message_event_def handshake_request_def handshake_response_def put_nonces_def frame
        split: rr_message.split prod.split option.split)
  then show ?thesis using ledger_none HandshakeMessage by simp
next
  case (ApplyMessage p msg)
  then show ?thesis
    using ledger_admit ledger_none by (cases msg) (simp_all add: node_apply_message verifier_apply)
next
  case (DeleteMessage p msg)
  have "resource_verifier_of (fst (delete_message C r now p b n)) = resource_verifier_of n" for C r now b and n :: "'a node"
    by (simp add: delete_message_def split: prod.split option.split)
  then show ?thesis
    using ledger_none DeleteMessage by (cases msg) (simp_all add: on_delete_message_def frame case_prod_beta)
next
  case (GossipMessage p b)
  have "resource_verifier_of (mn_node (on_gossip_message X E p b s)) =
      cn_verifier (fst (gossipsub_message (nl_crypto (xl_node X)) (xl_root_as_capacity_request X)
        (xl_root_as_capacity_reply X) (capacity_env_of E s) p b (capacity_view s)))"
    by (simp add: on_gossip_message_def put_capacity_def frame case_prod_beta split: option.split sum.split)
  then show ?thesis
    using ledger_gossip [where env = "capacity_env_of E s" and c = "capacity_view s"] GossipMessage by simp
next
  case (SchedulerMessage p msg)
  show ?thesis
  proof (cases msg)
    case (Request b)
    have "resource_verifier_of (mn_node (on_scheduler_message X E p msg s)) =
        cn_verifier (fst (scheduler_request (nl_crypto (xl_node X)) (xl_root_as_capacity_request X)
          (capacity_env_of E s) p b (capacity_view s)))"
      by (simp add: on_scheduler_message_def Request put_capacity_def frame case_prod_beta split: option.split)
    then show ?thesis
      using ledger_scheduler_request [where env = "capacity_env_of E s" and c = "capacity_view s"] SchedulerMessage by simp
  next
    case (Response b)
    have "cn_verifier (scheduler_response rp p b c) = cn_verifier c" for rp c
      by (simp add: scheduler_response_def notify_capacity_observers_def split: option.split prod.split)
    then show ?thesis
      using ledger_none SchedulerMessage by (simp add: on_scheduler_message_def Response put_capacity_def)
  qed
qed (use ledger_none in \<open>auto simp: verifier_control verifier_drain handshake_tick_def Let_def node_core [OF core_quiet(1)]
      node_core [OF core_quiet(2)] node_core [OF core_quiet(3)] node_core [OF core_quiet(4)]
      node_core [OF core_quiet(6)] node_core [OF core_quiet(7)] node_core [OF core_quiet(8)] split: prod.split\<close>)

fun has_profile :: "profile \<Rightarrow> mesh_event \<Rightarrow> bool" where
  "has_profile prof (LoopEvent E ev) = (ce_profile (nv_capacity E) = prof)"
| "has_profile prof _ = True"

lemma verifier_removal [simp]:
  "resource_verifier_of (fst (remove_workloads_by_manifest_id V m n)) = resource_verifier_of n"
  by (auto simp: remove_workloads_by_manifest_id_def remove_manifest_owner_def Let_def split: option.split prod.split)

fun ledger_op_of :: "mesh_event \<Rightarrow> ledger_op \<Rightarrow> bool" where
  "ledger_op_of (LoopEvent E ev) = ledger_op_at (nv_capacity E) (nv_clock E 1)"
| "ledger_op_of (ApplyBegun E p b) = ledger_op_at (nv_capacity E) (nv_clock E 1)"
| "ledger_op_of _ = (\<lambda>op. False)"

lemma ledger_step_of_event:
  assumes "mesh_step X ev s s'" "has_profile prof ev"
  shows "\<exists>ops. list_all (ledger_op_of ev) ops
    \<and> resource_verifier_of (mn_node s') = fold (ledger_step prof) ops (resource_verifier_of (mn_node s))"
  using assms(1)
proof cases
  case (step_loop E lev V Es)
  then show ?thesis using assms(2) ledger_handle_event [where E = E and ev = lev and s = s] by simp
next
  case (step_apply_begun E p b)
  then show ?thesis using ledger_admit by (simp add: verifier_begin)
qed (use ledger_none in \<open>simp_all add: continue_frame fst_remove_and_report fst_handle_local_delete put_nonces_def
      node_core [OF core_quiet(10)]\<close>)

lemma ledger_mesh_step:
  assumes "mesh_step X ev s s'" "has_profile prof ev"
  shows "\<exists>ops. resource_verifier_of (mn_node s') = fold (ledger_step prof) ops (resource_verifier_of (mn_node s))"
  using ledger_step_of_event [OF assms] by blast

lemma ledger_mesh_run:
  assumes "mesh_run X s0 evs s" "\<forall>ev \<in> set evs. has_profile prof ev"
  shows "\<exists>ops. resource_verifier_of (mn_node s) = fold (ledger_step prof) ops (resource_verifier_of (mn_node s0))"
  using assms
proof (induction)
  case mesh_start
  show ?case by (rule exI [of _ "[]"]) simp
next
  case (mesh_next evs s ev s')
  then obtain ops where "resource_verifier_of (mn_node s) = fold (ledger_step prof) ops (resource_verifier_of (mn_node s0))"
    by auto
  moreover obtain ops' where "resource_verifier_of (mn_node s') = fold (ledger_step prof) ops' (resource_verifier_of (mn_node s))"
    using ledger_mesh_step [OF mesh_next.hyps(2), of prof] mesh_next.prems by auto
  ultimately show ?case by (intro exI [of _ "ops @ ops'"]) simp
qed

section \<open>Owner records\<close>

lemma owner_put_nonces [simp]: "get_manifest_owner m (mn_node (put_nonces st s)) = get_manifest_owner m (mn_node s)"
  by (simp add: put_nonces_def get_manifest_owner_def)

lemma owner_put_capacity [simp]: "get_manifest_owner m (mn_node (put_capacity c s)) = get_manifest_owner m (mn_node s)"
  by (simp add: get_manifest_owner_def frame)

lemma owner_delete [simp]: "get_manifest_owner m (fst (delete_message C r now p b n)) = get_manifest_owner m n"
  using owner_delete_message by (metis get_manifest_owner_def)

lemma owner_kept_control:
  assumes "get_manifest_owner m (mn_node s) \<noteq> None"
  shows "get_manifest_owner m (mn_node (handle_control_message X V E msg s)) \<noteq> None"
proof (cases msg)
  case (QueryCapacityWithPayload i tx payload)
  then show ?thesis
    using assms by (simp add: handle_query_capacity_with_payload_def Let_def case_prod_beta
        node_core [OF core_broadcast] split: option.split)
next
  case (SendApplyRequest p manifest tx)
  then show ?thesis
    using assms owner_kept_by_self_apply [OF assms] by (simp add: node_send_apply del: not_None_eq)
qed (use assms in \<open>simp_all add: frame node_core [OF core_handle_announce] node_core [OF core_handle_withdraw]
      node_core [OF core_quiet(5)] node_core [OF core_quiet(9)]\<close>)

lemma owner_kept_drain:
  assumes "get_manifest_owner m (mn_node s) \<noteq> None"
  shows "get_manifest_owner m (mn_node (drain_enqueued_controls X V Es s)) \<noteq> None"
  by (rule drain_invariant) (use assms owner_kept_control in simp_all)

lemma owner_kept_begin:
  assumes "get_manifest_owner m (mn_node s) \<noteq> None"
  shows "get_manifest_owner m (mn_node (begin_apply X E p b s)) \<noteq> None"
proof -
  have prepare: "get_manifest_owner m (fst (prepare_deployment L req mj owner n)) \<noteq> None"
    if "manifest_owner_map n = manifest_owner_map (mn_node s)" for L req mj owner and n :: "'a node"
    using assms that by (auto simp: get_manifest_owner_def owner_prepare split: option.split sum.split)
  have "manifest_owner_map (fst (admit_apply_request C r now now' p b (mn_node s))) = manifest_owner_map (mn_node s)"
    for C r now now' by (cases rule: admit_apply_cases [of C r now now' p b "mn_node s"]) simp_all
  with prepare assms show ?thesis
    by (simp add: node_begin_apply case_prod_beta get_manifest_owner_def del: not_None_eq split: sum.split)
qed

lemma owner_kept_loop:
  assumes "get_manifest_owner m (mn_node s) \<noteq> None"
  shows "get_manifest_owner m (mn_node (handle_event X V Es E ev s)) \<noteq> None"
proof (cases ev)
  case (ControlReceived msg)
  then show ?thesis using owner_kept_control [OF assms] by simp
next
  case (ApplyMessage p msg)
  then show ?thesis
    using assms owner_kept_by_apply [OF assms] by (cases msg) (simp_all add: node_apply_message del: not_None_eq)
next
  case (HandshakeMessage p msg)
  then show ?thesis
    using assms by (simp add: handshake_message_event_def handshake_request_def handshake_response_def frame
        split: rr_message.split prod.split option.split)
next
  case RenewTick
  then show ?thesis using owner_kept_drain [OF assms] by (simp add: node_core [OF core_quiet(1)] Let_def)
qed (use assms in \<open>auto simp: on_delete_message_def on_gossip_message_def on_scheduler_message_def handshake_tick_def
      frame case_prod_beta node_core [OF core_quiet(2)] node_core [OF core_quiet(3)] node_core [OF core_quiet(4)]
      node_core [OF core_quiet(6)] node_core [OF core_quiet(7)] node_core [OF core_quiet(8)]
      split: rr_message.split option.split sum.split\<close>)

lemma tasks_handle_event:
  "tasks_view (handle_event X V Es E ev s) = tasks_view s
   \<or> (\<exists>p b n resp t. ev = DeleteMessage p (Request b)
        \<and> delete_message (nl_crypto (xl_node X)) (nl_delete_request (xl_node X)) (nv_clock E 0) p b (mn_node s)
            = (n, resp, Some t)
        \<and> tasks_view (handle_event X V Es E ev s) = (mn_spawned s @ [t], mn_authorised s))"
proof (cases ev)
  case (DeleteMessage p msg)
  show ?thesis
  proof (cases msg)
    case (Request b)
    obtain n resp task where d: "delete_message (nl_crypto (xl_node X)) (nl_delete_request (xl_node X))
        (nv_clock E 0) p b (mn_node s) = (n, resp, task)" by (metis prod_cases3)
    show ?thesis
      by (cases task) (auto simp: DeleteMessage Request on_delete_message_def d tasks_view_def frame)
  qed (simp add: DeleteMessage on_delete_message_def)
next
  case (HandshakeMessage p msg)
  have "tasks_view (confirm t q s') = tasks_view s'" for t q and s' :: "'a mesh_node"
    by (simp add: confirm_def tasks_view_def)
  then show ?thesis
    by (simp add: HandshakeMessage handshake_message_event_def handshake_request_def handshake_response_def
        split: rr_message.split prod.split option.split)
next
  case HandshakeTick
  then show ?thesis by (simp add: handshake_tick_def tasks_view_def split: prod.split)
next
  case RenewTick
  then show ?thesis by (simp add: tasks_view_core [OF core_quiet(1)] views_drain Let_def)
next
  case ControlClosed
  have "core ((withdraw_all_providers E s) \<lparr> mn_running := False \<rparr>) = core s" by simp
  from tasks_view_core [OF this] show ?thesis unfolding ControlClosed by simp
qed (auto simp: views_control views_peers intro: tasks_view_core)

text \<open>A delete request for the task, signed with the task's key, was received by the loop.\<close>

definition delete_received :: "mesh_lib \<Rightarrow> mesh_event list \<Rightarrow> delete_task \<Rightarrow> bool" where
  "delete_received X evs t \<longleftrightarrow> (\<exists>E peer b e sig r.
     LoopEvent E (DeleteMessage peer (Request b)) \<in> set evs
     \<and> fb_root_as_envelope (nl_crypto (xl_node X)) b = Some e
     \<and> dsa_verify (nl_crypto (xl_node X)) (snd (snd t)) (rebuilt_canonical (nl_crypto (xl_node X)) e) sig = Some True
     \<and> nl_delete_request (xl_node X) (or_empty (fe_payload e)) = Some r
     \<and> t = (or_empty (del_manifest_id r), del_force r, snd (snd t)))"

lemma delete_received_append: "delete_received X evs t \<Longrightarrow> delete_received X (evs @ evs') t"
  unfolding delete_received_def by (metis Un_iff set_append)

lemma delete_receivedI:
  assumes "delete_message (nl_crypto (xl_node X)) (nl_delete_request (xl_node X)) (nv_clock E 0) p b n
      = (n', resp, Some t)"
  shows "delete_received X (evs @ [LoopEvent E (DeleteMessage p (Request b))]) t"
proof -
  have "LoopEvent E (DeleteMessage p (Request b)) \<in> set (evs @ [LoopEvent E (DeleteMessage p (Request b))])" by simp
  moreover obtain e sig r where "fb_root_as_envelope (nl_crypto (xl_node X)) b = Some e"
      "dsa_verify (nl_crypto (xl_node X)) (snd (snd t)) (rebuilt_canonical (nl_crypto (xl_node X)) e) sig = Some True"
      "nl_delete_request (xl_node X) (or_empty (fe_payload e)) = Some r"
      "t = (or_empty (del_manifest_id r), del_force r, snd (snd t))"
    using spawned_is_signed [OF assms, of "[]"] unfolding signed_delete_def by auto
  ultimately show ?thesis unfolding delete_received_def by blast
qed

lemma mesh_step_spawned:
  assumes "mesh_step X ev s s'" "t \<in> set (mn_spawned s')"
  shows "t \<in> set (mn_spawned s) \<or> delete_received X (evs @ [ev]) t"
  using assms
proof cases
  case (step_loop E lev V Es)
  then show ?thesis
    using tasks_handle_event [of X V Es E lev s] assms(2) delete_receivedI [of X E _ _ "mn_node s"]
    by (auto simp: tasks_view_def)
next
  case (step_task_checked t')
  then show ?thesis using assms(2) by (auto dest: set_remove1_subset [THEN subsetD])
next
  case (step_apply_begun E p b)
  then show ?thesis using assms(2) views_apply_steps(2) [of X E p b s] by (simp add: tasks_view_def)
next
  case (step_apply_continued stage E V)
  then show ?thesis using assms(2) views_apply_steps(4) [of X V E stage s] by (simp add: tasks_view_def)
qed (use assms(2) in \<open>auto simp: put_nonces_def enqueue_control_def\<close>)

lemma mesh_step_authorised:
  assumes "mesh_step X ev s s'" "t \<in> set (mn_authorised s')"
  shows "t \<in> set (mn_authorised s) \<or> ev = TaskChecked t \<and> t \<in> set (mn_spawned s) \<and> delete_allowed t (mn_node s)"
  using assms
proof cases
  case (step_loop E lev V Es)
  then show ?thesis
    using tasks_handle_event [of X V Es E lev s] assms(2) by (auto simp: tasks_view_def)
next
  case (step_task_checked t')
  then show ?thesis using assms(2) by (cases "delete_allowed t' (mn_node s)") auto
next
  case (step_task_removed t' V)
  then show ?thesis using assms(2) by (auto dest: set_remove1_subset [THEN subsetD])
next
  case (step_apply_begun E p b)
  then show ?thesis using assms(2) views_apply_steps(2) [of X E p b s] by (simp add: tasks_view_def)
next
  case (step_apply_continued stage E V)
  then show ?thesis using assms(2) views_apply_steps(4) [of X V E stage s] by (simp add: tasks_view_def)
qed (use assms(2) in \<open>auto simp: put_nonces_def enqueue_control_def\<close>)

lemma run_spawned:
  assumes "mesh_run X s0 evs s" "mn_spawned s0 = []"
  shows "t \<in> set (mn_spawned s) \<Longrightarrow> delete_received X evs t"
  using assms
proof (induction arbitrary: t)
  case (mesh_next evs s ev s')
  from mesh_step_spawned [OF mesh_next.hyps(2) mesh_next.prems(1)] show ?case
    using mesh_next.IH mesh_next.prems(2) delete_received_append by blast
qed simp

text \<open>The check of a task passed: at some point of the run, the task's key was the owner's, or it had the force flag.\<close>

definition check_passed :: "mesh_lib \<Rightarrow> 'e mesh_node \<Rightarrow> mesh_event list \<Rightarrow> delete_task \<Rightarrow> bool" where
  "check_passed X s0 evs t \<longleftrightarrow> (\<exists>evs1 evs2 s1 owner. evs = evs1 @ TaskChecked t # evs2 \<and> mesh_run X s0 evs1 s1
     \<and> delete_received X evs1 t \<and> get_manifest_owner (fst t) (mn_node s1) = Some owner
     \<and> (owner = snd (snd t) \<or> fst (snd t)))"

lemma check_passed_append: "check_passed X s0 evs t \<Longrightarrow> check_passed X s0 (evs @ evs') t"
  unfolding check_passed_def by (metis append.assoc append_Cons)

lemma run_authorised:
  assumes "mesh_run X s0 evs s" "mn_spawned s0 = []" "mn_authorised s0 = []"
  shows "t \<in> set (mn_authorised s) \<Longrightarrow> check_passed X s0 evs t"
  using assms
proof (induction arbitrary: t)
  case (mesh_next evs s ev s')
  from mesh_step_authorised [OF mesh_next.hyps(2) mesh_next.prems(1)] show ?case
  proof
    assume "t \<in> set (mn_authorised s)"
    then show ?thesis using mesh_next.IH mesh_next.prems(2,3) check_passed_append by blast
  next
    assume new: "ev = TaskChecked t \<and> t \<in> set (mn_spawned s) \<and> delete_allowed t (mn_node s)"
    then have "delete_received X evs t" using run_spawned [OF mesh_next.hyps(1) mesh_next.prems(2)] by blast
    with new delete_allowed_owner mesh_next.hyps(1) show ?thesis
      unfolding check_passed_def by (metis append_Nil2)
  qed
qed simp

text \<open>A removal is carried out for a task whose check passed before.\<close>

lemma run_removed:
  assumes "mesh_run X s0 evs s" "mn_spawned s0 = []" "mn_authorised s0 = []" "evs = evs1 @ TaskRemoved t # evs2"
  shows "check_passed X s0 evs1 t"
  using assms
proof (induction arbitrary: evs2)
  case (mesh_next evs s ev s')
  show ?case
  proof (cases evs2 rule: rev_cases)
    case Nil
    then have ev: "evs = evs1" "ev = TaskRemoved t" using mesh_next.prems(3) by simp_all
    from mesh_next.hyps(2) have "t \<in> set (mn_authorised s)" by cases (simp_all add: ev(2))
    then show ?thesis using run_authorised [OF mesh_next.hyps(1) mesh_next.prems(1,2)] ev(1) by blast
  next
    case (snoc evs3 ev')
    then show ?thesis using mesh_next by simp
  qed
qed simp

lemma mesh_step_owner_gone:
  assumes "mesh_step X ev s s'" "get_manifest_owner m (mn_node s) \<noteq> None" "get_manifest_owner m (mn_node s') = None"
  shows "ev = RestDelete m \<or> (\<exists>t \<in> set (mn_authorised s). fst t = m)"
  using assms(1)
proof cases
  case (step_loop E lev V Es)
  then show ?thesis using owner_kept_loop [OF assms(2)] assms(3) by metis
next
  case (step_task_removed t V)
  then show ?thesis using assms(2,3) owner_removal [of m "fst t" V "mn_node s"]
    by (cases "m = fst t") (auto simp: fst_remove_and_report)
next
  case (step_rest_delete m' V force)
  then show ?thesis using assms(2,3) owner_removal [of m m' V "mn_node s"]
    by (cases "m = m'") (simp_all add: fst_handle_local_delete)
next
  case (step_apply_begun E p b)
  then show ?thesis using owner_kept_begin [OF assms(2)] assms(3) by metis
next
  case (step_apply_continued stage E V)
  then show ?thesis using assms(2,3) by (simp add: get_manifest_owner_def continue_frame)
qed (use assms(2,3) in \<open>simp_all add: node_core [OF core_quiet(10)]\<close>)

lemma run_owner_gone:
  assumes "mesh_run X s0 evs s" "mn_spawned s0 = []" "mn_authorised s0 = []"
    and "get_manifest_owner m (mn_node s0) \<noteq> None"
  shows "get_manifest_owner m (mn_node s) = None \<Longrightarrow>
     RestDelete m \<in> set evs \<or> (\<exists>t. fst t = m \<and> check_passed X s0 evs t)"
  using assms
proof (induction)
  case (mesh_next evs s ev s')
  show ?case
  proof (cases "get_manifest_owner m (mn_node s) = None")
    case True
    then show ?thesis using mesh_next check_passed_append by (metis Un_iff set_append)
  next
    case False
    from mesh_step_owner_gone [OF mesh_next.hyps(2) this mesh_next.prems(1)] show ?thesis
      using run_authorised [OF mesh_next.hyps(1) mesh_next.prems(2,3)] check_passed_append by fastforce
  qed
qed simp

section \<open>A panic of the network task\<close>

text \<open>The steps of the network task itself.\<close>

fun of_network_task :: "mesh_event \<Rightarrow> bool" where
  "of_network_task (LoopEvent E ev) = True"
| "of_network_task (ApplyBegun E p b) = True"
| "of_network_task (ApplyContinued E) = True"
| "of_network_task _ = False"

lemma stopped_run:
  assumes "mesh_run X s1 evs s2" "\<not> mn_running s1" "mn_applying s1 = None"
  shows "\<not> mn_running s2 \<and> mn_applying s2 = None \<and> mn_calls s2 = mn_calls s1 \<and> mn_replies s2 = mn_replies s1
    \<and> (\<forall>ev \<in> set evs. \<not> of_network_task ev)"
  using assms
proof (induction)
  case (mesh_next evs s ev s')
  then have s: "\<not> mn_running s" "mn_applying s = None" by blast+
  from mesh_next.hyps(2) have "\<not> mn_running s' \<and> mn_applying s' = None \<and> mn_calls s' = mn_calls s \<and> mn_replies s' = mn_replies s
      \<and> \<not> of_network_task ev"
    by cases (use s in \<open>simp_all add: put_nonces_def enqueue_control_def\<close>)
  with mesh_next show ?case by auto
qed simp

lemma blob_panic_version: "decrypt_payload_from_recipient_blob K blob sk = None \<Longrightarrow> blob \<noteq> [] \<and> hd blob = 2"
  by (auto simp: decrypt_payload_from_recipient_blob_def blob_fields_iff blob_layout_def split: sum.splits option.splits if_splits)

lemma prepare_panics:
  assumes "ml_b64_decode L mj = Inr eb" "ml_root_as_envelope L eb = Inr env" "fe_payload_type env = Some ''manifest''"
    and "fe_payload env = Some blob" "ml_kem_private_key L = Inr sk"
    and "decrypt_payload_from_recipient_blob (ml_kem L) blob sk = None"
  shows "prepare_deployment L req mj owner n = (n, None)"
  using assms blob_panic_version [OF assms(6)]
  by (simp add: prepare_deployment_def decrypt_manifest_content_def decrypt_manifest_from_envelope_def)

section \<open>Properties\<close>

text \<open>
  A node never promises more than it has, whatever reaches it: in every run of the node that
  starts with an empty ledger (capacity requests over both protocols, deployments, deletions and
  all other events, in any order), the reserved amounts add up to at most ninety per cent of the
  host's total, less the amount kept free, less what the workloads hold.
\<close>

theorem node_never_overbooks:
  assumes "mesh_run X s0 evs s" "\<forall>ev \<in> set evs. has_profile prof ev"
    and "reservations (resource_verifier_of (mn_node s0)) = hm_empty"
    and "totals_representable (system_resources_of (resource_verifier_of (mn_node s0)))"
  defines "v \<equiv> resource_verifier_of (mn_node s)"
    and "r \<equiv> system_resources_of (resource_verifier_of (mn_node s0))"
  shows "reserved_sum cr_cpu_milli v \<le> unat (total_cpu_milli r) * 90 div 100 - unat (allocated_cpu_milli r)
    \<and> reserved_sum cr_memory_bytes v
        \<le> unat (total_memory_bytes r) * 90 div 100 - 536870912 - unat (allocated_memory_bytes r)
    \<and> reserved_sum cr_storage_bytes v
        \<le> unat (total_storage_bytes r) * 90 div 100 - 1073741824 - unat (allocated_storage_bytes r)"
  using ledger_mesh_run [OF assms(1,2)] no_overbooking [OF assms(3,4), of prof] unfolding v_def r_def by metis

text \<open>
  (C2) The record of who owns a manifest disappears, over any interleaving of the event loop, of
  the tasks it spawns and of the REST API, only because the node's own REST API deleted the
  manifest, or because the loop received a delete request for it, correctly signed with some key,
  and the check of its task found, at some moment of the run, that this key was the recorded
  owner's, or the request carried the force flag.
\<close>

theorem owner_record_protected:
  assumes "mesh_run X s0 evs s" "mn_spawned s0 = []" "mn_authorised s0 = []"
    and "get_manifest_owner m (mn_node s0) = Some k" "get_manifest_owner m (mn_node s) = None"
    and "RestDelete m \<notin> set evs"
  shows "\<exists>evs1 evs2 s1 owner force key.
     evs = evs1 @ TaskChecked (m, force, key) # evs2 \<and> mesh_run X s0 evs1 s1
     \<and> delete_received X evs1 (m, force, key)
     \<and> get_manifest_owner m (mn_node s1) = Some owner \<and> (owner = key \<or> force)"
  using run_owner_gone [OF assms(1-3) _ assms(5)] assms(4,6) unfolding check_passed_def by fastforce

text \<open>
  (C3) An envelope with a nonce that is not empty is not accepted twice from one peer, whatever protocol it comes through:
  once the node has accepted it (as a handshake, an apply or delete request, a gossip or
  scheduler message, or over the REST API), the same bytes from the same peer are refused for the
  next 300 seconds by every handler, after any run of the node in between. An envelope with an empty nonce
  can be replayed, and so can one that another peer passes on: the nonces are stored for each peer that
  the transport, or for REST the envelope itself, names.
\<close>

theorem no_replay_across_protocols:
  assumes "store_ok (nonces (mn_node s))" "mesh_step X ev s s1" "(t0, p, b) \<in> set (checked ev s)"
    and "snd (verify_flatbuffer_envelope_for_peer (nl_crypto (xl_node X)) t0 NONCE_WINDOW p b (nonces (mn_node s)))
           = Inr parts"
    and "fb_root_as_envelope (nl_crypto (xl_node X)) b = Some e" "or_empty (fe_nonce e) \<noteq> []"
    and "mesh_run X s1 evs s2" "\<And>ev' t'. ev' \<in> set evs \<Longrightarrow> event_time ev' = Some t' \<Longrightarrow> t' \<le> t0 + NONCE_WINDOW"
    and "t \<le> t0 + NONCE_WINDOW"
  shows "snd (verify_signed_message (nl_crypto (xl_node X)) t p b (nonces (mn_node s2))) = None
    \<and> (\<exists>err. snd (verify_envelope_and_check_nonce_for_peer (nl_crypto (xl_node X)) t p b (nonces (mn_node s2))) = Inl err)"
proof -
  let ?L = "nl_crypto (xl_node X)"
  have "checked ev s = [(t0, p, b)]"
    using assms(3) by (induction ev s rule: checked.induct) (auto split: if_splits)
  then have s1: "nonces (mn_node s1) = fst (verify_flatbuffer_envelope_for_peer ?L t0 NONCE_WINDOW p b (nonces (mn_node s)))"
    using nonces_mesh_step [OF assms(2)] by simp
  obtain vs where vs: "nonces (mn_node s2) = verify_run ?L NONCE_WINDOW vs (nonces (mn_node s1))"
    "\<forall>(now, p, b) \<in> set vs. Some now \<in> event_time ` set evs"
    using nonces_mesh_run [OF assms(7)] by blast
  have "\<exists>err. snd (verify_flatbuffer_envelope_for_peer ?L t NONCE_WINDOW p b (nonces (mn_node s2))) = Inl err"
    unfolding vs(1) s1
    by (rule replay_protection [OF assms(1,5,6,4) _ assms(9)]) (use vs(2) assms(8) in force)
  then show ?thesis
    using snd_verify_signed_message [of ?L t p b "nonces (mn_node s2)"]
    by (auto simp: verify_envelope_and_check_nonce_for_peer_def) (metis not_None_eq sum.distinct(1))
qed

text \<open>
  (C33) A peer can stop the network task. An apply request that passes every check, its signature, its nonce and a
  reservation for the manifest, but in which the encrypted manifest has a nonce of the wrong length, makes
  the decryption panic in the middle of the loop: the request is not answered, the loop takes
  no further step, and in every run that follows the node sends and answers nothing.
\<close>

theorem malformed_manifest_stops_network:
  assumes "mesh_step X ev s s1" "ev \<in> {LoopEvent E (ApplyMessage p (Request b)), ApplyBegun E p b}"
    and "verify_envelope_and_check_nonce_for_peer (nl_crypto (xl_node X)) (nv_clock E 0) p b (nonces (mn_node s)) = (st, Inr v)"
    and "nl_apply_request (xl_node X) (ve_payload v) = Some ar" "ap_manifest_json ar = Some mj"
    and "ap_manifest_id ar = Some m" "m \<noteq> []"
    and "snd (has_active_reservation_for_manifest (nv_clock E 1) m (resource_verifier_of (mn_node s)))"
    and "ml_b64_decode (nl_manifest (xl_node X)) mj = Inr eb" "ml_root_as_envelope (nl_manifest (xl_node X)) eb = Inr env"
    and "fe_payload_type env = Some ''manifest''" "fe_payload env = Some (blob_layout w n c)" "layout_fits w n c"
    and "length n \<noteq> NONCE_BYTES" "ml_kem_private_key (nl_manifest (xl_node X)) = Inr sk"
    and "decapsulate_share (ml_kem (nl_manifest (xl_node X))) sk w = Inr shared"
    and "kl_aes_key_ok (ml_kem (nl_manifest (xl_node X))) shared"
    and "mesh_run X s1 evs s2"
  shows "mn_calls s2 = mn_calls s \<and> mn_replies s2 = mn_replies s \<and> (\<forall>ev \<in> set evs. \<not> of_network_task ev)"
proof -
  let ?L = "nl_manifest (xl_node X)"
  have "decrypt_payload_from_recipient_blob (ml_kem ?L) (blob_layout w n c) sk = None"
    using assms(13-17) blob_fields_layout [OF assms(13), of "[]"] by (simp add: decrypt_payload_from_recipient_blob_def)
  note panics = prepare_panics [OF assms(9-12,15) this]
  note admitted = admit_accepts [where r = "nl_apply_request (xl_node X)", OF assms(3-8)]
  have stopped: "\<not> mn_running s1 \<and> mn_applying s1 = None \<and> mn_calls s1 = mn_calls s \<and> mn_replies s1 = mn_replies s"
    using assms(1)
  proof cases
    case (step_loop E' ev' V Es)
    with assms(2) show ?thesis
      by (simp add: on_apply_message_def handle_apply_request_def process_manifest_deployment_def admitted panics
          del: One_nat_def)
  next
    case (step_apply_begun E' p' b')
    with assms(2) show ?thesis by (simp add: begin_apply_def admitted panics del: One_nat_def)
  qed (use assms(2) in simp_all)
  with stopped_run [OF assms(18)] show ?thesis by simp
qed

text \<open>
  A peer counts as confirmed only if the node received a handshake message from it, wrapped in
  an envelope with a valid signature.
\<close>

theorem confirmed_peer_signed:
  assumes "mesh_run X s0 evs s" "mn_handshakes s0 = hm_empty" "is_confirmed p s"
  shows "\<exists>E msg. LoopEvent E (HandshakeMessage p msg) \<in> set evs \<and> signed_handshake X (message_bytes msg)"
  using run_handshakes [OF assms(1,2)] assms(3) by blast

text \<open>
  (C40) No node ever starts a handshake: a run from a node with an empty handshake table sends no
  handshake request, and every entry of the table is confirmed. Entries are made only when a
  message of the peer is accepted, and confirmed at once, so the timer finds nobody to write to.
\<close>

theorem handshake_never_initiated:
  assumes "mesh_run X s0 evs s" "mn_handshakes s0 = hm_empty" "mn_calls s0 = []"
  shows "requests_to p (mn_calls s) = 0
    \<and> (\<forall>st. hm_get (mn_handshakes s) p = Some st \<longrightarrow> hst_confirmed st)"
proof -
  have run: "all_confirmed s" "handshake_calls s = []"
    using run_handshakes [OF assms(1,2)] assms(3) by (simp_all add: handshake_calls_def)
  have "filter (\<lambda>c. handshake_target c = Some p) (mn_calls s) = []"
    using run(2) by (auto simp: handshake_calls_def filter_empty_conv)
  with run(1) show ?thesis by (auto simp: requests_to_def all_confirmed_def dest!: hm_get_SomeD)
qed

end
