(* ===== verification/Announce_Lookup.thy ===== *)
theory Announce_Lookup
  imports Network_Control
begin

text \<open>
  What the control interface promises about announcements and lookups in the distributed hash
  table: when an announcement is made, repeated and withdrawn, and when a lookup is answered.
\<close>

section \<open>Announcements\<close>

fun provided_key :: "swarm_call \<Rightarrow> string option" where
  "provided_key (StartProviding cid ok) = Some cid"
| "provided_key _ = None"

definition provides :: "string \<Rightarrow> swarm_call list \<Rightarrow> nat" where
  "provides cid cs = length (filter (\<lambda>c. provided_key c = Some cid) cs)"

lemma provides_simps [simp]:
  "provides cid [] = 0"
  "provides cid (cs @ cs') = provides cid cs + provides cid cs'"
  "provides cid [c] = (if provided_key c = Some cid then 1 else 0)"
  by (simp_all add: provides_def)

lemma provides_announce:
  "provides cid (mn_calls (fst (announce_provider_direct E k cid' ttl s))) =
     provides cid (mn_calls s) + (if cid' = cid \<and> nv_connected E \<noteq> [] then 1 else 0)"
  by (rule announce_direct_cases [of E k cid' ttl s]) (simp_all add: frame)

definition due :: "net_env \<Rightarrow> announce_entry \<Rightarrow> bool" where
  "due E entry \<longleftrightarrow> ann_ttl_ms entry \<noteq> 0 \<and> ann_next_due entry \<le> nv_clock E 0"

lemma renew_entries_keys: "map fst (snd (renew_entries E k es s)) = map fst es"
  by (induction es arbitrary: k s) (auto simp: case_prod_beta)

lemma renew_entries_absent:
  "cid \<notin> fst ` set es \<Longrightarrow> provides cid (mn_calls (fst (renew_entries E k es s))) = provides cid (mn_calls s)"
  by (induction es arbitrary: k s) (auto simp: case_prod_beta provides_announce)

lemma renew_entries_effect:
  assumes "hm_wf es" "hm_get es cid = Some entry"
  shows "if due E entry
     then (\<exists>j. hm_get (snd (renew_entries E k es s)) cid =
             Some (entry \<lparr> ann_next_due := nv_clock E (Suc j) + renewal_interval (ann_ttl_ms entry) \<rparr>))
       \<and> provides cid (mn_calls (fst (renew_entries E k es s)))
           = provides cid (mn_calls s) + (if nv_connected E = [] then 0 else 1)
     else hm_get (snd (renew_entries E k es s)) cid = Some entry
       \<and> provides cid (mn_calls (fst (renew_entries E k es s))) = provides cid (mn_calls s)"
  using assms
proof (induction es arbitrary: k s)
  case Nil
  then show ?case by (simp add: hm_get_def)
next
  case (Cons a es)
  obtain c e where a: "a = (c, e)" by (cases a)
  show ?case
  proof (cases "c = cid")
    case True
    then have "e = entry" "cid \<notin> fst ` set es" using Cons.prems a by (auto simp: hm_get_def hm_wf_def)
    then show ?thesis
      using a True renew_entries_absent [of cid es]
      by (auto simp: due_def hm_get_def case_prod_beta provides_announce)
  next
    case False
    then have "hm_wf es" "hm_get es cid = Some entry" using Cons.prems a by (auto simp: hm_get_def hm_wf_def)
    note IH = Cons.IH [OF this]
    show ?thesis
      using IH [of k s] IH [of "Suc k" "fst (announce_provider_direct E k c (ann_ttl_ms e) s)"] a False
      by (auto simp: hm_get_def case_prod_beta provides_announce split: if_splits)
  qed
qed

lemma announce_attempts_cases:
  "announce_attempts E cid ttl ks s =
     (if nv_connected E = [] then (s, False)
      else
        (let tried = takeWhile (\<lambda>k. nv_start_providing E k \<noteq> Inr ()) ks; ok = length tried < length ks in
         (s \<lparr> mn_calls := mn_calls s @ map (\<lambda>_. StartProviding cid False) tried
                @ (if ok then [StartProviding cid True] else []) \<rparr>, ok)))"
proof (induction ks arbitrary: s)
  case (Cons k ks)
  then show ?case
    by (auto simp: announce_provider_direct_def call_def Let_def split: sum.split)
qed simp

section \<open>Lookups\<close>

text \<open>The first answer that the events hold for a query: found providers, or none on an error.\<close>

fun first_answer :: "nat \<Rightarrow> kad_event list \<Rightarrow> peer_id list option" where
  "first_answer i [] = None"
| "first_answer i (OutboundQueryProgressed j (ProvidersFound ps) # evs) =
     (if j = i then Some ps else first_answer i evs)"
| "first_answer i (OutboundQueryProgressed j ProvidersErr # evs) =
     (if j = i then Some [] else first_answer i evs)"
| "first_answer i (ev # evs) = first_answer i evs"

definition replies_on :: "nat \<Rightarrow> 'e mesh_node \<Rightarrow> control_reply list" where
  "replies_on tx s = map snd (filter (\<lambda>(t, _). t = tx) (mn_replies s))"

text \<open>A lookup waits: its sender is registered under its id, and under no other.\<close>

definition waiting :: "mesh_lib \<Rightarrow> nat \<Rightarrow> nat \<Rightarrow> 'e mesh_node \<Rightarrow> bool" where
  "waiting X i tx s \<longleftrightarrow> (\<forall>k. hm_get (mn_provider_queries s) k = Some tx \<longleftrightarrow> k = xl_show_query X i)"

lemma query_progressed_cases:
  "query_progressed X j result s =
     (case first_answer j [OutboundQueryProgressed j result] of
        None \<Rightarrow> s
      | Some ps \<Rightarrow>
          (let s' = s \<lparr> mn_provider_queries := hm_remove (xl_show_query X j) (mn_provider_queries s) \<rparr> in
           case hm_get (mn_provider_queries s) (xl_show_query X j) of
             None \<Rightarrow> s'
           | Some tx \<Rightarrow> reply tx (PeersReply ps) s'))"
  by (cases result) (simp_all add: query_progressed_def take_pending_providers_query_def Let_def split: option.split)

text \<open>One event: the first answer of the waiting query reaches its sender, any other event does nothing to it.\<close>

lemma kademlia_event_waiting:
  assumes "inj (xl_show_query X)" "waiting X i tx s"
  shows "case first_answer i [ev] of
     Some ps \<Rightarrow> replies_on tx (kademlia_event X ev s) = replies_on tx s @ [PeersReply ps]
       \<and> (\<forall>k. hm_get (mn_provider_queries (kademlia_event X ev s)) k \<noteq> Some tx)
   | None \<Rightarrow> replies_on tx (kademlia_event X ev s) = replies_on tx s \<and> waiting X i tx (kademlia_event X ev s)"
proof (cases ev)
  case (OutboundQueryProgressed j result)
  have tx: "hm_get (mn_provider_queries s) (xl_show_query X i) = Some tx" using assms(2) by (simp add: waiting_def)
  show ?thesis
  proof (cases "j = i")
    case True
    then have "kademlia_event X ev s = (case first_answer i [ev] of
        None \<Rightarrow> s
      | Some ps \<Rightarrow> reply tx (PeersReply ps)
          (s \<lparr> mn_provider_queries := hm_remove (xl_show_query X i) (mn_provider_queries s) \<rparr>))"
      using tx by (simp add: OutboundQueryProgressed kademlia_event_def query_progressed_cases Let_def split: option.split)
    then show ?thesis
      using assms(2) by (simp add: replies_on_def frame waiting_def split: option.split)
  next
    case False
    then have other: "xl_show_query X j \<noteq> xl_show_query X i" using assms(1) by (auto dest: injD)
    then have "hm_get (mn_provider_queries s) (xl_show_query X j) \<noteq> Some tx" using assms(2) by (simp add: waiting_def)
    then have "replies_on tx (query_progressed X j result s) = replies_on tx s"
      by (auto simp: query_progressed_cases Let_def replies_on_def frame split: option.split)
    moreover have "waiting X i tx (query_progressed X j result s)"
      using assms(2) other
      by (simp add: query_progressed_cases Let_def waiting_def frame split: option.split)
    moreover have "first_answer i [ev] = None"
      using False by (cases result) (simp_all add: OutboundQueryProgressed)
    ultimately show ?thesis by (simp add: OutboundQueryProgressed kademlia_event_def)
  qed
qed (use assms in \<open>simp_all add: kademlia_event_def\<close>)

lemma not_waiting_stays:
  assumes "\<forall>k. hm_get (mn_provider_queries s) k \<noteq> Some tx"
  shows "replies_on tx (fold (kademlia_event X) evs s) = replies_on tx s
    \<and> (\<forall>k. hm_get (mn_provider_queries (fold (kademlia_event X) evs s)) k \<noteq> Some tx)"
  using assms
proof (induction evs arbitrary: s)
  case (Cons ev evs)
  have "replies_on tx (kademlia_event X ev s) = replies_on tx s
      \<and> (\<forall>k. hm_get (mn_provider_queries (kademlia_event X ev s)) k \<noteq> Some tx)"
    using Cons.prems
    by (auto simp: kademlia_event_def query_progressed_cases Let_def replies_on_def frame
        split: kad_event.split option.split)
  then show ?case using Cons.IH [of "kademlia_event X ev s"] by simp
qed simp

lemma first_answer_Cons:
  "first_answer i (ev # evs) = (case first_answer i [ev] of Some ps \<Rightarrow> Some ps | None \<Rightarrow> first_answer i evs)"
  by (cases "(i, ev # evs)" rule: first_answer.cases) auto

lemma lookup_outcome:
  assumes "inj (xl_show_query X)" "waiting X i tx s"
  shows "case first_answer i evs of
     Some ps \<Rightarrow> replies_on tx (fold (kademlia_event X) evs s) = replies_on tx s @ [PeersReply ps]
   | None \<Rightarrow> replies_on tx (fold (kademlia_event X) evs s) = replies_on tx s
       \<and> waiting X i tx (fold (kademlia_event X) evs s)"
  using assms(2)
proof (induction evs arbitrary: s)
  case (Cons ev evs)
  note ev = kademlia_event_waiting [OF assms(1) Cons.prems, of ev]
  show ?case
  proof (cases "first_answer i [ev]")
    case None
    with ev Cons.IH [of "kademlia_event X ev s"] show ?thesis
      by (simp add: first_answer_Cons [of i ev evs] split: option.splits)
  next
    case (Some ps)
    with ev not_waiting_stays [of "kademlia_event X ev s" tx X evs] show ?thesis
      by (simp add: first_answer_Cons [of i ev evs])
  qed
qed simp

lemma find_waits:
  assumes "\<And>k. hm_get (mn_provider_queries s) k \<noteq> Some tx"
  shows "waiting X (nv_query_id E) tx (handle_find_manifest_holders X E m tx s)"
  using assms
  by (simp add: waiting_def handle_find_manifest_holders_def insert_pending_providers_query_def frame)

section \<open>Properties\<close>

text \<open>
  When an announcement succeeds: the key is recorded for renewal, and the caller told so, if
  and only if a peer is connected and the hash table takes the key in one of three attempts. After
  a failure nothing is recorded, and without a connected peer the hash table is not even asked.
\<close>

theorem announce_outcome:
  assumes "s' = handle_control_message X V E (AnnounceProvider cid ttl tx) s"
  shows "if nv_connected E \<noteq> [] \<and> (\<exists>k < 3. nv_start_providing E k = Inr ())
     then mn_replies s' = mn_replies s @ [(tx, UnitReply (Inr ()))]
       \<and> hm_get (mn_announces s') cid = Some \<lparr> ann_ttl_ms = ttl, ann_next_due = nv_clock E 0
            + (if ttl = 0 then 3600 * 1000000000 else renewal_interval ttl) \<rparr>
       \<and> last (mn_calls s') = StartProviding cid True
     else mn_replies s' = mn_replies s @ [(tx, UnitReply (Inl ''All provider announcement attempts failed''))]
       \<and> mn_announces s' = mn_announces s
       \<and> (nv_connected E = [] \<longrightarrow> mn_calls s' = mn_calls s)"
proof -
  let ?tried = "takeWhile (\<lambda>k. nv_start_providing E k \<noteq> Inr ()) [0, 1, 2]"
  have less_3: "k < 3 \<longleftrightarrow> k = 0 \<or> k = 1 \<or> k = 2" for k :: nat by linarith
  have ex_3: "(\<exists>k < 3. P k) \<longleftrightarrow> P 0 \<or> P 1 \<or> P 2" for P :: "nat \<Rightarrow> bool" unfolding less_3 by auto
  have "length ?tried < length [0 :: nat, 1, 2] \<longleftrightarrow> (\<exists>k < 3. nv_start_providing E k = Inr ())"
    unfolding ex_3 by simp
  then have "announce_attempts E cid ttl [0, 1, 2] s =
     (if nv_connected E = [] then (s, False)
      else (s \<lparr> mn_calls := mn_calls s @ map (\<lambda>_. StartProviding cid False) ?tried
              @ (if \<exists>k < 3. nv_start_providing E k = Inr () then [StartProviding cid True] else []) \<rparr>,
            \<exists>k < 3. nv_start_providing E k = Inr ()))"
    unfolding announce_attempts_cases Let_def by simp
  then show ?thesis
    unfolding assms handle_control_message.simps handle_announce_provider_def
    by (cases "nv_connected E = []"; cases "\<exists>k < 3. nv_start_providing E k = Inr ()")
      (simp_all add: frame Let_def del: takeWhile.simps announce_attempts.simps)
qed

text \<open>
  A recorded announcement is repeated exactly when it is due: at a tick of the renewal timer
  the key is announced again, once, if its time has come and a peer is connected, and its next
  renewal is then a third of the time to live after the announcement, but at least two seconds;
  before its time, nothing is announced and the entry stays as it is.
\<close>

theorem due_announcement_renewed:
  assumes "hm_wf (mn_announces s)" "hm_get (mn_announces s) cid = Some entry" "nv_connected E \<noteq> []"
  shows "(if ann_ttl_ms entry \<noteq> 0 \<and> ann_next_due entry \<le> nv_clock E 0
     then (\<exists>j. hm_get (mn_announces (renew_due_providers E s)) cid = Some (entry \<lparr> ann_next_due :=
              nv_clock E (Suc j) + max 2000 (unat (ann_ttl_ms entry) div 3) * 1000000 \<rparr>))
       \<and> provides cid (mn_calls (renew_due_providers E s)) = provides cid (mn_calls s) + 1
     else hm_get (mn_announces (renew_due_providers E s)) cid = Some entry
       \<and> provides cid (mn_calls (renew_due_providers E s)) = provides cid (mn_calls s))"
proof -
  have "unat (max 2000 (x div 3)) = max 2000 (unat x div 3)" for x :: u64
    by (simp add: max_def word_le_nat_alt unat_div)
  then show ?thesis
    using renew_entries_effect [OF assms(1,2), of E 0 s] assms(3)
    by (auto simp: renew_due_providers_def due_def renewal_interval_def case_prod_beta split: if_splits)
qed

text \<open>
  Withdrawing is announcing: with a connected peer, the withdrawal of a key asks the hash
  table for the same thing as its announcement, to start providing the key; nothing asks it to
  stop. The same holds for every key when the node shuts down.
\<close>

theorem withdrawal_starts_providing:
  assumes "nv_connected E \<noteq> []" "nv_start_providing E 0 = Inr ()"
  shows "mn_calls (handle_control_message X V E (WithdrawProvider cid tx) s)
      = mn_calls (handle_control_message X V E (AnnounceProvider cid ttl tx) s)
    \<and> mn_calls (handle_control_message X V E (WithdrawProvider cid tx) s) = mn_calls s @ [StartProviding cid True]
    \<and> provides cid (mn_calls (withdraw_all_providers E s))
        = provides cid (mn_calls s) + length (filter (\<lambda>k. k = cid) (list_active_announces s))"
proof -
  have "provides cid (mn_calls (withdraw_keys E k cids s)) = provides cid (mn_calls s) + length (filter (\<lambda>k. k = cid) cids)"
    for k cids and s :: "'a mesh_node"
    using assms(1) by (induction cids arbitrary: k s) (simp_all add: provides_announce)
  then show ?thesis
    using assms
    by (simp add: handle_withdraw_provider_def announce_provider_direct_def frame handle_announce_provider_def
        withdraw_all_providers_def list_active_announces_def Let_def)
qed

text \<open>
  A lookup is answered at most once, by the first batch of providers that is reported for its
  query (or with nothing when the query fails); later batches are dropped. As long as neither is
  reported it stays pending, and a query that ends without having found a provider reports
  neither, so such a lookup is never answered.
\<close>

theorem lookup_answered_once:
  assumes "inj (xl_show_query X)" "\<And>k. hm_get (mn_provider_queries s) k \<noteq> Some tx"
    and "s' = fold (kademlia_event X) evs (handle_control_message X V E (FindManifestHolders m tx) s)"
  shows "(case first_answer (nv_query_id E) evs of
      Some ps \<Rightarrow> replies_on tx s' = replies_on tx s @ [PeersReply ps]
    | None \<Rightarrow> replies_on tx s' = replies_on tx s \<and> waiting X (nv_query_id E) tx s')
    \<and> first_answer (nv_query_id E) (OutboundQueryProgressed (nv_query_id E) ProvidersFinished # evs)
        = first_answer (nv_query_id E) evs"
proof -
  have "replies_on tx (handle_find_manifest_holders X E m tx s) = replies_on tx s"
    by (simp add: replies_on_def handle_find_manifest_holders_def insert_pending_providers_query_def frame)
  then show ?thesis
    using lookup_outcome [OF assms(1) find_waits [where E = E and m = m, OF assms(2)], of evs] unfolding assms(3)
    by (simp split: option.splits)
qed

end
