(* ===== verification/Network_Examples.thy ===== *)
theory Network_Examples
  imports Node_Runs Announce_Lookup Node_Examples Capacity_Examples
begin

text \<open>
  Concrete runs for the properties of the network task: two nodes with toy keys that shake hands,
  a node that is asked to delete, and one that answers a capacity request.
\<close>

section \<open>The node and its libraries\<close>

definition toy_hs_finish :: "handshake_message \<Rightarrow> bytes" where
  "toy_hs_finish h = put_list (be_encode 4 (unat (hs_nonce h))) @ put_list (be_encode 8 (unat (hs_timestamp h)))
     @ put_str (hs_protocol_version h) @ put_str (hs_signature h)"

definition toy_hs_root :: "bytes \<Rightarrow> handshake_message option" where
  "toy_hs_root b = do {
     (nonce, b) \<leftarrow> get_list b;
     (ts, b) \<leftarrow> get_list b;
     (version, b) \<leftarrow> get_str b;
     (signature, b) \<leftarrow> get_str b;
     Some \<lparr> hs_nonce = of_nat (be_decode nonce), hs_timestamp = of_nat (be_decode ts),
            hs_protocol_version = version, hs_signature = signature \<rparr> }"

lemma toy_hs_root_finish [simp]: "toy_hs_root (toy_hs_finish h) = Some h"
proof -
  have "unat (hs_nonce h) < 256 ^ 4" using unsigned_less [of "hs_nonce h", where 'a = nat] by simp
  moreover have "unat (hs_timestamp h) < 256 ^ 8" using unsigned_less [of "hs_timestamp h", where 'a = nat] by simp
  ultimately show ?thesis by (simp add: toy_hs_root_def toy_hs_finish_def)
qed

definition toy_mesh :: mesh_lib where
  "toy_mesh = \<lparr> xl_node = toy_node_lib, xl_handshake = toy_hs_finish, xl_root_as_handshake = toy_hs_root,
     xl_capacity_request = (\<lambda>_. []), xl_capacity_reply = (\<lambda>_. []),
     xl_root_as_capacity_request = toy_capacity_root, xl_root_as_capacity_reply = (\<lambda>_. None),
     xl_show_query = (\<lambda>i. replicate i (CHR ''q'')) \<rparr>"

definition toy_net :: "u32 \<Rightarrow> instant \<Rightarrow> net_env" where
  "toy_net r t = \<lparr> nv_local_peer = ''peerB'', nv_connected = [''peerA''], nv_all_peers = [''peerA''],
     nv_start_providing = (\<lambda>_. Inr ()), nv_query_id = 5, nv_clock = (\<lambda>_. t), nv_millis = 1000,
     nv_random = (\<lambda>_. r), nv_keypair = Inr ([7], [7]), nv_capacity = toy_capacity_env, nv_apply = toy_env \<rparr>"

definition toy_mesh_node :: "'e node \<Rightarrow> 'e mesh_node" where
  "toy_mesh_node n = \<lparr> mn_node = n, mn_applying = None, mn_spawned = [], mn_authorised = [], mn_scheduling = hm_empty,
     mn_pending_queries = hm_empty, mn_observed = [], mn_handshakes = hm_empty, mn_announces = hm_empty,
     mn_enqueued = [], mn_provider_queries = hm_empty, mn_manifest_requests = hm_empty, mn_peers = [],
     mn_calls = [], mn_replies = [], mn_running = True \<rparr>"

lemma toy_mesh_parts [simp]:
  "mn_node (toy_mesh_node n) = n" "mn_spawned (toy_mesh_node n) = []" "mn_authorised (toy_mesh_node n) = []"
  "mn_handshakes (toy_mesh_node n) = hm_empty" "mn_calls (toy_mesh_node n) = []"
  "mn_running (toy_mesh_node n)" "mn_provider_queries (toy_mesh_node n) = hm_empty" "mn_applying (toy_mesh_node n) = None"
  by (simp_all add: toy_mesh_node_def)

lemma toy_net_parts [simp]:
  "nv_keypair (toy_net r t) = Inr ([7], [7])" "nv_clock (toy_net r t) k = t" "nv_random (toy_net r t) k = r"
  "nv_connected (toy_net r t) = [''peerA'']" "nv_start_providing (toy_net r t) k = Inr ()"
  "nv_query_id (toy_net r t) = 5" "nv_capacity (toy_net r t) = toy_capacity_env"
  by (simp_all add: toy_net_def)

lemma toy_mesh_crypto [simp]: "nl_crypto (xl_node toy_mesh) = toy_lib" "xl_node toy_mesh = toy_node_lib"
  by (simp_all add: toy_mesh_def toy_node_lib_def)

lemma toy_handshake_laws: "handshake_laws toy_mesh"
  using toy_laws(1) by (simp add: handshake_laws_def toy_node_lib_def) (simp add: toy_mesh_def)

section \<open>Handshakes\<close>

theorem handshake_completes_witness:
  "\<exists>b sB' resp. handshake_request_bytes toy_mesh (toy_net 1 10) = Some b
    \<and> handshake_request toy_mesh (toy_net 2 20) ''peerA'' b (toy_mesh_node (toy_node [7])) = (sB', resp)
    \<and> is_confirmed ''peerA'' sB'
    \<and> is_confirmed ''peerB'' (handshake_response toy_mesh (toy_net 3 30) ''peerB'' resp (toy_mesh_node (toy_node [7])))"
  by (rule handshake_completes [OF toy_handshake_laws, where pkA = "[7]" and skA = "[7]" and pkB = "[7]" and skB = "[7]"])
    (simp_all add: toy_laws toy_nonce_fresh toy_node_lib_def)

text \<open>A run in which a peer shakes hands and the timer then fires.\<close>

lemma toy_handshake_run:
  "\<exists>b s. mesh_run toy_mesh (toy_mesh_node (toy_node [7]))
       [LoopEvent (toy_net 2 20) (HandshakeMessage ''peerA'' (Request b)), LoopEvent (toy_net 3 30) HandshakeTick] s
     \<and> is_confirmed ''peerA'' s"
proof -
  let ?s0 = "toy_mesh_node (toy_node [7])"
  obtain b s' where b: "handshake_request toy_mesh (toy_net 2 20) ''peerA'' b ?s0 =
      (s', signed_handshake_response toy_mesh (toy_net 2 20) ''peerA'')" "is_confirmed ''peerA'' s'"
    using handshake_request_confirms [OF toy_handshake_laws, of "toy_net 1 10" "[7]" "[7]" ?s0 "''peerA''" "toy_net 2 20"]
    by (auto simp: toy_laws toy_nonce_fresh toy_node_lib_def)
  let ?m = "LoopEvent (toy_net 2 20) (HandshakeMessage ''peerA'' (Request b))"
  let ?s1 = "handle_event toy_mesh toy_ops (\<lambda>_. toy_net 1 0) (toy_net 2 20) (HandshakeMessage ''peerA'' (Request b)) ?s0"
  let ?s2 = "handle_event toy_mesh toy_ops (\<lambda>_. toy_net 1 0) (toy_net 3 30) HandshakeTick ?s1"
  have s1: "?s1 = call (RespondHandshake ''peerA'' (signed_handshake_response toy_mesh (toy_net 2 20) ''peerA'')) s'"
    by (simp add: handshake_message_event_def b(1))
  have run1: "mesh_run toy_mesh ?s0 [?m] ?s1"
    using mesh_next [OF mesh_start step_loop] by (metis append_Nil toy_mesh_parts(6,8))
  then have "all_confirmed ?s1" using run_handshakes by fastforce
  then have tick: "?s2 = ?s1 \<lparr> mn_peers := nv_all_peers (toy_net 3 30) \<rparr>"
    by (simp only: handle_event.simps handshake_tick_confirmed)
  have "mn_running s'" "mn_applying s' = None"
    using b(1) by (auto simp: handshake_request_def put_nonces_def confirm_def split: prod.splits option.splits)
  then have "mn_running ?s1" "mn_applying ?s1 = None" unfolding s1 by (simp_all add: call_def)
  from mesh_next [OF run1 step_loop [where E = "toy_net 3 30" and ev = HandshakeTick and V = toy_ops
      and Es = "\<lambda>_. toy_net 1 0", OF this]]
  have "mesh_run toy_mesh ?s0 [?m, LoopEvent (toy_net 3 30) HandshakeTick] ?s2"
    by (simp only: append_Cons append_Nil)
  moreover have "is_confirmed ''peerA'' ?s2"
    unfolding tick unfolding s1 using b(2) by (simp add: is_confirmed_def call_def)
  ultimately show ?thesis by blast
qed

theorem confirmed_peer_signed_witness: "\<exists>b. signed_handshake toy_mesh b"
proof -
  obtain b s where r: "mesh_run toy_mesh (toy_mesh_node (toy_node [7]))
       [LoopEvent (toy_net 2 20) (HandshakeMessage ''peerA'' (Request b)), LoopEvent (toy_net 3 30) HandshakeTick] s"
    "is_confirmed ''peerA'' s"
    using toy_handshake_run by blast
  from confirmed_peer_signed [OF r(1) toy_mesh_parts(4) r(2)] show ?thesis by blast
qed

theorem handshake_never_initiated_witness:
  "\<exists>evs s. mesh_run toy_mesh (toy_mesh_node (toy_node [7])) evs s \<and> length evs = 2
     \<and> requests_to ''peerA'' (mn_calls s) = 0"
proof -
  obtain b s where r: "mesh_run toy_mesh (toy_mesh_node (toy_node [7]))
       [LoopEvent (toy_net 2 20) (HandshakeMessage ''peerA'' (Request b)), LoopEvent (toy_net 3 30) HandshakeTick] s"
    using toy_handshake_run by blast
  have "requests_to ''peerA'' (mn_calls s) = 0"
    using handshake_never_initiated [OF r toy_mesh_parts(4,5), of "''peerA''"] by blast
  with r show ?thesis by fastforce
qed

section \<open>Messages\<close>

lemma toy_mesh_verified:
  "\<exists>st v. verify_signed_message toy_lib 10 ''peerA'' (se_bytes toy_signed) (nonces (toy_node k)) = (st, Some v)
     \<and> ve_payload v = [1, 2, 3] \<and> ve_pubkey v = [7]"
  using toy_verified by simp

text \<open>A delete request is received, its task checked and run.\<close>

definition toy_delete_events :: "mesh_event list" where
  "toy_delete_events = [LoopEvent (toy_net 1 10) (DeleteMessage ''peerA'' (Request (se_bytes toy_signed))),
     TaskChecked (''m'', False, [7]), TaskRemoved (''m'', False, [7])]"

lemma toy_delete_run:
  "\<exists>s. mesh_run toy_mesh (toy_mesh_node (toy_node [7])) toy_delete_events s \<and> get_manifest_owner ''m'' (mn_node s) = None"
proof -
  let ?t = "(''m'', False, [7]) :: delete_task" and ?s0 = "toy_mesh_node (toy_node [7])"
  obtain st v where v: "verify_signed_message toy_lib 10 ''peerA'' (se_bytes toy_signed) hm_empty = (st, Some v)"
      "ve_payload v = [1, 2, 3]" "ve_pubkey v = [7]"
    using toy_verified by blast
  define n1 where "n1 = toy_node [7] \<lparr> nonces := st \<rparr>"
  obtain resp where dm: "delete_message toy_lib (nl_delete_request toy_node_lib) 10 ''peerA'' (se_bytes toy_signed)
      (toy_node [7]) = (n1, resp, Some ?t)"
    by (simp add: delete_message_def toy_node_lib_def v toy_delete_def n1_def)
  define s1 where "s1 = call (RespondDelete ''peerA'' resp) (?s0 \<lparr> mn_node := n1, mn_spawned := [?t] \<rparr>)"
  define s2 where "s2 = s1 \<lparr> mn_spawned := [], mn_authorised := [?t] \<rparr>"
  define s3 where "s3 = s2 \<lparr> mn_node := fst (remove_and_report toy_ops ''m'' n1), mn_authorised := [] \<rparr>"
  have own: "get_manifest_owner ''m'' n1 = Some [7]" by (simp add: n1_def get_manifest_owner_def toy_node_def hm_get_def)
  have fr: "mn_node s1 = n1" "mn_spawned s1 = [?t]" "mn_authorised s1 = []" by (simp_all add: s1_def frame)
  have st1: "mesh_step toy_mesh (LoopEvent (toy_net 1 10) (DeleteMessage ''peerA'' (Request (se_bytes toy_signed)))) ?s0 s1"
    using step_loop [where X = toy_mesh and s = ?s0 and E = "toy_net 1 10" and V = toy_ops
        and ev = "DeleteMessage ''peerA'' (Request (se_bytes toy_signed))" and Es = "\<lambda>_. toy_net 1 0"]
    by (simp add: on_delete_message_def dm s1_def toy_node_lib_def [THEN arg_cong, of nl_crypto])
  have st2: "mesh_step toy_mesh (TaskChecked ?t) s1 s2"
    using step_task_checked [of ?t s1 toy_mesh] own
    by (simp add: fr s2_def delete_allowed_def verify_delete_ownership_def)
  have st3: "mesh_step toy_mesh (TaskRemoved ?t) s2 s3"
    using step_task_removed [of ?t s2 toy_mesh toy_ops] fr by (simp add: s2_def s3_def)
  have "mesh_run toy_mesh ?s0 toy_delete_events s3"
    using mesh_next [OF mesh_next [OF mesh_next [OF mesh_start st1] st2] st3] by (simp add: toy_delete_events_def)
  moreover have "runtime_registry_of n1 = Some toy_registry" by (simp add: n1_def)
  from mock_removal [OF this toy_node_ok, of "\<lambda>_. None" "\<lambda>_. True" "\<lambda>_. []" True 0 "\<lambda>_. 0" "''m''"]
  obtain n' removed where "remove_workloads_by_manifest_id toy_ops ''m'' n1 = (n', Inr removed)"
      "get_manifest_owner ''m'' n' = None"
    unfolding toy_ops_def by auto
  then have "get_manifest_owner ''m'' (mn_node s3) = None" by (simp add: s3_def fst_remove_and_report)
  ultimately show ?thesis by auto
qed

theorem owner_record_protected_witness:
  "\<exists>evs1 evs2 force key. toy_delete_events = evs1 @ TaskChecked (''m'', force, key) # evs2
     \<and> delete_received toy_mesh evs1 (''m'', force, key)"
proof -
  obtain s where s: "mesh_run toy_mesh (toy_mesh_node (toy_node [7])) toy_delete_events s"
      "get_manifest_owner ''m'' (mn_node s) = None"
    using toy_delete_run by blast
  have "get_manifest_owner ''m'' (mn_node (toy_mesh_node (toy_node [7]))) = Some [7]" by simp
  moreover have "RestDelete ''m'' \<notin> set toy_delete_events" by (simp add: toy_delete_events_def)
  ultimately show ?thesis
    using owner_record_protected [OF s(1) toy_mesh_parts(2,3) _ s(2)] by blast
qed

text \<open>An envelope that came over gossip is refused afterwards.\<close>

theorem no_replay_across_protocols_witness:
  "\<exists>s1. mesh_step toy_mesh (LoopEvent (toy_net 1 10) (GossipMessage ''peerA'' (se_bytes toy_signed)))
        (toy_mesh_node (toy_node [7])) s1
     \<and> snd (verify_signed_message toy_lib 300 ''peerA'' (se_bytes toy_signed) (nonces (mn_node s1))) = None"
proof -
  let ?s0 = "toy_mesh_node (toy_node [7])"
  let ?ev = "LoopEvent (toy_net 1 10) (GossipMessage ''peerA'' (se_bytes toy_signed))"
  obtain s1 where step: "mesh_step toy_mesh ?ev ?s0 s1" using step_loop toy_mesh_parts(6,8) by blast
  obtain parts where p: "snd (verify_flatbuffer_envelope_for_peer toy_lib 10 NONCE_WINDOW ''peerA''
      (se_bytes toy_signed) hm_empty) = Inr parts"
    using toy_accepted by blast
  obtain e where e: "fb_root_as_envelope toy_lib (se_bytes toy_signed) = Some e" "fe_nonce e = Some ''n1''"
    using toy_signed_root by blast
  have "snd (verify_signed_message (nl_crypto (xl_node toy_mesh)) 300 ''peerA'' (se_bytes toy_signed) (nonces (mn_node s1))) = None"
    using no_replay_across_protocols [OF _ step _ _ _ _ mesh_start, of 10 "''peerA''" "se_bytes toy_signed" parts e 300]
      p e by (simp add: toy_nonce_fresh toy_node_lib_def NONCE_WINDOW_def)
  with step show ?thesis by (auto simp: toy_node_lib_def)
qed

section \<open>A malformed manifest\<close>

text \<open>Every manifest is read as a blob with an empty nonce.\<close>

definition toy_bad_envelope :: envelope where
  "toy_bad_envelope = \<lparr> fe_payload = Some (blob_layout [7] [] [0]), fe_payload_type = Some ''manifest'', fe_nonce = None,
     fe_ts = 0, fe_alg = None, fe_sig = None, fe_pubkey = None, fe_kem_pubkey = None, fe_peer_id = None \<rparr>"

definition toy_malformed :: mesh_lib where
  "toy_malformed = toy_mesh \<lparr> xl_node := toy_node_lib \<lparr> nl_apply_request := (\<lambda>b. if b = [1, 2, 3] then Some toy_apply else None),
     nl_manifest := toy_yaml \<lparr> ml_root_as_envelope := (\<lambda>_. Inr toy_bad_envelope), ml_kem_private_key := Inr [2], ml_kem := toy_kem \<rparr> \<rparr> \<rparr>"

theorem malformed_manifest_stops_network_witness:
  "\<exists>s1 s2. mesh_step toy_malformed (LoopEvent (toy_net 1 10) (ApplyMessage ''peerA'' (Request (se_bytes toy_signed))))
        (toy_mesh_node (toy_node [9])) s1
     \<and> mesh_run toy_malformed s1 [RestDelete ''m''] s2 \<and> mn_calls s2 = []"
proof -
  let ?X = toy_malformed and ?s = "toy_mesh_node (toy_node [9])" and ?E = "toy_net 1 10"
  let ?ev = "LoopEvent ?E (ApplyMessage ''peerA'' (Request (se_bytes toy_signed)))"
  obtain st v where v: "verify_envelope_and_check_nonce_for_peer toy_lib 10 ''peerA'' (se_bytes toy_signed)
      (nonces (toy_node [9])) = (st, Inr v)" "ve_payload v = [1, 2, 3]" using toy_apply_verified by blast
  have X: "nl_crypto (xl_node ?X) = toy_lib" "nl_apply_request (xl_node ?X) [1, 2, 3] = Some toy_apply"
    by (simp_all add: toy_malformed_def toy_node_lib_def)
  have L: "ml_b64_decode (nl_manifest (xl_node ?X)) ''a'' = Inr (bytes_of_string ''a'')"
    "ml_root_as_envelope (nl_manifest (xl_node ?X)) (bytes_of_string ''a'') = Inr toy_bad_envelope"
    "ml_kem_private_key (nl_manifest (xl_node ?X)) = Inr [2]" "ml_kem (nl_manifest (xl_node ?X)) = toy_kem"
    by (simp_all add: toy_malformed_def toy_yaml_def)
  have blob: "fe_payload_type toy_bad_envelope = Some ''manifest''" "fe_payload toy_bad_envelope = Some (blob_layout [7] [] [0])"
    by (simp_all add: toy_bad_envelope_def)
  have kem: "layout_fits [7] [] [0]" "length ([] :: bytes) \<noteq> NONCE_BYTES" "decapsulate_share toy_kem [2] [7] = Inr [7]"
    "kl_aes_key_ok toy_kem [7]"
    by (simp_all add: layout_fits_def NONCE_BYTES_def decapsulate_share_def toy_kem_def)
  have reserved: "snd (has_active_reservation_for_manifest 10 ''m'' (resource_verifier_of (toy_node [9])))"
    by (simp add: has_active_reservation_for_manifest_def prune_expired_reservations_def Let_def toy_node_def
        toy_reservation_def hm_retain_def hm_values_def)
  obtain s1 where step: "mesh_step ?X ?ev ?s s1" using step_loop toy_mesh_parts(6,8) by blast
  obtain s2 where "mesh_step ?X (RestDelete ''m'') s1 s2" using step_rest_delete by blast
  then have run: "mesh_run ?X s1 [RestDelete ''m''] s2" using mesh_next [OF mesh_start] by fastforce
  have "mn_calls s2 = mn_calls ?s \<and> mn_replies s2 = mn_replies ?s \<and> (\<forall>ev \<in> set [RestDelete ''m'']. \<not> of_network_task ev)"
    by (rule malformed_manifest_stops_network [OF step _ _ _ _ _ _ _ L(1,2) blob kem(1,2) L(3) kem(3,4) [folded L(4)] run,
          where E = ?E and p = "''peerA''" and b = "se_bytes toy_signed" and st = st and v = v and ar = toy_apply and m = "''m''"])
      (use v reserved in \<open>simp_all add: X toy_apply_def\<close>)
  with step run show ?thesis by auto
qed

text \<open>A capacity request is answered by a node with four cores.\<close>

definition toy_host_node :: "mock_engine node" where
  "toy_host_node = toy_node [7] \<lparr> resource_verifier_of := host4 \<rparr>"

theorem node_never_overbooks_witness:
  "\<exists>s. mesh_run toy_mesh (toy_mesh_node toy_host_node)
        [LoopEvent (toy_net 1 10) (SchedulerMessage ''peerA'' (Request (se_bytes toy_signed)))] s
     \<and> reserved_sum cr_cpu_milli (resource_verifier_of (mn_node s)) \<le> 3600"
proof -
  let ?s0 = "toy_mesh_node toy_host_node"
  let ?evs = "[LoopEvent (toy_net 1 10) (SchedulerMessage ''peerA'' (Request (se_bytes toy_signed)))]"
  obtain s where "mesh_step toy_mesh (hd ?evs) ?s0 s" using step_loop toy_mesh_parts(6,8) by (metis list.sel(1))
  then have run: "mesh_run toy_mesh ?s0 ?evs s" using mesh_next [OF mesh_start] by fastforce
  have "\<forall>ev \<in> set ?evs. has_profile Debug ev" by (simp add: toy_capacity_env_def)
  moreover have "resource_verifier_of (mn_node ?s0) = host4" by (simp add: toy_host_node_def)
  moreover have "reservations host4 = hm_empty" "totals_representable (system_resources_of host4)"
    "unat (total_cpu_milli (system_resources_of host4)) * 90 div 100
       - unat (allocated_cpu_milli (system_resources_of host4)) = 3600"
    by (simp_all add: host4_eval)
  ultimately have "reserved_sum cr_cpu_milli (resource_verifier_of (mn_node s)) \<le> 3600"
    using node_never_overbooks [OF run] by metis
  with run show ?thesis by blast
qed

section \<open>Announcements and lookups\<close>

theorem announce_outcome_witness:
  "hm_get (mn_announces (handle_control_message toy_mesh toy_ops (toy_net 1 10) (AnnounceProvider ''cid'' 9000 4)
      (toy_mesh_node (toy_node [7])))) ''cid'' = Some \<lparr> ann_ttl_ms = 9000, ann_next_due = 3000000010 \<rparr>"
proof -
  have "\<exists>k < 3. nv_start_providing (toy_net 1 10) k = Inr ()" by (rule exI [of _ 0]) simp
  then show ?thesis
    using announce_outcome [OF refl, where X = toy_mesh and V = toy_ops and E = "toy_net 1 10" and cid = "''cid''"
        and ttl = 9000 and tx = 4 and s = "toy_mesh_node (toy_node [7])"]
    by (simp add: renewal_interval_def max_def)
qed

definition toy_announcing :: "mock_engine mesh_node" where
  "toy_announcing = (toy_mesh_node (toy_node [7])) \<lparr> mn_announces :=
     [(''cid'', \<lparr> ann_ttl_ms = 9000, ann_next_due = 5 \<rparr>), (''later'', \<lparr> ann_ttl_ms = 9000, ann_next_due = 50 \<rparr>)] \<rparr>"

theorem due_announcement_renewed_witness:
  "provides ''cid'' (mn_calls (renew_due_providers (toy_net 1 10) toy_announcing)) = 1
   \<and> provides ''later'' (mn_calls (renew_due_providers (toy_net 1 10) toy_announcing)) = 0"
proof -
  have h: "hm_wf (mn_announces toy_announcing)"
    "hm_get (mn_announces toy_announcing) ''cid'' = Some \<lparr> ann_ttl_ms = 9000, ann_next_due = 5 \<rparr>"
    "hm_get (mn_announces toy_announcing) ''later'' = Some \<lparr> ann_ttl_ms = 9000, ann_next_due = 50 \<rparr>"
    "nv_connected (toy_net 1 10) \<noteq> []" "mn_calls toy_announcing = []"
    by (simp_all add: toy_announcing_def hm_wf_def hm_get_def)
  show ?thesis
    using due_announcement_renewed [OF h(1,2,4)] due_announcement_renewed [OF h(1,3,4)] by (simp add: h(5))
qed

theorem withdrawal_starts_providing_witness:
  "mn_calls (handle_control_message toy_mesh toy_ops (toy_net 1 10) (WithdrawProvider ''cid'' 4) toy_announcing)
     = [StartProviding ''cid'' True]"
proof -
  have "nv_connected (toy_net 1 10) \<noteq> []" "nv_start_providing (toy_net 1 10) 0 = Inr ()" by simp_all
  from withdrawal_starts_providing [OF this, of toy_mesh toy_ops "''cid''" 4 toy_announcing 0]
  have "mn_calls (handle_control_message toy_mesh toy_ops (toy_net 1 10) (WithdrawProvider ''cid'' 4) toy_announcing)
      = mn_calls toy_announcing @ [StartProviding ''cid'' True]" by blast
  then show ?thesis by (simp add: toy_announcing_def del: handle_control_message.simps)
qed

theorem lookup_answered_once_witness:
  "replies_on 4 (fold (kademlia_event toy_mesh)
      [OutboundQueryProgressed 6 (ProvidersFound [''z'']), OutboundQueryProgressed 5 (ProvidersFound [''a'']),
       OutboundQueryProgressed 5 (ProvidersFound [''b''])]
      (handle_control_message toy_mesh toy_ops (toy_net 1 10) (FindManifestHolders ''m'' 4)
         (toy_mesh_node (toy_node [7])))) = [PeersReply [''a'']]
   \<and> replies_on 4 (fold (kademlia_event toy_mesh) [OutboundQueryProgressed 5 ProvidersFinished]
      (handle_control_message toy_mesh toy_ops (toy_net 1 10) (FindManifestHolders ''m'' 4)
         (toy_mesh_node (toy_node [7])))) = []"
proof -
  have inj: "inj (xl_show_query toy_mesh)"
    by (rule injI) (simp add: toy_mesh_def replicate_eq_replicate)
  have "replies_on 4 (toy_mesh_node (toy_node [7])) = []" by (simp add: replies_on_def toy_mesh_node_def)
  moreover note outcome = lookup_answered_once [where V = toy_ops and E = "toy_net 1 10" and m = "''m''" and tx = 4
      and s = "toy_mesh_node (toy_node [7])", OF inj _ refl]
  ultimately show ?thesis
    using outcome [of "[OutboundQueryProgressed 6 (ProvidersFound [''z'']),
        OutboundQueryProgressed 5 (ProvidersFound [''a'']), OutboundQueryProgressed 5 (ProvidersFound [''b''])]"]
      outcome [of "[OutboundQueryProgressed 5 ProvidersFinished]"]
    by (simp del: fold_simps handle_control_message.simps)
qed

end
