(* ===== verification/Cli_Client.thy ===== *)
theory Cli_Client
  imports Keypairs Scheduler Messages
begin

text \<open>
  The command line client, \<open>cli/src\<close>: the HTTP client that seals requests and opens replies
  (\<open>flatbuffers.rs\<close>), \<open>apply_file\<close> and \<open>delete_file\<close> (\<open>lib.rs\<close>), and the envelope builder
  (\<open>flatbuffer_envelope.rs\<close>). The node it talks to is any function from requests to replies over a
  state of its own; every request is also kept, with its reply, in a log. Random values are read from a sequence
  indexed by the number of requests sent so far. A result is a panic (\<^const>\<open>None\<close>), an error or a
  value; progress output is left out.
\<close>

section \<open>The environment\<close>

datatype http_method = GET | POST | DELETE

record http_call =
  hc_method :: http_method
  hc_url :: string
  hc_content_type :: "string option"
  hc_peer_id :: "string option"
  hc_body :: bytes

text \<open>No answer, or a status and a body, if the body can be read.\<close>

datatype http_reply = NoConnection string | Reply nat "bytes option"

datatype cli_error =
    FileNotFound
  | FileUnreadable string
  | KeyFailure string
  | NameMissing
  | NotConnected string
  | BadStatus nat
  | BodyUnreadable
  | MachineError string
  | NotBase64
  | NotAnEnvelope
  | BlobError blob_error
  | SealingFailed sealing_error
  | NotUtf8
  | NotJson string
  | NoCandidates
  | NotEnoughCandidates nat nat
  | CandidateFormat string
  | SchedulingFailed scheduling_error
  | MissingPubkey string
  | NotSerialisable string
  | BadResponse string
  | ApplyFailed string string
  | DeleteFailed string

text \<open>The random values and the time of one request.\<close>

record draw =
  dw_randomness :: bytes
  dw_aes_nonce :: bytes
  dw_time_hash :: u64
  dw_secs :: u64
  dw_millis :: u64
  dw_nonce :: bytes
  dw_manifest_randomness :: bytes
  dw_manifest_aes_nonce :: bytes
  dw_uuid :: string

record ('f, 'w) cli_env =
  cv_crypto :: crypto_lib
  cv_kem :: kem_lib
  cv_keys :: "'f key_env"
  cv_new_signing :: "nat \<Rightarrow> string + keypair"
  cv_new_kem :: "string + keypair"
  cv_exists :: bool
  cv_contents :: "string + string"
  cv_parse_yaml :: "string \<Rightarrow> json option"
  cv_print_json :: "json \<Rightarrow> string + string"
  cv_parse_json :: "string \<Rightarrow> string + json"
  cv_hash :: "bytes \<Rightarrow> string \<Rightarrow> u64"
  cv_api_var :: "string option"
  cv_debug_log :: bool
  cv_sched :: sched_env
  cv_draw :: "nat \<Rightarrow> draw"
  cv_apply_request :: "apply_request \<Rightarrow> bytes"
  cv_delete_request :: "delete_request \<Rightarrow> bytes"
  cv_root_apply_response :: "bytes \<Rightarrow> string + (bool \<times> string option)"
  cv_root_delete_response :: "bytes \<Rightarrow> string + (bool \<times> string option)"
  cv_root_candidates_response :: "bytes \<Rightarrow> (bool \<times> (string option \<times> string option) list option) option"
  cv_server :: "http_call \<Rightarrow> 'w \<Rightarrow> 'w \<times> http_reply"

record ('f, 'w) cli_state =
  cs_keys :: "'f key_state"
  cs_server :: 'w
  cs_log :: "(http_call \<times> http_reply) list"

type_synonym ('s, 'a) cli_run = "'s \<Rightarrow> 's \<times> (cli_error + 'a) option"

text \<open>Early return of an error: the operator \<open>?\<close> of the source.\<close>

definition try_then :: "('s, 'a) cli_run \<Rightarrow> ('a \<Rightarrow> ('s, 'b) cli_run) \<Rightarrow> ('s, 'b) cli_run" where
  "try_then m f s =
     (case m s of
        (s', None) \<Rightarrow> (s', None)
      | (s', Some (Inl e)) \<Rightarrow> (s', Some (Inl e))
      | (s', Some (Inr x)) \<Rightarrow> f x s')"

definition fail :: "cli_error \<Rightarrow> ('s, 'a) cli_run" where
  "fail e s = (s, Some (Inl e))"

definition return :: "'a \<Rightarrow> ('s, 'a) cli_run" where
  "return x s = (s, Some (Inr x))"

definition lift :: "(cli_error + 'a) option \<Rightarrow> ('s, 'a) cli_run" where
  "lift r s = (s, r)"

definition map_err :: "('e \<Rightarrow> cli_error) \<Rightarrow> 'e + 'a \<Rightarrow> cli_error + 'a" where
  "map_err f r = (case r of Inl e \<Rightarrow> Inl (f e) | Inr x \<Rightarrow> Inr x)"

definition with_keys ::
  "('f key_state \<Rightarrow> 'f key_state \<times> (string + 'a)) \<Rightarrow> (('f, 'w) cli_state, 'a) cli_run" where
  "with_keys f s = (case f (cs_keys s) of (k, r) \<Rightarrow> (s \<lparr> cs_keys := k \<rparr>, Some (map_err KeyFailure r)))"

definition http :: "('f, 'w) cli_env \<Rightarrow> http_call \<Rightarrow> ('f, 'w) cli_state \<Rightarrow> ('f, 'w) cli_state \<times> http_reply" where
  "http V c s = (case cv_server V c (cs_server s) of
     (w, r) \<Rightarrow> (s \<lparr> cs_server := w, cs_log := cs_log s @ [(c, r)] \<rparr>, r))"

definition current_draw :: "('f, 'w) cli_env \<Rightarrow> ('f, 'w) cli_state \<Rightarrow> draw" where
  "current_draw V s = cv_draw V (length (cs_log s))"

section \<open>The HTTP client\<close>

record flatbuffer_client =
  fc_base_url :: string
  fc_private_key :: bytes
  fc_public_key :: string
  fc_kem_public_key :: bytes
  fc_kem_private_key :: bytes
  fc_machine_public_key :: "bytes option"

definition flatbuffer_client_new ::
  "('f, 'w) cli_env \<Rightarrow> string \<Rightarrow> (('f, 'w) cli_state, flatbuffer_client) cli_run" where
  "flatbuffer_client_new V base_url =
     try_then (lift (Some (map_err KeyFailure (ke_pqc_init (cv_keys V))))) (\<lambda>_.
     try_then (with_keys (ensure_keypair_on_disk (cv_keys V) (cv_new_signing V 1))) (\<lambda>(public_key_bytes, private_key).
     try_then (with_keys (ensure_kem_keypair_on_disk (cv_keys V) (cv_new_kem V))) (\<lambda>(kem_pub_bytes, kem_priv_bytes).
       return \<lparr> fc_base_url = base_url, fc_private_key = private_key,
                fc_public_key = b64_encode (cv_crypto V) public_key_bytes, fc_kem_public_key = kem_pub_bytes,
                fc_kem_private_key = kem_priv_bytes, fc_machine_public_key = None \<rparr>)))"

definition is_success :: "nat \<Rightarrow> bool" where
  "is_success status \<longleftrightarrow> 200 \<le> status \<and> status < 300"

definition fetch_machine_public_key ::
  "('f, 'w) cli_env \<Rightarrow> flatbuffer_client \<Rightarrow> (('f, 'w) cli_state, flatbuffer_client) cli_run" where
  "fetch_machine_public_key V c s =
     (case http V \<lparr> hc_method = GET, hc_url = fc_base_url c @ ''/api/v1/kem_pubkey'', hc_content_type = None,
                    hc_peer_id = None, hc_body = [] \<rparr> s of
        (s, NoConnection e) \<Rightarrow> fail (NotConnected e) s
      | (s, Reply status body) \<Rightarrow>
          if \<not> is_success status then fail (BadStatus status) s
          else (case body of
                  None \<Rightarrow> fail BodyUnreadable s
                | Some b \<Rightarrow>
                    (let pubkey_b64 = from_utf8_lossy b in
                     if starts_with pubkey_b64 ''ERROR:'' then fail (MachineError pubkey_b64) s
                     else case b64_decode (cv_crypto V) pubkey_b64 of
                            None \<Rightarrow> fail NotBase64 s
                          | Some pubkey_bytes \<Rightarrow> return (c \<lparr> fc_machine_public_key := Some pubkey_bytes \<rparr>) s)))"

definition decrypt_from_machine :: "('f, 'w) cli_env \<Rightarrow> flatbuffer_client \<Rightarrow> bytes \<Rightarrow> (cli_error + bytes) option" where
  "decrypt_from_machine V c envelope_bytes =
     (case fb_root_as_envelope (cv_crypto V) envelope_bytes of
        None \<Rightarrow> Some (Inl NotAnEnvelope)
      | Some e \<Rightarrow>
          (let payload_bytes = or_empty (fe_payload e) in
           if payload_bytes \<noteq> [] \<and> hd payload_bytes = 2
           then map_option (map_err BlobError)
                  (decrypt_payload_from_recipient_blob (cv_kem V) payload_bytes (fc_kem_private_key c))
           else Some (Inr payload_bytes)))"

text \<open>
  The signed envelope without encryption, used if the key of the machine is not known, and by
  \<open>send_unencrypted_request\<close> with another nonce.
\<close>

definition signed_request ::
  "('f, 'w) cli_env \<Rightarrow> flatbuffer_client \<Rightarrow> string \<Rightarrow> u64 \<Rightarrow> bytes \<Rightarrow> string \<Rightarrow> cli_error + bytes" where
  "signed_request V c nonce ts payload payload_type =
     (let L = cv_crypto V; kem_pub_b64 = b64_encode L (fc_kem_public_key c);
          canonical = build_envelope_canonical_with_peer L payload payload_type nonce ts ''ml-dsa-65''
                        ''cli-client'' (Some kem_pub_b64) in
      case b64_decode L (fc_public_key c) of
        None \<Rightarrow> Inl NotBase64
      | Some pk \<Rightarrow>
          (case sign_envelope L (fc_private_key c) pk canonical of
             Inl e \<Rightarrow> Inl (SealingFailed (SealSign e))
           | Inr (sig_b64, pub_b64) \<Rightarrow>
               Inr (build_envelope_signed_with_peer L payload payload_type nonce ts ''ml-dsa-65'' ''ml-dsa-65''
                      sig_b64 pub_b64 ''cli-client'' (Some kem_pub_b64))))"

definition seal_request ::
  "('f, 'w) cli_env \<Rightarrow> flatbuffer_client \<Rightarrow> draw \<Rightarrow> bytes \<Rightarrow> string \<Rightarrow> cli_error + bytes" where
  "seal_request V c d payload payload_type =
     (case fc_machine_public_key c of
        Some machine_pubkey \<Rightarrow>
          map_err SealingFailed
            (build_encrypted_envelope_with_peer (cv_crypto V) (cv_kem V) (dw_randomness d) (dw_aes_nonce d)
              (dw_time_hash d) (dw_secs d) payload payload_type machine_pubkey (fc_private_key c) (fc_public_key c)
              ''cli-client'' (Some (b64_encode (cv_crypto V) (fc_kem_public_key c))))
      | None \<Rightarrow>
          signed_request V c (b64_encode (cv_crypto V) (dw_nonce d)) (dw_secs d) payload payload_type)"

text \<open>A reply that looks like an envelope is opened; what cannot be opened is returned as it came.\<close>

definition open_reply :: "('f, 'w) cli_env \<Rightarrow> flatbuffer_client \<Rightarrow> bytes \<Rightarrow> bytes option" where
  "open_reply V c response_bytes =
     (if length response_bytes > 100 \<and> fc_machine_public_key c \<noteq> None
      then (case fb_root_as_envelope (cv_crypto V) response_bytes of
              Some _ \<Rightarrow>
                (case decrypt_from_machine V c response_bytes of
                   None \<Rightarrow> None
                 | Some (Inr decrypted) \<Rightarrow> Some decrypted
                 | Some (Inl _) \<Rightarrow> Some response_bytes)
            | None \<Rightarrow> Some response_bytes)
      else Some response_bytes)"

definition envelope_call :: "http_method \<Rightarrow> string \<Rightarrow> bytes \<Rightarrow> http_call" where
  "envelope_call meth url envelope =
     \<lparr> hc_method = meth, hc_url = url, hc_content_type = Some ''application/octet-stream'',
       hc_peer_id = Some ''cli-client'', hc_body = envelope \<rparr>"

definition send_unencrypted_request ::
  "('f, 'w) cli_env \<Rightarrow> flatbuffer_client \<Rightarrow> string \<Rightarrow> bytes \<Rightarrow> string \<Rightarrow> (('f, 'w) cli_state, bytes) cli_run" where
  "send_unencrypted_request V c url payload payload_type s =
     (let d = current_draw V s in
      case signed_request V c (to_hex (unat (dw_time_hash d))) (dw_secs d) payload payload_type of
        Inl e \<Rightarrow> fail e s
      | Inr envelope \<Rightarrow>
          (case http V (envelope_call POST url envelope) s of
             (s, NoConnection e) \<Rightarrow> fail (NotConnected e) s
           | (s, Reply status body) \<Rightarrow>
               if \<not> is_success status then fail (BadStatus status) s
               else (case body of None \<Rightarrow> fail BodyUnreadable s | Some b \<Rightarrow> return b s)))"

text \<open>What is made of a status and a body: a status of 405 counts as an answer in plain text.\<close>

definition read_reply :: "('f, 'w) cli_env \<Rightarrow> flatbuffer_client \<Rightarrow> nat \<Rightarrow> bytes option \<Rightarrow> (cli_error + bytes) option" where
  "read_reply V c status body =
     (case body of
        None \<Rightarrow> Some (Inl BodyUnreadable)
      | Some b \<Rightarrow>
          if status = 405 then Some (Inr (bytes_of_string (from_utf8_lossy b)))
          else if \<not> is_success status then Some (Inl (BadStatus status))
          else map_option Inr (open_reply V c b))"

definition send_encrypted_request ::
  "('f, 'w) cli_env \<Rightarrow> flatbuffer_client \<Rightarrow> string \<Rightarrow> bytes \<Rightarrow> string \<Rightarrow> (('f, 'w) cli_state, bytes) cli_run" where
  "send_encrypted_request V c url payload payload_type s =
     (case seal_request V c (current_draw V s) payload payload_type of
        Inl e \<Rightarrow> fail e s
      | Inr envelope \<Rightarrow>
          (case http V (envelope_call POST url envelope) s of
             (s, NoConnection e) \<Rightarrow> fail (NotConnected e) s
           | (s, Reply status body) \<Rightarrow> lift (read_reply V c status body) s))"

definition send_delete_request ::
  "('f, 'w) cli_env \<Rightarrow> flatbuffer_client \<Rightarrow> string \<Rightarrow> bytes \<Rightarrow> (('f, 'w) cli_state, bytes) cli_run" where
  "send_delete_request V c url body s =
     (case seal_request V c (current_draw V s) body ''delete_request'' of
        Inl e \<Rightarrow> fail e s
      | Inr envelope \<Rightarrow>
          (case http V (envelope_call DELETE url envelope) s of
             (s, NoConnection e) \<Rightarrow> fail (NotConnected e) s
           | (s, Reply status reply_body) \<Rightarrow>
               (case reply_body of
                  None \<Rightarrow> fail BodyUnreadable s
                | Some b \<Rightarrow>
                    if \<not> is_success status then fail (BadStatus status) s
                    else lift (map_option Inr (open_reply V c b)) s)))"

definition trim_end_slashes :: "string \<Rightarrow> string" where
  "trim_end_slashes s = rev (dropWhile (\<lambda>ch. ch = CHR ''/'') (rev s))"

text \<open>The peers that a reply names, as \<open>peer:key\<close>.\<close>

definition read_candidates :: "('f, 'w) cli_env \<Rightarrow> bytes \<Rightarrow> cli_error + string list" where
  "read_candidates V response_bytes =
     (case cv_root_candidates_response V response_bytes of
        Some (ok, candidates) \<Rightarrow>
          if ok then Inr (List.map_filter (\<lambda>(peer_id, public_key).
                            map_option (\<lambda>p. p @ '':'' @ or_empty public_key) peer_id)
                          (or_empty candidates))
          else Inr []
      | None \<Rightarrow>
          (case from_utf8 response_bytes of
             None \<Rightarrow> Inl NotUtf8
           | Some response_str \<Rightarrow>
               if trim response_str = [] then Inr []
               else (case cv_parse_json V response_str of
                       Inl e \<Rightarrow> Inl (NotJson e)
                     | Inr response_json \<Rightarrow>
                         (let responders = (case json_get ''responders'' response_json of
                                              Some (JArray vs) \<Rightarrow> vs | _ \<Rightarrow> []) in
                          Inr (List.map_filter json_as_str responders)))))"

definition cli_get_candidates ::
  "('f, 'w) cli_env \<Rightarrow> flatbuffer_client \<Rightarrow> string \<Rightarrow> (('f, 'w) cli_state, string list) cli_run" where
  "cli_get_candidates V c task_id =
     try_then (send_encrypted_request V c
                 (trim_end_slashes (fc_base_url c) @ ''/tasks/'' @ task_id @ ''/candidates'') [] ''candidates_request'')
       (\<lambda>response_bytes. lift (Some (read_candidates V response_bytes)))"

section \<open>Applying a file\<close>

definition extract_manifest_name_from_json :: "json \<Rightarrow> string option" where
  "extract_manifest_name_from_json manifest_json =
     Option.bind (json_get ''metadata'' manifest_json) (\<lambda>md. Option.bind (json_get ''name'' md) json_as_str)"

definition manifest_json_of :: "('f, 'w) cli_env \<Rightarrow> string \<Rightarrow> json" where
  "manifest_json_of V contents =
     (case cv_parse_yaml V contents of Some v \<Rightarrow> v | None \<Rightarrow> JObject [(''raw'', JString contents)])"

definition replicas_of :: "json \<Rightarrow> nat" where
  "replicas_of manifest_json =
     (case Option.bind (json_get ''spec'' manifest_json) (\<lambda>sp. Option.bind (json_get ''replicas'' sp) json_as_u64) of
        Some r \<Rightarrow> unat r
      | None \<Rightarrow>
          (case Option.bind (json_get ''replicas'' manifest_json) json_as_u64 of Some r \<Rightarrow> unat r | None \<Rightarrow> 1))"

text \<open>A number in hexadecimal, filled up with zeros to 16 digits.\<close>

definition hex16 :: "u64 \<Rightarrow> string" where
  "hex16 h = (let s = to_hex (unat h) in replicate (16 - length s) (CHR ''0'') @ s)"

text \<open>
  The id is made of the public key and the name. If debug messages are on, the first eight bytes
  of the key are printed, and a shorter key is a panic.
\<close>

definition compute_cli_manifest_id ::
  "('f, 'w) cli_env \<Rightarrow> bytes \<Rightarrow> json \<Rightarrow> (cli_error + string) option" where
  "compute_cli_manifest_id V pk_bytes manifest_json =
     (case extract_manifest_name_from_json manifest_json of
        None \<Rightarrow> Some (Inl NameMissing)
      | Some name \<Rightarrow>
          if cv_debug_log V \<and> length pk_bytes < 8 then None
          else Some (Inr (take 16 (hex16 (cv_hash V pk_bytes name)))))"

definition api_base_url :: "('f, 'w) cli_env \<Rightarrow> string option \<Rightarrow> string" where
  "api_base_url V api_base =
     (case api_base of Some s \<Rightarrow> s
      | None \<Rightarrow> (case cv_api_var V of Some s \<Rightarrow> s | None \<Rightarrow> ''http://127.0.0.1:3000''))"

definition candidate_named :: "string \<Rightarrow> node_candidate" where
  "candidate_named peer_id = \<lparr> node_id = peer_id, load_factor = Num (Finite 0), nc_available = True,
     capabilities = default_node_capabilities \<rparr>"

fun parse_peers ::
  "string list \<Rightarrow> node_candidate list \<Rightarrow> (string, string) hmap \<Rightarrow> cli_error + node_candidate list \<times> (string, string) hmap" where
  "parse_peers [] node_candidates peer_info_map = Inr (node_candidates, peer_info_map)"
| "parse_peers (peer # peers) node_candidates peer_info_map =
     (case split_at_colon peer of
        Some (peer_id, pubkey_b64) \<Rightarrow>
          parse_peers peers
            (node_candidates @ [candidate_named peer_id])
            (hm_insert peer_id pubkey_b64 peer_info_map)
      | None \<Rightarrow> Inl (CandidateFormat peer))"

fun nodes_of_plan ::
  "node_candidate list \<Rightarrow> (string, string) hmap \<Rightarrow> nat list \<Rightarrow> (cli_error + (string \<times> string) list) option" where
  "nodes_of_plan node_candidates peer_info_map [] = Some (Inr [])"
| "nodes_of_plan node_candidates peer_info_map (i # idxs) =
     (if length node_candidates \<le> i then None
      else let nid = node_id (node_candidates ! i) in
           case hm_get peer_info_map nid of
             None \<Rightarrow> Some (Inl (MissingPubkey nid))
           | Some pubkey_b64 \<Rightarrow>
               map_option (map_sum id ((#) (nid, pubkey_b64))) (nodes_of_plan node_candidates peer_info_map idxs))"

definition cli_scheduler :: scheduler where
  "cli_scheduler = scheduler_new \<lparr> max_candidates = None, sc_strategy = RoundRobin, enable_load_balancing = False \<rparr>"

definition select_nodes :: "('f, 'w) cli_env \<Rightarrow> string list \<Rightarrow> nat \<Rightarrow> (cli_error + (string \<times> string) list) option" where
  "select_nodes V peers replicas =
     (case parse_peers peers [] hm_empty of
        Inl e \<Rightarrow> Some (Inl e)
      | Inr (node_candidates, peer_info_map) \<Rightarrow>
          (case snd (schedule_workload (cv_sched V) node_candidates replicas cli_scheduler) of
             None \<Rightarrow> None
           | Some (Inl e) \<Rightarrow> Some (Inl (SchedulingFailed e))
           | Some (Inr plan) \<Rightarrow> nodes_of_plan node_candidates peer_info_map (selected_candidates plan)))"

text \<open>The request for one node; \<open>ts\<close> is the time at which the loop began.\<close>

definition node_request ::
  "('f, 'w) cli_env \<Rightarrow> draw \<Rightarrow> u64 \<Rightarrow> string \<Rightarrow> string \<Rightarrow> string \<Rightarrow> cli_error + apply_request" where
  "node_request V d ts manifest_id manifest_str node_pubkey =
     (case b64_decode (cv_crypto V) node_pubkey of
        None \<Rightarrow> Inl NotBase64
      | Some node_pubkey_bytes \<Rightarrow>
          (case encrypt_payload_for_recipient (cv_kem V) (dw_manifest_randomness d) (dw_manifest_aes_nonce d)
                  node_pubkey_bytes (bytes_of_string manifest_str) of
             Inl e \<Rightarrow> Inl (BlobError e)
           | Inr encrypted_blob \<Rightarrow>
               (let encrypted_manifest_bytes = build_envelope_canonical_with_peer (cv_crypto V) encrypted_blob
                      ''manifest'' [] ts ''ml-kem-512'' [] None in
                Inr (build_apply_request 1 (dw_uuid d) (b64_encode (cv_crypto V) encrypted_manifest_bytes) []
                       manifest_id))))"

definition apply_to_node ::
  "('f, 'w) cli_env \<Rightarrow> flatbuffer_client \<Rightarrow> u64 \<Rightarrow> string \<Rightarrow> string \<Rightarrow> string \<times> string \<Rightarrow> (('f, 'w) cli_state, unit) cli_run" where
  "apply_to_node V c ts manifest_id manifest_str target s =
     (case target of (nid, node_pubkey) \<Rightarrow>
        try_then (lift (Some (node_request V (current_draw V s) ts manifest_id manifest_str node_pubkey))) (\<lambda>request.
        try_then (send_encrypted_request V c (trim_end_slashes (fc_base_url c) @ ''/apply_direct/'' @ nid)
                    (cv_apply_request V request) ''apply_request'') (\<lambda>response_bytes.
        try_then (lift (Some (map_err BadResponse (cv_root_apply_response V response_bytes)))) (\<lambda>(ok, message).
          if \<not> ok then fail (ApplyFailed nid (case message of Some m \<Rightarrow> m | None \<Rightarrow> ''unknown error''))
          else return ()))) s)"

fun apply_to_nodes ::
  "('f, 'w) cli_env \<Rightarrow> flatbuffer_client \<Rightarrow> u64 \<Rightarrow> string \<Rightarrow> string \<Rightarrow> (string \<times> string) list
     \<Rightarrow> (('f, 'w) cli_state, unit) cli_run" where
  "apply_to_nodes V c ts manifest_id manifest_str [] = return ()"
| "apply_to_nodes V c ts manifest_id manifest_str (target # targets) =
     try_then (apply_to_node V c ts manifest_id manifest_str target)
       (\<lambda>_. apply_to_nodes V c ts manifest_id manifest_str targets)"

definition read_manifest_file :: "('f, 'w) cli_env \<Rightarrow> (('f, 'w) cli_state, json) cli_run" where
  "read_manifest_file V =
     (if \<not> cv_exists V then fail FileNotFound
      else case cv_contents V of
             Inl e \<Rightarrow> fail (FileUnreadable e)
           | Inr contents \<Rightarrow> return (manifest_json_of V contents))"

text \<open>
  The part that \<open>apply_file\<close> and \<open>delete_file\<close> begin with: the manifest and its id. Then the node is
  asked for its key, and the rest depends on the command.
\<close>

definition identify_manifest :: "('f, 'w) cli_env \<Rightarrow> (('f, 'w) cli_state, json \<times> string) cli_run" where
  "identify_manifest V =
     try_then (read_manifest_file V) (\<lambda>manifest_json.
     try_then (with_keys (ensure_keypair_on_disk (cv_keys V) (cv_new_signing V 0))) (\<lambda>(pk_bytes, _).
     try_then (lift (compute_cli_manifest_id V pk_bytes manifest_json)) (\<lambda>manifest_id.
       return (manifest_json, manifest_id))))"

definition connect :: "('f, 'w) cli_env \<Rightarrow> string option \<Rightarrow> (('f, 'w) cli_state, flatbuffer_client) cli_run" where
  "connect V api_base = try_then (flatbuffer_client_new V (api_base_url V api_base)) (fetch_machine_public_key V)"

text \<open>All nodes get the time at which the first is asked.\<close>

definition apply_to_selected ::
  "('f, 'w) cli_env \<Rightarrow> flatbuffer_client \<Rightarrow> string \<Rightarrow> string \<Rightarrow> (string \<times> string) list \<Rightarrow> (('f, 'w) cli_state, unit) cli_run" where
  "apply_to_selected V c manifest_id manifest_str selected_nodes s =
     apply_to_nodes V c (dw_millis (current_draw V s)) manifest_id manifest_str selected_nodes s"

definition distribute_manifest ::
  "('f, 'w) cli_env \<Rightarrow> json \<Rightarrow> string \<Rightarrow> flatbuffer_client \<Rightarrow> (('f, 'w) cli_state, string) cli_run" where
  "distribute_manifest V manifest_json manifest_id c =
     (let replicas = replicas_of manifest_json in
      try_then (cli_get_candidates V c manifest_id) (\<lambda>peers.
        if peers = [] then fail NoCandidates
        else if length peers < replicas then fail (NotEnoughCandidates replicas (length peers))
        else
          try_then (lift (select_nodes V peers replicas)) (\<lambda>selected_nodes.
          try_then (lift (Some (map_err NotSerialisable (cv_print_json V manifest_json)))) (\<lambda>manifest_str.
          try_then (apply_to_selected V c manifest_id manifest_str selected_nodes) (\<lambda>_.
            return manifest_id)))))"

definition apply_file ::
  "('f, 'w) cli_env \<Rightarrow> string option \<Rightarrow> (('f, 'w) cli_state, string) cli_run" where
  "apply_file V api_base =
     try_then (identify_manifest V) (\<lambda>(manifest_json, manifest_id).
     try_then (connect V api_base) (distribute_manifest V manifest_json manifest_id))"

definition request_deletion ::
  "('f, 'w) cli_env \<Rightarrow> bool \<Rightarrow> string \<Rightarrow> flatbuffer_client \<Rightarrow> (('f, 'w) cli_state, string) cli_run" where
  "request_deletion V force manifest_id c s =
     (let operation_id = dw_uuid (current_draw V s);
          request = build_delete_request manifest_id operation_id [] force in
      try_then (send_delete_request V c (trim_end_slashes (fc_base_url c) @ ''/tasks/'' @ manifest_id)
                  (cv_delete_request V request)) (\<lambda>response_bytes.
      try_then (lift (Some (map_err BadResponse (cv_root_delete_response V response_bytes)))) (\<lambda>(ok, message).
        if \<not> ok then fail (DeleteFailed (case message of Some m \<Rightarrow> m | None \<Rightarrow> ''unknown error''))
        else return manifest_id)) s)"

definition delete_file ::
  "('f, 'w) cli_env \<Rightarrow> bool \<Rightarrow> string option \<Rightarrow> (('f, 'w) cli_state, string) cli_run" where
  "delete_file V force api_base =
     try_then (identify_manifest V) (\<lambda>(manifest_json, manifest_id).
     try_then (connect V api_base) (request_deletion V force manifest_id))"

section \<open>The envelope builder\<close>

record flatbuffer_envelope_builder =
  eb_peer_id :: string
  eb_public_key :: string

definition build_manifest_envelope ::
  "crypto_lib \<Rightarrow> bytes \<Rightarrow> u64 \<Rightarrow> flatbuffer_envelope_builder \<Rightarrow> bytes \<Rightarrow> bytes \<Rightarrow> bytes \<Rightarrow> envelope_error + bytes" where
  "build_manifest_envelope L envelope_nonce ts b ciphertext sk_bytes pk_bytes =
     (let nonce_str = b64_encode L envelope_nonce;
          canonical_bytes = build_envelope_canonical L ciphertext ''manifest'' nonce_str ts ''ml-dsa-65'' None in
      case sign_envelope L sk_bytes pk_bytes canonical_bytes of
        Inl e \<Rightarrow> Inl e
      | Inr (sig_b64, _) \<Rightarrow>
          Inr (build_envelope_signed_with_peer L ciphertext ''manifest'' nonce_str ts ''ml-dsa-65'' ''ml-dsa-65''
                 sig_b64 (eb_public_key b) (eb_peer_id b) None))"

definition build_simple_envelope ::
  "crypto_lib \<Rightarrow> bytes \<Rightarrow> u64 \<Rightarrow> flatbuffer_envelope_builder \<Rightarrow> string \<Rightarrow> string \<Rightarrow> bytes" where
  "build_simple_envelope L envelope_nonce ts b payload_type payload_content =
     build_envelope_canonical_with_peer L (bytes_of_string payload_content) payload_type
       (b64_encode L envelope_nonce) ts ''ml-dsa-65'' (eb_peer_id b) None"

definition builder_sign_envelope ::
  "crypto_lib \<Rightarrow> flatbuffer_envelope_builder \<Rightarrow> bytes \<Rightarrow> bytes \<Rightarrow> bytes \<Rightarrow> envelope_error + bytes" where
  "builder_sign_envelope L b envelope_bytes sk_bytes pk_bytes =
     (case fb_root_as_envelope L envelope_bytes of
        None \<Rightarrow> Inl EnvelopeParseFailed
      | Some e \<Rightarrow>
          (let payload_bytes = or_empty (fe_payload e);
               canonical_bytes = build_envelope_canonical L payload_bytes (or_empty (fe_payload_type e))
                 (or_empty (fe_nonce e)) (fe_ts e) (or_empty (fe_alg e)) None in
           case sign_envelope L sk_bytes pk_bytes canonical_bytes of
             Inl err \<Rightarrow> Inl err
           | Inr (sig_b64, _) \<Rightarrow>
               Inr (build_envelope_signed_with_peer L payload_bytes (or_empty (fe_payload_type e))
                      (or_empty (fe_nonce e)) (fe_ts e) ''ml-dsa-65'' ''ml-dsa-65'' sig_b64 (eb_public_key b)
                      (eb_peer_id b) None)))"

end
