(* ===== verification/Cli_Runs.thy ===== *)
theory Cli_Runs
  imports Cli_Client Rest_Security
begin

text \<open>
  What the client does over the network: which requests \<open>apply_file\<close> and \<open>delete_file\<close> send for every
  behaviour of the node they talk to, that a manifest arrives at the node it is meant for, and
  that the client reads the candidates that the REST API answers with.
\<close>

section \<open>Runs\<close>

lemma try_then_Inr:
  "try_then m f s = (s', Some (Inr y)) \<longleftrightarrow> (\<exists>t x. m s = (t, Some (Inr x)) \<and> f x t = (s', Some (Inr y)))"
  by (auto simp: try_then_def split: prod.splits option.splits sum.splits)

lemma try_then_Inl:
  "try_then m f s = (s', Some (Inl e)) \<longleftrightarrow>
     m s = (s', Some (Inl e)) \<or> (\<exists>t x. m s = (t, Some (Inr x)) \<and> f x t = (s', Some (Inl e)))"
  by (auto simp: try_then_def split: prod.splits option.splits sum.splits)

lemma lift_eq [simp]: "lift r s = (s', r') \<longleftrightarrow> s' = s \<and> r = r'"
  by (auto simp: lift_def)

lemma return_eq [simp]: "return x s = (s', r) \<longleftrightarrow> s' = s \<and> r = Some (Inr x)"
  by (auto simp: return_def)

lemma fail_eq [simp]: "fail e s = (s', r) \<longleftrightarrow> s' = s \<and> r = Some (Inl e)"
  by (auto simp: fail_def)

lemma map_err_Inr [simp]: "map_err f r = Inr x \<longleftrightarrow> r = Inr x"
  by (cases r) (simp_all add: map_err_def)

lemma map_err_Inl [simp]: "map_err f r = Inl e \<longleftrightarrow> (\<exists>e'. r = Inl e' \<and> e = f e')"
  by (cases r) (auto simp: map_err_def)

lemma with_keys_log: "with_keys f s = (s', r) \<Longrightarrow> cs_log s' = cs_log s"
  by (auto simp: with_keys_def split: prod.splits)

lemma with_keys_Inr:
  "with_keys f s = (s', Some (Inr x)) \<Longrightarrow> f (cs_keys s) = (cs_keys s', Inr x) \<and> cs_log s' = cs_log s"
  by (auto simp: with_keys_def split: prod.splits)

lemma http_log: "http V c s = (s', r) \<Longrightarrow> cs_log s' = cs_log s @ [(c, r)] \<and> cs_keys s' = cs_keys s"
  by (auto simp: http_def split: prod.splits)

lemma client_new_Inr:
  assumes "flatbuffer_client_new V url s = (s', Some (Inr c))"
  shows "cs_log s' = cs_log s \<and> fc_base_url c = url \<and> fc_machine_public_key c = None"
  using assms
  by (auto simp: flatbuffer_client_new_def try_then_Inr split: prod.splits dest!: with_keys_log)

definition key_call :: "string \<Rightarrow> http_call" where
  "key_call url = \<lparr> hc_method = GET, hc_url = url @ ''/api/v1/kem_pubkey'', hc_content_type = None,
     hc_peer_id = None, hc_body = [] \<rparr>"

lemma fetch_Inr:
  assumes "fetch_machine_public_key V c s = (s', Some (Inr c'))"
  shows "\<exists>k reply. cs_log s' = cs_log s @ [(key_call (fc_base_url c), reply)]
    \<and> c' = c \<lparr> fc_machine_public_key := Some k \<rparr>"
  using assms
  by (auto simp: fetch_machine_public_key_def key_call_def Let_def dest!: http_log
      split: prod.splits http_reply.splits option.splits if_splits)

lemma send_encrypted_Inr:
  assumes "send_encrypted_request V c url payload ptype s = (s', Some (Inr b))"
  shows "\<exists>envelope status body. seal_request V c (current_draw V s) payload ptype = Inr envelope
    \<and> cs_log s' = cs_log s @ [(envelope_call POST url envelope, Reply status body)]
    \<and> read_reply V c status body = Some (Inr b)"
  using assms
  by (auto simp: send_encrypted_request_def dest!: http_log split: sum.splits prod.splits http_reply.splits)

text \<open>An exchange in which a node was asked to run the manifest, and acknowledged.\<close>

definition deployment_call ::
  "('f, 'w) cli_env \<Rightarrow> flatbuffer_client \<Rightarrow> u64 \<Rightarrow> string \<Rightarrow> string \<Rightarrow> draw \<Rightarrow> string \<times> string \<Rightarrow> http_call \<Rightarrow> bool" where
  "deployment_call V c ts manifest_id manifest_str d target call \<longleftrightarrow>
     (\<exists>request envelope. node_request V d ts manifest_id manifest_str (snd target) = Inr request
        \<and> seal_request V c d (cv_apply_request V request) ''apply_request'' = Inr envelope
        \<and> call = envelope_call POST (trim_end_slashes (fc_base_url c) @ ''/apply_direct/'' @ fst target) envelope)"

definition apply_answer :: "('f, 'w) cli_env \<Rightarrow> flatbuffer_client \<Rightarrow> http_reply \<Rightarrow> bool \<Rightarrow> bool" where
  "apply_answer V c reply ok \<longleftrightarrow>
     (\<exists>status body b message. reply = Reply status body \<and> read_reply V c status body = Some (Inr b)
        \<and> cv_root_apply_response V b = Inr (ok, message))"

definition deployed ::
  "('f, 'w) cli_env \<Rightarrow> flatbuffer_client \<Rightarrow> u64 \<Rightarrow> string \<Rightarrow> string \<Rightarrow> draw \<Rightarrow> string \<times> string
     \<Rightarrow> http_call \<times> http_reply \<Rightarrow> bool" where
  "deployed V c ts manifest_id manifest_str d target x \<longleftrightarrow>
     deployment_call V c ts manifest_id manifest_str d target (fst x) \<and> apply_answer V c (snd x) True"

lemma apply_to_node_sent:
  assumes "node_request V (current_draw V s) ts m str (snd target) = Inr request"
    and "send_encrypted_request V c (trim_end_slashes (fc_base_url c) @ ''/apply_direct/'' @ fst target)
      (cv_apply_request V request) ''apply_request'' s = (s', Some (Inr b))"
    and "cv_root_apply_response V b = Inr (ok, message)"
  shows "\<exists>x. cs_log s' = cs_log s @ [x] \<and> deployment_call V c ts m str (current_draw V s) target (fst x)
    \<and> apply_answer V c (snd x) ok"
  using send_encrypted_Inr [OF assms(2)] assms(1,3)
  by (fastforce simp: deployment_call_def apply_answer_def)

lemma apply_to_node_Inr:
  assumes "apply_to_node V c ts m str target s = (s', Some (Inr u))"
  shows "\<exists>x. cs_log s' = cs_log s @ [x] \<and> deployed V c ts m str (current_draw V s) target x"
proof -
  obtain request b message where
    "node_request V (current_draw V s) ts m str (snd target) = Inr request"
    "send_encrypted_request V c (trim_end_slashes (fc_base_url c) @ ''/apply_direct/'' @ fst target)
      (cv_apply_request V request) ''apply_request'' s = (s', Some (Inr b))"
    "cv_root_apply_response V b = Inr (True, message)"
    using assms by (auto simp: apply_to_node_def try_then_Inr split: prod.splits if_splits)
  from apply_to_node_sent [OF this] show ?thesis unfolding deployed_def .
qed

lemma apply_to_node_refused:
  assumes "apply_to_node V c ts m str target s = (s', Some (Inl (ApplyFailed nid message)))"
  shows "nid = fst target \<and> (\<exists>x. cs_log s' = cs_log s @ [x]
    \<and> deployment_call V c ts m str (current_draw V s) target (fst x) \<and> apply_answer V c (snd x) False)"
proof -
  have no: "node_request V d ts m str k \<noteq> Inl (ApplyFailed nid message)" for d k
    by (auto simp: node_request_def Let_def split: option.splits sum.splits)
  have "send_encrypted_request V c url p ty s \<noteq> (s', Some (Inl (ApplyFailed nid message)))" for url p ty
    by (auto simp: send_encrypted_request_def seal_request_def signed_request_def read_reply_def Let_def
        split: option.splits sum.splits prod.splits http_reply.splits if_splits)
  then obtain request b msg where
    "nid = fst target" "node_request V (current_draw V s) ts m str (snd target) = Inr request"
    "send_encrypted_request V c (trim_end_slashes (fc_base_url c) @ ''/apply_direct/'' @ fst target)
      (cv_apply_request V request) ''apply_request'' s = (s', Some (Inr b))"
    "cv_root_apply_response V b = Inr (False, msg)"
    using assms by (auto simp: apply_to_node_def try_then_Inl no split: prod.splits if_splits)
  with apply_to_node_sent show ?thesis by blast
qed

text \<open>The exchange with every node of a list, each with the random values of its turn.\<close>

definition deployed_all ::
  "('f, 'w) cli_env \<Rightarrow> flatbuffer_client \<Rightarrow> u64 \<Rightarrow> string \<Rightarrow> string \<Rightarrow> nat \<Rightarrow> (string \<times> string) list
     \<Rightarrow> (http_call \<times> http_reply) list \<Rightarrow> bool" where
  "deployed_all V c ts m str n targets xs \<longleftrightarrow> length xs = length targets
     \<and> (\<forall>i < length targets. deployed V c ts m str (cv_draw V (n + i)) (targets ! i) (xs ! i))"

lemma deployed_all_Nil [simp]: "deployed_all V c ts m str n [] xs \<longleftrightarrow> xs = []"
  by (simp add: deployed_all_def)

lemma deployed_all_Cons:
  "deployed_all V c ts m str n (t # targets) (x # xs) \<longleftrightarrow>
     deployed V c ts m str (cv_draw V n) t x \<and> deployed_all V c ts m str (Suc n) targets xs"
  by (auto simp: deployed_all_def All_less_Suc2)

lemma apply_to_nodes_Inr:
  assumes "apply_to_nodes V c ts m str targets s = (s', Some (Inr u))"
  shows "\<exists>xs. cs_log s' = cs_log s @ xs \<and> deployed_all V c ts m str (length (cs_log s)) targets xs"
  using assms
proof (induction targets arbitrary: s)
  case (Cons t targets)
  then obtain s1 where 1: "apply_to_node V c ts m str t s = (s1, Some (Inr ()))"
      "apply_to_nodes V c ts m str targets s1 = (s', Some (Inr u))"
    by (auto simp: try_then_Inr)
  obtain x where x: "cs_log s1 = cs_log s @ [x]" "deployed V c ts m str (current_draw V s) t x"
    using apply_to_node_Inr [OF 1(1)] by blast
  obtain xs where "cs_log s' = cs_log s1 @ xs" "deployed_all V c ts m str (length (cs_log s1)) targets xs"
    using Cons.IH [OF 1(2)] by blast
  with x show ?case by (intro exI [of _ "x # xs"]) (simp add: deployed_all_Cons current_draw_def)
qed simp

lemma apply_to_nodes_refused:
  assumes "apply_to_nodes V c ts m str targets s = (s', Some (Inl (ApplyFailed nid message)))"
  shows "\<exists>k xs x. k < length targets \<and> nid = fst (targets ! k) \<and> cs_log s' = cs_log s @ xs @ [x]
    \<and> deployed_all V c ts m str (length (cs_log s)) (take k targets) xs
    \<and> deployment_call V c ts m str (cv_draw V (length (cs_log s) + k)) (targets ! k) (fst x)
    \<and> apply_answer V c (snd x) False"
  using assms
proof (induction targets arbitrary: s)
  case (Cons t targets)
  then consider (now) "apply_to_node V c ts m str t s = (s', Some (Inl (ApplyFailed nid message)))"
    | (later) s1 where "apply_to_node V c ts m str t s = (s1, Some (Inr ()))"
      "apply_to_nodes V c ts m str targets s1 = (s', Some (Inl (ApplyFailed nid message)))"
    by (auto simp: try_then_Inl)
  then show ?case
  proof cases
    case now
    from apply_to_node_refused [OF this] show ?thesis
      by (intro exI [of _ 0] exI [of _ "[]"]) (auto simp: current_draw_def)
  next
    case later
    obtain x where x: "cs_log s1 = cs_log s @ [x]" "deployed V c ts m str (current_draw V s) t x"
      using apply_to_node_Inr [OF later(1)] by blast
    from Cons.IH [OF later(2)] obtain k xs y where "k < length targets" "nid = fst (targets ! k)"
      "cs_log s' = cs_log s1 @ xs @ [y]" "deployed_all V c ts m str (length (cs_log s1)) (take k targets) xs"
      "deployment_call V c ts m str (cv_draw V (length (cs_log s1) + k)) (targets ! k) (fst y)"
      "apply_answer V c (snd y) False"
      by blast
    with x show ?thesis
      by (intro exI [of _ "Suc k"] exI [of _ "x # xs"] exI [of _ y]) (simp add: deployed_all_Cons current_draw_def)
  qed
qed simp

section \<open>The choice of nodes\<close>

lemma parse_peers_Inr:
  assumes "parse_peers peers cs m = Inr (cs', m')"
  shows "cs' = cs @ map (\<lambda>p. candidate_named (fst (the (split_at_colon p)))) peers
    \<and> (\<forall>p \<in> set peers. split_at_colon p \<noteq> None \<and> hm_get m' (fst (the (split_at_colon p))) \<noteq> None)
    \<and> (\<forall>nid. hm_get m nid \<noteq> None \<longrightarrow> hm_get m' nid \<noteq> None)
    \<and> (\<forall>nid key. hm_get m' nid = Some key \<longrightarrow>
         hm_get m nid = Some key \<or> (\<exists>p \<in> set peers. split_at_colon p = Some (nid, key)))"
  using assms
proof (induction peers arbitrary: cs m)
  case (Cons p peers)
  then obtain nid key where p: "split_at_colon p = Some (nid, key)"
    and rest: "parse_peers peers (cs @ [candidate_named nid]) (hm_insert nid key m) = Inr (cs', m')"
    by (auto split: option.splits)
  from Cons.IH [OF rest] p show ?case by (auto split: if_splits)
qed simp

lemma parse_peers_total:
  "\<forall>p \<in> set peers. split_at_colon p \<noteq> None \<Longrightarrow> \<exists>r. parse_peers peers cs m = Inr r"
  by (induction peers arbitrary: cs m) auto

lemma candidate_named_simps [simp]: "node_id (candidate_named nid) = nid" "nc_available (candidate_named nid)"
  by (simp_all add: candidate_named_def)

text \<open>The scheduler is new in every call, so round robin begins with the first candidate.\<close>

lemma cli_schedule:
  assumes "cs \<noteq> []" "\<forall>c \<in> set cs. nc_available c" "r \<le> length cs" "r \<le> 2 ^ 64"
  shows "\<exists>plan. snd (schedule_workload env cs r cli_scheduler) = Some (Inr plan) \<and> selected_candidates plan = [0..<r]"
proof -
  have av: "available_candidates cs = enumerate 0 cs"
    unfolding available_candidates_def using assms(2) by (intro filter_True) (auto simp: in_set_enumerate_eq)
  have "round_robin_loop (env_profile env) 0 (enumerate 0 cs) 0 r
      = Some (map (\<lambda>j. fst (enumerate 0 cs ! ((unat (0 :: usize) + j) mod length (enumerate 0 cs)))) [0..<r])"
    using round_robin_loop_eq [of 0 0 r "env_profile env" "enumerate 0 cs"] assms(4) by simp
  also have "map (\<lambda>j. fst (enumerate 0 cs ! ((unat (0 :: usize) + j) mod length (enumerate 0 cs)))) [0..<r] = [0..<r]"
    using assms(3) by (intro map_idI) (simp add: nth_enumerate_eq)
  finally have loop: "round_robin_loop (env_profile env) 0 (enumerate 0 cs) 0 r = Some [0..<r]" .
  have "enumerate 0 cs \<noteq> []" using assms(1) by (metis length_0_conv length_enumerate)
  then show ?thesis
    using assms(1,3) loop by (simp add: schedule_workload_def av Let_def cli_scheduler_def scheduler_new_def actual_required_def
        select_candidates_def select_round_robin_def)
qed

lemma nodes_of_plan_total:
  "\<forall>i \<in> set idxs. i < length cs \<and> hm_get m (node_id (cs ! i)) \<noteq> None \<Longrightarrow>
     nodes_of_plan cs m idxs = Some (Inr (map (\<lambda>i. (node_id (cs ! i), the (hm_get m (node_id (cs ! i))))) idxs))"
  by (induction idxs) auto

lemma select_nodes_first:
  assumes "peers \<noteq> []" "r \<le> length peers" "r \<le> 2 ^ 64" "\<forall>p \<in> set peers. split_at_colon p \<noteq> None"
  shows "\<exists>targets. select_nodes V peers r = Some (Inr targets) \<and> length targets = r
    \<and> (\<forall>i < r. fst (targets ! i) = fst (the (split_at_colon (peers ! i)))
         \<and> (\<exists>p \<in> set peers. split_at_colon p = Some (targets ! i)))"
proof -
  obtain cs m where parsed: "parse_peers peers [] hm_empty = Inr (cs, m)"
    using parse_peers_total [OF assms(4)] by fastforce
  note p = parse_peers_Inr [OF parsed]
  have cs: "cs = map (\<lambda>p. candidate_named (fst (the (split_at_colon p)))) peers" using p by simp
  obtain plan where plan: "snd (schedule_workload (cv_sched V) cs r cli_scheduler) = Some (Inr plan)"
      "selected_candidates plan = [0..<r]"
    using cli_schedule [of cs r "cv_sched V"] assms(1-3) by (auto simp: cs)
  have "\<forall>i \<in> set [0..<r]. i < length cs \<and> hm_get m (node_id (cs ! i)) \<noteq> None"
    using p assms(2) by (auto simp: cs)
  from nodes_of_plan_total [OF this] have sel: "select_nodes V peers r
      = Some (Inr (map (\<lambda>i. (node_id (cs ! i), the (hm_get m (node_id (cs ! i))))) [0..<r]))"
    by (simp add: select_nodes_def parsed plan)
  have "\<exists>p \<in> set peers. split_at_colon p = Some (node_id (cs ! i), the (hm_get m (node_id (cs ! i))))" if "i < r" for i
  proof -
    have "peers ! i \<in> set peers" using that assms(2) by simp
    then obtain key where "hm_get m (fst (the (split_at_colon (peers ! i)))) = Some key" using p by fast
    then show ?thesis using p that assms(2) by (auto simp: cs)
  qed
  with sel assms(2) show ?thesis by (auto simp: cs)
qed

lemma select_nodes_parsed: "select_nodes V peers r = Some (Inr targets) \<Longrightarrow> \<forall>p \<in> set peers. split_at_colon p \<noteq> None"
  using parse_peers_Inr [of peers "[]" hm_empty] by (fastforce simp: select_nodes_def split: sum.splits)

section \<open>Manifest ids\<close>

lemma length_hex16 [simp]: "length (hex16 h) = 16"
proof -
  have "unat h < 16 ^ Suc 15" using unsigned_less [of h] by simp
  from length_to_hex_mono [OF this] show ?thesis by (simp add: hex16_def Let_def)
qed

lemma compute_cli_manifest_id_Inr:
  "compute_cli_manifest_id V pk j = Some (Inr m) \<Longrightarrow>
     \<exists>name. extract_manifest_name_from_json j = Some name \<and> m = hex16 (cv_hash V pk name)"
  by (auto simp: compute_cli_manifest_id_def split: option.splits if_splits)

lemma replicas_bound: "replicas_of j \<le> 2 ^ 64"
proof -
  have "unat (w :: u64) \<le> 2 ^ 64" for w
    using unsigned_less [of w, where 'a = nat] by (simp add: less_imp_le)
  then show ?thesis by (simp add: replicas_of_def split: option.splits)
qed

section \<open>Applying a file\<close>

lemma read_manifest_file_Inr:
  "read_manifest_file V s = (s', Some (Inr j)) \<Longrightarrow>
     s' = s \<and> cv_exists V \<and> (\<exists>contents. cv_contents V = Inr contents \<and> j = manifest_json_of V contents)"
  by (auto simp: read_manifest_file_def split: if_splits sum.splits)

lemma identify_manifest_Inr:
  assumes "identify_manifest V s = (t, Some (Inr (j, m)))"
  shows "cs_log t = cs_log s \<and> cv_exists V \<and> (\<exists>contents. cv_contents V = Inr contents \<and> j = manifest_json_of V contents)
    \<and> (\<exists>pk sk name. ensure_keypair_on_disk (cv_keys V) (cv_new_signing V 0) (cs_keys s) = (cs_keys t, Inr (pk, sk))
         \<and> extract_manifest_name_from_json j = Some name \<and> m = hex16 (cv_hash V pk name))"
  using assms
  by (fastforce simp: identify_manifest_def try_then_Inr split: prod.splits
      dest!: read_manifest_file_Inr with_keys_Inr compute_cli_manifest_id_Inr)

lemma connect_Inr:
  assumes "connect V api s = (t, Some (Inr c))"
  shows "\<exists>reply. cs_log t = cs_log s @ [(key_call (api_base_url V api), reply)]
    \<and> fc_base_url c = api_base_url V api \<and> fc_machine_public_key c \<noteq> None"
  using assms by (fastforce simp: connect_def try_then_Inr dest!: client_new_Inr fetch_Inr)

text \<open>The exchange that answers with the candidates.\<close>

definition candidates_exchange ::
  "('f, 'w) cli_env \<Rightarrow> flatbuffer_client \<Rightarrow> string \<Rightarrow> http_call \<times> http_reply \<Rightarrow> string list \<Rightarrow> bool" where
  "candidates_exchange V c m x peers \<longleftrightarrow>
     (\<exists>envelope status body b. x = (envelope_call POST (trim_end_slashes (fc_base_url c) @ ''/tasks/'' @ m @ ''/candidates'')
          envelope, Reply status body)
        \<and> read_reply V c status body = Some (Inr b) \<and> read_candidates V b = Inr peers)"

lemma cli_get_candidates_Inr:
  assumes "cli_get_candidates V c m t = (u, Some (Inr peers))"
  shows "\<exists>x. cs_log u = cs_log t @ [x] \<and> candidates_exchange V c m x peers"
proof -
  obtain b where b: "send_encrypted_request V c (trim_end_slashes (fc_base_url c) @ ''/tasks/'' @ m @ ''/candidates'') []
      ''candidates_request'' t = (u, Some (Inr b))" "read_candidates V b = Inr peers"
    using assms by (auto simp: cli_get_candidates_def try_then_Inr)
  from send_encrypted_Inr [OF b(1)] b(2) show ?thesis by (fastforce simp: candidates_exchange_def)
qed

text \<open>The state in which the nodes are asked one after the other.\<close>

definition asking ::
  "('f, 'w) cli_env \<Rightarrow> string option \<Rightarrow> ('f, 'w) cli_state \<Rightarrow> json \<Rightarrow> string \<Rightarrow> flatbuffer_client \<Rightarrow> string
     \<Rightarrow> string list \<Rightarrow> (string \<times> string) list \<Rightarrow> ('f, 'w) cli_state \<Rightarrow> bool" where
  "asking V api s j m c str peers targets u \<longleftrightarrow>
     (\<exists>contents. cv_contents V = Inr contents \<and> j = manifest_json_of V contents)
     \<and> (\<exists>reply x. cs_log u = cs_log s @ [(key_call (api_base_url V api), reply), x] \<and> candidates_exchange V c m x peers)
     \<and> fc_base_url c = api_base_url V api \<and> fc_machine_public_key c \<noteq> None
     \<and> peers \<noteq> [] \<and> replicas_of j \<le> length peers
     \<and> select_nodes V peers (replicas_of j) = Some (Inr targets) \<and> cv_print_json V j = Inr str"

lemma askingI:
  assumes "identify_manifest V s = (s1, Some (Inr (j, m)))" "connect V api s1 = (s2, Some (Inr c))"
    and "cli_get_candidates V c m s2 = (u, Some (Inr peers))" "peers \<noteq> []" "\<not> length peers < replicas_of j"
    and "select_nodes V peers (replicas_of j) = Some (Inr targets)" "cv_print_json V j = Inr str"
  shows "asking V api s j m c str peers targets u"
  using assms identify_manifest_Inr [OF assms(1)] connect_Inr [OF assms(2)] cli_get_candidates_Inr [OF assms(3)]
  by (auto simp: asking_def)

lemma apply_file_Inr:
  assumes "apply_file V api s = (s', Some (Inr m))"
  shows "\<exists>j c str peers targets u. asking V api s j m c str peers targets u
    \<and> apply_to_selected V c m str targets u = (s', Some (Inr ()))"
  using assms
  by (auto simp: apply_file_def distribute_manifest_def try_then_Inr Let_def split: prod.splits if_splits)
    (blast intro: askingI)

text \<open>The only step that reports a refusal is the loop over the nodes.\<close>

lemma not_refused:
  "read_manifest_file V s \<noteq> (s', Some (Inl (ApplyFailed a b)))"
  "with_keys f s \<noteq> (s', Some (Inl (ApplyFailed a b)))"
  "compute_cli_manifest_id V pk j \<noteq> Some (Inl (ApplyFailed a b))"
  "fetch_machine_public_key V c s \<noteq> (s', Some (Inl (ApplyFailed a b)))"
  "send_encrypted_request V c url p ty s \<noteq> (s', Some (Inl (ApplyFailed a b)))"
  "read_candidates V bs \<noteq> Inl (ApplyFailed a b)"
  by (auto simp: read_manifest_file_def with_keys_def compute_cli_manifest_id_def fetch_machine_public_key_def
      send_encrypted_request_def seal_request_def signed_request_def read_reply_def read_candidates_def Let_def
      split: option.splits sum.splits prod.splits http_reply.splits if_splits)

lemma select_nodes_not_refused: "select_nodes V peers r \<noteq> Some (Inl (ApplyFailed a b))"
proof -
  have "parse_peers peers cs m \<noteq> Inl (ApplyFailed a b)" for cs m
    by (induction peers arbitrary: cs m) (auto split: option.splits)
  moreover have "nodes_of_plan cs m idxs \<noteq> Some (Inl (ApplyFailed a b))" for cs m idxs
    by (induction idxs) (auto simp: Let_def map_sum_def split: option.splits if_splits sum.splits)
  ultimately show ?thesis by (auto simp: select_nodes_def split: option.splits sum.splits)
qed

lemma client_new_not_refused: "flatbuffer_client_new V url s \<noteq> (s', Some (Inl (ApplyFailed a b)))"
  by (auto simp: flatbuffer_client_new_def try_then_Inl not_refused split: prod.splits)

lemma cli_get_candidates_not_refused: "cli_get_candidates V c m s \<noteq> (s', Some (Inl (ApplyFailed a b)))"
  by (auto simp: cli_get_candidates_def try_then_Inl not_refused)

lemma identify_not_refused: "identify_manifest V s \<noteq> (s', Some (Inl (ApplyFailed a b)))"
  by (auto simp: identify_manifest_def try_then_Inl not_refused split: prod.splits)

lemma connect_not_refused: "connect V api s \<noteq> (s', Some (Inl (ApplyFailed a b)))"
  by (auto simp: connect_def try_then_Inl not_refused client_new_not_refused)

lemma apply_file_refused:
  assumes "apply_file V api s = (s', Some (Inl (ApplyFailed nid message)))"
  shows "\<exists>j m c str peers targets u. asking V api s j m c str peers targets u
    \<and> apply_to_selected V c m str targets u = (s', Some (Inl (ApplyFailed nid message)))"
  using assms
  by (auto simp: apply_file_def distribute_manifest_def try_then_Inl Let_def identify_not_refused select_nodes_not_refused
      connect_not_refused cli_get_candidates_not_refused split: prod.splits if_splits)
    (blast intro: askingI)

text \<open>The targets are the first candidates, each with a key that a candidate of that name has.\<close>

lemma asking_targets:
  assumes "asking V api s j m c str peers targets u"
  shows "length targets = replicas_of j \<and> replicas_of j \<le> length peers
    \<and> (\<forall>i < replicas_of j. fst (targets ! i) = fst (the (split_at_colon (peers ! i)))
         \<and> (\<exists>p \<in> set peers. split_at_colon p = Some (targets ! i)))"
proof -
  have ask: "select_nodes V peers (replicas_of j) = Some (Inr targets)" "peers \<noteq> []" "replicas_of j \<le> length peers"
    using assms by (simp_all add: asking_def)
  show ?thesis
    using select_nodes_first [OF ask(2,3) replicas_bound select_nodes_parsed [OF ask(1)], of V] ask by auto
qed

section \<open>The signing key\<close>

text \<open>A part of the client that touches the keys only through the functions of theory \<open>Keypairs\<close>.\<close>

definition key_safe :: "('f, 'w) cli_env \<Rightarrow> (('f, 'w) cli_state, 'a) cli_run \<Rightarrow> bool" where
  "key_safe V m \<longleftrightarrow> (\<forall>s s' r. m s = (s', r) \<longrightarrow> key_steps (cv_keys V) (cs_keys s) (cs_keys s'))"

named_theorems key_safe

lemma key_steps_trans: "key_steps E b c \<Longrightarrow> key_steps E a b \<Longrightarrow> key_steps E a c"
  by (induction rule: key_steps.induct) (auto intro: key_steps.intros)

lemma key_safe_try_then [key_safe]:
  assumes "key_safe V m" "\<And>x. key_safe V (f x)"
  shows "key_safe V (try_then m f)"
  unfolding key_safe_def
proof (intro allI impI)
  fix s s' r
  assume run: "try_then m f s = (s', r)"
  obtain t q where q: "m s = (t, q)" by fastforce
  have "key_steps (cv_keys V) (cs_keys s) (cs_keys t)" using assms(1) q by (simp add: key_safe_def)
  moreover have "t = s' \<or> (\<exists>x. f x t = (s', r))"
    using run by (auto simp: try_then_def q split: option.splits sum.splits)
  moreover have "f x t = (s', r) \<Longrightarrow> key_steps (cv_keys V) (cs_keys t) (cs_keys s')" for x
    using assms(2) [of x] unfolding key_safe_def by blast
  ultimately show "key_steps (cv_keys V) (cs_keys s) (cs_keys s')" using key_steps_trans by blast
qed

lemma key_safe_basic [key_safe]: "key_safe V (lift r)" "key_safe V (return x)" "key_safe V (fail e)"
  by (auto simp: key_safe_def intro: keys_start)

lemma key_safe_at: "(\<And>t. key_safe V (f t)) \<Longrightarrow> key_safe V (\<lambda>s. f s s)"
  by (simp add: key_safe_def)

lemma key_safe_case [key_safe]: "(\<And>a b. key_safe V (f a b)) \<Longrightarrow> key_safe V (case p of (a, b) \<Rightarrow> f a b)"
  by (cases p) simp

lemma key_safe_if [key_safe]: "key_safe V m \<Longrightarrow> key_safe V m' \<Longrightarrow> key_safe V (if b then m else m')"
  by simp

lemma key_safe_let [key_safe]: "key_safe V (f x) \<Longrightarrow> key_safe V (Let x f)"
  by (simp add: Let_def)

lemma key_safe_signing [key_safe]: "key_safe V (with_keys (ensure_keypair_on_disk (cv_keys V) drawn))"
  unfolding key_safe_def with_keys_def
  by (auto split: prod.splits) (metis fst_conv keys_signing keys_start)

lemma key_safe_kem [key_safe]: "key_safe V (with_keys (ensure_kem_keypair_on_disk (cv_keys V) drawn))"
  unfolding key_safe_def with_keys_def
  by (auto split: prod.splits) (metis fst_conv keys_kem keys_start)

lemma key_safe_read [key_safe]: "key_safe V (read_manifest_file V)"
  by (auto simp: read_manifest_file_def key_safe_def intro: keys_start split: sum.splits)

lemma key_safe_fetch [key_safe]: "key_safe V (fetch_machine_public_key V c)"
  unfolding key_safe_def fetch_machine_public_key_def
  by (auto simp: Let_def intro: keys_start dest!: http_log split: prod.splits http_reply.splits option.splits if_splits)

lemma key_safe_send [key_safe]: "key_safe V (send_encrypted_request V c url p ty)"
  unfolding key_safe_def send_encrypted_request_def
  by (auto intro: keys_start dest!: http_log split: prod.splits http_reply.splits sum.splits)

lemma key_safe_new [key_safe]: "key_safe V (flatbuffer_client_new V url)"
  unfolding flatbuffer_client_new_def by (intro key_safe)

lemma key_safe_candidates [key_safe]: "key_safe V (cli_get_candidates V c m)"
  unfolding cli_get_candidates_def by (intro key_safe)

lemma key_safe_node [key_safe]: "key_safe V (apply_to_node V c ts m str target)"
proof -
  have "apply_to_node V c ts m str target = (\<lambda>s. (case target of (nid, key) \<Rightarrow>
        try_then (lift (Some (node_request V (current_draw V s) ts m str key))) (\<lambda>request.
        try_then (send_encrypted_request V c (trim_end_slashes (fc_base_url c) @ ''/apply_direct/'' @ nid)
                    (cv_apply_request V request) ''apply_request'') (\<lambda>response_bytes.
        try_then (lift (Some (map_err BadResponse (cv_root_apply_response V response_bytes)))) (\<lambda>(ok, message).
          if \<not> ok then fail (ApplyFailed nid (case message of Some m \<Rightarrow> m | None \<Rightarrow> ''unknown error''))
          else return ())))) s)"
    by (rule ext) (simp add: apply_to_node_def split: prod.splits)
  then show ?thesis by (simp only:) (rule key_safe_at, intro key_safe)
qed

lemma key_safe_nodes [key_safe]: "key_safe V (apply_to_nodes V c ts m str targets)"
  by (induction targets) (auto intro: key_safe)

lemma key_safe_selected [key_safe]: "key_safe V (apply_to_selected V c m str targets)"
  unfolding apply_to_selected_def by (rule key_safe_at) (rule key_safe_nodes)

lemma key_safe_connect [key_safe]: "key_safe V (connect V api)"
  unfolding connect_def by (intro key_safe)

lemma key_safe_distribute [key_safe]: "key_safe V (distribute_manifest V j m c)"
  unfolding distribute_manifest_def Let_def by (intro key_safe)

text \<open>The id of an applied manifest, and the keys afterwards.\<close>

lemma apply_file_keys:
  assumes "apply_file V api s = (s', Some (Inr m))"
  shows "\<exists>k pk sk name contents. ensure_keypair_on_disk (cv_keys V) (cv_new_signing V 0) (cs_keys s) = (k, Inr (pk, sk))
    \<and> key_steps (cv_keys V) k (cs_keys s') \<and> m = hex16 (cv_hash V pk name) \<and> cv_contents V = Inr contents
    \<and> extract_manifest_name_from_json (manifest_json_of V contents) = Some name"
proof -
  obtain j m' t where t: "identify_manifest V s = (t, Some (Inr (j, m')))"
      "try_then (connect V api) (distribute_manifest V j m') t = (s', Some (Inr m))"
    using assms by (auto simp: apply_file_def try_then_Inr)
  have "key_safe V (try_then (connect V api) (distribute_manifest V j m'))" by (intro key_safe)
  then have "key_steps (cv_keys V) (cs_keys t) (cs_keys s')" using t(2) unfolding key_safe_def by blast
  moreover have "m' = m" using t(2) by (auto simp: distribute_manifest_def try_then_Inr Let_def split: if_splits)
  ultimately show ?thesis using identify_manifest_Inr [OF t(1)] by blast
qed

section \<open>From the client to the node\<close>

text \<open>The libraries that the target node decrypts a manifest with are those of the client.\<close>

definition same_libraries :: "crypto_lib \<Rightarrow> kem_lib \<Rightarrow> bytes \<Rightarrow> manifest_lib \<Rightarrow> bool" where
  "same_libraries L K sk mlib \<longleftrightarrow>
     (\<forall>s b. b64_decode L s = Some b \<longrightarrow> ml_b64_decode mlib s = Inr b)
     \<and> (\<forall>b e. fb_root_as_envelope L b = Some e \<longrightarrow> ml_root_as_envelope mlib b = Inr e)
     \<and> ml_kem_private_key mlib = Inr sk
     \<and> ml_kem mlib = K"

lemma encrypted_version:
  "encrypt_payload_for_recipient K r n pk p = Inr blob \<Longrightarrow> blob \<noteq> [] \<and> hd blob = 2"
  by (auto simp: encrypt_payload_for_recipient_def blob_layout_def split: sum.splits option.splits if_splits)

lemma node_request_decrypted:
  assumes "crypto_laws (cv_crypto V)" "kem_pair (cv_kem V) npk nsk" "aes_laws (cv_kem V)"
    and "same_libraries (cv_crypto V) (cv_kem V) nsk mlib" "length (dw_manifest_aes_nonce d) = NONCE_BYTES"
    and "valid_string str" "length str + 16 < 2 ^ 32"
  shows "\<exists>request. node_request V d ts m str (b64_encode (cv_crypto V) npk) = Inr request
    \<and> ap_manifest_id request = Some m \<and> ap_replicas request = 1
    \<and> decrypt_manifest_content mlib (or_empty (ap_manifest_json request)) = Some (Inr (bytes_of_string str))"
proof -
  have "length (bytes_of_string str) + 16 < 2 ^ 32" using assms(7) by (simp add: bytes_of_string_def)
  from blob_made [OF assms(2,3,5) this, of "dw_manifest_randomness d" "[]"] obtain blob where
    blob: "encrypt_payload_for_recipient (cv_kem V) (dw_manifest_randomness d) (dw_manifest_aes_nonce d) npk
        (bytes_of_string str) = Inr blob"
      "decrypt_payload_from_recipient_blob (cv_kem V) blob nsk = Some (Inr (bytes_of_string str))"
    by auto
  note libs = assms(4) [unfolded same_libraries_def]
  have "decrypt_manifest_from_envelope mlib blob = Some (Inr str)"
    using libs blob(2) encrypted_version [OF blob(1)] assms(6) by (simp add: decrypt_manifest_from_envelope_def)
  then show ?thesis
    using libs assms(1)
    by (simp add: node_request_def blob(1) Let_def build_apply_request_def decrypt_manifest_content_def
        build_envelope_canonical_with_peer_def)
qed

lemma split_at_colon_SomeD:
  "split_at_colon s = Some (a, b) \<Longrightarrow> s = a @ '':'' @ b \<and> CHR '':'' \<notin> set a"
  by (induction s arbitrary: a) (auto split: if_splits)

lemma split_at_first_colon: "CHR '':'' \<notin> set a \<Longrightarrow> split_at_colon (a @ '':'' @ b) = Some (a, b)"
  by (induction a) auto

lemma parse_candidates_no_colon:
  "(p, k) \<in> set (parse_candidates rs) \<Longrightarrow> CHR '':'' \<notin> set p"
  using split_at_colon_SomeD
  by (fastforce simp: parse_candidates_def List.map_filter_def split: option.splits if_splits)

lemma sealed_reply_opened:
  assumes "crypto_laws L" "kem_pair K kpk ksk" "kpk \<noteq> []" "aes_laws K" "length (re_aes_nonce re) = NONCE_BYTES"
    and "length payload + 16 < 2 ^ 32" "eh_signing_private_key h = Some sk" "eh_public_key h = b64_encode L pk"
    and "dsa_keypair L pk sk"
  shows "\<exists>e blob. encrypt_response_envelope_with_key L K re h payload ty kpk = Some (fb_finish L e)
    \<and> fe_payload e = Some blob \<and> blob \<noteq> [] \<and> hd blob = 2
    \<and> decrypt_payload_from_recipient_blob K blob ksk = Some (Inr payload)"
proof -
  obtain blob where blob: "encrypt_payload_for_recipient K (re_randomness re) (re_aes_nonce re) kpk payload = Inr blob"
      "decrypt_payload_from_recipient_blob K blob ksk = Some (Inr payload)"
    using blob_made [OF assms(2,4-6), of "re_randomness re" "[]"] by auto
  obtain sg where sg: "sign_envelope L sk pk (build_envelope_canonical L blob ty (re_uuid re) (of_nat (re_millis re))
      ''ml-dsa-65'' None) = Inr (b64_encode L sg, b64_encode L pk)"
    using sign_envelope_keypair [OF assms(1,9)] by blast
  have "kl_public_ok K kpk" using assms(2) by (simp add: kem_pair_def)
  then show ?thesis
    using assms(1,3,7,8) blob encrypted_version [OF blob(1)]
    by (simp add: encrypt_response_envelope_with_key_def Let_def build_envelope_signed_def sg)
      (metis envelope.select_convs(1))
qed

section \<open>Properties\<close>

text \<open>
  (C7) A successful \<open>apply\<close>, whatever the node at the other end does: the client asked for the node's
  key and for candidates, then sent one request to each of the first \<open>replicas\<close> candidates, in
  their order, and nothing else; each request carries the manifest encrypted for a key that a
  candidate of that name has, and each was acknowledged.
\<close>

theorem apply_deploys_replicas:
  assumes "apply_file V api s = (s', Some (Inr m))"
  shows "\<exists>contents j c str peers targets reply cand xs ts. cv_contents V = Inr contents \<and> j = manifest_json_of V contents
    \<and> cv_print_json V j = Inr str
    \<and> cs_log s' = cs_log s @ [(key_call (api_base_url V api), reply), cand] @ xs
    \<and> candidates_exchange V c m cand peers
    \<and> length targets = replicas_of j \<and> replicas_of j \<le> length peers
    \<and> (\<forall>i < replicas_of j. fst (targets ! i) = fst (the (split_at_colon (peers ! i)))
         \<and> (\<exists>p \<in> set peers. split_at_colon p = Some (targets ! i)))
    \<and> deployed_all V c ts m str (length (cs_log s) + 2) targets xs"
proof -
  obtain j c str peers targets u where ask: "asking V api s j m c str peers targets u"
    and run: "apply_to_nodes V c (dw_millis (current_draw V u)) m str targets u = (s', Some (Inr ()))"
    using apply_file_Inr [OF assms] by (auto simp: apply_to_selected_def)
  obtain xs where xs: "cs_log s' = cs_log u @ xs"
      "deployed_all V c (dw_millis (current_draw V u)) m str (length (cs_log u)) targets xs"
    using apply_to_nodes_Inr [OF run] by blast
  obtain reply cand contents where "cs_log u = cs_log s @ [(key_call (api_base_url V api), reply), cand]"
      "candidates_exchange V c m cand peers" "cv_contents V = Inr contents" "j = manifest_json_of V contents"
      "cv_print_json V j = Inr str"
    using ask unfolding asking_def by blast
  with asking_targets [OF ask] xs show ?thesis by (simp add: numeral_2_eq_2) blast
qed

text \<open>
  (C29) A node that refuses ends the \<open>apply\<close>, and nothing is undone: the nodes before it have
  acknowledged the manifest and keep it, the refusing node is the last that is asked, and no
  request to remove anything is sent.
\<close>

theorem failed_apply_not_undone:
  assumes "apply_file V api s = (s', Some (Inl (ApplyFailed nid message)))"
  shows "\<exists>j m c str peers targets ts k reply cand xs x. k < replicas_of j \<and> length targets = replicas_of j
    \<and> nid = fst (targets ! k)
    \<and> cs_log s' = cs_log s @ [(key_call (api_base_url V api), reply), cand] @ xs @ [x]
    \<and> candidates_exchange V c m cand peers
    \<and> deployed_all V c ts m str (length (cs_log s) + 2) (take k targets) xs
    \<and> deployment_call V c ts m str (cv_draw V (length (cs_log s) + 2 + k)) (targets ! k) (fst x)
    \<and> apply_answer V c (snd x) False"
proof -
  obtain j m c str peers targets u where ask: "asking V api s j m c str peers targets u"
    and run: "apply_to_nodes V c (dw_millis (current_draw V u)) m str targets u = (s', Some (Inl (ApplyFailed nid message)))"
    using apply_file_refused [OF assms] by (auto simp: apply_to_selected_def)
  obtain reply cand where log: "cs_log u = cs_log s @ [(key_call (api_base_url V api), reply), cand]"
      "candidates_exchange V c m cand peers"
    using ask unfolding asking_def by blast
  obtain k xs x where k: "k < length targets" "nid = fst (targets ! k)" "cs_log s' = cs_log u @ xs @ [x]"
      "deployed_all V c (dw_millis (current_draw V u)) m str (length (cs_log u)) (take k targets) xs"
      "deployment_call V c (dw_millis (current_draw V u)) m str (cv_draw V (length (cs_log u) + k)) (targets ! k) (fst x)"
      "apply_answer V c (snd x) False"
    using apply_to_nodes_refused [OF run] by blast
  have "length (cs_log u) = length (cs_log s) + 2" "length targets = replicas_of j"
    using log(1) asking_targets [OF ask] by simp_all
  with k log show ?thesis by (metis append.assoc)
qed

text \<open>
  (C28) \<open>delete\<close> names the manifest that \<open>apply\<close> deployed: for two files with the same name, whatever
  else they contain, whatever the nodes answer and whatever other keys were read or generated
  between the two runs, both runs compute the same id, which has 16 digits.
\<close>

theorem delete_finds_applied_id:
  assumes "apply_file V api s = (s1, Some (Inr m))" "delete_file W force api' s2 = (s3, Some (Inr m'))"
    and "cv_keys V = disk_env broken home init" "cv_keys W = disk_env broken home init" "cv_hash W = cv_hash V"
    and "key_steps (disk_env broken home init) (cs_keys s1) (cs_keys s2)"
    and "\<And>x y. cv_contents V = Inr x \<Longrightarrow> cv_contents W = Inr y \<Longrightarrow>
        extract_manifest_name_from_json (manifest_json_of V x) = extract_manifest_name_from_json (manifest_json_of W y)"
  shows "m' = m \<and> length m = 16"
proof -
  obtain k pk sk name x where V: "ensure_keypair_on_disk (cv_keys V) (cv_new_signing V 0) (cs_keys s) = (k, Inr (pk, sk))"
      "key_steps (cv_keys V) k (cs_keys s1)" "m = hex16 (cv_hash V pk name)" "cv_contents V = Inr x"
      "extract_manifest_name_from_json (manifest_json_of V x) = Some name"
    using apply_file_keys [OF assms(1)] by blast
  obtain t j where t: "identify_manifest W s2 = (t, Some (Inr (j, m')))"
    using assms(2) by (auto simp: delete_file_def request_deletion_def try_then_Inr Let_def split: prod.splits if_splits)
  obtain pk' sk' name' y where W: "ensure_keypair_on_disk (cv_keys W) (cv_new_signing W 0) (cs_keys s2) = (cs_keys t, Inr (pk', sk'))"
      "m' = hex16 (cv_hash W pk' name')" "cv_contents W = Inr y"
      "extract_manifest_name_from_json (manifest_json_of W y) = Some name'"
    using identify_manifest_Inr [OF t] by blast
  have "disk.signing_fixed broken home init (pk, sk) (cs_keys s2)"
    using disk.signing_fixed_steps [OF key_steps_trans [OF assms(6)]] disk.signing_fixed_after V(1,2) assms(3) by metis
  then have "(pk', sk') = (pk, sk)"
    using disk.signing_fixed_call W(1) assms(4) by (metis prod.inject sum.inject(2))
  moreover have "name' = name" using assms(7) [OF V(4) W(3)] V(5) W(4) by simp
  ultimately show ?thesis using V(3) W(2) assms(5) by simp
qed

text \<open>
  (C6) The whole way of a manifest: the request for a node is made; the API node that it is posted to
  opens it, if the time stamp in its nonce is new, with the client as its signer; and the node it
  is meant for decrypts from it exactly the manifest that the client read, under its id.
\<close>

theorem manifest_reaches_node:
  assumes "crypto_laws (cv_crypto V)" "dsa_keypair (cv_crypto V) pk (fc_private_key c)"
    and "fc_public_key c = b64_encode (cv_crypto V) pk" "fc_machine_public_key c = Some mpk"
    and "kem_pair (cv_kem V) mpk (eh_kem_private_key h)" "kem_pair (cv_kem V) npk nsk" "aes_laws (cv_kem V)"
    and "same_libraries (cv_crypto V) (cv_kem V) nsk mlib"
    and "length (dw_aes_nonce d) = NONCE_BYTES" "length (dw_manifest_aes_nonce d) = NONCE_BYTES"
    and "valid_string str" "length str + 16 < 2 ^ 32"
    and "store_ok st" "nonce_seen_at st ''cli-client'' (to_hex (unat (dw_time_hash d))) = None"
  shows "\<exists>request. node_request V d ts m str (b64_encode (cv_crypto V) npk) = Inr request
    \<and> ap_manifest_id request = Some m
    \<and> decrypt_manifest_content mlib (or_empty (ap_manifest_json request)) = Some (Inr (bytes_of_string str))
    \<and> (length (cv_apply_request V request) + 16 < 2 ^ 32 \<longrightarrow>
        (\<exists>call st'. deployment_call V c ts m str d (nid, b64_encode (cv_crypto V) npk) call
          \<and> envelope_middleware (cv_crypto V) (cv_kem V) now h
              \<lparr> rq_content_type = hc_content_type call, rq_body = Some (hc_body call) \<rparr> st
            = (st', Forwarded \<lparr> em_signing_pubkey = pk, em_kem_pubkey = fc_kem_public_key c,
                                em_peer_id = Some ''cli-client'' \<rparr> (Some (cv_apply_request V request)))))"
proof -
  obtain request where request: "node_request V d ts m str (b64_encode (cv_crypto V) npk) = Inr request"
      "ap_manifest_id request = Some m"
      "decrypt_manifest_content mlib (or_empty (ap_manifest_json request)) = Some (Inr (bytes_of_string str))"
    using node_request_decrypted [OF assms(1,6,7,8,10,11,12)] by blast
  have "\<exists>call st'. deployment_call V c ts m str d (nid, b64_encode (cv_crypto V) npk) call
      \<and> envelope_middleware (cv_crypto V) (cv_kem V) now h
          \<lparr> rq_content_type = hc_content_type call, rq_body = Some (hc_body call) \<rparr> st
        = (st', Forwarded \<lparr> em_signing_pubkey = pk, em_kem_pubkey = fc_kem_public_key c,
                            em_peer_id = Some ''cli-client'' \<rparr> (Some (cv_apply_request V request)))"
    if len: "length (cv_apply_request V request) + 16 < 2 ^ 32"
  proof -
    obtain body st' where body: "build_encrypted_envelope_with_peer (cv_crypto V) (cv_kem V) (dw_randomness d)
          (dw_aes_nonce d) (dw_time_hash d) (dw_secs d) (cv_apply_request V request) ''apply_request'' mpk
          (fc_private_key c) (b64_encode (cv_crypto V) pk) ''cli-client''
          (Some (b64_encode (cv_crypto V) (fc_kem_public_key c))) = Inr body"
      "envelope_middleware (cv_crypto V) (cv_kem V) now h
          \<lparr> rq_content_type = Some ''application/octet-stream'', rq_body = Some body \<rparr> st
        = (st', Forwarded \<lparr> em_signing_pubkey = pk, em_kem_pubkey = decode_key (cv_crypto V)
              (Some (or_empty (Some (b64_encode (cv_crypto V) (fc_kem_public_key c))))),
            em_peer_id = Some ''cli-client'' \<rparr> (Some (cv_apply_request V request)))"
      using sealed_request_opened [OF assms(1,2,5,7,9) len assms(13,14)] by blast
    then have "seal_request V c d (cv_apply_request V request) ''apply_request'' = Inr body"
      using assms(3,4) by (simp add: seal_request_def)
    with request(1) body(2) assms(1) show ?thesis
      by (intro exI [of _ "envelope_call POST (trim_end_slashes (fc_base_url c) @ ''/apply_direct/'' @ nid) body"])
        (simp add: deployment_call_def envelope_call_def decode_key_def)
  qed
  with request show ?thesis by blast
qed

text \<open>
  (C31) The client schedules over the candidates that answered: what the REST API replies to a
  client that sent its KEM key, if the reply is longer than 100 bytes, the client opens, and the
  peers it reads are the responders of the query with their keys, in their order.
\<close>

theorem candidates_read_back:
  assumes "crypto_laws (cv_crypto V)" "kem_pair (cv_kem V) (fc_kem_public_key c) (fc_kem_private_key c)"
    and "fc_kem_public_key c \<noteq> []" "aes_laws (cv_kem V)" "fc_machine_public_key c \<noteq> None"
    and "length (re_aes_nonce re) = NONCE_BYTES"
    and "length (wire (CandidatesResponse True (parse_candidates (collect_responders [] replies)))) + 16 < 2 ^ 32"
    and "eh_signing_private_key (rs_handler s) = Some sk" "eh_public_key (rs_handler s) = b64_encode (cv_crypto V) pk"
    and "dsa_keypair (cv_crypto V) pk sk"
    and "\<And>ok cs. cv_root_candidates_response V (wire (CandidatesResponse ok cs))
        = Some (ok, Some (map (\<lambda>(p, k). (Some p, Some k)) cs))"
    and "em_kem_pubkey md = fc_kem_public_key c" "em_peer_id md = Some ''cli-client''"
  shows "\<exists>body. get_candidates (cv_crypto V) (cv_kem V) wire re md replies s = Inr body
    \<and> (100 < length body \<longrightarrow> (\<exists>b peers. read_reply V c 200 (Some body) = Some (Inr b) \<and> read_candidates V b = Inr peers
         \<and> map split_at_colon peers = map Some (parse_candidates (collect_responders [] replies))))"
proof -
  let ?cands = "parse_candidates (collect_responders [] replies)"
  let ?b = "wire (CandidatesResponse True ?cands)"
  obtain e blob where e: "encrypt_response_envelope_with_key (cv_crypto V) (cv_kem V) re (rs_handler s) ?b
        ''candidates_response'' (fc_kem_public_key c) = Some (fb_finish (cv_crypto V) e)"
      "fe_payload e = Some blob" "blob \<noteq> []" "hd blob = 2"
      "decrypt_payload_from_recipient_blob (cv_kem V) blob (fc_kem_private_key c) = Some (Inr ?b)"
    using sealed_reply_opened [OF assms(1-4,6-10)] by blast
  have resp: "get_candidates (cv_crypto V) (cv_kem V) wire re md replies s = Inr (fb_finish (cv_crypto V) e)"
    using assms(3,12,13) by (simp add: get_candidates_def build_candidates_response_with_keys_def
        create_encrypted_response_with_key_def e(1))
  have "decrypt_from_machine V c (fb_finish (cv_crypto V) e) = Some (Inr ?b)"
    using assms(1) e(2-5) by (simp add: decrypt_from_machine_def map_err_def)
  then have "100 < length (fb_finish (cv_crypto V) e) \<Longrightarrow>
      read_reply V c 200 (Some (fb_finish (cv_crypto V) e)) = Some (Inr ?b)"
    using assms(1,5) by (simp add: read_reply_def is_success_def open_reply_def)
  moreover have "read_candidates V ?b = Inr (map (\<lambda>(p, k). p @ '':'' @ k) ?cands)"
    by (simp add: read_candidates_def assms(11) List.map_filter_def comp_def case_prod_beta)
  moreover have "map split_at_colon (map (\<lambda>(p, k). p @ '':'' @ k) ?cands) = map Some ?cands"
    using parse_candidates_no_colon [of _ _ "collect_responders [] replies"] split_at_first_colon
    by (auto simp: case_prod_beta)
  ultimately show ?thesis using resp by blast
qed

text \<open>
  The envelope builder signs a form without the peer id, and the verifier checks one with it: an
  envelope of a builder with a peer id never verifies.
\<close>

theorem manifest_envelope_refused:
  assumes "crypto_laws L" "dsa_keypair L pk sk" "dsa_binding L" "eb_peer_id b \<noteq> []" "eb_public_key b = b64_encode L pk"
    and "build_manifest_envelope L nonce ts b ciphertext sk pk = Inr bytes"
  shows "snd (verify_flatbuffer_envelope_for_peer L now w peer bytes st) \<noteq> Inr parts"
proof
  assume ok: "snd (verify_flatbuffer_envelope_for_peer L now w peer bytes st) = Inr parts"
  let ?canonical = "build_envelope_canonical L ciphertext ''manifest'' (b64_encode L nonce) ts ''ml-dsa-65'' None"
  obtain sg where sg: "sign_envelope L sk pk ?canonical = Inr (b64_encode L sg, b64_encode L pk)"
      "verify_envelope L pk ?canonical sg = Inr ()"
    using sign_envelope_keypair [OF assms(1,2)] by blast
  have bytes: "bytes = build_envelope_signed_with_peer L ciphertext ''manifest'' (b64_encode L nonce) ts ''ml-dsa-65''
      ''ml-dsa-65'' (b64_encode L sg) (eb_public_key b) (eb_peer_id b) None"
    using assms(6) by (simp add: build_manifest_envelope_def Let_def sg(1))
  obtain e where e: "fb_root_as_envelope L bytes = Some e"
      "dsa_verify L (ve_pubkey parts) (rebuilt_canonical L e) (ve_signature parts) = Some True"
    using verify_Inr [OF ok] by blast
  have parts: "ve_pubkey parts = pk" "ve_signature parts = sg"
    using ok assms(1,5) unfolding bytes verify_flatbuffer_envelope_for_peer_def build_envelope_signed_with_peer_def
    by (auto simp: normalize_and_decode_signature_def verified_parts_def Let_def
        split: sum.splits prod.splits if_splits)
  have "dsa_verify L pk ?canonical sg = Some True"
    using sg(2) by (auto simp: verify_envelope_def split: if_splits option.splits bool.splits)
  then have "rebuilt_canonical L e = ?canonical"
    using e(2) assms(3) parts unfolding dsa_binding_def by metis
  then show False
    using e(1) assms(1,4) unfolding bytes
    by (auto simp: rebuilt_canonical_eq builder_defs dest!: fb_finish_inj [OF assms(1)])
qed

end
