(* ===== verification/Cli_Examples.thy ===== *)
theory Cli_Examples
  imports Cli_Runs Rest_Examples
begin

text \<open>
  Concrete runs of the client for the properties of theory \<open>Cli_Runs\<close>: two nodes, a server that
  acknowledges or refuses, and the toy libraries of the other examples.
\<close>

definition toy_draw :: draw where
  "toy_draw = \<lparr> dw_randomness = [], dw_aes_nonce = replicate 12 5, dw_time_hash = 3, dw_secs = 4, dw_millis = 4000,
     dw_nonce = [], dw_manifest_randomness = [], dw_manifest_aes_nonce = replicate 12 5, dw_uuid = ''u'' \<rparr>"

definition toy_root_candidates :: "bytes \<Rightarrow> (bool \<times> (string option \<times> string option) list option) option" where
  "toy_root_candidates bs = (case bs of [] \<Rightarrow> None
     | b # r \<Rightarrow> map_option (\<lambda>cs. (b = 1, Some (map (\<lambda>(p, k). (Some p, Some k)) cs))) (get_pairs (length r) r))"

definition toy_wire :: "rest_message \<Rightarrow> bytes" where
  "toy_wire msg = (case msg of CandidatesResponse ok cs \<Rightarrow> (if ok then 1 else 0) # put_pairs cs | _ \<Rightarrow> [])"

lemma toy_root_wire: "toy_root_candidates (toy_wire (CandidatesResponse ok cs))
    = Some (ok, Some (map (\<lambda>(p, k). (Some p, Some k)) cs))"
  by (simp add: toy_root_candidates_def toy_wire_def get_put_pairs length_put_pairs)

definition toy_cands :: "(string \<times> string) list" where
  "toy_cands = [(''a'', ''1''), (''b'', ''2'')]"

text \<open>
  The server: first its key, then two candidates, then answers of one byte; its state counts the
  requests, and from the request \<open>n\<close> on it refuses.
\<close>

definition toy_server :: "nat \<Rightarrow> http_call \<Rightarrow> nat \<Rightarrow> nat \<times> http_reply" where
  "toy_server n call w = (Suc w,
     if w = 0 then Reply 200 (Some [1])
     else if w = 1 then Reply 200 (Some (toy_wire (CandidatesResponse True toy_cands)))
     else Reply 200 (Some [if w < n then 1 else 0]))"

definition web_manifest :: "nat \<Rightarrow> json" where
  "web_manifest n = JObject [(''metadata'', JObject [(''name'', JString ''web'')]), (''replicas'', JNumber (int n))]"

definition toy_cli :: "json \<Rightarrow> nat \<Rightarrow> (disk, nat) cli_env" where
  "toy_cli j n =
     \<lparr> cv_crypto = toy_lib, cv_kem = toy_kem, cv_keys = env0, cv_new_signing = (\<lambda>_. Inr ([1], [1])),
       cv_new_kem = Inr ([5], [6]), cv_exists = True, cv_contents = Inr ''f'', cv_parse_yaml = (\<lambda>_. Some j),
       cv_print_json = (\<lambda>_. Inr ''doc''), cv_parse_json = Inl, cv_hash = (\<lambda>pk name. of_nat (length name)),
       cv_api_var = None, cv_debug_log = False, cv_sched = demo_env, cv_draw = (\<lambda>_. toy_draw),
       cv_apply_request = (\<lambda>_. [9]), cv_delete_request = (\<lambda>_. [8]),
       cv_root_apply_response = (\<lambda>b. Inr (b = [1], None)), cv_root_delete_response = (\<lambda>b. Inr (True, None)),
       cv_root_candidates_response = toy_root_candidates, cv_server = toy_server n \<rparr>"

definition toy_cli_state :: "disk key_state \<Rightarrow> nat \<Rightarrow> (disk, nat) cli_state" where
  "toy_cli_state k w = \<lparr> cs_keys = k, cs_server = w, cs_log = [] \<rparr>"

definition keys1 :: "disk key_state" where
  "keys1 = keys0 \<lparr> k_config := \<lparr> signing_mode = Ephemeral, kem_mode = Ephemeral, key_directory = None \<rparr>,
     k_ephemeral_signing := Some ([1], [1]), k_ephemeral_kem := Some ([5], [6]) \<rparr>"

lemma keys1_calls:
  "ensure_keypair_on_disk E drawn keys1 = (keys1, Inr ([1], [1]))"
  "ensure_kem_keypair_on_disk E drawn keys1 = (keys1, Inr ([5], [6]))"
  by (simp_all add: keys1_def ensure_keypair_on_disk_def ensure_kem_keypair_on_disk_def)

lemma toy_cli_simps [simp]:
  "cv_crypto (toy_cli j n) = toy_lib" "cv_kem (toy_cli j n) = toy_kem" "cv_keys (toy_cli j n) = env0"
  "cv_exists (toy_cli j n)" "cv_contents (toy_cli j n) = Inr ''f''" "cv_print_json (toy_cli j n) d = Inr ''doc''"
  "cv_hash (toy_cli j n) pk name = of_nat (length name)" "cv_api_var (toy_cli j n) = None" "\<not> cv_debug_log (toy_cli j n)"
  "cv_draw (toy_cli j n) i = toy_draw" "cv_apply_request (toy_cli j n) r = [9]" "cv_delete_request (toy_cli j n) q = [8]"
  "cv_root_apply_response (toy_cli j n) b = Inr (b = [1], None)" "cv_root_delete_response (toy_cli j n) b = Inr (True, None)"
  "cv_root_candidates_response (toy_cli j n) = toy_root_candidates" "cv_server (toy_cli j n) = toy_server n"
  "manifest_json_of (toy_cli j n) f = j"
  by (simp_all add: toy_cli_def manifest_json_of_def)

definition toy_client :: "bytes option \<Rightarrow> flatbuffer_client" where
  "toy_client key = \<lparr> fc_base_url = ''http://127.0.0.1:3000'', fc_private_key = [1], fc_public_key = string_of_bytes [1],
     fc_kem_public_key = [5], fc_kem_private_key = [6], fc_machine_public_key = key \<rparr>"

lemma toy_identify:
  "identify_manifest (toy_cli (web_manifest k) n) (toy_cli_state keys1 w)
     = (toy_cli_state keys1 w, Some (Inr (web_manifest k, hex16 3)))"
  by (simp add: identify_manifest_def try_then_def read_manifest_file_def return_def lift_def with_keys_def keys1_calls
      toy_cli_state_def map_err_def compute_cli_manifest_id_def extract_manifest_name_from_json_def web_manifest_def)

lemma toy_connect:
  "\<exists>x. connect (toy_cli j n) None (toy_cli_state keys1 0)
     = (\<lparr> cs_keys = keys1, cs_server = Suc 0, cs_log = [x] \<rparr>, Some (Inr (toy_client (Some [1]))))"
proof -
  have "from_utf8_lossy [1] = string_of_bytes [1]" by code_simp
  moreover have "\<not> starts_with (string_of_bytes [1]) ''ERROR:''" by code_simp
  moreover have "ke_pqc_init env0 = Inr ()" by (simp add: env0_def disk_env_def)
  ultimately show ?thesis
    by (simp add: connect_def flatbuffer_client_new_def try_then_def return_def lift_def with_keys_def keys1_calls
        toy_cli_state_def map_err_def fetch_machine_public_key_def http_def toy_server_def is_success_def Let_def
        toy_client_def api_base_url_def)
qed

lemma toy_seal: "\<exists>b. seal_request (toy_cli j n) (toy_client (Some [1])) toy_draw p ty = Inr b"
  by (simp add: seal_request_def toy_client_def build_encrypted_envelope_with_peer_def encrypt_payload_for_recipient_def
      encapsulate_to_pubkey_def toy_kem_def Let_def sign_envelope_def map_err_def)

lemma toy_send:
  "\<exists>x. send_encrypted_request (toy_cli j n) (toy_client (Some [1])) url p ty \<lparr> cs_keys = k, cs_server = w, cs_log = l \<rparr>
     = (\<lparr> cs_keys = k, cs_server = Suc w, cs_log = l @ [x] \<rparr>,
        case snd (toy_server n (envelope_call POST url []) w) of Reply status body \<Rightarrow>
          read_reply (toy_cli j n) (toy_client (Some [1])) status body)"
  using toy_seal [of j n p ty]
  by (auto simp: send_encrypted_request_def current_draw_def http_def lift_def toy_server_def)

lemma toy_wire_short: "length (toy_wire (CandidatesResponse True toy_cands)) \<le> 100"
  by code_simp

definition toy_peers :: "string list" where
  "toy_peers = [''a:1'', ''b:2'']"

lemma toy_get_candidates:
  "\<exists>x. cli_get_candidates (toy_cli j n) (toy_client (Some [1])) m \<lparr> cs_keys = k, cs_server = 1, cs_log = l \<rparr>
     = (\<lparr> cs_keys = k, cs_server = 2, cs_log = l @ [x] \<rparr>, Some (Inr toy_peers))"
proof -
  let ?b = "toy_wire (CandidatesResponse True toy_cands)"
  have reply: "read_reply (toy_cli j n) (toy_client (Some [1])) 200 (Some ?b) = Some (Inr ?b)"
    using toy_wire_short by (simp add: read_reply_def is_success_def open_reply_def)
  have "read_candidates (toy_cli j n) ?b = Inr toy_peers"
    by (simp add: read_candidates_def toy_root_wire toy_cands_def toy_peers_def List.map_filter_def)
  then show ?thesis
    using toy_send [of j n "trim_end_slashes (fc_base_url (toy_client (Some [1]))) @ ''/tasks/'' @ m @ ''/candidates''" "[]"
        "''candidates_request''" k 1 l]
    by (auto simp: cli_get_candidates_def try_then_def toy_server_def reply lift_def)
qed

lemma toy_selected: "select_nodes (toy_cli j n) toy_peers 2 = Some (Inr [(''a'', ''1''), (''b'', ''2'')])"
proof -
  have "toy_peers \<noteq> []" "2 \<le> length toy_peers" "(2 :: nat) \<le> 2 ^ 64" "\<forall>p \<in> set toy_peers. split_at_colon p \<noteq> None"
    by (simp_all add: toy_peers_def)
  from select_nodes_first [OF this, of "toy_cli j n"] obtain targets where
    t: "select_nodes (toy_cli j n) toy_peers 2 = Some (Inr targets)" "length targets = 2"
      "\<forall>i < 2. fst (targets ! i) = fst (the (split_at_colon (toy_peers ! i)))
        \<and> (\<exists>p \<in> set toy_peers. split_at_colon p = Some (targets ! i))"
    by blast
  from t(2) obtain a b a' b' where [simp]: "targets = [(a, b), (a', b')]" by (auto simp: numeral_2_eq_2 length_Suc_conv)
  have "a = ''a''" "a' = ''b''" "b = ''1''" "b' = ''2''"
    using t(3) by (auto simp: All_less_Suc2 numeral_2_eq_2 toy_peers_def)
  with t(1) show ?thesis by simp
qed

lemma toy_apply_to_node:
  assumes "2 \<le> w"
  shows "\<exists>x. apply_to_node (toy_cli j n) (toy_client (Some [1])) ts m str (nid, key)
      \<lparr> cs_keys = k, cs_server = w, cs_log = l \<rparr>
    = (\<lparr> cs_keys = k, cs_server = Suc w, cs_log = l @ [x] \<rparr>,
       Some (if w < n then Inr () else Inl (ApplyFailed nid ''unknown error'')))"
proof -
  obtain request where request: "node_request (toy_cli j n) toy_draw ts m str key = Inr request"
    by (simp add: node_request_def encrypt_payload_for_recipient_def encapsulate_to_pubkey_def toy_kem_def)
  have "read_reply (toy_cli j n) (toy_client (Some [1])) 200 (Some [b]) = Some (Inr [b])" for b
    by (simp add: read_reply_def is_success_def open_reply_def)
  then show ?thesis
    using toy_send [of j n "trim_end_slashes (fc_base_url (toy_client (Some [1]))) @ ''/apply_direct/'' @ nid" "[9]"
        "''apply_request''" k w l] assms
    by (auto simp: apply_to_node_def try_then_def current_draw_def request lift_def map_err_def return_def fail_def toy_server_def)
qed

lemma toy_apply_to_nodes:
  "\<exists>l'. apply_to_nodes (toy_cli j n) (toy_client (Some [1])) ts m str [(''a'', ''1''), (''b'', ''2'')]
      \<lparr> cs_keys = k, cs_server = 2, cs_log = l \<rparr>
    = (\<lparr> cs_keys = k, cs_server = if 2 < n then 4 else 3, cs_log = l' \<rparr>,
       Some (if 3 < n then Inr () else Inl (ApplyFailed (if 2 < n then ''b'' else ''a'') ''unknown error'')))"
proof -
  obtain x where "apply_to_node (toy_cli j n) (toy_client (Some [1])) ts m str (''a'', ''1'')
      \<lparr> cs_keys = k, cs_server = 2, cs_log = l \<rparr>
    = (\<lparr> cs_keys = k, cs_server = 3, cs_log = l @ [x] \<rparr>,
       Some (if 2 < n then Inr () else Inl (ApplyFailed ''a'' ''unknown error'')))"
    using toy_apply_to_node [of 2 j n ts m str "''a''" "''1''" k l] by auto
  moreover obtain y where "apply_to_node (toy_cli j n) (toy_client (Some [1])) ts m str (''b'', ''2'')
      \<lparr> cs_keys = k, cs_server = 3, cs_log = l @ [x] \<rparr>
    = (\<lparr> cs_keys = k, cs_server = 4, cs_log = l @ [x, y] \<rparr>,
       Some (if 3 < n then Inr () else Inl (ApplyFailed ''b'' ''unknown error'')))"
    using toy_apply_to_node [of 3 j n ts m str "''b''" "''2''" k "l @ [x]"] by auto
  ultimately show ?thesis by (auto simp: try_then_def return_def)
qed

lemma toy_apply:
  "\<exists>s'. apply_file (toy_cli (web_manifest 2) n) None (toy_cli_state keys1 0) = (s', Some
     (if 3 < n then Inr (hex16 3) else Inl (ApplyFailed (if 2 < n then ''b'' else ''a'') ''unknown error'')))
   \<and> cs_keys s' = keys1"
proof -
  let ?V = "toy_cli (web_manifest 2) n"
  obtain x where x: "connect ?V None (toy_cli_state keys1 0)
      = (\<lparr> cs_keys = keys1, cs_server = Suc 0, cs_log = [x] \<rparr>, Some (Inr (toy_client (Some [1]))))"
    using toy_connect by blast
  obtain y where y: "cli_get_candidates ?V (toy_client (Some [1])) (hex16 3) \<lparr> cs_keys = keys1, cs_server = Suc 0, cs_log = [x] \<rparr>
      = (\<lparr> cs_keys = keys1, cs_server = 2, cs_log = [x, y] \<rparr>, Some (Inr toy_peers))"
    using toy_get_candidates [of "web_manifest 2" n "hex16 3" keys1 "[x]"] by auto
  have peers: "toy_peers \<noteq> []" "length toy_peers = 2" by (simp_all add: toy_peers_def)
  have "replicas_of (web_manifest 2) = 2" by (simp add: replicas_of_def web_manifest_def)
  then show ?thesis
    using toy_apply_to_nodes [of "web_manifest 2" n "dw_millis toy_draw" "hex16 3" "''doc''" keys1 "[x, y]"]
    by (auto simp: apply_file_def toy_identify try_then_def [of "identify_manifest ?V"] try_then_def [of "connect ?V None"]
        try_then_def [of "cli_get_candidates ?V c m" for c m] try_then_def [of "lift r" for r]
        try_then_def [of "apply_to_selected ?V c m str ts" for c m str ts] x y distribute_manifest_def toy_selected
        lift_def map_err_def return_def apply_to_selected_def current_draw_def Let_def peers simp del: apply_to_nodes.simps)
qed

section \<open>Witnesses\<close>

theorem apply_deploys_replicas_witness:
  "\<exists>s' c str peers targets reply cand xs ts.
     apply_file (toy_cli (web_manifest 2) 9) None (toy_cli_state keys1 0) = (s', Some (Inr (hex16 3)))
     \<and> cs_log s' = [(key_call (api_base_url (toy_cli (web_manifest 2) 9) None), reply), cand] @ xs
     \<and> length targets = 2
     \<and> deployed_all (toy_cli (web_manifest 2) 9) c ts (hex16 3) str 2 targets xs"
proof -
  obtain s' where s': "apply_file (toy_cli (web_manifest 2) 9) None (toy_cli_state keys1 0) = (s', Some (Inr (hex16 3)))"
    using toy_apply [of 9] by auto
  have "replicas_of (web_manifest 2) = 2" "cs_log (toy_cli_state keys1 0) = []"
    by (simp_all add: replicas_of_def web_manifest_def toy_cli_state_def)
  with apply_deploys_replicas [OF s'] s' show ?thesis
    by (simp del: append_Cons append_Nil) (metis append_Nil numeral_2_eq_2)
qed

theorem failed_apply_not_undone_witness:
  "\<exists>s' c m str ts targets reply cand xs x.
     apply_file (toy_cli (web_manifest 2) 3) None (toy_cli_state keys1 0) = (s', Some (Inl (ApplyFailed ''b'' ''unknown error'')))
     \<and> cs_log s' = [(key_call (api_base_url (toy_cli (web_manifest 2) 3) None), reply), cand] @ xs @ [x]
     \<and> (\<exists>k. deployed_all (toy_cli (web_manifest 2) 3) c ts m str 2 (take k targets) xs)
     \<and> apply_answer (toy_cli (web_manifest 2) 3) c (snd x) False"
proof -
  obtain s' where s': "apply_file (toy_cli (web_manifest 2) 3) None (toy_cli_state keys1 0)
      = (s', Some (Inl (ApplyFailed ''b'' ''unknown error'')))"
    using toy_apply [of 3] by auto
  have "cs_log (toy_cli_state keys1 0) = []" by (simp add: toy_cli_state_def)
  with failed_apply_not_undone [OF s'] s' show ?thesis
    by (simp del: append_Cons append_Nil) (metis append_Nil numeral_2_eq_2)
qed

lemma toy_delete:
  "\<exists>s'. delete_file (toy_cli (web_manifest k) 9) False None (toy_cli_state keys1 0) = (s', Some (Inr (hex16 3)))"
proof -
  let ?V = "toy_cli (web_manifest k) 9"
  obtain x where x: "connect ?V None (toy_cli_state keys1 0)
      = (\<lparr> cs_keys = keys1, cs_server = Suc 0, cs_log = [x] \<rparr>, Some (Inr (toy_client (Some [1]))))"
    using toy_connect by fastforce
  let ?b = "toy_wire (CandidatesResponse True toy_cands)"
  have reply: "open_reply ?V (toy_client (Some [1])) ?b = Some ?b"
    using toy_wire_short by (simp add: open_reply_def)
  obtain body where "seal_request ?V (toy_client (Some [1])) toy_draw [8] ''delete_request'' = Inr body"
    using toy_seal by blast
  then show ?thesis
    by (simp add: delete_file_def try_then_def toy_identify x request_deletion_def send_delete_request_def current_draw_def
        http_def toy_server_def is_success_def reply lift_def map_err_def return_def Let_def)
qed

theorem delete_finds_applied_id_witness:
  "\<exists>s1 s3 m m'. apply_file (toy_cli (web_manifest 2) 9) None (toy_cli_state keys1 0) = (s1, Some (Inr m))
     \<and> delete_file (toy_cli (web_manifest 5) 9) False None (toy_cli_state keys1 0) = (s3, Some (Inr m')) \<and> m' = m"
proof -
  obtain s1 where s1: "apply_file (toy_cli (web_manifest 2) 9) None (toy_cli_state keys1 0) = (s1, Some (Inr (hex16 3)))"
      "cs_keys s1 = keys1"
    using toy_apply [of 9] by auto
  obtain s3 where s3: "delete_file (toy_cli (web_manifest 5) 9) False None (toy_cli_state keys1 0) = (s3, Some (Inr (hex16 3)))"
    using toy_delete by blast
  have "hex16 3 = (hex16 3 :: string) \<and> length (hex16 3) = 16"
  proof (rule delete_finds_applied_id [OF s1(1) s3])
    show "cv_keys (toy_cli (web_manifest 2) 9) = disk_env (\<lambda>_. False) (Some ''/home/u'') (Inr ())" by (simp add: env0_def)
    show "cv_keys (toy_cli (web_manifest 5) 9) = disk_env (\<lambda>_. False) (Some ''/home/u'') (Inr ())" by (simp add: env0_def)
    show "cv_hash (toy_cli (web_manifest 5) 9) = cv_hash (toy_cli (web_manifest 2) 9)" by (simp add: fun_eq_iff)
    show "key_steps (disk_env (\<lambda>_. False) (Some ''/home/u'') (Inr ())) (cs_keys s1) (cs_keys (toy_cli_state keys1 0))"
      by (simp add: s1(2) toy_cli_state_def keys_start)
  qed (simp add: extract_manifest_name_from_json_def web_manifest_def)
  with s1(1) s3 show ?thesis by blast
qed

definition toy_manifest_lib :: "bytes \<Rightarrow> manifest_lib" where
  "toy_manifest_lib sk = \<lparr> ml_b64_decode = (\<lambda>s. Inr (bytes_of_string s)),
     ml_root_as_envelope = (\<lambda>b. case toy_root b of Some e \<Rightarrow> Inr e | None \<Rightarrow> Inl ''parse''),
     ml_kem_private_key = Inr sk,
     ml_kem = toy_kem, ml_blob_error = (\<lambda>_. ''decrypt''),
     ml_utf8_error = (\<lambda>_. []), ml_yaml_parse = (\<lambda>_. None), ml_yaml_print = (\<lambda>_. Inr []) \<rparr>"

lemma toy_same_libraries: "same_libraries toy_lib toy_kem sk (toy_manifest_lib sk)"
  by (auto simp: same_libraries_def toy_manifest_lib_def toy_lib_def)

lemma toy_kem_laws: "kem_pair toy_kem pk sk" "aes_laws toy_kem"
  by (simp_all add: kem_pair_def aes_laws_def toy_kem_def NONCE_BYTES_def)

theorem manifest_reaches_node_witness:
  "\<exists>request. node_request (toy_cli JNull 0) toy_draw 7 ''m'' ''doc'' (b64_encode toy_lib [3]) = Inr request
    \<and> decrypt_manifest_content (toy_manifest_lib [4]) (or_empty (ap_manifest_json request)) = Some (Inr (bytes_of_string ''doc''))
    \<and> (\<exists>call st'. deployment_call (toy_cli JNull 0) (toy_client (Some [1])) 7 ''m'' ''doc'' toy_draw
            (''a'', b64_encode toy_lib [3]) call
        \<and> envelope_middleware toy_lib toy_kem 0 toy_handler
            \<lparr> rq_content_type = hc_content_type call, rq_body = Some (hc_body call) \<rparr> hm_empty
          = (st', Forwarded \<lparr> em_signing_pubkey = [1], em_kem_pubkey = [5], em_peer_id = Some ''cli-client'' \<rparr> (Some [9])))"
proof -
  have d: "length (dw_aes_nonce toy_draw) = NONCE_BYTES" "length (dw_manifest_aes_nonce toy_draw) = NONCE_BYTES"
    by (simp_all add: toy_draw_def NONCE_BYTES_def)
  have c: "dsa_keypair toy_lib [1] (fc_private_key (toy_client (Some [1])))"
      "fc_public_key (toy_client (Some [1])) = b64_encode toy_lib [1]"
      "fc_machine_public_key (toy_client (Some [1])) = Some [1]" "fc_kem_public_key (toy_client (Some [1])) = [5]"
    using toy_laws(2) by (simp_all add: toy_client_def)
  have v: "valid_string ''doc''" by code_simp
  note libs = toy_cli_simps(1,2) [of JNull 0]
  show ?thesis
    using manifest_reaches_node [where V = "toy_cli JNull 0" and c = "toy_client (Some [1])" and d = toy_draw and pk = "[1]"
        and mpk = "[1]" and h = toy_handler and npk = "[3]" and nsk = "[4]" and mlib = "toy_manifest_lib [4]" and str = "''doc''"
        and st = hm_empty and ts = "7" and m = "''m''" and nid = "''a''" and now = "0", unfolded libs,
        OF toy_laws(1) c(1,2,3) toy_kem_laws(1) toy_kem_laws toy_same_libraries d v _ toy_nonce_fresh] c(4)
    by (auto simp del: toy_lib_simps)
qed

theorem candidates_read_back_witness:
  "\<exists>body. get_candidates toy_lib toy_kem toy_wire toy_reply_env
        \<lparr> em_signing_pubkey = [1], em_kem_pubkey = [5], em_peer_id = Some ''cli-client'' \<rparr> [''a:1'', ''b:2''] toy_rest = Inr body
    \<and> (100 < length body \<longrightarrow> (\<exists>b peers. read_reply (toy_cli JNull 0) (toy_client (Some [1])) 200 (Some body) = Some (Inr b)
         \<and> read_candidates (toy_cli JNull 0) b = Inr peers
         \<and> map split_at_colon peers = [Some (''a'', ''1''), Some (''b'', ''2'')]))"
proof -
  have c: "fc_kem_public_key (toy_client (Some [1])) = [5]" "fc_machine_public_key (toy_client (Some [1])) \<noteq> None"
    by (simp_all add: toy_client_def)
  have h: "eh_signing_private_key (rs_handler toy_rest) = Some [7]" "eh_public_key (rs_handler toy_rest) = b64_encode toy_lib [7]"
    by (simp_all add: toy_rest_def build_router_state_def toy_handler_def envelope_handler_new_def)
  have parsed: "parse_candidates (collect_responders [] [''a:1'', ''b:2'']) = toy_cands"
    by (simp add: parse_candidates_def List.map_filter_def toy_cands_def)
  have len: "length (toy_wire (CandidatesResponse True toy_cands)) + 16 < 2 ^ 32"
    using toy_wire_short by simp
  note libs = toy_cli_simps(1,2,15) [of JNull 0]
  show ?thesis
    using candidates_read_back [where V = "toy_cli JNull 0" and c = "toy_client (Some [1])" and re = toy_reply_env
        and wire = toy_wire and replies = "[''a:1'', ''b:2'']" and s = toy_rest and pk = "[7]" and sk = "[7]"
        and md = "\<lparr> em_signing_pubkey = [1], em_kem_pubkey = [5], em_peer_id = Some ''cli-client'' \<rparr>", unfolded libs parsed c(1),
        OF toy_laws(1) toy_kem_laws(1) _ toy_kem_laws(2) c(2) _ len h toy_laws(2) toy_root_wire]
    by (simp add: toy_reply_env_def NONCE_BYTES_def toy_cands_def del: toy_lib_simps)
qed

end
