(* ===== verification/Startup.thy ===== *)
theory Startup
  imports Keypairs Rest_Api Podman_Engine Network_Control
begin

text \<open>
  The start of a machine, \<open>start_machine\<close> in \<open>machine/src/lib.rs\<close> with \<open>setup_libp2p_node\<close> and
  \<open>set_node_keypair\<close> of \<open>libp2p_beemesh/mod.rs\<close>: options, keys, the network node, the handler of
  encrypted requests, the workload manager and the servers. The process is the record of its
  globals; what the operating system and libp2p answer is an argument. \<^const>\<open>None\<close> is a panic.
  The configuration of libp2p's protocols and the log output are left out.
\<close>

section \<open>Options\<close>

record machine_options =
  mo_ephemeral :: bool
  mo_rest_api_host :: string
  mo_rest_api_port :: u16
  mo_disable_rest_api :: bool
  mo_disable_machine_api :: bool
  mo_disable_scheduling :: bool
  mo_node_name :: "string option"
  mo_mock_only_runtime :: bool
  mo_podman_socket :: "string option"
  mo_signing_ephemeral :: bool
  mo_kem_ephemeral :: bool
  mo_ephemeral_keys :: bool
  mo_api_socket :: "string option"
  mo_key_dir :: string
  mo_bootstrap_peer :: "string list"
  mo_libp2p_quic_port :: u16
  mo_libp2p_host :: string

definition default_machine_options :: machine_options where
  "default_machine_options =
     \<lparr> mo_ephemeral = False, mo_rest_api_host = ''127.0.0.1'', mo_rest_api_port = 3000, mo_disable_rest_api = False,
       mo_disable_machine_api = False, mo_disable_scheduling = False, mo_node_name = None,
       mo_mock_only_runtime = False, mo_podman_socket = None, mo_signing_ephemeral = False, mo_kem_ephemeral = False,
       mo_ephemeral_keys = False, mo_api_socket = Some ''/run/beemesh/host.sock'',
       mo_key_dir = ''/etc/beemesh/machine'', mo_bootstrap_peer = [], mo_libp2p_quic_port = 0,
       mo_libp2p_host = ''0.0.0.0'' \<rparr>"

definition keypair_config_of :: "machine_options \<Rightarrow> keypair_config" where
  "keypair_config_of o' =
     \<lparr> signing_mode = (if mo_signing_ephemeral o' \<or> mo_ephemeral_keys o' then Ephemeral else Persistent),
       kem_mode = (if mo_kem_ephemeral o' \<or> mo_ephemeral_keys o' then Ephemeral else Persistent),
       key_directory = Some (mo_key_dir o') \<rparr>"

definition configure_podman_runtime :: "string option \<Rightarrow> podman_settings" where
  "configure_podman_runtime socket = configure_runtime socket (socket \<noteq> None)"

section \<open>The process\<close>

datatype protocol_part =
    Ip4 string | Ip6 string | Dns string | Dns4 string | Dns6 string | Tcp u16 | Udp u16 | QuicV1 | OtherPart string

datatype ip_address = IpV4 string | IpV6 string

datatype machine_task = NetworkTask | RestTask string | HostTask string

datatype start_error =
    StartPqc string
  | StartNoHome string
  | StartIo string
  | StartGenerate string
  | StartNetwork string
  | StartKem string
  | StartSigning string
  | StartBind string

record ('f, 'e) start_env =
  sv_crypto :: crypto_lib
  sv_keys :: "'f key_env"
  sv_write_secure :: "string \<Rightarrow> nat \<Rightarrow> bytes \<Rightarrow> 'f \<Rightarrow> 'f \<times> (string + unit)"
  sv_remove :: "string \<Rightarrow> 'f \<Rightarrow> 'f"
  sv_parent :: "string \<Rightarrow> string option"
  sv_node_draw :: "string + keypair"
  sv_kem_draw :: "string + keypair"
  sv_signing_draw :: "nat \<Rightarrow> string + keypair"
  sv_identity :: "string + peer_id"
  sv_subscribe :: "string + unit"
  sv_parse_ip :: "string \<Rightarrow> ip_address option"
  sv_parse_address :: "string \<Rightarrow> string + protocol_part list"
  sv_listen :: "protocol_part list \<Rightarrow> string + unit"
  sv_dial :: "protocol_part list \<Rightarrow> string + unit"
  sv_profile :: profile
  sv_parse_error :: "string \<Rightarrow> string"
  sv_host :: host_view
  sv_default_registry :: "'e runtime_registry"
  sv_mock_registry :: "'e runtime_registry"
  sv_bind :: "string \<Rightarrow> string + unit"

record ('f, 'e) process =
  pc_keys :: "'f key_state"
  pc_node_keypair :: "keypair option option"
  pc_podman :: podman_settings
  pc_mesh :: "'e mesh_node"
  pc_listening :: "protocol_part list option"
  pc_dialed :: "protocol_part list list"
  pc_handler :: "envelope_handler option"
  pc_control_set :: bool
  pc_tasks :: "machine_task list"

text \<open>The globals of a new process over the files \<open>f\<close>.\<close>

definition empty_node :: "'e node" where
  "empty_node = \<lparr> runtime_registry_of = None, provider_manager_of = None, resource_verifier_of = verifier_new,
     manifest_owner_map = hm_empty, nonces = hm_empty \<rparr>"

definition mesh_new :: "'e mesh_node" where
  "mesh_new = \<lparr> mn_node = empty_node, mn_applying = None, mn_spawned = [], mn_authorised = [], mn_scheduling = hm_empty,
     mn_pending_queries = hm_empty, mn_observed = [], mn_handshakes = hm_empty, mn_announces = hm_empty,
     mn_enqueued = [], mn_provider_queries = hm_empty, mn_manifest_requests = hm_empty, mn_peers = [],
     mn_calls = [], mn_replies = [], mn_running = True \<rparr>"

definition process_new :: "'f \<Rightarrow> ('f, 'e) process" where
  "process_new f =
     \<lparr> pc_keys = \<lparr> k_files = f, k_config = default_keypair_config, k_ephemeral_signing = None, k_ephemeral_kem = None,
                   k_cached_signing = None, k_cached_kem = None \<rparr>,
       pc_node_keypair = None, pc_podman = \<lparr> ps_socket_override = None, ps_force_remote = False \<rparr>,
       pc_mesh = mesh_new, pc_listening = None, pc_dialed = [], pc_handler = None, pc_control_set = False,
       pc_tasks = [] \<rparr>"

definition put_files :: "'f \<Rightarrow> ('f, 'e) process \<Rightarrow> ('f, 'e) process" where
  "put_files f p = p \<lparr> pc_keys := (pc_keys p) \<lparr> k_files := f \<rparr> \<rparr>"

section \<open>The keypair of the node\<close>

text \<open>The keypair is set once; a later call has no effect.\<close>

definition set_node_keypair :: "keypair option \<Rightarrow> ('f, 'e) process \<Rightarrow> ('f, 'e) process" where
  "set_node_keypair pair p =
     (case pc_node_keypair p of None \<Rightarrow> p \<lparr> pc_node_keypair := Some pair \<rparr> | Some _ \<Rightarrow> p)"

text \<open>The configured directory, or the one in the home directory if it cannot be made.\<close>

definition machine_key_dir :: "'f key_env \<Rightarrow> string \<Rightarrow> 'f \<Rightarrow> 'f \<times> (start_error + string)" where
  "machine_key_dir E key_dir f =
     (case ensure_key_dir E key_dir f of
        (f, Inr _) \<Rightarrow> (f, Inr key_dir)
      | (f, Inl e) \<Rightarrow>
          (case ke_home_dir E of
             None \<Rightarrow> (f, Inl (StartNoHome e))
           | Some home \<Rightarrow>
               (let key_path = child_path home ''.beemesh'' in
                case ensure_key_dir E key_path f of
                  (f, Inl e) \<Rightarrow> (f, Inl (StartIo e))
                | (f, Inr _) \<Rightarrow> (f, Inr key_path))))"

definition machine_keypair :: "('f, 'e) start_env \<Rightarrow> string \<Rightarrow> 'f \<Rightarrow> 'f \<times> (start_error + keypair)" where
  "machine_keypair S key_path f =
     (let E = sv_keys S; pubpath = child_path key_path ''pubkey.bin''; privpath = child_path key_path ''privkey.bin'' in
      if ke_exists E pubpath f \<and> ke_exists E privpath f
      then (case ke_read E pubpath f of
              Inl e \<Rightarrow> (f, Inl (StartIo e))
            | Inr pk \<Rightarrow> (case ke_read E privpath f of Inl e \<Rightarrow> (f, Inl (StartIo e)) | Inr sk \<Rightarrow> (f, Inr (pk, sk))))
      else (case sv_node_draw S of
              Inl e \<Rightarrow> (f, Inl (StartGenerate e))
            | Inr (pk_bytes, sk_bytes) \<Rightarrow>
                (case sv_write_secure S pubpath (6 * 8 ^ 2) pk_bytes f of
                   (f, Inl e) \<Rightarrow> (f, Inl (StartIo e))
                 | (f, Inr _) \<Rightarrow>
                     (case sv_write_secure S privpath (6 * 8 ^ 2) sk_bytes f of
                        (f, Inl e) \<Rightarrow> (f, Inl (StartIo e))
                      | (f, Inr _) \<Rightarrow> (f, Inr (pk_bytes, sk_bytes))))))"

definition start_node_keypair ::
  "('f, 'e) start_env \<Rightarrow> machine_options \<Rightarrow> ('f, 'e) process \<Rightarrow> ('f, 'e) process \<times> (start_error + unit)" where
  "start_node_keypair S o' p =
     (if mo_ephemeral o'
      then (set_node_keypair (case ensure_keypair_ephemeral (sv_keys S) (sv_node_draw S) of Inr kp \<Rightarrow> Some kp | Inl _ \<Rightarrow> None) p,
            Inr ())
      else (case machine_key_dir (sv_keys S) (mo_key_dir o') (k_files (pc_keys p)) of
              (f, Inl e) \<Rightarrow> (put_files f p, Inl e)
            | (f, Inr key_path) \<Rightarrow>
                (case machine_keypair S key_path f of
                   (f, Inl e) \<Rightarrow> (put_files f p, Inl e)
                 | (f, Inr kp) \<Rightarrow> (set_node_keypair (Some kp) (put_files f p), Inr ()))))"

section \<open>The network node\<close>

definition listen_address :: "('f, 'e) start_env \<Rightarrow> u16 \<Rightarrow> string \<Rightarrow> string + protocol_part list" where
  "listen_address S quic_port host =
     (case sv_parse_ip S host of
        Some (IpV4 ipv4) \<Rightarrow> Inr [Ip4 ipv4, Udp quic_port, QuicV1]
      | Some (IpV6 ipv6) \<Rightarrow> Inr [Ip6 ipv6, Udp quic_port, QuicV1]
      | None \<Rightarrow> sv_parse_address S (''/ip4/'' @ host @ ''/udp/'' @ to_decimal (unat quic_port) @ ''/quic-v1''))"

text \<open>The address that the node reports when it listens: the last host and the last port.\<close>

definition extract_listen_endpoint :: "protocol_part list \<Rightarrow> (string \<times> u16) option" where
  "extract_listen_endpoint addr =
     (case fold (\<lambda>proto (host, port).
        (case proto of
           Ip4 h \<Rightarrow> (Some h, port) | Ip6 h \<Rightarrow> (Some h, port) | Dns h \<Rightarrow> (Some h, port) | Dns4 h \<Rightarrow> (Some h, port)
         | Dns6 h \<Rightarrow> (Some h, port) | Tcp value \<Rightarrow> (host, Some value) | Udp value \<Rightarrow> (host, Some value)
         | _ \<Rightarrow> (host, port))) addr (None, None) of
        (Some host, Some port) \<Rightarrow> Some (host, port)
      | _ \<Rightarrow> None)"

definition setup_libp2p_node ::
  "('f, 'e) start_env \<Rightarrow> u16 \<Rightarrow> string \<Rightarrow> bool \<Rightarrow> ('f, 'e) process \<Rightarrow> ('f, 'e) process \<times> (start_error + unit)" where
  "setup_libp2p_node S quic_port host disable_scheduling p =
     (case sv_identity S of
        Inl e \<Rightarrow> (p, Inl (StartNetwork e))
      | Inr local_peer \<Rightarrow>
          (let p = p \<lparr> pc_mesh := register_scheduling_preference local_peer disable_scheduling (pc_mesh p) \<rparr> in
           case sv_subscribe S of
             Inl e \<Rightarrow> (p, Inl (StartNetwork e))
           | Inr _ \<Rightarrow>
               (case listen_address S quic_port host of
                  Inl e \<Rightarrow> (p, Inl (StartNetwork e))
                | Inr addr \<Rightarrow>
                    (case sv_listen S addr of
                       Inl e \<Rightarrow> (p, Inl (StartNetwork e))
                     | Inr _ \<Rightarrow> (p \<lparr> pc_listening := Some addr \<rparr>, Inr ())))))"

text \<open>Addresses that cannot be parsed or dialed are skipped.\<close>

definition dial_bootstrap_peers :: "('f, 'e) start_env \<Rightarrow> string list \<Rightarrow> ('f, 'e) process \<Rightarrow> ('f, 'e) process" where
  "dial_bootstrap_peers S addrs p =
     p \<lparr> pc_dialed := pc_dialed p @ concat (map (\<lambda>addr. case sv_parse_address S addr of
             Inl _ \<Rightarrow> [] | Inr ma \<Rightarrow> (case sv_dial S ma of Inr _ \<Rightarrow> [ma] | Inl _ \<Rightarrow> [])) addrs) \<rparr>"

section \<open>The handler of encrypted requests\<close>

definition make_envelope_handler ::
  "('f, 'e) start_env \<Rightarrow> ('f, 'e) process \<Rightarrow> ('f, 'e) process \<times> (start_error + envelope_handler)" where
  "make_envelope_handler S p =
     (case ensure_kem_keypair_on_disk (sv_keys S) (sv_kem_draw S) (pc_keys p) of
        (k, Inl e) \<Rightarrow> (p \<lparr> pc_keys := k \<rparr>, Inl (StartKem e))
      | (k, Inr (_, kem_sk_bytes)) \<Rightarrow>
          (case ensure_keypair_on_disk (sv_keys S) (sv_signing_draw S 0) k of
             (k, Inl e) \<Rightarrow> (p \<lparr> pc_keys := k \<rparr>, Inl (StartSigning e))
           | (k, Inr (signing_pk_bytes, _)) \<Rightarrow>
               (let signing_public_key_b64 = b64_encode (sv_crypto S) signing_pk_bytes in
                case (case pc_node_keypair p of
                        Some (Some _) \<Rightarrow> (k, Inl [])
                      | _ \<Rightarrow> ensure_keypair_on_disk (sv_keys S) (sv_signing_draw S 1) k) of
                  (k, on_disk) \<Rightarrow>
                    (p \<lparr> pc_keys := k \<rparr>,
                     Inr (envelope_handler_new (pc_node_keypair p) on_disk kem_sk_bytes signing_public_key_b64)))))"

section \<open>The servers\<close>

text \<open>A failure of the parent directory keeps the host API from starting, and nothing else.\<close>

definition start_host_api :: "('f, 'e) start_env \<Rightarrow> string \<Rightarrow> ('f, 'e) process \<Rightarrow> ('f, 'e) process" where
  "start_host_api S socket p =
     (let E = sv_keys S; f = k_files (pc_keys p);
          (f, start_uds) =
            (case sv_parent S socket of
               None \<Rightarrow> (f, True)
             | Some parent \<Rightarrow>
                 if ke_exists E parent f then (f, True)
                 else (case ke_create_dir_all E parent f of
                         (f, Inr _) \<Rightarrow> (fst (ke_set_permissions E parent (7 * 8 ^ 2 + 5 * 8 + 5) f), True)
                       | (f, Inl _) \<Rightarrow> (f, False))) in
      if start_uds
      then (put_files (sv_remove S socket f) p) \<lparr> pc_tasks := pc_tasks p @ [HostTask socket] \<rparr>
      else put_files f p)"

definition start_servers ::
  "('f, 'e) start_env \<Rightarrow> machine_options \<Rightarrow> ('f, 'e) process \<Rightarrow> ('f, 'e) process \<times> (start_error + unit)" where
  "start_servers S o' p =
     (let host_api = (\<lambda>p. if \<not> mo_disable_machine_api o'
                          then (case mo_api_socket o' of Some socket \<Rightarrow> start_host_api S socket p | None \<Rightarrow> p)
                          else p);
          bind_addr = mo_rest_api_host o' @ '':'' @ to_decimal (unat (mo_rest_api_port o')) in
      if mo_disable_rest_api o' then (host_api p, Inr ())
      else (case sv_bind S bind_addr of
              Inl e \<Rightarrow> (p, Inl (StartBind e))
            | Inr _ \<Rightarrow> (host_api (p \<lparr> pc_tasks := pc_tasks p @ [RestTask bind_addr] \<rparr>), Inr ())))"

section \<open>The start\<close>

text \<open>From the handler on: the control channel, the network task, the workload manager, the servers.\<close>

definition start_services ::
  "('f, 'e) start_env \<Rightarrow> machine_options \<Rightarrow> ('f, 'e) process \<Rightarrow> (('f, 'e) process \<times> (start_error + machine_task list)) option" where
  "start_services S o' p =
     (let already = length (pc_tasks p) in
      case make_envelope_handler S p of
        (p, Inl e) \<Rightarrow> Some (p, Inl e)
      | (p, Inr h) \<Rightarrow>
          (let p = p \<lparr> pc_handler := Some h, pc_control_set := True, pc_tasks := pc_tasks p @ [NetworkTask] \<rparr> in
           case initialize_workload_manager (sv_profile S) (sv_parse_error S) (sv_host S) (mo_mock_only_runtime o')
                  (mo_mock_only_runtime o') (\<not> mo_disable_scheduling o') (sv_default_registry S) (sv_mock_registry S)
                  (mn_node (pc_mesh p)) of
             None \<Rightarrow> None
           | Some n \<Rightarrow>
               (case start_servers S o' (p \<lparr> pc_mesh := (pc_mesh p) \<lparr> mn_node := n \<rparr> \<rparr>) of
                  (p, Inl e) \<Rightarrow> Some (p, Inl e)
                | (p', Inr _) \<Rightarrow> Some (p', Inr (drop already (pc_tasks p'))))))"

definition start_machine ::
  "('f, 'e) start_env \<Rightarrow> machine_options \<Rightarrow> ('f, 'e) process \<Rightarrow> (('f, 'e) process \<times> (start_error + machine_task list)) option" where
  "start_machine S o' p =
     (let p = p \<lparr> pc_keys := set_keypair_config (keypair_config_of o') (pc_keys p) \<rparr>;
          p = (if mo_disable_scheduling o' then p
               else p \<lparr> pc_podman := configure_podman_runtime (mo_podman_socket o') \<rparr>) in
      case ke_pqc_init (sv_keys S) of
        Inl e \<Rightarrow> Some (p, Inl (StartPqc e))
      | Inr _ \<Rightarrow>
          (case start_node_keypair S o' p of
             (p, Inl e) \<Rightarrow> Some (p, Inl e)
           | (p, Inr _) \<Rightarrow>
               (case setup_libp2p_node S (mo_libp2p_quic_port o') (mo_libp2p_host o') (mo_disable_scheduling o') p of
                  (p, Inl e) \<Rightarrow> Some (p, Inl e)
                | (p, Inr _) \<Rightarrow> start_services S o' (dial_bootstrap_peers S (mo_bootstrap_peer o') p))))"

end
