(* ===== verification/Node_Tables.thy ===== *)
theory Node_Tables
  imports Node_Runs
begin

text \<open>
  The tables of a node are maps in every state it reaches: no handler leaves two entries for one
  key. The tables of the loop, of its reservations, owners, nonces and handshakes are covered.
\<close>

definition tables_wf :: "'e mesh_node \<Rightarrow> bool" where
  "tables_wf s \<longleftrightarrow> hm_wf (mn_scheduling s) \<and> hm_wf (mn_pending_queries s) \<and> hm_wf (mn_announces s)
     \<and> hm_wf (mn_provider_queries s) \<and> mn_manifest_requests s = hm_empty"

definition node_wf :: "'e node \<Rightarrow> bool" where
  "node_wf n \<longleftrightarrow> hm_wf (manifest_owner_map n) \<and> hm_wf (reservations (resource_verifier_of n)) \<and> store_ok (nonces n)"

section \<open>The tables of the loop\<close>

lemma tables_wf_updates [simp]:
  "tables_wf (call c s) = tables_wf s" "tables_wf (reply tx r s) = tables_wf s" "tables_wf (put_nonces st s) = tables_wf s"
  "tables_wf (s \<lparr> mn_node := n \<rparr>) = tables_wf s" "tables_wf (s \<lparr> mn_spawned := ts \<rparr>) = tables_wf s"
  "tables_wf (s \<lparr> mn_authorised := ts \<rparr>) = tables_wf s" "tables_wf (s \<lparr> mn_handshakes := h \<rparr>) = tables_wf s"
  "tables_wf (s \<lparr> mn_peers := ps \<rparr>) = tables_wf s" "tables_wf (s \<lparr> mn_enqueued := es \<rparr>) = tables_wf s"
  "tables_wf (s \<lparr> mn_running := x \<rparr>) = tables_wf s" "tables_wf (s \<lparr> mn_calls := cs \<rparr>) = tables_wf s"
  "tables_wf (s \<lparr> mn_applying := stage \<rparr>) = tables_wf s"
  by (simp_all add: tables_wf_def call_def reply_def put_nonces_def)

lemma tables_wf_tables [simp]:
  "tables_wf s \<Longrightarrow> hm_wf a \<Longrightarrow> tables_wf (s \<lparr> mn_announces := a \<rparr>)"
  "tables_wf s \<Longrightarrow> hm_wf q \<Longrightarrow> tables_wf (s \<lparr> mn_provider_queries := q \<rparr>)"
  "tables_wf s \<Longrightarrow> hm_wf (cn_pending c) \<Longrightarrow> tables_wf (put_capacity c s)"
  by (simp_all add: tables_wf_def put_capacity_def)

lemma tables_wfD: "tables_wf s \<Longrightarrow> hm_wf (mn_announces s)" "tables_wf s \<Longrightarrow> hm_wf (mn_provider_queries s)"
  "tables_wf s \<Longrightarrow> hm_wf (cn_pending (capacity_view s))" "tables_wf s \<Longrightarrow> mn_manifest_requests s = hm_empty"
  by (simp_all add: tables_wf_def capacity_view_def)

lemma tables_announce_direct [simp]: "tables_wf (fst (announce_provider_direct E k cid ttl s)) = tables_wf s"
  by (rule announce_direct_cases [of E k cid ttl s]) simp_all

lemma tables_attempts [simp]: "tables_wf (fst (announce_attempts E cid ttl ks s)) = tables_wf s"
proof (induction ks arbitrary: s)
  case (Cons k ks)
  show ?case
    by (rule announce_direct_cases [of E k cid ttl s]) (simp_all add: Cons.IH split: sum.split)
qed simp

lemma tables_renew [simp]: "tables_wf (fst (renew_entries E k es s)) = tables_wf s"
  by (induction es arbitrary: k s) (auto simp: case_prod_beta split: if_splits)

lemma renew_keys: "map fst (snd (renew_entries E k es s)) = map fst es"
  by (induction es arbitrary: k s) (auto simp: case_prod_beta)

lemma tables_withdraw [simp]: "tables_wf (withdraw_keys E k cids s) = tables_wf s"
  by (induction cids arbitrary: k s) simp_all

lemma tables_send_signed [simp]: "tables_wf (fst (send_signed_to L E payload ptype pk sk k peers s)) = tables_wf s"
  by (induction peers arbitrary: k s) (auto simp: case_prod_beta Let_def split: sum.split)

lemma tables_broadcast [simp]: "tables_wf (fst (broadcast_signed_request_to_peers L E payload ptype s)) = tables_wf s"
  by (auto simp: broadcast_signed_request_to_peers_def case_prod_beta split: sum.split)

lemma pending_answer [simp]: "cn_pending (fst (answer_capacity_request env ts q c)) = cn_pending c"
  by (simp add: answer_capacity_request_def Let_def split: option.split prod.split)

lemma pending_notify [simp]: "cn_pending (notify_capacity_observers i payload c) = cn_pending c"
  by (simp add: notify_capacity_observers_def split: option.split)

lemma pending_gossip [simp]: "cn_pending (fst (gossipsub_message L rq rp env p b c)) = cn_pending c"
  by (simp add: gossipsub_message_def split: prod.split option.split)

lemma pending_scheduler [simp]: "cn_pending (fst (scheduler_request L rq env p b c)) = cn_pending c"
  "cn_pending (scheduler_response rp p b c) = cn_pending c"
  by (simp_all add: scheduler_request_def scheduler_response_def split: prod.split option.split)

lemma pending_query: "hm_wf (cn_pending c) \<Longrightarrow> hm_wf (cn_pending (fst (query_capacity rq env ok i tx payload c)))"
  by (simp add: query_capacity_def Let_def split: option.split)

lemma tables_announce: "tables_wf s \<Longrightarrow> tables_wf (handle_announce_provider E cid ttl tx s)"
proof (cases "announce_attempts E cid ttl [0, 1, 2] s")
  case (Pair s' ok)
  assume "tables_wf s"
  then have "tables_wf s'" using Pair tables_attempts by (metis fst_conv)
  then show ?thesis unfolding handle_announce_provider_def Pair by (cases ok) (simp_all add: Let_def tables_wfD)
qed

lemma tables_withdrawn: "tables_wf s \<Longrightarrow> tables_wf (handle_withdraw_provider E cid tx s)"
proof (cases "announce_provider_direct E 0 cid 0 (s \<lparr> mn_announces := hm_remove cid (mn_announces s) \<rparr>)")
  case (Pair s' r)
  assume "tables_wf s"
  then have "tables_wf (s \<lparr> mn_announces := hm_remove cid (mn_announces s) \<rparr>)" by (simp add: tables_wfD)
  then have "tables_wf s'" using Pair tables_announce_direct by (metis fst_conv)
  then show ?thesis unfolding handle_withdraw_provider_def Pair by (simp split: sum.split)
qed

lemma tables_control: "tables_wf s \<Longrightarrow> tables_wf (handle_control_message X V E msg s)"
proof (cases msg)
  case (QueryCapacityWithPayload i tx payload)
  assume "tables_wf s"
  then show ?thesis
    unfolding QueryCapacityWithPayload
    by (simp add: handle_query_capacity_with_payload_def Let_def case_prod_beta pending_query tables_wfD split: option.split)
next
  case (SendApplyRequest p manifest tx)
  assume "tables_wf s"
  then show ?thesis
    unfolding SendApplyRequest by (simp add: handle_send_apply_request_def Let_def case_prod_beta split: option.split)
qed (simp_all add: tables_announce tables_withdrawn tables_wfD handle_send_delete_request_def
      handle_find_manifest_holders_def insert_pending_providers_query_def frame Let_def)

lemma tables_drain: "tables_wf s \<Longrightarrow> tables_wf (drain_enqueued_controls X V Es s)"
  by (rule drain_invariant) (simp_all add: tables_control)

lemma tables_kademlia: "tables_wf s \<Longrightarrow> tables_wf (kademlia_event X ev s)"
  by (simp add: kademlia_event_def query_progressed_def take_pending_providers_query_def tables_wfD
      split: kad_event.split query_result.split option.split)

lemma tables_handshake: "tables_wf (handshake_message_event X E p msg s) = tables_wf s"
  by (cases msg) (simp_all add: handshake_message_event_def handshake_request_def handshake_response_def confirm_def
      split: prod.split option.split)

lemma tables_event:
  assumes "tables_wf s"
  shows "tables_wf (handle_event X V Es E ev s)"
proof (cases ev)
  case ControlClosed
  then show ?thesis using assms by (simp add: withdraw_all_providers_def)
next
  case RenewTick
  have d: "tables_wf (drain_enqueued_controls X V Es s)" by (rule tables_drain [OF assms])
  then have "hm_wf (snd (renew_entries E 0 (mn_announces (drain_enqueued_controls X V Es s)) (drain_enqueued_controls X V Es s)))"
    using tables_wfD(1) renew_keys by (metis hm_wf_def)
  with d show ?thesis unfolding RenewTick by (simp add: renew_due_providers_def case_prod_beta Let_def)
next
  case CleanupTick
  then show ?thesis using assms
    by (simp add: cleanup_timed_out_manifest_requests_def tables_wf_def Let_def hm_retain_def hm_empty_def)
next
  case (ManifestFetchFailure i err)
  then show ?thesis using assms
    by (simp add: manifest_fetch_outbound_failure_def tables_wf_def hm_remove_def hm_empty_def hm_get_def)
next
  case HandshakeTick
  then show ?thesis using assms by (simp add: handshake_tick_def case_prod_beta)
qed (use assms in \<open>simp_all add: tables_control tables_kademlia tables_handshake on_apply_message_def on_delete_message_def
      on_gossip_message_def on_scheduler_message_def on_connection_established_def on_connection_closed_def
      case_prod_beta Let_def tables_wfD split: rr_message.split option.split sum.split\<close>)

lemma tables_apply_steps:
  "tables_wf (begin_apply X E p b s) = tables_wf s" "tables_wf (continue_apply X V E stage s) = tables_wf s"
  by (simp_all add: begin_apply_def continue_apply_def case_prod_beta split: option.split sum.split apply_stage.split)

section \<open>The tables of the node\<close>

lemma owners_deployment:
  "hm_wf (manifest_owner_map n) \<Longrightarrow> hm_wf (manifest_owner_map (fst (process_manifest_deployment L V env req mj owner n)))"
  by (simp add: owner_deployment split: option.split sum.split)

lemma owners_apply:
  assumes "hm_wf (manifest_owner_map n)"
  shows "hm_wf (manifest_owner_map (fst (handle_apply_request C r L V env now now' peer req n)))"
  by (cases rule: handle_apply_cases [of C r L V env now now' peer req n]) (use assms in \<open>simp_all add: owners_deployment\<close>)

lemma owners_self_apply:
  "hm_wf (manifest_owner_map n) \<Longrightarrow> hm_wf (manifest_owner_map (fst (process_self_apply_request r L V env key manifest n)))"
  by (simp add: process_self_apply_request_def owners_deployment case_prod_beta split: option.split)

lemma owners_begin:
  assumes "hm_wf (manifest_owner_map (mn_node s))"
  shows "hm_wf (manifest_owner_map (mn_node (begin_apply X E p b s)))"
proof -
  have "manifest_owner_map (fst (admit_apply_request C r now now' p b (mn_node s))) = manifest_owner_map (mn_node s)"
    for C r now now' by (cases rule: admit_apply_cases [of C r now now' p b "mn_node s"]) simp_all
  with assms show ?thesis
    by (simp add: node_begin_apply case_prod_beta owner_prepare split: sum.split option.split)
qed

lemma owners_removal:
  "hm_wf (manifest_owner_map n) \<Longrightarrow> hm_wf (manifest_owner_map (fst (remove_workloads_by_manifest_id V m n)))"
  by (auto simp: remove_workloads_by_manifest_id_def remove_manifest_owner_def Let_def split: option.split prod.split)

lemma owners_control:
  assumes "hm_wf (manifest_owner_map (mn_node s))"
  shows "hm_wf (manifest_owner_map (mn_node (handle_control_message X V E msg s)))"
proof (cases msg)
  case (QueryCapacityWithPayload i tx payload)
  then show ?thesis
    using assms by (simp add: handle_query_capacity_with_payload_def Let_def case_prod_beta frame
        node_core [OF core_broadcast] split: option.split)
next
  case (SendApplyRequest p manifest tx)
  then show ?thesis
    using assms by (simp add: node_send_apply owners_self_apply)
qed (use assms in \<open>simp_all add: frame node_core [OF core_handle_announce] node_core [OF core_handle_withdraw]
      node_core [OF core_quiet(5)] node_core [OF core_quiet(9)]\<close>)

lemma owners_drain:
  assumes "hm_wf (manifest_owner_map (mn_node s))"
  shows "hm_wf (manifest_owner_map (mn_node (drain_enqueued_controls X V Es s)))"
  by (rule drain_invariant) (use assms owners_control in simp_all)

lemma owners_put_nonces [simp]: "manifest_owner_map (mn_node (put_nonces st s)) = manifest_owner_map (mn_node s)"
  by (simp add: put_nonces_def)

lemma owners_loop:
  assumes "hm_wf (manifest_owner_map (mn_node s))"
  shows "hm_wf (manifest_owner_map (mn_node (handle_event X V Es E ev s)))"
proof (cases ev)
  case (ControlReceived msg)
  then show ?thesis using owners_control [OF assms] by simp
next
  case (ApplyMessage p msg)
  then show ?thesis
    using assms by (cases msg) (simp_all add: node_apply_message owners_apply)
next
  case (DeleteMessage p msg)
  then show ?thesis
    using assms by (cases msg) (simp_all add: on_delete_message_def frame case_prod_beta owner_delete_message)
next
  case (HandshakeMessage p msg)
  then show ?thesis
    using assms by (simp add: handshake_message_event_def handshake_request_def handshake_response_def frame
        split: rr_message.split prod.split option.split)
next
  case RenewTick
  then show ?thesis using owners_drain [OF assms] by (simp add: node_core [OF core_quiet(1)] Let_def)
qed (use assms in \<open>simp_all add: on_gossip_message_def on_scheduler_message_def handshake_tick_def
      frame case_prod_beta node_core [OF core_quiet(2)] node_core [OF core_quiet(3)] node_core [OF core_quiet(4)]
      node_core [OF core_quiet(6)] node_core [OF core_quiet(7)] node_core [OF core_quiet(8)]
      split: rr_message.split option.split sum.split\<close>)

lemma reservations_wf_begin:
  "hm_wf (reservations v) \<Longrightarrow> hm_wf (reservations (fst (reserve_begin prof t1 t2 k mf q v)))"
  by (simp add: reserve_begin_def prune_expired_reservations_def Let_def split: option.split)

lemma reservations_wf_reserve:
  "hm_wf (reservations v) \<Longrightarrow> hm_wf (reservations (fst (reserve_capacity prof t1 t2 k mf q v)))"
  using reservations_wf_begin [of v prof t1 t2 k mf q]
  by (cases "reserve_begin prof t1 t2 k mf q v")
    (simp add: reserve_capacity_def reserve_commit_def split: reserve_phase.split option.split)

lemma reservations_wf_step: "hm_wf (reservations v) \<Longrightarrow> hm_wf (reservations (ledger_step prof op v))"
  by (cases op) (simp_all add: reservations_wf_reserve prune_expired_reservations_def)

lemma reservations_wf_run: "hm_wf (reservations v) \<Longrightarrow> hm_wf (reservations (fold (ledger_step prof) ops v))"
  by (induction ops arbitrary: v) (simp_all add: reservations_wf_step)

lemma store_ok_verify_run: "store_ok st \<Longrightarrow> store_ok (verify_run L w vs st)"
  using verify_run_as_checks [of L w vs st] guard.ok_run by metis

lemma event_has_profile: "\<exists>prof. has_profile prof ev"
  by (cases ev) auto

lemma node_wf_step:
  assumes "mesh_step X ev s s'" "node_wf (mn_node s)"
  shows "node_wf (mn_node s')"
proof -
  obtain prof where "has_profile prof ev" using event_has_profile by blast
  with ledger_mesh_step [OF assms(1)] obtain ops where
    "resource_verifier_of (mn_node s') = fold (ledger_step prof) ops (resource_verifier_of (mn_node s))" by blast
  moreover have "hm_wf (manifest_owner_map (mn_node s'))"
    using assms(1)
  proof cases
    case (step_loop E lev V Es)
    then show ?thesis using owners_loop [of s] assms(2) by (simp add: node_wf_def del: handle_event.simps)
  qed (use assms(2) in \<open>simp_all add: node_wf_def owners_removal fst_remove_and_report fst_handle_local_delete
        node_core [OF core_quiet(10)] owners_begin continue_frame\<close>)
  ultimately show ?thesis
    using assms(2) by (simp add: node_wf_def reservations_wf_run nonces_mesh_step [OF assms(1)] store_ok_verify_run)
qed

lemma tables_wf_step:
  assumes "mesh_step X ev s s'" "tables_wf s"
  shows "tables_wf s'"
  using assms(1)
proof cases
  case (step_loop E lev V Es)
  then show ?thesis using tables_event [OF assms(2)] by simp
qed (use assms(2) in \<open>simp_all add: enqueue_control_def tables_apply_steps\<close>)

lemma run_tables_wf:
  assumes "mesh_run X s0 evs s" "mn_handshakes s0 = hm_empty" "tables_wf s0" "node_wf (mn_node s0)"
  shows "tables_wf s \<and> node_wf (mn_node s) \<and> hm_wf (mn_handshakes s)"
  using assms
proof (induction)
  case (mesh_next evs s ev s')
  have "all_confirmed s" using run_handshakes [OF mesh_next.hyps(1) mesh_next.prems(1)] by blast
  from mesh_step_handshakes [OF mesh_next.hyps(2) this] have "hm_wf (mn_handshakes s')"
    using mesh_next by (auto simp: handshake_view_def confirm_def)
  with mesh_next show ?case using tables_wf_step node_wf_step by blast
qed simp

end
