(* ===== verification/Started_Machine.thy ===== *)
theory Started_Machine
  imports Startup Node_Tables
begin

text \<open>
  What holds of a machine that was started: which keys its handler of requests has, that a restart
  keeps them, when a start fails, and that the guarantees of a running node hold from the start.
\<close>

section \<open>Keys at the start\<close>

text \<open>The files of theory \<open>Keypairs\<close>, and files written with a mode as those written without,
  and removal of a file.\<close>

definition disk_start :: "(string \<Rightarrow> bool) \<Rightarrow> string option \<Rightarrow> string + unit \<Rightarrow> (disk, 'e) start_env \<Rightarrow> bool" where
  "disk_start broken home init S \<longleftrightarrow> sv_keys S = disk_env broken home init
     \<and> (\<forall>path mode b f. sv_write_secure S path mode b f = ke_write (disk_env broken home init) path b f)
     \<and> sv_remove S = hm_remove"

text \<open>Both keypairs are kept on disk.\<close>

definition persistent_keys :: "machine_options \<Rightarrow> bool" where
  "persistent_keys o' \<longleftrightarrow> \<not> mo_ephemeral o' \<and> \<not> mo_signing_ephemeral o' \<and> \<not> mo_ephemeral_keys o'"

lemma machine_keypair_held:
  assumes "disk_start broken home init S" "ke_exists (sv_keys S) dir f" "machine_keypair S dir f = (f', Inr pair)"
  shows "disk.holds broken home init dir (child_path dir ''pubkey.bin'') (child_path dir ''privkey.bin'') pair f'"
proof -
  let ?E = "disk_env broken home init" and ?pub = "child_path dir ''pubkey.bin''" and ?priv = "child_path dir ''privkey.bin''"
  have E: "sv_keys S = ?E" "\<And>path mode b f. sv_write_secure S path mode b f = ke_write ?E path b f"
    using assms(1) by (simp_all add: disk_start_def)
  have neq: "?pub \<noteq> ?priv" "dir \<noteq> ?pub" "dir \<noteq> ?priv" by (auto simp: child_path_def)
  show ?thesis
  proof (cases "ke_exists ?E ?pub f \<and> ke_exists ?E ?priv f")
    case True
    then show ?thesis using assms(2,3)
      by (auto simp: machine_keypair_def Let_def E(1) disk.holds_def split: sum.splits)
  next
    case False
    then obtain pk sk f1 where w: "pair = (pk, sk)" "ke_write ?E ?pub pk f = (f1, Inr ())" "ke_write ?E ?priv sk f1 = (f', Inr ())"
      using assms(3) unfolding machine_keypair_def Let_def E
      by (auto split: sum.splits prod.splits)
    show ?thesis
      using disk.write_read [OF w(2)] disk.write_read [OF w(3)] disk.write_keeps [OF w(2), of dir]
        disk.write_keeps [OF w(3), of dir] disk.write_keeps [OF w(3), of ?pub] assms(2) neq
      by (simp add: disk.holds_def w(1) E(1))
  qed
qed

lemma set_node_keypair_simps [simp]:
  "pc_keys (set_node_keypair kp p) = pc_keys p" "pc_mesh (set_node_keypair kp p) = pc_mesh p"
  "pc_node_keypair p = None \<Longrightarrow> pc_node_keypair (set_node_keypair kp p) = Some kp"
  by (simp_all add: set_node_keypair_def split: option.splits)

lemma put_files_simps [simp]:
  "pc_node_keypair (put_files f p) = pc_node_keypair p" "pc_mesh (put_files f p) = pc_mesh p"
  "pc_keys (put_files f p) = (pc_keys p) \<lparr> k_files := f \<rparr>" "pc_handler (put_files f p) = pc_handler p"
  by (simp_all add: put_files_def)

lemma start_node_keypair_held:
  assumes "disk_start broken home init S" "\<not> mo_ephemeral o'" "pc_node_keypair p = None"
    and "start_node_keypair S o' p = (p', Inr ())" "ensure_key_dir (sv_keys S) (mo_key_dir o') (k_files (pc_keys p)) = (f, Inr ())"
  shows "\<exists>pair. pc_node_keypair p' = Some (Some pair) \<and> k_config (pc_keys p') = k_config (pc_keys p)
    \<and> disk.holds broken home init (mo_key_dir o') (child_path (mo_key_dir o') ''pubkey.bin'')
        (child_path (mo_key_dir o') ''privkey.bin'') pair (k_files (pc_keys p')) \<and> pc_mesh p' = pc_mesh p"
proof -
  have "ke_exists (sv_keys S) (mo_key_dir o') f"
    using assms(1,5) disk.key_dir_made by (metis disk_start_def)
  moreover obtain f' pair where "machine_keypair S (mo_key_dir o') f = (f', Inr pair)"
      "p' = set_node_keypair (Some pair) (put_files f' p)"
    using assms(2,4,5) by (auto simp: start_node_keypair_def machine_key_dir_def split: prod.splits sum.splits)
  ultimately show ?thesis using machine_keypair_held [OF assms(1)] assms(3) by auto
qed

lemma setup_keys:
  assumes "setup_libp2p_node S port host d p = (p', Inr ())"
  shows "pc_keys p' = pc_keys p \<and> pc_node_keypair p' = pc_node_keypair p
    \<and> (\<exists>peer. pc_mesh p' = register_scheduling_preference peer d (pc_mesh p))"
  using assms by (auto simp: setup_libp2p_node_def Let_def split: sum.splits)

lemma dial_keys [simp]:
  "pc_keys (dial_bootstrap_peers S a p) = pc_keys p" "pc_node_keypair (dial_bootstrap_peers S a p) = pc_node_keypair p"
  "pc_mesh (dial_bootstrap_peers S a p) = pc_mesh p" "pc_tasks (dial_bootstrap_peers S a p) = pc_tasks p"
  by (simp_all add: dial_bootstrap_peers_def)

lemma start_host_api_keeps [simp]:
  "pc_node_keypair (start_host_api S socket p) = pc_node_keypair p" "pc_handler (start_host_api S socket p) = pc_handler p"
  "pc_mesh (start_host_api S socket p) = pc_mesh p"
  by (simp_all add: start_host_api_def Let_def split: prod.splits option.splits if_splits sum.splits)

lemma start_servers_keeps:
  assumes "start_servers S o' p = (p', r)"
  shows "pc_node_keypair p' = pc_node_keypair p \<and> pc_handler p' = pc_handler p \<and> pc_mesh p' = pc_mesh p"
  using assms by (auto simp: start_servers_def Let_def split: if_splits sum.splits option.splits)

lemma make_handler_keeps:
  assumes "make_envelope_handler S p = (p', r)"
  shows "pc_node_keypair p' = pc_node_keypair p \<and> pc_mesh p' = pc_mesh p"
  using assms by (auto simp: make_envelope_handler_def Let_def split: prod.splits sum.splits)

text \<open>The stages of a successful start.\<close>

lemma start_services_Inr:
  assumes "start_services S o' p = Some (p', Inr tasks)"
  shows "\<exists>q h n. make_envelope_handler S p = (q, Inr h)
    \<and> initialize_workload_manager (sv_profile S) (sv_parse_error S) (sv_host S) (mo_mock_only_runtime o')
        (mo_mock_only_runtime o') (\<not> mo_disable_scheduling o') (sv_default_registry S) (sv_mock_registry S)
        (mn_node (pc_mesh p)) = Some n
    \<and> pc_handler p' = Some h \<and> pc_node_keypair p' = pc_node_keypair p \<and> pc_mesh p' = (pc_mesh p) \<lparr> mn_node := n \<rparr>
    \<and> (\<exists>r. start_servers S o' r = (p', Inr ()) \<and> pc_keys r = pc_keys q)"
proof -
  obtain q h where q: "make_envelope_handler S p = (q, Inr h)"
    using assms by (auto simp: start_services_def Let_def split: prod.splits sum.splits)
  note keeps = make_handler_keeps [OF q]
  let ?q = "q \<lparr> pc_handler := Some h, pc_control_set := True, pc_tasks := pc_tasks q @ [NetworkTask] \<rparr>"
  obtain n where n: "initialize_workload_manager (sv_profile S) (sv_parse_error S) (sv_host S) (mo_mock_only_runtime o')
        (mo_mock_only_runtime o') (\<not> mo_disable_scheduling o') (sv_default_registry S) (sv_mock_registry S)
        (mn_node (pc_mesh p)) = Some n"
    using assms q keeps by (auto simp: start_services_def Let_def split: option.splits)
  have "start_servers S o' (?q \<lparr> pc_mesh := (pc_mesh q) \<lparr> mn_node := n \<rparr> \<rparr>) = (p', Inr ())"
    using assms q n keeps by (auto simp: start_services_def Let_def split: prod.splits sum.splits)
  with start_servers_keeps [OF this] q n keeps show ?thesis by (intro exI [of _ q]) auto
qed

lemma start_machine_Inr:
  assumes "start_machine S o' p = Some (p', Inr tasks)"
  shows "\<exists>p1 p2 p3. start_node_keypair S o' p1 = (p2, Inr ())
    \<and> pc_keys p1 = set_keypair_config (keypair_config_of o') (pc_keys p)
    \<and> pc_node_keypair p1 = pc_node_keypair p \<and> pc_mesh p1 = pc_mesh p
    \<and> pc_keys p3 = pc_keys p2 \<and> pc_node_keypair p3 = pc_node_keypair p2
    \<and> (\<exists>peer. pc_mesh p3 = register_scheduling_preference peer (mo_disable_scheduling o') (pc_mesh p2))
    \<and> start_services S o' p3 = Some (p', Inr tasks)"
proof -
  let ?p1 = "if mo_disable_scheduling o' then p \<lparr> pc_keys := set_keypair_config (keypair_config_of o') (pc_keys p) \<rparr>
    else p \<lparr> pc_keys := set_keypair_config (keypair_config_of o') (pc_keys p),
             pc_podman := configure_podman_runtime (mo_podman_socket o') \<rparr>"
  obtain p2 q where "start_node_keypair S o' ?p1 = (p2, Inr ())"
      "setup_libp2p_node S (mo_libp2p_quic_port o') (mo_libp2p_host o') (mo_disable_scheduling o') p2 = (q, Inr ())"
      "start_services S o' (dial_bootstrap_peers S (mo_bootstrap_peer o') q) = Some (p', Inr tasks)"
    using assms unfolding start_machine_def Let_def by (auto split: sum.splits prod.splits if_splits)
  with setup_keys [of S _ _ _ p2 q] show ?thesis
    by (intro exI [of _ ?p1] exI [of _ p2] exI [of _ "dial_bootstrap_peers S (mo_bootstrap_peer o') q"]) auto
qed

lemma persistent_fixed:
  assumes "k_config (pc_keys q) = keypair_config_of o'" "persistent_keys o'"
    and "disk.holds broken home init (mo_key_dir o') (child_path (mo_key_dir o') ''pubkey.bin'')
        (child_path (mo_key_dir o') ''privkey.bin'') pair (k_files (pc_keys q))"
  shows "disk.signing_fixed broken home init pair (pc_keys q)"
  using assms by (simp add: disk.signing_fixed_def keypair_config_of_def persistent_keys_def resolve_key_dir_def)

lemma handler_of_fixed:
  assumes "disk.signing_fixed broken home init (pk, sk) (pc_keys q)" "sv_keys S = disk_env broken home init"
    and "pc_node_keypair q = Some (Some (pk, sk))" "make_envelope_handler S q = (q', Inr h)"
  shows "eh_signing_private_key h = Some sk \<and> eh_public_key h = b64_encode (sv_crypto S) pk
    \<and> disk.signing_fixed broken home init (pk, sk) (pc_keys q')"
proof -
  obtain k kpk ksk where k: "ensure_kem_keypair_on_disk (disk_env broken home init) (sv_kem_draw S) (pc_keys q) = (k, Inr (kpk, ksk))"
    using assms(2,4) by (auto simp: make_envelope_handler_def split: prod.splits sum.splits)
  then have fixed: "disk.signing_fixed broken home init (pk, sk) k" using disk.signing_fixed_kem [OF assms(1)] by (metis fst_conv)
  obtain k' where k': "ensure_keypair_on_disk (disk_env broken home init) (sv_signing_draw S 0) k = (k', Inr (pk, sk))"
    using disk.signing_fixed_call [OF fixed] by blast
  show ?thesis
    using assms(2-4) k k' disk.signing_fixed_after [OF k']
    by (auto simp: make_envelope_handler_def Let_def envelope_handler_new_def)
qed

lemma keypair_config_of_key_dir: "key_directory (keypair_config_of o') = Some (mo_key_dir o')"
  by (simp add: keypair_config_of_def)

lemma ensure_signing_config: "ensure_keypair_on_disk E drawn k = (k', r) \<Longrightarrow> k_config k' = k_config k"
  by (auto simp: ensure_keypair_on_disk_def split: keypair_mode.splits option.splits sum.splits prod.splits)

lemma ensure_kem_config: "ensure_kem_keypair_on_disk E drawn k = (k', r) \<Longrightarrow> k_config k' = k_config k"
  by (auto simp: ensure_kem_keypair_on_disk_def split: keypair_mode.splits prod.splits option.splits sum.splits)

text \<open>Keys on disk need their directory.\<close>

lemma kem_needs_dir:
  assumes "\<And>pub priv drawn f. \<exists>f' e. load_or_generate E (Some dir) pub priv drawn f = (f', Inl e)"
    and "kem_mode (k_config k) = Persistent" "key_directory (k_config k) = Some dir"
  shows "\<exists>e. snd (ensure_kem_keypair_on_disk E drawn k) = Inl e"
  using assms(1) [of "''kem_pub.bin''" "''kem_priv.bin''" drawn "k_files k"] assms(2,3)
  by (auto simp: ensure_kem_keypair_on_disk_def)

lemma signing_needs_dir:
  assumes "\<And>pub priv drawn f. \<exists>f' e. load_or_generate E (Some dir) pub priv drawn f = (f', Inl e)"
    and "signing_mode (k_config k) = Persistent" "key_directory (k_config k) = Some dir"
  shows "\<exists>e. snd (ensure_keypair_on_disk E drawn k) = Inl e"
  using assms(1) [of "''pubkey.bin''" "''privkey.bin''" drawn "k_files k"] assms(2,3)
  by (auto simp: ensure_keypair_on_disk_def)

text \<open>The socket of the host API is the only file that its start removes.\<close>

lemma host_api_files:
  assumes "disk_start broken home init S" "q \<noteq> socket" "hm_get (k_files (pc_keys p)) q = Some b"
  shows "hm_get (k_files (pc_keys (start_host_api S socket p))) q = Some b"
proof -
  let ?E = "disk_env broken home init" and ?f = "k_files (pc_keys p)"
  have S: "sv_keys S = ?E" "sv_remove S = hm_remove" using assms(1) by (simp_all add: disk_start_def)
  have create: "hm_get (fst (ke_create_dir_all ?E d ?f)) q = Some b" for d
    using assms(3) by (auto simp: disk_env_def split: option.splits)
  have "hm_get (fst (ke_set_permissions ?E d mode g)) q = hm_get g q" for d mode g by (simp add: disk_env_def)
  moreover have "hm_get (hm_remove socket g) q = hm_get g q" for g :: disk using assms(2) by simp
  ultimately show ?thesis
    using assms(3) create
    by (auto simp: start_host_api_def S Let_def split: option.split prod.split sum.split if_split)
      (metis fst_conv)+
qed

lemma start_servers_files:
  assumes "disk_start broken home init S" "Some q \<noteq> mo_api_socket o'" "hm_get (k_files (pc_keys p)) q = Some b"
    and "start_servers S o' p = (p', r)"
  shows "hm_get (k_files (pc_keys p')) q = Some b"
  using assms(2-4) host_api_files [OF assms(1)]
  by (auto simp: start_servers_def Let_def split: if_splits sum.splits option.splits)

definition key_files_of :: "machine_options \<Rightarrow> string set" where
  "key_files_of o' = {mo_key_dir o', child_path (mo_key_dir o') ''pubkey.bin'', child_path (mo_key_dir o') ''privkey.bin''}"

definition keys_held :: "machine_options \<Rightarrow> keypair \<Rightarrow> disk \<Rightarrow> bool" where
  "keys_held o' pair f \<longleftrightarrow> hm_get f (mo_key_dir o') \<noteq> None
     \<and> hm_get f (child_path (mo_key_dir o') ''pubkey.bin'') = Some (Some (fst pair))
     \<and> hm_get f (child_path (mo_key_dir o') ''privkey.bin'') = Some (Some (snd pair))"

lemma holds_disk:
  "disk.holds broken home init (mo_key_dir o') (child_path (mo_key_dir o') ''pubkey.bin'')
     (child_path (mo_key_dir o') ''privkey.bin'') pair f \<longleftrightarrow> keys_held o' pair f"
  unfolding disk.holds_def keys_held_def by (auto simp: disk_env_def hm_contains_key_def split: option.splits)

lemma handler_config: "make_envelope_handler S p = (p', Inr h) \<Longrightarrow> k_config (pc_keys p') = k_config (pc_keys p)"
  by (auto simp: make_envelope_handler_def Let_def dest!: ensure_kem_config ensure_signing_config
      split: prod.splits sum.splits option.splits)

lemma started_keys:
  assumes "disk_start broken home init S" "persistent_keys o'" "pc_node_keypair p = None"
    and "ensure_key_dir (sv_keys S) (mo_key_dir o') (k_files (pc_keys p)) = (f, Inr ())"
    and "start_machine S o' p = Some (p', Inr tasks)"
  shows "\<exists>pk sk h. pc_node_keypair p' = Some (Some (pk, sk)) \<and> pc_handler p' = Some h
    \<and> eh_signing_private_key h = Some sk \<and> eh_public_key h = b64_encode (sv_crypto S) pk
    \<and> (mo_api_socket o' \<notin> Some ` key_files_of o' \<longrightarrow> keys_held o' (pk, sk) (k_files (pc_keys p')))"
proof -
  obtain p1 p2 p3 where p1: "start_node_keypair S o' p1 = (p2, Inr ())"
      "pc_keys p1 = set_keypair_config (keypair_config_of o') (pc_keys p)" "pc_node_keypair p1 = None"
    and p3: "pc_keys p3 = pc_keys p2" "pc_node_keypair p3 = pc_node_keypair p2" "start_services S o' p3 = Some (p', Inr tasks)"
    using start_machine_Inr [OF assms(5)] assms(3) by auto
  have dir: "ensure_key_dir (sv_keys S) (mo_key_dir o') (k_files (pc_keys p1)) = (f, Inr ())"
    using assms(4) p1(2) by (simp add: set_keypair_config_def)
  obtain pk sk where pair: "pc_node_keypair p2 = Some (Some (pk, sk))" "k_config (pc_keys p2) = keypair_config_of o'"
      "disk.holds broken home init (mo_key_dir o') (child_path (mo_key_dir o') ''pubkey.bin'')
        (child_path (mo_key_dir o') ''privkey.bin'') (pk, sk) (k_files (pc_keys p2))"
    using start_node_keypair_held [OF assms(1) _ p1(3,1) dir] assms(2) p1(2)
    by (auto simp: persistent_keys_def set_keypair_config_def)
  have "disk.signing_fixed broken home init (pk, sk) (pc_keys p3)"
    using persistent_fixed [of p3 o' broken home init "(pk, sk)"] pair(2,3) assms(2) p3(1) by simp
  moreover obtain q h r where q: "make_envelope_handler S p3 = (q, Inr h)" "pc_handler p' = Some h"
      "pc_node_keypair p' = pc_node_keypair p3" "start_servers S o' r = (p', Inr ())" "pc_keys r = pc_keys q"
    using start_services_Inr [OF p3(3)] by blast
  moreover have "sv_keys S = disk_env broken home init" using assms(1) by (simp add: disk_start_def)
  ultimately have h: "eh_signing_private_key h = Some sk" "eh_public_key h = b64_encode (sv_crypto S) pk"
      "disk.signing_fixed broken home init (pk, sk) (pc_keys q)"
    using handler_of_fixed [of broken home init pk sk p3 S q h] pair(1) p3(2) by auto
  have "k_config (pc_keys q) = keypair_config_of o'" using handler_config [OF q(1)] p3(1) pair(2) by simp
  then have "keys_held o' (pk, sk) (k_files (pc_keys r))"
    using h(3) assms(2) unfolding q(5) by (auto simp: disk.signing_fixed_def holds_disk keys_held_def keypair_config_of_def
        persistent_keys_def resolve_key_dir_def)
  then have "keys_held o' (pk, sk) (k_files (pc_keys p'))" if "mo_api_socket o' \<notin> Some ` key_files_of o'"
    using start_servers_files [OF assms(1) _ _ q(4)] that by (fastforce simp: keys_held_def key_files_of_def)
  then show ?thesis using h(1,2) q(2,3) pair(1) p3(2) by auto
qed

lemma held_keypair_used:
  assumes "disk_start broken home init S" "persistent_keys o'" "keys_held o' pair (k_files (pc_keys p))"
    and "pc_node_keypair p = None" "start_node_keypair S o' p = (p', Inr ())"
  shows "pc_node_keypair p' = Some (Some pair)"
proof -
  let ?E = "disk_env broken home init"
  have E: "sv_keys S = ?E" using assms(1) by (simp add: disk_start_def)
  have "ke_exists ?E (mo_key_dir o') (k_files (pc_keys p))"
    using assms(3) by (auto simp: keys_held_def disk_env_def hm_contains_key_def)
  from disk.key_dir_kept [OF this] obtain f where f: "ensure_key_dir ?E (mo_key_dir o') (k_files (pc_keys p)) = (f, Inr ())"
      "\<And>q. ke_exists ?E q f = ke_exists ?E q (k_files (pc_keys p)) \<and> ke_read ?E q f = ke_read ?E q (k_files (pc_keys p))"
    by blast
  have "disk.holds broken home init (mo_key_dir o') (child_path (mo_key_dir o') ''pubkey.bin'')
      (child_path (mo_key_dir o') ''privkey.bin'') pair f"
    using assms(3) f(2) unfolding disk.holds_def holds_disk [of broken home init, symmetric] by simp
  then have "machine_keypair S (mo_key_dir o') f = (f, Inr pair)"
    by (simp add: machine_keypair_def E disk.holds_def Let_def)
  then show ?thesis
    using assms(2,4,5) f(1) by (auto simp: start_node_keypair_def machine_key_dir_def E persistent_keys_def)
qed

text \<open>
  The signatures of a private key verify under its public key only, and parsing a public key and
  printing it gives the same bytes.
\<close>

definition dsa_owned :: "crypto_lib \<Rightarrow> bytes \<Rightarrow> bytes \<Rightarrow> bool" where
  "dsa_owned L pk sk \<longleftrightarrow> (\<forall>k k'. dsa_public L k = Some k' \<longrightarrow> k' = k)
     \<and> (\<forall>m s k. dsa_sign L sk m = Some s \<longrightarrow> dsa_verify L k m s = Some True \<longrightarrow> k = pk)"

lemma reply_unverifiable:
  assumes "crypto_laws L" "dsa_owned L pk1 sk1" "eh_signing_private_key h = Some sk1" "eh_public_key h = b64_encode L pk2"
    and "pk2 \<noteq> pk1" "encrypt_response_envelope_with_key L K re h payload ty kem = Some bytes"
  shows "snd (verify_flatbuffer_envelope_for_peer L now w peer bytes st) \<noteq> Inr parts"
proof
  assume ok: "snd (verify_flatbuffer_envelope_for_peer L now w peer bytes st) = Inr parts"
  obtain blob where "encrypt_payload_for_recipient K (re_randomness re) (re_aes_nonce re) kem payload = Inr blob"
    using assms(6) by (auto simp: encrypt_response_envelope_with_key_def split: if_splits sum.splits)
  moreover define canonical where "canonical = build_envelope_canonical L blob ty (re_uuid re) (of_nat (re_millis re)) ''ml-dsa-65'' None"
  moreover obtain sig_b64 pub_b64 where sign: "sign_envelope L sk1 pk2 canonical = Inr (sig_b64, pub_b64)"
    using assms(1,3,4,6) calculation
    by (auto simp: encrypt_response_envelope_with_key_def Let_def split: if_splits sum.splits prod.splits)
  ultimately have bytes: "bytes = build_envelope_signed L blob ty (re_uuid re) (of_nat (re_millis re)) ''ml-dsa-65'' ''ml-dsa-65''
      sig_b64 pub_b64 None"
    using assms(1,3,4,6) by (auto simp: encrypt_response_envelope_with_key_def Let_def split: if_splits)
  obtain sg where sg: "dsa_sign L sk1 canonical = Some sg" "sig_b64 = b64_encode L sg" "pub_b64 = b64_encode L pk2"
    using sign assms(2) by (auto simp: sign_envelope_def dsa_owned_def split: if_splits option.splits)
  obtain e where e: "fb_root_as_envelope L bytes = Some e"
      "dsa_verify L (ve_pubkey parts) (rebuilt_canonical L e) (ve_signature parts) = Some True"
    using verify_Inr [OF ok] by blast
  have "ve_pubkey parts = pk2" "ve_signature parts = sg"
    using ok assms(1) unfolding bytes sg verify_flatbuffer_envelope_for_peer_def build_envelope_signed_def
    by (auto simp: normalize_and_decode_signature_def verified_parts_def Let_def split: sum.splits prod.splits if_splits)
  moreover have "rebuilt_canonical L e = canonical"
    using e(1) assms(1) by (auto simp: bytes canonical_def rebuilt_canonical_eq builder_defs)
  ultimately show False using e(2) sg(1) assms(2,5) unfolding dsa_owned_def by metis
qed

text \<open>The state of the network loop after the start.\<close>

lemma start_node_keypair_mesh: "start_node_keypair S o' p = (p', r) \<Longrightarrow> pc_mesh p' = pc_mesh p"
  by (auto simp: start_node_keypair_def split: if_splits prod.splits sum.splits)

lemma update_keeps_reservations:
  "update_system_resources prof pe h v = Some v' \<Longrightarrow> reservations v' = reservations v"
  by (auto simp: update_system_resources_def Let_def split: option.splits)

lemma initialize_keeps:
  assumes "initialize_workload_manager prof pe h fm mo se reg mreg n = Some n'"
  shows "reservations (resource_verifier_of n') = reservations (resource_verifier_of n) \<and> nonces n' = nonces n
    \<and> manifest_owner_map n' = manifest_owner_map n"
proof (cases "update_system_resources prof pe h (resource_verifier_of n)")
  case (Some v)
  with assms update_keeps_reservations [OF Some] show ?thesis
    by (cases se) (auto simp: initialize_workload_manager_def)
qed (use assms in \<open>simp add: initialize_workload_manager_def split: if_splits\<close>)

lemma initialize_fresh:
  assumes "initialize_workload_manager prof pe h fm mo se reg mreg empty_node = Some n"
  shows "reservations (resource_verifier_of n) = hm_empty \<and> nonces n = hm_empty \<and> manifest_owner_map n = hm_empty"
  using initialize_keeps [OF assms] by (simp add: empty_node_def verifier_new_def)

lemma started_mesh:
  assumes "start_machine S o' (process_new f) = Some (p', Inr tasks)"
  shows "\<exists>n m. pc_mesh p' = mesh_new \<lparr> mn_node := n, mn_scheduling := m \<rparr> \<and> hm_wf m
    \<and> reservations (resource_verifier_of n) = hm_empty \<and> nonces n = hm_empty \<and> manifest_owner_map n = hm_empty"
proof -
  obtain p1 p2 p3 peer where p: "start_node_keypair S o' p1 = (p2, Inr ())" "pc_mesh p1 = mesh_new"
      "pc_mesh p3 = register_scheduling_preference peer (mo_disable_scheduling o') (pc_mesh p2)"
      "start_services S o' p3 = Some (p', Inr tasks)"
    using start_machine_Inr [OF assms] by (auto simp: process_new_def)
  define m where "m = hm_insert peer (mo_disable_scheduling o') hm_empty"
  have mesh: "pc_mesh p3 = mesh_new \<lparr> mn_scheduling := m \<rparr>"
    using start_node_keypair_mesh [OF p(1)] p(2,3) by (simp add: register_scheduling_preference_def mesh_new_def m_def)
  have "mn_node (pc_mesh p3) = empty_node" unfolding mesh by (simp add: mesh_new_def)
  then obtain n where n: "initialize_workload_manager (sv_profile S) (sv_parse_error S) (sv_host S) (mo_mock_only_runtime o')
        (mo_mock_only_runtime o') (\<not> mo_disable_scheduling o') (sv_default_registry S) (sv_mock_registry S) empty_node = Some n"
      "pc_mesh p' = (pc_mesh p3) \<lparr> mn_node := n \<rparr>"
    using start_services_Inr [OF p(4)] by metis
  have "pc_mesh p' = mesh_new \<lparr> mn_node := n, mn_scheduling := m \<rparr>" using n(2) mesh by simp
  moreover have "hm_wf m" by (simp add: m_def)
  ultimately show ?thesis using initialize_fresh [OF n(1)] by blast
qed

text \<open>A machine whose host is an IP address reports that address and its port.\<close>

theorem listen_endpoint_read_back:
  assumes "setup_libp2p_node S port host d p = (p', Inr ())" "sv_parse_ip S host = Some ip"
  shows "\<exists>addr. pc_listening p' = Some addr
    \<and> extract_listen_endpoint addr = Some (case ip of IpV4 a \<Rightarrow> a | IpV6 a \<Rightarrow> a, port)"
  using assms
  by (cases ip) (auto simp: setup_libp2p_node_def listen_address_def extract_listen_endpoint_def Let_def split: sum.splits)

text \<open>The errors of the stages before the servers are not the server's.\<close>

lemma no_bind_dir [simp]: "machine_key_dir E dir f \<noteq> (f', Inl (StartBind e))"
  by (auto simp: machine_key_dir_def Let_def split: prod.splits sum.splits option.splits)

lemma no_bind_machine_keypair [simp]: "machine_keypair S dir f \<noteq> (f', Inl (StartBind e))"
  by (auto simp: machine_keypair_def Let_def split: prod.splits sum.splits)

lemma no_bind_keypair [simp]: "start_node_keypair S o' p \<noteq> (q, Inl (StartBind e))"
proof
  assume "start_node_keypair S o' p = (q, Inl (StartBind e))"
  then show False
    by (auto simp: start_node_keypair_def split: prod.splits sum.splits if_splits)
qed

lemma no_bind_setup [simp]: "setup_libp2p_node S port host d p \<noteq> (q, Inl (StartBind e))"
  by (simp add: setup_libp2p_node_def Let_def split: sum.split)

lemma no_bind_handler [simp]: "make_envelope_handler S p \<noteq> (q, Inl (StartBind e))"
  by (simp add: make_envelope_handler_def Let_def split: prod.split sum.split)

text \<open>
  If the address of the REST API is taken, the start returns an error but the network task it
  spawned goes on: the caller gets no handle for it.
\<close>

theorem bind_failure_leaves_network_task:
  assumes "start_machine S o' p = Some (p', Inl (StartBind e))"
  shows "NetworkTask \<in> set (pc_tasks p')"
proof -
  obtain q where "start_services S o' q = Some (p', Inl (StartBind e))"
    using assms unfolding start_machine_def Let_def by (simp split: sum.splits prod.splits)
  then obtain r h n where r: "make_envelope_handler S q = (r, Inr h)"
      "start_servers S o' ((r \<lparr> pc_handler := Some h, pc_control_set := True, pc_tasks := pc_tasks r @ [NetworkTask] \<rparr>)
         \<lparr> pc_mesh := (pc_mesh r) \<lparr> mn_node := n \<rparr> \<rparr>) = (p', Inl (StartBind e))"
    unfolding start_services_def Let_def by (auto split: sum.splits prod.splits option.splits)
  then show ?thesis by (auto simp: start_servers_def Let_def split: if_splits sum.splits)
qed

section \<open>Properties\<close>

text \<open>
  (C16) A machine that keeps its keys on disk and can make its key directory signs its replies with the
  key it publishes: after the start, the keypair of the node is one pair, and the handler of
  requests has its private and its public part, whether the files were there or were generated.
\<close>

theorem started_handler_keys:
  assumes "disk_start broken home init S" "persistent_keys o'" "pc_node_keypair p = None"
    and "ensure_key_dir (sv_keys S) (mo_key_dir o') (k_files (pc_keys p)) = (f, Inr ())"
    and "start_machine S o' p = Some (p', Inr tasks)"
  shows "\<exists>pk sk h. pc_node_keypair p' = Some (Some (pk, sk)) \<and> pc_handler p' = Some h
    \<and> eh_signing_private_key h = Some sk \<and> eh_public_key h = b64_encode (sv_crypto S) pk"
  using started_keys [OF assms] by blast

text \<open>
  (C17) A restart keeps the keys: a machine started with the same options over the files that an
  earlier start left has the same keypair, whatever keys could have been generated and whichever
  files could be written, provided the socket of the host API, which is removed at the start, is
  none of the key files.
\<close>

theorem restart_keeps_keys:
  assumes "disk_start broken home init S" "persistent_keys o'" "mo_api_socket o' \<notin> Some ` key_files_of o'"
    and "ensure_key_dir (sv_keys S) (mo_key_dir o') f = (f', Inr ())"
    and "start_machine S o' (process_new f) = Some (p, Inr tasks)"
    and "disk_start broken' home' init' S'"
    and "start_machine S' o' (process_new (k_files (pc_keys p))) = Some (p', Inr tasks')"
  shows "pc_node_keypair p' = pc_node_keypair p \<and> pc_node_keypair p \<noteq> None"
proof -
  obtain pk sk where held: "pc_node_keypair p = Some (Some (pk, sk))" "keys_held o' (pk, sk) (k_files (pc_keys p))"
    using started_keys [OF assms(1,2) _ _ assms(5)] assms(3,4) by (auto simp: process_new_def)
  obtain p1 p2 p3 where p1: "start_node_keypair S' o' p1 = (p2, Inr ())"
      "pc_keys p1 = set_keypair_config (keypair_config_of o') (pc_keys (process_new (k_files (pc_keys p)) :: (disk, 'b) process))"
      "pc_node_keypair p1 = None" "pc_node_keypair p3 = pc_node_keypair p2" "start_services S' o' p3 = Some (p', Inr tasks')"
    using start_machine_Inr [OF assms(7)] by (auto simp: process_new_def)
  have "keys_held o' (pk, sk) (k_files (pc_keys p1))"
    using held(2) p1(2) by (simp add: set_keypair_config_def process_new_def)
  then have "pc_node_keypair p2 = Some (Some (pk, sk))" using held_keypair_used [OF assms(6) _ _ p1(3,1)] assms(2) by blast
  moreover have "pc_node_keypair p' = pc_node_keypair p3" using start_services_Inr [OF p1(5)] by blast
  ultimately show ?thesis using held(1) p1(4) by simp
qed

text \<open>
  The directory in the home directory is no way out: if the configured key directory cannot be
  made, the start fails, unless both kinds of keys are kept in memory. The handler of requests
  looks for its keys in the configured directory only.
\<close>

theorem start_needs_key_dir:
  assumes "\<And>f. \<exists>f' e. ensure_key_dir (sv_keys S) (mo_key_dir o') f = (f', Inl e)"
    and "\<not> (mo_ephemeral_keys o' \<or> mo_kem_ephemeral o' \<and> mo_signing_ephemeral o')"
  shows "start_machine S o' p \<noteq> Some (p', Inr tasks)"
proof
  assume "start_machine S o' p = Some (p', Inr tasks)"
  then obtain p1 p2 p3 where p1: "start_node_keypair S o' p1 = (p2, Inr ())"
      "pc_keys p1 = set_keypair_config (keypair_config_of o') (pc_keys p)"
    and p3: "pc_keys p3 = pc_keys p2" "start_services S o' p3 = Some (p', Inr tasks)"
    using start_machine_Inr by blast
  have "k_config (pc_keys p2) = k_config (pc_keys p1)"
    using p1(1) by (auto simp: start_node_keypair_def split: if_splits prod.splits sum.splits)
  then have config: "k_config (pc_keys p3) = keypair_config_of o'" using p1(2) p3(1) by (simp add: set_keypair_config_def)
  have load: "\<exists>f' e. load_or_generate (sv_keys S) (Some (mo_key_dir o')) pub priv drawn f = (f', Inl e)" for pub priv drawn f
    using assms(1) [of f] by (auto simp: load_or_generate_def resolve_key_dir_def)
  obtain q h where q: "make_envelope_handler S p3 = (q, Inr h)"
    using start_services_Inr [OF p3(2)] by blast
  obtain k pair where k: "ensure_kem_keypair_on_disk (sv_keys S) (sv_kem_draw S) (pc_keys p3) = (k, Inr pair)"
    using q by (auto simp: make_envelope_handler_def split: prod.splits sum.splits)
  then have "kem_mode (keypair_config_of o') \<noteq> Persistent"
    using kem_needs_dir [OF load, of "pc_keys p3" "sv_kem_draw S"] config by (auto simp: keypair_config_of_key_dir)
  moreover have "k_config k = keypair_config_of o'" using ensure_kem_config [OF k] config by simp
  moreover obtain k' pair' where "ensure_keypair_on_disk (sv_keys S) (sv_signing_draw S 0) k = (k', Inr pair')"
    using q k by (auto simp: make_envelope_handler_def split: prod.splits sum.splits)
  ultimately have "kem_mode (keypair_config_of o') \<noteq> Persistent" "signing_mode (keypair_config_of o') \<noteq> Persistent"
    using signing_needs_dir [OF load, of k "sv_signing_draw S 0"] by (auto simp: keypair_config_of_key_dir)
  then show False using assms(2) by (auto simp: keypair_config_of_def split: if_splits)
qed

text \<open>
  (C30) A machine started with \<open>--ephemeral\<close> signs with one key and publishes another: the node's
  keypair is the one in memory, the published key is the one on disk, and if they differ, no
  reply of the REST API verifies under the key it carries.
\<close>

theorem ephemeral_replies_unverifiable:
  assumes "start_machine S o' p = Some (p', Inr tasks)" "mo_ephemeral o'" "pc_node_keypair p = None"
    and "ensure_keypair_ephemeral (sv_keys S) (sv_node_draw S) = Inr (pk1, sk1)"
    and "crypto_laws (sv_crypto S)" "dsa_owned (sv_crypto S) pk1 sk1"
  shows "\<exists>h k pk2 sk2 k'. pc_handler p' = Some h
    \<and> ensure_keypair_on_disk (sv_keys S) (sv_signing_draw S 0) k = (k', Inr (pk2, sk2))
    \<and> eh_signing_private_key h = Some sk1 \<and> eh_public_key h = b64_encode (sv_crypto S) pk2
    \<and> (pk2 \<noteq> pk1 \<longrightarrow> (\<forall>K re payload ty kem bytes now w peer st parts.
         encrypt_response_envelope_with_key (sv_crypto S) K re h payload ty kem = Some bytes \<longrightarrow>
         snd (verify_flatbuffer_envelope_for_peer (sv_crypto S) now w peer bytes st) \<noteq> Inr parts))"
proof -
  obtain p1 p2 p3 where p: "start_node_keypair S o' p1 = (p2, Inr ())" "pc_node_keypair p1 = None"
      "pc_node_keypair p3 = pc_node_keypair p2" "start_services S o' p3 = Some (p', Inr tasks)"
    using start_machine_Inr [OF assms(1)] assms(3) by auto
  have pair: "pc_node_keypair p3 = Some (Some (pk1, sk1))"
    using p(1-3) assms(2,4) by (auto simp: start_node_keypair_def)
  obtain q h where q: "make_envelope_handler S p3 = (q, Inr h)" "pc_handler p' = Some h"
    using start_services_Inr [OF p(4)] by blast
  obtain k k' pk2 sk2 where k: "ensure_keypair_on_disk (sv_keys S) (sv_signing_draw S 0) k = (k', Inr (pk2, sk2))"
      "eh_signing_private_key h = Some sk1" "eh_public_key h = b64_encode (sv_crypto S) pk2"
    using q(1) pair
    by (auto simp: make_envelope_handler_def Let_def envelope_handler_new_def split: prod.splits sum.splits)
  with q(2) reply_unverifiable [OF assms(5,6) k(2,3)] show ?thesis by blast
qed

text \<open>
  (C1) The guarantees of a running node hold from the start of the process: whatever a machine does once
  its start is complete, the sum of its reservations stays within the limits of the host as the start read them, a peer is
  confirmed only after a signed handshake, and a task that was spawned for a delete message removes workloads only
  if the message was signed and its ownership check passed before. Two things lie outside: deletions over the REST API,
  which no check precedes, and the node's answer to its own capacity query, for which it reserves nothing.
\<close>

theorem started_machine_safe:
  assumes "start_machine S o' (process_new f) = Some (p', Inr tasks)" "mesh_run X (pc_mesh p') evs s"
    and "\<forall>ev \<in> set evs. has_profile prof ev"
    and "totals_representable (system_resources_of (resource_verifier_of (mn_node (pc_mesh p'))))"
  defines "r \<equiv> system_resources_of (resource_verifier_of (mn_node (pc_mesh p')))"
    and "v \<equiv> resource_verifier_of (mn_node s)"
  shows "reserved_sum cr_cpu_milli v \<le> unat (total_cpu_milli r) * 90 div 100 - unat (allocated_cpu_milli r)
    \<and> reserved_sum cr_memory_bytes v \<le> unat (total_memory_bytes r) * 90 div 100 - 536870912 - unat (allocated_memory_bytes r)
    \<and> reserved_sum cr_storage_bytes v
        \<le> unat (total_storage_bytes r) * 90 div 100 - 1073741824 - unat (allocated_storage_bytes r)
    \<and> (\<forall>q. is_confirmed q s \<longrightarrow>
         (\<exists>E msg. LoopEvent E (HandshakeMessage q msg) \<in> set evs \<and> signed_handshake X (message_bytes msg)))
    \<and> (\<forall>t \<in> set (mn_spawned s). delete_received X evs t)
    \<and> (\<forall>t \<in> set (mn_authorised s). check_passed X (pc_mesh p') evs t)
    \<and> (\<forall>evs1 t evs2. evs = evs1 @ TaskRemoved t # evs2 \<longrightarrow> check_passed X (pc_mesh p') evs1 t)"
proof -
  obtain n m where mesh: "pc_mesh p' = mesh_new \<lparr> mn_node := n, mn_scheduling := m \<rparr>"
      "reservations (resource_verifier_of n) = hm_empty"
    using started_mesh [OF assms(1)] by blast
  have start: "mn_handshakes (pc_mesh p') = hm_empty" "mn_spawned (pc_mesh p') = []" "mn_authorised (pc_mesh p') = []"
      "reservations (resource_verifier_of (mn_node (pc_mesh p'))) = hm_empty"
    using mesh by (simp_all add: mesh_new_def)
  obtain ops where ops: "v = fold (ledger_step prof) ops (resource_verifier_of (mn_node (pc_mesh p')))"
    using ledger_mesh_run [OF assms(2,3)] unfolding v_def by blast
  show ?thesis
    using no_overbooking [OF start(4) assms(4), of prof ops] run_handshakes [OF assms(2) start(1)]
      run_spawned [OF assms(2) start(2)] run_authorised [OF assms(2) start(2,3)] run_removed [OF assms(2) start(2,3)]
    unfolding ops r_def by blast
qed


end
