(* ===== verification/Start_Examples.thy ===== *)
theory Start_Examples
  imports Started_Machine Network_Examples Rest_Examples
begin

text \<open>
  Concrete starts: a host whose files can all be written, one whose key directory cannot be made,
  and the libraries of the other examples.
\<close>

definition toy_host :: "(string \<Rightarrow> bool) \<Rightarrow> (disk, mock_engine) start_env" where
  "toy_host broken =
     \<lparr> sv_crypto = toy_lib, sv_keys = disk_env broken (Some ''/root'') (Inr ()),
       sv_write_secure = (\<lambda>path _ b f. ke_write (disk_env broken (Some ''/root'') (Inr ())) path b f),
       sv_remove = hm_remove, sv_parent = (\<lambda>_. Some ''/run/beemesh''), sv_node_draw = Inr ([7], [7]),
       sv_kem_draw = Inr ([1], [2]), sv_signing_draw = (\<lambda>_. Inr ([8], [8])), sv_identity = Inr ''peerB'',
       sv_subscribe = Inr (), sv_parse_ip = (\<lambda>h. Some (IpV4 h)), sv_parse_address = (\<lambda>_. Inl ''invalid''),
       sv_listen = (\<lambda>_. Inr ()), sv_dial = (\<lambda>_. Inr ()), sv_profile = Debug, sv_parse_error = (\<lambda>s. s),
       sv_host = \<lparr> hv_cpuinfo = Inl ''missing'', hv_meminfo = Inl ''missing'', hv_df = Inl ''missing'', hv_listing = None \<rparr>,
       sv_default_registry = toy_registry, sv_mock_registry = toy_registry, sv_bind = (\<lambda>_. Inr ()) \<rparr>"

definition toy_boot :: "machine_options \<Rightarrow> (disk, mock_engine) process \<times> machine_task list" where
  "toy_boot opts = (case start_machine (toy_host (\<lambda>_. False)) opts (process_new []) of Some (p, Inr tasks) \<Rightarrow> (p, tasks))"

definition started :: "machine_options \<Rightarrow> bool" where
  "started opts = (case start_machine (toy_host (\<lambda>_. False)) opts (process_new []) of Some (_, Inr _) \<Rightarrow> True | _ \<Rightarrow> False)"

lemma toy_boot_start:
  "started opts \<Longrightarrow> start_machine (toy_host (\<lambda>_. False)) opts (process_new []) = Some (fst (toy_boot opts), Inr (snd (toy_boot opts)))"
  by (auto simp: started_def toy_boot_def split: option.splits prod.splits sum.splits)

lemma toy_started: "started default_machine_options" "started (default_machine_options \<lparr> mo_ephemeral := True \<rparr>)"
  by code_simp+

lemma toy_process_new [simp]: "pc_node_keypair (process_new f) = None"
  by (simp add: process_new_def)

lemma toy_disk_start: "disk_start broken (Some ''/root'') (Inr ()) (toy_host broken)"
  by (simp add: disk_start_def toy_host_def)

lemma toy_host_parts [simp]:
  "sv_keys (toy_host broken) = disk_env broken (Some ''/root'') (Inr ())" "sv_crypto (toy_host broken) = toy_lib"
  "sv_node_draw (toy_host broken) = Inr ([7], [7])"
  by (simp_all add: toy_host_def)

theorem started_handler_keys_witness:
  "\<exists>h. pc_handler (fst (toy_boot default_machine_options)) = Some h
     \<and> pc_node_keypair (fst (toy_boot default_machine_options)) = Some (Some ([7], [7]))
     \<and> eh_signing_private_key h = Some [7] \<and> eh_public_key h = string_of_bytes [7]"
proof -
  have "persistent_keys default_machine_options" by (simp add: persistent_keys_def default_machine_options_def)
  moreover have "ensure_key_dir (sv_keys (toy_host (\<lambda>_. False))) (mo_key_dir default_machine_options)
      (k_files (pc_keys (process_new [] :: (disk, mock_engine) process))) = ([(''/etc/beemesh/machine'', None)], Inr ())"
    by code_simp
  moreover have "pc_node_keypair (fst (toy_boot default_machine_options)) = Some (Some ([7], [7]))" by code_simp
  ultimately show ?thesis
    using started_handler_keys [OF toy_disk_start _ toy_process_new _ toy_boot_start [OF toy_started(1)]]
    by (auto simp: toy_lib_def)
qed

text \<open>A second start over the files of the first, on a host that would draw another keypair.\<close>

definition toy_other_host :: "(disk, mock_engine) start_env" where
  "toy_other_host = (toy_host (\<lambda>_. False)) \<lparr> sv_node_draw := Inr ([3], [3]), sv_identity := Inr ''peerC'' \<rparr>"

definition toy_reboot :: "(disk, mock_engine) process \<times> machine_task list" where
  "toy_reboot = (case start_machine toy_other_host default_machine_options
       (process_new (k_files (pc_keys (fst (toy_boot default_machine_options))))) of Some (p, Inr tasks) \<Rightarrow> (p, tasks))"

lemma toy_rebooted:
  "start_machine toy_other_host default_machine_options
     (process_new (k_files (pc_keys (fst (toy_boot default_machine_options))))) = Some (fst toy_reboot, Inr (snd toy_reboot))"
proof -
  have "case start_machine toy_other_host default_machine_options
       (process_new (k_files (pc_keys (fst (toy_boot default_machine_options))))) of Some (_, Inr _) \<Rightarrow> True | _ \<Rightarrow> False"
    by code_simp
  then show ?thesis by (auto simp: toy_reboot_def split: option.splits prod.splits sum.splits)
qed

theorem restart_keeps_keys_witness:
  "pc_node_keypair (fst toy_reboot) = pc_node_keypair (fst (toy_boot default_machine_options))
   \<and> pc_node_keypair (fst (toy_boot default_machine_options)) \<noteq> None"
proof (rule restart_keeps_keys [OF toy_disk_start _ _ _ toy_boot_start [OF toy_started(1)] _ toy_rebooted])
  show "persistent_keys default_machine_options" by (simp add: persistent_keys_def default_machine_options_def)
  show "mo_api_socket default_machine_options \<notin> Some ` key_files_of default_machine_options"
    by (simp add: default_machine_options_def key_files_of_def child_path_def)
  show "ensure_key_dir (sv_keys (toy_host (\<lambda>_. False))) (mo_key_dir default_machine_options) [] =
      ([(''/etc/beemesh/machine'', None)], Inr ())"
    by code_simp
  show "disk_start (\<lambda>_. False) (Some ''/root'') (Inr ()) toy_other_host"
    by (simp add: disk_start_def toy_other_host_def toy_host_def)
qed

text \<open>A key directory that belongs to someone else: its permissions cannot be set.\<close>

definition toy_unowned :: "(disk, mock_engine) start_env" where
  "toy_unowned = (toy_host (\<lambda>_. False)) \<lparr> sv_keys := (disk_env (\<lambda>_. False) (Some ''/root'') (Inr ()))
     \<lparr> ke_set_permissions := \<lambda>p mode f. if p = ''/etc/beemesh/machine'' then (f, Inl ''not permitted'') else (f, Inr ()) \<rparr> \<rparr>"

theorem start_needs_key_dir_witness:
  "\<forall>p p' tasks. start_machine toy_unowned default_machine_options p \<noteq> Some (p', Inr tasks)"
proof -
  have "\<exists>f' e. ensure_key_dir (sv_keys toy_unowned) (mo_key_dir default_machine_options) f = (f', Inl e)" for f
    by (auto simp: toy_unowned_def default_machine_options_def ensure_key_dir_def split: prod.split sum.split)
  from start_needs_key_dir [OF this] show ?thesis by (simp add: default_machine_options_def)
qed

text \<open>A node with an ephemeral keypair, and its replies.\<close>

abbreviation toy_ephemeral :: machine_options where
  "toy_ephemeral \<equiv> default_machine_options \<lparr> mo_ephemeral := True \<rparr>"

theorem ephemeral_replies_unverifiable_witness:
  "\<exists>h bytes. pc_handler (fst (toy_boot toy_ephemeral)) = Some h
     \<and> encrypt_response_envelope_with_key toy_lib toy_kem toy_reply_env h [9] ''t'' [1] = Some bytes
     \<and> (\<forall>parts. snd (verify_flatbuffer_envelope_for_peer toy_lib 10 300 ''peerA'' bytes hm_empty) \<noteq> Inr parts)"
proof -
  have kp: "ensure_keypair_ephemeral (sv_keys (toy_host (\<lambda>_. False))) (sv_node_draw (toy_host (\<lambda>_. False))) = Inr ([7], [7])"
    by code_simp
  have owned: "dsa_owned toy_lib [7] [7]" by (simp add: dsa_owned_def toy_lib_def)
  have h: "map_option (\<lambda>h. (eh_signing_private_key h, eh_public_key h)) (pc_handler (fst (toy_boot toy_ephemeral)))
      = Some (Some [7], string_of_bytes [8])"
    by code_simp
  obtain h pk2 where r: "pc_handler (fst (toy_boot toy_ephemeral)) = Some h" "eh_public_key h = b64_encode toy_lib pk2"
      "pk2 \<noteq> [7] \<longrightarrow> (\<forall>K re payload ty kem bytes now w peer st parts.
         encrypt_response_envelope_with_key toy_lib K re h payload ty kem = Some bytes \<longrightarrow>
         snd (verify_flatbuffer_envelope_for_peer toy_lib now w peer bytes st) \<noteq> Inr parts)"
    using ephemeral_replies_unverifiable [OF toy_boot_start [OF toy_started(2)] _ toy_process_new kp] toy_laws(1) owned
    by auto
  then have "string_of_bytes pk2 = string_of_bytes [8]" using h by (simp add: toy_lib_def)
  then have "bytes_of_string (string_of_bytes pk2) = bytes_of_string (string_of_bytes [8])" by (rule arg_cong)
  then have "pk2 \<noteq> [7]" by simp
  moreover have "encrypt_response_envelope_with_key toy_lib toy_kem toy_reply_env h [9] ''t'' [1] \<noteq> None"
    using r(1) h toy_blob_made
    by (simp add: encrypt_response_envelope_with_key_def toy_reply_env_def Let_def) (simp add: sign_envelope_def toy_lib_def toy_kem_def)
  then obtain bytes where "encrypt_response_envelope_with_key toy_lib toy_kem toy_reply_env h [9] ''t'' [1] = Some bytes" by blast
  ultimately show ?thesis using r by (intro exI [of _ h] exI [of _ bytes]) auto
qed

text \<open>The timer of a started machine fires.\<close>

lemma toy_started_run:
  "\<exists>s. mesh_run toy_mesh (pc_mesh (fst (toy_boot default_machine_options))) [LoopEvent (toy_net 1 10) HandshakeTick] s"
proof -
  have "mn_running (pc_mesh (fst (toy_boot default_machine_options)))" by code_simp
  moreover have "mn_applying (pc_mesh (fst (toy_boot default_machine_options))) = None" by code_simp
  ultimately obtain s where "mesh_step toy_mesh (LoopEvent (toy_net 1 10) HandshakeTick)
      (pc_mesh (fst (toy_boot default_machine_options))) s"
    using step_loop by blast
  then show ?thesis using mesh_next [OF mesh_start] by fastforce
qed

theorem started_machine_safe_witness:
  "\<exists>s. mesh_run toy_mesh (pc_mesh (fst (toy_boot default_machine_options))) [LoopEvent (toy_net 1 10) HandshakeTick] s
     \<and> reserved_sum cr_cpu_milli (resource_verifier_of (mn_node s)) \<le> 3600 \<and> \<not> is_confirmed ''peerA'' s"
proof -
  let ?p = "fst (toy_boot default_machine_options)" and ?evs = "[LoopEvent (toy_net 1 10) HandshakeTick]"
  let ?r = "system_resources_of (resource_verifier_of (mn_node (pc_mesh ?p)))"
  obtain s where run: "mesh_run toy_mesh (pc_mesh ?p) ?evs s" using toy_started_run by blast
  have "\<forall>ev \<in> set ?evs. has_profile Debug ev" by (simp add: toy_capacity_env_def)
  moreover have r: "total_memory_bytes ?r = 8589934592" "total_storage_bytes ?r = 107374182400" "total_cpu_milli ?r = 4000"
      "allocated_cpu_milli ?r = 0"
    by code_simp+
  then have "totals_representable ?r" by (simp add: totals_representable_def)
  moreover have "unat (total_cpu_milli ?r) * 90 div 100 - unat (allocated_cpu_milli ?r) = 3600" unfolding r(3,4) by simp
  ultimately show ?thesis
    using started_machine_safe [OF toy_boot_start [OF toy_started(1)] run, of Debug] run by (auto simp del: has_profile.simps)
qed


end
