(* ===== verification/Envelope_Validator.thy ===== *)
theory Envelope_Validator
  imports Workload_Integration
begin

text \<open>
  The validator of \<open>crypto/src/envelope_validator.rs\<close>. Verification of JSON envelopes and of
  FlatBuffers envelopes is a placeholder there that always fails, so the validator refuses every
  request. Only its \<open>require_signed_messages\<close> is used by the program. \<open>parse\<close> is the JSON parser
  (\<^const>\<open>Inl\<close> its error as text), \<open>show\<close> prints the error of the placeholder.
\<close>

datatype validation_error =
    VerificationFailed string
  | UnsignedRejected string
  | InvalidFormat string
  | SignatureFailed string

definition display_validation_error :: "validation_error \<Rightarrow> string" where
  "display_validation_error e =
     (case e of
        VerificationFailed m \<Rightarrow> ''Envelope verification failed: '' @ m
      | UnsignedRejected m \<Rightarrow> ''Unsigned envelope rejected: '' @ m
      | InvalidFormat m \<Rightarrow> ''Invalid envelope format: '' @ m
      | SignatureFailed m \<Rightarrow> ''Signature validation failed: '' @ m)"

datatype validation_direction = Inbound | Outbound

definition display_direction :: "validation_direction \<Rightarrow> string" where
  "display_direction d = (case d of Inbound \<Rightarrow> ''inbound'' | Outbound \<Rightarrow> ''outbound'')"

definition placeholder_verify :: "'j \<Rightarrow> string + bytes \<times> bytes \<times> bytes" where
  "placeholder_verify envelope_val = Inl ''verify_envelope_and_check_nonce not yet moved to crypto crate''"

definition validate_or_fallback ::
  "(bytes \<Rightarrow> string + 'j) \<Rightarrow> (string \<Rightarrow> string) \<Rightarrow> bytes \<Rightarrow> string \<Rightarrow> validation_direction \<Rightarrow> validation_error + bytes" where
  "validate_or_fallback parse show request protocol direction =
     (case parse request of
        Inr envelope_val \<Rightarrow>
          (case placeholder_verify envelope_val of
             Inr (payload_bytes, _, _) \<Rightarrow> Inr payload_bytes
           | Inl e \<Rightarrow>
               if require_signed_messages
               then Inl (UnsignedRejected (''rejecting unsigned/invalid '' @ display_direction direction @ '' request in ''
                      @ protocol @ '': '' @ show e))
               else Inr request)
      | Inl _ \<Rightarrow>
          if require_signed_messages
          then Inl (InvalidFormat (''rejecting non-JSON '' @ display_direction direction @ '' request in '' @ protocol
                 @ '' (signing required)''))
          else Inr request)"

definition validate_strict ::
  "(bytes \<Rightarrow> string + 'j) \<Rightarrow> (string \<Rightarrow> string) \<Rightarrow> bytes \<Rightarrow> string \<Rightarrow> validation_direction
     \<Rightarrow> validation_error + bytes \<times> bytes \<times> bytes" where
  "validate_strict parse show request protocol direction =
     (case parse request of
        Inr envelope_val \<Rightarrow>
          (case placeholder_verify envelope_val of
             Inr parts \<Rightarrow> Inr parts
           | Inl e \<Rightarrow> Inl (VerificationFailed (''envelope verification failed for '' @ display_direction direction
                 @ '' request in '' @ protocol @ '': '' @ show e)))
      | Inl e \<Rightarrow> Inl (InvalidFormat (''invalid JSON format for '' @ display_direction direction @ '' request in ''
            @ protocol @ '': '' @ e)))"

definition validate_flatbuffer_envelope ::
  "bytes \<Rightarrow> string \<Rightarrow> validation_direction \<Rightarrow> nat \<Rightarrow> validation_error + bytes \<times> bytes \<times> bytes" where
  "validate_flatbuffer_envelope request protocol direction timeout =
     Inl (VerificationFailed ''Flatbuffer envelope verification not yet implemented in crypto crate'')"

text \<open>The texts passed to the error handler, in order, with the result.\<close>

definition validate_with_error_handler ::
  "(bytes \<Rightarrow> string + 'j) \<Rightarrow> (string \<Rightarrow> string) \<Rightarrow> bytes \<Rightarrow> string \<Rightarrow> validation_direction \<Rightarrow> string list \<times> bytes option" where
  "validate_with_error_handler parse show request protocol direction =
     (case validate_or_fallback parse show request protocol direction of
        Inr payload \<Rightarrow> ([], Some payload)
      | Inl e \<Rightarrow> ([display_validation_error e], None))"

text \<open>
  The validator fails closed: no entry point accepts any request, correctly signed or not, and
  the error handler is told once.
\<close>

theorem validator_accepts_nothing:
  "validate_or_fallback parse show request protocol direction \<noteq> Inr payload
   \<and> validate_strict parse show request protocol direction \<noteq> Inr parts
   \<and> validate_flatbuffer_envelope request protocol direction timeout \<noteq> Inr parts
   \<and> (\<exists>message. validate_with_error_handler parse show request protocol direction = ([message], None))"
  by (simp add: validate_or_fallback_def validate_strict_def validate_flatbuffer_envelope_def
      validate_with_error_handler_def placeholder_verify_def require_signed_messages_def split: sum.split)

end
