(* ===== verification/Wire_Tables.thy ===== *)
theory Wire_Tables
  imports Prelude
begin

text \<open>
  The FlatBuffers library, as far as the generated code of \<open>protocol/src/generated\<close> uses it: tables with
  numbered slots. The library is not part of the repository. It is a record of functions over its
  tables, and \<open>flat_laws\<close> says what the generated code relies on: a slot that was pushed can be
  read, a scalar that equals its default is not stored, a slot that is absent reads as the default
  of the reader, and a finished buffer whose slots have the kinds that the verifier visits is
  accepted and holds the same slots.
\<close>

section \<open>The library\<close>

datatype 't fb_value =
    VBool bool
  | VI8 "8 word"
  | VU32 u32
  | VU64 u64
  | VStr string
  | VBytes bytes
  | VStrs "string list"
  | VTables "'t list"

datatype fb_kind = KBool | KI8 | KU32 | KU64 | KStr | KBytes | KStrs | KTables "(nat \<times> fb_kind) list"

record 't flat_lib =
  fl_start_table :: 't
  fl_push_slot_always :: "nat \<Rightarrow> 't fb_value \<Rightarrow> 't \<Rightarrow> 't"
  fl_push_slot :: "nat \<Rightarrow> 't fb_value \<Rightarrow> 't fb_value \<Rightarrow> 't \<Rightarrow> 't"
  fl_get :: "'t \<Rightarrow> nat \<Rightarrow> 't fb_value option \<Rightarrow> 't fb_value option"
  fl_finish :: "'t \<Rightarrow> bytes"
  fl_root :: "(nat \<times> fb_kind) list \<Rightarrow> bytes \<Rightarrow> 't option"

text \<open>The values that the verifier accepts for a kind.\<close>

fun of_kind :: "'t flat_lib \<Rightarrow> fb_kind \<Rightarrow> 't fb_value \<Rightarrow> bool" where
  "of_kind F KBool v = (case v of VBool _ \<Rightarrow> True | _ \<Rightarrow> False)"
| "of_kind F KI8 v = (case v of VI8 _ \<Rightarrow> True | _ \<Rightarrow> False)"
| "of_kind F KU32 v = (case v of VU32 _ \<Rightarrow> True | _ \<Rightarrow> False)"
| "of_kind F KU64 v = (case v of VU64 _ \<Rightarrow> True | _ \<Rightarrow> False)"
| "of_kind F KStr v = (case v of VStr _ \<Rightarrow> True | _ \<Rightarrow> False)"
| "of_kind F KBytes v = (case v of VBytes _ \<Rightarrow> True | _ \<Rightarrow> False)"
| "of_kind F KStrs v = (case v of VStrs _ \<Rightarrow> True | _ \<Rightarrow> False)"
| "of_kind F (KTables visited) v =
     (case v of
        VTables ts \<Rightarrow> list_all (\<lambda>t. list_all (\<lambda>(slot, kind).
            case fl_get F t slot None of None \<Rightarrow> True | Some x \<Rightarrow> of_kind F kind x) visited) ts
      | _ \<Rightarrow> False)"

definition table_ok :: "'t flat_lib \<Rightarrow> (nat \<times> fb_kind) list \<Rightarrow> 't \<Rightarrow> bool" where
  "table_ok F visited t =
     list_all (\<lambda>(slot, kind). case fl_get F t slot None of None \<Rightarrow> True | Some x \<Rightarrow> of_kind F kind x) visited"

definition flat_slots :: "'t flat_lib \<Rightarrow> bool" where
  "flat_slots F \<longleftrightarrow>
     (\<forall>slot d. fl_get F (fl_start_table F) slot d = d)
     \<and> (\<forall>slot v t slot' d. fl_get F (fl_push_slot_always F slot v t) slot' d
          = (if slot' = slot then Some v else fl_get F t slot' d))
     \<and> (\<forall>slot v v0 t. fl_push_slot F slot v v0 t = (if v = v0 then t else fl_push_slot_always F slot v t))"

definition flat_verified :: "'t flat_lib \<Rightarrow> bool" where
  "flat_verified F \<longleftrightarrow> (\<forall>visited t. table_ok F visited t \<longrightarrow>
     (\<exists>t'. fl_root F visited (fl_finish F t) = Some t'
        \<and> (\<forall>slot \<in> fst ` set visited. \<forall>d. fl_get F t' slot d = fl_get F t slot d)))"

definition flat_laws :: "'t flat_lib \<Rightarrow> bool" where
  "flat_laws F \<longleftrightarrow> flat_slots F \<and> flat_verified F"

text \<open>A slot that was not written is absent from the finished buffer, whatever the buffer is taken for.\<close>

definition flat_absent :: "'t flat_lib \<Rightarrow> bool" where
  "flat_absent F \<longleftrightarrow> (\<forall>visited t t' slot. fl_root F visited (fl_finish F t) = Some t' \<and> fl_get F t slot None = None
     \<longrightarrow> fl_get F t' slot None = None)"

section \<open>Writers and readers of fields\<close>

definition add_field :: "'t flat_lib \<Rightarrow> nat \<Rightarrow> ('a \<Rightarrow> 't fb_value) \<Rightarrow> 'a option \<Rightarrow> 't \<Rightarrow> 't" where
  "add_field F slot wrap x t = (case x of Some y \<Rightarrow> fl_push_slot_always F slot (wrap y) t | None \<Rightarrow> t)"

definition slot_bool :: "'t flat_lib \<Rightarrow> 't \<Rightarrow> nat \<Rightarrow> bool \<Rightarrow> bool" where
  "slot_bool F t slot d = (case fl_get F t slot (Some (VBool d)) of Some (VBool x) \<Rightarrow> x | _ \<Rightarrow> d)"

definition slot_i8 :: "'t flat_lib \<Rightarrow> 't \<Rightarrow> nat \<Rightarrow> 8 word \<Rightarrow> 8 word" where
  "slot_i8 F t slot d = (case fl_get F t slot (Some (VI8 d)) of Some (VI8 x) \<Rightarrow> x | _ \<Rightarrow> d)"

definition slot_u32 :: "'t flat_lib \<Rightarrow> 't \<Rightarrow> nat \<Rightarrow> u32 \<Rightarrow> u32" where
  "slot_u32 F t slot d = (case fl_get F t slot (Some (VU32 d)) of Some (VU32 x) \<Rightarrow> x | _ \<Rightarrow> d)"

definition slot_u64 :: "'t flat_lib \<Rightarrow> 't \<Rightarrow> nat \<Rightarrow> u64 \<Rightarrow> u64" where
  "slot_u64 F t slot d = (case fl_get F t slot (Some (VU64 d)) of Some (VU64 x) \<Rightarrow> x | _ \<Rightarrow> d)"

definition slot_str :: "'t flat_lib \<Rightarrow> 't \<Rightarrow> nat \<Rightarrow> string option" where
  "slot_str F t slot = (case fl_get F t slot None of Some (VStr x) \<Rightarrow> Some x | _ \<Rightarrow> None)"

definition slot_bytes :: "'t flat_lib \<Rightarrow> 't \<Rightarrow> nat \<Rightarrow> bytes option" where
  "slot_bytes F t slot = (case fl_get F t slot None of Some (VBytes x) \<Rightarrow> Some x | _ \<Rightarrow> None)"

definition slot_strs :: "'t flat_lib \<Rightarrow> 't \<Rightarrow> nat \<Rightarrow> string list option" where
  "slot_strs F t slot = (case fl_get F t slot None of Some (VStrs x) \<Rightarrow> Some x | _ \<Rightarrow> None)"

definition slot_tables :: "'t flat_lib \<Rightarrow> 't \<Rightarrow> nat \<Rightarrow> 't list option" where
  "slot_tables F t slot = (case fl_get F t slot None of Some (VTables x) \<Rightarrow> Some x | _ \<Rightarrow> None)"

lemma table_ok_simps [simp]:
  "table_ok F [] t"
  "table_ok F ((slot, kind) # visited) t
     = ((case fl_get F t slot None of None \<Rightarrow> True | Some x \<Rightarrow> of_kind F kind x) \<and> table_ok F visited t)"
  by (simp_all add: table_ok_def)

lemma of_kind_tables: "of_kind F (KTables visited) v = (case v of VTables ts \<Rightarrow> list_all (table_ok F visited) ts | _ \<Rightarrow> False)"
  by (cases v) (simp_all add: table_ok_def [abs_def])

declare of_kind.simps(8) [simp del] of_kind_tables [simp]

lemmas field_readers = slot_bool_def slot_i8_def slot_u32_def slot_u64_def slot_str_def slot_bytes_def slot_strs_def slot_tables_def

section \<open>What is written can be read\<close>

lemma flat_lawsD:
  assumes "flat_laws F"
  shows "fl_get F (fl_start_table F) slot d = d"
    and "fl_get F (fl_push_slot_always F slot v t) slot' d = (if slot' = slot then Some v else fl_get F t slot' d)"
    and "fl_push_slot F slot v v0 t = (if v = v0 then t else fl_push_slot_always F slot v t)"
  using assms by (simp_all add: flat_laws_def flat_slots_def)

lemma flat_get_field:
  assumes "flat_laws F"
  shows "fl_get F (add_field F slot wrap x t) slot' d
     = (if slot' = slot then (case x of None \<Rightarrow> fl_get F t slot d | Some y \<Rightarrow> Some (wrap y)) else fl_get F t slot' d)"
  by (cases x) (simp_all add: add_field_def flat_lawsD(2) [OF assms])

lemma flat_get_scalar:
  assumes "flat_laws F"
  shows "fl_get F (fl_push_slot F slot v v0 t) slot' d = (if slot' = slot \<and> v \<noteq> v0 then Some v else fl_get F t slot' d)"
  by (simp add: flat_lawsD(2,3) [OF assms])

lemmas flat_get = flat_lawsD(1) flat_get_field flat_get_scalar

lemma pushed_or_default [simp]: "(if v \<noteq> v0 then Some v else Some v0) = Some v"
  by (cases "v = v0") simp_all

text \<open>A reader that looks only at the slots the verifier visits reads the same from the finished buffer.\<close>

lemma flat_root:
  assumes "flat_laws F" "table_ok F visited t"
    and "\<And>t'. (\<And>slot d. slot \<in> fst ` set visited \<Longrightarrow> fl_get F t' slot d = fl_get F t slot d) \<Longrightarrow> read t' = read t"
    and "read t = a"
  shows "map_option read (fl_root F visited (fl_finish F t)) = Some a"
proof -
  obtain t' where t': "fl_root F visited (fl_finish F t) = Some t'"
      "\<And>slot d. slot \<in> fst ` set visited \<Longrightarrow> fl_get F t' slot d = fl_get F t slot d"
    using assms(1,2) unfolding flat_laws_def flat_verified_def by blast
  have "read t' = read t" by (rule assms(3)) (rule t'(2))
  with t'(1) assms(4) show ?thesis by simp
qed

end
