(* ===== verification/Wire_Messages.thy ===== *)
theory Wire_Messages
  imports Wire_Tables Messages
begin

text \<open>
  The tables of the protocol, \<open>protocol/src/generated\<close>: for each, the slots its verifier visits, the
  function that writes it (with the builder's methods), the accessors that read it, and the
  function that opens a buffer. Slot numbers and defaults are those of the generated code. Enumerations are
  their numbers. A nested table is written before the table that refers to it.
\<close>

section \<open>Tables\<close>

definition health_default :: health_message where
  "health_default = \<lparr> hm_ok = False, hm_status = None \<rparr>"

definition health_verifier :: "(nat \<times> fb_kind) list" where
  "health_verifier =
     [(4, KBool), (6, KStr)]"

definition health_create :: "'t flat_lib \<Rightarrow> health_message \<Rightarrow> 't" where
  "health_create F args =
     (let builder = fl_start_table F;
          builder = add_field F 6 VStr (hm_status args) builder;
          builder = fl_push_slot F 4 (VBool (hm_ok args)) (VBool False) builder in
      builder)"

definition health_of_table :: "'t flat_lib \<Rightarrow> 't \<Rightarrow> health_message" where
  "health_of_table F t =
     \<lparr> hm_ok = slot_bool F t 4 False, hm_status = slot_str F t 6 \<rparr>"

definition root_as_health :: "'t flat_lib \<Rightarrow> bytes \<Rightarrow> health_message option" where
  "root_as_health F buf = map_option (health_of_table F) (fl_root F health_verifier buf)"

definition envelope_default :: envelope where
  "envelope_default = \<lparr> fe_payload = None, fe_payload_type = None, fe_nonce = None, fe_ts = 0, fe_alg = None,
     fe_sig = None, fe_pubkey = None, fe_kem_pubkey = None, fe_peer_id = None \<rparr>"

definition envelope_verifier :: "(nat \<times> fb_kind) list" where
  "envelope_verifier =
     [(4, KBytes), (6, KStr), (8, KStr), (10, KU64), (12, KStr), (14, KStr), (16, KStr), (18, KStr),
      (20, KStr)]"

definition envelope_create :: "'t flat_lib \<Rightarrow> envelope \<Rightarrow> 't" where
  "envelope_create F args =
     (let builder = fl_start_table F;
          builder = fl_push_slot F 10 (VU64 (fe_ts args)) (VU64 0) builder;
          builder = add_field F 20 VStr (fe_kem_pubkey args) builder;
          builder = add_field F 18 VStr (fe_peer_id args) builder;
          builder = add_field F 16 VStr (fe_pubkey args) builder;
          builder = add_field F 14 VStr (fe_sig args) builder;
          builder = add_field F 12 VStr (fe_alg args) builder;
          builder = add_field F 8 VStr (fe_nonce args) builder;
          builder = add_field F 6 VStr (fe_payload_type args) builder;
          builder = add_field F 4 VBytes (fe_payload args) builder in
      builder)"

definition envelope_of_table :: "'t flat_lib \<Rightarrow> 't \<Rightarrow> envelope" where
  "envelope_of_table F t =
     \<lparr> fe_payload = slot_bytes F t 4, fe_payload_type = slot_str F t 6, fe_nonce = slot_str F t 8,
       fe_ts = slot_u64 F t 10 0, fe_alg = slot_str F t 12, fe_sig = slot_str F t 14,
       fe_pubkey = slot_str F t 16, fe_kem_pubkey = slot_str F t 20, fe_peer_id = slot_str F t 18 \<rparr>"

definition root_as_envelope :: "'t flat_lib \<Rightarrow> bytes \<Rightarrow> envelope option" where
  "root_as_envelope F buf = map_option (envelope_of_table F) (fl_root F envelope_verifier buf)"

definition handshake_default :: handshake_message where
  "handshake_default = \<lparr> hs_nonce = 0, hs_timestamp = 0, hs_protocol_version = None, hs_signature = None \<rparr>"

definition handshake_verifier :: "(nat \<times> fb_kind) list" where
  "handshake_verifier =
     [(4, KU32), (6, KStr), (8, KStr), (10, KU64)]"

definition handshake_create :: "'t flat_lib \<Rightarrow> handshake_message \<Rightarrow> 't" where
  "handshake_create F args =
     (let builder = fl_start_table F;
          builder = fl_push_slot F 10 (VU64 (hs_timestamp args)) (VU64 0) builder;
          builder = add_field F 8 VStr (hs_protocol_version args) builder;
          builder = add_field F 6 VStr (hs_signature args) builder;
          builder = fl_push_slot F 4 (VU32 (hs_nonce args)) (VU32 0) builder in
      builder)"

definition handshake_of_table :: "'t flat_lib \<Rightarrow> 't \<Rightarrow> handshake_message" where
  "handshake_of_table F t =
     \<lparr> hs_nonce = slot_u32 F t 4 0, hs_timestamp = slot_u64 F t 10 0,
       hs_protocol_version = slot_str F t 8, hs_signature = slot_str F t 6 \<rparr>"

definition root_as_handshake :: "'t flat_lib \<Rightarrow> bytes \<Rightarrow> handshake_message option" where
  "root_as_handshake F buf = map_option (handshake_of_table F) (fl_root F handshake_verifier buf)"

definition capacity_request_default :: capacity_request where
  "capacity_request_default = \<lparr> cq_request_id = None, cq_cpu_milli = 0, cq_memory_bytes = 0, cq_storage_bytes = 0,
     cq_replicas = 1 \<rparr>"

definition capacity_request_verifier :: "(nat \<times> fb_kind) list" where
  "capacity_request_verifier =
     [(4, KStr), (6, KU32), (8, KU64), (10, KU64), (12, KU32)]"

definition capacity_request_create :: "'t flat_lib \<Rightarrow> capacity_request \<Rightarrow> 't" where
  "capacity_request_create F args =
     (let builder = fl_start_table F;
          builder = fl_push_slot F 10 (VU64 (cq_storage_bytes args)) (VU64 0) builder;
          builder = fl_push_slot F 8 (VU64 (cq_memory_bytes args)) (VU64 0) builder;
          builder = fl_push_slot F 12 (VU32 (cq_replicas args)) (VU32 1) builder;
          builder = fl_push_slot F 6 (VU32 (cq_cpu_milli args)) (VU32 0) builder;
          builder = add_field F 4 VStr (cq_request_id args) builder in
      builder)"

definition capacity_request_of_table :: "'t flat_lib \<Rightarrow> 't \<Rightarrow> capacity_request" where
  "capacity_request_of_table F t =
     \<lparr> cq_request_id = slot_str F t 4, cq_cpu_milli = slot_u32 F t 6 0,
       cq_memory_bytes = slot_u64 F t 8 0, cq_storage_bytes = slot_u64 F t 10 0,
       cq_replicas = slot_u32 F t 12 1 \<rparr>"

definition root_as_capacity_request :: "'t flat_lib \<Rightarrow> bytes \<Rightarrow> capacity_request option" where
  "root_as_capacity_request F buf = map_option (capacity_request_of_table F) (fl_root F capacity_request_verifier buf)"

record capacity_reply_args =
  cya_request_id :: "string option"
  cya_ok :: bool
  cya_node_id :: "string option"
  cya_region :: "string option"
  cya_kem_pubkey :: "string option"
  cya_capabilities :: "string list option"
  cya_cpu_available_milli :: u32
  cya_memory_available_bytes :: u64
  cya_storage_available_bytes :: u64

definition capacity_reply_default :: capacity_reply_args where
  "capacity_reply_default = \<lparr> cya_request_id = None, cya_ok = False, cya_node_id = None, cya_region = None,
     cya_kem_pubkey = None, cya_capabilities = None, cya_cpu_available_milli = 0,
     cya_memory_available_bytes = 0, cya_storage_available_bytes = 0 \<rparr>"

definition capacity_reply_verifier :: "(nat \<times> fb_kind) list" where
  "capacity_reply_verifier =
     [(4, KStr), (6, KBool), (8, KStr), (10, KStr), (12, KStr), (14, KStrs), (16, KU32), (18, KU64),
      (20, KU64)]"

definition capacity_reply_create :: "'t flat_lib \<Rightarrow> capacity_reply_args \<Rightarrow> 't" where
  "capacity_reply_create F args =
     (let builder = fl_start_table F;
          builder = fl_push_slot F 20 (VU64 (cya_storage_available_bytes args)) (VU64 0) builder;
          builder = fl_push_slot F 18 (VU64 (cya_memory_available_bytes args)) (VU64 0) builder;
          builder = fl_push_slot F 16 (VU32 (cya_cpu_available_milli args)) (VU32 0) builder;
          builder = add_field F 14 VStrs (cya_capabilities args) builder;
          builder = add_field F 12 VStr (cya_kem_pubkey args) builder;
          builder = add_field F 10 VStr (cya_region args) builder;
          builder = add_field F 8 VStr (cya_node_id args) builder;
          builder = add_field F 4 VStr (cya_request_id args) builder;
          builder = fl_push_slot F 6 (VBool (cya_ok args)) (VBool False) builder in
      builder)"

definition capacity_reply_of_table :: "'t flat_lib \<Rightarrow> 't \<Rightarrow> capacity_reply_args" where
  "capacity_reply_of_table F t =
     \<lparr> cya_request_id = slot_str F t 4, cya_ok = slot_bool F t 6 False,
       cya_node_id = slot_str F t 8, cya_region = slot_str F t 10, cya_kem_pubkey = slot_str F t 12,
       cya_capabilities = slot_strs F t 14, cya_cpu_available_milli = slot_u32 F t 16 0,
       cya_memory_available_bytes = slot_u64 F t 18 0,
       cya_storage_available_bytes = slot_u64 F t 20 0 \<rparr>"

definition root_as_capacity_reply :: "'t flat_lib \<Rightarrow> bytes \<Rightarrow> capacity_reply_args option" where
  "root_as_capacity_reply F buf = map_option (capacity_reply_of_table F) (fl_root F capacity_reply_verifier buf)"

definition apply_request_default :: apply_request where
  "apply_request_default = \<lparr> ap_replicas = 1, ap_operation_id = None, ap_manifest_json = None, ap_origin_peer = None,
     ap_manifest_id = None \<rparr>"

definition apply_request_verifier :: "(nat \<times> fb_kind) list" where
  "apply_request_verifier =
     [(4, KU32), (6, KStr), (8, KStr), (10, KStr), (12, KStr)]"

definition apply_request_create :: "'t flat_lib \<Rightarrow> apply_request \<Rightarrow> 't" where
  "apply_request_create F args =
     (let builder = fl_start_table F;
          builder = add_field F 12 VStr (ap_manifest_id args) builder;
          builder = add_field F 10 VStr (ap_origin_peer args) builder;
          builder = add_field F 8 VStr (ap_manifest_json args) builder;
          builder = add_field F 6 VStr (ap_operation_id args) builder;
          builder = fl_push_slot F 4 (VU32 (ap_replicas args)) (VU32 1) builder in
      builder)"

definition apply_request_of_table :: "'t flat_lib \<Rightarrow> 't \<Rightarrow> apply_request" where
  "apply_request_of_table F t =
     \<lparr> ap_replicas = slot_u32 F t 4 1, ap_operation_id = slot_str F t 6,
       ap_manifest_json = slot_str F t 8, ap_origin_peer = slot_str F t 10,
       ap_manifest_id = slot_str F t 12 \<rparr>"

definition root_as_apply_request :: "'t flat_lib \<Rightarrow> bytes \<Rightarrow> apply_request option" where
  "root_as_apply_request F buf = map_option (apply_request_of_table F) (fl_root F apply_request_verifier buf)"

record apply_response_args =
  ara_ok :: bool
  ara_operation_id :: "string option"
  ara_message :: "string option"

definition apply_response_default :: apply_response_args where
  "apply_response_default = \<lparr> ara_ok = False, ara_operation_id = None, ara_message = None \<rparr>"

definition apply_response_verifier :: "(nat \<times> fb_kind) list" where
  "apply_response_verifier =
     [(4, KBool), (6, KStr), (8, KStr)]"

definition apply_response_create :: "'t flat_lib \<Rightarrow> apply_response_args \<Rightarrow> 't" where
  "apply_response_create F args =
     (let builder = fl_start_table F;
          builder = add_field F 8 VStr (ara_message args) builder;
          builder = add_field F 6 VStr (ara_operation_id args) builder;
          builder = fl_push_slot F 4 (VBool (ara_ok args)) (VBool False) builder in
      builder)"

definition apply_response_of_table :: "'t flat_lib \<Rightarrow> 't \<Rightarrow> apply_response_args" where
  "apply_response_of_table F t =
     \<lparr> ara_ok = slot_bool F t 4 False, ara_operation_id = slot_str F t 6,
       ara_message = slot_str F t 8 \<rparr>"

definition root_as_apply_response :: "'t flat_lib \<Rightarrow> bytes \<Rightarrow> apply_response_args option" where
  "root_as_apply_response F buf = map_option (apply_response_of_table F) (fl_root F apply_response_verifier buf)"

record delete_request_args =
  dqa_manifest_id :: "string option"
  dqa_operation_id :: "string option"
  dqa_origin_peer :: "string option"
  dqa_force :: bool

definition delete_request_default :: delete_request_args where
  "delete_request_default = \<lparr> dqa_manifest_id = None, dqa_operation_id = None, dqa_origin_peer = None, dqa_force = False \<rparr>"

definition delete_request_verifier :: "(nat \<times> fb_kind) list" where
  "delete_request_verifier =
     [(4, KStr), (6, KStr), (8, KStr), (10, KBool)]"

definition delete_request_create :: "'t flat_lib \<Rightarrow> delete_request_args \<Rightarrow> 't" where
  "delete_request_create F args =
     (let builder = fl_start_table F;
          builder = add_field F 8 VStr (dqa_origin_peer args) builder;
          builder = add_field F 6 VStr (dqa_operation_id args) builder;
          builder = add_field F 4 VStr (dqa_manifest_id args) builder;
          builder = fl_push_slot F 10 (VBool (dqa_force args)) (VBool False) builder in
      builder)"

definition delete_request_of_table :: "'t flat_lib \<Rightarrow> 't \<Rightarrow> delete_request_args" where
  "delete_request_of_table F t =
     \<lparr> dqa_manifest_id = slot_str F t 4, dqa_operation_id = slot_str F t 6,
       dqa_origin_peer = slot_str F t 8, dqa_force = slot_bool F t 10 False \<rparr>"

definition root_as_delete_request :: "'t flat_lib \<Rightarrow> bytes \<Rightarrow> delete_request_args option" where
  "root_as_delete_request F buf = map_option (delete_request_of_table F) (fl_root F delete_request_verifier buf)"

record delete_response_args =
  dra_ok :: bool
  dra_operation_id :: "string option"
  dra_message :: "string option"
  dra_manifest_id :: "string option"
  dra_removed_workloads :: "string list option"

definition delete_response_default :: delete_response_args where
  "delete_response_default = \<lparr> dra_ok = False, dra_operation_id = None, dra_message = None, dra_manifest_id = None,
     dra_removed_workloads = None \<rparr>"

definition delete_response_verifier :: "(nat \<times> fb_kind) list" where
  "delete_response_verifier =
     [(4, KBool), (6, KStr), (8, KStr), (10, KStr), (12, KStrs)]"

definition delete_response_create :: "'t flat_lib \<Rightarrow> delete_response_args \<Rightarrow> 't" where
  "delete_response_create F args =
     (let builder = fl_start_table F;
          builder = add_field F 12 VStrs (dra_removed_workloads args) builder;
          builder = add_field F 10 VStr (dra_manifest_id args) builder;
          builder = add_field F 8 VStr (dra_message args) builder;
          builder = add_field F 6 VStr (dra_operation_id args) builder;
          builder = fl_push_slot F 4 (VBool (dra_ok args)) (VBool False) builder in
      builder)"

definition delete_response_of_table :: "'t flat_lib \<Rightarrow> 't \<Rightarrow> delete_response_args" where
  "delete_response_of_table F t =
     \<lparr> dra_ok = slot_bool F t 4 False, dra_operation_id = slot_str F t 6,
       dra_message = slot_str F t 8, dra_manifest_id = slot_str F t 10,
       dra_removed_workloads = slot_strs F t 12 \<rparr>"

definition root_as_delete_response :: "'t flat_lib \<Rightarrow> bytes \<Rightarrow> delete_response_args option" where
  "root_as_delete_response F buf = map_option (delete_response_of_table F) (fl_root F delete_response_verifier buf)"

record nodes_response_args =
  nra_peers :: "string list option"

definition nodes_response_default :: nodes_response_args where
  "nodes_response_default = \<lparr> nra_peers = None \<rparr>"

definition nodes_response_verifier :: "(nat \<times> fb_kind) list" where
  "nodes_response_verifier =
     [(4, KStrs)]"

definition nodes_response_create :: "'t flat_lib \<Rightarrow> nodes_response_args \<Rightarrow> 't" where
  "nodes_response_create F args =
     (let builder = fl_start_table F;
          builder = add_field F 4 VStrs (nra_peers args) builder in
      builder)"

definition nodes_response_of_table :: "'t flat_lib \<Rightarrow> 't \<Rightarrow> nodes_response_args" where
  "nodes_response_of_table F t =
     \<lparr> nra_peers = slot_strs F t 4 \<rparr>"

definition root_as_nodes_response :: "'t flat_lib \<Rightarrow> bytes \<Rightarrow> nodes_response_args option" where
  "root_as_nodes_response F buf = map_option (nodes_response_of_table F) (fl_root F nodes_response_verifier buf)"

record candidate_node_args =
  cna_peer_id :: "string option"
  cna_public_key :: "string option"

definition candidate_node_default :: candidate_node_args where
  "candidate_node_default = \<lparr> cna_peer_id = None, cna_public_key = None \<rparr>"

definition candidate_node_verifier :: "(nat \<times> fb_kind) list" where
  "candidate_node_verifier =
     [(4, KStr), (6, KStr)]"

definition candidate_node_create :: "'t flat_lib \<Rightarrow> candidate_node_args \<Rightarrow> 't" where
  "candidate_node_create F args =
     (let builder = fl_start_table F;
          builder = add_field F 6 VStr (cna_public_key args) builder;
          builder = add_field F 4 VStr (cna_peer_id args) builder in
      builder)"

definition candidate_node_of_table :: "'t flat_lib \<Rightarrow> 't \<Rightarrow> candidate_node_args" where
  "candidate_node_of_table F t =
     \<lparr> cna_peer_id = slot_str F t 4, cna_public_key = slot_str F t 6 \<rparr>"

record 't candidates_response_args =
  cra_ok :: bool
  cra_candidates :: "'t list option"

definition candidates_response_default :: "'t candidates_response_args" where
  "candidates_response_default = \<lparr> cra_ok = False, cra_candidates = None \<rparr>"

definition candidates_response_verifier :: "(nat \<times> fb_kind) list" where
  "candidates_response_verifier =
     [(4, KBool), (6, KTables candidate_node_verifier)]"

definition candidates_response_create :: "'t flat_lib \<Rightarrow> 't candidates_response_args \<Rightarrow> 't" where
  "candidates_response_create F args =
     (let builder = fl_start_table F;
          builder = add_field F 6 VTables (cra_candidates args) builder;
          builder = fl_push_slot F 4 (VBool (cra_ok args)) (VBool False) builder in
      builder)"

definition candidates_response_of_table :: "'t flat_lib \<Rightarrow> 't \<Rightarrow> 't candidates_response_args" where
  "candidates_response_of_table F t =
     \<lparr> cra_ok = slot_bool F t 4 False, cra_candidates = slot_tables F t 6 \<rparr>"

definition root_as_candidates_response :: "'t flat_lib \<Rightarrow> bytes \<Rightarrow> 't candidates_response_args option" where
  "root_as_candidates_response F buf = map_option (candidates_response_of_table F) (fl_root F candidates_response_verifier buf)"

record task_create_response_args =
  tca_ok :: bool
  tca_task_id :: "string option"
  tca_manifest_ref :: "string option"
  tca_selection_window_ms :: u64
  tca_message :: "string option"

definition task_create_response_default :: task_create_response_args where
  "task_create_response_default = \<lparr> tca_ok = False, tca_task_id = None, tca_manifest_ref = None, tca_selection_window_ms = 0,
     tca_message = None \<rparr>"

definition task_create_response_verifier :: "(nat \<times> fb_kind) list" where
  "task_create_response_verifier =
     [(4, KBool), (6, KStr), (8, KStr), (10, KU64), (12, KStr)]"

definition task_create_response_create :: "'t flat_lib \<Rightarrow> task_create_response_args \<Rightarrow> 't" where
  "task_create_response_create F args =
     (let builder = fl_start_table F;
          builder = fl_push_slot F 10 (VU64 (tca_selection_window_ms args)) (VU64 0) builder;
          builder = add_field F 12 VStr (tca_message args) builder;
          builder = add_field F 8 VStr (tca_manifest_ref args) builder;
          builder = add_field F 6 VStr (tca_task_id args) builder;
          builder = fl_push_slot F 4 (VBool (tca_ok args)) (VBool False) builder in
      builder)"

definition task_create_response_of_table :: "'t flat_lib \<Rightarrow> 't \<Rightarrow> task_create_response_args" where
  "task_create_response_of_table F t =
     \<lparr> tca_ok = slot_bool F t 4 False, tca_task_id = slot_str F t 6,
       tca_manifest_ref = slot_str F t 8, tca_selection_window_ms = slot_u64 F t 10 0,
       tca_message = slot_str F t 12 \<rparr>"

definition root_as_task_create_response :: "'t flat_lib \<Rightarrow> bytes \<Rightarrow> task_create_response_args option" where
  "root_as_task_create_response F buf = map_option (task_create_response_of_table F) (fl_root F task_create_response_verifier buf)"

record task_status_response_args =
  tsa_task_id :: "string option"
  tsa_state :: "string option"
  tsa_assigned_peers :: "string list option"
  tsa_shares_distributed :: "string list option"
  tsa_manifest_cid :: "string option"

definition task_status_response_default :: task_status_response_args where
  "task_status_response_default = \<lparr> tsa_task_id = None, tsa_state = None, tsa_assigned_peers = None, tsa_shares_distributed = None,
     tsa_manifest_cid = None \<rparr>"

definition task_status_response_verifier :: "(nat \<times> fb_kind) list" where
  "task_status_response_verifier =
     [(4, KStr), (6, KStr), (8, KStrs), (10, KStrs), (12, KStr)]"

definition task_status_response_create :: "'t flat_lib \<Rightarrow> task_status_response_args \<Rightarrow> 't" where
  "task_status_response_create F args =
     (let builder = fl_start_table F;
          builder = add_field F 12 VStr (tsa_manifest_cid args) builder;
          builder = add_field F 10 VStrs (tsa_shares_distributed args) builder;
          builder = add_field F 8 VStrs (tsa_assigned_peers args) builder;
          builder = add_field F 6 VStr (tsa_state args) builder;
          builder = add_field F 4 VStr (tsa_task_id args) builder in
      builder)"

definition task_status_response_of_table :: "'t flat_lib \<Rightarrow> 't \<Rightarrow> task_status_response_args" where
  "task_status_response_of_table F t =
     \<lparr> tsa_task_id = slot_str F t 4, tsa_state = slot_str F t 6,
       tsa_assigned_peers = slot_strs F t 8, tsa_shares_distributed = slot_strs F t 10,
       tsa_manifest_cid = slot_str F t 12 \<rparr>"

definition root_as_task_status_response :: "'t flat_lib \<Rightarrow> bytes \<Rightarrow> task_status_response_args option" where
  "root_as_task_status_response F buf = map_option (task_status_response_of_table F) (fl_root F task_status_response_verifier buf)"

record assign_request_args =
  aqa_chosen_peers :: "string list option"

definition assign_request_default :: assign_request_args where
  "assign_request_default = \<lparr> aqa_chosen_peers = None \<rparr>"

definition assign_request_verifier :: "(nat \<times> fb_kind) list" where
  "assign_request_verifier =
     [(4, KStrs)]"

definition assign_request_create :: "'t flat_lib \<Rightarrow> assign_request_args \<Rightarrow> 't" where
  "assign_request_create F args =
     (let builder = fl_start_table F;
          builder = add_field F 4 VStrs (aqa_chosen_peers args) builder in
      builder)"

definition assign_request_of_table :: "'t flat_lib \<Rightarrow> 't \<Rightarrow> assign_request_args" where
  "assign_request_of_table F t =
     \<lparr> aqa_chosen_peers = slot_strs F t 4 \<rparr>"

definition root_as_assign_request :: "'t flat_lib \<Rightarrow> bytes \<Rightarrow> assign_request_args option" where
  "root_as_assign_request F buf = map_option (assign_request_of_table F) (fl_root F assign_request_verifier buf)"

record assign_response_args =
  asa_ok :: bool
  asa_task_id :: "string option"
  asa_assigned_peers :: "string list option"
  asa_per_peer_results_json :: "string option"

definition assign_response_default :: assign_response_args where
  "assign_response_default = \<lparr> asa_ok = False, asa_task_id = None, asa_assigned_peers = None, asa_per_peer_results_json = None \<rparr>"

definition assign_response_verifier :: "(nat \<times> fb_kind) list" where
  "assign_response_verifier =
     [(4, KBool), (6, KStr), (8, KStrs), (10, KStr)]"

definition assign_response_create :: "'t flat_lib \<Rightarrow> assign_response_args \<Rightarrow> 't" where
  "assign_response_create F args =
     (let builder = fl_start_table F;
          builder = add_field F 10 VStr (asa_per_peer_results_json args) builder;
          builder = add_field F 8 VStrs (asa_assigned_peers args) builder;
          builder = add_field F 6 VStr (asa_task_id args) builder;
          builder = fl_push_slot F 4 (VBool (asa_ok args)) (VBool False) builder in
      builder)"

definition assign_response_of_table :: "'t flat_lib \<Rightarrow> 't \<Rightarrow> assign_response_args" where
  "assign_response_of_table F t =
     \<lparr> asa_ok = slot_bool F t 4 False, asa_task_id = slot_str F t 6,
       asa_assigned_peers = slot_strs F t 8, asa_per_peer_results_json = slot_str F t 10 \<rparr>"

definition root_as_assign_response :: "'t flat_lib \<Rightarrow> bytes \<Rightarrow> assign_response_args option" where
  "root_as_assign_response F buf = map_option (assign_response_of_table F) (fl_root F assign_response_verifier buf)"

record key_value_args =
  kva_key :: "string option"
  kva_value :: "string option"

definition key_value_default :: key_value_args where
  "key_value_default = \<lparr> kva_key = None, kva_value = None \<rparr>"

definition key_value_verifier :: "(nat \<times> fb_kind) list" where
  "key_value_verifier =
     [(4, KStr), (6, KStr)]"

definition key_value_create :: "'t flat_lib \<Rightarrow> key_value_args \<Rightarrow> 't" where
  "key_value_create F args =
     (let builder = fl_start_table F;
          builder = add_field F 6 VStr (kva_value args) builder;
          builder = add_field F 4 VStr (kva_key args) builder in
      builder)"

definition key_value_of_table :: "'t flat_lib \<Rightarrow> 't \<Rightarrow> key_value_args" where
  "key_value_of_table F t =
     \<lparr> kva_key = slot_str F t 4, kva_value = slot_str F t 6 \<rparr>"

record 't applied_manifest_args =
  ama_id :: "string option"
  ama_operation_id :: "string option"
  ama_origin_peer :: "string option"
  ama_owner_pubkey :: "bytes option"
  ama_signature_scheme :: "8 word"
  ama_signature :: "bytes option"
  ama_manifest_json :: "string option"
  ama_manifest_kind :: "string option"
  ama_labels :: "'t list option"
  ama_timestamp :: u64
  ama_operation :: "8 word"
  ama_ttl_secs :: u32
  ama_content_hash :: "string option"

definition applied_manifest_default :: "'t applied_manifest_args" where
  "applied_manifest_default = \<lparr> ama_id = None, ama_operation_id = None, ama_origin_peer = None, ama_owner_pubkey = None,
     ama_signature_scheme = 0, ama_signature = None, ama_manifest_json = None,
     ama_manifest_kind = None, ama_labels = None, ama_timestamp = 0, ama_operation = 0,
     ama_ttl_secs = 0, ama_content_hash = None \<rparr>"

definition applied_manifest_verifier :: "(nat \<times> fb_kind) list" where
  "applied_manifest_verifier =
     [(4, KStr), (6, KStr), (8, KStr), (10, KBytes), (12, KI8), (14, KBytes), (16, KStr),
      (18, KStr), (20, KTables key_value_verifier), (22, KU64), (24, KI8), (26, KU32), (28, KStr)]"

definition applied_manifest_create :: "'t flat_lib \<Rightarrow> 't applied_manifest_args \<Rightarrow> 't" where
  "applied_manifest_create F args =
     (let builder = fl_start_table F;
          builder = fl_push_slot F 22 (VU64 (ama_timestamp args)) (VU64 0) builder;
          builder = add_field F 28 VStr (ama_content_hash args) builder;
          builder = fl_push_slot F 26 (VU32 (ama_ttl_secs args)) (VU32 0) builder;
          builder = add_field F 20 VTables (ama_labels args) builder;
          builder = add_field F 18 VStr (ama_manifest_kind args) builder;
          builder = add_field F 16 VStr (ama_manifest_json args) builder;
          builder = add_field F 14 VBytes (ama_signature args) builder;
          builder = add_field F 10 VBytes (ama_owner_pubkey args) builder;
          builder = add_field F 8 VStr (ama_origin_peer args) builder;
          builder = add_field F 6 VStr (ama_operation_id args) builder;
          builder = add_field F 4 VStr (ama_id args) builder;
          builder = fl_push_slot F 24 (VI8 (ama_operation args)) (VI8 0) builder;
          builder = fl_push_slot F 12 (VI8 (ama_signature_scheme args)) (VI8 0) builder in
      builder)"

definition applied_manifest_of_table :: "'t flat_lib \<Rightarrow> 't \<Rightarrow> 't applied_manifest_args" where
  "applied_manifest_of_table F t =
     \<lparr> ama_id = slot_str F t 4, ama_operation_id = slot_str F t 6, ama_origin_peer = slot_str F t 8,
       ama_owner_pubkey = slot_bytes F t 10, ama_signature_scheme = slot_i8 F t 12 0,
       ama_signature = slot_bytes F t 14, ama_manifest_json = slot_str F t 16,
       ama_manifest_kind = slot_str F t 18, ama_labels = slot_tables F t 20,
       ama_timestamp = slot_u64 F t 22 0, ama_operation = slot_i8 F t 24 0,
       ama_ttl_secs = slot_u32 F t 26 0, ama_content_hash = slot_str F t 28 \<rparr>"

definition root_as_applied_manifest :: "'t flat_lib \<Rightarrow> bytes \<Rightarrow> 't applied_manifest_args option" where
  "root_as_applied_manifest F buf = map_option (applied_manifest_of_table F) (fl_root F applied_manifest_verifier buf)"

section \<open>What is written can be read\<close>

lemma health_created: "flat_laws F \<Longrightarrow> health_of_table F (health_create F a) = a"
  by (simp add: health_create_def health_of_table_def field_readers flat_get split: option.split)

lemma health_create_ok: "flat_laws F \<Longrightarrow> table_ok F health_verifier (health_create F a)"
  by (simp add: health_verifier_def health_create_def flat_get split: option.split)

lemma health_visits: "(\<And>slot d. slot \<in> fst ` set health_verifier \<Longrightarrow> fl_get F t' slot d = fl_get F t slot d) \<Longrightarrow>
    health_of_table F t' = health_of_table F t"
  by (simp add: health_of_table_def field_readers health_verifier_def)

lemma health_read_back:
  assumes "flat_laws F"
  shows "root_as_health F (fl_finish F (health_create F a)) = Some a"
  unfolding root_as_health_def by (rule flat_root [where read = "health_of_table F",
      OF assms health_create_ok [OF assms] health_visits health_created [OF assms]])

lemma envelope_created: "flat_laws F \<Longrightarrow> envelope_of_table F (envelope_create F a) = a"
  by (simp add: envelope_create_def envelope_of_table_def field_readers flat_get split: option.split)

lemma envelope_create_ok: "flat_laws F \<Longrightarrow> table_ok F envelope_verifier (envelope_create F a)"
  by (simp add: envelope_verifier_def envelope_create_def flat_get split: option.split)

lemma envelope_visits: "(\<And>slot d. slot \<in> fst ` set envelope_verifier \<Longrightarrow> fl_get F t' slot d = fl_get F t slot d) \<Longrightarrow>
    envelope_of_table F t' = envelope_of_table F t"
  by (simp add: envelope_of_table_def field_readers envelope_verifier_def)

lemma envelope_read_back:
  assumes "flat_laws F"
  shows "root_as_envelope F (fl_finish F (envelope_create F a)) = Some a"
  unfolding root_as_envelope_def by (rule flat_root [where read = "envelope_of_table F",
      OF assms envelope_create_ok [OF assms] envelope_visits envelope_created [OF assms]])

lemma handshake_created: "flat_laws F \<Longrightarrow> handshake_of_table F (handshake_create F a) = a"
  by (simp add: handshake_create_def handshake_of_table_def field_readers flat_get split: option.split)

lemma handshake_create_ok: "flat_laws F \<Longrightarrow> table_ok F handshake_verifier (handshake_create F a)"
  by (simp add: handshake_verifier_def handshake_create_def flat_get split: option.split)

lemma handshake_visits: "(\<And>slot d. slot \<in> fst ` set handshake_verifier \<Longrightarrow> fl_get F t' slot d = fl_get F t slot d) \<Longrightarrow>
    handshake_of_table F t' = handshake_of_table F t"
  by (simp add: handshake_of_table_def field_readers handshake_verifier_def)

lemma handshake_read_back:
  assumes "flat_laws F"
  shows "root_as_handshake F (fl_finish F (handshake_create F a)) = Some a"
  unfolding root_as_handshake_def by (rule flat_root [where read = "handshake_of_table F",
      OF assms handshake_create_ok [OF assms] handshake_visits handshake_created [OF assms]])

lemma capacity_request_created: "flat_laws F \<Longrightarrow> capacity_request_of_table F (capacity_request_create F a) = a"
  by (simp add: capacity_request_create_def capacity_request_of_table_def field_readers flat_get split: option.split)

lemma capacity_request_create_ok: "flat_laws F \<Longrightarrow> table_ok F capacity_request_verifier (capacity_request_create F a)"
  by (simp add: capacity_request_verifier_def capacity_request_create_def flat_get split: option.split)

lemma capacity_request_visits: "(\<And>slot d. slot \<in> fst ` set capacity_request_verifier \<Longrightarrow> fl_get F t' slot d = fl_get F t slot d) \<Longrightarrow>
    capacity_request_of_table F t' = capacity_request_of_table F t"
  by (simp add: capacity_request_of_table_def field_readers capacity_request_verifier_def)

lemma capacity_request_read_back:
  assumes "flat_laws F"
  shows "root_as_capacity_request F (fl_finish F (capacity_request_create F a)) = Some a"
  unfolding root_as_capacity_request_def by (rule flat_root [where read = "capacity_request_of_table F",
      OF assms capacity_request_create_ok [OF assms] capacity_request_visits capacity_request_created [OF assms]])

lemma capacity_reply_created: "flat_laws F \<Longrightarrow> capacity_reply_of_table F (capacity_reply_create F a) = a"
  by (simp add: capacity_reply_create_def capacity_reply_of_table_def field_readers flat_get split: option.split)

lemma capacity_reply_create_ok: "flat_laws F \<Longrightarrow> table_ok F capacity_reply_verifier (capacity_reply_create F a)"
  by (simp add: capacity_reply_verifier_def capacity_reply_create_def flat_get split: option.split)

lemma capacity_reply_visits: "(\<And>slot d. slot \<in> fst ` set capacity_reply_verifier \<Longrightarrow> fl_get F t' slot d = fl_get F t slot d) \<Longrightarrow>
    capacity_reply_of_table F t' = capacity_reply_of_table F t"
  by (simp add: capacity_reply_of_table_def field_readers capacity_reply_verifier_def)

lemma capacity_reply_read_back:
  assumes "flat_laws F"
  shows "root_as_capacity_reply F (fl_finish F (capacity_reply_create F a)) = Some a"
  unfolding root_as_capacity_reply_def by (rule flat_root [where read = "capacity_reply_of_table F",
      OF assms capacity_reply_create_ok [OF assms] capacity_reply_visits capacity_reply_created [OF assms]])

lemma apply_request_created: "flat_laws F \<Longrightarrow> apply_request_of_table F (apply_request_create F a) = a"
  by (simp add: apply_request_create_def apply_request_of_table_def field_readers flat_get split: option.split)

lemma apply_request_create_ok: "flat_laws F \<Longrightarrow> table_ok F apply_request_verifier (apply_request_create F a)"
  by (simp add: apply_request_verifier_def apply_request_create_def flat_get split: option.split)

lemma apply_request_visits: "(\<And>slot d. slot \<in> fst ` set apply_request_verifier \<Longrightarrow> fl_get F t' slot d = fl_get F t slot d) \<Longrightarrow>
    apply_request_of_table F t' = apply_request_of_table F t"
  by (simp add: apply_request_of_table_def field_readers apply_request_verifier_def)

lemma apply_request_read_back:
  assumes "flat_laws F"
  shows "root_as_apply_request F (fl_finish F (apply_request_create F a)) = Some a"
  unfolding root_as_apply_request_def by (rule flat_root [where read = "apply_request_of_table F",
      OF assms apply_request_create_ok [OF assms] apply_request_visits apply_request_created [OF assms]])

lemma apply_response_created: "flat_laws F \<Longrightarrow> apply_response_of_table F (apply_response_create F a) = a"
  by (simp add: apply_response_create_def apply_response_of_table_def field_readers flat_get split: option.split)

lemma apply_response_create_ok: "flat_laws F \<Longrightarrow> table_ok F apply_response_verifier (apply_response_create F a)"
  by (simp add: apply_response_verifier_def apply_response_create_def flat_get split: option.split)

lemma apply_response_visits: "(\<And>slot d. slot \<in> fst ` set apply_response_verifier \<Longrightarrow> fl_get F t' slot d = fl_get F t slot d) \<Longrightarrow>
    apply_response_of_table F t' = apply_response_of_table F t"
  by (simp add: apply_response_of_table_def field_readers apply_response_verifier_def)

lemma apply_response_read_back:
  assumes "flat_laws F"
  shows "root_as_apply_response F (fl_finish F (apply_response_create F a)) = Some a"
  unfolding root_as_apply_response_def by (rule flat_root [where read = "apply_response_of_table F",
      OF assms apply_response_create_ok [OF assms] apply_response_visits apply_response_created [OF assms]])

lemma delete_request_created: "flat_laws F \<Longrightarrow> delete_request_of_table F (delete_request_create F a) = a"
  by (simp add: delete_request_create_def delete_request_of_table_def field_readers flat_get split: option.split)

lemma delete_request_create_ok: "flat_laws F \<Longrightarrow> table_ok F delete_request_verifier (delete_request_create F a)"
  by (simp add: delete_request_verifier_def delete_request_create_def flat_get split: option.split)

lemma delete_request_visits: "(\<And>slot d. slot \<in> fst ` set delete_request_verifier \<Longrightarrow> fl_get F t' slot d = fl_get F t slot d) \<Longrightarrow>
    delete_request_of_table F t' = delete_request_of_table F t"
  by (simp add: delete_request_of_table_def field_readers delete_request_verifier_def)

lemma delete_request_read_back:
  assumes "flat_laws F"
  shows "root_as_delete_request F (fl_finish F (delete_request_create F a)) = Some a"
  unfolding root_as_delete_request_def by (rule flat_root [where read = "delete_request_of_table F",
      OF assms delete_request_create_ok [OF assms] delete_request_visits delete_request_created [OF assms]])

lemma delete_response_created: "flat_laws F \<Longrightarrow> delete_response_of_table F (delete_response_create F a) = a"
  by (simp add: delete_response_create_def delete_response_of_table_def field_readers flat_get split: option.split)

lemma delete_response_create_ok: "flat_laws F \<Longrightarrow> table_ok F delete_response_verifier (delete_response_create F a)"
  by (simp add: delete_response_verifier_def delete_response_create_def flat_get split: option.split)

lemma delete_response_visits: "(\<And>slot d. slot \<in> fst ` set delete_response_verifier \<Longrightarrow> fl_get F t' slot d = fl_get F t slot d) \<Longrightarrow>
    delete_response_of_table F t' = delete_response_of_table F t"
  by (simp add: delete_response_of_table_def field_readers delete_response_verifier_def)

lemma delete_response_read_back:
  assumes "flat_laws F"
  shows "root_as_delete_response F (fl_finish F (delete_response_create F a)) = Some a"
  unfolding root_as_delete_response_def by (rule flat_root [where read = "delete_response_of_table F",
      OF assms delete_response_create_ok [OF assms] delete_response_visits delete_response_created [OF assms]])

lemma nodes_response_created: "flat_laws F \<Longrightarrow> nodes_response_of_table F (nodes_response_create F a) = a"
  by (simp add: nodes_response_create_def nodes_response_of_table_def field_readers flat_get split: option.split)

lemma nodes_response_create_ok: "flat_laws F \<Longrightarrow> table_ok F nodes_response_verifier (nodes_response_create F a)"
  by (simp add: nodes_response_verifier_def nodes_response_create_def flat_get split: option.split)

lemma nodes_response_visits: "(\<And>slot d. slot \<in> fst ` set nodes_response_verifier \<Longrightarrow> fl_get F t' slot d = fl_get F t slot d) \<Longrightarrow>
    nodes_response_of_table F t' = nodes_response_of_table F t"
  by (simp add: nodes_response_of_table_def field_readers nodes_response_verifier_def)

lemma nodes_response_read_back:
  assumes "flat_laws F"
  shows "root_as_nodes_response F (fl_finish F (nodes_response_create F a)) = Some a"
  unfolding root_as_nodes_response_def by (rule flat_root [where read = "nodes_response_of_table F",
      OF assms nodes_response_create_ok [OF assms] nodes_response_visits nodes_response_created [OF assms]])

lemma candidate_node_created: "flat_laws F \<Longrightarrow> candidate_node_of_table F (candidate_node_create F a) = a"
  by (simp add: candidate_node_create_def candidate_node_of_table_def field_readers flat_get split: option.split)

lemma candidate_node_create_ok: "flat_laws F \<Longrightarrow> table_ok F candidate_node_verifier (candidate_node_create F a)"
  by (simp add: candidate_node_verifier_def candidate_node_create_def flat_get split: option.split)

lemma candidates_response_created: "flat_laws F \<Longrightarrow> candidates_response_of_table F (candidates_response_create F a) = a"
  by (simp add: candidates_response_create_def candidates_response_of_table_def field_readers flat_get split: option.split)

lemma candidates_response_create_ok:
  assumes "flat_laws F" "\<And>ts. cra_candidates a = Some ts \<Longrightarrow> list_all (table_ok F candidate_node_verifier) ts"
  shows "table_ok F candidates_response_verifier (candidates_response_create F a)"
  using assms(2) by (simp add: candidates_response_verifier_def candidates_response_create_def flat_get [OF assms(1)] split: option.split)

lemma candidates_response_visits: "(\<And>slot d. slot \<in> fst ` set candidates_response_verifier \<Longrightarrow> fl_get F t' slot d = fl_get F t slot d) \<Longrightarrow>
    candidates_response_of_table F t' = candidates_response_of_table F t"
  by (simp add: candidates_response_of_table_def field_readers candidates_response_verifier_def)

lemma candidates_response_read_back:
  assumes "flat_laws F" "\<And>ts. cra_candidates a = Some ts \<Longrightarrow> list_all (table_ok F candidate_node_verifier) ts"
  shows "root_as_candidates_response F (fl_finish F (candidates_response_create F a)) = Some a"
  unfolding root_as_candidates_response_def by (rule flat_root [where read = "candidates_response_of_table F",
      OF assms(1) candidates_response_create_ok [OF assms] candidates_response_visits candidates_response_created [OF assms(1)]])

lemma task_create_response_created: "flat_laws F \<Longrightarrow> task_create_response_of_table F (task_create_response_create F a) = a"
  by (simp add: task_create_response_create_def task_create_response_of_table_def field_readers flat_get split: option.split)

lemma task_create_response_create_ok: "flat_laws F \<Longrightarrow> table_ok F task_create_response_verifier (task_create_response_create F a)"
  by (simp add: task_create_response_verifier_def task_create_response_create_def flat_get split: option.split)

lemma task_create_response_visits: "(\<And>slot d. slot \<in> fst ` set task_create_response_verifier \<Longrightarrow> fl_get F t' slot d = fl_get F t slot d) \<Longrightarrow>
    task_create_response_of_table F t' = task_create_response_of_table F t"
  by (simp add: task_create_response_of_table_def field_readers task_create_response_verifier_def)

lemma task_create_response_read_back:
  assumes "flat_laws F"
  shows "root_as_task_create_response F (fl_finish F (task_create_response_create F a)) = Some a"
  unfolding root_as_task_create_response_def by (rule flat_root [where read = "task_create_response_of_table F",
      OF assms task_create_response_create_ok [OF assms] task_create_response_visits task_create_response_created [OF assms]])

lemma task_status_response_created: "flat_laws F \<Longrightarrow> task_status_response_of_table F (task_status_response_create F a) = a"
  by (simp add: task_status_response_create_def task_status_response_of_table_def field_readers flat_get split: option.split)

lemma task_status_response_create_ok: "flat_laws F \<Longrightarrow> table_ok F task_status_response_verifier (task_status_response_create F a)"
  by (simp add: task_status_response_verifier_def task_status_response_create_def flat_get split: option.split)

lemma task_status_response_visits: "(\<And>slot d. slot \<in> fst ` set task_status_response_verifier \<Longrightarrow> fl_get F t' slot d = fl_get F t slot d) \<Longrightarrow>
    task_status_response_of_table F t' = task_status_response_of_table F t"
  by (simp add: task_status_response_of_table_def field_readers task_status_response_verifier_def)

lemma task_status_response_read_back:
  assumes "flat_laws F"
  shows "root_as_task_status_response F (fl_finish F (task_status_response_create F a)) = Some a"
  unfolding root_as_task_status_response_def by (rule flat_root [where read = "task_status_response_of_table F",
      OF assms task_status_response_create_ok [OF assms] task_status_response_visits task_status_response_created [OF assms]])

lemma assign_request_created: "flat_laws F \<Longrightarrow> assign_request_of_table F (assign_request_create F a) = a"
  by (simp add: assign_request_create_def assign_request_of_table_def field_readers flat_get split: option.split)

lemma assign_request_create_ok: "flat_laws F \<Longrightarrow> table_ok F assign_request_verifier (assign_request_create F a)"
  by (simp add: assign_request_verifier_def assign_request_create_def flat_get split: option.split)

lemma assign_request_visits: "(\<And>slot d. slot \<in> fst ` set assign_request_verifier \<Longrightarrow> fl_get F t' slot d = fl_get F t slot d) \<Longrightarrow>
    assign_request_of_table F t' = assign_request_of_table F t"
  by (simp add: assign_request_of_table_def field_readers assign_request_verifier_def)

lemma assign_request_read_back:
  assumes "flat_laws F"
  shows "root_as_assign_request F (fl_finish F (assign_request_create F a)) = Some a"
  unfolding root_as_assign_request_def by (rule flat_root [where read = "assign_request_of_table F",
      OF assms assign_request_create_ok [OF assms] assign_request_visits assign_request_created [OF assms]])

lemma assign_response_created: "flat_laws F \<Longrightarrow> assign_response_of_table F (assign_response_create F a) = a"
  by (simp add: assign_response_create_def assign_response_of_table_def field_readers flat_get split: option.split)

lemma assign_response_create_ok: "flat_laws F \<Longrightarrow> table_ok F assign_response_verifier (assign_response_create F a)"
  by (simp add: assign_response_verifier_def assign_response_create_def flat_get split: option.split)

lemma assign_response_visits: "(\<And>slot d. slot \<in> fst ` set assign_response_verifier \<Longrightarrow> fl_get F t' slot d = fl_get F t slot d) \<Longrightarrow>
    assign_response_of_table F t' = assign_response_of_table F t"
  by (simp add: assign_response_of_table_def field_readers assign_response_verifier_def)

lemma assign_response_read_back:
  assumes "flat_laws F"
  shows "root_as_assign_response F (fl_finish F (assign_response_create F a)) = Some a"
  unfolding root_as_assign_response_def by (rule flat_root [where read = "assign_response_of_table F",
      OF assms assign_response_create_ok [OF assms] assign_response_visits assign_response_created [OF assms]])

lemma key_value_created: "flat_laws F \<Longrightarrow> key_value_of_table F (key_value_create F a) = a"
  by (simp add: key_value_create_def key_value_of_table_def field_readers flat_get split: option.split)

lemma key_value_create_ok: "flat_laws F \<Longrightarrow> table_ok F key_value_verifier (key_value_create F a)"
  by (simp add: key_value_verifier_def key_value_create_def flat_get split: option.split)

lemma applied_manifest_created: "flat_laws F \<Longrightarrow> applied_manifest_of_table F (applied_manifest_create F a) = a"
  by (simp add: applied_manifest_create_def applied_manifest_of_table_def field_readers flat_get split: option.split)

lemma applied_manifest_create_ok:
  assumes "flat_laws F" "\<And>ts. ama_labels a = Some ts \<Longrightarrow> list_all (table_ok F key_value_verifier) ts"
  shows "table_ok F applied_manifest_verifier (applied_manifest_create F a)"
  using assms(2) by (simp add: applied_manifest_verifier_def applied_manifest_create_def flat_get [OF assms(1)] split: option.split)

lemma applied_manifest_visits: "(\<And>slot d. slot \<in> fst ` set applied_manifest_verifier \<Longrightarrow> fl_get F t' slot d = fl_get F t slot d) \<Longrightarrow>
    applied_manifest_of_table F t' = applied_manifest_of_table F t"
  by (simp add: applied_manifest_of_table_def field_readers applied_manifest_verifier_def)

lemma applied_manifest_read_back:
  assumes "flat_laws F" "\<And>ts. ama_labels a = Some ts \<Longrightarrow> list_all (table_ok F key_value_verifier) ts"
  shows "root_as_applied_manifest F (fl_finish F (applied_manifest_create F a)) = Some a"
  unfolding root_as_applied_manifest_def by (rule flat_root [where read = "applied_manifest_of_table F",
      OF assms(1) applied_manifest_create_ok [OF assms] applied_manifest_visits applied_manifest_created [OF assms(1)]])

end
