(* ===== verification/Wire_Laws.thy ===== *)
theory Wire_Laws
  imports Wire_Messages Handshake
begin

text \<open>
  The messages of the protocol as bytes: the builders of \<open>protocol/src/lib.rs\<close> write tables of the
  generated code, and the handlers read them. With this code in place of the serialisation
  functions that the other theories take as arguments, the laws that those theories ask for hold.
\<close>

section \<open>Builders\<close>

text \<open>\<open>build_capacity_reply\<close> of \<open>protocol/src/lib.rs\<close>.\<close>

definition wire_capacity_reply :: "'t flat_lib \<Rightarrow> capacity_reply \<Rightarrow> bytes" where
  "wire_capacity_reply F r =
     (let p = rp_params r in
      fl_finish F (capacity_reply_create F
        (capacity_reply_default \<lparr> cya_ok := cp_ok p, cya_cpu_available_milli := cp_cpu_milli p,
           cya_memory_available_bytes := cp_memory_bytes p, cya_storage_available_bytes := cp_storage_bytes p,
           cya_request_id := Some (cp_request_id p), cya_node_id := Some (cp_responder_peer p),
           cya_region := Some (cp_region p), cya_kem_pubkey := rp_kem_pub_b64 r,
           cya_capabilities := Some (cp_capabilities p) \<rparr>)))"

text \<open>The two fields that the handlers of capacity replies read.\<close>

definition read_capacity_reply :: "'t flat_lib \<Rightarrow> bytes \<Rightarrow> (string option \<times> string option) option" where
  "read_capacity_reply F b = map_option (\<lambda>a. (cya_request_id a, cya_kem_pubkey a)) (root_as_capacity_reply F b)"

text \<open>\<open>build_delete_request\<close>, and the fields that the handler of delete requests reads.\<close>

definition wire_delete_request :: "'t flat_lib \<Rightarrow> string \<Rightarrow> string \<Rightarrow> string \<Rightarrow> bool \<Rightarrow> bytes" where
  "wire_delete_request F manifest_id operation_id origin_peer force =
     fl_finish F (delete_request_create F
       (delete_request_default \<lparr> dqa_manifest_id := Some manifest_id, dqa_operation_id := Some operation_id,
          dqa_origin_peer := Some origin_peer, dqa_force := force \<rparr>))"

definition read_delete_request :: "'t flat_lib \<Rightarrow> bytes \<Rightarrow> delete_request option" where
  "read_delete_request F b =
     map_option (\<lambda>a. \<lparr> del_manifest_id = dqa_manifest_id a, del_operation_id = dqa_operation_id a, del_force = dqa_force a \<rparr>)
       (root_as_delete_request F b)"

definition wire_delete_response :: "'t flat_lib \<Rightarrow> delete_response \<Rightarrow> bytes" where
  "wire_delete_response F r =
     fl_finish F (delete_response_create F
       (delete_response_default \<lparr> dra_ok := dresp_ok r, dra_operation_id := Some (dresp_operation_id r),
          dra_message := Some (dresp_message r), dra_manifest_id := Some (dresp_manifest_id r),
          dra_removed_workloads := Some (dresp_removed_workloads r) \<rparr>))"

definition wire_apply_response :: "'t flat_lib \<Rightarrow> apply_response \<Rightarrow> bytes" where
  "wire_apply_response F r =
     fl_finish F (apply_response_create F
       (apply_response_default \<lparr> ara_ok := aresp_ok r, ara_operation_id := Some (aresp_operation_id r),
          ara_message := Some (aresp_message r) \<rparr>))"

text \<open>Each candidate is a nested table, written before the vector that holds it.\<close>

definition wire_candidates :: "'t flat_lib \<Rightarrow> bool \<Rightarrow> (string \<times> string) list \<Rightarrow> bytes" where
  "wire_candidates F ok candidates =
     fl_finish F (candidates_response_create F
       (candidates_response_default \<lparr> cra_ok := ok, cra_candidates := Some (map (\<lambda>(peer_id, public_key).
          candidate_node_create F (candidate_node_default \<lparr> cna_peer_id := Some peer_id, cna_public_key := Some public_key \<rparr>))
          candidates) \<rparr>))"

definition wire_rest_message :: "'t flat_lib \<Rightarrow> rest_message \<Rightarrow> bytes" where
  "wire_rest_message F m =
     (case m of
        NodesResponse peers \<Rightarrow>
          fl_finish F (nodes_response_create F (nodes_response_default \<lparr> nra_peers := Some peers \<rparr>))
      | CandidatesResponse ok candidates \<Rightarrow> wire_candidates F ok candidates
      | TaskCreateResponse ok task_id manifest_ref selection_window_ms message \<Rightarrow>
          fl_finish F (task_create_response_create F
            (task_create_response_default \<lparr> tca_ok := ok, tca_task_id := Some task_id, tca_manifest_ref := Some manifest_ref,
               tca_selection_window_ms := selection_window_ms, tca_message := Some message \<rparr>))
      | TaskStatusResponse task_id st assigned_peers shares_distributed manifest_cid \<Rightarrow>
          fl_finish F (task_status_response_create F
            (task_status_response_default \<lparr> tsa_task_id := Some task_id, tsa_state := Some st,
               tsa_assigned_peers := Some assigned_peers, tsa_shares_distributed := Some shares_distributed,
               tsa_manifest_cid := manifest_cid \<rparr>))
      | DeleteResponse r \<Rightarrow> wire_delete_response F r
      | ApplyResponse r \<Rightarrow> wire_apply_response F r)"

text \<open>The labels of an applied manifest are nested tables too; the two enumerations are numbers.\<close>

definition wire_applied_manifest :: "'t flat_lib \<Rightarrow> applied_manifest \<Rightarrow> bytes" where
  "wire_applied_manifest F m =
     fl_finish F (applied_manifest_create F
       \<lparr> ama_id = am_id m, ama_operation_id = am_operation_id m, ama_origin_peer = am_origin_peer m,
         ama_owner_pubkey = am_owner_pubkey m, ama_signature_scheme = scheme_number (am_signature_scheme m),
         ama_signature = am_signature m, ama_manifest_json = am_manifest_json m, ama_manifest_kind = am_manifest_kind m,
         ama_labels = map_option (map (\<lambda>(k, v). key_value_create F \<lparr> kva_key = k, kva_value = v \<rparr>)) (am_labels m),
         ama_timestamp = am_timestamp m, ama_operation = operation_number (am_operation m),
         ama_ttl_secs = am_ttl_secs m, ama_content_hash = am_content_hash m \<rparr>)"

definition read_applied_manifest :: "'t flat_lib \<Rightarrow> bytes \<Rightarrow> applied_manifest option" where
  "read_applied_manifest F b =
     map_option (\<lambda>a. \<lparr> am_id = ama_id a, am_operation_id = ama_operation_id a, am_origin_peer = ama_origin_peer a,
         am_owner_pubkey = ama_owner_pubkey a, am_signature_scheme = SignatureScheme (ama_signature_scheme a),
         am_signature = ama_signature a, am_manifest_json = ama_manifest_json a, am_manifest_kind = ama_manifest_kind a,
         am_labels = map_option (map (\<lambda>t. (kva_key (key_value_of_table F t), kva_value (key_value_of_table F t))))
           (ama_labels a),
         am_timestamp = ama_timestamp a, am_operation = OperationType (ama_operation a),
         am_ttl_secs = ama_ttl_secs a, am_content_hash = ama_content_hash a \<rparr>)
       (root_as_applied_manifest F b)"

section \<open>The libraries over the generated code\<close>

definition wire_crypto :: "'t flat_lib \<Rightarrow> crypto_lib \<Rightarrow> crypto_lib" where
  "wire_crypto F L = L \<lparr> fb_finish := \<lambda>e. fl_finish F (envelope_create F e), fb_root_as_envelope := root_as_envelope F \<rparr>"

definition wire_node :: "'t flat_lib \<Rightarrow> node_lib \<Rightarrow> node_lib" where
  "wire_node F N = N \<lparr> nl_crypto := wire_crypto F (nl_crypto N), nl_delete_request := read_delete_request F,
     nl_apply_request := root_as_apply_request F \<rparr>"

definition wire_mesh :: "'t flat_lib \<Rightarrow> mesh_lib \<Rightarrow> mesh_lib" where
  "wire_mesh F X = X \<lparr> xl_node := wire_node F (xl_node X),
     xl_handshake := \<lambda>h. fl_finish F (handshake_create F h), xl_root_as_handshake := root_as_handshake F,
     xl_capacity_request := \<lambda>q. fl_finish F (capacity_request_create F q),
     xl_capacity_reply := wire_capacity_reply F, xl_root_as_capacity_request := root_as_capacity_request F,
     xl_root_as_capacity_reply := read_capacity_reply F \<rparr>"

section \<open>Reading back\<close>

lemma wire_candidates_read:
  assumes "flat_laws F"
  shows "\<exists>ts. root_as_candidates_response F (wire_candidates F ok candidates) = Some \<lparr> cra_ok = ok, cra_candidates = Some ts \<rparr>
    \<and> map (candidate_node_of_table F) ts = map (\<lambda>(p, k). \<lparr> cna_peer_id = Some p, cna_public_key = Some k \<rparr>) candidates"
proof -
  let ?ts = "map (\<lambda>(p, k). candidate_node_create F \<lparr> cna_peer_id = Some p, cna_public_key = Some k \<rparr>) candidates"
  have "list_all (table_ok F candidate_node_verifier) ?ts"
    by (auto simp: list_all_iff candidate_node_create_ok [OF assms])
  then have "root_as_candidates_response F (fl_finish F (candidates_response_create F
      \<lparr> cra_ok = ok, cra_candidates = Some ?ts \<rparr>)) = Some \<lparr> cra_ok = ok, cra_candidates = Some ?ts \<rparr>"
    by (intro candidates_response_read_back [OF assms]) simp
  then show ?thesis
    by (intro exI [of _ ?ts])
      (auto simp: wire_candidates_def candidates_response_default_def candidate_node_default_def
        candidate_node_created [OF assms] comp_def split: prod.split intro!: arg_cong2 [where f = map])
qed

lemma capacity_reply_fields:
  assumes "flat_laws F"
  shows "read_capacity_reply F (wire_capacity_reply F r) = Some (Some (cp_request_id (rp_params r)), rp_kem_pub_b64 r)"
  by (simp add: read_capacity_reply_def wire_capacity_reply_def capacity_reply_read_back [OF assms] Let_def
      capacity_reply_default_def)

lemma delete_request_fields:
  assumes "flat_laws F"
  shows "read_delete_request F (wire_delete_request F m op origin force)
    = Some \<lparr> del_manifest_id = Some m, del_operation_id = Some op, del_force = force \<rparr>"
  by (simp add: read_delete_request_def wire_delete_request_def delete_request_read_back [OF assms] delete_request_default_def)

lemma wire_crypto_laws:
  assumes "flat_laws F" "pqc_init_ok L" "\<forall>b. b64_decode L (b64_encode L b) = Some b"
  shows "crypto_laws (wire_crypto F L)"
  by (simp add: crypto_laws_def wire_crypto_def envelope_read_back [OF assms(1)] assms(2,3))

lemma applied_manifest_fields:
  assumes "flat_laws F"
  shows "read_applied_manifest F (wire_applied_manifest F m) = Some m"
proof -
  have "list_all (table_ok F key_value_verifier) (map (\<lambda>(k, v). key_value_create F \<lparr> kva_key = k, kva_value = v \<rparr>) ls)" for ls
    by (auto simp: list_all_iff key_value_create_ok [OF assms])
  then show ?thesis
    unfolding read_applied_manifest_def wire_applied_manifest_def
    by (subst applied_manifest_read_back [OF assms])
      (auto simp: key_value_created [OF assms] option.map_comp comp_def case_prod_unfold option.map_ident)
qed

text \<open>A field that was not written reads as the default of the arguments.\<close>

lemma absent_fields:
  assumes "flat_laws F"
  shows "health_of_table F (fl_start_table F) = health_default"
    and "envelope_of_table F (fl_start_table F) = envelope_default"
    and "handshake_of_table F (fl_start_table F) = handshake_default"
    and "capacity_request_of_table F (fl_start_table F) = capacity_request_default"
    and "capacity_reply_of_table F (fl_start_table F) = capacity_reply_default"
    and "apply_request_of_table F (fl_start_table F) = apply_request_default"
    and "apply_response_of_table F (fl_start_table F) = apply_response_default"
    and "delete_request_of_table F (fl_start_table F) = delete_request_default"
    and "delete_response_of_table F (fl_start_table F) = delete_response_default"
    and "nodes_response_of_table F (fl_start_table F) = nodes_response_default"
    and "candidate_node_of_table F (fl_start_table F) = candidate_node_default"
    and "candidates_response_of_table F (fl_start_table F) = candidates_response_default"
    and "task_create_response_of_table F (fl_start_table F) = task_create_response_default"
    and "task_status_response_of_table F (fl_start_table F) = task_status_response_default"
    and "assign_request_of_table F (fl_start_table F) = assign_request_default"
    and "assign_response_of_table F (fl_start_table F) = assign_response_default"
    and "key_value_of_table F (fl_start_table F) = key_value_default"
    and "applied_manifest_of_table F (fl_start_table F) = applied_manifest_default"
  by (simp_all add: field_readers flat_lawsD(1) [OF assms]
      health_of_table_def health_default_def envelope_of_table_def envelope_default_def handshake_of_table_def handshake_default_def capacity_request_of_table_def capacity_request_default_def capacity_reply_of_table_def capacity_reply_default_def apply_request_of_table_def apply_request_default_def apply_response_of_table_def apply_response_default_def delete_request_of_table_def delete_request_default_def delete_response_of_table_def delete_response_default_def nodes_response_of_table_def nodes_response_default_def candidate_node_of_table_def candidate_node_default_def candidates_response_of_table_def candidates_response_default_def task_create_response_of_table_def task_create_response_default_def task_status_response_of_table_def task_status_response_default_def assign_request_of_table_def assign_request_default_def assign_response_of_table_def assign_response_default_def key_value_of_table_def key_value_default_def applied_manifest_of_table_def applied_manifest_default_def)

section \<open>Properties\<close>

text \<open>
  (C23) The generated code meets the laws that the other theories ask of serialisation, for every
  FlatBuffers library that keeps its slots: envelopes and handshakes read back as they were
  written, capacity requests and apply requests too, and the handlers of capacity replies and delete
  requests find in the bytes the fields that the builders were given. An applied manifest reads back
  with its nested labels. No two fields of a table share
  a slot, and writer and reader agree on every default.
\<close>

theorem generated_code_meets_laws:
  fixes X :: mesh_lib
  assumes "flat_laws F" "pqc_init_ok (nl_crypto (xl_node X))"
    and "\<forall>b. b64_decode (nl_crypto (xl_node X)) (b64_encode (nl_crypto (xl_node X)) b) = Some b"
  shows "handshake_laws (wire_mesh F X)
    \<and> xl_root_as_capacity_request (wire_mesh F X) (xl_capacity_request (wire_mesh F X) q) = Some q
    \<and> xl_root_as_capacity_reply (wire_mesh F X) (xl_capacity_reply (wire_mesh F X) r)
        = Some (Some (cp_request_id (rp_params r)), rp_kem_pub_b64 r)
    \<and> nl_delete_request (xl_node (wire_mesh F X)) (wire_delete_request F m op origin force)
        = Some \<lparr> del_manifest_id = Some m, del_operation_id = Some op, del_force = force \<rparr>
    \<and> nl_apply_request (xl_node (wire_mesh F X)) (fl_finish F (apply_request_create F a)) = Some a
    \<and> read_applied_manifest F (wire_applied_manifest F am) = Some am"
  by (simp add: wire_mesh_def wire_node_def handshake_laws_def wire_crypto_laws [OF assms] capacity_reply_fields [OF assms(1)]
      delete_request_fields [OF assms(1)] capacity_request_read_back [OF assms(1)] handshake_read_back [OF assms(1)]
      apply_request_read_back [OF assms(1)] applied_manifest_fields [OF assms(1)])

text \<open>
  (C24) What the REST API answers with can be read by its clients: the fields of each answer are in
  the bytes as they were given, nested candidates in their order.
\<close>

theorem rest_messages_read_back:
  assumes "flat_laws F"
  shows "root_as_nodes_response F (wire_rest_message F (build_nodes_response peers)) = Some \<lparr> nra_peers = Some peers \<rparr>
    \<and> (\<exists>ts. root_as_candidates_response F (wire_rest_message F (build_candidates_response_with_keys ok candidates))
            = Some \<lparr> cra_ok = ok, cra_candidates = Some ts \<rparr>
          \<and> map (candidate_node_of_table F) ts = map (\<lambda>(p, k). \<lparr> cna_peer_id = Some p, cna_public_key = Some k \<rparr>) candidates)
    \<and> root_as_task_create_response F (wire_rest_message F (build_task_create_response ok task_id manifest_id window))
        = Some \<lparr> tca_ok = ok, tca_task_id = Some task_id, tca_manifest_ref = Some manifest_id,
                 tca_selection_window_ms = window, tca_message = Some ''task created'' \<rparr>
    \<and> root_as_task_status_response F (wire_rest_message F (build_task_status_response task_id st assigned shares cid))
        = Some \<lparr> tsa_task_id = Some task_id, tsa_state = Some st, tsa_assigned_peers = Some assigned,
                 tsa_shares_distributed = Some shares, tsa_manifest_cid = cid \<rparr>
    \<and> root_as_delete_response F (wire_rest_message F (DeleteResponse d))
        = Some \<lparr> dra_ok = dresp_ok d, dra_operation_id = Some (dresp_operation_id d), dra_message = Some (dresp_message d),
                 dra_manifest_id = Some (dresp_manifest_id d), dra_removed_workloads = Some (dresp_removed_workloads d) \<rparr>
    \<and> root_as_apply_response F (wire_rest_message F (ApplyResponse a))
        = Some \<lparr> ara_ok = aresp_ok a, ara_operation_id = Some (aresp_operation_id a), ara_message = Some (aresp_message a) \<rparr>"
  using wire_candidates_read [OF assms, of ok candidates]
  by (simp add: wire_rest_message_def build_nodes_response_def build_candidates_response_with_keys_def
      build_task_create_response_def build_task_status_response_def wire_delete_response_def wire_apply_response_def
      nodes_response_read_back [OF assms] task_create_response_read_back [OF assms] task_status_response_read_back [OF assms]
      delete_response_read_back [OF assms] apply_response_read_back [OF assms] nodes_response_default_def
      task_create_response_default_def task_status_response_default_def delete_response_default_def apply_response_default_def)

end
