(* ===== verification/Workload_Lifecycle.thy ===== *)
theory Workload_Lifecycle
  imports Wire_Laws Node_Runs
begin

text \<open>
  Two nodes and the messages between them, as bytes: a node bids for a manifest, other events
  follow, and the node that asked sends its apply request through the control interface. The bid is
  kept, and the request deploys the manifest. A delete request that goes the same way does not
  arrive: it is sent without a signature.
\<close>

section \<open>A reservation through a run\<close>

definition held :: "instant \<Rightarrow> string \<Rightarrow> resource_verifier \<Rightarrow> bool" where
  "held until m v \<longleftrightarrow> hm_wf (reservations v) \<and>
     (\<exists>k r. hm_get (reservations v) k = Some r \<and> extract_manifest_id_from_request_id k = Some m
        \<and> cr_manifest_id r = Some m \<and> until \<le> cr_expires_at r)"

text \<open>The readings of the clock in an event: after the bid and before it ends.\<close>

fun during :: "instant \<Rightarrow> mesh_event \<Rightarrow> bool" where
  "during start (LoopEvent E ev) \<longleftrightarrow> start \<le> ce_reserve (nv_capacity E)
     \<and> ce_check (nv_capacity E) < start + reservation_hold_duration
     \<and> ce_prune (nv_capacity E) < start + reservation_hold_duration
     \<and> nv_clock E 1 < start + reservation_hold_duration"
| "during start (ApplyBegun E peer request) \<longleftrightarrow> start \<le> ce_reserve (nv_capacity E)
     \<and> ce_check (nv_capacity E) < start + reservation_hold_duration
     \<and> ce_prune (nv_capacity E) < start + reservation_hold_duration
     \<and> nv_clock E 1 < start + reservation_hold_duration"
| "during start _ \<longleftrightarrow> True"

lemma held_prune: "held until m v \<Longrightarrow> t < until \<Longrightarrow> held until m (prune_expired_reservations t v)"
  unfolding held_def prune_expired_reservations_def by (auto simp: hmi.get_retain_Some) fastforce

lemma held_reserve:
  assumes "held until m v" "t1 < until" "until \<le> t2 + reservation_hold_duration"
    and "extract_manifest_id_from_request_id k = Some m'"
  shows "held until m (fst (reserve_capacity prof t1 t2 k (Some m') q v))"
proof -
  let ?v = "prune_expired_reservations t1 v"
  obtain k0 r where r: "hm_wf (reservations ?v)" "hm_get (reservations ?v) k0 = Some r"
      "extract_manifest_id_from_request_id k0 = Some m" "cr_manifest_id r = Some m" "until \<le> cr_expires_at r"
    using held_prune [OF assms(1,2)] unfolding held_def by blast
  have ins: "held until m (?v \<lparr> reservations := hm_insert k r' (reservations ?v) \<rparr>)"
    if "k = k0 \<Longrightarrow> cr_manifest_id r' = Some m' \<and> until \<le> cr_expires_at r'" for r'
    using r that assms(4) unfolding held_def by (cases "k = k0") (auto intro: exI [of _ k0])
  have same: "held until m ?v" using r unfolding held_def by blast
  show ?thesis
    using ins same assms(3)
    by (auto simp: reserve_capacity_def reserve_begin_def reserve_commit_def Let_def refresh_reservation_def
        split: option.split reserve_phase.split)
qed

lemma held_ledger_op:
  assumes "held (start + reservation_hold_duration) m v" "ledger_op_of ev op" "during start ev"
  shows "held (start + reservation_hold_duration) m (ledger_step prof op v)"
proof (cases ev)
  case (LoopEvent E lev)
  then show ?thesis
    using assms by (cases op) (auto intro!: held_prune held_reserve)
next
  case (ApplyBegun E p b)
  then show ?thesis
    using assms by (cases op) (auto intro!: held_prune held_reserve)
qed (use assms(2) in simp_all)

lemma held_step:
  assumes "mesh_step X ev s s'" "during start ev"
    and "held (start + reservation_hold_duration) m (resource_verifier_of (mn_node s))"
  shows "held (start + reservation_hold_duration) m (resource_verifier_of (mn_node s'))"
proof -
  obtain prof where "has_profile prof ev" by (cases ev) auto
  then obtain ops where ops: "list_all (ledger_op_of ev) ops"
      "resource_verifier_of (mn_node s') = fold (ledger_step prof) ops (resource_verifier_of (mn_node s))"
    using ledger_step_of_event [OF assms(1)] by blast
  have "held (start + reservation_hold_duration) m (fold (ledger_step prof) ops v)"
    if "held (start + reservation_hold_duration) m v" for v
    using ops(1) that by (induction ops arbitrary: v) (auto intro: held_ledger_op assms(2))
  then show ?thesis using assms(3) ops(2) by simp
qed

lemma held_run:
  assumes "mesh_run X s0 evs s" "\<forall>ev \<in> set evs. during start ev"
    and "held (start + reservation_hold_duration) m (resource_verifier_of (mn_node s0))"
  shows "held (start + reservation_hold_duration) m (resource_verifier_of (mn_node s))"
  using assms by (induction) (auto intro: held_step)

lemma held_active: "held until m v \<Longrightarrow> t < until \<Longrightarrow> snd (has_active_reservation_for_manifest t m v)"
  unfolding held_def using entry_active by (metis order_less_le_trans)

lemma bid_holds:
  assumes "scheduler_request L root env peer req n = (n', Some rep)" "hm_wf (reservations (cn_verifier n))"
  shows "\<exists>m. extract_manifest_id_from_request_id (cp_request_id (rp_params rep)) = Some m
    \<and> held (ce_reserve env + reservation_hold_duration) m (cn_verifier n')"
proof -
  obtain k m q vf c where m: "extract_manifest_id_from_request_id k = Some m"
    and c: "check_and_reserve env k m q (cn_verifier n) = (vf, Some c)" and rep: "rep = bid env k c" and n': "cn_verifier n' = vf"
    using assms(1)
    by (auto simp: scheduler_request_def answer_capacity_request_def Let_def split: if_splits prod.splits option.splits)
  have "cp_request_id (rp_params rep) = k"
    by (simp add: rep bid_def compose_capacity_reply_def build_capacity_reply_with_def build_capacity_reply_def
        baseline_capacity_params_def)
  moreover have "held (ce_reserve env + reservation_hold_duration) m (cn_verifier n')"
    using check_and_reserve_Some(1,2) [OF c assms(2)] m unfolding held_def n' by (metis order_refl)
  ultimately show ?thesis using m by blast
qed

lemma scheduler_bid:
  assumes "mn_calls (on_scheduler_message X E p (Request b) s) = mn_calls s @ [RespondCapacity p rep]"
    and "hm_wf (reservations (resource_verifier_of (mn_node s)))"
    and "extract_manifest_id_from_request_id (cp_request_id (rp_params rep)) = Some m"
  shows "held (ce_reserve (nv_capacity E) + reservation_hold_duration) m
     (resource_verifier_of (mn_node (on_scheduler_message X E p (Request b) s)))"
proof -
  obtain c a where sr: "scheduler_request (nl_crypto (xl_node X)) (xl_root_as_capacity_request X) (capacity_env_of E s)
      p b (capacity_view s) = (c, a)" by (rule prod.exhaust)
  then have "a = Some rep"
    using assms(1) by (cases a) (simp_all add: on_scheduler_message_def put_capacity_def call_def)
  then show ?thesis
    using bid_holds [of _ _ _ _ _ "capacity_view s" c rep] sr assms(2,3)
    by (fastforce simp: on_scheduler_message_def put_capacity_def call_def capacity_env_of_def)
qed

lemma extract_not_empty: "extract_manifest_id_from_request_id k = Some m \<Longrightarrow> m \<noteq> []"
  by (auto simp: extract_manifest_id_from_request_id_def Let_def split: list.splits if_splits)

section \<open>A deployment on the mock engine\<close>

lemma selects_mock:
  assumes "runtime_registry_of n = Some reg" "engines reg = [(''mock'', e)]"
    and "Option.bind (ml_yaml_parse L (from_utf8_lossy content)) engine_annotation \<in> {None, Some ''mock''}"
  shows "select_runtime_engine L (mock_ops pj y fmt True now clock) content n = Inr ''mock''"
  using assms by (auto simp: select_runtime_engine_def check_available_engines_def mock_ops_def hm_get_def hm_insert_def
      hm_empty_def Let_def)

lemma mock_deploys:
  assumes "mock_ok e"
  shows "\<exists>e' w. deploy_on_engine Debug (mock_ops pj y fmt True now clock) ''mock'' peer m content cfg e = (e', Inr w)
    \<and> mock_deploy_workload_with_peer pj True now m content cfg peer e = (e', Inr w)
    \<and> mock_ok e' \<and> w \<in> set (mock_infos e') \<and> wi_manifest_id w = m \<and> wi_status w = Running"
proof -
  let ?d = "mock_deploy_workload_with_peer pj True now m content cfg peer e"
  have d: "deploy_on_engine Debug (mock_ops pj y fmt True now clock) ''mock'' peer m content cfg e = ?d"
    by (simp add: deploy_on_engine_def mock_ops_def)
  obtain w where w: "snd ?d = Inr w" "wi_manifest_id w = m" "wi_status w = Running"
      "\<exists>v. hm_get (me_workloads (fst ?d)) (wi_id w) = Some v \<and> mw_info v = w"
    by (auto simp: mock_deploy_workload_with_peer_def Let_def)
  have ok: "mock_ok (fst ?d)" by (rule mock_ok_deploy_with_peer [OF assms])
  then have "w \<in> set (mock_infos (fst ?d))" using w(4) by (simp add: mock_infos_mem)
  with w ok show ?thesis unfolding d by (intro exI [of _ "fst ?d"] exI [of _ w]) (simp add: prod_eq_iff)
qed

lemma deployment_effect:
  assumes "runtime_registry_of n = Some reg" "engines reg = [(''mock'', e)]" "mock_ok e" "provider_manager_of n = Some pm"
    and "ae_profile env = Debug" "ap_manifest_id req = Some m"
    and "decrypt_manifest_content L mj = Some (Inr content)" "modify_manifest_replicas L content = Inr content'"
    and "Option.bind (ml_yaml_parse L (from_utf8_lossy content')) engine_annotation \<in> {None, Some ''mock''}"
  shows "\<exists>n' e' w. process_manifest_deployment L (mock_ops pj y fmt True now clock) env req mj owner n = (n', Some (Inr (wi_id w)))
    \<and> mock_deploy_workload_with_peer pj True now m content' (create_deployment_config req) (ae_local_peer env) e = (e', Inr w)
    \<and> (\<exists>reg'. runtime_registry_of n' = Some reg' \<and> engines reg' = [(''mock'', e')])
    \<and> w \<in> set (mock_infos e') \<and> wi_manifest_id w = m \<and> wi_status w = Running \<and> node_providing m n'"
proof -
  let ?V = "mock_ops pj y fmt True now clock"
  define n1 where "n1 = (if owner = [] then n else record_manifest_owner m owner n)"
  have n1: "runtime_registry_of n1 = Some reg" "provider_manager_of n1 = Some pm"
    using assms(1,4) by (simp_all add: n1_def record_manifest_owner_def)
  obtain e' w where d: "deploy_on_engine Debug ?V ''mock'' (ae_local_peer env) m content' (create_deployment_config req) e
      = (e', Inr w)" "w \<in> set (mock_infos e')" "wi_manifest_id w = m" "wi_status w = Running"
      "mock_deploy_workload_with_peer pj True now m content' (create_deployment_config req) (ae_local_peer env) e = (e', Inr w)"
    using mock_deploys [OF assms(3)] by blast
  have eng: "get_engine reg ''mock'' = Some e" by (simp add: get_engine_def hm_get_def assms(2))
  have "prepare_deployment L req mj owner n = (n1, Some (Inr content'))"
    by (simp add: prepare_deployment_def assms(6-8) n1_def)
  moreover have "run_on_engine L ?V env req content' n1 = (set_engine ''mock'' e' n1, Inr (''mock'', w))"
    by (simp add: run_on_engine_def selects_mock [OF n1(1) assms(2,9)] n1(1) eng assms(5,6) d(1))
  ultimately have "process_manifest_deployment L ?V env req mj owner n
      = (announce_deployment env req ''mock'' w (set_engine ''mock'' e' n1), Some (Inr (wi_id w)))"
    by (simp add: process_manifest_deployment_def)
  moreover have "node_providing m (announce_deployment env req ''mock'' w (set_engine ''mock'' e' n1))"
    by (simp add: announce_deployment_def assms(6) n1(2) node_providing_def announce_provider_def Let_def split: sum.split)
  moreover have "runtime_registry_of (set_engine ''mock'' e' n1) = Some (reg \<lparr> engines := [(''mock'', e')] \<rparr>)"
    by (simp add: set_engine_def n1(1) assms(2) hm_insert_def)
  ultimately show ?thesis using d(2-5) by simp
qed

section \<open>Signed messages\<close>

lemma payload_default_accepted:
  assumes "crypto_laws L" "nv_keypair E = Inr (pk, sk)" "dsa_keypair L pk sk"
    and "store_ok st" "nonce_seen_at st peer (make_nonce prefix (nv_random E 0)) = None"
  shows "\<exists>b st' v. sign_payload_default L E payload ptype prefix = Inr b
    \<and> verify_envelope_and_check_nonce_for_peer L now peer b st = (st', Inr v)
    \<and> ve_payload v = payload \<and> ve_pubkey v = pk
    \<and> (\<exists>e. fb_root_as_envelope L b = Some e \<and> fe_nonce e = Some (make_nonce prefix (nv_random E 0)))"
proof -
  let ?n = "make_nonce prefix (nv_random E 0)"
  let ?e = "\<lparr> fe_payload = Some payload, fe_payload_type = Some ptype, fe_nonce = Some ?n, fe_ts = nv_millis E,
      fe_alg = Some ''ml-dsa-65'', fe_sig = Some [], fe_pubkey = Some [], fe_kem_pubkey = Some [], fe_peer_id = Some [] \<rparr>"
  obtain sig pub where signed: "sign_envelope L sk pk (rebuilt_canonical L ?e) = Inr (sig, pub)"
    using sign_envelope_keypair [OF assms(1,3)] by blast
  let ?b = "fb_finish L (?e \<lparr> fe_sig := Some (''ml-dsa-65'' @ '':'' @ sig), fe_pubkey := Some pub \<rparr>)"
  have "sign_payload_default L E payload ptype prefix = Inr ?b"
    using signed by (simp add: sign_payload_default_def sign_with_node_keys_def assms(2) sign_with_existing_keypair_def
        sign_internal_def default_sign_config_def Let_def builder_defs rebuilt_canonical_eq)
  moreover have "or_empty (fe_nonce ?e) \<noteq> [] \<Longrightarrow>
      snd (check_and_insert_nonce_for_peer now NONCE_WINDOW peer (or_empty (fe_nonce ?e)) st) = Inr ()"
    using guard.accept_iff [OF assms(4)] assms(5) by simp
  from signed_verifies [OF assms(1,3) _ signed this, of "''ml-dsa-65''"] obtain sg where
    "snd (verify_flatbuffer_envelope_for_peer L now NONCE_WINDOW peer ?b st)
      = Inr (verified_parts (?e \<lparr> fe_sig := Some (''ml-dsa-65'' @ '':'' @ sig), fe_pubkey := Some pub \<rparr>) pk sg)" by auto
  then obtain st' v where "verify_envelope_and_check_nonce_for_peer L now peer ?b st = (st', Inr v)"
      "ve_payload v = payload" "ve_pubkey v = pk"
    by (cases "verify_flatbuffer_envelope_for_peer L now NONCE_WINDOW peer ?b st")
      (auto simp: verify_envelope_and_check_nonce_for_peer_def verified_parts_def)
  moreover have "fb_root_as_envelope L ?b = Some (?e \<lparr> fe_sig := Some (''ml-dsa-65'' @ '':'' @ sig), fe_pubkey := Some pub \<rparr>)"
    using assms(1) unfolding crypto_laws_def by blast
  ultimately show ?thesis by fastforce
qed

text \<open>A verification marks no nonce but that of its envelope.\<close>

lemma verified_store:
  assumes "fb_root_as_envelope L b = Some e" "store_ok st"
    and "verify_envelope_and_check_nonce_for_peer L now peer b st = (st', r)"
  shows "store_ok st'"
    and "nonce_seen_at st' p n \<noteq> None \<Longrightarrow> nonce_seen_at st p n \<noteq> None \<or> (p = peer \<and> n = or_empty (fe_nonce e))"
proof -
  let ?c = "check_and_insert_nonce_for_peer now NONCE_WINDOW peer (or_empty (fe_nonce e)) st"
  have "fst (verify_envelope_and_check_nonce_for_peer L now peer b st) \<in> {st, fst ?c}"
    by (cases ?c) (simp add: verify_envelope_and_check_nonce_for_peer_def verify_flatbuffer_envelope_for_peer_def assms(1)
        Let_def split: sum.splits option.splits)
  then have st': "st' = st \<or> st' = fst ?c" by (simp add: assms(3))
  then show "store_ok st'" using guard.ok_check [OF assms(2)] assms(2) by auto
  show "nonce_seen_at st p n \<noteq> None \<or> (p = peer \<and> n = or_empty (fe_nonce e))" if "nonce_seen_at st' p n \<noteq> None"
    using st' guard.invents_nothing [OF assms(2)] that by fastforce
qed

text \<open>The empty text does not decode to the bytes of a signature, so an envelope without one is refused.\<close>

definition no_empty_signature :: "crypto_lib \<Rightarrow> bool" where
  "no_empty_signature L \<longleftrightarrow> (\<forall>sig. b64_decode L [] = Some sig \<longrightarrow> \<not> dsa_signature_ok L sig)"

lemma unsigned_refused:
  assumes "no_empty_signature L" "\<And>e. fb_root_as_envelope L b = Some e \<Longrightarrow> fe_sig e = None"
  shows "snd (verify_signed_message L now peer b st) = None"
proof (cases "fb_root_as_envelope L b")
  case (Some e)
  then show ?thesis
    using assms by (auto simp: verify_signed_message_def verify_signed_payload_for_peer_def
        verify_envelope_and_check_nonce_for_peer_def verify_flatbuffer_envelope_for_peer_def
        normalize_and_decode_signature_def verify_envelope_def no_empty_signature_def Let_def split: prod.splits if_splits sum.splits option.splits)
qed (simp add: verify_signed_message_def verify_signed_payload_for_peer_def
      verify_envelope_and_check_nonce_for_peer_def verify_flatbuffer_envelope_for_peer_def split: prod.splits)

lemma delete_request_unsigned:
  assumes "flat_laws F" "flat_absent F" "root_as_envelope F (wire_delete_request F m op origin force) = Some e"
  shows "fe_sig e = None"
proof -
  let ?t = "delete_request_create F (delete_request_default \<lparr> dqa_manifest_id := Some m, dqa_operation_id := Some op,
      dqa_origin_peer := Some origin, dqa_force := force \<rparr>)"
  obtain t' where t': "fl_root F envelope_verifier (fl_finish F ?t) = Some t'" "e = envelope_of_table F t'"
    using assms(3) by (auto simp: root_as_envelope_def wire_delete_request_def)
  have "fl_get F ?t 14 None = None" by (simp add: delete_request_create_def flat_get [OF assms(1)])
  then have "fl_get F t' 14 None = None" using t'(1) assms(2) unfolding flat_absent_def by blast
  then show ?thesis by (simp add: t'(2) envelope_of_table_def slot_str_def)
qed

lemma wire_mesh_parts [simp]:
  "nl_apply_request (xl_node (wire_mesh F X)) = root_as_apply_request F"
  "nl_delete_request (xl_node (wire_mesh F X)) = read_delete_request F"
  "nl_manifest (xl_node (wire_mesh F X)) = nl_manifest (xl_node X)"
  "nl_crypto (xl_node (wire_mesh F X)) = wire_crypto F (nl_crypto (xl_node X))"
  by (simp_all add: wire_mesh_def wire_node_def)

lemma applied_under_reservation:
  assumes "verify_envelope_and_check_nonce_for_peer C now peer b (nonces n) = (st, Inr v)" "r (ve_payload v) = Some ar"
    and "ap_manifest_json ar = Some mj" "ap_manifest_id ar = Some m" "m \<noteq> []"
    and "snd (has_active_reservation_for_manifest now' m (resource_verifier_of n))"
    and "process_manifest_deployment L V env ar mj (ve_pubkey v)
      (n \<lparr> nonces := st, resource_verifier_of := prune_expired_reservations now' (resource_verifier_of n) \<rparr>) = (n', Some (Inr wid))"
  shows "handle_apply_request C r L V env now now' peer b n
    = (n', Some (build_apply_response True wid ''workload deployed successfully''))"
  using admit_accepts [where r = r, OF assms(1-6)] by (simp add: handle_apply_request_def deployment_answer_def assms(7))

lemma bid_held:
  assumes "handle_event X V Es E (SchedulerMessage p (Request b)) s = s1"
    and "mn_calls s1 = mn_calls s @ [RespondCapacity p rep]"
    and "extract_manifest_id_from_request_id (cp_request_id (rp_params rep)) = Some m"
    and "hm_wf (reservations (resource_verifier_of (mn_node s)))"
    and "mesh_run X s1 evs s2" "\<forall>ev \<in> set evs. during (ce_reserve (nv_capacity E)) ev"
  shows "held (ce_reserve (nv_capacity E) + 3 * 1000000000) m (resource_verifier_of (mn_node s2))"
proof -
  have "held (ce_reserve (nv_capacity E) + reservation_hold_duration) m (resource_verifier_of (mn_node s1))"
    using scheduler_bid [OF _ assms(4,3)] assms(1,2) by auto
  from held_run [OF assms(5,6) this] show ?thesis by (simp add: reservation_hold_duration_def RESERVATION_HOLD_SECS_def)
qed

text \<open>
  What a node of one mock engine has done for a manifest after an apply request of a peer: its
  engine is as \<open>deploy\<close>, the deployment of certain bytes, leaves it, with a running workload of the manifest; it
  answered with the id of this workload, it announces the manifest, and the owner it has recorded is the key.
\<close>

definition runs_for ::
  "(mock_engine \<Rightarrow> mock_engine \<times> workload_info runtime_result) \<Rightarrow> string \<Rightarrow> bytes \<Rightarrow> peer_id
     \<Rightarrow> mock_engine mesh_node \<Rightarrow> mock_engine mesh_node \<Rightarrow> bool" where
  "runs_for deploy m key peer s s' \<longleftrightarrow>
     (\<exists>resp w reg reg' e e'. mn_calls s' = mn_calls s @ [RespondApply peer resp] \<and> aresp_ok resp
        \<and> runtime_registry_of (mn_node s) = Some reg \<and> engines reg = [(''mock'', e)]
        \<and> deploy e = (e', Inr w)
        \<and> runtime_registry_of (mn_node s') = Some reg' \<and> engines reg' = [(''mock'', e')]
        \<and> w \<in> set (mock_infos e') \<and> wi_id w = aresp_operation_id resp
        \<and> wi_manifest_id w = m \<and> wi_status w = Running
        \<and> get_manifest_owner m (mn_node s') = Some key \<and> node_providing m (mn_node s'))"

text \<open>A node that bid runs the manifest of the apply request that the other node sends.\<close>

lemma apply_sent_deployed:
  fixes s :: "mock_engine mesh_node" and sA :: "'e mesh_node"
  assumes "flat_laws F" "crypto_laws (nl_crypto (xl_node X))"
    and "nv_keypair EA = Inr (pk, sk)" "dsa_keypair (nl_crypto (xl_node X)) pk sk" "pk \<noteq> []" "peerB \<noteq> nv_local_peer EA"
    and "handle_event (wire_mesh F X) V Es E (SchedulerMessage peerA (Request b)) s = s1"
    and "mn_calls s1 = mn_calls s @ [RespondCapacity peerA rep]"
    and "extract_manifest_id_from_request_id (cp_request_id (rp_params rep)) = Some m"
    and "hm_wf (reservations (resource_verifier_of (mn_node s)))"
    and "mesh_run (wire_mesh F X) s1 evs s2" "\<forall>ev \<in> set evs. during (ce_reserve (nv_capacity E)) ev"
    and "nv_clock E2 1 < ce_reserve (nv_capacity E) + 3 * 1000000000"
    and "store_ok (nonces (mn_node s2))"
    and "nonce_seen_at (nonces (mn_node s2)) peerA (''apply_'' @ to_decimal (unat (nv_random EA 0))) = None"
    and "runtime_registry_of (mn_node s2) = Some reg" "engines reg = [(''mock'', e)]" "mock_ok e"
    and "provider_manager_of (mn_node s2) = Some pm" "ae_profile (nv_apply E2) = Debug"
    and "ap_manifest_json ar = Some mj" "ap_manifest_id ar = Some m"
    and "decrypt_manifest_content (nl_manifest (xl_node X)) mj = Some (Inr content)"
    and "modify_manifest_replicas (nl_manifest (xl_node X)) content = Inr content'"
    and "Option.bind (ml_yaml_parse (nl_manifest (xl_node X)) (from_utf8_lossy content')) engine_annotation
           \<in> {None, Some ''mock''}"
  shows "\<exists>req.
      mn_calls (handle_control_message (wire_mesh F X) VA EA (SendApplyRequest peerB
        (fl_finish F (apply_request_create F ar)) tx) sA)
        = mn_calls sA @ [SendRequest ApplyRr peerB req]
    \<and> runs_for (mock_deploy_workload_with_peer pj True now m content' (create_deployment_config ar) (nv_local_peer E2)) m pk peerA s2 (handle_event (wire_mesh F X) (mock_ops pj y fmt True now clock) Es2 E2
         (ApplyMessage peerA (Request req)) s2)"
proof -
  let ?M = "wire_mesh F X" and ?V = "mock_ops pj y fmt True now clock" and ?n = "mn_node s2"
  let ?C = "nl_crypto (xl_node ?M)"
  have "crypto_laws (wire_crypto F (nl_crypto (xl_node X)))"
    using assms(2) unfolding crypto_laws_def [of "nl_crypto (xl_node X)"] by (intro wire_crypto_laws [OF assms(1)]) blast+
  moreover have "dsa_keypair (wire_crypto F (nl_crypto (xl_node X))) pk sk"
    using assms(4) by (simp add: dsa_keypair_def wire_crypto_def)
  ultimately have crypto: "crypto_laws ?C" "dsa_keypair ?C pk sk" by simp_all
  have nonce: "nonce_seen_at (nonces ?n) peerA (make_nonce (Some ''apply'') (nv_random EA 0)) = None"
    using assms(15) by (simp add: make_nonce_def)
  obtain req st v where req: "sign_payload_default ?C EA (fl_finish F (apply_request_create F ar)) ''apply_request''
        (Some ''apply'') = Inr req"
    and v: "verify_envelope_and_check_nonce_for_peer ?C (nv_clock E2 0) peerA req (nonces ?n) = (st, Inr v)"
      "ve_payload v = fl_finish F (apply_request_create F ar)" "ve_pubkey v = pk"
    using payload_default_accepted [OF crypto(1) assms(3) crypto(2) assms(14) nonce] by blast
  have act: "snd (has_active_reservation_for_manifest (nv_clock E2 1) m (resource_verifier_of ?n))"
    by (rule held_active [OF bid_held [OF assms(7-12)] assms(13)])
  have root: "nl_apply_request (xl_node ?M) (ve_payload v) = Some ar"
    by (simp add: v(2) apply_request_read_back [OF assms(1)])
  note ar = assms(21,22)
  let ?n1 = "?n \<lparr> nonces := st, resource_verifier_of := prune_expired_reservations (nv_clock E2 1) (resource_verifier_of ?n) \<rparr>"
  have parts: "runtime_registry_of ?n1 = Some reg" "provider_manager_of ?n1 = Some pm" "ae_profile (apply_env_of E2) = Debug"
      "ae_local_peer (apply_env_of E2) = nv_local_peer E2"
    using assms(16,19,20) by (simp_all add: apply_env_of_def)
  obtain n' e' w reg' where d: "process_manifest_deployment (nl_manifest (xl_node X)) ?V (apply_env_of E2) ar mj (ve_pubkey v) ?n1
      = (n', Some (Inr (wi_id w)))"
    and w: "mock_deploy_workload_with_peer pj True now m content' (create_deployment_config ar) (nv_local_peer E2) e = (e', Inr w)"
      "runtime_registry_of n' = Some reg'" "engines reg' = [(''mock'', e')]"
      "w \<in> set (mock_infos e')" "wi_manifest_id w = m" "wi_status w = Running" "node_providing m n'"
    using deployment_effect [OF parts(1) assms(17,18) parts(2,3) ar(2) assms(23-25)] unfolding parts(4) by blast
  have applied: "handle_apply_request ?C (nl_apply_request (xl_node ?M)) (nl_manifest (xl_node X)) ?V (apply_env_of E2)
      (nv_clock E2 0) (nv_clock E2 1) peerA req ?n = (n', Some (build_apply_response True (wi_id w) ''workload deployed successfully''))"
    by (rule applied_under_reservation [where r = "nl_apply_request (xl_node ?M)", OF v(1) root ar extract_not_empty [OF assms(9)] act d])
  have "get_manifest_owner m n' = Some pk"
    using owner_deployment [of "nl_manifest (xl_node X)" ?V "apply_env_of E2" ar mj "ve_pubkey v" ?n1] unfolding d
    by (simp add: assms(5,23) v(3) ar(2) get_manifest_owner_def)
  then have "runs_for (mock_deploy_workload_with_peer pj True now m content' (create_deployment_config ar) (nv_local_peer E2))
      m pk peerA s2 (handle_event ?M ?V Es2 E2 (ApplyMessage peerA (Request req)) s2)"
    using w applied assms(16,17) unfolding runs_for_def
    by (intro exI [of _ "build_apply_response True (wi_id w) ''workload deployed successfully''"] exI [of _ w] exI [of _ reg]
        exI [of _ reg'] exI [of _ e] exI [of _ e'])
      (simp add: on_apply_message_def call_def build_apply_response_def)
  then show ?thesis
    using req assms(6) by (intro exI [of _ req]) (simp add: handle_send_apply_request_def call_def reply_def)
qed

section \<open>Properties\<close>

text \<open>
  (C12) A bid is kept. Once a node has answered a capacity request with a bid for a manifest, then
  whatever happens on the node meanwhile (other requests for capacity, refreshed or refused,
  deployments, deletions, requests to the REST API), the reservation is there for three seconds: at
  any time before they are over an apply request for the manifest finds it. Also the
  deployment of the manifest itself, successful or failed, does not release it, though
  section 4.2 of \<open>machineplane/README.md\<close> asks for that.
\<close>

theorem bid_kept:
  assumes "handle_event X V Es E (SchedulerMessage p (Request b)) s = s1"
    and "mn_calls s1 = mn_calls s @ [RespondCapacity p rep]"
    and "extract_manifest_id_from_request_id (cp_request_id (rp_params rep)) = Some m"
    and "hm_wf (reservations (resource_verifier_of (mn_node s)))"
    and "mesh_run X s1 evs s2" "\<forall>ev \<in> set evs. during (ce_reserve (nv_capacity E)) ev"
    and "t < ce_reserve (nv_capacity E) + 3 * 1000000000"
  shows "snd (has_active_reservation_for_manifest t m (resource_verifier_of (mn_node s2)))"
  by (rule held_active [OF bid_held [OF assms(1-6)] assms(7)])

text \<open>
  (C11) The way of a manifest, in bytes, over two nodes of which the second runs the mock engine: the
  second bids, any events follow, and before three seconds are over the first sends the apply
  request through its control interface. It is signed with the key of the first, the second
  accepts it, deploys the manifest with its replicas set to one, answers with the id of the
  workload, announces itself as a provider and records the key of the first as the owner. The answer and the
  announcement to the DHT are all it says: the event \<open>Deployed\<close> of section 4.1 of
  \<open>machineplane/README.md\<close> is never published.
\<close>

theorem bid_then_deployed:
  fixes s :: "mock_engine mesh_node" and sA :: "'e mesh_node"
  assumes "flat_laws F" "crypto_laws (nl_crypto (xl_node X))"
    and "nv_keypair EA = Inr (pk, sk)" "dsa_keypair (nl_crypto (xl_node X)) pk sk" "pk \<noteq> []" "peerB \<noteq> nv_local_peer EA"
    and "handle_event (wire_mesh F X) V Es E (SchedulerMessage peerA (Request b)) s = s1"
    and "mn_calls s1 = mn_calls s @ [RespondCapacity peerA rep]"
    and "extract_manifest_id_from_request_id (cp_request_id (rp_params rep)) = Some m"
    and "hm_wf (reservations (resource_verifier_of (mn_node s)))"
    and "mesh_run (wire_mesh F X) s1 evs s2" "\<forall>ev \<in> set evs. during (ce_reserve (nv_capacity E)) ev"
    and "nv_clock E2 1 < ce_reserve (nv_capacity E) + 3 * 1000000000"
    and "store_ok (nonces (mn_node s2))"
    and "nonce_seen_at (nonces (mn_node s2)) peerA (''apply_'' @ to_decimal (unat (nv_random EA 0))) = None"
    and "runtime_registry_of (mn_node s2) = Some reg" "engines reg = [(''mock'', e)]" "mock_ok e"
    and "provider_manager_of (mn_node s2) = Some pm" "ae_profile (nv_apply E2) = Debug"
    and "decrypt_manifest_content (nl_manifest (xl_node X)) mj = Some (Inr content)"
    and "modify_manifest_replicas (nl_manifest (xl_node X)) content = Inr content'"
    and "Option.bind (ml_yaml_parse (nl_manifest (xl_node X)) (from_utf8_lossy content')) engine_annotation
           \<in> {None, Some ''mock''}"
  shows "\<exists>req.
      mn_calls (handle_control_message (wire_mesh F X) VA EA (SendApplyRequest peerB
        (fl_finish F (apply_request_create F (build_apply_request replicas op mj peerA m))) tx) sA)
        = mn_calls sA @ [SendRequest ApplyRr peerB req]
    \<and> runs_for (mock_deploy_workload_with_peer pj True now m content'
           (create_deployment_config (build_apply_request replicas op mj peerA m)) (nv_local_peer E2)) m pk peerA s2 (handle_event (wire_mesh F X) (mock_ops pj y fmt True now clock) Es2 E2
         (ApplyMessage peerA (Request req)) s2)"
  by (rule apply_sent_deployed [OF assms(1-20) _ _ assms(21-23)]) (simp_all add: build_apply_request_def)

text \<open>
  (C26) A deletion does not travel. The delete request that the REST API hands to the network task is sent as it
  is, without an envelope, and the API is told that it was sent. The node that receives it answers
  that the request is unsigned, and removes nothing: it spawns no task, and nothing but its
  store of nonces can change.
\<close>

theorem remote_delete_refused:
  fixes sA :: "'e mesh_node" and s :: "'f mesh_node" and m op origin :: string and force :: bool
  assumes "flat_laws F" "flat_absent F" "no_empty_signature (nl_crypto (xl_node X))"
  defines "req \<equiv> wire_delete_request F m op origin force"
  shows "handle_control_message (wire_mesh F X) VA EA (SendDeleteRequest peerB req tx) sA
      = reply tx (TextReply (Inr ''Delete request sent'')) (call (SendRequest DeleteRr peerB req) sA)
    \<and> (\<exists>st. handle_event (wire_mesh F X) V Es E (DeleteMessage peerA (Request req)) s
         = call (RespondDelete peerA (delete_error_response ''unsigned or invalid envelope''))
             (s \<lparr> mn_node := (mn_node s) \<lparr> nonces := st \<rparr> \<rparr>))"
proof -
  have "snd (verify_signed_message (wire_crypto F (nl_crypto (xl_node X))) (nv_clock E 0) peerA req (nonces (mn_node s))) = None"
    by (rule unsigned_refused)
      (use assms(3) in \<open>auto simp: wire_crypto_def req_def no_empty_signature_def dest: delete_request_unsigned [OF assms(1,2)]\<close>)
  then obtain st where "verify_signed_message (wire_crypto F (nl_crypto (xl_node X))) (nv_clock E 0) peerA req (nonces (mn_node s))
      = (st, None)" by (metis prod.collapse)
  then show ?thesis
    by (auto simp: on_delete_message_def delete_message_def handle_send_delete_request_def)
qed

end
