(* ===== verification/Client_To_Node.thy ===== *)
theory Client_To_Node
  imports Workload_Lifecycle Cli_Runs
begin

text \<open>
  The whole way of a manifest, from the command line client over the REST API of one node to the
  container engine of another: the theories \<open>Cli_Runs\<close>, \<open>Rest_Security\<close> and \<open>Workload_Lifecycle\<close> put together.
\<close>

text \<open>What \<open>apply_direct\<close> of \<open>restapi/mod.rs\<close> sends to the network task: the body that the middleware opened.\<close>

definition apply_direct_control :: "(string \<Rightarrow> string + peer_id) \<Rightarrow> string \<Rightarrow> bytes \<Rightarrow> nat \<Rightarrow> libp2p_control option" where
  "apply_direct_control parse_peer peer_id body reply_tx =
     (case parse_peer peer_id of
        Inl _ \<Rightarrow> None
      | Inr target_peer_id \<Rightarrow> Some (SendApplyRequest target_peer_id body reply_tx))"

lemma client_request_opened:
  assumes "crypto_laws (cv_crypto V)" "dsa_keypair (cv_crypto V) cpk (fc_private_key c)"
    and "fc_public_key c = b64_encode (cv_crypto V) cpk" "fc_machine_public_key c = Some mpk"
    and "kem_pair (cv_kem V) mpk (eh_kem_private_key h)" "aes_laws (cv_kem V)"
    and "length (dw_aes_nonce d) = NONCE_BYTES" "length (cv_apply_request V request) + 16 < 2 ^ 32"
    and "store_ok st" "nonce_seen_at st ''cli-client'' (to_hex (unat (dw_time_hash d))) = None"
    and "node_request V d ts m str (b64_encode (cv_crypto V) npk) = Inr request"
  shows "\<exists>call st' md. deployment_call V c ts m str d (nid, b64_encode (cv_crypto V) npk) call
    \<and> envelope_middleware (cv_crypto V) (cv_kem V) now h
        \<lparr> rq_content_type = hc_content_type call, rq_body = Some (hc_body call) \<rparr> st
      = (st', Forwarded md (Some (cv_apply_request V request))) \<and> em_signing_pubkey md = cpk"
proof -
  obtain body st' md where body: "build_encrypted_envelope_with_peer (cv_crypto V) (cv_kem V) (dw_randomness d)
        (dw_aes_nonce d) (dw_time_hash d) (dw_secs d) (cv_apply_request V request) ''apply_request'' mpk
        (fc_private_key c) (b64_encode (cv_crypto V) cpk) ''cli-client''
        (Some (b64_encode (cv_crypto V) (fc_kem_public_key c))) = Inr body"
    "envelope_middleware (cv_crypto V) (cv_kem V) now h
        \<lparr> rq_content_type = Some ''application/octet-stream'', rq_body = Some body \<rparr> st
      = (st', Forwarded md (Some (cv_apply_request V request)))" "em_signing_pubkey md = cpk"
    using sealed_request_opened [OF assms(1,2,5-10)] by (metis envelope_metadata.select_convs(1))
  then have "seal_request V c d (cv_apply_request V request) ''apply_request'' = Inr body"
    using assms(3,4) by (simp add: seal_request_def)
  with assms(11) body(2,3) show ?thesis
    by (intro exI [of _ "envelope_call POST (trim_end_slashes (fc_base_url c) @ ''/apply_direct/'' @ nid) body"])
      (simp add: deployment_call_def envelope_call_def)
qed

text \<open>
  (C8) The whole way: the client seals a manifest for node B and posts it to node A. The REST API of A opens
  the request, with the client as its signer, and hands it to its network task, which signs and
  sends it. B, which bid for the manifest no more than three seconds ago, decrypts exactly the
  text that the client read, deploys it on its only engine, the mock engine, with the replicas of the
  document set to one, and answers with the workload. The owner that B records is A, not the client.
\<close>

theorem client_manifest_deployed:
  fixes s :: "mock_engine mesh_node" and sA :: "'e mesh_node" and V :: "('f, 'w) cli_env"
  assumes "flat_laws F" "crypto_laws (nl_crypto (xl_node X))" "aes_laws (cv_kem V)"
    and "cv_crypto V = nl_crypto (xl_node (wire_mesh F X))"
    and "cv_apply_request V = (\<lambda>r. fl_finish F (apply_request_create F r))"
    and "dsa_keypair (nl_crypto (xl_node X)) cpk (fc_private_key c)" "fc_public_key c = b64_encode (cv_crypto V) cpk"
    and "fc_machine_public_key c = Some mpk" "kem_pair (cv_kem V) mpk (eh_kem_private_key h)"
    and "length (dw_aes_nonce d) = NONCE_BYTES" "length (dw_manifest_aes_nonce d) = NONCE_BYTES"
    and "valid_string str" "length str + 16 < 2 ^ 32"
    and "store_ok st" "nonce_seen_at st ''cli-client'' (to_hex (unat (dw_time_hash d))) = None"
    and "parse_peer nid = Inr peerB"
    and "nv_keypair EA = Inr (pk, sk)" "dsa_keypair (nl_crypto (xl_node X)) pk sk" "pk \<noteq> []" "peerB \<noteq> nv_local_peer EA"
    and "kem_pair (cv_kem V) npk nsk" "same_libraries (cv_crypto V) (cv_kem V) nsk (nl_manifest (xl_node X))"
    and "handle_event (wire_mesh F X) W Es E (SchedulerMessage peerA (Request b)) s = s1"
    and "mn_calls s1 = mn_calls s @ [RespondCapacity peerA rep]"
    and "extract_manifest_id_from_request_id (cp_request_id (rp_params rep)) = Some m"
    and "hm_wf (reservations (resource_verifier_of (mn_node s)))"
    and "mesh_run (wire_mesh F X) s1 evs s2" "\<forall>ev \<in> set evs. during (ce_reserve (nv_capacity E)) ev"
    and "nv_clock E2 1 < ce_reserve (nv_capacity E) + 3 * 1000000000"
    and "store_ok (nonces (mn_node s2))"
    and "nonce_seen_at (nonces (mn_node s2)) peerA (''apply_'' @ to_decimal (unat (nv_random EA 0))) = None"
    and "runtime_registry_of (mn_node s2) = Some reg" "engines reg = [(''mock'', e)]" "mock_ok e"
    and "provider_manager_of (mn_node s2) = Some pm" "ae_profile (nv_apply E2) = Debug"
    and "modify_manifest_replicas (nl_manifest (xl_node X)) (bytes_of_string str) = Inr content'"
    and "Option.bind (ml_yaml_parse (nl_manifest (xl_node X)) (from_utf8_lossy content')) engine_annotation
           \<in> {None, Some ''mock''}"
  shows "\<exists>request. node_request V d ts m str (b64_encode (cv_crypto V) npk) = Inr request
    \<and> (length (cv_apply_request V request) + 16 < 2 ^ 32 \<longrightarrow>
       (\<exists>call st' md ctl req.
          deployment_call V c ts m str d (nid, b64_encode (cv_crypto V) npk) call
        \<and> envelope_middleware (cv_crypto V) (cv_kem V) now h
            \<lparr> rq_content_type = hc_content_type call, rq_body = Some (hc_body call) \<rparr> st
          = (st', Forwarded md (Some (cv_apply_request V request))) \<and> em_signing_pubkey md = cpk
        \<and> apply_direct_control parse_peer nid (cv_apply_request V request) tx = Some ctl
        \<and> mn_calls (handle_control_message (wire_mesh F X) VA EA ctl sA) = mn_calls sA @ [SendRequest ApplyRr peerB req]
        \<and> runs_for (mock_deploy_workload_with_peer pj True now' m content' (create_deployment_config request) (nv_local_peer E2))
             m pk peerA s2 (handle_event (wire_mesh F X) (mock_ops pj y fmt True now' clock) Es2 E2
             (ApplyMessage peerA (Request req)) s2)))"
    (is "\<exists>request. _ \<and> (_ \<longrightarrow> ?result request)")
proof -
  let ?L = "nl_crypto (xl_node X)"
  have "crypto_laws (wire_crypto F ?L)"
    using assms(2) unfolding crypto_laws_def [of ?L] by (intro wire_crypto_laws [OF assms(1)]) blast+
  then have crypto: "crypto_laws (cv_crypto V)" by (simp add: assms(4))
  have key: "dsa_keypair (cv_crypto V) cpk (fc_private_key c)"
    using assms(6) by (simp add: assms(4) dsa_keypair_def wire_crypto_def)
  obtain request where r: "node_request V d ts m str (b64_encode (cv_crypto V) npk) = Inr request"
      "ap_manifest_id request = Some m"
      "decrypt_manifest_content (nl_manifest (xl_node X)) (or_empty (ap_manifest_json request)) = Some (Inr (bytes_of_string str))"
    using node_request_decrypted [OF crypto assms(21,3,22,11-13)] by blast
  have json: "ap_manifest_json request = Some (or_empty (ap_manifest_json request))"
    using r(1) by (auto simp: node_request_def build_apply_request_def Let_def split: option.splits sum.splits)
  have ctl: "apply_direct_control parse_peer nid (cv_apply_request V request) tx
      = Some (SendApplyRequest peerB (cv_apply_request V request) tx)"
    by (simp add: apply_direct_control_def assms(16))
  note deployed = apply_sent_deployed [OF assms(1,2,17-20,23-36) json r(2,3) assms(37,38), folded assms(5) [THEN fun_cong],
      where VA = VA and sA = sA and tx = tx and pj = pj and y = y and fmt = fmt and now = now' and clock = clock and ?Es2.0 = Es2]
  show ?thesis
  proof (intro exI [of _ request] conjI impI r(1))
    assume len: "length (cv_apply_request V request) + 16 < 2 ^ 32"
    from client_request_opened [OF crypto key assms(7-9,3,10) len assms(14,15) r(1), where nid = nid and now = now]
    obtain call st' md where client: "deployment_call V c ts m str d (nid, b64_encode (cv_crypto V) npk) call"
        "envelope_middleware (cv_crypto V) (cv_kem V) now h
          \<lparr> rq_content_type = hc_content_type call, rq_body = Some (hc_body call) \<rparr> st
        = (st', Forwarded md (Some (cv_apply_request V request)))" "em_signing_pubkey md = cpk" by blast
    from deployed obtain req where "mn_calls (handle_control_message (wire_mesh F X) VA EA
          (SendApplyRequest peerB (cv_apply_request V request) tx) sA) = mn_calls sA @ [SendRequest ApplyRr peerB req]"
        "runs_for (mock_deploy_workload_with_peer pj True now' m content' (create_deployment_config request) (nv_local_peer E2))
          m pk peerA s2 (handle_event (wire_mesh F X) (mock_ops pj y fmt True now' clock) Es2 E2
          (ApplyMessage peerA (Request req)) s2)" by blast
    with client ctl show "?result request" by blast
  qed
qed

end
