(* ===== verification/Dht_Manager.thy ===== *)
theory Dht_Manager
  imports Wire_Laws
begin

text \<open>
  The store of applied manifests in the distributed hash table,
  \<open>machine/src/libp2p_beemesh/dht_manager.rs\<close>. No module of the crate declares this file at present; it is
  the one user of the applied-manifest messages. Kademlia is a library: what is asked of it is a log of calls, the
  query ids and results that it gives are arguments. Reply channels are numbers, and what is
  sent on them is a log.
\<close>

section \<open>State\<close>

datatype dht_operation =
    StoreManifest applied_manifest nat
  | GetManifest string nat
  | GetManifestsByPeer string nat

datatype dht_query_context = StoreContext nat | GetContext nat

datatype dht_call = PutRecord bytes bytes | GetRecord bytes

datatype dht_reply =
    StoreReply "string + unit"
  | ManifestReply "string + applied_manifest option"
  | ManifestsReply "string + applied_manifest list"

record dht_manager =
  dm_pending_queries :: "(nat, dht_query_context) hmap"
  dm_calls :: "dht_call list"
  dm_replies :: "(nat \<times> dht_reply) list"

definition dht_manager_new :: dht_manager where
  "dht_manager_new = \<lparr> dm_pending_queries = hm_empty, dm_calls = [], dm_replies = [] \<rparr>"

definition dht_send :: "nat \<Rightarrow> dht_reply \<Rightarrow> dht_manager \<Rightarrow> dht_manager" where
  "dht_send tx r d = d \<lparr> dm_replies := dm_replies d @ [(tx, r)] \<rparr>"

definition manifest_key :: "string \<Rightarrow> bytes" where
  "manifest_key i = bytes_of_string (''manifest:'' @ i)"

definition peer_index_key :: "string \<Rightarrow> bytes" where
  "peer_index_key peer_id = bytes_of_string (''peer-index:'' @ peer_id)"

section \<open>Operations\<close>

text \<open>The manifest is written again from its fields; scheme and operation are read and not used.\<close>

definition complete_label :: "string option \<times> string option \<Rightarrow> (string \<times> string) option" where
  "complete_label kv = (case kv of (Some k, Some v) \<Rightarrow> Some (k, v) | _ \<Rightarrow> None)"

definition rebuilt_manifest :: "string \<Rightarrow> applied_manifest \<Rightarrow> applied_manifest" where
  "rebuilt_manifest manifest_id m =
     (let labels = (case am_labels m of Some labels_vec \<Rightarrow> List.map_filter complete_label labels_vec | None \<Rightarrow> []) in
      build_applied_manifest manifest_id (or_empty (am_operation_id m)) (or_empty (am_origin_peer m))
        (or_empty (am_owner_pubkey m)) (or_empty (am_signature m)) (or_empty (am_manifest_json m))
        (or_empty (am_manifest_kind m)) labels (am_timestamp m) (am_ttl_secs m) (or_empty (am_content_hash m)))"

definition store_manifest ::
  "'t flat_lib \<Rightarrow> string + nat \<Rightarrow> applied_manifest \<Rightarrow> nat \<Rightarrow> dht_manager \<Rightarrow> dht_manager" where
  "store_manifest F put_record manifest reply_tx d =
     (case am_id manifest of
        None \<Rightarrow> dht_send reply_tx (StoreReply (Inl ''Manifest missing ID'')) d
      | Some manifest_id \<Rightarrow>
          (let manifest_bytes = wire_applied_manifest F (rebuilt_manifest manifest_id manifest);
               d = d \<lparr> dm_calls := dm_calls d @ [PutRecord (manifest_key manifest_id) manifest_bytes] \<rparr> in
           case put_record of
             Inr query_id \<Rightarrow>
               d \<lparr> dm_pending_queries := hm_insert query_id (StoreContext reply_tx) (dm_pending_queries d) \<rparr>
           | Inl e \<Rightarrow> dht_send reply_tx (StoreReply (Inl (''Failed to initiate DHT store: '' @ e))) d))"

definition get_manifest :: "nat \<Rightarrow> string \<Rightarrow> nat \<Rightarrow> dht_manager \<Rightarrow> dht_manager" where
  "get_manifest query_id i reply_tx d =
     d \<lparr> dm_calls := dm_calls d @ [GetRecord (manifest_key i)],
         dm_pending_queries := hm_insert query_id (GetContext reply_tx) (dm_pending_queries d) \<rparr>"

text \<open>\<open>put_record\<close> is what Kademlia answers to a store, \<open>query_id\<close> the id it gives to a lookup.\<close>

definition handle_operation ::
  "'t flat_lib \<Rightarrow> string + nat \<Rightarrow> nat \<Rightarrow> dht_operation \<Rightarrow> dht_manager \<Rightarrow> dht_manager" where
  "handle_operation F put_record query_id operation d =
     (case operation of
        StoreManifest manifest reply_tx \<Rightarrow> store_manifest F put_record manifest reply_tx d
      | GetManifest i reply_tx \<Rightarrow> get_manifest query_id i reply_tx d
      | GetManifestsByPeer _ reply_tx \<Rightarrow>
          dht_send reply_tx (ManifestsReply (Inl ''Peer queries not implemented yet'')) d)"

datatype dht_result =
    PutRecordDone
  | PutRecordFailed string
  | FoundRecord bytes
  | FinishedWithNoAdditionalRecord
  | GetRecordFailed string
  | UnexpectedResult

text \<open>
  The record is parsed where it arrived, in a copy, and in the copy once it is leaked; the text
  of a parse error is the library's.
\<close>

definition found_reply :: "'t flat_lib \<Rightarrow> (bytes \<Rightarrow> string) \<Rightarrow> bytes \<Rightarrow> string + applied_manifest option" where
  "found_reply F parse_error b =
     (case read_applied_manifest F b of
        None \<Rightarrow> Inl (''Failed to parse manifest: '' @ parse_error b)
      | Some _ \<Rightarrow>
          (let owned_bytes = b in
           case read_applied_manifest F owned_bytes of
             None \<Rightarrow> Inl (''Failed to parse manifest: '' @ parse_error owned_bytes)
           | Some _ \<Rightarrow>
               (let leaked_bytes = owned_bytes in
                case read_applied_manifest F leaked_bytes of
                  None \<Rightarrow> Inl (''Failed to parse manifest: '' @ parse_error leaked_bytes)
                | Some static_manifest \<Rightarrow> Inr (Some static_manifest))))"

definition query_reply ::
  "'t flat_lib \<Rightarrow> (bytes \<Rightarrow> string) \<Rightarrow> dht_query_context \<Rightarrow> dht_result \<Rightarrow> nat \<times> dht_reply" where
  "query_reply F parse_error context result =
     (case context of
        StoreContext reply_tx \<Rightarrow>
          (reply_tx, StoreReply
             (case result of
                PutRecordDone \<Rightarrow> Inr ()
              | PutRecordFailed e \<Rightarrow> Inl (''Failed to store manifest: '' @ e)
              | _ \<Rightarrow> Inl ''Unexpected query result''))
      | GetContext reply_tx \<Rightarrow>
          (reply_tx, ManifestReply
             (case result of
                FoundRecord b \<Rightarrow> found_reply F parse_error b
              | FinishedWithNoAdditionalRecord \<Rightarrow> Inr None
              | GetRecordFailed e \<Rightarrow> Inl (''Failed to get manifest: '' @ e)
              | _ \<Rightarrow> Inl ''Unexpected query result'')))"

definition handle_query_result ::
  "'t flat_lib \<Rightarrow> (bytes \<Rightarrow> string) \<Rightarrow> nat \<Rightarrow> dht_result \<Rightarrow> dht_manager \<Rightarrow> dht_manager" where
  "handle_query_result F parse_error query_id result d =
     (case hm_get (dm_pending_queries d) query_id of
        None \<Rightarrow> d
      | Some context \<Rightarrow>
          (case query_reply F parse_error context result of
             (reply_tx, r) \<Rightarrow>
               dht_send reply_tx r (d \<lparr> dm_pending_queries := hm_remove query_id (dm_pending_queries d) \<rparr>)))"

definition create_applied_manifest_for_deployment ::
  "'t flat_lib \<Rightarrow> (hash_input \<Rightarrow> u64) \<Rightarrow> system_time \<Rightarrow> string \<Rightarrow> string \<Rightarrow> string \<Rightarrow> string \<Rightarrow> string \<Rightarrow> bytes" where
  "create_applied_manifest_for_deployment F hash now i operation_id origin_peer manifest_json manifest_kind =
     (let timestamp = of_nat (now div 1000000);
          content_hash = to_hex (unat (hash (HashStr manifest_json)));
          labels = [(''deployed-by'', ''beemesh-node''), (''kind'', manifest_kind)] in
      wire_applied_manifest F (build_applied_manifest i operation_id origin_peer [] [] manifest_json manifest_kind
        labels timestamp 3600 content_hash))"

section \<open>Runs\<close>

text \<open>
  Operations and results in any order. A query id that Kademlia gives is not the id of a query
  that is still pending.
\<close>

datatype dht_event = Operation dht_operation | QueryResult nat dht_result

inductive dht_step :: "'t flat_lib \<Rightarrow> dht_event \<Rightarrow> dht_manager \<Rightarrow> dht_manager \<Rightarrow> bool" for F where
  step_operation:
    "hm_get (dm_pending_queries d) query_id = None
     \<Longrightarrow> put_record = Inl e \<or> put_record = Inr query_id
     \<Longrightarrow> dht_step F (Operation operation) d (handle_operation F put_record query_id operation d)"
| step_result: "dht_step F (QueryResult query_id result) d (handle_query_result F parse_error query_id result d)"

inductive dht_run :: "'t flat_lib \<Rightarrow> dht_event list \<Rightarrow> dht_manager \<Rightarrow> bool" for F where
  dht_start: "dht_run F [] dht_manager_new"
| dht_next: "dht_run F evs d \<Longrightarrow> dht_step F ev d d' \<Longrightarrow> dht_run F (evs @ [ev]) d'"

fun asks :: "nat \<Rightarrow> dht_event \<Rightarrow> bool" where
  "asks tx (Operation (StoreManifest m tx')) = (tx' = tx)"
| "asks tx (Operation (GetManifest i tx')) = (tx' = tx)"
| "asks tx (Operation (GetManifestsByPeer p tx')) = (tx' = tx)"
| "asks tx (QueryResult q r) = False"

fun context_tx :: "dht_query_context \<Rightarrow> nat" where
  "context_tx (StoreContext tx) = tx"
| "context_tx (GetContext tx) = tx"

definition dht_waiting :: "nat \<Rightarrow> dht_manager \<Rightarrow> nat" where
  "dht_waiting tx d = length (filter (\<lambda>c. context_tx c = tx) (hm_values (dm_pending_queries d)))"

definition answered :: "nat \<Rightarrow> dht_manager \<Rightarrow> nat" where
  "answered tx d = length (filter (\<lambda>(tx', _). tx' = tx) (dm_replies d))"

lemma dht_waiting_insert:
  assumes "hm_get (dm_pending_queries d) q = None"
  shows "dht_waiting tx (d \<lparr> dm_pending_queries := hm_insert q c (dm_pending_queries d) \<rparr>)
    = dht_waiting tx d + (if context_tx c = tx then 1 else 0)"
  by (simp add: dht_waiting_def hm_insert_fresh [OF assms] hm_values_def)

lemma filter_values_remove:
  assumes "hm_wf m" "hm_get m q = Some c"
  shows "length (filter P (hm_values m)) = length (filter P (hm_values (hm_remove q m))) + (if P c then 1 else 0)"
  using assms unfolding hm_wf_def hm_get_def hm_remove_def hm_values_def
proof (induction m)
  case (Cons e m)
  then show ?case by (cases e) (auto simp: delete_idem image_iff split: if_splits)
qed simp

lemma dht_waiting_calls [simp]: "dht_waiting tx (d \<lparr> dm_calls := c \<rparr>) = dht_waiting tx d"
  and answered_calls [simp]: "answered tx (d \<lparr> dm_calls := c \<rparr>) = answered tx d"
  and answered_pending [simp]: "answered tx (d \<lparr> dm_pending_queries := p \<rparr>) = answered tx d"
  by (simp_all add: dht_waiting_def answered_def)

lemma send_counts [simp]:
  "dht_waiting tx (dht_send tx' r d) = dht_waiting tx d"
  "answered tx (dht_send tx' r d) = answered tx d + (if tx' = tx then 1 else 0)"
  "dm_pending_queries (dht_send tx' r d) = dm_pending_queries d"
  by (simp_all add: dht_send_def dht_waiting_def answered_def)

lemma query_reply_tx: "fst (query_reply F pe c r) = context_tx c"
  by (cases c) (simp_all add: query_reply_def)

lemma dht_step_counts:
  assumes "dht_step F ev d d'" "hm_wf (dm_pending_queries d)"
  shows "hm_wf (dm_pending_queries d')
    \<and> answered tx d' + dht_waiting tx d' = answered tx d + dht_waiting tx d + (if asks tx ev then 1 else 0)"
  using assms(1)
proof cases
  case (step_operation q put e op)
  then show ?thesis
    using assms(2) dht_waiting_insert [of "d \<lparr> dm_calls := _ \<rparr>" q tx]
    by (cases op) (auto simp: handle_operation_def store_manifest_def get_manifest_def Let_def split: option.split sum.split)
next
  case (step_result q r pe)
  show ?thesis
  proof (cases "hm_get (dm_pending_queries d) q")
    case None
    then show ?thesis using step_result assms(2) by (simp add: handle_query_result_def)
  next
    case (Some c)
    have "dht_waiting tx d = dht_waiting tx (d \<lparr> dm_pending_queries := hm_remove q (dm_pending_queries d) \<rparr>)
        + (if context_tx c = tx then 1 else 0)"
      using filter_values_remove [OF assms(2) Some, of "\<lambda>c. context_tx c = tx"] by (simp add: dht_waiting_def)
    then show ?thesis
      using step_result assms(2) Some query_reply_tx [of F pe c r]
      by (auto simp: handle_query_result_def case_prod_beta)
  qed
qed

lemma dht_run_counts:
  assumes "dht_run F evs d"
  shows "hm_wf (dm_pending_queries d) \<and> answered tx d + dht_waiting tx d = length (filter (asks tx) evs)"
  using assms
proof (induction)
  case dht_start
  show ?case by (simp add: dht_manager_new_def answered_def dht_waiting_def hm_values_def hm_empty_def hm_wf_def)
next
  case (dht_next evs d ev d')
  then show ?case using dht_step_counts [OF dht_next.hyps(2), of tx] by simp
qed

section \<open>Properties\<close>

text \<open>
  Every question gets one answer: in any run of the manager, the answers sent on a channel and
  its pending queries together are as many as the operations that named it. So a channel that
  is used once gets at most one answer, a result for a query that is not pending sends none, and nothing is left
  unanswered once no query is pending.
\<close>

theorem dht_answers_conserved:
  assumes "dht_run F evs d"
  shows "answered tx d + dht_waiting tx d = length (filter (asks tx) evs)
    \<and> (dm_pending_queries d = hm_empty \<longrightarrow> answered tx d = length (filter (asks tx) evs))"
  using dht_run_counts [OF assms, of tx] by (auto simp: dht_waiting_def hm_values_def hm_empty_def)

text \<open>
  (C25) A manifest that one manager stores is found by any manager that asks for it, and the record is
  filed under the key that the lookup asks for. What is found has each of the texts and bytes of the stored manifest (an
  absent one as empty), its complete labels in order, its time stamp and lifetime; but the signature
  scheme and the kind of operation are replaced by \<open>NONE\<close> and \<open>APPLY\<close>, whatever they were.
\<close>

theorem stored_manifest_found:
  assumes "flat_laws F" "am_id m = Some i"
  shows "\<exists>b found. dm_calls (handle_operation F (Inr q') q'' (StoreManifest m tx') d)
       = dm_calls d @ [PutRecord (manifest_key i) b]
    \<and> dm_calls (handle_operation F put q (GetManifest i tx) e) = dm_calls e @ [GetRecord (manifest_key i)]
    \<and> dm_replies (handle_query_result F pe q (FoundRecord b) (handle_operation F put q (GetManifest i tx) e))
       = dm_replies e @ [(tx, ManifestReply (Inr (Some found)))]
    \<and> am_id found = Some i \<and> am_operation_id found = Some (or_empty (am_operation_id m))
    \<and> am_origin_peer found = Some (or_empty (am_origin_peer m)) \<and> am_manifest_json found = Some (or_empty (am_manifest_json m))
    \<and> am_manifest_kind found = Some (or_empty (am_manifest_kind m)) \<and> am_content_hash found = Some (or_empty (am_content_hash m))
    \<and> am_owner_pubkey found = Some (or_empty (am_owner_pubkey m)) \<and> am_signature found = Some (or_empty (am_signature m))
    \<and> am_labels found = Some (map (\<lambda>(k, v). (Some k, Some v)) (List.map_filter complete_label (or_empty (am_labels m))))
    \<and> am_timestamp found = am_timestamp m \<and> am_ttl_secs found = am_ttl_secs m
    \<and> scheme_variant_name (am_signature_scheme found) = Some ''NONE''
    \<and> operation_variant_name (am_operation found) = Some ''APPLY''"
proof -
  let ?m = "rebuilt_manifest i m"
  let ?b = "wire_applied_manifest F ?m"
  have read: "found_reply F pe ?b = Inr (Some ?m)"
    by (simp add: found_reply_def applied_manifest_fields [OF assms(1)])
  show ?thesis
    by (intro exI [of _ ?b] exI [of _ ?m])
      (simp add: handle_operation_def store_manifest_def get_manifest_def assms(2) Let_def handle_query_result_def
        query_reply_def read dht_send_def, simp add: rebuilt_manifest_def build_applied_manifest_def Let_def
        scheme_variant_name_def operation_variant_name_def signature_schemes_def operation_types_def split: option.split)
qed

end
