(* ===== verification/Wire_Examples.thy ===== *)
theory Wire_Examples
  imports Wire_Laws Network_Examples
begin

text \<open>
  A concrete library of tables, in which the laws hold: a table is the list of its entries as bytes, each the slot
  and the value in the format of theory \<open>Toy_Codec\<close>; a finished buffer is its table.
\<close>

section \<open>Values as bytes\<close>

fun put_lists :: "bytes list \<Rightarrow> bytes" where
  "put_lists [] = []"
| "put_lists (b # bs) = put_list b @ put_lists bs"

fun get_lists :: "nat \<Rightarrow> bytes \<Rightarrow> bytes list" where
  "get_lists 0 b = []"
| "get_lists (Suc n) b = (case get_list b of None \<Rightarrow> [] | Some (x, r) \<Rightarrow> x # get_lists n r)"

lemma get_put_lists: "length bs \<le> n \<Longrightarrow> get_lists n (put_lists bs) = bs"
proof (induction bs arbitrary: n)
  case Nil
  then show ?case by (cases n) (simp_all add: get_list_def)
next
  case (Cons b bs)
  then show ?case by (cases n) simp_all
qed

lemma length_put_lists: "length bs \<le> length (put_lists bs)"
  by (induction bs) (simp_all add: put_list_def)

definition toy_pack :: "bytes list \<Rightarrow> bytes" where
  "toy_pack bs = put_list (put_lists bs)"

definition toy_unpack :: "bytes \<Rightarrow> (bytes list \<times> bytes) option" where
  "toy_unpack b = map_option (\<lambda>(x, r). (get_lists (length x) x, r)) (get_list b)"

lemma toy_unpack_pack [simp]: "toy_unpack (toy_pack bs @ r) = Some (bs, r)"
  by (simp add: toy_unpack_def toy_pack_def get_put_lists length_put_lists)

definition put_value :: "bytes fb_value \<Rightarrow> bytes" where
  "put_value v =
     (case v of
        VBool x \<Rightarrow> 0 # put_list [if x then 1 else 0]
      | VI8 x \<Rightarrow> 1 # put_list [x]
      | VU32 x \<Rightarrow> 2 # put_list (be_encode 4 (unat x))
      | VU64 x \<Rightarrow> 3 # put_list (be_encode 8 (unat x))
      | VStr x \<Rightarrow> 4 # put_list (bytes_of_string x)
      | VBytes x \<Rightarrow> 5 # put_list x
      | VStrs xs \<Rightarrow> 6 # toy_pack (map bytes_of_string xs)
      | VTables ts \<Rightarrow> 7 # toy_pack ts)"

definition get_value :: "bytes \<Rightarrow> (bytes fb_value \<times> bytes) option" where
  "get_value b =
     (case b of
        [] \<Rightarrow> None
      | tag # b \<Rightarrow>
          if tag = 6 then map_option (\<lambda>(xs, r). (VStrs (map string_of_bytes xs), r)) (toy_unpack b)
          else if tag = 7 then map_option (\<lambda>(ts, r). (VTables ts, r)) (toy_unpack b)
          else map_option (\<lambda>(x, r).
            (if tag = 0 then VBool (x = [1]) else if tag = 1 then VI8 (hd x) else if tag = 2 then VU32 (of_nat (be_decode x))
             else if tag = 3 then VU64 (of_nat (be_decode x)) else if tag = 4 then VStr (string_of_bytes x) else VBytes x, r))
            (get_list b))"

lemma get_put_value [simp]: "get_value (put_value v @ r) = Some (v, r)"
proof (cases v)
  case (VU32 x)
  have "unat x < 256 ^ 4" using unsigned_less [of x, where 'a = nat] by simp
  with VU32 show ?thesis by (simp add: put_value_def get_value_def)
next
  case (VU64 x)
  have "unat x < 256 ^ 8" using unsigned_less [of x, where 'a = nat] by simp
  with VU64 show ?thesis by (simp add: put_value_def get_value_def)
qed (simp_all add: put_value_def get_value_def comp_def)

section \<open>Tables as bytes\<close>

definition put_entry :: "nat \<Rightarrow> bytes fb_value \<Rightarrow> bytes \<Rightarrow> bytes" where
  "put_entry slot v t = put_list (replicate slot 0) @ put_list (put_value v) @ t"

fun toy_find :: "nat \<Rightarrow> bytes \<Rightarrow> nat \<Rightarrow> bytes fb_value option \<Rightarrow> bytes fb_value option" where
  "toy_find 0 t slot d = d"
| "toy_find (Suc n) t slot d =
     (case get_list t of
        None \<Rightarrow> d
      | Some (key, r) \<Rightarrow>
          (case get_list r of
             None \<Rightarrow> d
           | Some (v, r) \<Rightarrow> if length key = slot then map_option fst (get_value v) else toy_find n r slot d))"

lemma get_list_shorter: "get_list b = Some (x, r) \<Longrightarrow> length r < length b"
  by (auto simp: get_list_def Let_def split: if_splits)

lemma toy_find_enough: "length t \<le> n \<Longrightarrow> toy_find n t slot d = toy_find (length t) t slot d"
proof (induction "length t" arbitrary: t n rule: less_induct)
  case less
  show ?case
  proof (cases t)
    case Nil
    then show ?thesis by (cases n) (simp_all add: get_list_def)
  next
    case (Cons b t')
    then obtain m where n: "n = Suc m" "length t' \<le> m" using less.prems by (cases n) auto
    have "toy_find m r slot d = toy_find (length t') r slot d"
      if "get_list t = Some (key, r')" "get_list r' = Some (v, r)" for key r' v r
    proof -
      have "length r \<le> length t'" "length r < length t" using get_list_shorter [OF that(1)] get_list_shorter [OF that(2)] Cons by auto
      then show ?thesis using less.hyps [of r m] less.hyps [of r "length t'"] n(2) by simp
    qed
    then show ?thesis using n(1) Cons by (auto split: option.split)
  qed
qed

definition toy_flat :: "bytes flat_lib" where
  "toy_flat = \<lparr> fl_start_table = [], fl_push_slot_always = put_entry,
     fl_push_slot = (\<lambda>slot v v0 t. if v = v0 then t else put_entry slot v t),
     fl_get = (\<lambda>t slot d. toy_find (length t) t slot d), fl_finish = (\<lambda>t. t), fl_root = (\<lambda>visited b. Some b) \<rparr>"

lemma toy_find_entry: "toy_find (length (put_entry slot v t)) (put_entry slot v t) slot' d
    = (if slot' = slot then Some v else toy_find (length t) t slot' d)"
proof -
  obtain m where m: "length (put_entry slot v t) = Suc m" "length t \<le> m" by (simp add: put_entry_def put_list_def)
  have "get_value (put_value v) = Some (v, [])" using get_put_value [of v "[]"] by simp
  then show ?thesis unfolding m(1) using toy_find_enough [OF m(2)] by (simp add: put_entry_def)
qed

lemma toy_flat_laws: "flat_laws toy_flat"
proof -
  have "flat_slots toy_flat" by (simp add: flat_slots_def toy_flat_def toy_find_entry)
  moreover have "fl_root toy_flat visited (fl_finish toy_flat t) = Some t" for visited t by (simp add: toy_flat_def)
  ultimately show ?thesis unfolding flat_laws_def flat_verified_def by blast
qed

section \<open>Messages\<close>

theorem generated_code_meets_laws_witness:
  "handshake_laws (wire_mesh toy_flat toy_mesh)
   \<and> nl_delete_request (xl_node (wire_mesh toy_flat toy_mesh)) (wire_delete_request toy_flat ''m'' ''op'' ''p'' True)
       = Some \<lparr> del_manifest_id = Some ''m'', del_operation_id = Some ''op'', del_force = True \<rparr>
   \<and> root_as_apply_request toy_flat (fl_finish toy_flat (apply_request_create toy_flat
         (build_apply_request 2 ''op'' ''json'' ''p'' ''m''))) = Some (build_apply_request 2 ''op'' ''json'' ''p'' ''m'')"
proof -
  have laws: "pqc_init_ok (nl_crypto (xl_node toy_mesh))"
    "\<forall>b. b64_decode (nl_crypto (xl_node toy_mesh)) (b64_encode (nl_crypto (xl_node toy_mesh)) b) = Some b"
    using toy_laws(1) unfolding toy_mesh_crypto(1) crypto_laws_def by blast+
  have "nl_apply_request (xl_node (wire_mesh toy_flat toy_mesh)) = root_as_apply_request toy_flat"
    by (simp add: wire_mesh_def wire_node_def)
  then show ?thesis
    using generated_code_meets_laws [OF toy_flat_laws laws, of "build_capacity_request 1 2 3 1"
        "build_capacity_reply None (baseline_capacity_params ''r'' ''p'')" "''m''" "''op''" "''p''" True
        "build_apply_request 2 ''op'' ''json'' ''p'' ''m''"]
    by metis
qed

theorem rest_messages_read_back_witness:
  "\<exists>ts. root_as_candidates_response toy_flat (wire_rest_message toy_flat (build_candidates_response_with_keys True
        [(''a'', ''ka''), (''b'', ''kb'')])) = Some \<lparr> cra_ok = True, cra_candidates = Some ts \<rparr>
     \<and> map (candidate_node_of_table toy_flat) ts
       = [\<lparr> cna_peer_id = Some ''a'', cna_public_key = Some ''ka'' \<rparr>, \<lparr> cna_peer_id = Some ''b'', cna_public_key = Some ''kb'' \<rparr>]"
  using rest_messages_read_back [OF toy_flat_laws, of "[''a'']" True "[(''a'', ''ka''), (''b'', ''kb'')]"] by auto

end
