(* ===== verification/Lifecycle_Examples.thy ===== *)
theory Lifecycle_Examples
  imports Workload_Lifecycle Dht_Manager Wire_Examples
begin

text \<open>
  Concrete runs for the properties of the theories \<open>Workload_Lifecycle\<close> and \<open>Dht_Manager\<close>, over the tables of theory
  \<open>Wire_Examples\<close>: a node with four cores bids for the manifest \<open>m\<close> and runs it.
\<close>

section \<open>A bid\<close>

definition toy_wired :: "manifest_lib \<Rightarrow> mesh_lib" where
  "toy_wired ml = toy_mesh \<lparr> xl_node := toy_node_lib \<lparr> nl_manifest := ml \<rparr> \<rparr>"

definition toy_asking :: net_env where
  "toy_asking = (toy_net 1 10) \<lparr> nv_local_peer := ''peerA'' \<rparr>"

definition toy_bidder :: "mock_engine mesh_node" where
  "toy_bidder = toy_mesh_node ((toy_node [9]) \<lparr> resource_verifier_of := host4 \<rparr>)"

definition toy_question :: bytes where
  "toy_question = projr (sign_payload_default (wire_crypto toy_flat toy_lib) toy_asking
     (fl_finish toy_flat (capacity_request_create toy_flat toy_capacity_request)) ''capacity_request'' (Some ''cap''))"

definition toy_bid_state :: "manifest_lib \<Rightarrow> mock_engine mesh_node" where
  "toy_bid_state ml = handle_event (wire_mesh toy_flat (toy_wired ml)) toy_ops (\<lambda>_. toy_net 1 10) (toy_net 1 10)
     (SchedulerMessage ''peerA'' (Request toy_question)) toy_bidder"

lemma toy_wired_parts [simp]:
  "nl_crypto (xl_node (toy_wired ml)) = toy_lib" "nl_manifest (xl_node (toy_wired ml)) = ml"
  by (simp_all add: toy_wired_def toy_node_lib_def)

lemma toy_asking_parts [simp]:
  "nv_keypair toy_asking = Inr ([7], [7])" "nv_random toy_asking k = 1" "nv_local_peer toy_asking = ''peerA''"
  by (simp_all add: toy_asking_def toy_net_def)

lemma toy_wire_crypto: "crypto_laws (wire_crypto toy_flat toy_lib)" "dsa_keypair (wire_crypto toy_flat toy_lib) k k"
  using toy_laws(1) wire_crypto_laws [OF toy_flat_laws, of toy_lib] unfolding crypto_laws_def [of toy_lib] by blast
    (simp add: dsa_keypair_def wire_crypto_def toy_lib_def)

lemma toy_nonces: "nonces (mn_node toy_bidder) = hm_empty"
  by (simp add: toy_bidder_def)

lemma toy_question_verified:
  "\<exists>st v. verify_signed_message (wire_crypto toy_flat toy_lib) 10 ''peerA'' toy_question hm_empty = (st, Some v)
    \<and> root_as_capacity_request toy_flat (ve_payload v) = Some toy_capacity_request
    \<and> store_ok st \<and> nonce_seen_at st ''peerA'' ''apply_1'' = None"
proof -
  let ?L = "wire_crypto toy_flat toy_lib"
  obtain b st v where b: "sign_payload_default ?L toy_asking
      (fl_finish toy_flat (capacity_request_create toy_flat toy_capacity_request)) ''capacity_request'' (Some ''cap'') = Inr b"
    and v: "verify_envelope_and_check_nonce_for_peer ?L 10 ''peerA'' b hm_empty = (st, Inr v)"
      "ve_payload v = fl_finish toy_flat (capacity_request_create toy_flat toy_capacity_request)"
    and e: "\<exists>e. fb_root_as_envelope ?L b = Some e \<and> fe_nonce e = Some (make_nonce (Some ''cap'') (nv_random toy_asking 0))"
    using payload_default_accepted [OF toy_wire_crypto(1) toy_asking_parts(1) toy_wire_crypto(2) toy_nonce_fresh,
        where payload = "fl_finish toy_flat (capacity_request_create toy_flat toy_capacity_request)"
          and ptype = "''capacity_request''" and prefix = "Some ''cap''" and now = 10 and peer = "''peerA''"] by blast
  then obtain e where e: "fb_root_as_envelope ?L b = Some e" "fe_nonce e = Some (make_nonce (Some ''cap'') 1)" by auto
  note st = verified_store [OF e(1) toy_nonce_fresh(1) v(1)]
  have "nonce_seen_at st ''peerA'' ''apply_1'' = None"
    using st(2) [of "''peerA''" "''apply_1''"] toy_nonce_fresh(2)
    by (cases "nonce_seen_at st ''peerA'' ''apply_1''") (auto simp: e(2) make_nonce_def)
  with st(1) show ?thesis
    using b v by (simp add: toy_question_def verify_signed_message_def verify_signed_payload_for_peer_def
        capacity_request_read_back [OF toy_flat_laws])
qed

lemma request_answered:
  assumes "\<not> ce_disabled env" "verify_signed_message L (ce_now_nonce env) peer req (cn_nonces n) = (st, Some v)"
    and "root (ve_payload v) = Some q" "\<not> stale env (ve_timestamp_ms v)" "or_empty (cq_request_id q) = i"
    and "extract_manifest_id_from_request_id i = Some m"
    and "check_and_reserve env i m (request_of q) (cn_verifier n) = (vf, Some c)"
  shows "scheduler_request L root env peer req n = (n \<lparr> cn_nonces := st, cn_verifier := vf \<rparr>, Some (bid env i c))"
  using assms by (simp add: scheduler_request_def answer_capacity_request_def Let_def)

lemma toy_bid:
  "\<exists>rep st v. mn_calls (toy_bid_state ml) = mn_calls toy_bidder @ [RespondCapacity ''peerA'' rep]
    \<and> cp_request_id (rp_params rep) = candidates_request_id ''m'' ''u''
    \<and> mn_node (toy_bid_state ml) = (mn_node toy_bidder) \<lparr> resource_verifier_of := v, nonces := st \<rparr>
    \<and> store_ok st \<and> nonce_seen_at st ''peerA'' ''apply_1'' = None"
proof -
  let ?env = "capacity_env_of (toy_net 1 10) toy_bidder" and ?i = "candidates_request_id ''m'' ''u''"
  obtain st v where v: "verify_signed_message (wire_crypto toy_flat toy_lib) 10 ''peerA'' toy_question hm_empty = (st, Some v)"
    "root_as_capacity_request toy_flat (ve_payload v) = Some toy_capacity_request"
    "store_ok st" "nonce_seen_at st ''peerA'' ''apply_1'' = None" using toy_question_verified by blast
  have env: "ce_now_nonce ?env = 10" "\<not> ce_disabled ?env" "ce_now_ms ?env = 100"
    by (simp_all add: capacity_env_of_def toy_net_def toy_capacity_env_def is_scheduling_disabled_for_def toy_bidder_def
        toy_mesh_node_def)
  have times: "ce_profile ?env = ce_profile toy_capacity_env" "ce_check ?env = ce_check toy_capacity_env"
    "ce_prune ?env = ce_prune toy_capacity_env" "ce_reserve ?env = ce_reserve toy_capacity_env"
    by (simp_all add: capacity_env_of_def)
  have "check_and_reserve ?env ?i ''m'' (request_of toy_capacity_request) host4
      = check_and_reserve toy_capacity_env ?i ''m'' (request_of toy_capacity_request) host4"
    unfolding check_and_reserve_def times ..
  then obtain vf c where c: "check_and_reserve ?env ?i ''m'' (request_of toy_capacity_request) host4 = (vf, Some c)"
    using toy_check by (metis option.exhaust prod.collapse)
  have fresh: "\<not> stale ?env ts" for ts
  proof -
    have "unat (saturating_sub 100 ts) \<le> 100" by (simp add: unat_saturating_sub)
    also have "\<dots> \<le> unat (500 :: u64)" by simp
    finally show ?thesis unfolding stale_def env(3) FREE_CAPACITY_TIMEOUT_MS_def not_less word_le_nat_alt .
  qed
  have view: "cn_verifier (capacity_view toy_bidder) = host4" "cn_nonces (capacity_view toy_bidder) = hm_empty"
    by (simp_all add: toy_bidder_def)
  have "scheduler_request (wire_crypto toy_flat toy_lib) (root_as_capacity_request toy_flat) ?env ''peerA'' toy_question
      (capacity_view toy_bidder) = (capacity_view toy_bidder \<lparr> cn_nonces := st, cn_verifier := vf \<rparr>, Some (bid ?env ?i c))"
    by (rule request_answered [OF env(2) _ _ fresh _ toy_manifest_extracted])
      (use v(1,2) c env(1) view in \<open>simp_all add: toy_capacity_request_def [THEN arg_cong, of cq_request_id]\<close>)
  then show ?thesis
    using v(3,4)
    by (intro exI [of _ "bid ?env ?i c"] exI [of _ st] exI [of _ vf])
      (simp add: toy_bid_state_def on_scheduler_message_def wire_mesh_def put_capacity_def call_def bid_def
        compose_capacity_reply_def build_capacity_reply_with_def build_capacity_reply_def baseline_capacity_params_def
        wire_node_def)
qed

lemma toy_bidder_parts:
  "runtime_registry_of (mn_node toy_bidder) = Some toy_registry"
  "provider_manager_of (mn_node toy_bidder) = Some provider_manager_new_default"
  "reservations (resource_verifier_of (mn_node toy_bidder)) = hm_empty"
  by (simp_all add: toy_bidder_def toy_node_def host4_def verifier_new_def)

lemma toy_reserve_time: "ce_reserve (nv_capacity (toy_net r t)) = 13"
  by (simp add: toy_capacity_env_def)

lemma toy_ledger_wf: "hm_wf (reservations (resource_verifier_of (mn_node toy_bidder)))"
  by (simp add: toy_bidder_parts)

lemma toy_registry_engines: "engines toy_registry = [(''mock'', toy_engine)]"
  by (simp add: toy_registry_def)

lemma toy_times:
  "nv_clock (toy_net 2 20) 1 < ce_reserve (nv_capacity (toy_net 1 10)) + 3 * 1000000000"
  "ae_profile (nv_apply (toy_net 2 20)) = Debug"
  "\<forall>ev \<in> set []. during (ce_reserve (nv_capacity (toy_net 1 10))) ev"
  by (simp_all add: toy_reserve_time) (simp add: toy_net_def toy_env_def)

lemma toy_net_peer: "nv_local_peer (toy_net r t) = ''peerB''"
  by (simp add: toy_net_def)

lemma toy_bid_parts:
  "\<exists>rep. mn_calls (toy_bid_state ml) = mn_calls toy_bidder @ [RespondCapacity ''peerA'' rep]
    \<and> extract_manifest_id_from_request_id (cp_request_id (rp_params rep)) = Some ''m''
    \<and> store_ok (nonces (mn_node (toy_bid_state ml)))
    \<and> nonce_seen_at (nonces (mn_node (toy_bid_state ml))) ''peerA'' (''apply_'' @ to_decimal (unat (nv_random toy_asking 0))) = None
    \<and> runtime_registry_of (mn_node (toy_bid_state ml)) = Some toy_registry
    \<and> provider_manager_of (mn_node (toy_bid_state ml)) = Some provider_manager_new_default"
proof -
  obtain rep st v where rep: "mn_calls (toy_bid_state ml) = mn_calls toy_bidder @ [RespondCapacity ''peerA'' rep]"
      "cp_request_id (rp_params rep) = candidates_request_id ''m'' ''u''"
    and node: "mn_node (toy_bid_state ml) = (mn_node toy_bidder) \<lparr> resource_verifier_of := v, nonces := st \<rparr>"
    and st: "store_ok st" "nonce_seen_at st ''peerA'' ''apply_1'' = None" using toy_bid by blast
  have "to_decimal (unat (1 :: u32)) = ''1''" by code_simp
  then show ?thesis
    using rep st by (auto simp: node toy_bidder_parts toy_manifest_extracted simp del: unsigned_1)
qed

theorem bid_kept_witness:
  "snd (has_active_reservation_for_manifest 1000 ''m''
     (resource_verifier_of (fst (handle_local_delete toy_ops ''k'' False (mn_node (toy_bid_state toy_plain))))))"
proof -
  obtain rep where rep: "mn_calls (toy_bid_state toy_plain) = mn_calls toy_bidder @ [RespondCapacity ''peerA'' rep]"
      "extract_manifest_id_from_request_id (cp_request_id (rp_params rep)) = Some ''m''" using toy_bid_parts by blast
  let ?s = "(toy_bid_state toy_plain) \<lparr> mn_node := fst (handle_local_delete toy_ops ''k'' False (mn_node (toy_bid_state toy_plain))) \<rparr>"
  have "mesh_run (wire_mesh toy_flat (toy_wired toy_plain)) (toy_bid_state toy_plain) ([] @ [RestDelete ''k'']) ?s"
    by (rule mesh_next [OF mesh_start step_rest_delete])
  then show ?thesis
    using bid_kept [OF toy_bid_state_def [symmetric] rep toy_ledger_wf, of "[RestDelete ''k'']" ?s 1000] by (simp add: toy_reserve_time)
qed

section \<open>A deployment\<close>

lemma toy_modified: "modify_manifest_replicas toy_plain (bytes_of_string ''a'') = Inr (bytes_of_string ''b'')"
proof -
  have "from_utf8_lossy (bytes_of_string ''a'') = ''a''" by code_simp
  then show ?thesis by (simp add: modify_manifest_replicas_def toy_plain_def toy_yaml_def)
qed

lemma toy_annotation:
  "Option.bind (ml_yaml_parse toy_plain (from_utf8_lossy (bytes_of_string ''b''))) engine_annotation \<in> {None, Some ''mock''}"
proof -
  have "from_utf8_lossy (bytes_of_string ''b'') = ''b''" by code_simp
  moreover have "engine_annotation toy_manifest = None" by (simp add: engine_annotation_def toy_manifest_def)
  ultimately show ?thesis
    by (simp add: toy_plain_def toy_yaml_def engine_annotation_set_replicas)
qed

theorem bid_then_deployed_witness:
  "\<exists>req. mn_calls (handle_control_message (wire_mesh toy_flat (toy_wired toy_plain)) toy_ops toy_asking (SendApplyRequest ''peerB''
        (fl_finish toy_flat (apply_request_create toy_flat (build_apply_request 1 ''op'' ''a'' ''peerA'' ''m''))) 4) toy_bidder)
        = mn_calls toy_bidder @ [SendRequest ApplyRr ''peerB'' req]
    \<and> runs_for (mock_deploy_workload_with_peer (\<lambda>_. None) True 0 ''m'' (bytes_of_string ''b'')
          (create_deployment_config (build_apply_request 1 ''op'' ''a'' ''peerA'' ''m'')) ''peerB'') ''m'' [7] ''peerA'' (toy_bid_state toy_plain) (handle_event (wire_mesh toy_flat (toy_wired toy_plain)) toy_ops
        (\<lambda>_. toy_net 2 20) (toy_net 2 20) (ApplyMessage ''peerA'' (Request req)) (toy_bid_state toy_plain))"
proof -
  obtain rep where rep: "mn_calls (toy_bid_state toy_plain) = mn_calls toy_bidder @ [RespondCapacity ''peerA'' rep]"
      "extract_manifest_id_from_request_id (cp_request_id (rp_params rep)) = Some ''m''"
    and state: "store_ok (nonces (mn_node (toy_bid_state toy_plain)))"
      "nonce_seen_at (nonces (mn_node (toy_bid_state toy_plain))) ''peerA'' (''apply_'' @ to_decimal (unat (nv_random toy_asking 0))) = None"
      "runtime_registry_of (mn_node (toy_bid_state toy_plain)) = Some toy_registry"
      "provider_manager_of (mn_node (toy_bid_state toy_plain)) = Some provider_manager_new_default"
    using toy_bid_parts by blast
  have key: "nv_keypair toy_asking = Inr ([7], [7])" "dsa_keypair (nl_crypto (xl_node (toy_wired toy_plain))) [7] [7]" "([7] :: bytes) \<noteq> []"
    "''peerB'' \<noteq> nv_local_peer toy_asking" "crypto_laws (nl_crypto (xl_node (toy_wired toy_plain)))" by (simp_all add: toy_laws)
  have manifest: "decrypt_manifest_content (nl_manifest (xl_node (toy_wired toy_plain))) ''a'' = Some (Inr (bytes_of_string ''a''))"
    "modify_manifest_replicas (nl_manifest (xl_node (toy_wired toy_plain))) (bytes_of_string ''a'') = Inr (bytes_of_string ''b'')"
    "Option.bind (ml_yaml_parse (nl_manifest (xl_node (toy_wired toy_plain))) (from_utf8_lossy (bytes_of_string ''b''))) engine_annotation
       \<in> {None, Some ''mock''}"
    using toy_decrypts toy_modified toy_annotation by simp_all
  from bid_then_deployed [OF toy_flat_laws key(5,1-4) toy_bid_state_def [symmetric] rep toy_ledger_wf mesh_start toy_times(3,1) state(1-3)
      toy_registry_engines toy_engine_ok state(4) toy_times(2) manifest, where VA = toy_ops and sA = toy_bidder and replicas = 1 and op = "''op''" and tx = 4
      and pj = "\<lambda>_. None" and y = "\<lambda>_. True" and fmt = "\<lambda>_. []" and now = 0 and clock = "\<lambda>_. 0"
      and ?Es2.0 = "\<lambda>_. toy_net 2 20", folded toy_ops_def, unfolded toy_net_peer]
  show ?thesis .
qed

section \<open>A deletion\<close>

text \<open>Signatures are not empty.\<close>

definition toy_strict :: mesh_lib where
  "toy_strict = toy_mesh \<lparr> xl_node := toy_node_lib \<lparr> nl_crypto := toy_lib \<lparr> dsa_signature_ok := (\<lambda>s. s \<noteq> []) \<rparr> \<rparr> \<rparr>"

lemma toy_flat_absent: "flat_absent toy_flat"
  by (simp add: flat_absent_def toy_flat_def)

theorem remote_delete_refused_witness:
  "\<exists>st. handle_event (wire_mesh toy_flat toy_strict) toy_ops (\<lambda>_. toy_net 1 10) (toy_net 1 10)
       (DeleteMessage ''peerA'' (Request (wire_delete_request toy_flat ''m'' ''op'' ''rest-api'' True))) toy_bidder
     = call (RespondDelete ''peerA'' (delete_error_response ''unsigned or invalid envelope''))
         (toy_bidder \<lparr> mn_node := (mn_node toy_bidder) \<lparr> nonces := st \<rparr> \<rparr>)"
proof -
  have "no_empty_signature (nl_crypto (xl_node toy_strict))"
    by (simp add: no_empty_signature_def toy_strict_def toy_node_lib_def toy_lib_def bytes_of_string_def)
  from remote_delete_refused [OF toy_flat_laws toy_flat_absent this] show ?thesis by blast
qed

section \<open>Stored manifests\<close>

definition toy_applied :: applied_manifest where
  "toy_applied = (build_applied_manifest ''i'' ''op'' ''p'' [1] [2] ''{}'' ''Pod'' [(''k'', ''v'')] 5 60 ''h'')
     \<lparr> am_operation := OperationType 2 \<rparr>"

theorem stored_manifest_found_witness:
  "\<exists>b found. dm_calls (handle_operation toy_flat (Inr 1) 1 (StoreManifest toy_applied 7) dht_manager_new)
       = [PutRecord (manifest_key ''i'') b]
    \<and> dm_replies (handle_query_result toy_flat (\<lambda>_. []) 2 (FoundRecord b)
         (handle_operation toy_flat (Inr 2) 2 (GetManifest ''i'' 8) dht_manager_new)) = [(8, ManifestReply (Inr (Some found)))]
    \<and> am_operation_id found = Some ''op'' \<and> am_origin_peer found = Some ''p'' \<and> am_manifest_kind found = Some ''Pod''
    \<and> am_content_hash found = Some ''h''
    \<and> operation_variant_name (am_operation toy_applied) = Some ''DELETE''
    \<and> operation_variant_name (am_operation found) = Some ''APPLY''"
proof -
  have "am_id toy_applied = Some ''i''" by (simp add: toy_applied_def build_applied_manifest_def)
  from stored_manifest_found [OF toy_flat_laws this, where q' = 1 and q'' = 1 and tx' = 7 and d = dht_manager_new and put = "Inr 2"
      and q = 2 and tx = 8 and e = dht_manager_new and pe = "\<lambda>_. []"]
  obtain b found where found: "dm_calls (handle_operation toy_flat (Inr 1) 1 (StoreManifest toy_applied 7) dht_manager_new)
       = dm_calls dht_manager_new @ [PutRecord (manifest_key ''i'') b]"
    "dm_replies (handle_query_result toy_flat (\<lambda>_. []) 2 (FoundRecord b)
         (handle_operation toy_flat (Inr 2) 2 (GetManifest ''i'' 8) dht_manager_new))
       = dm_replies dht_manager_new @ [(8, ManifestReply (Inr (Some found)))]"
    "am_operation_id found = Some (or_empty (am_operation_id toy_applied))"
    "am_origin_peer found = Some (or_empty (am_origin_peer toy_applied))"
    "am_manifest_kind found = Some (or_empty (am_manifest_kind toy_applied))"
    "am_content_hash found = Some (or_empty (am_content_hash toy_applied))"
    "operation_variant_name (am_operation found) = Some ''APPLY''" by blast
  moreover have "or_empty (am_operation_id toy_applied) = ''op''" "or_empty (am_origin_peer toy_applied) = ''p''"
    "or_empty (am_manifest_kind toy_applied) = ''Pod''" "or_empty (am_content_hash toy_applied) = ''h''"
    by (simp_all add: toy_applied_def build_applied_manifest_def)
  moreover have "operation_variant_name (am_operation toy_applied) = Some ''DELETE''"
    by (simp add: toy_applied_def operation_variant_name_def operation_types_def)
  ultimately show ?thesis by (intro exI [of _ b] exI [of _ found]) (simp add: dht_manager_new_def)
qed

theorem dht_answers_conserved_witness:
  "\<exists>d. dht_run toy_flat [Operation (GetManifest ''i'' 8), QueryResult 2 FinishedWithNoAdditionalRecord,
      QueryResult 2 FinishedWithNoAdditionalRecord] d
     \<and> answered 8 d = 1"
proof -
  let ?d1 = "handle_operation toy_flat (Inr 2) 2 (GetManifest ''i'' 8) dht_manager_new"
  let ?r = "handle_query_result toy_flat (\<lambda>_. []) 2 FinishedWithNoAdditionalRecord"
  have "dht_step toy_flat (Operation (GetManifest ''i'' 8)) dht_manager_new ?d1"
    by (rule step_operation) (simp_all add: dht_manager_new_def)
  moreover have "dht_step toy_flat (QueryResult 2 FinishedWithNoAdditionalRecord) d (?r d)" for d by (rule step_result)
  ultimately have "dht_run toy_flat ((([] @ [Operation (GetManifest ''i'' 8)]) @ [QueryResult 2 FinishedWithNoAdditionalRecord])
      @ [QueryResult 2 FinishedWithNoAdditionalRecord]) (?r (?r ?d1))"
    by (intro dht_next [where d = ?d1] dht_next [where d = "?r ?d1"] dht_next [where d = dht_manager_new] dht_start)
  then have run: "dht_run toy_flat [Operation (GetManifest ''i'' 8), QueryResult 2 FinishedWithNoAdditionalRecord,
      QueryResult 2 FinishedWithNoAdditionalRecord] (?r (?r ?d1))" by simp
  moreover have "dm_pending_queries (?r (?r ?d1)) = hm_empty"
    by (simp add: handle_operation_def get_manifest_def handle_query_result_def query_reply_def dht_manager_new_def
        hm_remove_def hm_insert_def hm_empty_def hm_get_def dht_send_def)
  ultimately show ?thesis using dht_answers_conserved [OF run, of 8] by auto
qed

end
