(* ===== verification/Client_Examples.thy ===== *)
theory Client_Examples
  imports Client_To_Node Lifecycle_Examples Cli_Examples
begin

text \<open>
  A concrete run for the property of theory \<open>Client_To_Node\<close>: the client of theory \<open>Cli_Examples\<close> seals a
  manifest for the node of theory \<open>Lifecycle_Examples\<close>.
\<close>

definition toy_node_libs :: manifest_lib where
  "toy_node_libs = toy_yaml \<lparr>
     ml_root_as_envelope := (\<lambda>b. case root_as_envelope toy_flat b of Some e \<Rightarrow> Inr e | None \<Rightarrow> Inl ''parse''),
     ml_kem_private_key := Inr [4],
     ml_kem := toy_kem \<rparr>"

definition toy_sender :: "(disk, nat) cli_env" where
  "toy_sender = (toy_cli JNull 0) \<lparr> cv_crypto := wire_crypto toy_flat toy_lib,
     cv_apply_request := (\<lambda>r. fl_finish toy_flat (apply_request_create toy_flat r)) \<rparr>"

lemma toy_sender_parts:
  "cv_crypto toy_sender = wire_crypto toy_flat toy_lib" "cv_kem toy_sender = toy_kem"
  "cv_apply_request toy_sender = (\<lambda>r. fl_finish toy_flat (apply_request_create toy_flat r))"
  by (simp_all add: toy_sender_def)

lemma toy_sender_libraries: "same_libraries (wire_crypto toy_flat toy_lib) toy_kem [4] toy_node_libs"
  by (auto simp: same_libraries_def toy_node_libs_def wire_crypto_def toy_lib_def toy_yaml_def)

lemma toy_node_modified: "modify_manifest_replicas toy_node_libs (bytes_of_string ''a'') = Inr (bytes_of_string ''b'')"
proof -
  have "from_utf8_lossy (bytes_of_string ''a'') = ''a''" by code_simp
  then show ?thesis by (simp add: modify_manifest_replicas_def toy_node_libs_def toy_yaml_def)
qed

lemma toy_node_annotation:
  "Option.bind (ml_yaml_parse toy_node_libs (from_utf8_lossy (bytes_of_string ''b''))) engine_annotation \<in> {None, Some ''mock''}"
  using toy_annotation by (simp add: toy_node_libs_def toy_plain_def)

text \<open>The bytes of the toy format are not much longer than what they hold.\<close>

lemma length_put_list: "length (put_list b) = 2 * length b + 1"
  by (simp add: put_list_def)

lemma length_put_entry:
  "length (put_entry slot (VStr x) t) = 4 * length x + 2 * slot + 6 + length t"
  "length (put_entry slot (VBytes y) t) = 4 * length y + 2 * slot + 6 + length t"
  "length (put_entry slot (VU32 u) t) \<le> 2 * slot + 30 + length t"
  "length (put_entry slot (VU64 v) t) \<le> 2 * slot + 50 + length t"
  by (simp_all add: put_entry_def put_value_def length_put_list bytes_of_string_def)

lemma length_add_str:
  "length (add_field toy_flat slot VStr x t) \<le> 4 * length (or_empty x) + 2 * slot + 6 + length t"
  "length (add_field toy_flat slot VBytes y t) \<le> 4 * length (or_empty y) + 2 * slot + 6 + length t"
  by (simp_all add: add_field_def toy_flat_def length_put_entry split: option.split)

lemma length_push:
  "length (fl_push_slot toy_flat slot (VU32 u) u0 t) \<le> 2 * slot + 30 + length t"
  "length (fl_push_slot toy_flat slot (VU64 v) v0 t) \<le> 2 * slot + 50 + length t"
  using length_put_entry(3,4) by (simp_all add: toy_flat_def)

lemma toy_start_finish [simp]: "fl_start_table toy_flat = []" "fl_finish toy_flat t = t"
  by (simp_all add: toy_flat_def)

lemma length_envelope:
  "length (envelope_create toy_flat e) \<le> 500 + 4 * (length (or_empty (fe_payload e)) + length (or_empty (fe_payload_type e))
     + length (or_empty (fe_nonce e)) + length (or_empty (fe_alg e)) + length (or_empty (fe_sig e)) + length (or_empty (fe_pubkey e))
     + length (or_empty (fe_kem_pubkey e)) + length (or_empty (fe_peer_id e)))"
  unfolding envelope_create_def Let_def
  by (intro order_trans [OF length_add_str(1)] order_trans [OF length_add_str(2)] order_trans [OF length_push(2)] order_refl
      | simp)+

lemma length_apply_request:
  "length (apply_request_create toy_flat r) \<le> 200 + 4 * (length (or_empty (ap_operation_id r)) + length (or_empty (ap_manifest_json r))
     + length (or_empty (ap_origin_peer r)) + length (or_empty (ap_manifest_id r)))"
  unfolding apply_request_create_def Let_def
  by (intro order_trans [OF length_add_str(1)] order_trans [OF length_push(1)] order_refl | simp)+

lemma toy_blob:
  "\<exists>blob. encrypt_payload_for_recipient toy_kem r (replicate 12 5) pk (bytes_of_string ''a'') = Inr blob \<and> length blob \<le> 100"
  by (simp add: encrypt_payload_for_recipient_def encapsulate_to_pubkey_def toy_kem_def blob_layout_def bytes_of_string_def)

lemma toy_request_short:
  assumes "node_request toy_sender toy_draw 7 ''m'' ''a'' (b64_encode (wire_crypto toy_flat toy_lib) [3]) = Inr request"
  shows "length (cv_apply_request toy_sender request) + 16 < 2 ^ 32"
proof -
  obtain blob where blob: "encrypt_payload_for_recipient toy_kem [] (replicate 12 5) [3] (bytes_of_string ''a'') = Inr blob"
      "length blob \<le> 100" using toy_blob by blast
  define e where "e = \<lparr> fe_payload = Some blob, fe_payload_type = Some ''manifest'', fe_nonce = Some [], fe_ts = 7,
      fe_alg = Some ''ml-kem-512'', fe_sig = Some [], fe_pubkey = Some [], fe_kem_pubkey = Some [], fe_peer_id = Some [] \<rparr>"
  have d: "dw_manifest_randomness toy_draw = []" "dw_manifest_aes_nonce toy_draw = replicate 12 5" "dw_uuid toy_draw = ''u''"
    by (simp_all add: toy_draw_def)
  have "b64_decode (wire_crypto toy_flat toy_lib) (b64_encode (wire_crypto toy_flat toy_lib) [3]) = Some [3]"
    using toy_wire_crypto(1) unfolding crypto_laws_def by blast
  then have request: "request = build_apply_request 1 ''u'' (string_of_bytes (envelope_create toy_flat e)) [] ''m''"
    using assms by (simp add: node_request_def toy_sender_parts d blob(1) Let_def build_envelope_canonical_with_peer_def e_def
        wire_crypto_def toy_lib_def)
  have "length (envelope_create toy_flat e) \<le> 2000"
    using length_envelope [of e] blob(2) by (simp add: e_def)
  then have "length (apply_request_create toy_flat request) \<le> 10000"
    using length_apply_request [of request] by (simp add: request build_apply_request_def string_of_bytes_def)
  then show ?thesis by (simp add: toy_sender_parts)
qed

theorem client_manifest_deployed_witness:
  "\<exists>request call st' md ctl req.
      node_request toy_sender toy_draw 7 ''m'' ''a'' (b64_encode (wire_crypto toy_flat toy_lib) [3]) = Inr request
    \<and> deployment_call toy_sender (toy_client (Some [1])) 7 ''m'' ''a'' toy_draw (''B'', b64_encode (wire_crypto toy_flat toy_lib) [3]) call
    \<and> envelope_middleware (wire_crypto toy_flat toy_lib) toy_kem 0 toy_handler
        \<lparr> rq_content_type = hc_content_type call, rq_body = Some (hc_body call) \<rparr> hm_empty
      = (st', Forwarded md (Some (cv_apply_request toy_sender request))) \<and> em_signing_pubkey md = [1]
    \<and> apply_direct_control (\<lambda>_. Inr ''peerB'') ''B'' (cv_apply_request toy_sender request) 4 = Some ctl
    \<and> mn_calls (handle_control_message (wire_mesh toy_flat (toy_wired toy_node_libs)) toy_ops toy_asking ctl toy_bidder)
      = mn_calls toy_bidder @ [SendRequest ApplyRr ''peerB'' req]
    \<and> runs_for (mock_deploy_workload_with_peer (\<lambda>_. None) True 0 ''m'' (bytes_of_string ''b'')
          (create_deployment_config request) ''peerB'') ''m'' [7] ''peerA'' (toy_bid_state toy_node_libs) (handle_event (wire_mesh toy_flat (toy_wired toy_node_libs)) toy_ops
        (\<lambda>_. toy_net 2 20) (toy_net 2 20) (ApplyMessage ''peerA'' (Request req)) (toy_bid_state toy_node_libs))"
proof -
  let ?X = "toy_wired toy_node_libs" and ?C = "wire_crypto toy_flat toy_lib"
  obtain rep where rep: "mn_calls (toy_bid_state toy_node_libs) = mn_calls toy_bidder @ [RespondCapacity ''peerA'' rep]"
      "extract_manifest_id_from_request_id (cp_request_id (rp_params rep)) = Some ''m''"
    and state: "store_ok (nonces (mn_node (toy_bid_state toy_node_libs)))"
      "nonce_seen_at (nonces (mn_node (toy_bid_state toy_node_libs))) ''peerA'' (''apply_'' @ to_decimal (unat (nv_random toy_asking 0))) = None"
      "runtime_registry_of (mn_node (toy_bid_state toy_node_libs)) = Some toy_registry"
      "provider_manager_of (mn_node (toy_bid_state toy_node_libs)) = Some provider_manager_new_default"
    using toy_bid_parts by blast
  note X = toy_wired_parts [of toy_node_libs]
  have laws: "crypto_laws (nl_crypto (xl_node ?X))" "aes_laws (cv_kem toy_sender)" "cv_crypto toy_sender = nl_crypto (xl_node (wire_mesh toy_flat ?X))"
    "dsa_keypair (nl_crypto (xl_node ?X)) [1] (fc_private_key (toy_client (Some [1])))"
    "fc_public_key (toy_client (Some [1])) = b64_encode (cv_crypto toy_sender) [1]"
    "fc_machine_public_key (toy_client (Some [1])) = Some [1]" "kem_pair (cv_kem toy_sender) [1] (eh_kem_private_key toy_handler)"
    "length (dw_aes_nonce toy_draw) = NONCE_BYTES" "length (dw_manifest_aes_nonce toy_draw) = NONCE_BYTES"
    "dsa_keypair (nl_crypto (xl_node ?X)) [7] [7]" "kem_pair (cv_kem toy_sender) [3] [4]"
    using toy_laws(1,2) toy_kem_laws
    by (simp_all add: X toy_sender_parts toy_client_def toy_draw_def NONCE_BYTES_def del: toy_lib_simps)
      (simp add: wire_crypto_def toy_lib_def)
  have str: "valid_string ''a''" "length ''a'' + 16 < 2 ^ 32" by code_simp simp
  have key: "nv_keypair toy_asking = Inr ([7], [7])" "([7] :: bytes) \<noteq> []" "''peerB'' \<noteq> nv_local_peer toy_asking" by simp_all
  have libs: "same_libraries (cv_crypto toy_sender) (cv_kem toy_sender) [4] (nl_manifest (xl_node ?X))"
    "modify_manifest_replicas (nl_manifest (xl_node ?X)) (bytes_of_string ''a'') = Inr (bytes_of_string ''b'')"
    "Option.bind (ml_yaml_parse (nl_manifest (xl_node ?X)) (from_utf8_lossy (bytes_of_string ''b''))) engine_annotation
       \<in> {None, Some ''mock''}"
    using toy_sender_libraries toy_node_modified toy_node_annotation by (simp_all add: toy_sender_parts X)
  from client_manifest_deployed [where F = toy_flat and X = ?X and V = toy_sender and c = "toy_client (Some [1])" and cpk = "[1]"
      and mpk = "[1]" and h = toy_handler and d = toy_draw and str = "''a''" and st = hm_empty and nid = "''B''"
      and parse_peer = "\<lambda>_. Inr ''peerB''" and EA = toy_asking and pk = "[7]" and sk = "[7]" and peerB = "''peerB''"
      and npk = "[3]" and nsk = "[4]" and VA = toy_ops and sA = toy_bidder and tx = 4 and ts = 7 and now = 0
      and pj = "\<lambda>_. None" and y = "\<lambda>_. True" and fmt = "\<lambda>_. []" and now' = 0 and clock = "\<lambda>_. 0"
      and ?Es2.0 = "\<lambda>_. toy_net 2 20", folded toy_ops_def,
      OF toy_flat_laws laws(1-3) toy_sender_parts(3) laws(4-9) str toy_nonce_fresh refl key(1) laws(10) key(2,3)
      laws(11) libs(1) toy_bid_state_def [symmetric, of toy_node_libs] rep toy_ledger_wf mesh_start toy_times(3,1) state(1-3)
      toy_registry_engines toy_engine_ok state(4) toy_times(2) libs(2,3), unfolded toy_sender_parts(1,2) toy_net_peer]
  obtain request where "node_request toy_sender toy_draw 7 ''m'' ''a'' (b64_encode ?C [3]) = Inr request" and
    sent: "length (cv_apply_request toy_sender request) + 16 < 2 ^ 32 \<longrightarrow> (\<exists>call st' md ctl req.
        deployment_call toy_sender (toy_client (Some [1])) 7 ''m'' ''a'' toy_draw (''B'', b64_encode ?C [3]) call
      \<and> envelope_middleware ?C toy_kem 0 toy_handler \<lparr> rq_content_type = hc_content_type call, rq_body = Some (hc_body call) \<rparr> hm_empty
        = (st', Forwarded md (Some (cv_apply_request toy_sender request))) \<and> em_signing_pubkey md = [1]
      \<and> apply_direct_control (\<lambda>_. Inr ''peerB'') ''B'' (cv_apply_request toy_sender request) 4 = Some ctl
      \<and> mn_calls (handle_control_message (wire_mesh toy_flat ?X) toy_ops toy_asking ctl toy_bidder)
        = mn_calls toy_bidder @ [SendRequest ApplyRr ''peerB'' req]
      \<and> runs_for (mock_deploy_workload_with_peer (\<lambda>_. None) True 0 ''m'' (bytes_of_string ''b'')
          (create_deployment_config request) ''peerB'') ''m'' [7] ''peerA'' (toy_bid_state toy_node_libs) (handle_event (wire_mesh toy_flat ?X) toy_ops
        (\<lambda>_. toy_net 2 20) (toy_net 2 20) (ApplyMessage ''peerA'' (Request req)) (toy_bid_state toy_node_libs)))"
    by blast
  with toy_request_short show ?thesis by blast
qed

end
