(* ===== verification/Spec2Isabelle.thy ===== *)
theory Spec2Isabelle
  imports Resource_Verifier Mock_Engine Scheduler Envelope_Examples Announcements_Examples Discovery
    Node_Examples Accounting Capacity_Examples Workload_Manager Container_Engines Keypairs Rest_Examples Network_Examples
    Cli_Examples Start_Examples Envelope_Validator Client_Examples
begin

text \<open>
  Verification of the machine plane of beemesh (\<open>src/machineplane\<close>): the host agent \<open>machine\<close>, the
  crates \<open>crypto\<close>, \<open>protocol\<close> and \<open>scheduler\<close>, and the command line client \<open>cli\<close>.

  \<^bold>\<open>The program.\<close> A machine runs three things side by side: the network task, a loop over libp2p
  events, timers and control messages; the REST API; and the tasks that the loop spawns for delete
  requests. They share globals: the registry of container engines, the provider manager, the
  resource verifier, the table of manifest owners and the store of nonces. A client seals a manifest in a
  signed envelope, asks a machine for candidates, lets the scheduler choose and sends the manifest
  to the chosen machines over the REST API. A machine asks its peers for capacity; a peer that has
  it reserves it for a short time and bids, and deploys when the signed apply request arrives. The
  manifest is then announced in the hash table under the peer that runs it. A delete request is carried out for the
  key that is recorded as the owner.

  \<^bold>\<open>Conventions.\<close> One theory per component; a definition has the name of the function it
  translates. Stateful code is state passing: an operation returns the new record of its component
  and its result. Errors are the left side of a sum, a panic is \<^const>\<open>None\<close> or a constructor of
  its own. Integers have the width of the source; plain arithmetic takes the build profile, as
  overflow panics in one and wraps in the other. A hash map is a list of pairs with distinct keys in
  any order. Every reading of the clock and every random value is an argument. All
  functions are total by structural recursion or by a \<open>fold\<close>, so that no fuel is needed: a loop
  that runs forever in the source is one definition per iteration, with a step relation over it.

  \<^bold>\<open>Steps of a run.\<close> \<open>mesh_step\<close> interleaves the iterations of the network task, the tasks it spawned for
  deletions (a step for the check of the owner and one for the removal), the requests to the REST API that
  verify an envelope or delete, and the messages it enqueues. An apply request is one step
  (\<open>LoopEvent\<close>), or is taken in up to three (\<open>ApplyBegun\<close>, then \<open>ApplyContinued\<close> twice) between which
  the other tasks run, as \<open>process_manifest_deployment\<close> waits there; \<open>apply_uninterrupted\<close> says that the
  two agree if nothing comes between. A panic ends the network task: \<open>mn_running\<close> becomes false, no later step
  is one of its own, and the rest of the process goes on. Coarser than the source are: an apply request of the
  node to itself, which is one step; \<open>handle_provider_found\<close>, whose two critical sections are one; and the start
  of the process, which is complete before the first event, though the network task is spawned before the workload manager is
  made.

  \<^bold>\<open>Code that is not in the repository\<close> is an argument, with what the program relies on as named
  hypotheses, each satisfied by a concrete instance in the theories of examples:
  \<^item> the FlatBuffers library: \<open>flat_lib\<close> with \<open>flat_laws\<close> (slots that were pushed can be read, absent
    ones read as the default, and a finished buffer that verifies holds the same slots) and
    \<open>flat_absent\<close> (a slot that was not written stays absent);
  \<^item> serialisation, base64 and ML-DSA: \<open>crypto_lib\<close> with \<open>crypto_laws\<close> (what is finished or encoded
    reads back), \<open>dsa_keypair\<close> (a signature verifies under the key of its pair), \<open>dsa_binding\<close> (a
    signature verifies for one message only) and \<open>dsa_owned\<close> (under one key only);
  \<^item> ML-KEM and AES-GCM: \<open>kem_lib\<close> with \<open>kem_pair\<close> and \<open>aes_laws\<close>;
  \<^item> the file system: \<open>key_env\<close>, the locale \<open>key_files\<close> and its instance \<open>disk_env\<close>; child processes
    and temporary files: \<open>host\<close> and the locale \<open>watched_host\<close>;
  \<^item> libp2p: \<open>net_env\<close> holds what it answers, and what is asked of it is a log of calls;
  \<^item> the container engines behind the trait \<open>RuntimeEngine\<close>: \<open>engine_ops\<close>, with the locales
    \<open>runtime_engine\<close> and \<open>engine_table\<close>, which the mock engine provides;
  \<^item> for the client, the server is any function from requests to replies.
\<close>

text \<open>
  \<^bold>\<open>The theories, and what they show.\<close>
  \<^item> \<open>Prelude\<close>: integers, hash maps (locale \<open>map_contract\<close>), texts and byte strings.
  \<^item> \<open>Resource_Verifier\<close> (\<open>resource_verifier.rs\<close>): reading of the host, admission and reservation.
    A reservation is admitted exactly if it fits; the ledger is never overdrawn by one caller, and
    is by two that interleave between the two critical sections; a reservation lives until its
    time. \<open>Accounting\<close>: what the verifier learns from a running engine.
  \<^item> \<open>Runtime\<close>, \<open>Mock_Engine\<close>, \<open>Command_Host\<close>, \<open>Podman_Engine\<close>, \<open>Docker_Engine\<close>, \<open>Container_Engines\<close>
    (\<open>runtime/\<close>): the trait, the registry and the engines. The mock engine meets the contract of the trait;
    the podman engine runs no local command when it is configured for a socket; a deployment with a peer is
    the default of the trait, up to a panic on a path that is no text.
  \<^item> \<open>Scheduler\<close> (\<open>scheduler/src/lib.rs\<close>): the four strategies. A plan has distinct available
    candidates and the number asked for; when a plan exists, and when each strategy finds one.
  \<^item> \<open>Nonce_Store\<close>, \<open>Envelope\<close>, \<open>Recipient_Blob\<close>, \<open>Keypairs\<close>, \<open>Messages\<close>, \<open>Envelope_Validator\<close>
    (\<open>crypto/\<close>, \<open>protocol/src/lib.rs\<close>, \<open>libp2p_beemesh/envelope.rs\<close>): signing and verification are inverse,
    a verified envelope was not tampered with, no envelope is accepted twice within the window
    (locale \<open>replay_guard\<close>), blobs decrypt, and the bytes on which decryption panics.
  \<^item> \<open>Provider_Manager\<close>, \<open>Announcements\<close>, \<open>Discovery\<close> (\<open>provider/\<close>): bounded lists and queries under every
    interleaving, the byte format of announcements with its parser.
  \<^item> \<open>Workload_Integration\<close>, \<open>Node_Ownership\<close>, \<open>Workload_Manager\<close> (\<open>workload_integration.rs\<close>,
    \<open>delete_message.rs\<close>, \<open>workload_manager.rs\<close>): deployment, removal and ownership. A deployment needs a
    reservation, an authorised deletion removes exactly the workloads of its manifest, and the
    workload manager refines a map from workload ids to manifests (locale \<open>deployment_table\<close>).
  \<^item> \<open>Capacity\<close>, \<open>Network_Control\<close>, \<open>Announce_Lookup\<close>, \<open>Handshake\<close>, \<open>Event_Loop\<close>
    (\<open>libp2p_beemesh/\<close>): every handler of the network task and its loop. Bids, announcements, lookups
    and handshakes do what they promise; \<open>mesh_step\<close> is the step relation of the whole node.
  \<^item> \<open>Node_Runs\<close>, \<open>Node_Tables\<close>: by rule induction over \<open>mesh_run\<close>, invariants of any interleaving:
    confirmed peers signed, the ledger is not overdrawn, replays fail across protocols, owner
    records are protected, no handshake is started, and all tables are maps; and the malformed manifest
    that stops the network task.
  \<^item> \<open>Rest_Api\<close>, \<open>Rest_Security\<close> (\<open>restapi/\<close>): the middleware and the handlers; who reaches a handler
    with which identity, and the requests that make one panic.
  \<^item> \<open>Cli_Client\<close>, \<open>Cli_Runs\<close> (\<open>cli/src\<close>): which requests a command sends against any server, and
    that a sealed manifest arrives at the node it is meant for.
  \<^item> \<open>Wire_Tables\<close>, \<open>Wire_Messages\<close>, \<open>Wire_Laws\<close> (\<open>protocol/src/generated/\<close>): the tables of every message,
    their writers, verifiers and accessors. What a builder writes is what a reader finds, no two
    fields of a table share a slot, and the laws of serialisation that \<open>crypto_laws\<close> and
    \<open>handshake_laws\<close> name follow from \<open>flat_laws\<close>.
  \<^item> \<open>Dht_Manager\<close> (\<open>libp2p_beemesh/dht_manager.rs\<close>): the store of applied manifests in the hash table, as
    bytes. Every operation gets one answer, and what a stored manifest is found as.
  \<^item> \<open>Workload_Lifecycle\<close>: two nodes and the bytes between them. A bid is kept through any run of events
    until it expires, the apply request that follows it is deployed, and a delete request sent the
    same way is refused, as it carries no signature.
  \<^item> \<open>Client_To_Node\<close>: the whole way of a manifest, from the client over the REST API and the network task of
    one node to the mock engine of another. The node decrypts the text that the client read and
    deploys it with one replica; it records the forwarding node as the owner, not the client.
  \<^item> \<open>Startup\<close>, \<open>Started_Machine\<close> (\<open>machine/src/lib.rs\<close>): the start of a machine with its error paths;
    the keys it publishes and signs with, restarts, and the guarantees of \<open>Node_Runs\<close> from the start
    of the process on.
  \<^item> \<open>Toy_Codec\<close> and the theories \<open>..._Examples\<close>: concrete libraries and runs, on which each property
    with a hypothesis is applied.

  \<^bold>\<open>Not modelled.\<close> The configuration of libp2p inside the \<open>SwarmBuilder\<close>, which only calls
  libraries outside the repository; the size-prefixed and unchecked variants of the generated
  code, which nothing calls; log output (and with it a slice in a message of \<open>get_candidates\<close>, which
  panics on the text of a peer of less than 16 bytes if that message is enabled); the parsing of the
  command line in the two \<open>main.rs\<close>; the background loops of the discovery and workload managers that only log; the empty host API; tests; and the
  separate Go system \<open>workplane\<close>. Texts are bytes, and white space is ASCII white space.
\<close>

end
